(* ===== verification/Prelude.thy ===== *)
theory Prelude
  imports
    "HOL-Library.Word"
    "HOL-Library.Char_ord"
    "HOL-Library.List_Lexorder"
    "HOL-Library.Product_Lexorder"
begin

text \<open>
  Shared vocabulary of the development: the error values of the Go code, programs
  with state, errors and early return, their Hoare triples, and the relational
  operations (\<open>SELECT\<close>, \<open>UPDATE\<close>, \<open>INSERT\<close>) on tables that
  the repository layer is written with.
\<close>

section \<open>Names of the model\<close>

type_synonym byte = "8 word"
type_synonym bytes = "byte list"
type_synonym uuid = string
type_synonym time = int \<comment> \<open>an instant, nanoseconds since the Unix epoch\<close>
type_synonym duration = int \<comment> \<open>\<open>time.Duration\<close>, nanoseconds\<close>

text \<open>
  The error values the code distinguishes: \<open>apiError\<close> (a status, a code and a
  detail), the sentinel errors of the packages \<open>domain\<close> and \<open>executor\<close>,
  a PostgreSQL error by its SQLSTATE, a network error by its \<open>Timeout\<close> and
  \<open>Temporary\<close> answers, \<open>pgx.ErrNoRows\<close>, and every other error by its text.
  Wrapping with \<open>fmt.Errorf\<close> and the verb \<open>w\<close> is transparent for
  \<open>errors.Is\<close> and \<open>errors.As\<close>, so it is not represented.
\<close>

datatype go_error =
    Problem nat string string
  | ErrNotFound
  | ErrIdempotencyConflict
  | ErrBatchNotCancellable
  | ErrBatchNotRetryable
  | ErrRetryable
  | ErrStale
  | ErrNoRows
  | PgError string
  | NetError bool bool
  | PlainError string

type_synonym 'a result = "go_error + 'a"

named_theorems prog_simps "equations of the program combinators"
named_theorems wp_intros "rules of the Hoare triples"
named_theorems table_simps "equations of the relational operations"

section \<open>Programs\<close>

text \<open>
  A program reads and writes a state and returns an error or a value; the state is
  returned on both exits, so that what an error leaves behind is part of the model.
\<close>

type_synonym ('s, 'a) prog = "'s \<Rightarrow> 'a result \<times> 's"

definition ret :: "'a \<Rightarrow> ('s, 'a) prog" where
  "ret x = (\<lambda>s. (Inr x, s))"

definition throw :: "go_error \<Rightarrow> ('s, 'a) prog" where
  "throw e = (\<lambda>s. (Inl e, s))"

definition andThen :: "('s, 'a) prog \<Rightarrow> ('a \<Rightarrow> ('s, 'b) prog) \<Rightarrow> ('s, 'b) prog" where
  "andThen m f = (\<lambda>s. case m s of (Inl e, s') \<Rightarrow> (Inl e, s') | (Inr x, s') \<Rightarrow> f x s')"

text \<open>\<open>onError m h\<close> rewrites the error of \<open>m\<close>, as an \<open>errors.Is\<close> test right after a call does.\<close>

definition onError :: "('s, 'a) prog \<Rightarrow> (go_error \<Rightarrow> go_error) \<Rightarrow> ('s, 'a) prog" where
  "onError m h = (\<lambda>s. case m s of (Inl e, s') \<Rightarrow> (Inl (h e), s') | (Inr x, s') \<Rightarrow> (Inr x, s'))"

text \<open>\<open>deferred m c\<close> is \<open>defer c()\<close>: the clean-up runs on both exits.\<close>

definition deferred :: "('s, 'a) prog \<Rightarrow> ('s \<Rightarrow> 's) \<Rightarrow> ('s, 'a) prog" where
  "deferred m c = (\<lambda>s. case m s of (r, s') \<Rightarrow> (r, c s'))"

text \<open>\<open>compensated m c\<close> is a deferred clean-up guarded by \<open>if !committed\<close>.\<close>

definition compensated :: "('s, 'a) prog \<Rightarrow> ('s \<Rightarrow> 's) \<Rightarrow> ('s, 'a) prog" where
  "compensated m c = (\<lambda>s. case m s of (Inl e, s') \<Rightarrow> (Inl e, c s') | (Inr x, s') \<Rightarrow> (Inr x, s'))"

definition liftResult :: "'a result \<Rightarrow> ('s, 'a) prog" where
  "liftResult r = (\<lambda>s. (r, s))"

lemma ret_run [prog_simps]: "ret x s = (Inr x, s)"
  by (simp add: ret_def)

lemma throw_run [prog_simps]: "throw e s = (Inl e, s)"
  by (simp add: throw_def)

lemma liftResult_run [prog_simps]: "liftResult r s = (r, s)"
  by (simp add: liftResult_def)

lemma andThen_Inr [prog_simps]: "m s = (Inr x, s') \<Longrightarrow> andThen m f s = f x s'"
  by (simp add: andThen_def)

lemma andThen_Inl [prog_simps]: "m s = (Inl e, s') \<Longrightarrow> andThen m f s = (Inl e, s')"
  by (simp add: andThen_def)

lemma andThen_InrE:
  assumes "andThen m f s = (Inr y, t)"
  obtains x s' where "m s = (Inr x, s')" and "f x s' = (Inr y, t)"
  using assms by (auto simp: andThen_def split: prod.splits sum.splits)

lemma andThen_InlE:
  assumes "andThen m f s = (Inl e, t)"
  obtains (first) "m s = (Inl e, t)"
    | (second) x s' where "m s = (Inr x, s')" and "f x s' = (Inl e, t)"
  using assms by (auto simp: andThen_def split: prod.splits sum.splits)

lemma onError_Inr: "onError m h s = (Inr x, s') \<longleftrightarrow> m s = (Inr x, s')"
  by (auto simp: onError_def split: prod.splits sum.splits)

lemma compensated_Inr: "compensated m c s = (Inr x, s') \<longleftrightarrow> m s = (Inr x, s')"
  by (auto simp: compensated_def split: prod.splits sum.splits)

section \<open>Hoare triples with two exits\<close>

text \<open>
  \<open>triple P m Q E\<close>: from a state with \<open>P\<close>, a normal exit of \<open>m\<close>
  satisfies \<open>Q\<close> (of the value and the state) and an error exit satisfies \<open>E\<close>.
  Programs are total functions, so this is total correctness.
\<close>

definition triple ::
  "('s \<Rightarrow> bool) \<Rightarrow> ('s, 'a) prog \<Rightarrow> ('a \<Rightarrow> 's \<Rightarrow> bool) \<Rightarrow> (go_error \<Rightarrow> 's \<Rightarrow> bool) \<Rightarrow> bool"
  where
  "triple P m Q E \<longleftrightarrow>
     (\<forall>s. P s \<longrightarrow> (case m s of (Inl e, s') \<Rightarrow> E e s' | (Inr x, s') \<Rightarrow> Q x s'))"

lemma tripleI:
  assumes "\<And>s x s'. P s \<Longrightarrow> m s = (Inr x, s') \<Longrightarrow> Q x s'"
    and "\<And>s e s'. P s \<Longrightarrow> m s = (Inl e, s') \<Longrightarrow> E e s'"
  shows "triple P m Q E"
  using assms by (auto simp: triple_def split: prod.splits sum.splits)

lemma tripleD_Inr: "triple P m Q E \<Longrightarrow> P s \<Longrightarrow> m s = (Inr x, s') \<Longrightarrow> Q x s'"
  by (auto simp: triple_def split: prod.splits sum.splits)

lemma tripleD_Inl: "triple P m Q E \<Longrightarrow> P s \<Longrightarrow> m s = (Inl e, s') \<Longrightarrow> E e s'"
  by (auto simp: triple_def split: prod.splits sum.splits)

lemma triple_conseq:
  assumes "triple P' m Q' E'"
    and "\<And>s. P s \<Longrightarrow> P' s" and "\<And>x s. Q' x s \<Longrightarrow> Q x s" and "\<And>e s. E' e s \<Longrightarrow> E e s"
  shows "triple P m Q E"
proof (rule tripleI)
  fix s x s' assume "P s" "m s = (Inr x, s')"
  then show "Q x s'" using assms(2,3) tripleD_Inr [OF assms(1)] by blast
next
  fix s e s' assume "P s" "m s = (Inl e, s')"
  then show "E e s'" using assms(2,4) tripleD_Inl [OF assms(1)] by blast
qed

lemma triple_ret [wp_intros]: "(\<And>s. P s \<Longrightarrow> Q x s) \<Longrightarrow> triple P (ret x) Q E"
  by (simp add: triple_def ret_def)

lemma triple_throw [wp_intros]: "(\<And>s. P s \<Longrightarrow> E e s) \<Longrightarrow> triple P (throw e) Q E"
  by (simp add: triple_def throw_def)

lemma triple_liftResult [wp_intros]:
  "(\<And>s x. P s \<Longrightarrow> r = Inr x \<Longrightarrow> Q x s) \<Longrightarrow> (\<And>s e. P s \<Longrightarrow> r = Inl e \<Longrightarrow> E e s) \<Longrightarrow>
   triple P (liftResult r) Q E"
  by (auto simp: triple_def liftResult_def split: sum.splits)

lemma triple_andThen:
  assumes "triple P m Q E" and "\<And>x. triple (Q x) (f x) R E"
  shows "triple P (andThen m f) R E"
  using assms by (fastforce simp: triple_def andThen_def split: prod.splits sum.splits)

lemma triple_onError:
  assumes "triple P m Q (\<lambda>e. E (h e))"
  shows "triple P (onError m h) Q E"
  using assms by (fastforce simp: triple_def onError_def split: prod.splits sum.splits)

lemma triple_if [wp_intros]:
  "(b \<Longrightarrow> triple P m Q E) \<Longrightarrow> (\<not> b \<Longrightarrow> triple P m' Q E) \<Longrightarrow>
   triple P (if b then m else m') Q E"
  by simp

lemma triple_option [wp_intros]:
  "(x = None \<Longrightarrow> triple P m Q E) \<Longrightarrow> (\<And>y. x = Some y \<Longrightarrow> triple P (f y) Q E) \<Longrightarrow>
   triple P (case x of None \<Rightarrow> m | Some y \<Rightarrow> f y) Q E"
  by (cases x) simp_all

lemma triple_deferred:
  assumes "triple P m (\<lambda>x s. Q x (c s)) (\<lambda>e s. E e (c s))"
  shows "triple P (deferred m c) Q E"
  using assms by (auto simp: triple_def deferred_def split: prod.splits sum.splits)

lemma triple_compensated:
  assumes "triple P m Q (\<lambda>e s. E e (c s))"
  shows "triple P (compensated m c) Q E"
  using assms by (auto simp: triple_def compensated_def split: prod.splits sum.splits)

section \<open>Relational operations\<close>

text \<open>
  A table is the list of its rows in insertion order. \<open>UPDATE t SET f WHERE P\<close> is
  \<open>update_where\<close>, its number of affected rows is \<open>affected\<close>, a query for one row
  is \<open>query_row\<close> (\<open>None\<close> is \<open>pgx.ErrNoRows\<close>), \<open>ORDER BY k DESC\<close> is \<open>order_desc\<close>.
\<close>

definition update_where :: "('r \<Rightarrow> bool) \<Rightarrow> ('r \<Rightarrow> 'r) \<Rightarrow> 'r list \<Rightarrow> 'r list" where
  "update_where P f rows = map (\<lambda>r. if P r then f r else r) rows"

definition affected :: "('r \<Rightarrow> bool) \<Rightarrow> 'r list \<Rightarrow> nat" where
  "affected P rows = length (filter P rows)"

definition exists_row :: "('r \<Rightarrow> bool) \<Rightarrow> 'r list \<Rightarrow> bool" where
  "exists_row P rows = list_ex P rows"

definition query_row :: "('r \<Rightarrow> bool) \<Rightarrow> 'r list \<Rightarrow> 'r option" where
  "query_row P rows = List.find P rows"

definition order_asc :: "('r \<Rightarrow> 'k::linorder) \<Rightarrow> 'r list \<Rightarrow> 'r list" where
  "order_asc k rows = sort_key k rows"

definition order_desc :: "('r \<Rightarrow> 'k::linorder) \<Rightarrow> 'r list \<Rightarrow> 'r list" where
  "order_desc k rows = rev (sort_key k rows)"

lemma exists_row_iff [table_simps]: "exists_row P rows \<longleftrightarrow> (\<exists>r \<in> set rows. P r)"
  by (simp add: exists_row_def list_ex_iff)

lemma query_row_Some: "query_row P rows = Some r \<Longrightarrow> r \<in> set rows \<and> P r"
  by (auto simp: query_row_def find_Some_iff)

lemma query_row_None [table_simps]: "query_row P rows = None \<longleftrightarrow> (\<forall>r \<in> set rows. \<not> P r)"
  by (auto simp: query_row_def find_None_iff)

lemma set_update_where [table_simps]:
  "set (update_where P f rows) = (\<lambda>r. if P r then f r else r) ` set rows"
  by (simp add: update_where_def)

lemma query_row_update_where:
  assumes "query_row P (update_where P f rows) = Some r" and "\<And>x. P x \<Longrightarrow> P (f x)"
  shows "\<exists>x \<in> set rows. P x \<and> r = f x"
  using query_row_Some [OF assms(1)] unfolding set_update_where by (auto split: if_splits)

lemma length_update_where [simp]: "length (update_where P f rows) = length rows"
  by (simp add: update_where_def)

lemma update_where_none: "(\<And>r. r \<in> set rows \<Longrightarrow> \<not> P r) \<Longrightarrow> update_where P f rows = rows"
  by (induction rows) (auto simp: update_where_def)

lemma map_update_where:
  "(\<And>r. g (f r) = g r) \<Longrightarrow> map g (update_where P f rows) = map g rows"
  by (simp add: update_where_def)

lemma filter_update_where:
  "(\<And>r. r \<in> set rows \<Longrightarrow> P r \<Longrightarrow> Q (f r) = Q r) \<Longrightarrow>
   filter Q (update_where P f rows) = update_where P f (filter Q rows)"
  by (induction rows) (auto simp: update_where_def)

lemma query_row_update_same [table_simps]:
  "(\<And>r. P r \<Longrightarrow> P (f r)) \<Longrightarrow> query_row P (update_where P f rows) = map_option f (query_row P rows)"
  unfolding query_row_def update_where_def by (induction rows) auto

lemma query_row_append [table_simps]:
  "query_row P (rows @ [r]) =
     (case query_row P rows of Some r' \<Rightarrow> Some r' | None \<Rightarrow> if P r then Some r else None)"
  unfolding query_row_def by (induction rows) auto

lemma set_order_asc [simp]: "set (order_asc k rows) = set rows"
  by (simp add: order_asc_def)

lemma set_order_desc [simp]: "set (order_desc k rows) = set rows"
  by (simp add: order_desc_def)

lemma length_order_asc [simp]: "length (order_asc k rows) = length rows"
  by (simp add: order_asc_def)

lemma sorted_order_desc: "sorted_wrt (\<lambda>a b. k b \<le> k a) (order_desc k rows)"
proof -
  have "sorted_wrt (\<lambda>a b. k a \<le> k b) (sort_key k rows)"
    using sorted_sort_key [of k rows] by (simp add: sorted_map)
  then show ?thesis by (simp add: order_desc_def sorted_wrt_rev)
qed

subsection \<open>Tables with a key\<close>

text \<open>
  What a primary key buys: a row found by its key is the row, and an update that keeps
  keys commutes with the look-up. Every table of the schema satisfies this interface
  through the projection of its primary key.
\<close>

definition unique_key :: "('r \<Rightarrow> 'k) \<Rightarrow> 'r list \<Rightarrow> bool" where
  "unique_key key rows = distinct (map key rows)"

definition lookup_key :: "('r \<Rightarrow> 'k) \<Rightarrow> 'k \<Rightarrow> 'r list \<Rightarrow> 'r option" where
  "lookup_key key k rows = List.find (\<lambda>r. key r = k) rows"

lemma lookup_key_SomeI:
  "unique_key key rows \<Longrightarrow> r \<in> set rows \<Longrightarrow> lookup_key key (key r) rows = Some r"
  by (induction rows) (auto simp: unique_key_def lookup_key_def)

lemma lookup_key_SomeD: "lookup_key key k rows = Some r \<Longrightarrow> r \<in> set rows \<and> key r = k"
  by (auto simp: lookup_key_def find_Some_iff)

lemma lookup_key_None: "lookup_key key k rows = None \<longleftrightarrow> k \<notin> key ` set rows"
  by (auto simp: lookup_key_def find_None_iff)

lemma lookup_key_eq:
  "unique_key key rows \<Longrightarrow> lookup_key key k rows = Some r \<longleftrightarrow> r \<in> set rows \<and> key r = k"
  using lookup_key_SomeD [of key k rows r] lookup_key_SomeI [of key rows r] by blast

lemma unique_key_inj:
  "unique_key key rows \<Longrightarrow> r \<in> set rows \<Longrightarrow> r' \<in> set rows \<Longrightarrow> key r = key r' \<Longrightarrow> r = r'"
  by (auto simp: unique_key_def distinct_map inj_on_def)

lemma unique_key_append:
  "unique_key key (rows @ [r]) \<longleftrightarrow> unique_key key rows \<and> key r \<notin> key ` set rows"
  by (auto simp: unique_key_def)

lemma unique_key_update_where:
  "(\<And>r. key (f r) = key r) \<Longrightarrow> unique_key key (update_where P f rows) = unique_key key rows"
  by (simp add: unique_key_def map_update_where)

lemma lookup_key_update_where:
  "(\<And>r. key (f r) = key r) \<Longrightarrow>
   lookup_key key k (update_where P f rows) =
     map_option (\<lambda>r. if P r then f r else r) (lookup_key key k rows)"
  by (induction rows) (auto simp: lookup_key_def update_where_def)

lemma lookup_key_append:
  "lookup_key key k (rows @ [r]) =
     (case lookup_key key k rows of Some r' \<Rightarrow> Some r' | None \<Rightarrow> if key r = k then Some r else None)"
  by (induction rows) (auto simp: lookup_key_def)

lemma query_row_unique:
  assumes "unique_key key rows" and "r \<in> set rows" and "P r"
    and "\<And>r'. r' \<in> set rows \<Longrightarrow> P r' \<Longrightarrow> key r' = key r"
  shows "query_row P rows = Some r"
proof (cases "query_row P rows")
  case None
  then show ?thesis using assms(2,3) by (auto simp: query_row_None)
next
  case (Some r')
  then have "r' \<in> set rows" "P r'" by (auto dest: query_row_Some)
  then show ?thesis using assms Some unique_key_inj by metis
qed

lemma affected_unique_le_1:
  assumes "unique_key key rows" and "\<And>r. P r \<Longrightarrow> key r = k"
  shows "affected P rows \<le> 1"
  using assms(1)
proof (induction rows)
  case Nil
  then show ?case by (simp add: affected_def)
next
  case (Cons r rows)
  have IH: "affected P rows \<le> 1" using Cons by (simp add: unique_key_def)
  show ?case
  proof (cases "P r")
    case True
    have "filter P rows = []"
    proof (rule ccontr)
      assume "filter P rows \<noteq> []"
      then obtain r' where "r' \<in> set rows" "P r'" by (auto simp: filter_empty_conv)
      with True assms(2) Cons.prems show False by (force simp: unique_key_def)
    qed
    then show ?thesis by (simp add: affected_def)
  next
    case False
    with IH show ?thesis by (simp add: affected_def)
  qed
qed

lemma affected_pos: "affected P rows \<noteq> 0 \<longleftrightarrow> (\<exists>r \<in> set rows. P r)"
  by (auto simp: affected_def filter_empty_conv)

section \<open>Machines and their reachable states\<close>

text \<open>
  The contract shared by the step relations of the development: an invariant that holds
  at the start and is kept by every step holds in every reachable state.
\<close>

inductive reaches :: "('s \<Rightarrow> bool) \<Rightarrow> ('s \<Rightarrow> 's \<Rightarrow> bool) \<Rightarrow> 's \<Rightarrow> bool"
  for init :: "'s \<Rightarrow> bool" and step :: "'s \<Rightarrow> 's \<Rightarrow> bool" where
  reaches_init: "init s \<Longrightarrow> reaches init step s"
| reaches_step: "reaches init step s \<Longrightarrow> step s t \<Longrightarrow> reaches init step t"

locale machine =
  fixes init :: "'s \<Rightarrow> bool" and step :: "'s \<Rightarrow> 's \<Rightarrow> bool" and inv :: "'s \<Rightarrow> bool"
  assumes inv_init: "init s \<Longrightarrow> inv s"
    and inv_step: "step s t \<Longrightarrow> inv s \<Longrightarrow> inv t"
begin

lemma inv_reachable: "reaches init step s \<Longrightarrow> inv s"
  by (induction rule: reaches.induct) (auto intro: inv_init inv_step)

lemma inv_rtranclp: "step\<^sup>*\<^sup>* s t \<Longrightarrow> inv s \<Longrightarrow> inv t"
  by (induction rule: rtranclp_induct) (auto intro: inv_step)

end

end
