(* ===== verification/Go_Base.thy ===== *)
theory Go_Base
  imports Prelude
begin

unbundle bit_operations_syntax

text \<open>
  The parts of Go's standard library the sources call on strings and bytes:
  \<open>strings.TrimSpace\<close>, \<open>strings.ToLower\<close>, \<open>strings.Split\<close>,
  \<open>encoding/hex\<close>, the verbs \<open>%d\<close> and \<open>%0nd\<close> of \<open>fmt\<close>,
  \<open>big-endian byte strings\<close>. A Go string is a sequence of bytes, so it is a
  \<open>string\<close> (a list of 8-bit characters) here.
\<close>

section \<open>Strings\<close>

text \<open>The UTF-8 encodings of the runes for which \<open>unicode.IsSpace\<close> holds.\<close>

definition space_runes :: "string list" where
  "space_runes =
     [[CHR 0x09], [CHR 0x0A], [CHR 0x0B], [CHR 0x0C], [CHR 0x0D], [CHR 0x20],
      [CHR 0xC2, CHR 0x85], [CHR 0xC2, CHR 0xA0],
      [CHR 0xE1, CHR 0x9A, CHR 0x80],
      [CHR 0xE2, CHR 0x80, CHR 0x80], [CHR 0xE2, CHR 0x80, CHR 0x81],
      [CHR 0xE2, CHR 0x80, CHR 0x82], [CHR 0xE2, CHR 0x80, CHR 0x83],
      [CHR 0xE2, CHR 0x80, CHR 0x84], [CHR 0xE2, CHR 0x80, CHR 0x85],
      [CHR 0xE2, CHR 0x80, CHR 0x86], [CHR 0xE2, CHR 0x80, CHR 0x87],
      [CHR 0xE2, CHR 0x80, CHR 0x88], [CHR 0xE2, CHR 0x80, CHR 0x89],
      [CHR 0xE2, CHR 0x80, CHR 0x8A], [CHR 0xE2, CHR 0x80, CHR 0xA8],
      [CHR 0xE2, CHR 0x80, CHR 0xA9], [CHR 0xE2, CHR 0x80, CHR 0xAF],
      [CHR 0xE2, CHR 0x81, CHR 0x9F], [CHR 0xE3, CHR 0x80, CHR 0x80]]"

definition starts_with :: "'a list \<Rightarrow> 'a list \<Rightarrow> bool" where
  "starts_with q s \<longleftrightarrow> take (length q) s = q"

function strip :: "'a list list \<Rightarrow> 'a list \<Rightarrow> 'a list" where
  "strip runes s =
     (case List.find (\<lambda>q. q \<noteq> [] \<and> starts_with q s) runes of
        None \<Rightarrow> s
      | Some q \<Rightarrow> strip runes (drop (length q) s))"
  by pat_completeness auto
termination
proof (relation "measure (\<lambda>(runes, s). length s)")
  fix runes :: "'a list list" and s q
  assume "List.find (\<lambda>q. q \<noteq> [] \<and> starts_with q s) runes = Some q"
  then have "q \<noteq> []" "take (length q) s = q" by (auto simp: find_Some_iff starts_with_def)
  then have "s \<noteq> []" by auto
  with \<open>q \<noteq> []\<close> show "((runes, drop (length q) s), runes, s) \<in> measure (\<lambda>(runes, s). length s)"
    by simp
qed simp

declare strip.simps [simp del]

definition TrimSpace :: "string \<Rightarrow> string" where
  "TrimSpace s = rev (strip (map rev space_runes) (rev (strip space_runes s)))"

text \<open>
  \<open>ToLower\<close> on the ASCII range. The sources compare \<open>ToLower\<close> with its argument only
  where every byte above 127 is refused right afterwards, so its action there is not needed.
\<close>

definition lower_char :: "char \<Rightarrow> char" where
  "lower_char c = (if CHR ''A'' \<le> c \<and> c \<le> CHR ''Z'' then char_of (of_char c + 32 :: nat) else c)"

definition ToLower :: "string \<Rightarrow> string" where
  "ToLower s = map lower_char s"

fun Split :: "string \<Rightarrow> char \<Rightarrow> string list" where
  "Split [] sep = [[]]"
| "Split (c # s) sep =
     (if c = sep then [] # Split s sep
      else (case Split s sep of p # ps \<Rightarrow> (c # p) # ps | [] \<Rightarrow> [[c]]))"

definition is_digit :: "char \<Rightarrow> bool" where
  "is_digit c \<longleftrightarrow> CHR ''0'' \<le> c \<and> c \<le> CHR ''9''"

section \<open>Hexadecimal and decimal text\<close>

definition hex_digit :: "nat \<Rightarrow> char" where
  "hex_digit n = ''0123456789abcdef'' ! n"

definition hex_of_byte :: "byte \<Rightarrow> string" where
  "hex_of_byte b = [hex_digit (unat b div 16), hex_digit (unat b mod 16)]"

definition EncodeToString :: "bytes \<Rightarrow> string" where
  "EncodeToString bs = concat (map hex_of_byte bs)"

definition bytes_of_string :: "string \<Rightarrow> bytes" where
  "bytes_of_string s = map of_char s"

fun decimal_digits :: "nat \<Rightarrow> string" where
  "decimal_digits n =
     (if n < 10 then [char_of (48 + n)] else decimal_digits (n div 10) @ [char_of (48 + n mod 10)])"

declare decimal_digits.simps [simp del]

definition format_padded :: "nat \<Rightarrow> nat \<Rightarrow> string" where
  "format_padded width n =
     (let d = decimal_digits n in replicate (width - length d) CHR ''0'' @ d)"

section \<open>Lemmas\<close>

lemma strip_Nil [simp]: "strip runes [] = []"
proof -
  have "List.find (\<lambda>q. q \<noteq> [] \<and> starts_with q []) runes = None"
    by (auto simp: find_None_iff starts_with_def)
  then show ?thesis by (simp add: strip.simps [of runes "[]"])
qed

lemma strip_suffix: "\<exists>n. strip runes s = drop n s"
proof (induction runes s rule: strip.induct)
  case (1 runes s)
  show ?case
  proof (cases "List.find (\<lambda>q. q \<noteq> [] \<and> starts_with q s) runes")
    case None
    then show ?thesis by (auto simp: strip.simps [of runes s] intro: exI [of _ 0])
  next
    case (Some q)
    with 1 obtain n where "strip runes (drop (length q) s) = drop n (drop (length q) s)" by blast
    with Some show ?thesis by (auto simp: strip.simps [of runes s])
  qed
qed

lemma set_strip: "set (strip runes s) \<subseteq> set s"
  using strip_suffix [of runes s] by (auto dest: in_set_dropD)

lemma set_TrimSpace: "set (TrimSpace s) \<subseteq> set s"
  using set_strip [of "map rev space_runes" "rev (strip space_runes s)"] set_strip [of space_runes s]
  by (auto simp: TrimSpace_def)

lemma strip_idem [simp]: "strip runes (strip runes s) = strip runes s"
proof (induction runes s rule: strip.induct)
  case (1 runes s)
  show ?case
  proof (cases "List.find (\<lambda>q. q \<noteq> [] \<and> starts_with q s) runes")
    case None
    then show ?thesis by (simp add: strip.simps [of runes s])
  next
    case (Some q)
    with 1 show ?thesis by (simp add: strip.simps [of runes s])
  qed
qed

lemma length_hex_of_byte [simp]: "length (hex_of_byte b) = 2"
  by (simp add: hex_of_byte_def)

lemma length_EncodeToString [simp]: "length (EncodeToString bs) = 2 * length bs"
  by (induction bs) (simp_all add: EncodeToString_def)

lemma EncodeToString_Nil [simp]: "EncodeToString [] = []"
  by (simp add: EncodeToString_def)

lemma EncodeToString_Cons [simp]: "EncodeToString (b # bs) = hex_of_byte b @ EncodeToString bs"
  by (simp add: EncodeToString_def)

lemma EncodeToString_append: "EncodeToString (as @ bs) = EncodeToString as @ EncodeToString bs"
  by (simp add: EncodeToString_def)

definition is_hex_lower :: "char \<Rightarrow> bool" where
  "is_hex_lower c \<longleftrightarrow> CHR ''0'' \<le> c \<and> c \<le> CHR ''9'' \<or> CHR ''a'' \<le> c \<and> c \<le> CHR ''f''"

lemma lt_16_cases:
  assumes "n < (16::nat)"
  shows "n \<in> {0, 1, 2, 3, 4, 5, 6, 7, 8, 9, 10, 11, 12, 13, 14, 15}"
  using assms by simp presburger

lemma unat_byte: "unat (b :: byte) < 256"
  using unsigned_less [of b] by simp

lemma hex_digit_hex: "n < 16 \<Longrightarrow> is_hex_lower (hex_digit n)"
  by (drule lt_16_cases)
     (elim insertE emptyE; simp add: hex_digit_def is_hex_lower_def less_eq_char_def)

lemma hex_digit_inj:
  assumes "m < 16" and "n < 16" and "hex_digit m = hex_digit n"
  shows "m = n"
proof -
  have "distinct ''0123456789abcdef''" by simp
  moreover have "length ''0123456789abcdef'' = 16" by simp
  ultimately show ?thesis using assms by (metis hex_digit_def nth_eq_iff_index_eq)
qed

lemma hex_of_byte_hex: "c \<in> set (hex_of_byte b) \<Longrightarrow> is_hex_lower c"
  using hex_digit_hex unat_byte [of b] by (auto simp: hex_of_byte_def)

lemma EncodeToString_hex: "c \<in> set (EncodeToString bs) \<Longrightarrow> is_hex_lower c"
  by (auto simp: EncodeToString_def dest: hex_of_byte_hex)

lemma hex_of_byte_inj: "hex_of_byte a = hex_of_byte b \<Longrightarrow> a = b"
proof -
  assume eq: "hex_of_byte a = hex_of_byte b"
  have "unat a < 256" "unat b < 256" by (rule unat_byte)+
  then have "unat a div 16 = unat b div 16" "unat a mod 16 = unat b mod 16"
    using eq by (auto simp: hex_of_byte_def dest!: hex_digit_inj [rotated 2])
  then have "unat a = unat b" by (metis div_mult_mod_eq)
  then show ?thesis by (rule unsigned_word_eqI)
qed

lemma EncodeToString_inj: "EncodeToString as = EncodeToString bs \<longleftrightarrow> as = bs"
proof
  show "EncodeToString as = EncodeToString bs \<Longrightarrow> as = bs"
  proof (induction as arbitrary: bs)
    case Nil
    then show ?case by (cases bs) (auto simp: hex_of_byte_def)
  next
    case (Cons a as)
    then obtain b bs' where bs: "bs = b # bs'" by (cases bs) (auto simp: hex_of_byte_def)
    with Cons show ?case by (auto dest: hex_of_byte_inj)
  qed
qed simp

lemma decimal_digits_digit: "c \<in> set (decimal_digits n) \<Longrightarrow> is_digit c"
proof (induction n rule: decimal_digits.induct)
  case (1 n)
  have d: "is_digit (char_of (48 + m))" if "m < 10" for m :: nat
    using that by (simp add: is_digit_def less_eq_char_def)
  show ?case
  proof (cases "n < 10")
    case True
    with "1.prems" d show ?thesis by (auto simp: decimal_digits.simps [of n])
  next
    case False
    with "1.prems" consider "c \<in> set (decimal_digits (n div 10))" | "c = char_of (48 + n mod 10)"
      by (auto simp: decimal_digits.simps [of n])
    then show ?thesis
    proof cases
      case 1
      with "1.IH" False show ?thesis by blast
    next
      case 2
      then show ?thesis using d [of "n mod 10"] by simp
    qed
  qed
qed

lemma length_decimal_digits: "n < 10 ^ Suc w \<Longrightarrow> length (decimal_digits n) \<le> Suc w"
proof (induction w arbitrary: n)
  case 0
  then show ?case by (simp add: decimal_digits.simps)
next
  case (Suc w)
  show ?case
  proof (cases "n < 10")
    case True
    then show ?thesis by (simp add: decimal_digits.simps)
  next
    case False
    have "n div 10 < 10 ^ Suc w" using Suc.prems by (simp add: less_mult_imp_div_less)
    then have "length (decimal_digits (n div 10)) \<le> Suc w" by (rule Suc.IH)
    with False show ?thesis by (simp add: decimal_digits.simps [of n])
  qed
qed

lemma length_format_padded: "n < 10 ^ Suc w \<Longrightarrow> length (format_padded (Suc w) n) = Suc w"
  using length_decimal_digits [of n w] by (simp add: format_padded_def Let_def)

lemma format_padded_digit: "c \<in> set (format_padded w n) \<Longrightarrow> is_digit c"
  using decimal_digits_digit
  by (auto simp: format_padded_def Let_def is_digit_def less_eq_char_def split: if_splits)

end
