(* ===== verification/Domain.thy ===== *)
theory Domain
  imports Go_Base
begin

text \<open>
  The data of the package \<open>domain\<close> (\<open>internal/domain/types.go\<close>), the
  principal of \<open>internal/auth/types.go\<close>, and the JSON values that requests and stored
  responses carry. A pointer field is an option; \<open>time.Time\<close> is an instant.
\<close>

section \<open>JSON values\<close>

datatype json =
    JNull
  | JBool bool
  | JInt int
  | JStr string
  | JTime time
  | JArr "json list"
  | JObj "(string \<times> json) list"

definition JOptStr :: "string option \<Rightarrow> json" where
  "JOptStr x = (case x of None \<Rightarrow> JNull | Some s \<Rightarrow> JStr s)"

definition JOptTime :: "time option \<Rightarrow> json" where
  "JOptTime x = (case x of None \<Rightarrow> JNull | Some t \<Rightarrow> JTime t)"

fun json_keys :: "json \<Rightarrow> string set" where
  "json_keys (JArr xs) = (\<Union>x \<in> set xs. json_keys x)"
| "json_keys (JObj kvs) = (\<Union>kv \<in> set kvs. insert (fst kv) (json_keys (snd kv)))"
| "json_keys _ = {}"

lemma json_keys_opt [simp]: "json_keys (JOptStr x) = {}" "json_keys (JOptTime y) = {}"
  by (simp_all add: JOptStr_def JOptTime_def split: option.splits)

text \<open>\<open>nullable\<close>: the empty string is stored as \<open>NULL\<close>.\<close>

definition nullable :: "string \<Rightarrow> string option" where
  "nullable value = (if value = '''' then None else Some value)"

section \<open>Principal\<close>

record Principal =
  p_UserID :: string
  p_Username :: string
  p_Role :: string
  p_EntityID :: string

section \<open>Resources\<close>

record Entity =
  ent_ID :: uuid
  ent_BankReference :: string
  ent_Name :: string
  ent_Status :: string
  ent_CreatedAt :: time
  ent_UpdatedAt :: time

record Route =
  route_EntityID :: uuid
  route_ShardID :: string
  route_PlacementStatus :: string
  route_CreatedAt :: time

record DirectoryUser =
  du_ID :: uuid
  du_Username :: string
  du_Role :: string
  du_EntityID :: string
  du_Status :: string
  du_CreatedAt :: time
  du_UpdatedAt :: time

record CardFilter =
  cf_ClientID :: string
  cf_AccountID :: string
  cf_ProductID :: string
  cf_Status :: string

record Card =
  card_ID :: uuid
  card_ClientID :: uuid
  card_AccountReferenceID :: uuid
  card_ProductID :: uuid
  card_Status :: string
  card_MaskedPAN :: "string option"
  card_PredecessorCardID :: "uuid option"
  card_IssuedAt :: "time option"
  card_ActivatedAt :: "time option"
  card_SuspendedAt :: "time option"
  card_ClosedAt :: "time option"
  card_ExpiresAt :: "time option"
  card_Version :: int
  card_CreatedAt :: time
  card_UpdatedAt :: time

record CardOperation =
  op_ID :: uuid
  op_CardID :: uuid
  op_Action :: string
  op_Status :: string
  op_Reason :: string
  op_CreatedAt :: time
  op_CompletedAt :: "time option"

record CardStatusHistory =
  hist_ID :: uuid
  hist_PreviousStatus :: string
  hist_NewStatus :: string
  hist_Reason :: string
  hist_CreatedAt :: time

record CardProduct =
  prod_ID :: uuid
  prod_ProductCode :: string
  prod_Name :: string
  prod_Status :: string
  prod_Configuration :: json
  prod_ConfigurationVersion :: int
  prod_CreatedAt :: time
  prod_UpdatedAt :: time

record Client =
  cl_ID :: uuid
  cl_ExternalClientRef :: string
  cl_DisplayName :: "string option"
  cl_CreatedAt :: time
  cl_UpdatedAt :: time

record AccountReference =
  ar_ID :: uuid
  ar_ClientID :: uuid
  ar_ExternalAccountRef :: string
  ar_CreatedAt :: time
  ar_UpdatedAt :: time

record CardStatusBatch =
  batch_ID :: uuid
  batch_TargetStatus :: string
  batch_Reason :: string
  batch_CreatedBy :: uuid
  batch_RequesterRole :: string
  batch_Status :: string
  batch_ItemCount :: nat
  batch_AppliedCount :: nat
  batch_IgnoredCount :: nat
  batch_FailureCode :: "string option"
  batch_FailureSummary :: "string option"
  batch_RetryOfBatchID :: "uuid option"
  batch_CreatedAt :: time
  batch_UpdatedAt :: time
  batch_CompletedAt :: "time option"

record CardStatusBatchItem =
  item_ID :: uuid
  item_CardID :: uuid
  item_OperationID :: uuid
  item_PreviousStatus :: "string option"
  item_Outcome :: string
  item_FailureCode :: "string option"
  item_CreatedAt :: time

section \<open>Command inputs\<close>

record ShardIdempotencyClaim =
  claim_Bank :: uuid
  claim_Scope :: string
  claim_Key :: string
  claim_Fingerprint :: bytes
  claim_Now :: time
  claim_ExpiresAt :: time

record ShardIdempotencyReplay =
  replay_RecordID :: uuid
  replay_Response :: json
  replay_Status :: int
  replay_Found :: bool

record CardProductCreate =
  pc_ProductCode :: string
  pc_Name :: string
  pc_Status :: string
  pc_Configuration :: json
  pc_ActorID :: uuid

record CardProductPatch =
  pp_Name :: "string option"
  pp_Status :: "string option"
  pp_Configuration :: "json option"
  pp_ActorID :: uuid

record ClientCreate =
  cc_ExternalClientRef :: string
  cc_DisplayName :: "string option"
  cc_ActorID :: uuid

record ClientPatch =
  cp_DisplayName :: "string option"
  cp_ActorID :: uuid

record AccountReferenceCreate =
  ac_ClientID :: uuid
  ac_ExternalAccountRef :: string
  ac_ActorID :: uuid

record AccountReferencePatch =
  ap_ClientID :: uuid
  ap_ActorID :: uuid

record ReferenceAudit =
  ra_Bank :: uuid
  ra_ActorID :: uuid
  ra_ActorRole :: string
  ra_ActorEntityID :: string
  ra_Action :: string
  ra_Kind :: string
  ra_ResourceID :: uuid
  ra_RequestID :: uuid

record CardIssue =
  ci_CardID :: uuid
  ci_OperationID :: uuid
  ci_ClientID :: uuid
  ci_AccountReferenceID :: uuid
  ci_ProductID :: uuid
  ci_MaskedPAN :: string
  ci_Reason :: string
  ci_ActorID :: uuid
  ci_ActorRole :: string
  ci_ActorEntityID :: string
  ci_RequestID :: uuid

record CardState =
  cs_Status :: string
  cs_ClientID :: uuid
  cs_AccountReferenceID :: uuid
  cs_ProductID :: uuid

record CardAuthorizationState =
  cas_CardID :: uuid
  cas_Status :: string
  cas_ExpiresAt :: "time option"

record AuthorizationVerification =
  av_DecisionID :: uuid
  av_BankTransactionRef :: string
  av_Approved :: bool

record AuthorizationVerificationCreate =
  avc_DecisionID :: uuid
  avc_BankTransactionRef :: string
  avc_CardID :: string
  avc_Decision :: string
  avc_DecisionCode :: string
  avc_DecidedAt :: time

record CardReplacement =
  cr_SuccessorID :: uuid
  cr_OperationID :: uuid
  cr_PredecessorID :: uuid
  cr_ClientID :: uuid
  cr_AccountReferenceID :: uuid
  cr_ProductID :: uuid
  cr_MaskedPAN :: string
  cr_Reason :: string
  cr_ActorID :: uuid
  cr_ActorRole :: string
  cr_ActorEntityID :: string
  cr_RequestID :: uuid

record CardCommand =
  cmd_CardID :: uuid
  cmd_OperationID :: uuid
  cmd_PredecessorOperationID :: uuid
  cmd_Action :: string
  cmd_PreviousStatus :: string
  cmd_TargetStatus :: string
  cmd_Ignored :: bool
  cmd_Reason :: string
  cmd_ActorID :: uuid
  cmd_ActorRole :: string
  cmd_ActorEntityID :: string
  cmd_RequestID :: uuid

record EntityProvision =
  ep_ID :: uuid
  ep_BankReference :: string
  ep_Name :: string
  ep_ActorID :: uuid
  ep_RequestID :: uuid

record EntityPatch =
  epp_ID :: uuid
  epp_Name :: "string option"
  epp_Status :: "string option"
  epp_ActorID :: uuid
  epp_RequestID :: uuid

record CardStatusBatchDraft =
  bd_ID :: uuid
  bd_IdempotencyRecordID :: uuid
  bd_TargetStatus :: string
  bd_Reason :: string
  bd_CardIDs :: "uuid list"
  bd_OperationIDs :: "uuid list"
  bd_ActorID :: uuid
  bd_ActorRole :: string
  bd_ActorEntityID :: string
  bd_RequestID :: uuid

record CardStatusBatchRetry =
  br_ID :: uuid
  br_IdempotencyRecordID :: uuid
  br_OperationIDs :: "uuid list"
  br_ActorID :: uuid
  br_ActorRole :: string
  br_ActorEntityID :: string
  br_RequestID :: uuid

section \<open>JSON encodings\<close>

text \<open>\<open>json.Marshal\<close> of the resources, by their field tags.\<close>

definition cardJSON :: "Card \<Rightarrow> json" where
  "cardJSON c = JObj
     [(''id'', JStr (card_ID c)), (''client_id'', JStr (card_ClientID c)),
      (''account_reference_id'', JStr (card_AccountReferenceID c)),
      (''product_id'', JStr (card_ProductID c)), (''status'', JStr (card_Status c)),
      (''masked_pan'', JOptStr (card_MaskedPAN c)),
      (''predecessor_card_id'', JOptStr (card_PredecessorCardID c)),
      (''issued_at'', JOptTime (card_IssuedAt c)), (''activated_at'', JOptTime (card_ActivatedAt c)),
      (''suspended_at'', JOptTime (card_SuspendedAt c)), (''closed_at'', JOptTime (card_ClosedAt c)),
      (''expires_at'', JOptTime (card_ExpiresAt c)), (''version'', JInt (card_Version c)),
      (''created_at'', JTime (card_CreatedAt c)), (''updated_at'', JTime (card_UpdatedAt c))]"

definition operationJSON :: "CardOperation \<Rightarrow> json" where
  "operationJSON p = JObj
     [(''id'', JStr (op_ID p)), (''card_id'', JStr (op_CardID p)), (''action'', JStr (op_Action p)),
      (''status'', JStr (op_Status p)), (''reason'', JStr (op_Reason p)),
      (''created_at'', JTime (op_CreatedAt p)), (''completed_at'', JOptTime (op_CompletedAt p))]"

definition omitempty :: "string \<Rightarrow> string option \<Rightarrow> (string \<times> json) list" where
  "omitempty k x = (case x of None \<Rightarrow> [] | Some s \<Rightarrow> [(k, JStr s)])"

definition batchJSON :: "CardStatusBatch \<Rightarrow> json" where
  "batchJSON b = JObj
     ([(''id'', JStr (batch_ID b)), (''target_status'', JStr (batch_TargetStatus b)),
       (''reason'', JStr (batch_Reason b)), (''created_by'', JStr (batch_CreatedBy b)),
       (''requester_role'', JStr (batch_RequesterRole b)), (''status'', JStr (batch_Status b)),
       (''item_count'', JInt (int (batch_ItemCount b))),
       (''applied_count'', JInt (int (batch_AppliedCount b))),
       (''ignored_count'', JInt (int (batch_IgnoredCount b)))]
      @ omitempty ''failure_code'' (batch_FailureCode b)
      @ omitempty ''failure_summary'' (batch_FailureSummary b)
      @ [(''retry_of_batch_id'', JOptStr (batch_RetryOfBatchID b)),
         (''created_at'', JTime (batch_CreatedAt b)), (''updated_at'', JTime (batch_UpdatedAt b)),
         (''completed_at'', JOptTime (batch_CompletedAt b))])"

definition batchItemJSON :: "CardStatusBatchItem \<Rightarrow> json" where
  "batchItemJSON i = JObj
     [(''id'', JStr (item_ID i)), (''card_id'', JStr (item_CardID i)),
      (''operation_id'', JStr (item_OperationID i)),
      (''previous_status'', JOptStr (item_PreviousStatus i)), (''outcome'', JStr (item_Outcome i)),
      (''failure_code'', JOptStr (item_FailureCode i)), (''created_at'', JTime (item_CreatedAt i))]"

end
