(* ===== verification/Shard_Schema.thy ===== *)
theory Shard_Schema
  imports Domain
begin

text \<open>
  The tables of a bank shard (\<open>database/migrations/shard\<close>): their rows, and the
  inserts and updates PostgreSQL lets through. A row extends the domain record that its
  \<open>scan\<close> function reads, so scanning is record truncation. Every constraint and trigger
  that can refuse a write of the repository is a condition with its SQLSTATE: 23505 for a
  unique key, 23503 for a foreign key, 23514 for a check, P0001 for a raised exception.
  A refused statement leaves the tables as they were.
\<close>

section \<open>Rows\<close>

record entity_row = Entity +
  ent_created_by :: uuid
  ent_updated_by :: uuid

record client_row = Client +
  cl_entity :: uuid
  cl_created_by :: uuid
  cl_updated_by :: uuid

record account_row = AccountReference +
  ar_entity :: uuid
  ar_created_by :: uuid
  ar_updated_by :: uuid

record product_row = CardProduct +
  prod_entity :: uuid
  prod_created_by :: uuid
  prod_updated_by :: uuid

record card_row = Card +
  card_entity :: uuid
  card_created_by :: uuid
  card_updated_by :: uuid

record operation_row = CardOperation +
  op_entity :: uuid
  op_actor_user_id :: "uuid option"
  op_actor_role :: string
  op_actor_entity_id :: "uuid option"
  op_executor_identity :: "string option"
  op_request_id :: uuid
  op_started_at :: "time option"
  op_failure_code :: "string option"
  op_failure_summary :: "string option"
  op_updated_at :: time
  op_created_by :: "uuid option"
  op_updated_by :: "uuid option"

record history_row = CardStatusHistory +
  hist_entity :: uuid
  hist_card_id :: uuid
  hist_operation_id :: uuid
  hist_actor_user_id :: "uuid option"
  hist_actor_role :: string
  hist_actor_entity_id :: "uuid option"
  hist_executor_identity :: "string option"

record audit_row =
  audit_entity :: uuid
  audit_id :: uuid
  audit_actor_user_id :: "uuid option"
  audit_actor_role :: string
  audit_actor_entity_id :: "uuid option"
  audit_executor_identity :: "string option"
  audit_action :: string
  audit_resource_type :: string
  audit_resource_id :: "uuid option"
  audit_outcome :: string
  audit_request_id :: uuid
  audit_occurred_at :: time
  audit_details :: json

record idempotency_row =
  idem_entity :: uuid
  idem_id :: uuid
  idem_operation_scope :: string
  idem_idempotency_key :: string
  idem_request_fingerprint :: bytes
  idem_status :: string
  idem_result_reference :: "uuid option"
  idem_expires_at :: time
  idem_created_at :: time
  idem_updated_at :: time
  idem_created_by :: uuid
  idem_updated_by :: uuid
  idem_response_status :: "int option"
  idem_response_body :: "json option"

record batch_row = CardStatusBatch +
  batch_entity :: uuid
  batch_requester_entity_id :: "uuid option"
  batch_request_id :: uuid
  batch_idempotency_record_id :: uuid
  batch_attempt_count :: nat
  batch_next_attempt_at :: time
  batch_lease_owner :: "string option"
  batch_lease_expires_at :: "time option"
  batch_lease_version :: int
  batch_started_at :: "time option"
  batch_created_by :: uuid
  batch_updated_by :: uuid

record batch_item_row =
  bi_entity :: uuid
  bi_id :: uuid
  bi_batch_id :: uuid
  bi_card_id :: uuid
  bi_operation_id :: uuid
  bi_previous_status :: "string option"
  bi_outcome :: string
  bi_failure_code :: "string option"

record expiry_run_row =
  er_entity :: uuid
  er_id :: uuid
  er_run_date :: int \<comment> \<open>a date, days since the epoch\<close>
  er_status :: string
  er_item_count :: nat
  er_expired_count :: nat
  er_skipped_already_expired_count :: nat
  er_manual_retry_required_count :: nat
  er_executor_identity :: string
  er_created_at :: time
  er_updated_at :: time
  er_completed_at :: "time option"

record expiry_item_row =
  ei_entity :: uuid
  ei_id :: uuid
  ei_expiry_run_id :: uuid
  ei_card_id :: uuid
  ei_operation_id :: uuid
  ei_status :: string
  ei_attempt_count :: nat
  ei_automatic_retry_count :: nat
  ei_manual_retry_count :: nat
  ei_next_attempt_at :: time
  ei_lease_owner :: "string option"
  ei_lease_expires_at :: "time option"
  ei_lease_version :: int
  ei_failure_code :: "string option"
  ei_manual_retry_by :: "uuid option"
  ei_manual_retry_at :: "time option"
  ei_created_at :: time
  ei_updated_at :: time

record authorization_row =
  auth_entity :: uuid
  auth_id :: uuid
  auth_decision_id :: uuid
  auth_bank_transaction_reference :: string
  auth_card_id :: "uuid option"
  auth_decision :: string
  auth_decision_code :: string
  auth_decided_at :: time
  auth_created_at :: time

record shard_db =
  entities :: "entity_row list"
  clients :: "client_row list"
  account_references :: "account_row list"
  card_products :: "product_row list"
  cards :: "card_row list"
  card_operations :: "operation_row list"
  card_status_history :: "history_row list"
  audit_events :: "audit_row list"
  idempotency_records :: "idempotency_row list"
  card_status_batches :: "batch_row list"
  card_status_batch_items :: "batch_item_row list"
  card_expiry_runs :: "expiry_run_row list"
  card_expiry_run_items :: "expiry_item_row list"
  authorization_verifications :: "authorization_row list"

definition empty_db :: shard_db where
  "empty_db = \<lparr>entities = [], clients = [], account_references = [], card_products = [],
     cards = [], card_operations = [], card_status_history = [], audit_events = [],
     idempotency_records = [], card_status_batches = [], card_status_batch_items = [],
     card_expiry_runs = [], card_expiry_run_items = [], authorization_verifications = []\<rparr>"

section \<open>Scanning\<close>

definition scanEntity :: "entity_row \<Rightarrow> Entity" where "scanEntity = Entity.truncate"
definition scanCard :: "card_row \<Rightarrow> Card" where "scanCard = Card.truncate"
definition scanCardProduct :: "product_row \<Rightarrow> CardProduct" where
  "scanCardProduct = CardProduct.truncate"
definition scanClient :: "client_row \<Rightarrow> Client" where "scanClient = Client.truncate"
definition scanAccountReference :: "account_row \<Rightarrow> AccountReference" where
  "scanAccountReference = AccountReference.truncate"
definition scanCardOperation :: "operation_row \<Rightarrow> CardOperation" where
  "scanCardOperation = CardOperation.truncate"
definition scanCardStatusHistory :: "history_row \<Rightarrow> CardStatusHistory" where
  "scanCardStatusHistory = CardStatusHistory.truncate"
definition scanCardStatusBatch :: "batch_row \<Rightarrow> CardStatusBatch" where
  "scanCardStatusBatch = CardStatusBatch.truncate"

lemma scan_ids [table_simps]:
  "card_ID (scanCard r) = card_ID r" "card_Status (scanCard r) = card_Status r"
  "batch_ID (scanCardStatusBatch b) = batch_ID b"
  "batch_Status (scanCardStatusBatch b) = batch_Status b"
  "batch_ItemCount (scanCardStatusBatch b) = batch_ItemCount b"
  "batch_TargetStatus (scanCardStatusBatch b) = batch_TargetStatus b"
  "batch_Reason (scanCardStatusBatch b) = batch_Reason b"
  "op_ID (scanCardOperation p) = op_ID p"
  by (simp_all add: scanCard_def scanCardStatusBatch_def scanCardOperation_def
      Card.truncate_def CardStatusBatch.truncate_def CardOperation.truncate_def)

section \<open>Keys\<close>

definition client_key :: "client_row \<Rightarrow> uuid \<times> uuid" where
  "client_key r = (cl_entity r, cl_ID r)"
definition account_key :: "account_row \<Rightarrow> uuid \<times> uuid" where
  "account_key r = (ar_entity r, ar_ID r)"
definition product_key :: "product_row \<Rightarrow> uuid \<times> uuid" where
  "product_key r = (prod_entity r, prod_ID r)"
definition card_key :: "card_row \<Rightarrow> uuid \<times> uuid" where
  "card_key r = (card_entity r, card_ID r)"
definition operation_key :: "operation_row \<Rightarrow> uuid \<times> uuid" where
  "operation_key r = (op_entity r, op_ID r)"
definition history_key :: "history_row \<Rightarrow> uuid \<times> uuid" where
  "history_key r = (hist_entity r, hist_ID r)"
definition audit_key :: "audit_row \<Rightarrow> uuid \<times> uuid" where
  "audit_key r = (audit_entity r, audit_id r)"
definition idempotency_id_key :: "idempotency_row \<Rightarrow> uuid \<times> uuid" where
  "idempotency_id_key r = (idem_entity r, idem_id r)"
definition idempotency_key :: "idempotency_row \<Rightarrow> uuid \<times> string \<times> string" where
  "idempotency_key r = (idem_entity r, idem_operation_scope r, idem_idempotency_key r)"
definition batch_key :: "batch_row \<Rightarrow> uuid \<times> uuid" where
  "batch_key r = (batch_entity r, batch_ID r)"
definition batch_item_key :: "batch_item_row \<Rightarrow> uuid \<times> uuid" where
  "batch_item_key r = (bi_entity r, bi_id r)"
definition expiry_run_key :: "expiry_run_row \<Rightarrow> uuid \<times> uuid" where
  "expiry_run_key r = (er_entity r, er_id r)"
definition expiry_item_key :: "expiry_item_row \<Rightarrow> uuid \<times> uuid" where
  "expiry_item_key r = (ei_entity r, ei_id r)"
definition authorization_key :: "authorization_row \<Rightarrow> uuid \<times> string" where
  "authorization_key r = (auth_entity r, auth_bank_transaction_reference r)"

lemmas key_defs =
  client_key_def account_key_def product_key_def card_key_def operation_key_def history_key_def
  audit_key_def idempotency_id_key_def idempotency_key_def batch_key_def batch_item_key_def
  expiry_run_key_def expiry_item_key_def authorization_key_def

section \<open>Conditions of a write\<close>

fun checked :: "(string \<times> bool) list \<Rightarrow> 'a \<Rightarrow> 'a result" where
  "checked [] x = Inr x"
| "checked ((code, b) # cs) x = (if b then checked cs x else Inl (PgError code))"

lemma checked_Inr [table_simps]: "checked cs x = Inr y \<longleftrightarrow> y = x \<and> (\<forall>c \<in> set cs. snd c)"
  by (induction cs x rule: checked.induct) auto

lemma checked_Inl: "checked cs x = Inl e \<Longrightarrow> \<exists>code. e = PgError code"
  by (induction cs x rule: checked.induct) (auto split: if_splits)

declare checked.simps [simp del]

definition no_key :: "('r \<Rightarrow> 'k) \<Rightarrow> 'k \<Rightarrow> 'r list \<Rightarrow> bool" where
  "no_key key k rows = list_all (\<lambda>r. key r \<noteq> k) rows"

lemma no_key_iff [table_simps]: "no_key key k rows \<longleftrightarrow> k \<notin> key ` set rows"
  by (auto simp: no_key_def list_all_iff)

text \<open>
  \<open>UPDATE\<close> with row triggers and checks: the conditions of every affected row, given its
  old and new value, must hold; the result is the number of affected rows and the new table.
\<close>

definition guarded_update ::
  "('r \<Rightarrow> 'r \<Rightarrow> (string \<times> bool) list) \<Rightarrow> ('r \<Rightarrow> bool) \<Rightarrow> ('r \<Rightarrow> 'r) \<Rightarrow> 'r list \<Rightarrow>
   (nat \<times> 'r list) result" where
  "guarded_update g P f rows =
     checked (concat (map (\<lambda>r. if P r then g r (f r) else []) rows))
       (affected P rows, update_where P f rows)"

lemma guarded_update_Inr [table_simps]:
  "guarded_update g P f rows = Inr (n, rows') \<longleftrightarrow>
     n = affected P rows \<and> rows' = update_where P f rows \<and>
     (\<forall>r \<in> set rows. P r \<longrightarrow> (\<forall>c \<in> set (g r (f r)). snd c))"
  by (auto simp: guarded_update_def checked_Inr split: if_splits)

definition btrim_nonempty :: "string \<Rightarrow> bool" where
  "btrim_nonempty s = list_ex (\<lambda>c. c \<noteq> CHR '' '') s"

definition actor_context :: "uuid \<Rightarrow> string list \<Rightarrow> string list \<Rightarrow> string \<Rightarrow> uuid option \<Rightarrow>
    uuid option \<Rightarrow> string option \<Rightarrow> bool" where
  "actor_context entity bank_roles issuer_roles role user actor_entity executor_identity \<longleftrightarrow>
     (role \<in> set bank_roles \<and> user \<noteq> None \<and> actor_entity = Some entity) \<or>
     (role \<in> set issuer_roles \<and> user \<noteq> None \<and> actor_entity = None) \<or>
     (role = ''system'' \<and> user = None \<and> actor_entity = None \<and>
      (case executor_identity of None \<Rightarrow> False | Some x \<Rightarrow> btrim_nonempty x))"

definition is_object :: "json \<Rightarrow> bool" where
  "is_object j = (case j of JObj _ \<Rightarrow> True | _ \<Rightarrow> False)"

definition is_card_state :: "string \<Rightarrow> bool" where
  "is_card_state s \<longleftrightarrow>
     s \<in> set [''pending'', ''issued'', ''active'', ''suspended'', ''closed'', ''expired'']"

definition is_masked_pan :: "string \<Rightarrow> bool" where
  "is_masked_pan s \<longleftrightarrow> length s = 16 \<and> list_all is_digit (take 6 s) \<and>
     take 6 (drop 6 s) = ''******'' \<and> list_all is_digit (drop 12 s)"

definition failure_code_ok :: "string option \<Rightarrow> bool" where
  "failure_code_ok c = (case c of None \<Rightarrow> True | Some s \<Rightarrow>
     s \<in> set [''authorization_revoked'', ''retry_exhausted'', ''invalid_transition'',
              ''control_unavailable'', ''dependency_unavailable''])"

definition failure_summary_ok :: "string option \<Rightarrow> bool" where
  "failure_summary_ok c = (case c of None \<Rightarrow> True | Some s \<Rightarrow>
     s \<in> set [''The requester is no longer authorized.'', ''The retry limit was reached.'',
              ''One or more card transitions are not allowed.'',
              ''Authorization dependency is temporarily unavailable.'',
              ''A temporary dependency failure occurred.'', ''The batch will be retried.'',
              ''The batch could not be completed.''])"

section \<open>Inserts\<close>

definition entity_exists :: "uuid \<Rightarrow> shard_db \<Rightarrow> bool" where
  "entity_exists bank d = exists_row (\<lambda>r. ent_ID r = bank) (entities d)"

definition insert_client :: "client_row \<Rightarrow> shard_db \<Rightarrow> shard_db result" where
  "insert_client r d = checked
     [(''23514'', btrim_nonempty (cl_ExternalClientRef r)),
      (''23505'', no_key client_key (client_key r) (clients d)),
      (''23505'', no_key (\<lambda>x. (cl_entity x, cl_ExternalClientRef x))
                    (cl_entity r, cl_ExternalClientRef r) (clients d)),
      (''23503'', entity_exists (cl_entity r) d)]
     (d\<lparr>clients := clients d @ [r]\<rparr>)"

definition insert_account :: "account_row \<Rightarrow> shard_db \<Rightarrow> shard_db result" where
  "insert_account r d = checked
     [(''23514'', btrim_nonempty (ar_ExternalAccountRef r)),
      (''23505'', no_key account_key (account_key r) (account_references d)),
      (''23505'', no_key (\<lambda>x. (ar_entity x, ar_ExternalAccountRef x))
                    (ar_entity r, ar_ExternalAccountRef r) (account_references d)),
      (''23503'', exists_row (\<lambda>x. client_key x = (ar_entity r, ar_ClientID r)) (clients d))]
     (d\<lparr>account_references := account_references d @ [r]\<rparr>)"

definition insert_product :: "product_row \<Rightarrow> shard_db \<Rightarrow> shard_db result" where
  "insert_product r d = checked
     [(''23514'', btrim_nonempty (prod_ProductCode r) \<and> btrim_nonempty (prod_Name r) \<and>
                  prod_Status r \<in> set [''active'', ''inactive''] \<and> is_object (prod_Configuration r)),
      (''23505'', no_key product_key (product_key r) (card_products d)),
      (''23505'', no_key (\<lambda>x. (prod_entity x, prod_ProductCode x))
                    (prod_entity r, prod_ProductCode r) (card_products d)),
      (''23503'', entity_exists (prod_entity r) d)]
     (d\<lparr>card_products := card_products d @ [r]\<rparr>)"

definition insert_card :: "card_row \<Rightarrow> shard_db \<Rightarrow> shard_db result" where
  "insert_card r d = checked
     [(''23514'', is_card_state (card_Status r) \<and> card_PredecessorCardID r \<noteq> Some (card_ID r)),
      (''23505'', no_key card_key (card_key r) (cards d)),
      (''23503'', exists_row (\<lambda>x. (ar_entity x, ar_ClientID x, ar_ID x) =
                    (card_entity r, card_ClientID r, card_AccountReferenceID r)) (account_references d)),
      (''23503'', exists_row (\<lambda>x. product_key x = (card_entity r, card_ProductID r)) (card_products d)),
      (''23503'', case card_PredecessorCardID r of None \<Rightarrow> True
                  | Some p \<Rightarrow> exists_row (\<lambda>x. card_key x = (card_entity r, p)) (cards d))]
     (d\<lparr>cards := cards d @ [r]\<rparr>)"

definition operation_checks :: "operation_row \<Rightarrow> bool" where
  "operation_checks r \<longleftrightarrow>
     op_Action r \<in> set [''issue'', ''activate'', ''suspend'', ''resume'', ''close'', ''expire'', ''replace'']
     \<and> op_Status r \<in> set [''queued'', ''processing'', ''succeeded'', ''failed'']
     \<and> btrim_nonempty (op_Reason r)
     \<and> actor_context (op_entity r) [''bank_operator''] [''issuer_operator''] (op_actor_role r)
         (op_actor_user_id r) (op_actor_entity_id r) (op_executor_identity r)"

definition insert_operation :: "operation_row \<Rightarrow> shard_db \<Rightarrow> shard_db result" where
  "insert_operation r d = checked
     [(''23514'', operation_checks r),
      (''23505'', no_key operation_key (operation_key r) (card_operations d)),
      (''23503'', exists_row (\<lambda>x. card_key x = (op_entity r, op_CardID r)) (cards d))]
     (d\<lparr>card_operations := card_operations d @ [r]\<rparr>)"

definition insert_history :: "history_row \<Rightarrow> shard_db \<Rightarrow> shard_db result" where
  "insert_history r d = checked
     [(''23514'', is_card_state (hist_PreviousStatus r) \<and> is_card_state (hist_NewStatus r) \<and>
                  hist_PreviousStatus r \<noteq> hist_NewStatus r \<and> btrim_nonempty (hist_Reason r) \<and>
                  actor_context (hist_entity r) [''bank_operator''] [''issuer_operator'']
                    (hist_actor_role r) (hist_actor_user_id r) (hist_actor_entity_id r)
                    (hist_executor_identity r)),
      (''23505'', no_key history_key (history_key r) (card_status_history d)),
      (''23505'', no_key (\<lambda>x. (hist_entity x, hist_operation_id x))
                    (hist_entity r, hist_operation_id r) (card_status_history d)),
      (''23503'', exists_row (\<lambda>x. (op_entity x, op_CardID x, op_ID x) =
                    (hist_entity r, hist_card_id r, hist_operation_id r)) (card_operations d))]
     (d\<lparr>card_status_history := card_status_history d @ [r]\<rparr>)"

definition insert_audit :: "audit_row \<Rightarrow> shard_db \<Rightarrow> shard_db result" where
  "insert_audit r d = checked
     [(''23514'', btrim_nonempty (audit_action r) \<and> btrim_nonempty (audit_resource_type r) \<and>
                  audit_outcome r \<in> set [''succeeded'', ''failed'', ''rejected''] \<and>
                  is_object (audit_details r) \<and>
                  actor_context (audit_entity r) [''bank_operator'', ''bank_readonly'']
                    [''issuer_operator'', ''issuer_readonly''] (audit_actor_role r)
                    (audit_actor_user_id r) (audit_actor_entity_id r) (audit_executor_identity r)),
      (''23505'', no_key audit_key (audit_key r) (audit_events d)),
      (''23503'', entity_exists (audit_entity r) d)]
     (d\<lparr>audit_events := audit_events d @ [r]\<rparr>)"

definition idempotency_checks :: "idempotency_row \<Rightarrow> bool" where
  "idempotency_checks r \<longleftrightarrow>
     btrim_nonempty (idem_operation_scope r) \<and>
     1 \<le> length (idem_idempotency_key r) \<and> length (idem_idempotency_key r) \<le> 256 \<and>
     length (idem_request_fingerprint r) = 32 \<and>
     idem_status r \<in> set [''processing'', ''succeeded'', ''failed''] \<and>
     idem_created_at r < idem_expires_at r \<and>
     (case idem_response_status r of None \<Rightarrow> True | Some n \<Rightarrow> 200 \<le> n \<and> n \<le> 299) \<and>
     (case idem_response_body r of None \<Rightarrow> True | Some j \<Rightarrow> is_object j)"

definition insert_idempotency :: "idempotency_row \<Rightarrow> shard_db \<Rightarrow> shard_db result" where
  "insert_idempotency r d = checked
     [(''22P02'', idem_id r \<noteq> ''''),
      (''23514'', idempotency_checks r),
      (''23505'', no_key idempotency_id_key (idempotency_id_key r) (idempotency_records d)),
      (''23505'', no_key idempotency_key (idempotency_key r) (idempotency_records d)),
      (''23503'', entity_exists (idem_entity r) d)]
     (d\<lparr>idempotency_records := idempotency_records d @ [r]\<rparr>)"

text \<open>\<open>guard_batch_insert\<close> and \<open>guard_batch_retry_provenance\<close> with the table checks.\<close>

definition batch_checks :: "batch_row \<Rightarrow> bool" where
  "batch_checks r \<longleftrightarrow>
     is_card_state (batch_TargetStatus r) \<and> btrim_nonempty (batch_Reason r) \<and>
     batch_Status r \<in> set [''draft'', ''queued'', ''processing'', ''succeeded'', ''failed'', ''cancelled''] \<and>
     0 < batch_ItemCount r \<and>
     batch_AppliedCount r + batch_IgnoredCount r \<le> batch_ItemCount r \<and>
     (batch_Status r = ''processing'') =
       (batch_lease_owner r \<noteq> None \<and> batch_lease_expires_at r \<noteq> None) \<and>
     (batch_lease_owner r = None) = (batch_lease_expires_at r = None) \<and>
     failure_code_ok (batch_FailureCode r) \<and> failure_summary_ok (batch_FailureSummary r) \<and>
     actor_context (batch_entity r) [''bank_operator''] [''issuer_operator''] (batch_RequesterRole r)
       (Some (batch_CreatedBy r)) (batch_requester_entity_id r) None"

definition guard_batch_insert :: "batch_row \<Rightarrow> bool" where
  "guard_batch_insert r \<longleftrightarrow>
     batch_Status r = ''draft'' \<and> batch_AppliedCount r = 0 \<and> batch_IgnoredCount r = 0 \<and>
     batch_attempt_count r = 0 \<and> batch_lease_owner r = None \<and> batch_lease_expires_at r = None \<and>
     batch_lease_version r = 0 \<and> batch_started_at r = None \<and> batch_CompletedAt r = None \<and>
     batch_FailureCode r = None \<and> batch_FailureSummary r = None"

definition guard_batch_retry_provenance :: "shard_db \<Rightarrow> batch_row \<Rightarrow> bool" where
  "guard_batch_retry_provenance d r =
     (case batch_RetryOfBatchID r of
        None \<Rightarrow> True
      | Some source \<Rightarrow>
          source \<noteq> batch_ID r \<and>
          (case query_row (\<lambda>b. batch_key b = (batch_entity r, source)) (card_status_batches d) of
             None \<Rightarrow> False
           | Some b \<Rightarrow> batch_Status b \<in> set [''failed'', ''cancelled''] \<and> batch_Status r = ''draft'' \<and>
               batch_TargetStatus r = batch_TargetStatus b \<and> batch_Reason r = batch_Reason b))"

definition insert_batch :: "batch_row \<Rightarrow> shard_db \<Rightarrow> shard_db result" where
  "insert_batch r d = checked
     [(''P0001'', guard_batch_insert r),
      (''P0001'', guard_batch_retry_provenance d r),
      (''23514'', batch_checks r),
      (''23505'', no_key batch_key (batch_key r) (card_status_batches d)),
      (''23505'', no_key (\<lambda>b. (batch_entity b, batch_idempotency_record_id b))
                    (batch_entity r, batch_idempotency_record_id r) (card_status_batches d)),
      (''23503'', exists_row (\<lambda>x. idempotency_id_key x = (batch_entity r, batch_idempotency_record_id r))
                    (idempotency_records d))]
     (d\<lparr>card_status_batches := card_status_batches d @ [r]\<rparr>)"

definition batch_item_checks :: "batch_item_row \<Rightarrow> bool" where
  "batch_item_checks r \<longleftrightarrow>
     bi_outcome r \<in> set [''pending'', ''applied'', ''not_applied'', ''ignored''] \<and>
     (bi_outcome r = ''applied'') = (bi_previous_status r \<noteq> None) \<and> failure_code_ok (bi_failure_code r)"

definition insert_batch_item :: "batch_item_row \<Rightarrow> shard_db \<Rightarrow> shard_db result" where
  "insert_batch_item r d = checked
     [(''P0001'', exists_row (\<lambda>b. batch_key b = (bi_entity r, bi_batch_id r) \<and> batch_Status b = ''draft'')
                    (card_status_batches d)),
      (''P0001'', bi_outcome r = ''pending'' \<and> bi_previous_status r = None \<and> bi_failure_code r = None),
      (''23505'', no_key batch_item_key (batch_item_key r) (card_status_batch_items d)),
      (''23505'', no_key (\<lambda>x. (bi_entity x, bi_batch_id x, bi_card_id x))
                    (bi_entity r, bi_batch_id r, bi_card_id r) (card_status_batch_items d)),
      (''23505'', no_key (\<lambda>x. (bi_entity x, bi_operation_id x))
                    (bi_entity r, bi_operation_id r) (card_status_batch_items d)),
      (''23503'', exists_row (\<lambda>x. (op_entity x, op_CardID x, op_ID x) =
                    (bi_entity r, bi_card_id r, bi_operation_id r)) (card_operations d))]
     (d\<lparr>card_status_batch_items := card_status_batch_items d @ [r]\<rparr>)"

definition insert_expiry_run :: "expiry_run_row \<Rightarrow> shard_db \<Rightarrow> shard_db result" where
  "insert_expiry_run r d = checked
     [(''P0001'', er_status r = ''processing'' \<and> er_expired_count r = 0 \<and>
                  er_skipped_already_expired_count r = 0 \<and> er_manual_retry_required_count r = 0 \<and>
                  er_completed_at r = None),
      (''23514'', btrim_nonempty (er_executor_identity r)),
      (''23505'', no_key expiry_run_key (expiry_run_key r) (card_expiry_runs d)),
      (''23505'', no_key (\<lambda>x. (er_entity x, er_run_date x)) (er_entity r, er_run_date r) (card_expiry_runs d)),
      (''23503'', entity_exists (er_entity r) d)]
     (d\<lparr>card_expiry_runs := card_expiry_runs d @ [r]\<rparr>)"

definition insert_expiry_item :: "expiry_item_row \<Rightarrow> shard_db \<Rightarrow> shard_db result" where
  "insert_expiry_item r d = checked
     [(''P0001'', exists_row (\<lambda>x. expiry_run_key x = (ei_entity r, ei_expiry_run_id r) \<and>
                    er_status x = ''processing'') (card_expiry_runs d)),
      (''P0001'', ei_status r = ''pending'' \<and> ei_attempt_count r = 0 \<and> ei_automatic_retry_count r = 0 \<and>
                  ei_manual_retry_count r = 0 \<and> ei_lease_owner r = None \<and> ei_lease_expires_at r = None \<and>
                  ei_lease_version r = 0 \<and> ei_failure_code r = None \<and> ei_manual_retry_by r = None \<and>
                  ei_manual_retry_at r = None),
      (''P0001'', exists_row (\<lambda>x. (op_entity x, op_CardID x, op_ID x) =
                    (ei_entity r, ei_card_id r, ei_operation_id r) \<and> op_Action x = ''expire'' \<and>
                    op_actor_role x = ''system'') (card_operations d)),
      (''23505'', no_key expiry_item_key (expiry_item_key r) (card_expiry_run_items d)),
      (''23505'', no_key (\<lambda>x. (ei_entity x, ei_expiry_run_id x, ei_card_id x))
                    (ei_entity r, ei_expiry_run_id r, ei_card_id r) (card_expiry_run_items d)),
      (''23505'', no_key (\<lambda>x. (ei_entity x, ei_operation_id x))
                    (ei_entity r, ei_operation_id r) (card_expiry_run_items d)),
      (''23503'', exists_row (\<lambda>x. card_key x = (ei_entity r, ei_card_id r)) (cards d))]
     (d\<lparr>card_expiry_run_items := card_expiry_run_items d @ [r]\<rparr>)"

definition insert_authorization :: "authorization_row \<Rightarrow> shard_db \<Rightarrow> shard_db result" where
  "insert_authorization r d = checked
     [(''23514'', btrim_nonempty (auth_bank_transaction_reference r)),
      (''23514'', (auth_decision r = ''approved'' \<and> auth_decision_code r = ''approved'' \<and> auth_card_id r \<noteq> None) \<or>
                  (auth_decision r = ''declined'' \<and>
                   auth_decision_code r \<in> set [''credential_invalid'', ''card_not_found'', ''card_ineligible''])),
      (''23505'', no_key (\<lambda>x. (auth_entity x, auth_id x)) (auth_entity r, auth_id r) (authorization_verifications d)),
      (''23505'', no_key authorization_key (authorization_key r) (authorization_verifications d)),
      (''23505'', no_key (\<lambda>x. (auth_entity x, auth_decision_id x))
                    (auth_entity r, auth_decision_id r) (authorization_verifications d)),
      (''23503'', case auth_card_id r of None \<Rightarrow> True
                  | Some c \<Rightarrow> exists_row (\<lambda>x. card_key x = (auth_entity r, c)) (cards d))]
     (d\<lparr>authorization_verifications := authorization_verifications d @ [r]\<rparr>)"

lemmas insert_defs [table_simps] =
  insert_client_def insert_account_def insert_product_def insert_card_def insert_operation_def
  insert_history_def insert_audit_def insert_idempotency_def insert_batch_def insert_batch_item_def
  insert_expiry_run_def insert_expiry_item_def insert_authorization_def

section \<open>Updates\<close>

text \<open>
  \<open>guard_identity\<close> forbids changes of the key and of the creation attribution and
  stamps \<open>updated_at\<close>; the stamp is part of each update's row function.
\<close>

definition update_entities ::
  "(entity_row \<Rightarrow> bool) \<Rightarrow> (entity_row \<Rightarrow> entity_row) \<Rightarrow> shard_db \<Rightarrow> (nat \<times> shard_db) result" where
  "update_entities P f d = map_sum id (map_prod id (\<lambda>rows. d\<lparr>entities := rows\<rparr>))
     (guarded_update (\<lambda>old new.
        [(''P0001'', ent_ID new = ent_ID old \<and> ent_CreatedAt new = ent_CreatedAt old \<and>
                     ent_created_by new = ent_created_by old),
         (''P0001'', ent_BankReference new = ent_BankReference old),
         (''23514'', btrim_nonempty (ent_Name new) \<and> ent_Status new \<in> set [''active'', ''inactive''])])
      P f (entities d))"

definition update_clients ::
  "(client_row \<Rightarrow> bool) \<Rightarrow> (client_row \<Rightarrow> client_row) \<Rightarrow> shard_db \<Rightarrow> (nat \<times> shard_db) result" where
  "update_clients P f d = map_sum id (map_prod id (\<lambda>rows. d\<lparr>clients := rows\<rparr>))
     (guarded_update (\<lambda>old new.
        [(''P0001'', client_key new = client_key old \<and> cl_CreatedAt new = cl_CreatedAt old \<and>
                     cl_created_by new = cl_created_by old),
         (''P0001'', cl_ExternalClientRef new = cl_ExternalClientRef old)])
      P f (clients d))"

definition update_accounts ::
  "(account_row \<Rightarrow> bool) \<Rightarrow> (account_row \<Rightarrow> account_row) \<Rightarrow> shard_db \<Rightarrow> (nat \<times> shard_db) result" where
  "update_accounts P f d = map_sum id (map_prod id (\<lambda>rows. d\<lparr>account_references := rows\<rparr>))
     (guarded_update (\<lambda>old new.
        [(''P0001'', account_key new = account_key old \<and> ar_CreatedAt new = ar_CreatedAt old \<and>
                     ar_created_by new = ar_created_by old),
         (''P0001'', ar_ExternalAccountRef new = ar_ExternalAccountRef old),
         (''23503'', exists_row (\<lambda>x. client_key x = (ar_entity new, ar_ClientID new)) (clients d)),
         (''23503'', ar_ClientID new = ar_ClientID old \<or>
                     \<not> exists_row (\<lambda>c. (card_entity c, card_ClientID c, card_AccountReferenceID c) =
                          (ar_entity old, ar_ClientID old, ar_ID old)) (cards d))])
      P f (account_references d))"

definition update_products ::
  "(product_row \<Rightarrow> bool) \<Rightarrow> (product_row \<Rightarrow> product_row) \<Rightarrow> shard_db \<Rightarrow> (nat \<times> shard_db) result" where
  "update_products P f d = map_sum id (map_prod id (\<lambda>rows. d\<lparr>card_products := rows\<rparr>))
     (guarded_update (\<lambda>old new.
        [(''P0001'', product_key new = product_key old \<and> prod_CreatedAt new = prod_CreatedAt old \<and>
                     prod_created_by new = prod_created_by old),
         (''P0001'', prod_ProductCode new = prod_ProductCode old),
         (''23514'', btrim_nonempty (prod_Name new) \<and> prod_Status new \<in> set [''active'', ''inactive''] \<and>
                     is_object (prod_Configuration new) \<and> 0 < prod_ConfigurationVersion new)])
      P f (card_products d))"

definition guard_masked_pan :: "card_row \<Rightarrow> card_row \<Rightarrow> bool" where
  "guard_masked_pan old new \<longleftrightarrow>
     (card_MaskedPAN old \<noteq> None \<longrightarrow> card_MaskedPAN new = card_MaskedPAN old) \<and>
     (case card_MaskedPAN new of None \<Rightarrow> True | Some s \<Rightarrow> is_masked_pan s)"

definition update_cards ::
  "(card_row \<Rightarrow> bool) \<Rightarrow> (card_row \<Rightarrow> card_row) \<Rightarrow> shard_db \<Rightarrow> (nat \<times> shard_db) result" where
  "update_cards P f d = map_sum id (map_prod id (\<lambda>rows. d\<lparr>cards := rows\<rparr>))
     (guarded_update (\<lambda>old new.
        [(''P0001'', card_key new = card_key old \<and> card_CreatedAt new = card_CreatedAt old \<and>
                     card_created_by new = card_created_by old),
         (''P0001'', guard_masked_pan old new),
         (''23514'', is_card_state (card_Status new) \<and> 0 < card_Version new)])
      P f (cards d))"

definition update_operations ::
  "(operation_row \<Rightarrow> bool) \<Rightarrow> (operation_row \<Rightarrow> operation_row) \<Rightarrow> shard_db \<Rightarrow> (nat \<times> shard_db) result" where
  "update_operations P f d = map_sum id (map_prod id (\<lambda>rows. d\<lparr>card_operations := rows\<rparr>))
     (guarded_update (\<lambda>old new.
        [(''P0001'', operation_key new = operation_key old \<and> op_CreatedAt new = op_CreatedAt old \<and>
                     op_created_by new = op_created_by old),
         (''P0001'', op_CardID new = op_CardID old \<and> op_Action new = op_Action old \<and>
                     op_Reason new = op_Reason old \<and> op_actor_user_id new = op_actor_user_id old \<and>
                     op_actor_role new = op_actor_role old \<and>
                     op_actor_entity_id new = op_actor_entity_id old \<and>
                     op_request_id new = op_request_id old),
         (''23514'', operation_checks new)])
      P f (card_operations d))"

definition update_idempotency ::
  "(idempotency_row \<Rightarrow> bool) \<Rightarrow> (idempotency_row \<Rightarrow> idempotency_row) \<Rightarrow> shard_db \<Rightarrow> (nat \<times> shard_db) result" where
  "update_idempotency P f d = map_sum id (map_prod id (\<lambda>rows. d\<lparr>idempotency_records := rows\<rparr>))
     (guarded_update (\<lambda>old new.
        [(''P0001'', idempotency_id_key new = idempotency_id_key old \<and>
                     idem_created_at new = idem_created_at old \<and>
                     idem_created_by new = idem_created_by old),
         (''23514'', idempotency_checks new)])
      P f (idempotency_records d))"

text \<open>\<open>guard_batch_state\<close>: the batch state machine with its lease and its result counts.\<close>

definition batch_items_of :: "shard_db \<Rightarrow> uuid \<Rightarrow> uuid \<Rightarrow> batch_item_row list" where
  "batch_items_of d bank batch =
     filter (\<lambda>i. bi_entity i = bank \<and> bi_batch_id i = batch) (card_status_batch_items d)"

definition batch_next_states :: "string \<Rightarrow> string list" where
  "batch_next_states s =
     (if s = ''draft'' then [''queued'', ''cancelled'']
      else if s = ''queued'' then [''processing'', ''cancelled'']
      else if s = ''processing'' then [''queued'', ''succeeded'', ''failed'']
      else [])"

definition lease_current :: "time \<Rightarrow> string option \<Rightarrow> time option \<Rightarrow> bool" where
  "lease_current now holder expires \<longleftrightarrow>
     (case holder of None \<Rightarrow> True | Some x \<Rightarrow> btrim_nonempty x) \<and>
     (case expires of None \<Rightarrow> True | Some t \<Rightarrow> now < t)"

definition batch_results_ok :: "shard_db \<Rightarrow> batch_row \<Rightarrow> batch_row \<Rightarrow> bool" where
  "batch_results_ok d old new =
     (let items = batch_items_of d (batch_entity new) (batch_ID new);
          applied = affected (\<lambda>i. bi_outcome i = ''applied'') items;
          ignored = affected (\<lambda>i. bi_outcome i = ''ignored'') items
      in (batch_Status old = ''draft'' \<and> batch_Status new = ''queued'' \<longrightarrow>
            length items = batch_ItemCount new \<and> batch_AppliedCount new = 0 \<and> batch_IgnoredCount new = 0) \<and>
         (batch_Status new = ''succeeded'' \<longrightarrow>
            applied = batch_AppliedCount new \<and> ignored = batch_IgnoredCount new \<and>
            list_all (\<lambda>i. bi_outcome i \<in> set [''applied'', ''ignored'']) items \<and>
            applied + ignored = batch_ItemCount new \<and> batch_CompletedAt new \<noteq> None) \<and>
         (batch_Status new = ''failed'' \<longrightarrow>
            batch_AppliedCount new = 0 \<and> batch_IgnoredCount new = ignored \<and>
            list_all (\<lambda>i. bi_outcome i \<in> set [''ignored'', ''not_applied'']) items \<and>
            batch_CompletedAt new \<noteq> None) \<and>
         (batch_Status new = ''cancelled'' \<longrightarrow>
            batch_AppliedCount new = 0 \<and> batch_IgnoredCount new = 0 \<and> batch_CompletedAt new \<noteq> None))"

definition guard_batch_state :: "shard_db \<Rightarrow> time \<Rightarrow> batch_row \<Rightarrow> batch_row \<Rightarrow> bool" where
  "guard_batch_state d now old new =
     (if batch_Status new = batch_Status old
      then (batch_Status new = ''processing'' \<longrightarrow>
              batch_lease_owner new = batch_lease_owner old \<and>
              batch_lease_version new = batch_lease_version old \<and>
              lease_current now (batch_lease_owner new) (batch_lease_expires_at new)) \<and>
           (batch_Status new \<in> set [''succeeded'', ''failed'', ''cancelled''] \<longrightarrow>
              batch_AppliedCount new = batch_AppliedCount old \<and>
              batch_IgnoredCount new = batch_IgnoredCount old \<and>
              batch_CompletedAt new = batch_CompletedAt old \<and>
              batch_FailureCode new = batch_FailureCode old \<and>
              batch_FailureSummary new = batch_FailureSummary old)
      else batch_Status new \<in> set (batch_next_states (batch_Status old)) \<and>
           (if batch_Status new = ''processing''
            then batch_lease_version new = batch_lease_version old + 1 \<and>
                 lease_current now (batch_lease_owner new) (batch_lease_expires_at new)
            else batch_lease_owner new = None \<and> batch_lease_expires_at new = None) \<and>
           batch_results_ok d old new)"

definition guard_batch_request :: "batch_row \<Rightarrow> batch_row \<Rightarrow> bool" where
  "guard_batch_request old new \<longleftrightarrow>
     batch_TargetStatus new = batch_TargetStatus old \<and> batch_Reason new = batch_Reason old \<and>
     batch_CreatedBy new = batch_CreatedBy old \<and> batch_RequesterRole new = batch_RequesterRole old \<and>
     batch_requester_entity_id new = batch_requester_entity_id old \<and>
     batch_request_id new = batch_request_id old \<and>
     batch_idempotency_record_id new = batch_idempotency_record_id old \<and>
     batch_ItemCount new = batch_ItemCount old \<and> batch_RetryOfBatchID new = batch_RetryOfBatchID old"

definition update_batches ::
  "time \<Rightarrow> (batch_row \<Rightarrow> bool) \<Rightarrow> (batch_row \<Rightarrow> batch_row) \<Rightarrow> shard_db \<Rightarrow> (nat \<times> shard_db) result" where
  "update_batches now P f d = map_sum id (map_prod id (\<lambda>rows. d\<lparr>card_status_batches := rows\<rparr>))
     (guarded_update (\<lambda>old new.
        [(''P0001'', guard_batch_request old new),
         (''P0001'', guard_batch_state d now old new),
         (''P0001'', batch_key new = batch_key old \<and> batch_CreatedAt new = batch_CreatedAt old \<and>
                     batch_created_by new = batch_created_by old),
         (''23514'', batch_checks new)])
      P f (card_status_batches d))"

definition guard_batch_item_result :: "shard_db \<Rightarrow> batch_item_row \<Rightarrow> batch_item_row \<Rightarrow> bool" where
  "guard_batch_item_result d old new \<longleftrightarrow>
     (bi_outcome new = bi_outcome old \<and> bi_previous_status new = bi_previous_status old \<and>
      bi_failure_code new = bi_failure_code old) \<or>
     (exists_row (\<lambda>b. batch_key b = (bi_entity new, bi_batch_id new) \<and> batch_Status b = ''processing'')
        (card_status_batches d) \<and>
      bi_outcome old = ''pending'' \<and> bi_outcome new \<in> set [''applied'', ''not_applied'', ''ignored''])"

definition update_batch_items ::
  "(batch_item_row \<Rightarrow> bool) \<Rightarrow> (batch_item_row \<Rightarrow> batch_item_row) \<Rightarrow> shard_db \<Rightarrow> (nat \<times> shard_db) result" where
  "update_batch_items P f d = map_sum id (map_prod id (\<lambda>rows. d\<lparr>card_status_batch_items := rows\<rparr>))
     (guarded_update (\<lambda>old new.
        [(''P0001'', bi_batch_id new = bi_batch_id old \<and> bi_card_id new = bi_card_id old \<and>
                     bi_operation_id new = bi_operation_id old),
         (''P0001'', guard_batch_item_result d old new),
         (''P0001'', batch_item_key new = batch_item_key old),
         (''23514'', batch_item_checks new)])
      P f (card_status_batch_items d))"

definition expiry_items_of :: "shard_db \<Rightarrow> uuid \<Rightarrow> uuid \<Rightarrow> expiry_item_row list" where
  "expiry_items_of d bank run =
     filter (\<lambda>i. ei_entity i = bank \<and> ei_expiry_run_id i = run) (card_expiry_run_items d)"

definition count_status :: "string \<Rightarrow> expiry_item_row list \<Rightarrow> nat" where
  "count_status s items = affected (\<lambda>i. ei_status i = s) items"

definition terminal_expiry_states :: "string list" where
  "terminal_expiry_states = [''expired'', ''skipped_already_expired'', ''manual_retry_required'']"

definition guard_expiry_run :: "shard_db \<Rightarrow> expiry_run_row \<Rightarrow> expiry_run_row \<Rightarrow> bool" where
  "guard_expiry_run d old new \<longleftrightarrow>
     er_run_date new = er_run_date old \<and> er_executor_identity new = er_executor_identity old \<and>
     (er_status new = ''completed'' \<and> er_status old = ''completed'' \<longrightarrow>
        er_item_count new = er_item_count old \<and> er_expired_count new = er_expired_count old \<and>
        er_skipped_already_expired_count new = er_skipped_already_expired_count old \<and>
        er_manual_retry_required_count new = er_manual_retry_required_count old \<and>
        er_completed_at new = er_completed_at old) \<and>
     (er_status new = ''completed'' \<longrightarrow>
        (let items = expiry_items_of d (er_entity new) (er_id new) in
         er_expired_count new = count_status ''expired'' items \<and>
         er_skipped_already_expired_count new = count_status ''skipped_already_expired'' items \<and>
         er_manual_retry_required_count new = count_status ''manual_retry_required'' items \<and>
         list_all (\<lambda>i. ei_status i \<in> set terminal_expiry_states) items \<and>
         length items = er_item_count new \<and> er_completed_at new \<noteq> None))"

definition update_expiry_runs ::
  "(expiry_run_row \<Rightarrow> bool) \<Rightarrow> (expiry_run_row \<Rightarrow> expiry_run_row) \<Rightarrow> shard_db \<Rightarrow> (nat \<times> shard_db) result" where
  "update_expiry_runs P f d = map_sum id (map_prod id (\<lambda>rows. d\<lparr>card_expiry_runs := rows\<rparr>))
     (guarded_update (\<lambda>old new.
        [(''P0001'', guard_expiry_run d old new),
         (''P0001'', expiry_run_key new = expiry_run_key old \<and> er_created_at new = er_created_at old),
         (''23514'', er_status new \<in> set [''processing'', ''completed''] \<and>
                     er_expired_count new + er_skipped_already_expired_count new +
                       er_manual_retry_required_count new \<le> er_item_count new)])
      P f (card_expiry_runs d))"

definition card_status_of :: "shard_db \<Rightarrow> uuid \<Rightarrow> uuid \<Rightarrow> string option" where
  "card_status_of d bank cid =
     map_option card_Status (query_row (\<lambda>c. card_key c = (bank, cid)) (cards d))"

definition guard_expiry_run_item :: "shard_db \<Rightarrow> time \<Rightarrow> expiry_item_row \<Rightarrow> expiry_item_row \<Rightarrow> bool" where
  "guard_expiry_run_item d now old new \<longleftrightarrow>
     ei_expiry_run_id new = ei_expiry_run_id old \<and> ei_card_id new = ei_card_id old \<and>
     ei_operation_id new = ei_operation_id old \<and>
     (if ei_status new = ei_status old
      then (ei_status new = ''processing'' \<longrightarrow>
              ei_lease_owner new = ei_lease_owner old \<and> ei_lease_version new = ei_lease_version old \<and>
              lease_current now (ei_lease_owner new) (ei_lease_expires_at new)) \<and>
           (ei_status new \<in> set terminal_expiry_states \<longrightarrow>
              ei_attempt_count new = ei_attempt_count old \<and>
              ei_automatic_retry_count new = ei_automatic_retry_count old \<and>
              ei_manual_retry_count new = ei_manual_retry_count old \<and>
              ei_failure_code new = ei_failure_code old \<and>
              ei_manual_retry_by new = ei_manual_retry_by old \<and>
              ei_manual_retry_at new = ei_manual_retry_at old)
      else exists_row (\<lambda>r. expiry_run_key r = (ei_entity new, ei_expiry_run_id new) \<and>
                            er_status r = ''processing'') (card_expiry_runs d) \<and>
           (if ei_status new = ''processing''
            then card_status_of d (ei_entity new) (ei_card_id new) \<noteq> Some ''expired'' \<and>
                 ei_status old = ''pending'' \<and> ei_lease_version new = ei_lease_version old + 1
            else if ei_status new = ''pending''
            then (if ei_status old = ''processing''
                  then ei_automatic_retry_count new = ei_automatic_retry_count old + 1 \<and>
                       ei_automatic_retry_count new \<le> 3 \<and> ei_attempt_count new = ei_attempt_count old + 1
                  else ei_status old = ''manual_retry_required'' \<and>
                       card_status_of d (ei_entity new) (ei_card_id new) \<noteq> Some ''expired'' \<and>
                       ei_automatic_retry_count new = ei_automatic_retry_count old \<and>
                       ei_manual_retry_count new = ei_manual_retry_count old + 1 \<and>
                       ei_manual_retry_by new \<noteq> None \<and> ei_manual_retry_at new \<noteq> None)
            else if ei_status new = ''manual_retry_required''
            then ei_status old = ''processing'' \<and> ei_automatic_retry_count new = 3 \<and>
                 ei_attempt_count new = ei_attempt_count old + 1
            else ei_status new \<in> set [''expired'', ''skipped_already_expired''] \<and>
                 ei_status old \<in> set [''pending'', ''processing''] \<and>
                 (ei_status old = ''processing'' \<longrightarrow> ei_attempt_count new = ei_attempt_count old + 1)) \<and>
           (ei_status new \<noteq> ''processing'' \<longrightarrow> ei_lease_owner new = None \<and> ei_lease_expires_at new = None))"

definition expiry_item_checks :: "expiry_item_row \<Rightarrow> bool" where
  "expiry_item_checks r \<longleftrightarrow>
     ei_status r \<in> set (''pending'' # ''processing'' # terminal_expiry_states) \<and>
     ei_automatic_retry_count r \<le> 3 \<and>
     (ei_status r = ''processing'') = (ei_lease_owner r \<noteq> None \<and> ei_lease_expires_at r \<noteq> None) \<and>
     (ei_manual_retry_by r = None) = (ei_manual_retry_at r = None) \<and>
     (case ei_failure_code r of None \<Rightarrow> True | Some s \<Rightarrow> s = ''expiry_failed'')"

definition update_expiry_items ::
  "time \<Rightarrow> (expiry_item_row \<Rightarrow> bool) \<Rightarrow> (expiry_item_row \<Rightarrow> expiry_item_row) \<Rightarrow> shard_db \<Rightarrow>
   (nat \<times> shard_db) result" where
  "update_expiry_items now P f d = map_sum id (map_prod id (\<lambda>rows. d\<lparr>card_expiry_run_items := rows\<rparr>))
     (guarded_update (\<lambda>old new.
        [(''P0001'', guard_expiry_run_item d now old new),
         (''P0001'', expiry_item_key new = expiry_item_key old \<and> ei_created_at new = ei_created_at old),
         (''23514'', expiry_item_checks new)])
      P f (card_expiry_run_items d))"

lemma map_sum_Inr_iff: "map_sum id g x = Inr y \<longleftrightarrow> (\<exists>z. x = Inr z \<and> y = g z)"
  by (cases x) auto

lemma update_result:
  "update_entities P f d = Inr (n, d') \<Longrightarrow> n = affected P (entities d)
     \<and> d' = d\<lparr>entities := update_where P f (entities d)\<rparr>"
  "update_clients P2 f2 d = Inr (n, d') \<Longrightarrow> n = affected P2 (clients d)
     \<and> d' = d\<lparr>clients := update_where P2 f2 (clients d)\<rparr>"
  "update_accounts P3 f3 d = Inr (n, d') \<Longrightarrow> n = affected P3 (account_references d)
     \<and> d' = d\<lparr>account_references := update_where P3 f3 (account_references d)\<rparr>"
  "update_products P4 f4 d = Inr (n, d') \<Longrightarrow> n = affected P4 (card_products d)
     \<and> d' = d\<lparr>card_products := update_where P4 f4 (card_products d)\<rparr>"
  "update_cards P5 f5 d = Inr (n, d') \<Longrightarrow> n = affected P5 (cards d)
     \<and> d' = d\<lparr>cards := update_where P5 f5 (cards d)\<rparr>"
  "update_operations P6 f6 d = Inr (n, d') \<Longrightarrow> n = affected P6 (card_operations d)
     \<and> d' = d\<lparr>card_operations := update_where P6 f6 (card_operations d)\<rparr>"
  "update_idempotency P7 f7 d = Inr (n, d') \<Longrightarrow> n = affected P7 (idempotency_records d)
     \<and> d' = d\<lparr>idempotency_records := update_where P7 f7 (idempotency_records d)\<rparr>"
  "update_batches now P8 f8 d = Inr (n, d') \<Longrightarrow> n = affected P8 (card_status_batches d)
     \<and> d' = d\<lparr>card_status_batches := update_where P8 f8 (card_status_batches d)\<rparr>"
  "update_batch_items P9 f9 d = Inr (n, d') \<Longrightarrow> n = affected P9 (card_status_batch_items d)
     \<and> d' = d\<lparr>card_status_batch_items := update_where P9 f9 (card_status_batch_items d)\<rparr>"
  "update_expiry_runs P10 f10 d = Inr (n, d') \<Longrightarrow> n = affected P10 (card_expiry_runs d)
     \<and> d' = d\<lparr>card_expiry_runs := update_where P10 f10 (card_expiry_runs d)\<rparr>"
  "update_expiry_items now P11 f11 d = Inr (n, d') \<Longrightarrow> n = affected P11 (card_expiry_run_items d)
     \<and> d' = d\<lparr>card_expiry_run_items := update_where P11 f11 (card_expiry_run_items d)\<rparr>"
  by (auto simp: update_entities_def update_clients_def update_accounts_def update_products_def
      update_cards_def update_operations_def update_idempotency_def update_batches_def
      update_batch_items_def update_expiry_runs_def update_expiry_items_def
      map_sum_Inr_iff guarded_update_Inr)

end
