(* ===== verification/Transactions.thy ===== *)
theory Transactions
  imports Domain
begin

text \<open>
  Database transactions as the stores use them, for any schema \<open>'d\<close>: the world holds the
  committed tables and the view of the open transaction; the environment supplies what the program
  cannot choose: faults of the connection, \<open>clock_timestamp()\<close>, \<open>gen_random_uuid()\<close>,
  \<open>time.Now\<close> and \<open>crypto/rand\<close>, each indexed by the number of the interaction. A fault
  of a commit either prevents it or loses its acknowledgement (\<open>Lost\<close>). Transactions run one after
  the other; what other clients commit between two of them is arbitrary. The shards
  (\<open>Reader.beginTenant\<close>, \<open>transaction.Commit\<close>) and the control database use it.
\<close>

section \<open>Environment and world\<close>

datatype fault = NoFault | Fail go_error | Lost go_error

record environment =
  fault_at :: "nat \<Rightarrow> fault"
  clock_timestamp :: "nat \<Rightarrow> time"
  gen_random_uuid :: "nat \<Rightarrow> nat \<Rightarrow> uuid"
  time_Now :: "nat \<Rightarrow> time"
  rand_source :: "nat \<Rightarrow> (nat \<Rightarrow> byte) option"

record 'd tx_world =
  durable :: 'd
  view :: 'd
  tx_start :: time
  tick :: nat

text \<open>What a statement sees: the clock, \<open>now()\<close> (the start of the transaction), fresh ids.\<close>

record sql_context =
  sql_clock :: time
  sql_now :: time
  sql_uuid :: "nat \<Rightarrow> uuid"

definition no_faults :: "environment \<Rightarrow> bool" where
  "no_faults env \<longleftrightarrow> (\<forall>n. fault_at env n = NoFault)"

definition no_lost_commits :: "environment \<Rightarrow> bool" where
  "no_lost_commits env \<longleftrightarrow> (\<forall>n e. fault_at env n \<noteq> Lost e)"

lemma no_faults_at [simp]: "no_faults env \<Longrightarrow> fault_at env n = NoFault"
  by (simp add: no_faults_def)

lemma no_faults_no_lost: "no_faults env \<Longrightarrow> no_lost_commits env"
  by (simp add: no_faults_def no_lost_commits_def)

section \<open>Statements and transactions\<close>

definition ticked :: "('d, 'm) tx_world_scheme \<Rightarrow> ('d, 'm) tx_world_scheme" where
  "ticked w = w\<lparr>tick := Suc (tick w)\<rparr>"

definition statement ::
  "environment \<Rightarrow> (sql_context \<Rightarrow> 'd \<Rightarrow> ('a \<times> 'd) result) \<Rightarrow> (('d, 'm) tx_world_scheme, 'a) prog"
  where
  "statement env f = (\<lambda>w.
     case fault_at env (tick w) of
       NoFault \<Rightarrow>
         (case f \<lparr>sql_clock = clock_timestamp env (tick w), sql_now = tx_start w,
                  sql_uuid = gen_random_uuid env (tick w)\<rparr> (view w) of
            Inl e \<Rightarrow> (Inl e, ticked w)
          | Inr (x, d) \<Rightarrow> (Inr x, (ticked w)\<lparr>view := d\<rparr>))
     | Fail e \<Rightarrow> (Inl e, ticked w)
     | Lost e \<Rightarrow> (Inl e, ticked w))"

definition Rollback :: "('d, 'm) tx_world_scheme \<Rightarrow> ('d, 'm) tx_world_scheme" where
  "Rollback w = w\<lparr>view := durable w\<rparr>"

definition Commit :: "environment \<Rightarrow> (('d, 'm) tx_world_scheme, unit) prog" where
  "Commit env = (\<lambda>w.
     case fault_at env (tick w) of
       NoFault \<Rightarrow> (Inr (), (ticked w)\<lparr>durable := view w\<rparr>)
     | Fail e \<Rightarrow> (Inl e, ticked w)
     | Lost e \<Rightarrow> (Inl e, (ticked w)\<lparr>durable := view w\<rparr>))"

definition pool_Begin :: "environment \<Rightarrow> (('d, 'm) tx_world_scheme, unit) prog" where
  "pool_Begin env = (\<lambda>w.
     case fault_at env (tick w) of
       NoFault \<Rightarrow> (Inr (), (ticked w)\<lparr>view := durable w, tx_start := clock_timestamp env (tick w)\<rparr>)
     | Fail e \<Rightarrow> (Inl e, ticked w)
     | Lost e \<Rightarrow> (Inl e, ticked w))"

definition beginTenant :: "environment \<Rightarrow> uuid \<Rightarrow> (('d, 'm) tx_world_scheme, unit) prog" where
  "beginTenant env bank =
     andThen (pool_Begin env) (\<lambda>_.
     compensated (statement env (\<lambda>_ d. Inr ((), d))) Rollback)"

text \<open>\<open>tx, err := beginTenant(...); defer tx.Rollback(ctx); body\<close>\<close>

definition transaction :: "environment \<Rightarrow> uuid \<Rightarrow> (('d, 'm) tx_world_scheme, 'a) prog \<Rightarrow>
    (('d, 'm) tx_world_scheme, 'a) prog" where
  "transaction env bank body = andThen (beginTenant env bank) (\<lambda>_. deferred body Rollback)"

definition read_only :: "('d \<Rightarrow> 'a result) \<Rightarrow> sql_context \<Rightarrow> 'd \<Rightarrow> ('a \<times> 'd) result" where
  "read_only q = (\<lambda>_ d. map_sum id (\<lambda>x. (x, d)) (q d))"

definition exec :: "(sql_context \<Rightarrow> 'd \<Rightarrow> 'd result) \<Rightarrow> sql_context \<Rightarrow> 'd \<Rightarrow>
    (unit \<times> 'd) result" where
  "exec f = (\<lambda>ctx d. map_sum id (\<lambda>d'. ((), d')) (f ctx d))"

definition exec_rows :: "(sql_context \<Rightarrow> 'd \<Rightarrow> (nat \<times> 'd) result) \<Rightarrow> sql_context \<Rightarrow> 'd \<Rightarrow>
    (unit \<times> 'd) result" where
  "exec_rows f = (\<lambda>ctx d. map_sum id (\<lambda>r. ((), snd r)) (f ctx d))"

definition time_now :: "environment \<Rightarrow> (('d, 'm) tx_world_scheme, time) prog" where
  "time_now env = (\<lambda>w. (Inr (time_Now env (tick w)), ticked w))"

definition rand_Read :: "environment \<Rightarrow> nat \<Rightarrow> (('d, 'm) tx_world_scheme, bytes) prog" where
  "rand_Read env n = (\<lambda>w.
     case rand_source env (tick w) of
       None \<Rightarrow> (Inl (PlainError ''rand''), ticked w)
     | Some f \<Rightarrow> (Inr (map f [0..<n]), ticked w))"

section \<open>Lemmas\<close>

lemma ticked_simps [simp]:
  "durable (ticked w) = durable w" "view (ticked w) = view w" "tx_start (ticked w) = tx_start w"
  "tick (ticked w) = Suc (tick w)" "tx_world.more (ticked w) = tx_world.more w"
  by (simp_all add: ticked_def)

lemma Rollback_simps [simp]:
  "durable (Rollback w) = durable w" "view (Rollback w) = durable w" "tick (Rollback w) = tick w"
  "tx_world.more (Rollback w) = tx_world.more w"
  by (simp_all add: Rollback_def)

text \<open>The contexts in which some statement of the environment runs.\<close>

definition context_of :: "environment \<Rightarrow> ('d, 'm) tx_world_scheme \<Rightarrow> sql_context" where
  "context_of env w = \<lparr>sql_clock = clock_timestamp env (tick w), sql_now = tx_start w,
     sql_uuid = gen_random_uuid env (tick w)\<rparr>"

lemma statement_InrE:
  assumes "statement env f w = (Inr x, w')"
  obtains "f (context_of env w) (view w) = Inr (x, view w')"
    and "durable w' = durable w" and "tx_world.more w' = tx_world.more w"
    and "tx_start w' = tx_start w" and "tick w' = Suc (tick w)"
  using assms
  by (auto simp: statement_def context_of_def split: fault.splits sum.splits prod.splits)

lemma statement_InlE:
  assumes "statement env f w = (Inl e, w')"
  obtains "view w' = view w" and "durable w' = durable w" and "tx_world.more w' = tx_world.more w"
    and "tick w' = Suc (tick w)"
    and "fault_at env (tick w) = NoFault \<Longrightarrow> f (context_of env w) (view w) = Inl e"
  using assms
  by (auto simp: statement_def context_of_def split: fault.splits sum.splits prod.splits)

lemma statement_run:
  "no_faults env \<Longrightarrow> f (context_of env w) (view w) = Inr (x, d) \<Longrightarrow>
   statement env f w = (Inr x, (ticked w)\<lparr>view := d\<rparr>)"
  by (simp add: statement_def context_of_def)

lemma read_only_Inr: "read_only q ctx d = Inr (x, d') \<longleftrightarrow> q d = Inr x \<and> d' = d"
  by (cases "q d") (auto simp: read_only_def)

lemma exec_Inr: "exec f ctx d = Inr (u, d') \<longleftrightarrow> f ctx d = Inr d'"
  by (cases "f ctx d") (auto simp: exec_def)

lemma exec_rows_Inr: "exec_rows f ctx d = Inr (u, d') \<longleftrightarrow> (\<exists>n. f ctx d = Inr (n, d'))"
  by (cases "f ctx d") (auto simp: exec_rows_def)

lemma statement_exec_rowsE:
  assumes "statement env (exec_rows f) w = (Inr u, w')"
  obtains n where "f (context_of env w) (view w) = Inr (n, view w')"
  using assms by (auto elim!: statement_InrE simp: exec_rows_Inr)

lemma statement_execE:
  assumes "statement env (exec f) w = (Inr u, w')"
  obtains "f (context_of env w) (view w) = Inr (view w')"
  using assms by (auto elim!: statement_InrE simp: exec_Inr)

lemma statement_readE:
  assumes "statement env (read_only q) w = (Inr x, w')"
  obtains "q (view w) = Inr x" and "view w' = view w" and "durable w' = durable w"
    and "tx_world.more w' = tx_world.more w"
  using assms by (auto elim!: statement_InrE simp: read_only_Inr)

lemma exec_Inl: "exec f ctx d = Inl e \<longleftrightarrow> f ctx d = Inl e"
  by (cases "f ctx d") (auto simp: exec_def)

lemma Commit_InrE:
  assumes "Commit env w = (Inr u, w')"
  obtains "durable w' = view w" and "view w' = view w" and "tx_world.more w' = tx_world.more w"
  using assms by (auto simp: Commit_def split: fault.splits)

lemma beginTenant_InrE:
  assumes "beginTenant env bank w = (Inr u, w')"
  obtains "view w' = durable w" and "durable w' = durable w"
    and "tx_world.more w' = tx_world.more w"
  using assms
  by (auto simp: beginTenant_def pool_Begin_def andThen_def compensated_def statement_def
      split: fault.splits prod.splits sum.splits)

lemma beginTenant_run:
  assumes "no_faults env"
  shows "beginTenant env bank w =
    (Inr (), w\<lparr>view := durable w, tx_start := clock_timestamp env (tick w), tick := Suc (Suc (tick w))\<rparr>)"
  using assms by (simp add: beginTenant_def pool_Begin_def andThen_def compensated_def statement_def
      ticked_def)

subsection \<open>Programs that keep a part of the world\<close>

named_theorems keeps_intros "programs that keep a component of their state"

definition keeps :: "('s \<Rightarrow> 'c) \<Rightarrow> ('s, 'a) prog \<Rightarrow> bool" where
  "keeps g m \<longleftrightarrow> (\<forall>s. g (snd (m s)) = g s)"

lemma keepsD: "keeps g m \<Longrightarrow> m s = (r, s') \<Longrightarrow> g s' = g s"
  unfolding keeps_def by (metis snd_conv)

lemma keeps_ret [keeps_intros]: "keeps g (ret x)"
  by (simp add: keeps_def ret_def)

lemma keeps_throw [keeps_intros]: "keeps g (throw e)"
  by (simp add: keeps_def throw_def)

lemma keeps_liftResult [keeps_intros]: "keeps g (liftResult r)"
  by (simp add: keeps_def liftResult_def)

lemma keeps_andThen [keeps_intros]: "keeps g m \<Longrightarrow> (\<And>x. keeps g (f x)) \<Longrightarrow> keeps g (andThen m f)"
  unfolding keeps_def andThen_def by (auto split: prod.splits sum.splits) (metis snd_conv)+

lemma keeps_onError [keeps_intros]: "keeps g m \<Longrightarrow> keeps g (onError m h)"
  unfolding keeps_def onError_def by (auto split: prod.splits sum.splits) (metis snd_conv)+

lemma keeps_if [keeps_intros]: "keeps g m \<Longrightarrow> keeps g m' \<Longrightarrow> keeps g (if b then m else m')"
  by simp

lemma keeps_option [keeps_intros]:
  "keeps g m \<Longrightarrow> (\<And>x. keeps g (f x)) \<Longrightarrow> keeps g (case y of None \<Rightarrow> m | Some x \<Rightarrow> f x)"
  by (cases y) simp_all

lemma keeps_prod [keeps_intros]:
  "(\<And>a b. keeps g (f a b)) \<Longrightarrow> keeps g (case p of (a, b) \<Rightarrow> f a b)"
  by (cases p) simp

lemma keeps_statement_durable [keeps_intros]: "keeps durable (statement env f)"
  by (auto simp: keeps_def statement_def split: fault.splits sum.splits prod.splits)

lemma keeps_statement_more [keeps_intros]: "keeps tx_world.more (statement env f)"
  by (auto simp: keeps_def statement_def split: fault.splits sum.splits prod.splits)

lemma keeps_time_now [keeps_intros]:
  "keeps durable (time_now env)" "keeps tx_world.more (time_now env)" "keeps view (time_now env)"
  by (simp_all add: keeps_def time_now_def)

lemma keeps_rand_Read [keeps_intros]:
  "keeps durable (rand_Read env n)" "keeps tx_world.more (rand_Read env n)"
  "keeps view (rand_Read env n)"
  by (auto simp: keeps_def rand_Read_def split: option.splits)

lemma keeps_deferred_Rollback [keeps_intros]:
  "keeps durable m \<Longrightarrow> keeps durable (deferred m Rollback)"
  "keeps tx_world.more m' \<Longrightarrow> keeps tx_world.more (deferred m' Rollback)"
  by (auto simp: keeps_def deferred_def split: prod.splits) (metis snd_conv)+

lemma keeps_beginTenant [keeps_intros]:
  "keeps durable (beginTenant env bank)" "keeps tx_world.more (beginTenant env bank)"
  by (auto simp: keeps_def beginTenant_def pool_Begin_def andThen_def compensated_def statement_def
      split: fault.splits sum.splits prod.splits)

lemma keeps_Commit_more [keeps_intros]: "keeps tx_world.more (Commit env)"
  by (auto simp: keeps_def Commit_def split: fault.splits)

subsection \<open>Invariants of the tables\<close>

text \<open>\<open>maintains I m\<close>: an invariant of the transaction's view holds after \<open>m\<close>, however it exits.\<close>

named_theorems maintains_intros "programs that maintain an invariant of the tables"

definition maintains :: "('d \<Rightarrow> bool) \<Rightarrow> (('d, 'm) tx_world_scheme, 'a) prog \<Rightarrow> bool" where
  "maintains I m \<longleftrightarrow> (\<forall>w. I (view w) \<longrightarrow> I (view (snd (m w))))"

lemma maintainsD: "maintains I m \<Longrightarrow> m w = (r, w') \<Longrightarrow> I (view w) \<Longrightarrow> I (view w')"
  unfolding maintains_def by (metis snd_conv)

lemma maintains_keeps: "keeps view m \<Longrightarrow> maintains I m"
  by (simp add: maintains_def keeps_def)

lemma maintains_simple [maintains_intros]:
  "maintains I (ret x)" "maintains I (throw e)" "maintains I (liftResult r)"
  "maintains I (time_now env)" "maintains I (rand_Read env n)"
  by (auto simp: maintains_def ret_def throw_def liftResult_def time_now_def rand_Read_def
      split: option.splits)

lemma maintains_andThen [maintains_intros]:
  "maintains I m \<Longrightarrow> (\<And>x. maintains I (f x)) \<Longrightarrow> maintains I (andThen m f)"
  unfolding maintains_def andThen_def by (auto split: prod.splits sum.splits; metis snd_conv)

lemma maintains_onError [maintains_intros]: "maintains I m \<Longrightarrow> maintains I (onError m h)"
  unfolding maintains_def onError_def by (auto split: prod.splits sum.splits; metis snd_conv)

lemma maintains_if [maintains_intros]:
  "maintains I m \<Longrightarrow> maintains I m' \<Longrightarrow> maintains I (if b then m else m')"
  by simp

lemma maintains_option [maintains_intros]:
  "maintains I m \<Longrightarrow> (\<And>x. maintains I (f x)) \<Longrightarrow> maintains I (case y of None \<Rightarrow> m | Some x \<Rightarrow> f x)"
  by (cases y) simp_all

lemma maintains_prod [maintains_intros]:
  "(\<And>a b. maintains I (f a b)) \<Longrightarrow> maintains I (case p of (a, b) \<Rightarrow> f a b)"
  by (cases p) simp

lemma maintains_statement:
  assumes "\<And>ctx d x d'. I d \<Longrightarrow> f ctx d = Inr (x, d') \<Longrightarrow> I d'"
  shows "maintains I (statement env f)"
  using assms by (auto simp: maintains_def statement_def split: fault.splits sum.splits prod.splits)

lemma maintains_read [maintains_intros]: "maintains I (statement env (read_only q))"
  by (rule maintains_statement) (simp add: read_only_Inr)

lemma maintains_Commit [maintains_intros]: "maintains I (Commit env)"
  by (auto simp: maintains_def Commit_def split: fault.splits)

subsection \<open>Atomicity\<close>

text \<open>
  \<open>atomic\<close>: a program that fails has not changed the committed tables. Whatever ends with a
  commit after statements only is atomic, as long as no acknowledgement of a commit is lost.
\<close>

definition atomic :: "(('d, 'm) tx_world_scheme, 'a) prog \<Rightarrow> bool" where
  "atomic m \<longleftrightarrow> (\<forall>w e w'. m w = (Inl e, w') \<longrightarrow> durable w' = durable w)"

named_theorems atomic_intros "programs that change nothing durable when they fail"

lemma atomicD: "atomic m \<Longrightarrow> m w = (Inl e, w') \<Longrightarrow> durable w' = durable w"
  by (simp add: atomic_def)

lemma atomic_keeps: "keeps durable m \<Longrightarrow> atomic m"
  by (auto simp: atomic_def dest: keepsD)

lemma atomic_Commit [atomic_intros]: "no_lost_commits env \<Longrightarrow> atomic (Commit env)"
  by (auto simp: atomic_def Commit_def no_lost_commits_def split: fault.splits)

lemma atomic_andThen [atomic_intros]:
  assumes "keeps durable m" and "\<And>x. atomic (f x)"
  shows "atomic (andThen m f)"
  unfolding atomic_def
proof (intro allI impI)
  fix w e w' assume "andThen m f w = (Inl e, w')"
  then show "durable w' = durable w"
    using assms by (elim andThen_InlE) (metis keepsD atomicD)+
qed

lemma atomic_Commit_ret [atomic_intros]:
  "no_lost_commits env \<Longrightarrow> atomic (andThen (Commit env) (\<lambda>_. ret x))"
  by (auto simp: atomic_def Commit_def andThen_def ret_def no_lost_commits_def split: fault.splits)

lemma atomic_onError [atomic_intros]: "atomic m \<Longrightarrow> atomic (onError m h)"
  by (auto simp: atomic_def onError_def split: prod.splits sum.splits)

lemma atomic_if [atomic_intros]: "atomic m \<Longrightarrow> atomic m' \<Longrightarrow> atomic (if b then m else m')"
  by simp

lemma atomic_option [atomic_intros]:
  "atomic m \<Longrightarrow> (\<And>x. atomic (f x)) \<Longrightarrow> atomic (case y of None \<Rightarrow> m | Some x \<Rightarrow> f x)"
  by (cases y) simp_all

lemma atomic_prod [atomic_intros]: "(\<And>a b. atomic (f a b)) \<Longrightarrow> atomic (case p of (a, b) \<Rightarrow> f a b)"
  by (cases p) simp

lemma atomic_ret [atomic_intros]: "atomic (ret x)"
  by (simp add: atomic_def ret_def)

lemma atomic_throw [atomic_intros]: "atomic (throw e)"
  by (simp add: atomic_def throw_def)

lemma atomic_deferred [atomic_intros]: "atomic m \<Longrightarrow> atomic (deferred m Rollback)"
  by (auto simp: atomic_def deferred_def split: prod.splits)

lemma atomic_transaction [atomic_intros]:
  "atomic m \<Longrightarrow> atomic (transaction env bank m)"
  unfolding transaction_def by (intro atomic_andThen keeps_beginTenant atomic_deferred)

lemma transaction_InrE:
  assumes "transaction env bank m w = (Inr x, w')"
  obtains w1 w2 where "view w1 = durable w" and "durable w1 = durable w"
    and "tx_world.more w1 = tx_world.more w"
    and "m w1 = (Inr x, w2)" and "w' = Rollback w2"
proof -
  from assms obtain u w1 where b: "beginTenant env bank w = (Inr u, w1)"
      and d: "deferred m Rollback w1 = (Inr x, w')"
    unfolding transaction_def by (rule andThen_InrE)
  from d obtain w2 where "m w1 = (Inr x, w2)" "w' = Rollback w2"
    by (auto simp: deferred_def split: prod.splits)
  with b show thesis by (auto elim: beginTenant_InrE intro: that)
qed

subsection \<open>Invariants across commits\<close>

text \<open>
  \<open>preserves I m\<close>: when \<open>I\<close> holds of the committed tables and of the view, it holds of both
  after \<open>m\<close>, however it exits and whatever the faults do to its commits.
\<close>

named_theorems preserves_intros "programs that preserve an invariant of the committed tables"

definition preserves :: "('d \<Rightarrow> bool) \<Rightarrow> (('d, 'm) tx_world_scheme, 'a) prog \<Rightarrow> bool" where
  "preserves I m \<longleftrightarrow> (\<forall>w. I (view w) \<and> I (durable w) \<longrightarrow> I (view (snd (m w))) \<and> I (durable (snd (m w))))"

lemma preservesD:
  "preserves I m \<Longrightarrow> m w = (r, w') \<Longrightarrow> I (view w) \<Longrightarrow> I (durable w) \<Longrightarrow> I (view w') \<and> I (durable w')"
  unfolding preserves_def by (metis snd_conv)

lemma preserves_simple [preserves_intros]: "preserves I (ret x)" "preserves I (throw e)" "preserves I (liftResult r)"
  by (simp_all add: preserves_def ret_def throw_def liftResult_def)

lemma preserves_andThen [preserves_intros]:
  "preserves I m \<Longrightarrow> (\<And>x. preserves I (f x)) \<Longrightarrow> preserves I (andThen m f)"
  unfolding preserves_def andThen_def by (auto split: prod.splits sum.splits; metis snd_conv)

lemma preserves_if [preserves_intros]:
  "preserves I m \<Longrightarrow> preserves I m' \<Longrightarrow> preserves I (if b then m else m')"
  by simp

lemma preserves_option [preserves_intros]:
  "preserves I m \<Longrightarrow> (\<And>x. preserves I (f x)) \<Longrightarrow> preserves I (case y of None \<Rightarrow> m | Some x \<Rightarrow> f x)"
  by (cases y) simp_all

lemma preserves_prod [preserves_intros]:
  "(\<And>a b. preserves I (f a b)) \<Longrightarrow> preserves I (case p of (a, b) \<Rightarrow> f a b)"
  by (cases p) simp

lemma preserves_onError [preserves_intros]: "preserves I m \<Longrightarrow> preserves I (onError m h)"
  unfolding preserves_def onError_def by (auto split: prod.splits sum.splits; metis snd_conv)

lemma preserves_Commit [preserves_intros]: "preserves I (Commit env)"
  by (auto simp: preserves_def Commit_def split: fault.splits)

lemma preserves_statement:
  assumes "\<And>ctx d x d'. I d \<Longrightarrow> f ctx d = Inr (x, d') \<Longrightarrow> I d'"
  shows "preserves I (statement env f)"
  using assms by (auto simp: preserves_def statement_def split: fault.splits sum.splits prod.splits)

lemma preserves_read [preserves_intros]:
  "preserves I (statement env (read_only q))" "preserves I (statement env (\<lambda>ctx. read_only (q' ctx) ctx))"
  by (rule preserves_statement, simp add: read_only_Inr)+

lemma preserves_exec_rows:
  assumes "\<And>ctx d n d'. I d \<Longrightarrow> f ctx d = Inr (n, d') \<Longrightarrow> I d'"
  shows "preserves I (statement env (exec_rows f))"
  using assms by (intro preserves_statement) (auto simp: exec_rows_Inr)

lemma preserves_exec:
  assumes "\<And>ctx d d'. I d \<Longrightarrow> f ctx d = Inr d' \<Longrightarrow> I d'"
  shows "preserves I (statement env (exec f))"
  using assms by (intro preserves_statement) (auto simp: exec_Inr)

lemma preserves_transaction:
  assumes "preserves I m" and "I (durable w)"
  shows "I (durable (snd (transaction env bank m w)))"
proof (cases "beginTenant env bank w")
  case (Pair r w1)
  have "durable w1 = durable w" using keepsD [OF keeps_beginTenant(1) Pair] .
  moreover have "view w1 = durable w" if "r = Inr u" for u
    using that Pair by (auto elim: beginTenant_InrE)
  ultimately show ?thesis
    using assms Pair unfolding preserves_def
    by (cases r) (auto simp: transaction_def andThen_def deferred_def split: prod.splits, metis snd_conv)
qed

subsection \<open>A sample environment\<close>

text \<open>An environment with no faults and fresh ids, on which the theorems are exercised.\<close>

definition sample_env :: environment where
  "sample_env = \<lparr>fault_at = (\<lambda>_. NoFault), clock_timestamp = (\<lambda>n. 1000 + int n),
     gen_random_uuid = (\<lambda>n k. replicate (Suc n) CHR ''g'' @ replicate k CHR ''k''),
     time_Now = (\<lambda>n. 1000 + int n), rand_source = (\<lambda>n. Some (\<lambda>i. of_nat (n + i)))\<rparr>"

lemma sample_env_no_faults [simp]: "no_faults sample_env" "no_lost_commits sample_env"
  by (simp_all add: no_faults_def no_lost_commits_def sample_env_def)

lemma sample_env_fields [simp]:
  "fault_at sample_env n = NoFault" "clock_timestamp sample_env n = 1000 + int n"
  "time_Now sample_env n = 1000 + int n" "gen_random_uuid sample_env n 0 = replicate (Suc n) CHR ''g''"
  by (simp_all add: sample_env_def)

lemma sample_env_rand: "rand_source sample_env n = Some (\<lambda>i. of_nat (n + i))"
  by (simp add: sample_env_def)

end
