(* ===== verification/Shard_Tx.thy ===== *)
theory Shard_Tx
  imports Shard_Schema Transactions
begin

text \<open>Transactions on a shard: the world of \<open>Transactions\<close> over the shard's schema, and a sample of it.\<close>

type_synonym 'm shard_world_scheme = "(shard_db, 'm) tx_world_scheme"
type_synonym shard_world = "shard_db tx_world"

text \<open>A shard with one bank, a client, an account and an active product.\<close>

definition sample_db :: shard_db where
  "sample_db = empty_db\<lparr>
     entities := [\<lparr>ent_ID = ''bank'', ent_BankReference = ''B1'', ent_Name = ''Bank'', ent_Status = ''active'',
       ent_CreatedAt = 0, ent_UpdatedAt = 0, ent_created_by = ''op'', ent_updated_by = ''op''\<rparr>],
     clients := [\<lparr>cl_ID = ''client'', cl_ExternalClientRef = ''C1'', cl_DisplayName = None, cl_CreatedAt = 0,
       cl_UpdatedAt = 0, cl_entity = ''bank'', cl_created_by = ''op'', cl_updated_by = ''op''\<rparr>],
     account_references := [\<lparr>ar_ID = ''account'', ar_ClientID = ''client'', ar_ExternalAccountRef = ''A1'',
       ar_CreatedAt = 0, ar_UpdatedAt = 0, ar_entity = ''bank'', ar_created_by = ''op'', ar_updated_by = ''op''\<rparr>],
     card_products := [\<lparr>prod_ID = ''product'', prod_ProductCode = ''P1'', prod_Name = ''P'', prod_Status = ''active'',
       prod_Configuration = JObj [], prod_ConfigurationVersion = 1, prod_CreatedAt = 0, prod_UpdatedAt = 0,
       prod_entity = ''bank'', prod_created_by = ''op'', prod_updated_by = ''op''\<rparr>]\<rparr>"

definition sample_world :: "shard_db \<Rightarrow> shard_world" where
  "sample_world d = \<lparr>durable = d, view = d, tx_start = 1000, tick = 0\<rparr>"

end
