(* ===== verification/Shard_Reader.thy ===== *)
theory Shard_Reader
  imports Shard_Tx
begin

text \<open>
  The reads of \<open>internal/repository/shard/reader.go\<close>: every one is a tenant transaction
  that selects by \<open>entity_id\<close>, scans, commits and returns. Lists are ordered by creation
  time and id, both descending.
\<close>

definition read_tx :: "environment \<Rightarrow> uuid \<Rightarrow> (shard_db \<Rightarrow> 'a result) \<Rightarrow> ('m shard_world_scheme, 'a) prog" where
  "read_tx env bank q = transaction env bank
     (andThen (statement env (read_only q)) (\<lambda>x. andThen (Commit env) (\<lambda>_. ret x)))"

definition scan_row :: "('r \<Rightarrow> 'a) \<Rightarrow> 'r option \<Rightarrow> 'a result" where
  "scan_row scan r = (case r of None \<Rightarrow> Inl ErrNoRows | Some x \<Rightarrow> Inr (scan x))"

definition Reader_Entity :: "environment \<Rightarrow> uuid \<Rightarrow> ('m shard_world_scheme, Entity) prog" where
  "Reader_Entity env rid = read_tx env rid (\<lambda>d.
     scan_row scanEntity (query_row (\<lambda>r. ent_ID r = rid) (entities d)))"

definition Reader_Card :: "environment \<Rightarrow> uuid \<Rightarrow> uuid \<Rightarrow> ('m shard_world_scheme, Card) prog" where
  "Reader_Card env bank rid = read_tx env bank (\<lambda>d.
     scan_row scanCard (query_row (\<lambda>r. card_entity r = bank \<and> card_ID r = rid) (cards d)))"

definition card_matches :: "CardFilter \<Rightarrow> card_row \<Rightarrow> bool" where
  "card_matches filt r \<longleftrightarrow>
     (nullable (cf_ClientID filt) = None \<or> card_ClientID r = cf_ClientID filt) \<and>
     (nullable (cf_AccountID filt) = None \<or> card_AccountReferenceID r = cf_AccountID filt) \<and>
     (nullable (cf_ProductID filt) = None \<or> card_ProductID r = cf_ProductID filt) \<and>
     (nullable (cf_Status filt) = None \<or> card_Status r = cf_Status filt)"

definition Reader_Cards :: "environment \<Rightarrow> uuid \<Rightarrow> CardFilter \<Rightarrow> ('m shard_world_scheme, Card list) prog" where
  "Reader_Cards env bank filt = read_tx env bank (\<lambda>d. Inr (map scanCard
     (order_desc (\<lambda>r. (card_CreatedAt r, card_ID r))
       (filter (\<lambda>r. card_entity r = bank \<and> card_matches filt r) (cards d)))))"

definition Reader_CardOperations ::
  "environment \<Rightarrow> uuid \<Rightarrow> uuid \<Rightarrow> ('m shard_world_scheme, CardOperation list) prog" where
  "Reader_CardOperations env bank cardID = read_tx env bank (\<lambda>d. Inr (map scanCardOperation
     (order_desc (\<lambda>r. (op_CreatedAt r, op_ID r))
       (filter (\<lambda>r. op_entity r = bank \<and> op_CardID r = cardID) (card_operations d)))))"

definition Reader_CardStatusHistory ::
  "environment \<Rightarrow> uuid \<Rightarrow> uuid \<Rightarrow> ('m shard_world_scheme, CardStatusHistory list) prog" where
  "Reader_CardStatusHistory env bank cardID = read_tx env bank (\<lambda>d. Inr (map scanCardStatusHistory
     (order_desc (\<lambda>r. (hist_CreatedAt r, hist_ID r))
       (filter (\<lambda>r. hist_entity r = bank \<and> hist_card_id r = cardID) (card_status_history d)))))"

definition Reader_CardStatusBatches ::
  "environment \<Rightarrow> uuid \<Rightarrow> ('m shard_world_scheme, CardStatusBatch list) prog" where
  "Reader_CardStatusBatches env bank = read_tx env bank (\<lambda>d. Inr (map scanCardStatusBatch
     (order_desc (\<lambda>r. (batch_CreatedAt r, batch_ID r))
       (filter (\<lambda>r. batch_entity r = bank) (card_status_batches d)))))"

definition not_found :: "go_error \<Rightarrow> go_error" where
  "not_found e = (if e = ErrNoRows then ErrNotFound else e)"

definition Reader_CardStatusBatch ::
  "environment \<Rightarrow> uuid \<Rightarrow> uuid \<Rightarrow> ('m shard_world_scheme, CardStatusBatch) prog" where
  "Reader_CardStatusBatch env bank rid = transaction env bank
     (andThen (onError (statement env (read_only (\<lambda>d. scan_row scanCardStatusBatch
        (query_row (\<lambda>r. batch_entity r = bank \<and> batch_ID r = rid) (card_status_batches d))))) not_found)
      (\<lambda>b. andThen (Commit env) (\<lambda>_. ret b)))"

text \<open>The join of items with their batch; \<open>created_at\<close> is the batch's.\<close>

definition scanCardStatusBatchItem :: "batch_item_row \<times> batch_row \<Rightarrow> CardStatusBatchItem" where
  "scanCardStatusBatchItem p = (case p of (i, b) \<Rightarrow>
     \<lparr>item_ID = bi_id i, item_CardID = bi_card_id i, item_OperationID = bi_operation_id i,
      item_PreviousStatus = bi_previous_status i, item_Outcome = bi_outcome i,
      item_FailureCode = bi_failure_code i, item_CreatedAt = batch_CreatedAt b\<rparr>)"

definition batch_item_join :: "uuid \<Rightarrow> uuid \<Rightarrow> shard_db \<Rightarrow> (batch_item_row \<times> batch_row) list" where
  "batch_item_join bank batchID d = order_desc (\<lambda>(i, b). (batch_CreatedAt b, bi_id i))
     (filter (\<lambda>(i, b). bi_entity i = bank \<and> bi_batch_id i = batchID \<and>
                batch_entity b = bi_entity i \<and> batch_ID b = bi_batch_id i)
       (List.product (card_status_batch_items d) (card_status_batches d)))"

definition Reader_CardStatusBatchItems ::
  "environment \<Rightarrow> uuid \<Rightarrow> uuid \<Rightarrow> ('m shard_world_scheme, CardStatusBatchItem list) prog" where
  "Reader_CardStatusBatchItems env bank batchID = transaction env bank
     (andThen (statement env (read_only (\<lambda>d. Inr
        (exists_row (\<lambda>r. batch_entity r = bank \<and> batch_ID r = batchID) (card_status_batches d)))))
      (\<lambda>exists. if \<not> exists then throw ErrNotFound else
        andThen (statement env (read_only (\<lambda>d. Inr (map scanCardStatusBatchItem (batch_item_join bank batchID d)))))
        (\<lambda>items. andThen (Commit env) (\<lambda>_. ret items))))"

definition Reader_CardProducts :: "environment \<Rightarrow> uuid \<Rightarrow> ('m shard_world_scheme, CardProduct list) prog" where
  "Reader_CardProducts env bank = read_tx env bank (\<lambda>d. Inr (map scanCardProduct
     (order_desc (\<lambda>r. (prod_CreatedAt r, prod_ID r)) (filter (\<lambda>r. prod_entity r = bank) (card_products d)))))"

definition Reader_CardProduct :: "environment \<Rightarrow> uuid \<Rightarrow> uuid \<Rightarrow> ('m shard_world_scheme, CardProduct) prog" where
  "Reader_CardProduct env bank rid = read_tx env bank (\<lambda>d.
     scan_row scanCardProduct (query_row (\<lambda>r. prod_entity r = bank \<and> prod_ID r = rid) (card_products d)))"

definition Reader_Clients :: "environment \<Rightarrow> uuid \<Rightarrow> ('m shard_world_scheme, Client list) prog" where
  "Reader_Clients env bank = read_tx env bank (\<lambda>d. Inr (map scanClient
     (order_desc (\<lambda>r. (cl_CreatedAt r, cl_ID r)) (filter (\<lambda>r. cl_entity r = bank) (clients d)))))"

definition Reader_Client :: "environment \<Rightarrow> uuid \<Rightarrow> uuid \<Rightarrow> ('m shard_world_scheme, Client) prog" where
  "Reader_Client env bank rid = read_tx env bank (\<lambda>d.
     scan_row scanClient (query_row (\<lambda>r. cl_entity r = bank \<and> cl_ID r = rid) (clients d)))"

definition Reader_AccountReferences ::
  "environment \<Rightarrow> uuid \<Rightarrow> ('m shard_world_scheme, AccountReference list) prog" where
  "Reader_AccountReferences env bank = read_tx env bank (\<lambda>d. Inr (map scanAccountReference
     (order_desc (\<lambda>r. (ar_CreatedAt r, ar_ID r)) (filter (\<lambda>r. ar_entity r = bank) (account_references d)))))"

definition Reader_AccountReference ::
  "environment \<Rightarrow> uuid \<Rightarrow> uuid \<Rightarrow> ('m shard_world_scheme, AccountReference) prog" where
  "Reader_AccountReference env bank rid = read_tx env bank (\<lambda>d.
     scan_row scanAccountReference (query_row (\<lambda>r. ar_entity r = bank \<and> ar_ID r = rid) (account_references d)))"

section \<open>Tenant isolation of the reads\<close>

text \<open>The rows of one bank: what a tenant may see of a shard.\<close>

definition tenant_view :: "uuid \<Rightarrow> shard_db \<Rightarrow> shard_db" where
  "tenant_view bank d =
     d\<lparr>entities := filter (\<lambda>r. ent_ID r = bank) (entities d),
       clients := filter (\<lambda>r. cl_entity r = bank) (clients d),
       account_references := filter (\<lambda>r. ar_entity r = bank) (account_references d),
       card_products := filter (\<lambda>r. prod_entity r = bank) (card_products d),
       cards := filter (\<lambda>r. card_entity r = bank) (cards d),
       card_operations := filter (\<lambda>r. op_entity r = bank) (card_operations d),
       card_status_history := filter (\<lambda>r. hist_entity r = bank) (card_status_history d),
       audit_events := filter (\<lambda>r. audit_entity r = bank) (audit_events d),
       idempotency_records := filter (\<lambda>r. idem_entity r = bank) (idempotency_records d),
       card_status_batches := filter (\<lambda>r. batch_entity r = bank) (card_status_batches d),
       card_status_batch_items := filter (\<lambda>r. bi_entity r = bank) (card_status_batch_items d),
       card_expiry_runs := filter (\<lambda>r. er_entity r = bank) (card_expiry_runs d),
       card_expiry_run_items := filter (\<lambda>r. ei_entity r = bank) (card_expiry_run_items d),
       authorization_verifications := filter (\<lambda>r. auth_entity r = bank) (authorization_verifications d)\<rparr>"

lemma query_row_filter [table_simps]:
  "(\<And>r. P r \<Longrightarrow> Q r) \<Longrightarrow> query_row P (filter Q rows) = query_row P rows"
  unfolding query_row_def by (induction rows) auto

lemma query_row_filter_conj [table_simps]:
  "query_row (\<lambda>r. Q r \<and> P r) (filter Q rows) = query_row (\<lambda>r. Q r \<and> P r) rows"
  by (rule query_row_filter) simp

lemma filter_filter_le [table_simps]:
  "(\<And>r. P r \<Longrightarrow> Q r) \<Longrightarrow> filter P (filter Q rows) = filter P rows"
  by (induction rows) auto

lemma exists_row_filter [table_simps]:
  "(\<And>r. P r \<Longrightarrow> Q r) \<Longrightarrow> exists_row P (filter Q rows) = exists_row P rows"
  by (auto simp: exists_row_iff)

lemma filter_product:
  "(\<And>x y. R (x, y) \<Longrightarrow> P x \<and> Q y) \<Longrightarrow>
   filter R (List.product (filter P xs) (filter Q ys)) = filter R (List.product xs ys)"
proof (induction xs)
  case Nil
  then show ?case by simp
next
  case (Cons x xs)
  have inner: "filter R (map (Pair x) (filter Q ys)) = filter R (map (Pair x) ys)"
    using Cons.prems by (induction ys) auto
  have none: "filter R (map (Pair x) ys) = []" if "\<not> P x"
    using Cons.prems that by (induction ys) auto
  show ?case using Cons inner none by (cases "P x") simp_all
qed

lemma batch_item_join_tenant:
  "batch_item_join bank batchID (tenant_view bank d) = batch_item_join bank batchID d"
  unfolding batch_item_join_def tenant_view_def by (simp, subst filter_product) auto

text \<open>Two worlds a tenant cannot tell apart: the same rows of the bank, at the same interaction.\<close>

definition same_tenant :: "uuid \<Rightarrow> 'm shard_world_scheme \<Rightarrow> 'n shard_world_scheme \<Rightarrow> bool" where
  "same_tenant bank w1 w2 \<longleftrightarrow>
     tenant_view bank (durable w1) = tenant_view bank (durable w2) \<and> tick w1 = tick w2"

lemma same_tenant_query:
  assumes "same_tenant bank w1 w2" and "\<And>d. q (tenant_view bank d) = q d"
  shows "q (durable w1) = q (durable w2)"
  using assms unfolding same_tenant_def by metis

lemma tx_read_run:
  "fst (transaction env bank (andThen (onError (statement env (read_only q)) h)
     (\<lambda>x. andThen (Commit env) (\<lambda>_. ret x))) w) =
   (case fault_at env (tick w) of Fail e \<Rightarrow> Inl e | Lost e \<Rightarrow> Inl e | NoFault \<Rightarrow>
    case fault_at env (Suc (tick w)) of Fail e \<Rightarrow> Inl e | Lost e \<Rightarrow> Inl e | NoFault \<Rightarrow>
    case fault_at env (Suc (Suc (tick w))) of Fail e \<Rightarrow> Inl (h e) | Lost e \<Rightarrow> Inl (h e) | NoFault \<Rightarrow>
    case q (durable w) of Inl e \<Rightarrow> Inl (h e) | Inr x \<Rightarrow>
    case fault_at env (Suc (Suc (Suc (tick w)))) of Fail e \<Rightarrow> Inl e | Lost e \<Rightarrow> Inl e | NoFault \<Rightarrow> Inr x)"
  by (cases "fault_at env (tick w)"; cases "fault_at env (Suc (tick w))";
      cases "fault_at env (Suc (Suc (tick w)))"; cases "q (durable w)";
      cases "fault_at env (Suc (Suc (Suc (tick w))))")
    (simp_all add: transaction_def beginTenant_def pool_Begin_def andThen_def deferred_def onError_def
      compensated_def statement_def read_only_def Commit_def ret_def ticked_def Rollback_def)

lemma onError_id: "onError m (\<lambda>e. e) = m"
  by (auto simp: onError_def fun_eq_iff split: prod.splits sum.splits)

lemma tx_read_isolated:
  assumes "same_tenant bank w1 w2" and "\<And>d. q (tenant_view bank d) = q d"
  shows "fst (transaction env bank (andThen (onError (statement env (read_only q)) h)
           (\<lambda>x. andThen (Commit env) (\<lambda>_. ret x))) w1) =
         fst (transaction env bank (andThen (onError (statement env (read_only q)) h)
           (\<lambda>x. andThen (Commit env) (\<lambda>_. ret x))) w2)"
proof -
  have t: "tick w1 = tick w2" using assms(1) by (simp add: same_tenant_def)
  show ?thesis unfolding tx_read_run t same_tenant_query [of bank w1 w2 q, OF assms] ..
qed

lemma read_tx_isolated:
  assumes "same_tenant bank w1 w2" and "\<And>d. q (tenant_view bank d) = q d"
  shows "fst (read_tx env bank q w1) = fst (read_tx env bank q w2)"
  using tx_read_isolated [of bank w1 w2 q env "\<lambda>e. e", OF assms]
  by (simp add: read_tx_def onError_id)

lemma tenant_view_tables [table_simps]:
  "entities (tenant_view bank d) = filter (\<lambda>r. ent_ID r = bank) (entities d)"
  "clients (tenant_view bank d) = filter (\<lambda>r. cl_entity r = bank) (clients d)"
  "account_references (tenant_view bank d) = filter (\<lambda>r. ar_entity r = bank) (account_references d)"
  "card_products (tenant_view bank d) = filter (\<lambda>r. prod_entity r = bank) (card_products d)"
  "cards (tenant_view bank d) = filter (\<lambda>r. card_entity r = bank) (cards d)"
  "card_operations (tenant_view bank d) = filter (\<lambda>r. op_entity r = bank) (card_operations d)"
  "card_status_history (tenant_view bank d) = filter (\<lambda>r. hist_entity r = bank) (card_status_history d)"
  "card_status_batches (tenant_view bank d) = filter (\<lambda>r. batch_entity r = bank) (card_status_batches d)"
  by (simp_all add: tenant_view_def)

lemma batch_items_isolated:
  assumes "same_tenant bank w1 w2"
  shows "fst (Reader_CardStatusBatchItems env bank b w1) = fst (Reader_CardStatusBatchItems env bank b w2)"
proof -
  have e: "exists_row (\<lambda>r. batch_entity r = bank \<and> batch_ID r = b) (card_status_batches (durable w1)) =
           exists_row (\<lambda>r. batch_entity r = bank \<and> batch_ID r = b) (card_status_batches (durable w2))"
    by (rule same_tenant_query [OF assms]) (auto simp: table_simps)
  have j: "batch_item_join bank b (durable w1) = batch_item_join bank b (durable w2)"
    by (rule same_tenant_query [OF assms]) (rule batch_item_join_tenant)
  show ?thesis
    using e j assms
    by (simp add: same_tenant_def Reader_CardStatusBatchItems_def transaction_def beginTenant_def
        pool_Begin_def andThen_def deferred_def compensated_def statement_def read_only_def Commit_def
        ret_def throw_def ticked_def Rollback_def split: fault.splits)
qed

text \<open>
  C5. Tenant isolation of the repository reads: if two shards hold the same rows of a bank,
  every read for that bank answers the same on both (value or error), whatever the rows of
  other banks are. This rests on the \<open>WHERE entity_id\<close> clauses alone.
\<close>

theorem reads_see_only_their_tenant:
  assumes "same_tenant bank w1 w2"
  shows "fst (Reader_Entity env bank w1) = fst (Reader_Entity env bank w2) \<and>
    fst (Reader_Card env bank rid w1) = fst (Reader_Card env bank rid w2) \<and>
    fst (Reader_Cards env bank filt w1) = fst (Reader_Cards env bank filt w2) \<and>
    fst (Reader_CardOperations env bank rid w1) = fst (Reader_CardOperations env bank rid w2) \<and>
    fst (Reader_CardStatusHistory env bank rid w1) = fst (Reader_CardStatusHistory env bank rid w2) \<and>
    fst (Reader_CardStatusBatches env bank w1) = fst (Reader_CardStatusBatches env bank w2) \<and>
    fst (Reader_CardStatusBatch env bank rid w1) = fst (Reader_CardStatusBatch env bank rid w2) \<and>
    fst (Reader_CardStatusBatchItems env bank rid w1) = fst (Reader_CardStatusBatchItems env bank rid w2) \<and>
    fst (Reader_CardProducts env bank w1) = fst (Reader_CardProducts env bank w2) \<and>
    fst (Reader_CardProduct env bank rid w1) = fst (Reader_CardProduct env bank rid w2) \<and>
    fst (Reader_Clients env bank w1) = fst (Reader_Clients env bank w2) \<and>
    fst (Reader_Client env bank rid w1) = fst (Reader_Client env bank rid w2) \<and>
    fst (Reader_AccountReferences env bank w1) = fst (Reader_AccountReferences env bank w2) \<and>
    fst (Reader_AccountReference env bank rid w1) = fst (Reader_AccountReference env bank rid w2)"
  unfolding Reader_Entity_def Reader_Card_def Reader_Cards_def Reader_CardOperations_def
    Reader_CardStatusHistory_def Reader_CardStatusBatches_def Reader_CardStatusBatch_def
    Reader_CardProducts_def Reader_CardProduct_def Reader_Clients_def Reader_Client_def
    Reader_AccountReferences_def Reader_AccountReference_def
  by (intro conjI read_tx_isolated [OF assms] tx_read_isolated [OF assms] batch_items_isolated [OF assms])
    (simp_all add: table_simps)

theorem reads_see_only_their_tenant_witness:
  "same_tenant ''a''
     (tx_world.make (empty_db\<lparr>entities :=
        [\<lparr>ent_ID = ''b'', ent_BankReference = ''B'', ent_Name = ''B'', ent_Status = ''active'',
          ent_CreatedAt = 0, ent_UpdatedAt = 0, ent_created_by = ''u'', ent_updated_by = ''u''\<rparr>]\<rparr>)
        empty_db 0 0)
     (tx_world.make empty_db empty_db 0 0) \<and>
   fst (Reader_Cards sample_env ''a'' \<lparr>cf_ClientID = '''', cf_AccountID = '''', cf_ProductID = '''', cf_Status = ''''\<rparr> (tx_world.make (empty_db\<lparr>entities :=
        [\<lparr>ent_ID = ''b'', ent_BankReference = ''B'', ent_Name = ''B'', ent_Status = ''active'',
          ent_CreatedAt = 0, ent_UpdatedAt = 0, ent_created_by = ''u'', ent_updated_by = ''u''\<rparr>]\<rparr>)
        empty_db 0 0)) =
   fst (Reader_Cards sample_env ''a'' \<lparr>cf_ClientID = '''', cf_AccountID = '''', cf_ProductID = '''', cf_Status = ''''\<rparr> (tx_world.make empty_db empty_db 0 0))"
proof -
  let ?w = "tx_world.make (empty_db\<lparr>entities :=
        [\<lparr>ent_ID = ''b'', ent_BankReference = ''B'', ent_Name = ''B'', ent_Status = ''active'',
          ent_CreatedAt = 0, ent_UpdatedAt = 0, ent_created_by = ''u'', ent_updated_by = ''u''\<rparr>]\<rparr>)
        empty_db 0 0"
  have "same_tenant ''a'' ?w (tx_world.make empty_db empty_db 0 0)"
    by (simp add: same_tenant_def tenant_view_def empty_db_def tx_world.make_def)
  with reads_see_only_their_tenant [OF this] show ?thesis by blast
qed

end
