(* ===== verification/Shard_Idempotency.thy ===== *)
theory Shard_Idempotency
  imports Shard_Tx Sha256
begin

text \<open>
  Request replay: the fingerprints of \<open>internal/idempotency/fingerprint.go\<close> and the record
  protocol of \<open>internal/repository/shard/transaction.go\<close> (\<open>ClaimIdempotency\<close>,
  \<open>FinishIdempotency\<close>). The locale \<open>idempotency_store\<close> states what the services rely
  on; it is interpreted by the shard transaction.
\<close>

section \<open>Fingerprints\<close>

definition minimumKeyLength :: nat where
  "minimumKeyLength = 32"

definition NewFingerprinter :: "bytes \<Rightarrow> bytes result" where
  "NewFingerprinter key =
     (if length key < minimumKeyLength
      then Inl (PlainError ''idempotency HMAC key must be at least 32 bytes'') else Inr key)"

definition Fingerprint :: "bytes \<Rightarrow> bytes \<Rightarrow> bytes" where
  "Fingerprint key payload = hmac_sha256 key payload"

lemma length_Fingerprint [simp]: "length (Fingerprint key payload) = 32"
  by (simp add: Fingerprint_def)

section \<open>Records\<close>

definition system_actor :: uuid where
  "system_actor = ''00000000-0000-4000-8000-000000000000''"

definition processing_body :: json where
  "processing_body = JObj [(''status'', JStr ''processing'')]"

definition is_record :: "uuid \<Rightarrow> string \<Rightarrow> string \<Rightarrow> idempotency_row \<Rightarrow> bool" where
  "is_record bank scope key r \<longleftrightarrow>
     idem_entity r = bank \<and> idem_operation_scope r = scope \<and> idem_idempotency_key r = key"

definition fresh_replay :: "uuid \<Rightarrow> ShardIdempotencyReplay" where
  "fresh_replay rid = \<lparr>replay_RecordID = rid, replay_Response = JNull, replay_Status = 0, replay_Found = False\<rparr>"

text \<open>The closure \<open>load\<close> of \<open>ClaimIdempotency\<close>: the row found, then what follows it.\<close>

definition reset_record :: "ShardIdempotencyClaim \<Rightarrow> sql_context \<Rightarrow> idempotency_row \<Rightarrow> idempotency_row" where
  "reset_record claim ctx r =
     r\<lparr>idem_request_fingerprint := claim_Fingerprint claim,
       idem_response_status := Some 202, idem_response_body := Some processing_body,
       idem_result_reference := None, idem_status := ''processing'',
       idem_expires_at := claim_ExpiresAt claim, idem_updated_by := system_actor,
       idem_updated_at := sql_clock ctx\<rparr>"

definition idempotency_found ::
  "environment \<Rightarrow> ShardIdempotencyClaim \<Rightarrow> idempotency_row option \<Rightarrow>
   ('m shard_world_scheme, ShardIdempotencyReplay) prog" where
  "idempotency_found env claim row =
     (case row of
        None \<Rightarrow> ret (fresh_replay '''')
      | Some r \<Rightarrow>
          if claim_Now claim < idem_expires_at r then
            if idem_request_fingerprint r \<noteq> claim_Fingerprint claim then throw ErrIdempotencyConflict
            else (case idem_response_status r of
                    None \<Rightarrow> throw (PlainError ''idempotency response status is missing'')
                  | Some status \<Rightarrow>
                      ret \<lparr>replay_RecordID = idem_id r,
                           replay_Response = (case idem_response_body r of None \<Rightarrow> JNull | Some j \<Rightarrow> j),
                           replay_Status = status, replay_Found = True\<rparr>)
          else
            andThen (statement env (exec_rows (\<lambda>ctx. update_idempotency
              (is_record (claim_Bank claim) (claim_Scope claim) (claim_Key claim)) (reset_record claim ctx))))
            (\<lambda>_. ret (fresh_replay (idem_id r))))"

definition idempotency_load ::
  "environment \<Rightarrow> ShardIdempotencyClaim \<Rightarrow> ('m shard_world_scheme, ShardIdempotencyReplay) prog" where
  "idempotency_load env claim =
     andThen (statement env (read_only (\<lambda>d. Inr (query_row
        (is_record (claim_Bank claim) (claim_Scope claim) (claim_Key claim)) (idempotency_records d)))))
     (idempotency_found env claim)"

definition new_idempotency_row :: "ShardIdempotencyClaim \<Rightarrow> sql_context \<Rightarrow> idempotency_row" where
  "new_idempotency_row claim ctx =
     \<lparr>idem_entity = claim_Bank claim, idem_id = sql_uuid ctx 0, idem_operation_scope = claim_Scope claim,
      idem_idempotency_key = claim_Key claim, idem_request_fingerprint = claim_Fingerprint claim,
      idem_status = ''processing'', idem_result_reference = None, idem_expires_at = claim_ExpiresAt claim,
      idem_created_at = sql_now ctx, idem_updated_at = sql_now ctx, idem_created_by = system_actor,
      idem_updated_by = system_actor, idem_response_status = Some 202,
      idem_response_body = Some processing_body\<rparr>"

text \<open>\<open>INSERT ... ON CONFLICT DO NOTHING RETURNING id\<close>; no row is \<open>None\<close>.\<close>

definition insert_idempotency_record ::
  "ShardIdempotencyClaim \<Rightarrow> sql_context \<Rightarrow> shard_db \<Rightarrow> (uuid option \<times> shard_db) result" where
  "insert_idempotency_record claim ctx d =
     (let r = new_idempotency_row claim ctx in
      if exists_row (is_record (claim_Bank claim) (claim_Scope claim) (claim_Key claim)) (idempotency_records d)
      then Inr (None, d)
      else map_sum id (\<lambda>d'. (Some (idem_id r), d')) (insert_idempotency r d))"

definition ClaimIdempotency ::
  "environment \<Rightarrow> ShardIdempotencyClaim \<Rightarrow> ('m shard_world_scheme, ShardIdempotencyReplay) prog" where
  "ClaimIdempotency env claim =
     andThen (idempotency_load env claim) (\<lambda>replay.
       if replay_Found replay \<or> replay_RecordID replay \<noteq> '''' then ret replay
       else andThen (statement env (insert_idempotency_record claim)) (\<lambda>inserted.
         case inserted of
           Some rid \<Rightarrow> ret (fresh_replay rid)
         | None \<Rightarrow> idempotency_load env claim))"

definition FinishIdempotency ::
  "environment \<Rightarrow> uuid \<Rightarrow> string \<Rightarrow> string \<Rightarrow> int \<Rightarrow> json \<Rightarrow> string \<Rightarrow> uuid \<Rightarrow> ('m shard_world_scheme, unit) prog"
  where
  "FinishIdempotency env bank scope key status response result actor =
     statement env (exec_rows (\<lambda>ctx. update_idempotency (is_record bank scope key)
       (\<lambda>r. r\<lparr>idem_status := ''succeeded'', idem_response_status := Some status,
              idem_response_body := Some response, idem_result_reference := nullable result,
              idem_updated_by := actor, idem_updated_at := sql_clock ctx\<rparr>)))"

section \<open>The protocol\<close>

text \<open>
  What a service relies on. \<open>claim k fp now till\<close> answers \<open>None\<close> when the caller must do
  the work and \<open>Some r\<close> when the stored response is to be replayed; \<open>stored k s\<close> is the
  fingerprint, the expiry and the response on record.
\<close>

locale idempotency_store =
  fixes claim :: "'k \<Rightarrow> bytes \<Rightarrow> time \<Rightarrow> time \<Rightarrow> ('s, 'r option) prog"
    and finish :: "'k \<Rightarrow> 'r \<Rightarrow> ('s, unit) prog"
    and stored :: "'k \<Rightarrow> 's \<Rightarrow> (bytes \<times> time \<times> 'r) option"
    and ok :: "'s \<Rightarrow> bool"
  assumes claim_fresh: "ok s \<Longrightarrow> claim k fp now till s = (Inr None, s') \<Longrightarrow>
      (\<forall>f t r. stored k s = Some (f, t, r) \<longrightarrow> t \<le> now) \<and> (\<exists>r. stored k s' = Some (fp, till, r))"
    and claim_replay: "ok s \<Longrightarrow> claim k fp now till s = (Inr (Some r), s') \<Longrightarrow>
      (\<exists>t. stored k s = Some (fp, t, r) \<and> now < t) \<and> stored k s' = stored k s"
    and finish_stored: "finish k r s = (Inr (), s') \<Longrightarrow> stored k s = Some (f, t, r0) \<Longrightarrow>
      stored k s' = Some (f, t, r)"
    and claim_ok: "ok s \<Longrightarrow> claim k fp now till s = (res, s') \<Longrightarrow> ok s'"
    and finish_ok: "ok s \<Longrightarrow> finish k r s = (res', s') \<Longrightarrow> ok s'"
begin

text \<open>A live record answers every later claim of its key with its response, or refuses it.\<close>

lemma live_record_replays:
  assumes "ok s" and "stored k s = Some (f, t, r)" and "now < t" and "claim k fp now till s = (res, s')"
  shows "(\<exists>e. res = Inl e) \<or> (fp = f \<and> res = Inr (Some r) \<and> stored k s' = stored k s)"
proof (cases res)
  case (Inr v)
  show ?thesis
  proof (cases v)
    case None
    with assms Inr claim_fresh [of s k fp now till s'] show ?thesis by fastforce
  next
    case (Some r')
    with assms Inr claim_replay [of s k fp now till r' s'] show ?thesis by auto
  qed
qed simp

text \<open>The work of a key is admitted at most once in the lifetime of its record.\<close>

lemma finished_work_replays:
  assumes "ok s" and "claim k fp now till s = (Inr None, s1)" and "stored k s2 = stored k s1"
    and "finish k r s2 = (Inr (), s3)" and "stored k s4 = stored k s3" and "ok s4" and "now' < till"
    and "claim k fp' now' till' s4 = (res, s5)"
  shows "(\<exists>e. res = Inl e) \<or> (fp' = fp \<and> res = Inr (Some r))"
proof -
  obtain r0 where "stored k s2 = Some (fp, till, r0)" using claim_fresh assms(1-3) by fastforce
  then have "stored k s4 = Some (fp, till, r)" using finish_stored assms(4,5) by simp
  then show ?thesis using live_record_replays assms(6-8) by blast
qed

end

section \<open>The shard transaction implements it\<close>

type_synonym idem_key = "uuid \<times> string \<times> string"

definition shard_claim :: "environment \<Rightarrow> idem_key \<Rightarrow> bytes \<Rightarrow> time \<Rightarrow> time \<Rightarrow>
    ('m shard_world_scheme, (int \<times> json) option) prog" where
  "shard_claim env k fp now till = (case k of (bank, scope, key) \<Rightarrow>
     andThen (ClaimIdempotency env \<lparr>claim_Bank = bank, claim_Scope = scope, claim_Key = key,
       claim_Fingerprint = fp, claim_Now = now, claim_ExpiresAt = till\<rparr>)
     (\<lambda>replay. ret (if replay_Found replay then Some (replay_Status replay, replay_Response replay) else None)))"

definition shard_finish :: "environment \<Rightarrow> string \<Rightarrow> uuid \<Rightarrow> idem_key \<Rightarrow> int \<times> json \<Rightarrow>
    ('m shard_world_scheme, unit) prog" where
  "shard_finish env result actor k r = (case k of (bank, scope, key) \<Rightarrow>
     FinishIdempotency env bank scope key (fst r) (snd r) result actor)"

definition record_of :: "idem_key \<Rightarrow> shard_db \<Rightarrow> idempotency_row option" where
  "record_of k d = (case k of (bank, scope, key) \<Rightarrow> query_row (is_record bank scope key) (idempotency_records d))"

definition record_data :: "idempotency_row \<Rightarrow> (bytes \<times> time \<times> int \<times> json) option" where
  "record_data r = map_option (\<lambda>status. (idem_request_fingerprint r, idem_expires_at r, status,
     case idem_response_body r of None \<Rightarrow> JNull | Some j \<Rightarrow> j)) (idem_response_status r)"

definition stored_response :: "idem_key \<Rightarrow> shard_db \<Rightarrow> (bytes \<times> time \<times> int \<times> json) option" where
  "stored_response k d = Option.bind (record_of k d) record_data"

definition claim_key :: "ShardIdempotencyClaim \<Rightarrow> idem_key" where
  "claim_key c = (claim_Bank c, claim_Scope c, claim_Key c)"

lemma load_InrE:
  assumes "idempotency_load env c w = (Inr rep, w')"
  obtains (absent) "record_of (claim_key c) (view w) = None" and "rep = fresh_replay ''''"
      and "view w' = view w"
  | (live) r status where "record_of (claim_key c) (view w) = Some r" and "claim_Now c < idem_expires_at r"
      and "idem_request_fingerprint r = claim_Fingerprint c" and "idem_response_status r = Some status"
      and "rep = \<lparr>replay_RecordID = idem_id r,
                  replay_Response = (case idem_response_body r of None \<Rightarrow> JNull | Some j \<Rightarrow> j),
                  replay_Status = status, replay_Found = True\<rparr>"
      and "view w' = view w"
  | (expired) r where "record_of (claim_key c) (view w) = Some r" and "idem_expires_at r \<le> claim_Now c"
      and "rep = fresh_replay (idem_id r)"
      and "stored_response (claim_key c) (view w') =
             Some (claim_Fingerprint c, claim_ExpiresAt c, 202, processing_body)"
proof -
  let ?P = "is_record (claim_Bank c) (claim_Scope c) (claim_Key c)"
  from assms obtain row w1 where
    q: "statement env (read_only (\<lambda>d. Inr (query_row ?P (idempotency_records d)))) w = (Inr row, w1)"
    and rest: "idempotency_found env c row w1 = (Inr rep, w')"
    unfolding idempotency_load_def by (rule andThen_InrE)
  have row: "row = record_of (claim_key c) (view w)" and vw: "view w1 = view w"
    using q by (auto elim!: statement_InrE simp: read_only_Inr record_of_def claim_key_def)
  show thesis
  proof (cases row)
    case None
    then show thesis using absent rest row vw by (simp add: idempotency_found_def ret_def)
  next
    case (Some r)
    show thesis
    proof (cases "claim_Now c < idem_expires_at r")
      case True
      then show thesis using rest row vw Some
        by (auto simp: idempotency_found_def ret_def throw_def split: if_splits option.splits intro!: live)
    next
      case False
      with rest Some have upd: "andThen (statement env (exec_rows (\<lambda>ctx. update_idempotency ?P
          (reset_record c ctx)))) (\<lambda>_. ret (fresh_replay (idem_id r))) w1 = (Inr rep, w')"
        by (simp add: idempotency_found_def)
      then obtain u w2 where u: "statement env (exec_rows (\<lambda>ctx. update_idempotency ?P
          (reset_record c ctx))) w1 = (Inr u, w2)" and "ret (fresh_replay (idem_id r)) w2 = (Inr rep, w')"
        by (rule andThen_InrE)
      then have rep: "rep = fresh_replay (idem_id r)" and w': "w' = w2" by (simp_all add: ret_def)
      from u obtain n where "update_idempotency ?P (reset_record c (context_of env w1)) (view w1) = Inr (n, view w2)"
        by (rule statement_exec_rowsE)
      from update_result(7) [OF this]
      have v: "idempotency_records (view w2) =
          update_where ?P (reset_record c (context_of env w1)) (idempotency_records (view w1))"
        by simp
      have keep: "?P (reset_record c ctx x)" if "?P x" for ctx x
        using that by (simp add: is_record_def reset_record_def)
      have "record_of (claim_key c) (view w') = Some (reset_record c (context_of env w1) r)"
        using Some row vw by (simp add: record_of_def claim_key_def w' v query_row_update_same keep)
      then have "stored_response (claim_key c) (view w') =
          Some (claim_Fingerprint c, claim_ExpiresAt c, 202, processing_body)"
        by (simp add: stored_response_def record_data_def reset_record_def)
      then show thesis using False Some row rep by (intro expired) auto
    qed
  qed
qed

lemma record_of_insert:
  assumes "insert_idempotency_record c ctx d = Inr (Some rid, d')"
  shows "record_of (claim_key c) d = None \<and> record_of (claim_key c) d' = Some (new_idempotency_row c ctx)"
proof -
  have "\<not> exists_row (is_record (claim_Bank c) (claim_Scope c) (claim_Key c)) (idempotency_records d)"
    and "insert_idempotency (new_idempotency_row c ctx) d = Inr d'"
    using assms by (auto simp: insert_idempotency_record_def Let_def map_sum_Inr_iff split: if_splits)
  moreover have "is_record (claim_Bank c) (claim_Scope c) (claim_Key c) (new_idempotency_row c ctx)"
    by (simp add: is_record_def new_idempotency_row_def)
  ultimately show ?thesis
    by (auto simp: record_of_def claim_key_def query_row_append insert_idempotency_def checked_Inr
        query_row_None exists_row_iff split: option.splits dest: query_row_Some)
qed

text \<open>\<open>id::text\<close> of a \<open>uuid\<close> column is never empty, which is how the code tells records apart.\<close>

definition records_ok :: "shard_db \<Rightarrow> bool" where
  "records_ok d \<longleftrightarrow> (\<forall>r \<in> set (idempotency_records d). idem_id r \<noteq> '''')"

definition claim_rest :: "environment \<Rightarrow> ShardIdempotencyClaim \<Rightarrow> uuid option \<Rightarrow>
    ('m shard_world_scheme, ShardIdempotencyReplay) prog" where
  "claim_rest env c inserted =
     (case inserted of Some rid \<Rightarrow> ret (fresh_replay rid) | None \<Rightarrow> idempotency_load env c)"

lemma record_ok: "records_ok d \<Longrightarrow> record_of k d = Some r \<Longrightarrow> idem_id r \<noteq> ''''"
  by (auto simp: records_ok_def record_of_def split: prod.splits dest: query_row_Some)

lemma ClaimIdempotency_InrE:
  assumes "ClaimIdempotency env c w = (Inr rep, w')" and "records_ok (view w)"
  obtains (fresh) "\<not> replay_Found rep"
      and "\<And>r. record_of (claim_key c) (view w) = Some r \<Longrightarrow> idem_expires_at r \<le> claim_Now c"
      and "stored_response (claim_key c) (view w') =
             Some (claim_Fingerprint c, claim_ExpiresAt c, 202, processing_body)"
  | (replay) r status where "replay_Found rep" and "record_of (claim_key c) (view w) = Some r"
      and "claim_Now c < idem_expires_at r" and "idem_request_fingerprint r = claim_Fingerprint c"
      and "idem_response_status r = Some status" and "replay_Status rep = status"
      and "replay_Response rep = (case idem_response_body r of None \<Rightarrow> JNull | Some j \<Rightarrow> j)"
      and "view w' = view w"
proof -
  from assms(1) obtain rep1 w1 where l: "idempotency_load env c w = (Inr rep1, w1)"
    and r: "(if replay_Found rep1 \<or> replay_RecordID rep1 \<noteq> '''' then ret rep1
       else andThen (statement env (insert_idempotency_record c)) (claim_rest env c)) w1 = (Inr rep, w')"
    unfolding ClaimIdempotency_def claim_rest_def by (rule andThen_InrE)
  from l show thesis
  proof (cases rule: load_InrE)
    case absent
    with r have "andThen (statement env (insert_idempotency_record c)) (claim_rest env c) w1 = (Inr rep, w')"
      by (simp add: fresh_replay_def)
    then obtain ins w2 where i: "statement env (insert_idempotency_record c) w1 = (Inr ins, w2)"
      and k: "claim_rest env c ins w2 = (Inr rep, w')"
      by (rule andThen_InrE)
    from i have ii: "insert_idempotency_record c (context_of env w1) (view w1) = Inr (ins, view w2)"
      by (rule statement_InrE)
    have "\<not> exists_row (is_record (claim_Bank c) (claim_Scope c) (claim_Key c)) (idempotency_records (view w1))"
      using absent by (simp add: record_of_def claim_key_def query_row_None exists_row_iff)
    with ii have ins: "ins = Some (sql_uuid (context_of env w1) 0)"
      by (auto simp: insert_idempotency_record_def Let_def map_sum_Inr_iff new_idempotency_row_def)
    with k have "rep = fresh_replay (sql_uuid (context_of env w1) 0)" "w' = w2"
      by (simp_all add: ret_def claim_rest_def)
    moreover from record_of_insert ii ins
    have "record_of (claim_key c) (view w2) = Some (new_idempotency_row c (context_of env w1))" by blast
    ultimately show thesis using absent
      by (intro fresh) (auto simp: fresh_replay_def stored_response_def record_data_def new_idempotency_row_def)
  next
    case (live r status)
    with r show thesis by (intro replay [of r status]) (auto simp: ret_def)
  next
    case (expired r1)
    with record_ok [OF assms(2)] r show thesis by (intro fresh) (auto simp: ret_def fresh_replay_def)
  qed
qed

lemma update_idempotency_keeps_ids:
  assumes "records_ok d" and "update_idempotency P f d = Inr (n, d')"
  shows "records_ok d'"
  using assms
  by (auto simp: records_ok_def update_idempotency_def map_sum_Inr_iff guarded_update_Inr set_update_where
      idempotency_id_key_def)

lemma maintains_records_ok [maintains_intros]:
  "maintains records_ok (ClaimIdempotency env c)"
  "maintains records_ok (FinishIdempotency env bank scope key status response result actor)"
proof -
  have u: "maintains records_ok (statement env (exec_rows (\<lambda>ctx. update_idempotency P (f ctx))))" for P f
    by (rule maintains_statement) (auto simp: exec_rows_Inr dest: update_idempotency_keeps_ids)
  have i: "maintains records_ok (statement env (insert_idempotency_record c))"
    by (rule maintains_statement)
      (auto simp: insert_idempotency_record_def Let_def map_sum_Inr_iff insert_idempotency_def checked_Inr
        records_ok_def split: if_splits)
  have l: "maintains records_ok (idempotency_load env c)"
    unfolding idempotency_load_def idempotency_found_def by (intro maintains_intros u)
  show "maintains records_ok (ClaimIdempotency env c)"
    unfolding ClaimIdempotency_def by (intro maintains_intros i l)
  show "maintains records_ok (FinishIdempotency env bank scope key status response result actor)"
    unfolding FinishIdempotency_def by (rule u)
qed

lemma finish_stored_response:
  assumes "FinishIdempotency env bank scope key status response result actor w = (Inr u, w')"
    and "stored_response (bank, scope, key) (view w) = Some (f, t, r0)"
  shows "stored_response (bank, scope, key) (view w') = Some (f, t, status, response)"
proof -
  let ?f = "\<lambda>ctx r. r\<lparr>idem_status := ''succeeded'', idem_response_status := Some status,
              idem_response_body := Some response, idem_result_reference := nullable result,
              idem_updated_by := actor, idem_updated_at := sql_clock ctx\<rparr> :: idempotency_row"
  from assms(1) obtain n where
    "update_idempotency (is_record bank scope key) (?f (context_of env w)) (view w) = Inr (n, view w')"
    unfolding FinishIdempotency_def by (rule statement_exec_rowsE)
  from update_result(7) [OF this]
  have v: "idempotency_records (view w') =
      update_where (is_record bank scope key) (?f (context_of env w)) (idempotency_records (view w))"
    by simp
  obtain r where r: "record_of (bank, scope, key) (view w) = Some r" "record_data r = Some (f, t, r0)"
    using assms(2) by (auto simp: stored_response_def bind_eq_Some_conv)
  have "record_of (bank, scope, key) (view w') = Some (?f (context_of env w) r)"
    using r(1) unfolding record_of_def by (simp add: v, subst query_row_update_same) (auto simp: is_record_def)
  with r(2) show ?thesis by (auto simp: stored_response_def record_data_def)
qed

interpretation shard_idempotency: idempotency_store
  "shard_claim env" "shard_finish env result actor" "\<lambda>k w. stored_response k (view w)"
  "\<lambda>w. records_ok (view w)" for env result actor
proof
  fix s s' :: "'m shard_world_scheme" and k fp now till
  assume ok: "records_ok (view s)" and "shard_claim env k fp now till s = (Inr None, s')"
  then show "(\<forall>f t r. stored_response k (view s) = Some (f, t, r) \<longrightarrow> t \<le> now) \<and>
      (\<exists>r. stored_response k (view s') = Some (fp, till, r))"
    by (auto simp: shard_claim_def ret_def split: prod.splits if_splits elim!: andThen_InrE ClaimIdempotency_InrE)
      (auto simp: stored_response_def record_data_def claim_key_def bind_eq_Some_conv)
next
  fix s s' :: "'m shard_world_scheme" and k fp now till r
  assume ok: "records_ok (view s)" and "shard_claim env k fp now till s = (Inr (Some r), s')"
  then show "(\<exists>t. stored_response k (view s) = Some (fp, t, r) \<and> now < t) \<and>
      stored_response k (view s') = stored_response k (view s)"
    by (auto simp: shard_claim_def ret_def split: prod.splits if_splits elim!: andThen_InrE ClaimIdempotency_InrE)
      (auto simp: stored_response_def record_data_def claim_key_def)
next
  fix s s' :: "'m shard_world_scheme" and k r f t r0
  assume "shard_finish env result actor k r s = (Inr (), s')" "stored_response k (view s) = Some (f, t, r0)"
  then show "stored_response k (view s') = Some (f, t, r)"
    by (cases k) (auto simp: shard_finish_def dest: finish_stored_response)
next
  fix s s' :: "'m shard_world_scheme" and k fp now till res
  assume "records_ok (view s)" "shard_claim env k fp now till s = (res, s')"
  moreover have "maintains records_ok (shard_claim env k fp now till)"
    unfolding shard_claim_def by (intro maintains_intros)
  ultimately show "records_ok (view s')" using maintainsD by blast
next
  fix s s' :: "'m shard_world_scheme" and k r res'
  assume "records_ok (view s)" "shard_finish env result actor k r s = (res', s')"
  moreover have "maintains records_ok (shard_finish env result actor k r)"
    unfolding shard_finish_def by (intro maintains_intros)
  ultimately show "records_ok (view s')" using maintainsD by blast
qed

lemma stored_response_cong:
  "idempotency_records d = idempotency_records d' \<Longrightarrow> stored_response k d = stored_response k d'"
  by (simp add: stored_response_def record_of_def split: prod.splits)

section \<open>Replay\<close>

lemma live_claim_run:
  assumes "no_faults env" and "stored_response (claim_key c) (view w) = Some (f, t, status, body)"
    and "claim_Now c < t"
  shows "ClaimIdempotency env c w =
    (if claim_Fingerprint c = f
     then (Inr \<lparr>replay_RecordID = idem_id (the (record_of (claim_key c) (view w))), replay_Response = body,
                replay_Status = status, replay_Found = True\<rparr>, ticked w)
     else (Inl ErrIdempotencyConflict, ticked w))"
proof -
  obtain r where r: "record_of (claim_key c) (view w) = Some r" "record_data r = Some (f, t, status, body)"
    using assms(2) by (auto simp: stored_response_def bind_eq_Some_conv)
  then have q: "query_row (is_record (claim_Bank c) (claim_Scope c) (claim_Key c)) (idempotency_records (view w)) = Some r"
    by (simp add: record_of_def claim_key_def)
  have "statement env (read_only (\<lambda>d. Inr (query_row
      (is_record (claim_Bank c) (claim_Scope c) (claim_Key c)) (idempotency_records d)))) w =
    (Inr (Some r), ticked w)"
    using assms(1) q by (simp add: statement_def read_only_def)
  then have "idempotency_load env c w = idempotency_found env c (Some r) (ticked w)"
    unfolding idempotency_load_def by (simp add: andThen_def)
  with r assms(3) show ?thesis
    by (auto simp: ClaimIdempotency_def idempotency_found_def andThen_def ret_def throw_def record_data_def)
qed

text \<open>
  C6. The replay protocol of \<open>ClaimIdempotency\<close> and \<open>FinishIdempotency\<close>. Once a claim has been
  admitted and finished, every claim of the same bank, scope and key before the expiry it recorded
  returns the finished status and body when the request fingerprint is the same, and
  \<open>ErrIdempotencyConflict\<close> when it differs; the work is never admitted a second time.
\<close>

theorem finished_claims_replay:
  assumes "records_ok (view w)" and "ClaimIdempotency env c w = (Inr rep, w1)" and "\<not> replay_Found rep"
    and "idempotency_records (view w2) = idempotency_records (view w1)"
    and "FinishIdempotency env' (claim_Bank c) (claim_Scope c) (claim_Key c) status body result actor w2
          = (Inr (), w3)"
    and "idempotency_records (view w4) = idempotency_records (view w3)"
    and "claim_key c' = claim_key c" and "claim_Now c' < claim_ExpiresAt c" and "no_faults env''"
  shows "(\<exists>rid. fst (ClaimIdempotency env'' c' w4) =
      (if claim_Fingerprint c' = claim_Fingerprint c
       then Inr \<lparr>replay_RecordID = rid, replay_Response = body, replay_Status = status, replay_Found = True\<rparr>
       else Inl ErrIdempotencyConflict)) \<and>
    view (snd (ClaimIdempotency env'' c' w4)) = view w4"
proof -
  note st = stored_response_cong
  have "stored_response (claim_key c) (view w1) =
      Some (claim_Fingerprint c, claim_ExpiresAt c, 202, processing_body)"
    using assms(2,1,3) by (auto elim: ClaimIdempotency_InrE)
  then have "stored_response (claim_key c) (view w2) =
      Some (claim_Fingerprint c, claim_ExpiresAt c, 202, processing_body)"
    using st assms(4) by metis
  then have "stored_response (claim_key c) (view w3) = Some (claim_Fingerprint c, claim_ExpiresAt c, status, body)"
    using finish_stored_response [OF assms(5)] by (simp add: claim_key_def)
  then have "stored_response (claim_key c') (view w4) =
      Some (claim_Fingerprint c, claim_ExpiresAt c, status, body)"
    using st assms(6,7) by metis
  from live_claim_run [OF assms(9) this assms(8)] show ?thesis by auto
qed

definition sample_claim :: ShardIdempotencyClaim where
  "sample_claim = \<lparr>claim_Bank = ''bank'', claim_Scope = ''cards.issue'', claim_Key = ''k1'',
     claim_Fingerprint = replicate 32 7, claim_Now = 2000, claim_ExpiresAt = 9000\<rparr>"

theorem finished_claims_replay_witness:
  "\<exists>rid. fst (ClaimIdempotency sample_env sample_claim
      (snd (FinishIdempotency sample_env ''bank'' ''cards.issue'' ''k1'' 201 (JObj []) '''' ''op''
        (snd (ClaimIdempotency sample_env sample_claim (sample_world sample_db)))))) =
    Inr \<lparr>replay_RecordID = rid, replay_Response = JObj [], replay_Status = 201, replay_Found = True\<rparr>"
proof -
  let ?r1 = "ClaimIdempotency sample_env sample_claim (sample_world sample_db)"
  let ?r2 = "FinishIdempotency sample_env ''bank'' ''cards.issue'' ''k1'' 201 (JObj []) '''' ''op'' (snd ?r1)"
  have "records_ok (view (sample_world sample_db))" by code_simp
  moreover have "?r1 = (Inr (projr (fst ?r1)), snd ?r1)" by code_simp
  moreover have "\<not> replay_Found (projr (fst ?r1))" by code_simp
  moreover have "FinishIdempotency sample_env (claim_Bank sample_claim) (claim_Scope sample_claim)
      (claim_Key sample_claim) 201 (JObj []) '''' ''op'' (snd ?r1) = (Inr (), snd ?r2)"
    by code_simp
  ultimately show ?thesis
    using finished_claims_replay [of "sample_world sample_db" sample_env sample_claim "projr (fst ?r1)"
        "snd ?r1" "snd ?r1" sample_env 201 "JObj []" "''''" "''op''" "snd ?r2" "snd ?r2" sample_claim sample_env]
    by (simp add: sample_claim_def)
qed

section \<open>The protocol touches only its own table\<close>

definition but_records :: "shard_db \<Rightarrow> shard_db" where
  "but_records d = d\<lparr>idempotency_records := []\<rparr>"

lemma maintains_but_records [maintains_intros]:
  "maintains (\<lambda>d. but_records d = X) (ClaimIdempotency env c)"
  "maintains (\<lambda>d. but_records d = X) (FinishIdempotency env bank scope key status response result actor)"
proof -
  have u: "maintains (\<lambda>d. but_records d = X) (statement env (exec_rows (\<lambda>ctx. update_idempotency P (f ctx))))" for P f
    by (rule maintains_statement) (auto simp: exec_rows_Inr but_records_def dest!: update_result)
  have i: "maintains (\<lambda>d. but_records d = X) (statement env (insert_idempotency_record c))"
    by (rule maintains_statement)
      (auto simp: insert_idempotency_record_def Let_def map_sum_Inr_iff insert_idempotency_def checked_Inr
        but_records_def split: if_splits)
  have l: "maintains (\<lambda>d. but_records d = X) (idempotency_load env c)"
    unfolding idempotency_load_def idempotency_found_def by (intro maintains_intros u)
  show "maintains (\<lambda>d. but_records d = X) (ClaimIdempotency env c)"
    unfolding ClaimIdempotency_def by (intro maintains_intros i l)
  show "maintains (\<lambda>d. but_records d = X) (FinishIdempotency env bank scope key status response result actor)"
    unfolding FinishIdempotency_def by (rule u)
qed

lemma claim_but_records: "ClaimIdempotency env c w = (r, w') \<Longrightarrow> but_records (view w') = but_records (view w)"
  using maintainsD [OF maintains_but_records(1)] by metis

lemma finish_but_records:
  "FinishIdempotency env bank scope key status response result actor w = (r, w') \<Longrightarrow>
   but_records (view w') = but_records (view w)"
  using maintainsD [OF maintains_but_records(2)] by metis

lemma but_records_tables:
  assumes "but_records d = but_records d'"
  shows "cards d = cards d'" and "card_operations d = card_operations d'"
    and "card_status_batches d = card_status_batches d'" and "account_references d = account_references d'"
    and "card_products d = card_products d'"
  using arg_cong [OF assms, of cards] arg_cong [OF assms, of card_operations]
    arg_cong [OF assms, of card_status_batches] arg_cong [OF assms, of account_references]
    arg_cong [OF assms, of card_products]
  by (simp_all add: but_records_def)

lemma but_records_idem [simp]: "but_records (but_records d) = but_records d"
  by (simp add: but_records_def)

section \<open>Runs without faults\<close>

lemma absent_claim_run:
  assumes "no_faults env" and "record_of (claim_key c) (view w) = None"
    and "gen_random_uuid env (Suc (tick w)) 0 \<noteq> ''''"
    and "(claim_Bank c, gen_random_uuid env (Suc (tick w)) 0) \<notin> idempotency_id_key ` set (idempotency_records (view w))"
    and "idempotency_checks (new_idempotency_row c (context_of env (ticked w)))"
    and "entity_exists (claim_Bank c) (view w)"
  shows "ClaimIdempotency env c w = (Inr (fresh_replay (gen_random_uuid env (Suc (tick w)) 0)),
    (ticked (ticked w))\<lparr>view := (view w)\<lparr>idempotency_records := idempotency_records (view w) @
      [new_idempotency_row c (context_of env (ticked w))]\<rparr>\<rparr>)"
proof -
  let ?P = "is_record (claim_Bank c) (claim_Scope c) (claim_Key c)"
  let ?r = "new_idempotency_row c (context_of env (ticked w))"
  let ?d = "(view w)\<lparr>idempotency_records := idempotency_records (view w) @ [?r]\<rparr>"
  have none: "\<not> ?P r" if "r \<in> set (idempotency_records (view w))" for r
    using assms(2) that by (auto simp: record_of_def claim_key_def query_row_None)
  have "statement env (read_only (\<lambda>d. Inr (query_row ?P (idempotency_records d)))) w = (Inr None, ticked w)"
    using assms(1,2) by (simp add: statement_def read_only_def record_of_def claim_key_def)
  then have l: "idempotency_load env c w = (Inr (fresh_replay ''''), ticked w)"
    unfolding idempotency_load_def by (simp add: andThen_def idempotency_found_def ret_def)
  have row: "idem_id ?r = gen_random_uuid env (Suc (tick w)) 0" "idem_entity ?r = claim_Bank c"
    "idempotency_key ?r = claim_key c"
    by (simp_all add: new_idempotency_row_def context_of_def idempotency_key_def claim_key_def)
  have "claim_key c \<notin> idempotency_key ` set (idempotency_records (view w))"
    using none by (force simp: is_record_def idempotency_key_def claim_key_def)
  then have "insert_idempotency ?r (view w) = Inr ?d"
    using assms(3-6) by (simp add: insert_idempotency_def checked_Inr no_key_iff row idempotency_id_key_def)
  then have "insert_idempotency_record c (context_of env (ticked w)) (view (ticked w)) = Inr (Some (idem_id ?r), ?d)"
    using none by (auto simp: insert_idempotency_record_def exists_row_iff Let_def map_sum_Inr_iff)
  then have i: "statement env (insert_idempotency_record c) (ticked w) =
      (Inr (Some (idem_id ?r)), (ticked (ticked w))\<lparr>view := ?d\<rparr>)"
    by (rule statement_run [OF assms(1)])
  from row(1) show ?thesis
    unfolding ClaimIdempotency_def andThen_def l by (simp add: i fresh_replay_def ret_def)
qed

lemma finish_run:
  assumes "no_faults env"
    and "\<And>r (ctx :: sql_context). r \<in> set (idempotency_records (view w)) \<Longrightarrow> is_record bank scope key r \<Longrightarrow>
      idempotency_checks (r\<lparr>idem_status := ''succeeded'', idem_response_status := Some status,
        idem_response_body := Some response, idem_result_reference := nullable result,
        idem_updated_by := actor, idem_updated_at := sql_clock ctx\<rparr>)"
  shows "\<exists>w'. FinishIdempotency env bank scope key status response result actor w = (Inr (), w')"
proof -
  let ?f = "\<lambda>ctx r. r\<lparr>idem_status := ''succeeded'', idem_response_status := Some status,
        idem_response_body := Some response, idem_result_reference := nullable result,
        idem_updated_by := actor, idem_updated_at := sql_clock ctx\<rparr> :: idempotency_row"
  let ?rows = "update_where (is_record bank scope key) (?f (context_of env w)) (idempotency_records (view w))"
  have "exec_rows (\<lambda>ctx. update_idempotency (is_record bank scope key) (?f ctx)) (context_of env w) (view w)
      = Inr ((), (view w)\<lparr>idempotency_records := ?rows\<rparr>)"
    unfolding exec_rows_Inr update_idempotency_def map_sum_Inr_iff
    using assms(2) [of _ "context_of env w"]
    by (intro exI [of _ "affected (is_record bank scope key) (idempotency_records (view w))"]
        exI [of _ "(affected (is_record bank scope key) (idempotency_records (view w)), ?rows)"])
      (simp add: guarded_update_Inr idempotency_id_key_def)
  then show ?thesis unfolding FinishIdempotency_def by (intro exI) (rule statement_run [OF assms(1)])
qed

end
