(* ===== verification/Shard_Store.thy ===== *)
theory Shard_Store
  imports Shard_Reader Shard_Idempotency
begin

text \<open>
  The statements of a shard transaction (\<open>internal/repository/shard/reader.go\<close>, the methods
  of \<open>transaction\<close>): each method is the sequence of its SQL statements, with the early return
  at the first error.
\<close>

section \<open>Rows written by several methods\<close>

definition audit_row_of ::
  "uuid \<Rightarrow> uuid option \<Rightarrow> string \<Rightarrow> uuid option \<Rightarrow> string option \<Rightarrow> string \<Rightarrow> string \<Rightarrow>
   uuid option \<Rightarrow> string \<Rightarrow> uuid \<Rightarrow> json \<Rightarrow> sql_context \<Rightarrow> audit_row" where
  "audit_row_of bank actor role actorEntity executor action kind resource outcome requestID details ctx =
     \<lparr>audit_entity = bank, audit_id = sql_uuid ctx 0, audit_actor_user_id = actor, audit_actor_role = role,
      audit_actor_entity_id = actorEntity, audit_executor_identity = executor, audit_action = action,
      audit_resource_type = kind, audit_resource_id = resource, audit_outcome = outcome,
      audit_request_id = requestID, audit_occurred_at = sql_now ctx, audit_details = details\<rparr>"

definition insertAudit ::
  "environment \<Rightarrow> uuid \<Rightarrow> uuid option \<Rightarrow> string \<Rightarrow> uuid option \<Rightarrow> string option \<Rightarrow> string \<Rightarrow> string \<Rightarrow>
   uuid option \<Rightarrow> string \<Rightarrow> uuid \<Rightarrow> json \<Rightarrow> ('m shard_world_scheme, unit) prog" where
  "insertAudit env bank actor role actorEntity executor action kind resource outcome requestID details =
     statement env (exec (\<lambda>ctx. insert_audit (audit_row_of bank actor role actorEntity executor action kind
       resource outcome requestID details ctx)))"

definition history_row_of ::
  "uuid \<Rightarrow> uuid \<Rightarrow> uuid \<Rightarrow> string \<Rightarrow> string \<Rightarrow> string \<Rightarrow> uuid option \<Rightarrow> string \<Rightarrow>
   uuid option \<Rightarrow> string option \<Rightarrow> sql_context \<Rightarrow> history_row" where
  "history_row_of bank cardID operationID previous new reason actor role actorEntity executor ctx =
     \<lparr>hist_ID = sql_uuid ctx 0, hist_PreviousStatus = previous, hist_NewStatus = new, hist_Reason = reason,
      hist_CreatedAt = sql_now ctx, hist_entity = bank, hist_card_id = cardID,
      hist_operation_id = operationID, hist_actor_user_id = actor, hist_actor_role = role,
      hist_actor_entity_id = actorEntity, hist_executor_identity = executor\<rparr>"

definition insertStatusHistory ::
  "environment \<Rightarrow> uuid \<Rightarrow> uuid \<Rightarrow> uuid \<Rightarrow> string \<Rightarrow> string \<Rightarrow> string \<Rightarrow> uuid option \<Rightarrow> string \<Rightarrow>
   uuid option \<Rightarrow> string option \<Rightarrow> ('m shard_world_scheme, unit) prog" where
  "insertStatusHistory env bank cardID operationID previous new reason actor role actorEntity executor =
     statement env (exec (\<lambda>ctx. insert_history (history_row_of bank cardID operationID previous new reason
       actor role actorEntity executor ctx)))"

definition returning :: "('r \<Rightarrow> shard_db \<Rightarrow> shard_db result) \<Rightarrow> ('r \<Rightarrow> 'a) \<Rightarrow> (sql_context \<Rightarrow> 'r) \<Rightarrow>
    sql_context \<Rightarrow> shard_db \<Rightarrow> ('a \<times> shard_db) result" where
  "returning ins scan row = (\<lambda>ctx d. map_sum id (\<lambda>d'. (scan (row ctx), d')) (ins (row ctx) d))"

lemma returning_Inr: "returning ins scan row ctx d = Inr (x, d') \<longleftrightarrow> x = scan (row ctx) \<and> ins (row ctx) d = Inr d'"
  by (auto simp: returning_def map_sum_Inr_iff)

definition operation_row_of ::
  "uuid \<Rightarrow> uuid \<Rightarrow> uuid \<Rightarrow> string \<Rightarrow> string \<Rightarrow> string \<Rightarrow> uuid \<Rightarrow> string \<Rightarrow> string \<Rightarrow> uuid \<Rightarrow> time option \<Rightarrow>
   sql_context \<Rightarrow> operation_row" where
  "operation_row_of bank operationID cardID action status reason actorID actorRole actorEntityID requestID at ctx =
     \<lparr>op_ID = operationID, op_CardID = cardID, op_Action = action, op_Status = status, op_Reason = reason,
      op_CreatedAt = sql_now ctx, op_CompletedAt = at, op_entity = bank, op_actor_user_id = Some actorID,
      op_actor_role = actorRole, op_actor_entity_id = nullable actorEntityID, op_executor_identity = None,
      op_request_id = requestID, op_started_at = at, op_failure_code = None, op_failure_summary = None,
      op_updated_at = sql_now ctx, op_created_by = Some actorID, op_updated_by = Some actorID\<rparr>"

definition insertCardOperation ::
  "environment \<Rightarrow> uuid \<Rightarrow> uuid \<Rightarrow> uuid \<Rightarrow> string \<Rightarrow> string \<Rightarrow> uuid \<Rightarrow> string \<Rightarrow> string \<Rightarrow> uuid \<Rightarrow>
   ('m shard_world_scheme, CardOperation) prog" where
  "insertCardOperation env bank operationID cardID action reason actorID actorRole actorEntityID requestID =
     statement env (returning insert_operation scanCardOperation (\<lambda>ctx.
       operation_row_of bank operationID cardID action ''succeeded'' reason actorID actorRole actorEntityID
         requestID (Some (sql_clock ctx)) ctx))"

section \<open>Banks and reference data\<close>

definition ProvisionEntity :: "environment \<Rightarrow> EntityProvision \<Rightarrow> ('m shard_world_scheme, unit) prog" where
  "ProvisionEntity env input =
     andThen (statement env (\<lambda>ctx d.
       if exists_row (\<lambda>r. ent_ID r = ep_ID input) (entities d)
       then exec_rows (\<lambda>ctx. update_entities (\<lambda>r. ent_ID r = ep_ID input)
              (\<lambda>r. r\<lparr>ent_Name := ep_Name input, ent_updated_by := ep_ActorID input,
                     ent_UpdatedAt := sql_clock ctx\<rparr>)) ctx d
       else checked
         [(''23514'', btrim_nonempty (ep_BankReference input) \<and> btrim_nonempty (ep_Name input)),
          (''23505'', no_key ent_BankReference (ep_BankReference input) (entities d))]
         ((), d\<lparr>entities := entities d @ [\<lparr>ent_ID = ep_ID input, ent_BankReference = ep_BankReference input,
            ent_Name = ep_Name input, ent_Status = ''active'', ent_CreatedAt = sql_now ctx,
            ent_UpdatedAt = sql_now ctx, ent_created_by = ep_ActorID input, ent_updated_by = ep_ActorID input\<rparr>]\<rparr>)))
     (\<lambda>_. insertAudit env (ep_ID input) (Some (ep_ActorID input)) ''issuer_operator'' None None
        ''bank_provision'' ''bank'' (Some (ep_ID input)) ''succeeded'' (ep_RequestID input) (JObj []))"

text \<open>\<open>UPDATE ... RETURNING\<close>: no row is \<open>pgx.ErrNoRows\<close>.\<close>

definition coalesce :: "'a option \<Rightarrow> 'a \<Rightarrow> 'a" where
  "coalesce x y = (case x of None \<Rightarrow> y | Some v \<Rightarrow> v)"

definition UpdateEntity :: "environment \<Rightarrow> EntityPatch \<Rightarrow> ('m shard_world_scheme, Entity) prog" where
  "UpdateEntity env input =
     andThen (statement env (\<lambda>ctx d.
       case update_entities (\<lambda>r. ent_ID r = epp_ID input)
              (\<lambda>r. r\<lparr>ent_Name := coalesce (epp_Name input) (ent_Name r),
                     ent_Status := coalesce (epp_Status input) (ent_Status r),
                     ent_updated_by := epp_ActorID input, ent_UpdatedAt := sql_clock ctx\<rparr>) d of
         Inl e \<Rightarrow> Inl e
       | Inr (n, d') \<Rightarrow> map_sum id (\<lambda>x. (x, d'))
           (scan_row scanEntity (query_row (\<lambda>r. ent_ID r = epp_ID input) (entities d')))))
     (\<lambda>entity. andThen (insertAudit env (epp_ID input) (Some (epp_ActorID input)) ''issuer_operator'' None None
        ''bank_update'' ''bank'' (Some (epp_ID input)) ''succeeded'' (epp_RequestID input) (JObj []))
      (\<lambda>_. ret entity))"

definition CreateCardProduct ::
  "environment \<Rightarrow> uuid \<Rightarrow> CardProductCreate \<Rightarrow> ('m shard_world_scheme, CardProduct) prog" where
  "CreateCardProduct env bank input =
     statement env (returning insert_product scanCardProduct (\<lambda>ctx.
       \<lparr>prod_ID = sql_uuid ctx 0, prod_ProductCode = pc_ProductCode input, prod_Name = pc_Name input,
        prod_Status = pc_Status input, prod_Configuration = pc_Configuration input,
        prod_ConfigurationVersion = 1, prod_CreatedAt = sql_now ctx, prod_UpdatedAt = sql_now ctx,
        prod_entity = bank, prod_created_by = pc_ActorID input, prod_updated_by = pc_ActorID input\<rparr>))"

text \<open>\<open>product, err == nil\<close> with \<open>ErrNoRows\<close> turned into \<open>found = false\<close>: an option.\<close>

definition UpdateCardProduct ::
  "environment \<Rightarrow> uuid \<Rightarrow> uuid \<Rightarrow> CardProductPatch \<Rightarrow> ('m shard_world_scheme, CardProduct option) prog" where
  "UpdateCardProduct env bank rid input =
     statement env (\<lambda>ctx d.
       case update_products (\<lambda>r. prod_entity r = bank \<and> prod_ID r = rid)
              (\<lambda>r. r\<lparr>prod_Name := coalesce (pp_Name input) (prod_Name r),
                     prod_Status := coalesce (pp_Status input) (prod_Status r),
                     prod_Configuration := coalesce (pp_Configuration input) (prod_Configuration r),
                     prod_ConfigurationVersion := prod_ConfigurationVersion r +
                       (case pp_Configuration input of None \<Rightarrow> 0
                        | Some c \<Rightarrow> if prod_Configuration r = c then 0 else 1),
                     prod_updated_by := pp_ActorID input, prod_UpdatedAt := sql_clock ctx\<rparr>) d of
         Inl e \<Rightarrow> Inl e
       | Inr (n, d') \<Rightarrow> Inr (map_option scanCardProduct
           (query_row (\<lambda>r. prod_entity r = bank \<and> prod_ID r = rid) (card_products d')), d'))"

definition CreateClient :: "environment \<Rightarrow> uuid \<Rightarrow> ClientCreate \<Rightarrow> ('m shard_world_scheme, Client) prog" where
  "CreateClient env bank input =
     statement env (returning insert_client scanClient (\<lambda>ctx.
       \<lparr>cl_ID = sql_uuid ctx 0, cl_ExternalClientRef = cc_ExternalClientRef input,
        cl_DisplayName = cc_DisplayName input, cl_CreatedAt = sql_now ctx, cl_UpdatedAt = sql_now ctx,
        cl_entity = bank, cl_created_by = cc_ActorID input, cl_updated_by = cc_ActorID input\<rparr>))"

definition UpdateClient ::
  "environment \<Rightarrow> uuid \<Rightarrow> uuid \<Rightarrow> ClientPatch \<Rightarrow> ('m shard_world_scheme, Client option) prog" where
  "UpdateClient env bank rid input =
     statement env (\<lambda>ctx d.
       case update_clients (\<lambda>r. cl_entity r = bank \<and> cl_ID r = rid)
              (\<lambda>r. r\<lparr>cl_DisplayName := cp_DisplayName input, cl_updated_by := cp_ActorID input,
                     cl_UpdatedAt := sql_clock ctx\<rparr>) d of
         Inl e \<Rightarrow> Inl e
       | Inr (n, d') \<Rightarrow> Inr (map_option scanClient
           (query_row (\<lambda>r. cl_entity r = bank \<and> cl_ID r = rid) (clients d')), d'))"

definition CreateAccountReference ::
  "environment \<Rightarrow> uuid \<Rightarrow> AccountReferenceCreate \<Rightarrow> ('m shard_world_scheme, AccountReference) prog" where
  "CreateAccountReference env bank input =
     statement env (returning insert_account scanAccountReference (\<lambda>ctx.
       \<lparr>ar_ID = sql_uuid ctx 0, ar_ClientID = ac_ClientID input, ar_ExternalAccountRef = ac_ExternalAccountRef input,
        ar_CreatedAt = sql_now ctx, ar_UpdatedAt = sql_now ctx, ar_entity = bank,
        ar_created_by = ac_ActorID input, ar_updated_by = ac_ActorID input\<rparr>))"

definition UpdateAccountReference ::
  "environment \<Rightarrow> uuid \<Rightarrow> uuid \<Rightarrow> AccountReferencePatch \<Rightarrow> ('m shard_world_scheme, AccountReference option) prog" where
  "UpdateAccountReference env bank rid input =
     statement env (\<lambda>ctx d.
       case update_accounts (\<lambda>r. ar_entity r = bank \<and> ar_ID r = rid)
              (\<lambda>r. r\<lparr>ar_ClientID := ap_ClientID input, ar_updated_by := ap_ActorID input,
                     ar_UpdatedAt := sql_clock ctx\<rparr>) d of
         Inl e \<Rightarrow> Inl e
       | Inr (n, d') \<Rightarrow> Inr (map_option scanAccountReference
           (query_row (\<lambda>r. ar_entity r = bank \<and> ar_ID r = rid) (account_references d')), d'))"

definition RecordReferenceAudit :: "environment \<Rightarrow> ReferenceAudit \<Rightarrow> ('m shard_world_scheme, unit) prog" where
  "RecordReferenceAudit env audit =
     insertAudit env (ra_Bank audit) (Some (ra_ActorID audit)) (ra_ActorRole audit)
       (nullable (ra_ActorEntityID audit)) None (ra_Action audit) (ra_Kind audit)
       (Some (ra_ResourceID audit)) ''succeeded'' (ra_RequestID audit) (JObj [])"

section \<open>Cards\<close>

definition IssueReferencesValid ::
  "environment \<Rightarrow> uuid \<Rightarrow> uuid \<Rightarrow> uuid \<Rightarrow> uuid \<Rightarrow> ('m shard_world_scheme, bool) prog" where
  "IssueReferencesValid env bank clientID accountID productID =
     statement env (read_only (\<lambda>d. Inr
       (exists_row (\<lambda>a. ar_entity a = bank \<and> ar_ID a = accountID \<and> ar_ClientID a = clientID \<and>
          exists_row (\<lambda>p. prod_entity p = ar_entity a \<and> prod_ID p = productID \<and> prod_Status p = ''active'')
            (card_products d)) (account_references d))))"

definition issued_card_row ::
  "uuid \<Rightarrow> uuid \<Rightarrow> uuid \<Rightarrow> uuid \<Rightarrow> uuid \<Rightarrow> string \<Rightarrow> uuid option \<Rightarrow> uuid \<Rightarrow> sql_context \<Rightarrow> card_row" where
  "issued_card_row bank cardID clientID accountID productID maskedPAN predecessor actorID ctx =
     \<lparr>card_ID = cardID, card_ClientID = clientID, card_AccountReferenceID = accountID,
      card_ProductID = productID, card_Status = ''issued'', card_MaskedPAN = Some maskedPAN,
      card_PredecessorCardID = predecessor, card_IssuedAt = Some (sql_clock ctx), card_ActivatedAt = None,
      card_SuspendedAt = None, card_ClosedAt = None, card_ExpiresAt = None, card_Version = 1,
      card_CreatedAt = sql_now ctx, card_UpdatedAt = sql_now ctx, card_entity = bank,
      card_created_by = actorID, card_updated_by = actorID\<rparr>"

definition IssueCard ::
  "environment \<Rightarrow> uuid \<Rightarrow> CardIssue \<Rightarrow> ('m shard_world_scheme, Card \<times> CardOperation) prog" where
  "IssueCard env bank input =
     andThen (statement env (returning insert_card scanCard
       (issued_card_row bank (ci_CardID input) (ci_ClientID input) (ci_AccountReferenceID input)
          (ci_ProductID input) (ci_MaskedPAN input) None (ci_ActorID input)))) (\<lambda>card.
     andThen (insertCardOperation env bank (ci_OperationID input) (ci_CardID input) ''issue'' (ci_Reason input)
       (ci_ActorID input) (ci_ActorRole input) (ci_ActorEntityID input) (ci_RequestID input)) (\<lambda>operation.
     andThen (insertStatusHistory env bank (ci_CardID input) (ci_OperationID input) ''pending'' ''issued''
       (ci_Reason input) (Some (ci_ActorID input)) (ci_ActorRole input) (nullable (ci_ActorEntityID input)) None) (\<lambda>_.
     andThen (insertAudit env bank (Some (ci_ActorID input)) (ci_ActorRole input)
       (nullable (ci_ActorEntityID input)) None ''card.issue'' ''card'' (Some (ci_CardID input)) ''succeeded''
       (ci_RequestID input) (JObj [])) (\<lambda>_.
     ret (card, operation)))))"

definition LockCard :: "environment \<Rightarrow> uuid \<Rightarrow> uuid \<Rightarrow> ('m shard_world_scheme, CardState) prog" where
  "LockCard env bank rid =
     onError (statement env (read_only (\<lambda>d. scan_row
       (\<lambda>r. \<lparr>cs_Status = card_Status r, cs_ClientID = card_ClientID r,
             cs_AccountReferenceID = card_AccountReferenceID r, cs_ProductID = card_ProductID r\<rparr>)
       (query_row (\<lambda>r. card_entity r = bank \<and> card_ID r = rid) (cards d))))) not_found"

definition ReplacementPending :: "environment \<Rightarrow> uuid \<Rightarrow> uuid \<Rightarrow> ('m shard_world_scheme, bool) prog" where
  "ReplacementPending env bank predecessorID =
     statement env (read_only (\<lambda>d. Inr (exists_row (\<lambda>r. card_entity r = bank \<and>
       card_PredecessorCardID r = Some predecessorID \<and> card_Status r = ''issued'') (cards d))))"

definition ReplaceCard ::
  "environment \<Rightarrow> uuid \<Rightarrow> CardReplacement \<Rightarrow> ('m shard_world_scheme, Card \<times> CardOperation) prog" where
  "ReplaceCard env bank input =
     andThen (statement env (returning insert_card scanCard
       (issued_card_row bank (cr_SuccessorID input) (cr_ClientID input) (cr_AccountReferenceID input)
          (cr_ProductID input) (cr_MaskedPAN input) (Some (cr_PredecessorID input)) (cr_ActorID input)))) (\<lambda>card.
     andThen (insertCardOperation env bank (cr_OperationID input) (cr_SuccessorID input) ''replace''
       (cr_Reason input) (cr_ActorID input) (cr_ActorRole input) (cr_ActorEntityID input) (cr_RequestID input))
       (\<lambda>operation.
     andThen (insertStatusHistory env bank (cr_SuccessorID input) (cr_OperationID input) ''pending'' ''issued''
       (cr_Reason input) (Some (cr_ActorID input)) (cr_ActorRole input) (nullable (cr_ActorEntityID input)) None) (\<lambda>_.
     andThen (insertAudit env bank (Some (cr_ActorID input)) (cr_ActorRole input)
       (nullable (cr_ActorEntityID input)) None ''card.replace'' ''card'' (Some (cr_SuccessorID input)) ''succeeded''
       (cr_RequestID input) (JObj [])) (\<lambda>_.
     ret (card, operation)))))"

definition status_change :: "string \<Rightarrow> string \<Rightarrow> uuid \<Rightarrow> sql_context \<Rightarrow> card_row \<Rightarrow> card_row" where
  "status_change action status actor ctx r =
     (let r' = r\<lparr>card_Status := status, card_Version := card_Version r + 1, card_updated_by := actor,
                 card_UpdatedAt := sql_clock ctx\<rparr>
      in if action = ''activate'' then r'\<lparr>card_ActivatedAt := Some (sql_clock ctx)\<rparr>
         else if action = ''suspend'' then r'\<lparr>card_SuspendedAt := Some (sql_clock ctx)\<rparr>
         else if action = ''close'' then r'\<lparr>card_ClosedAt := Some (sql_clock ctx)\<rparr>
         else r')"

definition updateCardStatus ::
  "environment \<Rightarrow> string \<Rightarrow> uuid \<Rightarrow> uuid \<Rightarrow> string \<Rightarrow> uuid \<Rightarrow> ('m shard_world_scheme, unit) prog" where
  "updateCardStatus env action bank rid status actor =
     (if action \<in> set [''activate'', ''suspend'', ''close'', ''resume'']
      then statement env (exec_rows (\<lambda>ctx. update_cards (\<lambda>r. card_entity r = bank \<and> card_ID r = rid)
             (status_change action status actor ctx)))
      else throw (PlainError ''unsupported card transition action''))"

definition predecessor_of :: "shard_db \<Rightarrow> uuid \<Rightarrow> uuid \<Rightarrow> card_row option" where
  "predecessor_of d bank successor =
     (case query_row (\<lambda>s. card_entity s = bank \<and> card_ID s = successor) (cards d) of
        None \<Rightarrow> None
      | Some s \<Rightarrow> (case card_PredecessorCardID s of
          None \<Rightarrow> None
        | Some p \<Rightarrow> query_row (\<lambda>r. card_entity r = card_entity s \<and> card_ID r = p) (cards d)))"

definition closePredecessorOnActivation ::
  "environment \<Rightarrow> uuid \<Rightarrow> CardCommand \<Rightarrow> ('m shard_world_scheme, unit) prog" where
  "closePredecessorOnActivation env bank input =
     andThen (statement env (read_only (\<lambda>d. Inr (predecessor_of d bank (cmd_CardID input))))) (\<lambda>found.
     case found of
       None \<Rightarrow> ret ()
     | Some p \<Rightarrow>
         if card_Status p \<noteq> ''active'' \<and> card_Status p \<noteq> ''suspended'' then ret ()
         else
           andThen (statement env (exec_rows (\<lambda>ctx. update_cards
             (\<lambda>r. card_entity r = bank \<and> card_ID r = card_ID p \<and> card_Status r \<in> set [''active'', ''suspended''])
             (status_change ''close'' ''closed'' (cmd_ActorID input) ctx)))) (\<lambda>_.
           andThen (insertCardOperation env bank (cmd_PredecessorOperationID input) (card_ID p) ''close''
             (cmd_Reason input) (cmd_ActorID input) (cmd_ActorRole input) (cmd_ActorEntityID input)
             (cmd_RequestID input)) (\<lambda>_.
           insertStatusHistory env bank (card_ID p) (cmd_PredecessorOperationID input) (card_Status p) ''closed''
             (cmd_Reason input) (Some (cmd_ActorID input)) (cmd_ActorRole input)
             (nullable (cmd_ActorEntityID input)) None)))"

definition ApplyCardCommand ::
  "environment \<Rightarrow> uuid \<Rightarrow> CardCommand \<Rightarrow> ('m shard_world_scheme, Card \<times> CardOperation) prog" where
  "ApplyCardCommand env bank input =
     andThen (insertCardOperation env bank (cmd_OperationID input) (cmd_CardID input) (cmd_Action input)
       (cmd_Reason input) (cmd_ActorID input) (cmd_ActorRole input) (cmd_ActorEntityID input)
       (cmd_RequestID input)) (\<lambda>operation.
     andThen (if cmd_Ignored input then ret () else
       andThen (updateCardStatus env (cmd_Action input) bank (cmd_CardID input) (cmd_TargetStatus input)
         (cmd_ActorID input)) (\<lambda>_.
       andThen (insertStatusHistory env bank (cmd_CardID input) (cmd_OperationID input)
         (cmd_PreviousStatus input) (cmd_TargetStatus input) (cmd_Reason input) (Some (cmd_ActorID input))
         (cmd_ActorRole input) (nullable (cmd_ActorEntityID input)) None) (\<lambda>_.
       if cmd_Action input = ''activate'' then closePredecessorOnActivation env bank input else ret ())))
     (\<lambda>_.
     andThen (insertAudit env bank (Some (cmd_ActorID input)) (cmd_ActorRole input)
       (nullable (cmd_ActorEntityID input)) None (''card.'' @ cmd_Action input) ''card''
       (Some (cmd_CardID input)) ''succeeded'' (cmd_RequestID input)
       (JObj [(''ignored'', JBool (cmd_Ignored input))])) (\<lambda>_.
     andThen (statement env (read_only (\<lambda>d. scan_row scanCard
       (query_row (\<lambda>r. card_entity r = bank \<and> card_ID r = cmd_CardID input) (cards d))))) (\<lambda>card.
     ret (card, operation)))))"

section \<open>Manual expiry retry\<close>

definition RetryExpiryItem ::
  "environment \<Rightarrow> uuid \<Rightarrow> uuid \<Rightarrow> uuid \<Rightarrow> uuid \<Rightarrow> ('m shard_world_scheme, bool) prog" where
  "RetryExpiryItem env bank run item actor =
     andThen (statement env (exec_rows (\<lambda>ctx d. update_expiry_runs
       (\<lambda>r. er_entity r = bank \<and> er_id r = run \<and> er_status r = ''completed'' \<and>
            exists_row (\<lambda>i. ei_entity i = er_entity r \<and> ei_expiry_run_id i = er_id r \<and> ei_id i = item \<and>
              ei_status i = ''manual_retry_required'') (card_expiry_run_items d))
       (\<lambda>r. r\<lparr>er_status := ''processing'', er_completed_at := None, er_updated_at := sql_clock ctx\<rparr>) d))) (\<lambda>_.
     andThen (statement env (\<lambda>ctx d. update_expiry_items (sql_clock ctx)
       (\<lambda>i. ei_entity i = bank \<and> ei_expiry_run_id i = run \<and> ei_id i = item \<and>
            ei_status i = ''manual_retry_required'' \<and>
            exists_row (\<lambda>c. card_entity c = ei_entity i \<and> card_ID c = ei_card_id i \<and>
              card_Status c \<noteq> ''expired'') (cards d))
       (\<lambda>i. i\<lparr>ei_status := ''pending'', ei_manual_retry_count := ei_manual_retry_count i + 1,
              ei_manual_retry_by := Some actor, ei_manual_retry_at := Some (sql_clock ctx),
              ei_next_attempt_at := sql_clock ctx, ei_updated_at := sql_clock ctx\<rparr>) d)) (\<lambda>n.
     ret (n = 1)))"

definition RecordExpiryRetryAudit ::
  "environment \<Rightarrow> uuid \<Rightarrow> uuid \<Rightarrow> uuid \<Rightarrow> uuid \<Rightarrow> ('m shard_world_scheme, unit) prog" where
  "RecordExpiryRetryAudit env bank item actor requestID =
     insertAudit env bank (Some actor) ''issuer_operator'' None None ''expiry_retry'' ''expiry_item'' (Some item)
       ''succeeded'' requestID (JObj [(''reason'', JStr ''manual_retry'')])"

section \<open>Batches\<close>

definition CardsExist :: "environment \<Rightarrow> uuid \<Rightarrow> uuid list \<Rightarrow> ('m shard_world_scheme, bool) prog" where
  "CardsExist env bank cardIDs =
     statement env (read_only (\<lambda>d. Inr
       (affected (\<lambda>r. card_entity r = bank \<and> card_ID r \<in> set cardIDs) (cards d) = length cardIDs)))"

definition batchOperationAction :: "string \<Rightarrow> string" where
  "batchOperationAction targetStatus =
     (if targetStatus = ''active'' then ''activate''
      else if targetStatus = ''suspended'' then ''suspend''
      else ''close'')"

text \<open>The loop of \<open>insertCardStatusBatchItems\<close>; both lists have the same length.\<close>

fun insert_items_loop ::
  "environment \<Rightarrow> uuid \<Rightarrow> uuid \<Rightarrow> string \<Rightarrow> string \<Rightarrow> uuid \<Rightarrow> string \<Rightarrow> string \<Rightarrow> uuid \<Rightarrow> time \<Rightarrow>
   (uuid \<times> uuid) list \<Rightarrow> ('m shard_world_scheme, CardStatusBatchItem list) prog" where
  "insert_items_loop env bank batchID action reason actorID actorRole actorEntityID requestID createdAt [] = ret []"
| "insert_items_loop env bank batchID action reason actorID actorRole actorEntityID requestID createdAt
     ((cardID, operationID) # rest) =
     andThen (statement env (exec (\<lambda>ctx. insert_operation
       (operation_row_of bank operationID cardID action ''queued'' reason actorID actorRole actorEntityID
          requestID None ctx)))) (\<lambda>_.
     andThen (statement env (returning insert_batch_item bi_id (\<lambda>ctx.
       \<lparr>bi_entity = bank, bi_id = sql_uuid ctx 0, bi_batch_id = batchID, bi_card_id = cardID,
        bi_operation_id = operationID, bi_previous_status = None, bi_outcome = ''pending'',
        bi_failure_code = None\<rparr>))) (\<lambda>itemID.
     andThen (insert_items_loop env bank batchID action reason actorID actorRole actorEntityID requestID
       createdAt rest) (\<lambda>items.
     ret (\<lparr>item_ID = itemID, item_CardID = cardID, item_OperationID = operationID,
           item_PreviousStatus = None, item_Outcome = ''pending'', item_FailureCode = None,
           item_CreatedAt = createdAt\<rparr> # items))))"

definition insertCardStatusBatchItems ::
  "environment \<Rightarrow> uuid \<Rightarrow> uuid \<Rightarrow> string \<Rightarrow> string \<Rightarrow> uuid list \<Rightarrow> uuid list \<Rightarrow> uuid \<Rightarrow> string \<Rightarrow> string \<Rightarrow>
   uuid \<Rightarrow> time \<Rightarrow> ('m shard_world_scheme, CardStatusBatchItem list) prog" where
  "insertCardStatusBatchItems env bank batchID targetStatus reason cardIDs operationIDs actorID actorRole
     actorEntityID requestID createdAt =
     (if length cardIDs \<noteq> length operationIDs then throw (PlainError ''card and operation counts differ'')
      else insert_items_loop env bank batchID (batchOperationAction targetStatus) reason actorID actorRole
             actorEntityID requestID createdAt (zip cardIDs operationIDs))"

definition new_batch_row ::
  "uuid \<Rightarrow> uuid \<Rightarrow> string \<Rightarrow> string \<Rightarrow> uuid \<Rightarrow> string \<Rightarrow> string \<Rightarrow> uuid \<Rightarrow> uuid \<Rightarrow> nat \<Rightarrow> uuid option \<Rightarrow>
   sql_context \<Rightarrow> batch_row" where
  "new_batch_row bank batchID target reason actorID actorRole actorEntityID requestID record count retryOf ctx =
     \<lparr>batch_ID = batchID, batch_TargetStatus = target, batch_Reason = reason, batch_CreatedBy = actorID,
      batch_RequesterRole = actorRole, batch_Status = ''draft'', batch_ItemCount = count,
      batch_AppliedCount = 0, batch_IgnoredCount = 0, batch_FailureCode = None, batch_FailureSummary = None,
      batch_RetryOfBatchID = retryOf, batch_CreatedAt = sql_now ctx, batch_UpdatedAt = sql_now ctx,
      batch_CompletedAt = None, batch_entity = bank, batch_requester_entity_id = nullable actorEntityID,
      batch_request_id = requestID, batch_idempotency_record_id = record, batch_attempt_count = 0,
      batch_next_attempt_at = sql_now ctx, batch_lease_owner = None, batch_lease_expires_at = None,
      batch_lease_version = 0, batch_started_at = None, batch_created_by = actorID, batch_updated_by = actorID\<rparr>"

definition CreateCardStatusBatchDraft ::
  "environment \<Rightarrow> uuid \<Rightarrow> CardStatusBatchDraft \<Rightarrow>
   ('m shard_world_scheme, CardStatusBatch \<times> CardStatusBatchItem list) prog" where
  "CreateCardStatusBatchDraft env bank input =
     andThen (statement env (returning insert_batch scanCardStatusBatch
       (new_batch_row bank (bd_ID input) (bd_TargetStatus input) (bd_Reason input) (bd_ActorID input)
          (bd_ActorRole input) (bd_ActorEntityID input) (bd_RequestID input) (bd_IdempotencyRecordID input)
          (length (bd_CardIDs input)) None))) (\<lambda>batch.
     andThen (insertCardStatusBatchItems env bank (bd_ID input) (bd_TargetStatus input) (bd_Reason input)
       (bd_CardIDs input) (bd_OperationIDs input) (bd_ActorID input) (bd_ActorRole input)
       (bd_ActorEntityID input) (bd_RequestID input) (batch_CreatedAt batch)) (\<lambda>items.
     andThen (insertAudit env bank (Some (bd_ActorID input)) (bd_ActorRole input)
       (nullable (bd_ActorEntityID input)) None ''card_status_batch.create'' ''card_status_batch''
       (Some (bd_ID input)) ''succeeded'' (bd_RequestID input)
       (JObj [(''item_count'', JInt (int (length (bd_CardIDs input)))),
              (''target_status'', JStr (bd_TargetStatus input))])) (\<lambda>_.
     ret (batch, items))))"

definition LockCardStatusBatch ::
  "environment \<Rightarrow> uuid \<Rightarrow> uuid \<Rightarrow> ('m shard_world_scheme, CardStatusBatch) prog" where
  "LockCardStatusBatch env bank rid =
     onError (statement env (read_only (\<lambda>d. scan_row scanCardStatusBatch
       (query_row (\<lambda>r. batch_entity r = bank \<and> batch_ID r = rid) (card_status_batches d))))) not_found"

text \<open>\<open>UPDATE card_status_batches ... RETURNING\<close> the scanned row.\<close>

definition update_batch_returning ::
  "uuid \<Rightarrow> uuid \<Rightarrow> (sql_context \<Rightarrow> batch_row \<Rightarrow> batch_row) \<Rightarrow> sql_context \<Rightarrow> shard_db \<Rightarrow>
   (CardStatusBatch \<times> shard_db) result" where
  "update_batch_returning bank rid f ctx d =
     (case update_batches (sql_clock ctx) (\<lambda>r. batch_entity r = bank \<and> batch_ID r = rid) (f ctx) d of
        Inl e \<Rightarrow> Inl e
      | Inr (n, d') \<Rightarrow> map_sum id (\<lambda>x. (x, d')) (scan_row scanCardStatusBatch
          (query_row (\<lambda>r. batch_entity r = bank \<and> batch_ID r = rid) (card_status_batches d'))))"

definition queue_batch :: "uuid \<Rightarrow> sql_context \<Rightarrow> batch_row \<Rightarrow> batch_row" where
  "queue_batch actor ctx r = r\<lparr>batch_Status := ''queued'', batch_next_attempt_at := sql_clock ctx,
     batch_updated_by := actor, batch_UpdatedAt := sql_clock ctx\<rparr>"

definition cancel_batch :: "uuid \<Rightarrow> sql_context \<Rightarrow> batch_row \<Rightarrow> batch_row" where
  "cancel_batch actor ctx r = r\<lparr>batch_Status := ''cancelled'', batch_CompletedAt := Some (sql_clock ctx),
     batch_updated_by := actor, batch_UpdatedAt := sql_clock ctx\<rparr>"

definition ExecuteCardStatusBatch ::
  "environment \<Rightarrow> uuid \<Rightarrow> uuid \<Rightarrow> uuid \<Rightarrow> string \<Rightarrow> string \<Rightarrow> uuid \<Rightarrow> ('m shard_world_scheme, CardStatusBatch) prog" where
  "ExecuteCardStatusBatch env bank rid actor role actorEntityID requestID =
     andThen (LockCardStatusBatch env bank rid) (\<lambda>batch.
     if batch_Status batch \<noteq> ''draft'' then ret batch
     else andThen (statement env (update_batch_returning bank rid (queue_batch actor))) (\<lambda>batch.
       andThen (insertAudit env bank (Some actor) role (nullable actorEntityID) None
         ''card_status_batch.execute'' ''card_status_batch'' (Some rid) ''succeeded'' requestID (JObj [])) (\<lambda>_.
       ret batch)))"

definition CancelCardStatusBatch ::
  "environment \<Rightarrow> uuid \<Rightarrow> uuid \<Rightarrow> uuid \<Rightarrow> string \<Rightarrow> string \<Rightarrow> uuid \<Rightarrow> ('m shard_world_scheme, CardStatusBatch) prog" where
  "CancelCardStatusBatch env bank rid actor role actorEntityID requestID =
     andThen (LockCardStatusBatch env bank rid) (\<lambda>batch.
     if batch_Status batch \<noteq> ''draft'' \<and> batch_Status batch \<noteq> ''queued'' then throw ErrBatchNotCancellable
     else andThen (statement env (update_batch_returning bank rid (cancel_batch actor))) (\<lambda>batch.
       andThen (insertAudit env bank (Some actor) role (nullable actorEntityID) None
         ''card_status_batch.cancel'' ''card_status_batch'' (Some rid) ''succeeded'' requestID (JObj [])) (\<lambda>_.
       ret batch)))"

definition RetryCardStatusBatch ::
  "environment \<Rightarrow> uuid \<Rightarrow> uuid \<Rightarrow> CardStatusBatchRetry \<Rightarrow>
   ('m shard_world_scheme, CardStatusBatch \<times> CardStatusBatchItem list) prog" where
  "RetryCardStatusBatch env bank sourceID input =
     andThen (LockCardStatusBatch env bank sourceID) (\<lambda>source.
     if batch_Status source \<noteq> ''failed'' \<and> batch_Status source \<noteq> ''cancelled'' then throw ErrBatchNotRetryable
     else andThen (statement env (read_only (\<lambda>d. Inr (order_asc (\<lambda>c. c)
         (map bi_card_id (batch_items_of d bank sourceID)))))) (\<lambda>cardIDs.
     if length cardIDs \<noteq> batch_ItemCount source \<or> length (br_OperationIDs input) \<noteq> batch_ItemCount source
     then throw (PlainError ''batch membership does not match its item count'')
     else andThen (statement env (returning insert_batch scanCardStatusBatch
       (new_batch_row bank (br_ID input) (batch_TargetStatus source) (batch_Reason source) (br_ActorID input)
          (br_ActorRole input) (br_ActorEntityID input) (br_RequestID input) (br_IdempotencyRecordID input)
          (batch_ItemCount source) (Some sourceID)))) (\<lambda>batch.
     andThen (insertCardStatusBatchItems env bank (br_ID input) (batch_TargetStatus source) (batch_Reason source)
       cardIDs (br_OperationIDs input) (br_ActorID input) (br_ActorRole input)
       (br_ActorEntityID input) (br_RequestID input) (batch_CreatedAt batch)) (\<lambda>items.
     andThen (insertAudit env bank (Some (br_ActorID input)) (br_ActorRole input)
       (nullable (br_ActorEntityID input)) None ''card_status_batch.retry'' ''card_status_batch''
       (Some (br_ID input)) ''succeeded'' (br_RequestID input)
       (JObj [(''item_count'', JInt (int (batch_ItemCount source))),
              (''retry_of_batch_id'', JStr sourceID)])) (\<lambda>_.
     ret (batch, items))))))"

section \<open>The methods keep the committed tables\<close>

text \<open>Only \<open>Commit\<close> writes the durable state; every method works on the transaction's view.\<close>

lemma keeps_insert_items_loop [keeps_intros]:
  "keeps durable (insert_items_loop env bank b a r u ro e q t ps)"
  "keeps tx_world.more (insert_items_loop env bank b a r u ro e q t ps)"
  by (induction ps) (auto intro!: keeps_intros)

lemma keeps_idempotency [keeps_intros]:
  "keeps durable (ClaimIdempotency env c)" "keeps tx_world.more (ClaimIdempotency env c)"
  "keeps durable (FinishIdempotency env bank scope key status response result actor)"
  "keeps tx_world.more (FinishIdempotency env bank scope key status response result actor)"
  unfolding ClaimIdempotency_def FinishIdempotency_def idempotency_load_def idempotency_found_def
  by (intro keeps_intros)+

lemmas store_method_defs =
  insertAudit_def insertStatusHistory_def insertCardOperation_def ProvisionEntity_def UpdateEntity_def
  CreateCardProduct_def UpdateCardProduct_def CreateClient_def UpdateClient_def CreateAccountReference_def
  UpdateAccountReference_def RecordReferenceAudit_def IssueReferencesValid_def IssueCard_def LockCard_def
  ReplacementPending_def ReplaceCard_def updateCardStatus_def closePredecessorOnActivation_def
  ApplyCardCommand_def RetryExpiryItem_def RecordExpiryRetryAudit_def CardsExist_def
  insertCardStatusBatchItems_def CreateCardStatusBatchDraft_def LockCardStatusBatch_def
  ExecuteCardStatusBatch_def CancelCardStatusBatch_def RetryCardStatusBatch_def

lemma keeps_store_durable [keeps_intros]:
  "keeps durable (ProvisionEntity env ep)" "keeps durable (UpdateEntity env epp)"
  "keeps durable (CreateCardProduct env bank pc)" "keeps durable (UpdateCardProduct env bank rid pp)"
  "keeps durable (CreateClient env bank cc)" "keeps durable (UpdateClient env bank rid cp)"
  "keeps durable (CreateAccountReference env bank ac)" "keeps durable (UpdateAccountReference env bank rid ap)"
  "keeps durable (RecordReferenceAudit env ra)" "keeps durable (IssueReferencesValid env bank c a p)"
  "keeps durable (IssueCard env bank ci)" "keeps durable (LockCard env bank rid)"
  "keeps durable (ReplacementPending env bank rid)" "keeps durable (ReplaceCard env bank cr)"
  "keeps durable (ApplyCardCommand env bank cmd)" "keeps durable (RetryExpiryItem env bank run item actor)"
  "keeps durable (RecordExpiryRetryAudit env bank item actor req)" "keeps durable (CardsExist env bank ids)"
  "keeps durable (CreateCardStatusBatchDraft env bank bd)" "keeps durable (LockCardStatusBatch env bank rid)"
  "keeps durable (ExecuteCardStatusBatch env bank rid actor role ent req)"
  "keeps durable (CancelCardStatusBatch env bank rid actor role ent req)"
  "keeps durable (RetryCardStatusBatch env bank rid br)"
  unfolding store_method_defs by (intro keeps_intros)+

lemma keeps_store_more [keeps_intros]:
  "keeps tx_world.more (IssueReferencesValid env bank c a p)"
  "keeps tx_world.more (IssueCard env bank ci)" "keeps tx_world.more (LockCard env bank rid)"
  "keeps tx_world.more (ReplacementPending env bank rid)" "keeps tx_world.more (ReplaceCard env bank cr)"
  "keeps tx_world.more (ApplyCardCommand env bank cmd)"
  unfolding store_method_defs by (intro keeps_intros)+

section \<open>What the methods write\<close>

lemma insert_result:
  "insert_card c d = Inr d' \<Longrightarrow> d' = d\<lparr>cards := cards d @ [c]\<rparr>"
  "insert_operation p d = Inr d' \<Longrightarrow> d' = d\<lparr>card_operations := card_operations d @ [p]\<rparr>"
  "insert_history h d = Inr d' \<Longrightarrow> d' = d\<lparr>card_status_history := card_status_history d @ [h]\<rparr>"
  "insert_audit a d = Inr d' \<Longrightarrow> d' = d\<lparr>audit_events := audit_events d @ [a]\<rparr>"
  "insert_batch b d = Inr d' \<Longrightarrow> d' = d\<lparr>card_status_batches := card_status_batches d @ [b]\<rparr>"
  "insert_batch_item i d = Inr d' \<Longrightarrow> d' = d\<lparr>card_status_batch_items := card_status_batch_items d @ [i]\<rparr>"
  "insert_idempotency r d = Inr d' \<Longrightarrow> d' = d\<lparr>idempotency_records := idempotency_records d @ [r]\<rparr>"
  by (simp_all add: insert_defs checked_Inr)

lemma statement_returningE:
  assumes "statement env (returning ins scan row) w = (Inr x, w')"
  obtains "x = scan (row (context_of env w))" and "ins (row (context_of env w)) (view w) = Inr (view w')"
  using assms by (auto elim!: statement_InrE simp: returning_Inr)

lemma insertCardOperationE:
  assumes "insertCardOperation env bank oid cid action reason actor role ent req w = (Inr x, w')"
  obtains ctx row where "row = operation_row_of bank oid cid action ''succeeded'' reason actor role ent req
      (Some (sql_clock ctx)) ctx"
    and "x = scanCardOperation row"
    and "view w' = (view w)\<lparr>card_operations := card_operations (view w) @ [row]\<rparr>"
  using assms unfolding insertCardOperation_def
  by (auto elim!: statement_returningE dest: insert_result)

lemma insertStatusHistoryE:
  assumes "insertStatusHistory env bank cid oid prev new reason actor role ent ex w = (Inr x, w')"
  obtains ctx where "view w' = (view w)\<lparr>card_status_history := card_status_history (view w) @
      [history_row_of bank cid oid prev new reason actor role ent ex ctx]\<rparr>"
  using assms unfolding insertStatusHistory_def
  by (auto elim!: statement_execE dest!: insert_result)

lemma insertAuditE:
  assumes "insertAudit env bank actor role ent ex action kind res outcome req details w = (Inr x, w')"
  obtains ctx where "view w' = (view w)\<lparr>audit_events := audit_events (view w) @
      [audit_row_of bank actor role ent ex action kind res outcome req details ctx]\<rparr>"
  using assms unfolding insertAudit_def
  by (auto elim!: statement_execE dest!: insert_result)

text \<open>
  The four rows of an issuance (of a new card or of a replacement): the card, its operation, its
  history and the audit event, each with the context of its statement.
\<close>

definition issued_rows ::
  "uuid \<Rightarrow> string \<Rightarrow> uuid \<Rightarrow> uuid \<Rightarrow> uuid \<Rightarrow> uuid \<Rightarrow> uuid \<Rightarrow> string \<Rightarrow> uuid option \<Rightarrow> string \<Rightarrow> uuid \<Rightarrow> string \<Rightarrow>
   string \<Rightarrow> uuid \<Rightarrow> sql_context \<Rightarrow> sql_context \<Rightarrow> sql_context \<Rightarrow> sql_context \<Rightarrow> shard_db \<Rightarrow> shard_db" where
  "issued_rows bank action cid oid client account product masked pred reason actor role ent req c1 c2 c3 c4 d =
     d\<lparr>cards := cards d @ [issued_card_row bank cid client account product masked pred actor c1],
       card_operations := card_operations d @ [operation_row_of bank oid cid action ''succeeded'' reason
         actor role ent req (Some (sql_clock c2)) c2],
       card_status_history := card_status_history d @ [history_row_of bank cid oid ''pending'' ''issued''
         reason (Some actor) role (nullable ent) None c3],
       audit_events := audit_events d @ [audit_row_of bank (Some actor) role (nullable ent) None
         (''card.'' @ action) ''card'' (Some cid) ''succeeded'' req (JObj []) c4]\<rparr>"

lemma issuance_statements:
  fixes w w' :: "'m shard_world_scheme"
  assumes "andThen (statement env (returning insert_card scanCard
       (issued_card_row bank cid client account product masked pred actor))) (\<lambda>card.
     andThen (insertCardOperation env bank oid cid action reason actor role ent req) (\<lambda>operation.
     andThen (insertStatusHistory env bank cid oid ''pending'' ''issued'' reason (Some actor) role (nullable ent) None) (\<lambda>_.
     andThen (insertAudit env bank (Some actor) role (nullable ent) None (''card.'' @ action) ''card'' (Some cid)
       ''succeeded'' req (JObj [])) (\<lambda>_.
     ret (card, operation))))) w = (Inr (crd, operation), w')"
  shows "\<exists>c1 c2 c3 c4.
    view w' = issued_rows bank action cid oid client account product masked pred reason actor role ent req c1 c2 c3 c4 (view w) \<and>
    crd = scanCard (issued_card_row bank cid client account product masked pred actor c1) \<and>
    operation = scanCardOperation (operation_row_of bank oid cid action ''succeeded'' reason actor role ent req
      (Some (sql_clock c2)) c2) \<and>
    (bank, cid) \<notin> card_key ` set (cards (view w))"
  using assms
proof (elim andThen_InrE statement_returningE insertCardOperationE insertStatusHistoryE insertAuditE)
  let ?c = "issued_card_row bank cid client account product masked pred actor"
  fix c :: Card and p :: CardOperation and u v :: unit and w1 w2 w3 w4 :: "'m shard_world_scheme"
    and c2 c3 c4 :: sql_context and row :: operation_row
  assume c: "c = scanCard (?c (context_of env w))" and ic: "insert_card (?c (context_of env w)) (view w) = Inr (view w1)"
  assume p: "row = operation_row_of bank oid cid action ''succeeded'' reason actor role ent req (Some (sql_clock c2)) c2"
      "p = scanCardOperation row" "view w2 = (view w1)\<lparr>card_operations := card_operations (view w1) @ [row]\<rparr>"
  assume h: "view w3 = (view w2)\<lparr>card_status_history := card_status_history (view w2) @
      [history_row_of bank cid oid ''pending'' ''issued'' reason (Some actor) role (nullable ent) None c3]\<rparr>"
  assume a: "view w4 = (view w3)\<lparr>audit_events := audit_events (view w3) @
      [audit_row_of bank (Some actor) role (nullable ent) None (''card.'' @ action) ''card'' (Some cid)
         ''succeeded'' req (JObj []) c4]\<rparr>"
  assume "ret (c, p) w4 = (Inr (crd, operation), w')"
  then have f: "crd = c" "operation = p" "w' = w4" by (simp_all add: ret_def)
  have "(bank, cid) \<notin> card_key ` set (cards (view w))"
    using ic by (auto simp: insert_card_def checked_Inr no_key_iff card_key_def issued_card_row_def)
  then show ?thesis
    by (intro exI [of _ "context_of env w"] exI [of _ c2] exI [of _ c3] exI [of _ c4])
      (simp add: f c p h a insert_result(1) [OF ic] issued_rows_def)
qed

lemma IssueCard_result:
  assumes "IssueCard env bank input w = (Inr (crd, operation), w')"
  shows "\<exists>c1 c2 c3 c4.
    view w' = issued_rows bank ''issue'' (ci_CardID input) (ci_OperationID input) (ci_ClientID input)
      (ci_AccountReferenceID input) (ci_ProductID input) (ci_MaskedPAN input) None (ci_Reason input)
      (ci_ActorID input) (ci_ActorRole input) (ci_ActorEntityID input) (ci_RequestID input) c1 c2 c3 c4 (view w) \<and>
    crd = scanCard (issued_card_row bank (ci_CardID input) (ci_ClientID input) (ci_AccountReferenceID input)
      (ci_ProductID input) (ci_MaskedPAN input) None (ci_ActorID input) c1) \<and>
    operation = scanCardOperation (operation_row_of bank (ci_OperationID input) (ci_CardID input) ''issue''
      ''succeeded'' (ci_Reason input) (ci_ActorID input) (ci_ActorRole input) (ci_ActorEntityID input)
      (ci_RequestID input) (Some (sql_clock c2)) c2) \<and>
    (bank, ci_CardID input) \<notin> card_key ` set (cards (view w))"
  by (rule issuance_statements [of env]) (use assms in \<open>simp add: IssueCard_def\<close>)

lemma ReplaceCard_result:
  assumes "ReplaceCard env bank input w = (Inr (crd, operation), w')"
  shows "\<exists>c1 c2 c3 c4.
    view w' = issued_rows bank ''replace'' (cr_SuccessorID input) (cr_OperationID input) (cr_ClientID input)
      (cr_AccountReferenceID input) (cr_ProductID input) (cr_MaskedPAN input) (Some (cr_PredecessorID input))
      (cr_Reason input) (cr_ActorID input) (cr_ActorRole input) (cr_ActorEntityID input) (cr_RequestID input)
      c1 c2 c3 c4 (view w) \<and>
    crd = scanCard (issued_card_row bank (cr_SuccessorID input) (cr_ClientID input) (cr_AccountReferenceID input)
      (cr_ProductID input) (cr_MaskedPAN input) (Some (cr_PredecessorID input)) (cr_ActorID input) c1) \<and>
    operation = scanCardOperation (operation_row_of bank (cr_OperationID input) (cr_SuccessorID input) ''replace''
      ''succeeded'' (cr_Reason input) (cr_ActorID input) (cr_ActorRole input) (cr_ActorEntityID input)
      (cr_RequestID input) (Some (sql_clock c2)) c2) \<and>
    (bank, cr_SuccessorID input) \<notin> card_key ` set (cards (view w))"
  by (rule issuance_statements [of env]) (use assms in \<open>simp add: ReplaceCard_def\<close>)

section \<open>Statuses and the status log\<close>

text \<open>An entry of the status history: the card, its previous and its new status.\<close>

definition log_entry :: "history_row \<Rightarrow> uuid \<times> string \<times> string" where
  "log_entry h = (hist_card_id h, hist_PreviousStatus h, hist_NewStatus h)"

lemma log_entry_row [simp]:
  "log_entry (history_row_of bank cid oid prev new reason actor role ent ex ctx) = (cid, prev, new)"
  by (simp add: log_entry_def history_row_of_def)

lemma query_row_update_other:
  "(\<And>r. r \<in> set rows \<Longrightarrow> Q (f r) = Q r) \<Longrightarrow>
   query_row Q (update_where P f rows) = map_option (\<lambda>r. if P r then f r else r) (query_row Q rows)"
  unfolding query_row_def update_where_def by (induction rows) auto

lemma card_status_of_change:
  assumes "cards d' = update_where P f (cards d)"
    and "\<And>r. card_key (f r) = card_key r" and "\<And>r. card_Status (f r) = status"
    and "\<And>r. P r \<Longrightarrow> card_key r = (bank, cid)"
    and "\<And>r. r \<in> set (cards d) \<Longrightarrow> card_key r = (bank, cid) \<Longrightarrow> P r"
  shows "card_status_of d' k x =
    (if (k, x) = (bank, cid) \<and> card_status_of d k x \<noteq> None then Some status else card_status_of d k x)"
proof -
  have q: "query_row (\<lambda>c. card_key c = (k, x)) (cards d') =
      map_option (\<lambda>r. if P r then f r else r) (query_row (\<lambda>c. card_key c = (k, x)) (cards d))"
    unfolding assms(1) by (rule query_row_update_other) (simp add: assms(2))
  show ?thesis
  proof (cases "query_row (\<lambda>c. card_key c = (k, x)) (cards d)")
    case None
    then show ?thesis by (simp add: card_status_of_def q)
  next
    case (Some r)
    have r: "r \<in> set (cards d)" and key: "card_key r = (k, x)" using query_row_Some [OF Some] by simp_all
    have "P r \<longleftrightarrow> (k, x) = (bank, cid)" using assms(4) [of r] assms(5) [OF r] unfolding key by blast
    then show ?thesis unfolding card_status_of_def q Some using assms(3) by simp
  qed
qed

end
