(* ===== verification/Vault.thy ===== *)
theory Vault
  imports Shard_Schema Sha256 "HOL-Library.AList"
begin

unbundle bit_operations_syntax

text \<open>
  The credential vault: the interface of \<open>internal/vault/vault.go\<close> as the locale
  \<open>credential_vault\<close>, and the in-memory adapter of \<open>internal/vault/memory.go\<close>, which
  interprets it. A vault is used through three operations on its own state; what the issuing
  workflows need of it is the set of cards whose credentials verify.
\<close>

section \<open>Interface\<close>

record ProvisionedCredential =
  cred_MaskedPAN :: string
  cred_PAN :: string
  cred_CVV :: string

record VerificationResult =
  vr_CardID :: string
  vr_Valid :: bool

record 'v credential_ops =
  Provision :: "string \<Rightarrow> ('v, ProvisionedCredential) prog"
  Verify :: "string \<Rightarrow> string \<Rightarrow> ('v, VerificationResult) prog"
  Revoke :: "string \<Rightarrow> ('v, unit) prog"

locale credential_vault =
  fixes ops :: "'v credential_ops" and live :: "'v \<Rightarrow> string set"
  assumes provision_live: "Provision ops c v = (Inr cred, v') \<Longrightarrow> c \<in> live v' \<and> live v' \<subseteq> insert c (live v)"
    and provision_fails: "Provision ops c v = (Inl e, v') \<Longrightarrow> live v' \<subseteq> live v"
    and provision_verifies: "Provision ops c v = (Inr cred, v') \<Longrightarrow>
      fst (Verify ops (cred_PAN cred) (cred_CVV cred) v') = Inr \<lparr>vr_CardID = c, vr_Valid = True\<rparr>"
    and revoke_live: "c \<noteq> '''' \<Longrightarrow> \<exists>v'. Revoke ops c v = (Inr (), v') \<and> live v' = live v - {c}"
    and verify_live: "Verify ops pan cvv v = (Inr r, v') \<Longrightarrow> vr_Valid r \<Longrightarrow> vr_CardID r \<in> live v"
    and verify_keeps: "Verify ops pan cvv v = (res, v') \<Longrightarrow> live v' = live v"
begin

text \<open>Provisioning followed by a revocation leaves no credential that was not there before.\<close>

lemma revoke_after_provision:
  assumes "Provision ops c v = (Inr cred, v')" and "c \<noteq> ''''" and "live v'' \<subseteq> live v'"
  shows "live (snd (Revoke ops c v'')) \<subseteq> live v - {c}"
  using provision_live [OF assms(1)] revoke_live [OF assms(2), of v''] assms(3) by force

lemma revoked_card_never_verifies:
  assumes "c \<noteq> ''''" and "Revoke ops c v = (r, v')" and "Verify ops pan cvv v' = (Inr vr, v'')"
  shows "\<not> (vr_Valid vr \<and> vr_CardID vr = c)"
  using verify_live [OF assms(3)] revoke_live [OF assms(1), of v] assms(2) by auto

end

section \<open>The in-memory adapter\<close>

record InMemory =
  vm_key :: bytes
  vm_cards :: "(string \<times> string) list"
  vm_revoked :: "(string \<times> bool) list"

definition ErrNotAllowed :: go_error where
  "ErrNotAllowed = PlainError ''vault: in-memory adapter is restricted to development and test''"

definition NewInMemory :: "string \<Rightarrow> bytes \<Rightarrow> InMemory result" where
  "NewInMemory environment key =
     (if environment \<noteq> ''development'' \<and> environment \<noteq> ''test'' then Inl ErrNotAllowed
      else if length key < 32 then Inl (PlainError ''vault: test key must contain at least 32 bytes'')
      else Inr \<lparr>vm_key = key, vm_cards = [], vm_revoked = []\<rparr>)"

definition vm_derive :: "bytes \<Rightarrow> string \<Rightarrow> bytes" where
  "vm_derive key s = hmac_sha256 key (bytes_of_string s)"

definition decimal :: "bytes \<Rightarrow> 64 word" where
  "decimal bs = foldl (\<lambda>result b. push_bit 8 result OR ucast b) 0 bs"

definition vm_pan :: "bytes \<Rightarrow> string \<Rightarrow> string" where
  "vm_pan key cardID =
     ''400000'' @ format_padded 10 (unat (decimal (take 8 (vm_derive key (''pan:'' @ cardID))) mod 10000000000))"

definition vm_cvv :: "bytes \<Rightarrow> string \<Rightarrow> string" where
  "vm_cvv key cardID =
     format_padded 3 (unat (decimal (take 4 (vm_derive key (''cvv:'' @ cardID))) mod 1000))"

definition vm_lookupToken :: "bytes \<Rightarrow> string \<Rightarrow> string" where
  "vm_lookupToken key pan = EncodeToString (vm_derive key (''lookup:'' @ pan))"

definition maskPAN :: "string \<Rightarrow> string" where
  "maskPAN pan = (if length pan < 10 then ''''
     else take 6 pan @ ''******'' @ drop (length pan - 4) pan)"

definition vm_Provision :: "string \<Rightarrow> (InMemory, ProvisionedCredential) prog" where
  "vm_Provision cardID = (\<lambda>v.
     if cardID = '''' then (Inl (PlainError ''vault: card id is required''), v)
     else let pan = vm_pan (vm_key v) cardID in
       (Inr \<lparr>cred_MaskedPAN = maskPAN pan, cred_PAN = pan, cred_CVV = vm_cvv (vm_key v) cardID\<rparr>,
        v\<lparr>vm_cards := AList.update (vm_lookupToken (vm_key v) pan) cardID (vm_cards v),
          vm_revoked := AList.delete cardID (vm_revoked v)\<rparr>))"

definition is_revoked :: "InMemory \<Rightarrow> string \<Rightarrow> bool" where
  "is_revoked v cardID = (map_of (vm_revoked v) cardID = Some True)"

definition vm_Verify :: "string \<Rightarrow> string \<Rightarrow> (InMemory, VerificationResult) prog" where
  "vm_Verify pan cvv = (\<lambda>v.
     let invalid = \<lparr>vr_CardID = '''', vr_Valid = False\<rparr> in
     if pan = '''' \<or> cvv = '''' then (Inr invalid, v)
     else case map_of (vm_cards v) (vm_lookupToken (vm_key v) pan) of
       None \<Rightarrow> (Inr invalid, v)
     | Some cardID \<Rightarrow>
         if is_revoked v cardID \<or> vm_cvv (vm_key v) cardID \<noteq> cvv then (Inr invalid, v)
         else (Inr \<lparr>vr_CardID = cardID, vr_Valid = True\<rparr>, v))"

definition vm_Revoke :: "string \<Rightarrow> (InMemory, unit) prog" where
  "vm_Revoke cardID = (\<lambda>v.
     if cardID = '''' then (Inl (PlainError ''vault: card id is required''), v)
     else (Inr (), v\<lparr>vm_revoked := AList.update cardID True (vm_revoked v)\<rparr>))"

definition in_memory_ops :: "InMemory credential_ops" where
  "in_memory_ops = \<lparr>Provision = vm_Provision, Verify = vm_Verify, Revoke = vm_Revoke\<rparr>"

text \<open>The cards some credential of which the vault accepts.\<close>

definition vm_live :: "InMemory \<Rightarrow> string set" where
  "vm_live v = {c. (\<exists>token. map_of (vm_cards v) token = Some c) \<and> \<not> is_revoked v c}"

section \<open>Lemmas\<close>

lemma length_vm_pan [simp]: "length (vm_pan key c) = 16"
proof -
  have "unat (decimal (take 8 (vm_derive key (''pan:'' @ c))) mod 10000000000) < 10 ^ Suc 9"
    by (simp add: unat_mod)
  from length_format_padded [OF this] show ?thesis by (simp add: vm_pan_def)
qed

lemma length_vm_cvv [simp]: "length (vm_cvv key c) = 3"
proof -
  have "unat (decimal (take 4 (vm_derive key (''cvv:'' @ c))) mod 1000) < 10 ^ Suc 2"
    by (simp add: unat_mod)
  from length_format_padded [OF this] show ?thesis by (simp add: vm_cvv_def numeral_3_eq_3)
qed

lemma vm_pan_digits: "list_all is_digit (vm_pan key c)"
  by (auto simp: vm_pan_def list_all_iff dest: format_padded_digit)
    (simp_all add: is_digit_def less_eq_char_def)

lemma vm_cvv_digits: "list_all is_digit (vm_cvv key c)"
  by (auto simp: vm_cvv_def list_all_iff dest: format_padded_digit)

lemma maskPAN_is_masked:
  assumes "length pan = 16" and "list_all is_digit pan"
  shows "is_masked_pan (maskPAN pan)"
  using assms by (auto simp: maskPAN_def is_masked_pan_def list_all_iff dest: in_set_takeD in_set_dropD)

lemma is_revoked_simps [simp]:
  "is_revoked (v\<lparr>vm_cards := x\<rparr>) c = is_revoked v c"
  "is_revoked (v\<lparr>vm_revoked := AList.update c True rs\<rparr>) c' \<longleftrightarrow> c' = c \<or> is_revoked (v\<lparr>vm_revoked := rs\<rparr>) c'"
  "is_revoked (v\<lparr>vm_revoked := AList.delete c rs\<rparr>) c' \<longleftrightarrow> c' \<noteq> c \<and> is_revoked (v\<lparr>vm_revoked := rs\<rparr>) c'"
  by (auto simp: is_revoked_def update_conv' delete_conv')

interpretation in_memory: credential_vault in_memory_ops vm_live
proof
  fix c v cred v'
  assume "Provision in_memory_ops c v = (Inr cred, v')"
  then show "c \<in> vm_live v' \<and> vm_live v' \<subseteq> insert c (vm_live v)"
    by (auto simp: in_memory_ops_def vm_Provision_def vm_live_def Let_def update_conv' is_revoked_def
        delete_conv' split: if_splits)
next
  fix c v e v'
  assume "Provision in_memory_ops c v = (Inl e, v')"
  then show "vm_live v' \<subseteq> vm_live v"
    by (auto simp: in_memory_ops_def vm_Provision_def Let_def split: if_splits)
next
  fix c v cred v'
  assume "Provision in_memory_ops c v = (Inr cred, v')"
  then have v': "v' = v\<lparr>vm_cards := AList.update (vm_lookupToken (vm_key v) (vm_pan (vm_key v) c)) c (vm_cards v),
      vm_revoked := AList.delete c (vm_revoked v)\<rparr>"
    and cred: "cred_PAN cred = vm_pan (vm_key v) c" "cred_CVV cred = vm_cvv (vm_key v) c"
    by (auto simp: in_memory_ops_def vm_Provision_def Let_def split: if_splits)
  have ne: "vm_pan (vm_key v) c \<noteq> ''''" "vm_cvv (vm_key v) c \<noteq> ''''"
    using length_vm_pan [of "vm_key v" c] length_vm_cvv [of "vm_key v" c] by force+
  then show "fst (Verify in_memory_ops (cred_PAN cred) (cred_CVV cred) v') =
      Inr \<lparr>vr_CardID = c, vr_Valid = True\<rparr>"
    by (simp add: in_memory_ops_def vm_Verify_def v' cred Let_def update_conv' is_revoked_def delete_conv')
next
  fix c :: string and v :: InMemory
  assume "c \<noteq> ''''"
  then show "\<exists>v'. Revoke in_memory_ops c v = (Inr (), v') \<and> vm_live v' = vm_live v - {c}"
    by (auto simp: in_memory_ops_def vm_Revoke_def vm_live_def)
next
  fix pan cvv v r v'
  assume "Verify in_memory_ops pan cvv v = (Inr r, v')" "vr_Valid r"
  then show "vr_CardID r \<in> vm_live v"
    by (auto simp: in_memory_ops_def vm_Verify_def vm_live_def Let_def split: if_splits option.splits)
next
  fix pan cvv v res v'
  assume "Verify in_memory_ops pan cvv v = (res, v')"
  then show "vm_live v' = vm_live v"
    by (auto simp: in_memory_ops_def vm_Verify_def Let_def split: if_splits option.splits)
qed

section \<open>Sequences of calls\<close>

datatype vault_call = Provisioning string | Verification string string | Revocation string

primrec vault_step :: "'v credential_ops \<Rightarrow> vault_call \<Rightarrow> 'v \<Rightarrow> 'v" where
  "vault_step ops (Provisioning c) v = snd (Provision ops c v)"
| "vault_step ops (Verification pan cvv) v = snd (Verify ops pan cvv v)"
| "vault_step ops (Revocation c) v = snd (Revoke ops c v)"

definition vault_run :: "'v credential_ops \<Rightarrow> vault_call list \<Rightarrow> 'v \<Rightarrow> 'v" where
  "vault_run ops calls v = fold (vault_step ops) calls v"

definition vm_token :: "bytes \<Rightarrow> string \<Rightarrow> string" where
  "vm_token key c = vm_lookupToken key (vm_pan key c)"

lemma vm_Provision_state:
  "snd (vm_Provision c v) = (if c = '''' then v else
     v\<lparr>vm_cards := AList.update (vm_token (vm_key v) c) c (vm_cards v), vm_revoked := AList.delete c (vm_revoked v)\<rparr>)"
  by (simp add: vm_Provision_def vm_token_def Let_def)

lemma vm_Verify_state [simp]: "snd (vm_Verify pan cvv v) = v"
  by (simp add: vm_Verify_def Let_def split: option.splits)

lemma vm_Revoke_state:
  "snd (vm_Revoke c v) = (if c = '''' then v else v\<lparr>vm_revoked := AList.update c True (vm_revoked v)\<rparr>)"
  by (simp add: vm_Revoke_def)

lemmas vm_states = vm_Provision_state vm_Revoke_state

lemma vault_step_key [simp]: "vm_key (vault_step in_memory_ops call v) = vm_key v"
  by (cases call) (simp_all add: in_memory_ops_def vm_states)

text \<open>The lookup entry of a card stands until another card takes its token; a revocation stands until the card is provisioned again.\<close>

lemma entry_stands:
  assumes "Revocation c \<notin> set calls"
    and "\<And>c'. Provisioning c' \<in> set calls \<Longrightarrow> vm_token (vm_key v) c' = vm_token (vm_key v) c \<Longrightarrow> c' = c"
    and "map_of (vm_cards v) (vm_token (vm_key v) c) = Some c" and "\<not> is_revoked v c" and "c \<noteq> ''''"
  shows "map_of (vm_cards (vault_run in_memory_ops calls v)) (vm_token (vm_key v) c) = Some c \<and>
    \<not> is_revoked (vault_run in_memory_ops calls v) c \<and> vm_key (vault_run in_memory_ops calls v) = vm_key v"
  using assms
proof (induction calls arbitrary: v)
  case (Cons call calls)
  let ?v = "vault_step in_memory_ops call v"
  have "map_of (vm_cards ?v) (vm_token (vm_key ?v) c) = Some c \<and> \<not> is_revoked ?v c"
  proof (cases call)
    case (Provisioning c')
    then have "vm_token (vm_key v) c' = vm_token (vm_key v) c \<Longrightarrow> c' = c" using Cons.prems(2) by simp
    then show ?thesis using Cons.prems(3,4)
      by (auto simp: Provisioning in_memory_ops_def vm_states update_conv' is_revoked_def delete_conv')
  qed (use Cons.prems in \<open>auto simp: in_memory_ops_def vm_states\<close>)
  then show ?case using Cons.IH [of ?v] Cons.prems by (auto simp: vault_run_def)
qed (simp add: vault_run_def)

lemma revocation_stands:
  assumes "Provisioning c \<notin> set calls" and "is_revoked v c"
  shows "is_revoked (vault_run in_memory_ops calls v) c"
  using assms
proof (induction calls arbitrary: v)
  case (Cons call calls)
  then have "is_revoked (vault_step in_memory_ops call v) c"
    by (cases call) (auto simp: in_memory_ops_def vm_states)
  then show ?case using Cons.IH Cons.prems(1) by (simp add: vault_run_def)
qed (simp add: vault_run_def)

lemma vm_Verify_revoked: "is_revoked v c \<Longrightarrow> fst (vm_Verify pan cvv v) \<noteq> Inr \<lparr>vr_CardID = c, vr_Valid = True\<rparr>"
  by (auto simp: vm_Verify_def Let_def split: option.splits)

lemma vm_Verify_entry:
  assumes "map_of (vm_cards v) (vm_token (vm_key v) c) = Some c" and "\<not> is_revoked v c"
  shows "fst (vm_Verify (vm_pan (vm_key v) c) (vm_cvv (vm_key v) c) v) = Inr \<lparr>vr_CardID = c, vr_Valid = True\<rparr>"
proof -
  have "vm_pan (vm_key v) c \<noteq> ''''" "vm_cvv (vm_key v) c \<noteq> ''''"
    using length_vm_pan [of "vm_key v" c] length_vm_cvv [of "vm_key v" c] by force+
  then show ?thesis using assms by (simp add: vm_Verify_def Let_def vm_token_def)
qed

text \<open>
  C7. The in-memory vault over sequences of calls. Provisioning a card discloses a 16-digit PAN and a
  3-digit CVV and a masked PAN of the form the database accepts (\<open>guard_masked_pan\<close>), and no other
  card gains a valid credential. The disclosed credentials verify as that card after every later
  sequence of calls that does not revoke the card and provisions no other card with the same lookup
  token (the token of its derived PAN, which the vault stores instead of it). After a revocation of the
  card, at any later time, no credential verifies as the card until the card is provisioned again.
\<close>

theorem in_memory_provision_verify_revoke:
  assumes "vm_Provision c v = (Inr cred, v1)"
  shows "length (cred_PAN cred) = 16 \<and> list_all is_digit (cred_PAN cred) \<and>
    length (cred_CVV cred) = 3 \<and> list_all is_digit (cred_CVV cred) \<and>
    is_masked_pan (cred_MaskedPAN cred) \<and> vm_live v1 \<subseteq> insert c (vm_live v) \<and>
    (\<forall>calls. Revocation c \<notin> set calls \<and>
      (\<forall>c'. Provisioning c' \<in> set calls \<and> c' \<noteq> c \<longrightarrow>
        vm_lookupToken (vm_key v) (vm_pan (vm_key v) c') \<noteq> vm_lookupToken (vm_key v) (vm_pan (vm_key v) c)) \<longrightarrow>
      fst (vm_Verify (cred_PAN cred) (cred_CVV cred) (vault_run in_memory_ops calls v1)) =
        Inr \<lparr>vr_CardID = c, vr_Valid = True\<rparr>) \<and>
    (\<forall>before after pan cvv. Provisioning c \<notin> set after \<longrightarrow>
      fst (vm_Verify pan cvv (vault_run in_memory_ops (before @ Revocation c # after) v1)) \<noteq>
        Inr \<lparr>vr_CardID = c, vr_Valid = True\<rparr>)"
proof (intro conjI allI impI)
  have c: "c \<noteq> ''''" and cred: "cred_PAN cred = vm_pan (vm_key v) c" "cred_CVV cred = vm_cvv (vm_key v) c"
    "cred_MaskedPAN cred = maskPAN (vm_pan (vm_key v) c)"
    and v1: "v1 = v\<lparr>vm_cards := AList.update (vm_token (vm_key v) c) c (vm_cards v), vm_revoked := AList.delete c (vm_revoked v)\<rparr>"
    using assms by (auto simp: vm_Provision_def vm_token_def Let_def split: if_splits)
  show "length (cred_PAN cred) = 16" "list_all is_digit (cred_PAN cred)" "length (cred_CVV cred) = 3"
    "list_all is_digit (cred_CVV cred)" "is_masked_pan (cred_MaskedPAN cred)"
    by (simp_all add: cred vm_pan_digits vm_cvv_digits maskPAN_is_masked)
  show "vm_live v1 \<subseteq> insert c (vm_live v)"
    using in_memory.provision_live [of c v cred v1] assms by (simp add: in_memory_ops_def)
  have start: "map_of (vm_cards v1) (vm_token (vm_key v1) c) = Some c" "\<not> is_revoked v1 c" "vm_key v1 = vm_key v"
    by (simp_all add: v1 update_conv' is_revoked_def delete_conv')
  fix calls assume "Revocation c \<notin> set calls \<and> (\<forall>c'. Provisioning c' \<in> set calls \<and> c' \<noteq> c \<longrightarrow>
      vm_lookupToken (vm_key v) (vm_pan (vm_key v) c') \<noteq> vm_lookupToken (vm_key v) (vm_pan (vm_key v) c))"
  then have "Revocation c \<notin> set calls"
    and "\<And>c'. Provisioning c' \<in> set calls \<Longrightarrow> vm_token (vm_key v1) c' = vm_token (vm_key v1) c \<Longrightarrow> c' = c"
    by (auto simp: vm_token_def start(3))
  from entry_stands [OF this start(1,2) c] vm_Verify_entry [of "vault_run in_memory_ops calls v1" c]
  show "fst (vm_Verify (cred_PAN cred) (cred_CVV cred) (vault_run in_memory_ops calls v1)) = Inr \<lparr>vr_CardID = c, vr_Valid = True\<rparr>"
    by (simp add: cred start(3))
next
  fix before after pan cvv assume a: "Provisioning c \<notin> set after"
  have "c \<noteq> ''''" using assms by (auto simp: vm_Provision_def split: if_splits)
  then have "is_revoked (vault_step in_memory_ops (Revocation c) x) c" for x
    by (simp add: in_memory_ops_def vm_states)
  from revocation_stands [OF a this, of "vault_run in_memory_ops before v1"]
  show "fst (vm_Verify pan cvv (vault_run in_memory_ops (before @ Revocation c # after) v1)) \<noteq>
      Inr \<lparr>vr_CardID = c, vr_Valid = True\<rparr>"
    by (intro vm_Verify_revoked) (simp add: vault_run_def)
qed

text \<open>
  The condition on the tokens is needed: a card provisioned later with the same token takes the entry
  over, and the credentials of the first card no longer verify as it.
\<close>

lemma token_collision_takes_over:
  assumes "vm_Provision c v = (Inr cred, v1)" and "vm_Provision c' v1 = (Inr cred', v2)" and "c' \<noteq> c"
    and "vm_token (vm_key v) c' = vm_token (vm_key v) c"
  shows "fst (vm_Verify (cred_PAN cred) (cred_CVV cred) v2) \<noteq> Inr \<lparr>vr_CardID = c, vr_Valid = True\<rparr>"
  using assms
  by (auto simp: vm_Provision_def vm_Verify_def vm_token_def Let_def update_conv' split: if_splits)

definition sample_vault :: InMemory where
  "sample_vault = \<lparr>vm_key = replicate 32 1, vm_cards = [], vm_revoked = []\<rparr>"

theorem in_memory_provision_verify_revoke_witness:
  "let (r, v1) = vm_Provision ''card-1'' sample_vault; cred = projr r in
     is_masked_pan (cred_MaskedPAN cred) \<and>
     fst (vm_Verify (cred_PAN cred) (cred_CVV cred)
       (vault_run in_memory_ops [Revocation ''card-2'', Verification ''4'' ''5'', Provisioning ''card-1''] v1)) =
       Inr \<lparr>vr_CardID = ''card-1'', vr_Valid = True\<rparr> \<and>
     fst (vm_Verify (cred_PAN cred) (cred_CVV cred)
       (vault_run in_memory_ops ([Verification ''4'' ''5''] @ Revocation ''card-1'' # [Provisioning ''card-2'']) v1)) \<noteq>
       Inr \<lparr>vr_CardID = ''card-1'', vr_Valid = True\<rparr>"
proof -
  obtain cred v1 where p: "vm_Provision ''card-1'' sample_vault = (Inr cred, v1)"
    by (simp add: vm_Provision_def Let_def)
  note t = in_memory_provision_verify_revoke [OF p]
  have "fst (vm_Verify (cred_PAN cred) (cred_CVV cred)
       (vault_run in_memory_ops [Revocation ''card-2'', Verification ''4'' ''5'', Provisioning ''card-1''] v1)) =
       Inr \<lparr>vr_CardID = ''card-1'', vr_Valid = True\<rparr>"
    by (rule t [THEN conjunct2, THEN conjunct2, THEN conjunct2, THEN conjunct2, THEN conjunct2, THEN conjunct2,
          THEN conjunct1, rule_format]) simp
  moreover have "fst (vm_Verify (cred_PAN cred) (cred_CVV cred)
       (vault_run in_memory_ops ([Verification ''4'' ''5''] @ Revocation ''card-1'' # [Provisioning ''card-2'']) v1)) \<noteq>
       Inr \<lparr>vr_CardID = ''card-1'', vr_Valid = True\<rparr>"
    by (rule t [THEN conjunct2, THEN conjunct2, THEN conjunct2, THEN conjunct2, THEN conjunct2, THEN conjunct2,
          THEN conjunct2, rule_format]) simp
  moreover have "is_masked_pan (cred_MaskedPAN cred)" using t by simp
  ultimately show ?thesis by (simp only: p Let_def prod.case sum.sel simp_thms)
qed

end
