(* ===== verification/Go_Json.thy ===== *)
theory Go_Json
  imports Go_Base
begin

text \<open>
  \<open>json.Marshal\<close> of Go strings, the text of the canonical request bodies that are fingerprinted.
  The encoder walks over the UTF-8 encoding: it escapes the quote, the backslash, the control
  characters, the three characters that matter in HTML, the line separators U+2028 and U+2029, and
  writes U+FFFD for every byte that starts no valid rune. The decoder below it exists for the round
  trip: on valid UTF-8 the text determines the string, so two bodies are equal only if their strings are.
\<close>

section \<open>UTF-8\<close>

definition byte_in :: "nat \<Rightarrow> nat \<Rightarrow> string \<Rightarrow> nat \<Rightarrow> bool" where
  "byte_in lo hi s i \<longleftrightarrow> i < length s \<and> lo \<le> of_char (s ! i) \<and> of_char (s ! i) \<le> hi"

text \<open>The length of the rune at the front, and 0 when there is none (\<open>utf8.DecodeRuneInString\<close>).\<close>

definition rune_length :: "string \<Rightarrow> nat" where
  "rune_length s =
     (let cont = byte_in 0x80 0xBF s in
      if byte_in 0 0x7F s 0 then 1
      else if byte_in 0xC2 0xDF s 0 \<and> cont 1 then 2
      else if byte_in 0xE0 0xE0 s 0 \<and> byte_in 0xA0 0xBF s 1 \<and> cont 2 then 3
      else if (byte_in 0xE1 0xEC s 0 \<or> byte_in 0xEE 0xEF s 0) \<and> cont 1 \<and> cont 2 then 3
      else if byte_in 0xED 0xED s 0 \<and> byte_in 0x80 0x9F s 1 \<and> cont 2 then 3
      else if byte_in 0xF0 0xF0 s 0 \<and> byte_in 0x90 0xBF s 1 \<and> cont 2 \<and> cont 3 then 4
      else if byte_in 0xF1 0xF3 s 0 \<and> cont 1 \<and> cont 2 \<and> cont 3 then 4
      else if byte_in 0xF4 0xF4 s 0 \<and> byte_in 0x80 0x8F s 1 \<and> cont 2 \<and> cont 3 then 4
      else 0)"

fun valid_utf8_from :: "nat \<Rightarrow> string \<Rightarrow> bool" where
  "valid_utf8_from 0 s = (s = [])"
| "valid_utf8_from (Suc fuel) s =
     (s = [] \<or> (rune_length s \<noteq> 0 \<and> valid_utf8_from fuel (drop (rune_length s) s)))"

definition valid_utf8 :: "string \<Rightarrow> bool" where
  "valid_utf8 s = valid_utf8_from (length s) s"

section \<open>Encoding\<close>

definition backslash :: char where
  "backslash = CHR 0x5C"

definition quote :: char where
  "quote = CHR 0x22"

definition escape_ascii :: "char \<Rightarrow> string" where
  "escape_ascii c =
     (if c = backslash \<or> c = quote then [backslash, c]
      else if c = CHR 0x08 then [backslash, CHR ''b'']
      else if c = CHR 0x0C then [backslash, CHR ''f'']
      else if c = CHR 0x0A then [backslash, CHR ''n'']
      else if c = CHR 0x0D then [backslash, CHR ''r'']
      else if c = CHR 0x09 then [backslash, CHR ''t'']
      else if of_char c < (0x20 :: nat) \<or> c = CHR ''<'' \<or> c = CHR ''>'' \<or> c = CHR ''&''
        then [backslash] @ ''u00'' @ [hex_digit (of_char c div 16), hex_digit (of_char c mod 16)]
      else [c])"

definition line_separator :: "string \<Rightarrow> bool" where
  "line_separator s \<longleftrightarrow> take 3 s = [CHR 0xE2, CHR 0x80, CHR 0xA8] \<or> take 3 s = [CHR 0xE2, CHR 0x80, CHR 0xA9]"

text \<open>What is written for the front of the string, and how many bytes of it that consumes.\<close>

definition escape_front :: "string \<Rightarrow> string \<times> nat" where
  "escape_front s =
     (if byte_in 0 0x7F s 0 then (escape_ascii (s ! 0), 1)
      else if rune_length s = 0 then ([backslash] @ ''ufffd'', 1)
      else if line_separator s then ([backslash] @ ''u202'' @ [hex_digit (of_char (s ! 2) mod 16)], 3)
      else (take (rune_length s) s, rune_length s))"

function escape :: "string \<Rightarrow> string" where
  "escape s = (if s = [] then [] else fst (escape_front s) @ escape (drop (snd (escape_front s)) s))"
  by pat_completeness auto
termination
  by (relation "measure length") (auto simp: escape_front_def)

declare escape.simps [simp del]

definition marshal_string :: "string \<Rightarrow> string" where
  "marshal_string s = [quote] @ escape s @ [quote]"

fun join_with :: "string \<Rightarrow> string list \<Rightarrow> string" where
  "join_with sep [] = []"
| "join_with sep [x] = x"
| "join_with sep (x # y # ys) = x @ sep @ join_with sep (y # ys)"

definition marshal_strings :: "string list \<Rightarrow> string" where
  "marshal_strings xs = ''['' @ join_with '','' (map marshal_string xs) @ '']''"

section \<open>Round trip\<close>

definition hex_value :: "char \<Rightarrow> nat" where
  "hex_value c = (if is_digit c then of_char c - 48 else of_char c - 87)"

definition unescape_char :: "char \<Rightarrow> char" where
  "unescape_char c =
     (if c = CHR ''b'' then CHR 0x08 else if c = CHR ''f'' then CHR 0x0C else if c = CHR ''n'' then CHR 0x0A
      else if c = CHR ''r'' then CHR 0x0D else if c = CHR ''t'' then CHR 0x09 else c)"

text \<open>The string before the closing quote, and the text after it.\<close>

fun unescape :: "string \<Rightarrow> string \<times> string" where
  "unescape (c # s) =
     (if c = quote then ([], s)
      else if c = backslash then
        (case s of
           e # s' \<Rightarrow>
             if e = CHR ''u'' then
               (case s' of
                  a # b # x # y # s'' \<Rightarrow>
                    apfst ((@) (if [a, b, x] = ''202'' then [CHR 0xE2, CHR 0x80, char_of (0xA0 + hex_value y)]
                      else [char_of (16 * hex_value x + hex_value y)])) (unescape s'')
                | _ \<Rightarrow> ([], []))
             else apfst ((#) (unescape_char e)) (unescape s')
         | [] \<Rightarrow> ([], []))
      else apfst ((#) c) (unescape s))"
| "unescape [] = ([], [])"

declare unescape.simps [simp del]

lemma backslash_neq_quote [simp]: "backslash \<noteq> quote" "quote \<noteq> backslash"
  by (simp_all add: backslash_def quote_def)

lemma unescape_quote: "unescape (quote # s) = ([], s)"
  by (simp add: unescape.simps)

lemma unescape_plain: "c \<noteq> quote \<Longrightarrow> c \<noteq> backslash \<Longrightarrow> unescape (c # s) = apfst ((#) c) (unescape s)"
  by (simp add: unescape.simps)

lemma unescape_plains:
  "(\<And>c. c \<in> set cs \<Longrightarrow> c \<noteq> quote \<and> c \<noteq> backslash) \<Longrightarrow> unescape (cs @ s) = apfst ((@) cs) (unescape s)"
proof (induction cs)
  case (Cons c cs)
  then show ?case by (simp add: unescape_plain apfst_def map_prod_def split: prod.splits)
qed (cases "unescape s"; simp)

lemma unescape_short: "e \<noteq> CHR ''u'' \<Longrightarrow> unescape (backslash # e # s) = apfst ((#) (unescape_char e)) (unescape s)"
  by (subst unescape.simps) simp

lemma unescape_u:
  "unescape (backslash # CHR ''u'' # a # b # x # y # s) =
     apfst ((@) (if [a, b, x] = ''202'' then [CHR 0xE2, CHR 0x80, char_of (0xA0 + hex_value y)]
       else [char_of (16 * hex_value x + hex_value y)])) (unescape s)"
  by (subst unescape.simps) simp

lemma hex_value_digit: "n < 16 \<Longrightarrow> hex_value (hex_digit n) = n"
  by (drule lt_16_cases) (auto simp: hex_value_def hex_digit_def is_digit_def less_eq_char_def)

lemma of_char_lt: "of_char c < (256 :: nat)"
  using of_char_mod_256 [of c, where ?'a = nat] by (metis mod_less_divisor zero_less_numeral)

lemma unescape_ascii: "of_char c < (128 :: nat) \<Longrightarrow> unescape (escape_ascii c @ s) = apfst ((#) c) (unescape s)"
proof -
  have h: "16 * hex_value (hex_digit (of_char c div 16)) + hex_value (hex_digit (of_char c mod 16)) = (of_char c :: nat)"
  proof -
    have "of_char c div 16 < (16 :: nat)" "of_char c mod 16 < (16 :: nat)" using of_char_lt [of c] by linarith+
    then show ?thesis by (simp add: hex_value_digit)
  qed
  have long: "unescape (backslash # CHR ''u'' # CHR ''0'' # CHR ''0'' # hex_digit (of_char c div 16) # hex_digit (of_char c mod 16) # s)
      = apfst ((#) c) (unescape s)"
    by (subst unescape_u) (simp add: h)
  have short: "unescape (backslash # e # s) = apfst ((#) c) (unescape s)" if "unescape_char e = c" "e \<noteq> CHR ''u''" for e
    using unescape_short [OF that(2), of s] that(1) by simp
  consider (same) "c = backslash \<or> c = quote" | (b) "c = CHR 0x08" | (f) "c = CHR 0x0C" | (n) "c = CHR 0x0A"
    | (r) "c = CHR 0x0D" | (t) "c = CHR 0x09"
    | (u) "c \<notin> {backslash, quote, CHR 0x08, CHR 0x0C, CHR 0x0A, CHR 0x0D, CHR 0x09}"
        "of_char c < (0x20 :: nat) \<or> c = CHR ''<'' \<or> c = CHR ''>'' \<or> c = CHR ''&''"
    | (plain) "c \<notin> {backslash, quote}" "escape_ascii c = [c]"
    unfolding escape_ascii_def by (cases "c \<in> {backslash, quote, CHR 0x08, CHR 0x0C, CHR 0x0A, CHR 0x0D, CHR 0x09}";
        cases "of_char c < (0x20 :: nat) \<or> c = CHR ''<'' \<or> c = CHR ''>'' \<or> c = CHR ''&''") auto
  then show ?thesis
  proof cases
    case same
    then have "escape_ascii c = [backslash, c]" "unescape_char c = c" "c \<noteq> CHR ''u''"
      by (auto simp: escape_ascii_def unescape_char_def backslash_def quote_def)
    with short show ?thesis by simp
  next
    case b
    have "escape_ascii c = [backslash, CHR ''b'']" unfolding b by (simp add: escape_ascii_def backslash_def quote_def)
    with short [of "CHR ''b''"] b show ?thesis by (simp add: unescape_char_def)
  next
    case f
    have "escape_ascii c = [backslash, CHR ''f'']" unfolding f by (simp add: escape_ascii_def backslash_def quote_def)
    with short [of "CHR ''f''"] f show ?thesis by (simp add: unescape_char_def)
  next
    case n
    have "escape_ascii c = [backslash, CHR ''n'']" unfolding n by (simp add: escape_ascii_def backslash_def quote_def)
    with short [of "CHR ''n''"] n show ?thesis by (simp add: unescape_char_def)
  next
    case r
    have "escape_ascii c = [backslash, CHR ''r'']" unfolding r by (simp add: escape_ascii_def backslash_def quote_def)
    with short [of "CHR ''r''"] r show ?thesis by (simp add: unescape_char_def)
  next
    case t
    have "escape_ascii c = [backslash, CHR ''t'']" unfolding t by (simp add: escape_ascii_def backslash_def quote_def)
    with short [of "CHR ''t''"] t show ?thesis by (simp add: unescape_char_def)
  next
    case u
    then have "escape_ascii c = [backslash] @ ''u00'' @ [hex_digit (of_char c div 16), hex_digit (of_char c mod 16)]"
      unfolding escape_ascii_def by simp
    with long show ?thesis by simp
  next
    case plain
    then show ?thesis using unescape_plain [of c s] by simp
  qed
qed

lemma rune_bytes:
  assumes "\<not> byte_in 0 0x7F s 0" and "i < rune_length s"
  shows "byte_in 0x80 0xFF s i"
proof -
  have "rune_length s \<le> 4" by (simp add: rune_length_def Let_def)
  with assms(2) consider "i = 0" | "i = 1" | "i = 2" | "i = 3" by linarith
  then show ?thesis
    using assms by cases (auto simp: rune_length_def Let_def byte_in_def split: if_splits)
qed

lemma rune_prefix: "rune_length s \<le> length s"
proof (cases "byte_in 0 0x7F s 0")
  case True
  then show ?thesis by (cases s) (simp_all add: rune_length_def byte_in_def)
next
  case False
  show ?thesis
  proof (cases "rune_length s")
    case (Suc n)
    then have "byte_in 0x80 0xFF s n" using rune_bytes [OF False, of n] by simp
    then show ?thesis using Suc by (simp add: byte_in_def)
  qed simp
qed

lemma rune_plain:
  assumes "\<not> byte_in 0 0x7F s 0" and "c \<in> set (take (rune_length s) s)"
  shows "c \<noteq> quote \<and> c \<noteq> backslash"
proof -
  obtain i where "i < rune_length s" "c = s ! i"
    using assms(2) rune_prefix [of s] by (auto simp: in_set_conv_nth)
  with rune_bytes [OF assms(1)] have "128 \<le> (of_char c :: nat)" by (auto simp: byte_in_def)
  then show ?thesis by (auto simp: quote_def backslash_def)
qed

lemma line_separatorE:
  assumes "line_separator s"
  obtains c r where "s = CHR 0xE2 # CHR 0x80 # c # r" and "c = CHR 0xA8 \<or> c = CHR 0xA9"
proof -
  have "s = take 3 s @ drop 3 s" by simp
  with assms that show thesis unfolding line_separator_def by (metis append_Cons append_Nil)
qed

lemma line_separator_length: "line_separator s \<Longrightarrow> rune_length s = 3"
  by (elim line_separatorE) (auto simp: rune_length_def byte_in_def numeral_2_eq_2)

lemma unescape_front:
  assumes "rune_length s \<noteq> 0"
  shows "unescape (fst (escape_front s) @ t) = apfst ((@) (take (rune_length s) s)) (unescape t)"
    and "snd (escape_front s) = rune_length s"
proof -
  have a: "rune_length s = 1" "take 1 s = [s ! 0]" "of_char (s ! 0) < (128 :: nat)" if "byte_in 0 0x7F s 0"
    using that by (auto simp: rune_length_def byte_in_def take_Suc neq_Nil_conv)
  show "snd (escape_front s) = rune_length s"
    using assms a(1) line_separator_length by (simp add: escape_front_def)
  show "unescape (fst (escape_front s) @ t) = apfst ((@) (take (rune_length s) s)) (unescape t)"
  proof (cases "byte_in 0 0x7F s 0")
    case True
    then show ?thesis using unescape_ascii [OF a(3) [OF True], of t] a [OF True] by (simp add: escape_front_def)
  next
    case False
    show ?thesis
    proof (cases "line_separator s")
      case True
      then obtain c r where s: "s = CHR 0xE2 # CHR 0x80 # c # r" and c: "c = CHR 0xA8 \<or> c = CHR 0xA9"
        by (rule line_separatorE)
      have h: "char_of (160 + hex_value (hex_digit (of_char c mod 16))) = c"
        using c char_of_char [of "CHR 0xA8", where ?'a = nat] char_of_char [of "CHR 0xA9", where ?'a = nat]
        by (auto simp: hex_value_digit)
      show ?thesis
        using False assms True line_separator_length [OF True] h unescape_u [of "CHR ''2''" "CHR ''0''" "CHR ''2''"]
        by (simp add: escape_front_def s)
    next
      case no: False
      then show ?thesis
        using False assms rune_plain [OF False] by (simp add: escape_front_def unescape_plains)
    qed
  qed
qed

lemma unescape_escape: "valid_utf8 s \<Longrightarrow> unescape (escape s @ quote # t) = (s, t)"
proof -
  have "valid_utf8_from n s \<Longrightarrow> unescape (escape s @ quote # t) = (s, t)" for n
  proof (induction n arbitrary: s)
    case 0
    then show ?case by (simp add: escape.simps unescape_quote)
  next
    case (Suc n)
    show ?case
    proof (cases "s = []")
      case True
      then show ?thesis by (simp add: escape.simps unescape_quote)
    next
      case False
      let ?k = "rune_length s"
      have k: "?k \<noteq> 0" "valid_utf8_from n (drop ?k s)" using Suc.prems False by simp_all
      have "escape s = fst (escape_front s) @ escape (drop ?k s)"
        using False unescape_front(2) [OF k(1)] by (subst escape.simps) simp
      then show ?thesis
        using unescape_front(1) [OF k(1)] Suc.IH [OF k(2)] by simp
    qed
  qed
  then show "valid_utf8 s \<Longrightarrow> ?thesis" unfolding valid_utf8_def .
qed

lemma marshal_string_inj:
  assumes "valid_utf8 s" and "valid_utf8 s'" and "marshal_string s @ t = marshal_string s' @ t'"
  shows "s = s' \<and> t = t'"
proof -
  have "escape s @ quote # t = escape s' @ quote # t'" using assms(3) by (simp add: marshal_string_def)
  from arg_cong [OF this, of unescape] show ?thesis
    unfolding unescape_escape [OF assms(1)] unescape_escape [OF assms(2)] by simp
qed

end
