(* ===== verification/Vault_Client.thy ===== *)
theory Vault_Client
  imports Vault Go_Json
begin

text \<open>
  The transport of the credential vault (\<open>internal/vault/development/development.go\<close>): the handler
  that serves a vault over HTTP, and the client, which is the vault that the API and the authorization
  service use. The network between them is a parameter: it says of each request whether it arrives and
  whether its answer does. Requests and answers are the values of the JSON objects on the wire, whose
  texts matter only for the limit on their size; strings are UTF-8, so that they arrive as they were
  sent. The parsing of the client's URL (\<open>NewClient\<close>) and the headers are not modelled.
\<close>

section \<open>Messages\<close>

definition maxBodyBytes :: nat where
  "maxBodyBytes = 2048"

definition errUnavailable :: go_error where
  "errUnavailable = PlainError ''vault: development vault unavailable''"

definition object_text :: "(string \<times> string) list \<Rightarrow> string" where
  "object_text members = ''{'' @ join_with '','' (map (\<lambda>(k, v). marshal_string k @ '':'' @ v) members) @ ''}''"

datatype vault_body = CardBody string | CredentialBody string string

fun body_text :: "vault_body \<Rightarrow> string" where
  "body_text (CardBody cardID) = object_text [(''card_id'', marshal_string cardID)]"
| "body_text (CredentialBody pan cvv) = object_text [(''pan'', marshal_string pan), (''cvv'', marshal_string cvv)]"

datatype vault_reply = CredentialReply ProvisionedCredential | VerificationReply VerificationResult | NoContentReply | ErrorReply int

fun reply_status :: "vault_reply \<Rightarrow> int" where
  "reply_status (CredentialReply c) = 200"
| "reply_status (VerificationReply r) = 200"
| "reply_status NoContentReply = 204"
| "reply_status (ErrorReply status) = status"

fun reply_text :: "vault_reply \<Rightarrow> string" where
  "reply_text (CredentialReply c) = object_text [(''masked_pan'', marshal_string (cred_MaskedPAN c)),
     (''pan'', marshal_string (cred_PAN c)), (''cvv'', marshal_string (cred_CVV c))]"
| "reply_text (VerificationReply r) = object_text [(''card_id'', marshal_string (vr_CardID r)),
     (''valid'', if vr_Valid r then ''true'' else ''false'')]"
| "reply_text NoContentReply = ''''"
| "reply_text (ErrorReply status) = object_text [(''error'', marshal_string ''vault request failed'')]"

section \<open>The handler\<close>

text \<open>\<open>decode\<close> refuses a body over the limit and unknown members, so a body of the other kind.\<close>

definition decode_card :: "vault_body \<Rightarrow> string option" where
  "decode_card body = (case body of
     CardBody cardID \<Rightarrow> if maxBodyBytes < length (body_text body) then None else Some cardID
   | CredentialBody _ _ \<Rightarrow> None)"

definition decode_credentials :: "vault_body \<Rightarrow> (string \<times> string) option" where
  "decode_credentials body = (case body of
     CredentialBody pan cvv \<Rightarrow> if maxBodyBytes < length (body_text body) then None else Some (pan, cvv)
   | CardBody _ \<Rightarrow> None)"

definition vault_digits :: "string \<Rightarrow> bool" where
  "vault_digits value \<longleftrightarrow> value \<noteq> '''' \<and> list_all is_digit value"

definition vault_ServeHTTP :: "'v credential_ops \<Rightarrow> string \<Rightarrow> string \<Rightarrow> vault_body \<Rightarrow> 'v \<Rightarrow> vault_reply \<times> 'v" where
  "vault_ServeHTTP ops meth path body = (\<lambda>v.
     if meth \<noteq> ''POST'' then (ErrorReply 404, v)
     else if path = ''/v1/provision'' then
       (case decode_card body of
          None \<Rightarrow> (ErrorReply 400, v)
        | Some cardID \<Rightarrow>
            if TrimSpace cardID = '''' then (ErrorReply 400, v)
            else case Provision ops cardID v of
                (Inl _, v') \<Rightarrow> (ErrorReply 503, v')
              | (Inr disclosure, v') \<Rightarrow> (CredentialReply disclosure, v'))
     else if path = ''/v1/verify'' then
       (case decode_credentials body of
          None \<Rightarrow> (ErrorReply 400, v)
        | Some (pan, cvv) \<Rightarrow>
            if \<not> vault_digits pan \<or> \<not> vault_digits cvv then (ErrorReply 400, v)
            else case Verify ops pan cvv v of
                (Inl _, v') \<Rightarrow> (ErrorReply 503, v')
              | (Inr result, v') \<Rightarrow> (VerificationReply result, v'))
     else if path = ''/v1/revoke'' then
       (case decode_card body of
          None \<Rightarrow> (ErrorReply 400, v)
        | Some cardID \<Rightarrow>
            if TrimSpace cardID = '''' then (ErrorReply 400, v)
            else case Revoke ops cardID v of
                (Inl _, v') \<Rightarrow> (ErrorReply 503, v')
              | (Inr _, v') \<Rightarrow> (NoContentReply, v'))
     else (ErrorReply 404, v))"

section \<open>The client\<close>

text \<open>
  What happens to a request: it is answered, it does not reach the handler, or it reaches the handler
  and the answer is lost (a timeout, a cancelled context, a connection that drops).
\<close>

datatype transport = Delivered | NotSent | NoAnswer

text \<open>The vault behind the client, and the number of requests sent so far.\<close>

record 'v remote_vault =
  rv_vault :: 'v
  rv_requests :: nat

definition client_post :: "(nat \<Rightarrow> transport) \<Rightarrow> 'v credential_ops \<Rightarrow> string \<Rightarrow> vault_body \<Rightarrow>
    ('v remote_vault, vault_reply) prog" where
  "client_post net ops path body = (\<lambda>v.
     let outcome = net (rv_requests v); sent = v\<lparr>rv_requests := Suc (rv_requests v)\<rparr> in
     if outcome = NotSent then (Inl errUnavailable, sent)
     else case vault_ServeHTTP ops ''POST'' path body (rv_vault v) of (reply, s) \<Rightarrow>
       (if outcome = NoAnswer \<or> (reply_status reply \<noteq> 200 \<and> reply_status reply \<noteq> 204)
        then Inl errUnavailable else Inr reply, sent\<lparr>rv_vault := s\<rparr>))"

definition client_Provision :: "(nat \<Rightarrow> transport) \<Rightarrow> 'v credential_ops \<Rightarrow> string \<Rightarrow>
    ('v remote_vault, ProvisionedCredential) prog" where
  "client_Provision net ops cardID =
     andThen (client_post net ops ''/v1/provision'' (CardBody cardID)) (\<lambda>reply.
     case reply of
       CredentialReply result \<Rightarrow>
         if maxBodyBytes < length (reply_text reply) then throw errUnavailable
         else if cred_MaskedPAN result = '''' \<or> length (cred_PAN result) < 13 \<or> 19 < length (cred_PAN result) \<or>
                 \<not> vault_digits (cred_PAN result) \<or> (length (cred_CVV result) \<noteq> 3 \<and> length (cred_CVV result) \<noteq> 4) \<or>
                 \<not> vault_digits (cred_CVV result)
         then throw errUnavailable
         else ret result
     | _ \<Rightarrow> throw errUnavailable)"

definition client_Verify :: "(nat \<Rightarrow> transport) \<Rightarrow> 'v credential_ops \<Rightarrow> string \<Rightarrow> string \<Rightarrow>
    ('v remote_vault, VerificationResult) prog" where
  "client_Verify net ops pan cvv =
     andThen (client_post net ops ''/v1/verify'' (CredentialBody pan cvv)) (\<lambda>reply.
     case reply of
       VerificationReply result \<Rightarrow>
         if maxBodyBytes < length (reply_text reply) then throw errUnavailable
         else if (vr_Valid result \<and> TrimSpace (vr_CardID result) = '''') \<or> (\<not> vr_Valid result \<and> vr_CardID result \<noteq> '''')
         then throw errUnavailable
         else ret result
     | _ \<Rightarrow> throw errUnavailable)"

definition client_Revoke :: "(nat \<Rightarrow> transport) \<Rightarrow> 'v credential_ops \<Rightarrow> string \<Rightarrow> ('v remote_vault, unit) prog" where
  "client_Revoke net ops cardID =
     andThen (client_post net ops ''/v1/revoke'' (CardBody cardID)) (\<lambda>_. ret ())"

definition client_ops :: "(nat \<Rightarrow> transport) \<Rightarrow> 'v credential_ops \<Rightarrow> 'v remote_vault credential_ops" where
  "client_ops net ops = \<lparr>Provision = client_Provision net ops, Verify = client_Verify net ops,
     Revoke = client_Revoke net ops\<rparr>"

section \<open>The contract of a compensated provisioning\<close>

text \<open>
  What a workflow needs of a vault to undo a provisioning: from a state with \<open>V\<close>, a provisioning
  that fails, and one that succeeds and is revoked afterwards, both end in a state with \<open>E\<close>,
  whether or not the revocation reports an error.
\<close>

locale vault_saga =
  fixes ops :: "'v credential_ops" and V E :: "'v \<Rightarrow> bool"
  assumes saga_start: "V v \<Longrightarrow> E v"
    and saga_refused: "c \<noteq> '''' \<Longrightarrow> V v \<Longrightarrow> Provision ops c v = (Inl e, v') \<Longrightarrow> E v'"
    and saga_undone: "c \<noteq> '''' \<Longrightarrow> V v \<Longrightarrow> Provision ops c v = (Inr cred, v') \<Longrightarrow> E (snd (Revoke ops c v'))"

text \<open>A vault that keeps the laws of \<open>credential_vault\<close> leaves no new credential.\<close>

sublocale credential_vault \<subseteq> saga: vault_saga ops "\<lambda>v. live v \<subseteq> L" "\<lambda>v. live v \<subseteq> L" for L
proof
  fix c v cred v' assume c: "c \<noteq> ''''" and v: "live v \<subseteq> L" and p: "Provision ops c v = (Inr cred, v')"
  from revoke_after_provision [OF p c, of v'] v show "live (snd (Revoke ops c v')) \<subseteq> L" by auto
next
  fix c v e v' assume "live v \<subseteq> L" "Provision ops c v = (Inl e, v')"
  with provision_fails show "live v' \<subseteq> L" by blast
qed

section \<open>The client of an in-memory vault\<close>

definition plain :: "char \<Rightarrow> bool" where
  "plain c \<longleftrightarrow> of_char c < (128 :: nat) \<and> escape_ascii c = [c]"

lemma escape_plain: "list_all plain s \<Longrightarrow> escape s = s"
proof (induction s)
  case (Cons c s)
  then show ?case
    by (subst escape.simps) (simp add: escape_front_def byte_in_def plain_def)
qed (simp add: escape.simps)

lemma plain_digit: "is_digit c \<Longrightarrow> plain c"
proof -
  assume "is_digit c"
  then have "(of_char c :: nat) \<in> set [48..<58]" unfolding set_upt by (simp add: is_digit_def less_eq_char_def)
  moreover have "\<forall>n \<in> set [48..<58]. plain (char_of (n :: nat))" by code_simp
  ultimately have "plain (char_of (of_char c :: nat))" by blast
  then show ?thesis by simp
qed

lemma plain_star: "plain CHR ''*''"
  by code_simp

lemma length_marshal_plain: "list_all plain s \<Longrightarrow> length (marshal_string s) = length s + 2"
  by (simp add: marshal_string_def escape_plain)

lemma maskPAN_plain: "list_all is_digit pan \<Longrightarrow> list_all plain (maskPAN pan)"
  by (auto simp: maskPAN_def list_all_iff plain_digit plain_star dest: in_set_takeD in_set_dropD)

text \<open>The card ids that the handler lets through.\<close>

definition accepted :: "string \<Rightarrow> bool" where
  "accepted c \<longleftrightarrow> \<not> maxBodyBytes < length (body_text (CardBody c)) \<and> TrimSpace c \<noteq> ''''"

lemma TrimSpace_Nil: "TrimSpace '''' = ''''"
  by code_simp

lemma accepted_nonempty: "accepted c \<Longrightarrow> c \<noteq> ''''"
  by (auto simp: accepted_def TrimSpace_Nil)

lemma served_provision:
  "vault_ServeHTTP in_memory_ops ''POST'' ''/v1/provision'' (CardBody c) v =
     (if accepted c
      then (CredentialReply \<lparr>cred_MaskedPAN = maskPAN (vm_pan (vm_key v) c), cred_PAN = vm_pan (vm_key v) c,
              cred_CVV = vm_cvv (vm_key v) c\<rparr>, snd (vm_Provision c v))
      else (ErrorReply 400, v))"
  using accepted_nonempty [of c]
  by (simp add: vault_ServeHTTP_def decode_card_def accepted_def in_memory_ops_def vm_Provision_def Let_def)

lemma served_revoke:
  "vault_ServeHTTP in_memory_ops ''POST'' ''/v1/revoke'' (CardBody c) v =
     (if accepted c then (NoContentReply, snd (vm_Revoke c v)) else (ErrorReply 400, v))"
  using accepted_nonempty [of c]
  by (simp add: vault_ServeHTTP_def decode_card_def accepted_def in_memory_ops_def vm_Revoke_def)

lemma disclosure_fits:
  "\<not> maxBodyBytes < length (reply_text (CredentialReply \<lparr>cred_MaskedPAN = maskPAN (vm_pan key c),
     cred_PAN = vm_pan key c, cred_CVV = vm_cvv key c\<rparr>))"
proof -
  have "list_all plain (vm_pan key c)" "list_all plain (vm_cvv key c)" "list_all plain (maskPAN (vm_pan key c))"
    using vm_pan_digits [of key c] vm_cvv_digits [of key c] maskPAN_plain [OF vm_pan_digits [of key c]]
    by (auto simp: list_all_iff plain_digit)
  moreover have "length (maskPAN (vm_pan key c)) = 16" by (simp add: maskPAN_def)
  moreover have "marshal_string ''masked_pan'' = [quote] @ ''masked_pan'' @ [quote]"
    "marshal_string ''pan'' = [quote] @ ''pan'' @ [quote]" "marshal_string ''cvv'' = [quote] @ ''cvv'' @ [quote]"
    by code_simp+
  ultimately show ?thesis by (simp add: object_text_def length_marshal_plain maxBodyBytes_def)
qed

text \<open>A provisioning through the client, for every outcome of its request.\<close>

lemma client_provision_run:
  "client_Provision net in_memory_ops c v =
     (if net (rv_requests v) = NotSent then (Inl errUnavailable, v\<lparr>rv_requests := Suc (rv_requests v)\<rparr>)
      else if \<not> accepted c then (Inl errUnavailable, v\<lparr>rv_requests := Suc (rv_requests v)\<rparr>)
      else (if net (rv_requests v) = NoAnswer then Inl errUnavailable else fst (vm_Provision c (rv_vault v)),
            v\<lparr>rv_requests := Suc (rv_requests v), rv_vault := snd (vm_Provision c (rv_vault v))\<rparr>))"
proof -
  have "vault_digits (vm_pan key c)" "vault_digits (vm_cvv key c)" "maskPAN (vm_pan key c) \<noteq> ''''" for key
    using vm_pan_digits [of key c] vm_cvv_digits [of key c] length_vm_pan [of key c] length_vm_cvv [of key c]
    by (auto simp: vault_digits_def maskPAN_def simp del: length_vm_pan length_vm_cvv)
  moreover have "fst (vm_Provision c (rv_vault v)) = Inr \<lparr>cred_MaskedPAN = maskPAN (vm_pan (vm_key (rv_vault v)) c),
      cred_PAN = vm_pan (vm_key (rv_vault v)) c, cred_CVV = vm_cvv (vm_key (rv_vault v)) c\<rparr>" if "accepted c"
    using accepted_nonempty [OF that] by (simp add: vm_Provision_def Let_def)
  ultimately show ?thesis using disclosure_fits [of "vm_key (rv_vault v)" c]
    by (cases "net (rv_requests v)"; cases "accepted c")
      (simp_all add: client_Provision_def client_post_def andThen_def served_provision throw_def ret_def Let_def
        del: reply_text.simps)
qed

lemma client_revoke_run:
  "snd (client_Revoke net in_memory_ops c v) =
     (if net (rv_requests v) = NotSent \<or> \<not> accepted c then v\<lparr>rv_requests := Suc (rv_requests v)\<rparr>
      else v\<lparr>rv_requests := Suc (rv_requests v), rv_vault := snd (vm_Revoke c (rv_vault v))\<rparr>)"
  by (cases "net (rv_requests v)"; cases "accepted c")
    (simp_all add: client_Revoke_def client_post_def andThen_def served_revoke ret_def Let_def)

text \<open>
  What a failed workflow may leave in the vault behind the client: at most one card has a credential
  that had none before, and only if the answer to the provisioning was lost or the revocation was not
  sent.
\<close>

definition remote_leftover :: "(nat \<Rightarrow> transport) \<Rightarrow> InMemory remote_vault \<Rightarrow> InMemory remote_vault \<Rightarrow> bool" where
  "remote_leftover net v v' \<longleftrightarrow> (\<exists>c. vm_live (rv_vault v') \<subseteq> insert c (vm_live (rv_vault v)) \<and>
     (vm_live (rv_vault v') \<subseteq> vm_live (rv_vault v) \<or>
      net (rv_requests v) = NoAnswer \<or> net (Suc (rv_requests v)) = NotSent))"

lemma vm_provision_live: "vm_live (snd (vm_Provision c v)) \<subseteq> insert c (vm_live v)"
  using in_memory.provision_live [of c v] in_memory.provision_fails [of c v]
  by (cases "vm_Provision c v"; cases "fst (vm_Provision c v)") (auto simp: in_memory_ops_def)

lemma vm_revoke_live: "c \<noteq> '''' \<Longrightarrow> vm_live (snd (vm_Revoke c v)) = vm_live v - {c}"
proof -
  assume "c \<noteq> ''''"
  from in_memory.revoke_live [OF this, of v] obtain v' where "vm_Revoke c v = (Inr (), v')" "vm_live v' = vm_live v - {c}"
    by (elim exE conjE) (simp add: in_memory_ops_def)
  then show ?thesis by simp
qed

interpretation development: vault_saga "client_ops net in_memory_ops" "\<lambda>v. v = v0" "remote_leftover net v0" for net v0
proof
  fix v :: "InMemory remote_vault" assume "v = v0"
  then show "remote_leftover net v0 v" by (auto simp: remote_leftover_def)
next
  fix c v e v' assume v: "v = v0" and p: "Provision (client_ops net in_memory_ops) c v = (Inl e, v')"
  have ok: "fst (vm_Provision c (rv_vault v0)) \<noteq> Inl e" if "accepted c"
    using accepted_nonempty [OF that] by (simp add: vm_Provision_def Let_def)
  from p v have "vm_live (rv_vault v') \<subseteq> vm_live (rv_vault v0) \<or>
      (net (rv_requests v0) = NoAnswer \<and> rv_vault v' = snd (vm_Provision c (rv_vault v0)))"
    using ok by (auto simp: client_ops_def client_provision_run split: if_splits)
  then show "remote_leftover net v0 v'" using vm_provision_live [of c "rv_vault v0"]
    unfolding remote_leftover_def by (intro exI [of _ c]) auto
next
  fix c v cred v' assume v: "v = v0" and p: "Provision (client_ops net in_memory_ops) c v = (Inr cred, v')"
  then have a: "accepted c" and v': "v' = v0\<lparr>rv_requests := Suc (rv_requests v0), rv_vault := snd (vm_Provision c (rv_vault v0))\<rparr>"
    by (auto simp: client_ops_def client_provision_run split: if_splits)
  note l = vm_provision_live [of c "rv_vault v0"]
  show "remote_leftover net v0 (snd (Revoke (client_ops net in_memory_ops) c v'))"
    unfolding remote_leftover_def
  proof (rule exI [of _ c])
    show "vm_live (rv_vault (snd (Revoke (client_ops net in_memory_ops) c v'))) \<subseteq> insert c (vm_live (rv_vault v0)) \<and>
      (vm_live (rv_vault (snd (Revoke (client_ops net in_memory_ops) c v'))) \<subseteq> vm_live (rv_vault v0) \<or>
       net (rv_requests v0) = NoAnswer \<or> net (Suc (rv_requests v0)) = NotSent)"
      using l vm_revoke_live [OF accepted_nonempty [OF a], of "rv_vault v'"]
      by (cases "net (Suc (rv_requests v0)) = NotSent") (auto simp: client_ops_def client_revoke_run v' a)
  qed
qed

end
