(* ===== verification/Lifecycle.thy ===== *)
theory Lifecycle
  imports Prelude
begin

text \<open>
  The card lifecycle of \<open>internal/domain/lifecycle.go\<close>: \<open>Transition\<close> decides one
  action on a card, \<open>CanTransition\<close> decides a direct change of status as a batch asks
  for it. Statuses and actions are strings, as in the code, and every string is an input.
\<close>

section \<open>The code\<close>

text \<open>The map literal of \<open>Transition\<close>; a missing key reads as the empty string.\<close>

definition action_target :: "string \<Rightarrow> string" where
  "action_target action =
     (if action = ''activate'' then ''active''
      else if action = ''suspend'' then ''suspended''
      else if action = ''resume'' then ''active''
      else if action = ''close'' then ''closed''
      else if action = ''expire'' then ''expired''
      else [])"

definition Transition :: "string \<Rightarrow> string \<Rightarrow> string \<times> bool \<times> bool" where
  "Transition current action =
     (let target = action_target action in
      if target = [] then ([], False, False)
      else if current = target then (target, True, True)
      else if action = ''activate'' then (target, current = ''issued'', False)
      else if action = ''suspend'' then (target, current = ''active'', False)
      else if action = ''resume'' then (target, current = ''suspended'', False)
      else if action = ''close'' then
        (target, current = ''issued'' \<or> current = ''active'' \<or> current = ''suspended'', False)
      else if action = ''expire'' then
        (target, current = ''pending'' \<or> current = ''issued'' \<or> current = ''active''
                 \<or> current = ''suspended'', False)
      else ([], False, False))"

definition transition_actions :: "string list" where
  "transition_actions = [''activate'', ''suspend'', ''resume'', ''close'', ''expire'']"

fun CanTransition_loop :: "string \<Rightarrow> string \<Rightarrow> string list \<Rightarrow> bool \<times> bool" where
  "CanTransition_loop current target [] = (False, False)"
| "CanTransition_loop current target (action # actions) =
     (let (candidate, ok, _) = Transition current action in
      if ok \<and> candidate = target then (True, False)
      else CanTransition_loop current target actions)"

definition CanTransition :: "string \<Rightarrow> string \<Rightarrow> bool \<times> bool" where
  "CanTransition current target =
     (if current = target then (True, True)
      else CanTransition_loop current target transition_actions)"

section \<open>Specification\<close>

text \<open>The six statuses of \<open>bank.card_state\<close> and the edges of the lifecycle graph.\<close>

definition card_states :: "string list" where
  "card_states = [''pending'', ''issued'', ''active'', ''suspended'', ''closed'', ''expired'']"

definition lifecycle_edges :: "(string \<times> string \<times> string) list" where
  "lifecycle_edges =
     [(''issued'', ''activate'', ''active''),
      (''active'', ''suspend'', ''suspended''),
      (''suspended'', ''resume'', ''active''),
      (''issued'', ''close'', ''closed''),
      (''active'', ''close'', ''closed''),
      (''suspended'', ''close'', ''closed''),
      (''pending'', ''expire'', ''expired''),
      (''issued'', ''expire'', ''expired''),
      (''active'', ''expire'', ''expired''),
      (''suspended'', ''expire'', ''expired'')]"

text \<open>One change of status, by a command or by a batch that is not a no-op.\<close>

inductive lifecycle_step :: "string \<Rightarrow> string \<Rightarrow> bool" where
  command: "Transition s action = (t, True, False) \<Longrightarrow> lifecycle_step s t"
| batch: "CanTransition s t = (True, False) \<Longrightarrow> lifecycle_step s t"

section \<open>Lemmas\<close>

lemma action_cases:
  obtains (activate) "a = ''activate''" | (suspend) "a = ''suspend''" | (resume) "a = ''resume''"
    | (close) "a = ''close''" | (expire) "a = ''expire''" | (other) "a \<notin> set transition_actions"
  by (auto simp: transition_actions_def)

lemma Transition_activate [simp]:
  "Transition s ''activate'' = (''active'', s = ''active'' \<or> s = ''issued'', s = ''active'')"
  by (simp add: Transition_def action_target_def Let_def)

lemma Transition_suspend [simp]:
  "Transition s ''suspend'' = (''suspended'', s = ''suspended'' \<or> s = ''active'', s = ''suspended'')"
  by (simp add: Transition_def action_target_def Let_def)

lemma Transition_resume [simp]:
  "Transition s ''resume'' = (''active'', s = ''active'' \<or> s = ''suspended'', s = ''active'')"
  by (simp add: Transition_def action_target_def Let_def)

lemma Transition_close [simp]:
  "Transition s ''close'' =
     (''closed'', s = ''closed'' \<or> s = ''issued'' \<or> s = ''active'' \<or> s = ''suspended'', s = ''closed'')"
  by (simp add: Transition_def action_target_def Let_def)

lemma Transition_expire [simp]:
  "Transition s ''expire'' =
     (''expired'', s = ''expired'' \<or> s = ''pending'' \<or> s = ''issued'' \<or> s = ''active'' \<or> s = ''suspended'',
      s = ''expired'')"
  by (simp add: Transition_def action_target_def Let_def)

lemma Transition_other:
  "a \<notin> set transition_actions \<Longrightarrow> Transition s a = ([], False, False)"
  by (simp add: Transition_def action_target_def transition_actions_def Let_def)

lemma Transition_edges:
  "Transition s a = (t, True, False) \<longleftrightarrow> (s, a, t) \<in> set lifecycle_edges"
proof (cases a rule: action_cases)
  case other
  then show ?thesis by (auto simp: Transition_other lifecycle_edges_def transition_actions_def)
qed (auto simp: lifecycle_edges_def)

lemma Transition_ignored_imp_valid: "Transition s a = (t, v, True) \<Longrightarrow> v"
  by (cases a rule: action_cases) (auto simp: Transition_other)

lemma CanTransition_loop_iff:
  "CanTransition_loop s t actions =
     (\<exists>a \<in> set actions. \<exists>i. Transition s a = (t, True, i), False)"
  by (induction actions) (auto split: prod.splits)

lemma CanTransition_edges:
  "CanTransition s t = (True, False) \<longleftrightarrow> (\<exists>a. (s, a, t) \<in> set lifecycle_edges)"
proof (cases "s = t")
  case True
  then show ?thesis by (auto simp: CanTransition_def lifecycle_edges_def)
next
  case False
  have "(\<exists>a \<in> set transition_actions. \<exists>i. Transition s a = (t, True, i)) \<longleftrightarrow>
        (\<exists>a. (s, a, t) \<in> set lifecycle_edges)"
    using False by (force simp: transition_actions_def lifecycle_edges_def)
  with False show ?thesis by (simp add: CanTransition_def CanTransition_loop_iff)
qed

lemma lifecycle_step_edges: "lifecycle_step s t \<longleftrightarrow> (\<exists>a. (s, a, t) \<in> set lifecycle_edges)"
  by (auto simp: lifecycle_step.simps Transition_edges CanTransition_edges)

inductive_simps lifecycle_step_from_closed: "lifecycle_step ''closed'' t"

lemma terminal_no_step:
  "s = ''closed'' \<or> s = ''expired'' \<Longrightarrow> \<not> lifecycle_step s t"
  by (auto simp: lifecycle_step_edges lifecycle_edges_def)

lemma lifecycle_edges_states:
  "(s, a, t) \<in> set lifecycle_edges \<Longrightarrow> s \<in> set card_states \<and> t \<in> set card_states"
  by (auto simp: lifecycle_edges_def card_states_def)

section \<open>Properties\<close>

text \<open>
  C1. Both surfaces enforce one lifecycle. A direct change of status is allowed for a batch
  exactly when some lifecycle action of the synchronous API allows it, and it is reported as
  an ignored no-op exactly when the card already has the requested status.
\<close>

theorem CanTransition_agrees_with_commands:
  "CanTransition s t =
     (s = t \<or> (\<exists>a. Transition s a = (t, True, False)), s = t)"
proof (cases "s = t")
  case True
  then show ?thesis by (simp add: CanTransition_def)
next
  case False
  have "CanTransition s t = (\<exists>a. (s, a, t) \<in> set lifecycle_edges, False)"
    using False CanTransition_edges [of s t]
    by (auto simp: CanTransition_def CanTransition_loop_iff)
  with False show ?thesis by (simp add: Transition_edges)
qed

text \<open>
  The lifecycle graph. An action changes the status of a card exactly along the ten
  edges of the lifecycle, it is a no-op exactly when the card already has the status the
  action leads to, and in every other case it is refused.
\<close>

theorem Transition_is_lifecycle_graph:
  "Transition s a =
     (if a \<notin> set transition_actions then ([], False, False)
      else (action_target a,
            s = action_target a \<or> (s, a, action_target a) \<in> set lifecycle_edges,
            s = action_target a))"
proof (cases a rule: action_cases)
  case other
  then show ?thesis by (simp add: Transition_other)
qed (auto simp: transition_actions_def action_target_def lifecycle_edges_def)

text \<open>
  C3. Terminal statuses are final. No sequence of commands and batch changes takes a closed
  or an expired card to another status, and no card ever comes back to \<open>pending\<close> or \<open>issued\<close>.
\<close>

theorem terminal_states_are_final:
  assumes "lifecycle_step\<^sup>*\<^sup>* s t"
  shows "(s = ''closed'' \<or> s = ''expired'' \<longrightarrow> t = s) \<and>
         (t = ''pending'' \<or> t = ''issued'' \<longrightarrow> s = t)"
  using assms
proof (induction rule: rtranclp_induct)
  case base
  then show ?case by simp
next
  case (step u t)
  have "t \<noteq> ''pending''" "t \<noteq> ''issued''"
    using step.hyps(2) by (auto simp: lifecycle_step_edges lifecycle_edges_def)
  moreover have "u = ''closed'' \<or> u = ''expired'' \<Longrightarrow> False"
    using step.hyps(2) terminal_no_step by blast
  ultimately show ?case using step.IH by blast
qed

theorem terminal_states_are_final_witness:
  "lifecycle_step\<^sup>*\<^sup>* ''issued'' ''closed'' \<and> \<not> lifecycle_step\<^sup>*\<^sup>* ''closed'' ''active''"
proof -
  have "lifecycle_step ''issued'' ''closed''"
    by (rule lifecycle_step.command [where action = "''close''"])
       (simp add: Transition_def action_target_def)
  then have "lifecycle_step\<^sup>*\<^sup>* ''issued'' ''closed''" by blast
  then show ?thesis
    using terminal_states_are_final [of "''issued''" "''closed''"] terminal_states_are_final [of "''closed''" "''active''"] by auto
qed

end
