(* ===== verification/Uuid.thy ===== *)
theory Uuid
  imports Go_Base
begin

unbundle bit_operations_syntax

text \<open>
  Random UUIDs and their canonical text. The sources hold several copies of the same two
  functions: \<open>newUUID\<close> in the packages \<open>card\<close>, \<open>batch\<close>, \<open>bank\<close>, \<open>auth\<close>
  (with its own \<open>formatUUID\<close>), \<open>newDecisionID\<close> in \<open>authorization\<close>, and the validators
  \<open>isCanonicalUUID\<close>, \<open>validUUID\<close>, \<open>ValidUUID\<close>. This theory models each of the distinct
  bodies and shows that they are the same function and fit each other.
\<close>

section \<open>The code\<close>

text \<open>The version and variant bits: \<open>b[6] = b[6]&15 | 64; b[8] = b[8]&63 | 128\<close>.\<close>

definition uuid_bits :: "bytes \<Rightarrow> bytes" where
  "uuid_bits b = (let b' = b[6 := (b ! 6 AND 15) OR 64] in b'[8 := (b' ! 8 AND 63) OR 128])"

text \<open>\<open>newUUID\<close> of the package \<open>card\<close> on sixteen random bytes: one hexadecimal string, sliced.\<close>

definition card_newUUID :: "bytes \<Rightarrow> string" where
  "card_newUUID b =
     (let v = EncodeToString (uuid_bits b) in
      take 8 v @ ''-'' @ take 4 (drop 8 v) @ ''-'' @ take 4 (drop 12 v) @ ''-''
      @ take 4 (drop 16 v) @ ''-'' @ drop 20 v)"

text \<open>\<open>newUUID\<close> of the package \<open>batch\<close>: five encoded slices of the array.\<close>

definition batch_newUUID :: "bytes \<Rightarrow> string" where
  "batch_newUUID b =
     (let b' = uuid_bits b in
      EncodeToString (take 4 b') @ ''-'' @ EncodeToString (take 2 (drop 4 b')) @ ''-''
      @ EncodeToString (take 2 (drop 6 b')) @ ''-'' @ EncodeToString (take 2 (drop 8 b')) @ ''-''
      @ EncodeToString (drop 10 b'))"

text \<open>\<open>formatUUID\<close> of the package \<open>auth\<close>: a loop that writes a hyphen before bytes 4, 6, 8, 10.\<close>

fun formatUUID_loop :: "nat \<Rightarrow> bytes \<Rightarrow> string" where
  "formatUUID_loop index [] = []"
| "formatUUID_loop index (value # rest) =
     (if index = 4 \<or> index = 6 \<or> index = 8 \<or> index = 10 then ''-'' else [])
     @ [hex_digit (unat (drop_bit 4 value)), hex_digit (unat (value AND 0x0f))]
     @ formatUUID_loop (Suc index) rest"

definition formatUUID :: "bytes \<Rightarrow> string" where
  "formatUUID bs = formatUUID_loop 0 bs"

definition auth_newUUID :: "bytes \<Rightarrow> string" where
  "auth_newUUID b = formatUUID (uuid_bits b)"

text \<open>
  The validator. The range loop of the code runs over runes; a byte above 127 starts a rune
  that is neither a hyphen nor a hexadecimal digit, so the loop over bytes answers the same.
\<close>

fun isCanonicalUUID_loop :: "nat \<Rightarrow> string \<Rightarrow> bool" where
  "isCanonicalUUID_loop i [] = True"
| "isCanonicalUUID_loop i (char # rest) =
     (if i = 8 \<or> i = 13 \<or> i = 18 \<or> i = 23 then
        (if char \<noteq> CHR ''-'' then False else isCanonicalUUID_loop (Suc i) rest)
      else if \<not> (CHR ''0'' \<le> char \<and> char \<le> CHR ''9'' \<or> CHR ''a'' \<le> char \<and> char \<le> CHR ''f'') then False
      else isCanonicalUUID_loop (Suc i) rest)"

definition isCanonicalUUID :: "string \<Rightarrow> bool" where
  "isCanonicalUUID value =
     (if length value \<noteq> 36 \<or> ToLower value \<noteq> value then False
      else isCanonicalUUID_loop 0 value)"

section \<open>Lemmas\<close>

lemma length_16:
  assumes "length b = 16"
  obtains b0 b1 b2 b3 b4 b5 b6 b7 b8 b9 b10 b11 b12 b13 b14 b15 where
    "b = [b0, b1, b2, b3, b4, b5, b6, b7, b8, b9, b10, b11, b12, b13, b14, b15]"
proof -
  have "16 = Suc (Suc (Suc (Suc (Suc (Suc (Suc (Suc (Suc (Suc (Suc (Suc (Suc (Suc (Suc (Suc 0)))))))))))))))"
    by simp
  then show thesis using assms that by (auto simp only: length_Suc_conv length_0_conv)
qed

lemma length_uuid_bits [simp]: "length (uuid_bits b) = length b"
  by (simp add: uuid_bits_def Let_def)

lemma nibbles: "[hex_digit (unat (drop_bit 4 v)), hex_digit (unat (v AND 0x0f))] = hex_of_byte v"
  for v :: byte
proof -
  have "unat (drop_bit 4 v) = unat v div 16"
    by (simp add: drop_bit_eq_div unat_div)
  moreover have "unat (v AND 0x0f) = unat v mod 16"
  proof -
    have "v AND 0x0f = take_bit 4 v" by (simp add: take_bit_eq_mask mask_numeral)
    then show ?thesis by (simp add: take_bit_eq_mod unat_mod)
  qed
  ultimately show ?thesis by (simp add: hex_of_byte_def)
qed

lemma is_hex_lower_lower: "is_hex_lower c \<Longrightarrow> lower_char c = c"
  by (auto simp: is_hex_lower_def lower_char_def less_eq_char_def)

lemma isCanonicalUUID_loop_append:
  "isCanonicalUUID_loop i (s @ t) \<longleftrightarrow>
     isCanonicalUUID_loop i s \<and> isCanonicalUUID_loop (i + length s) t"
  by (induction s arbitrary: i) auto

lemma isCanonicalUUID_loop_hex:
  "\<forall>c \<in> set s. is_hex_lower c \<Longrightarrow> {i ..< i + length s} \<inter> {8, 13, 18, 23} = {} \<Longrightarrow>
   isCanonicalUUID_loop i s"
proof (induction s arbitrary: i)
  case Nil
  then show ?case by simp
next
  case (Cons c s)
  have "{Suc i ..< Suc i + length s} \<inter> {8, 13, 18, 23} = {}" using Cons.prems(2) by auto
  with Cons have "isCanonicalUUID_loop (Suc i) s" by simp
  moreover have "i \<notin> {8, 13, 18, 23}" using Cons.prems(2) by auto
  ultimately show ?case using Cons.prems(1) by (auto simp: is_hex_lower_def)
qed

lemma batch_newUUID_eq_card: "length b = 16 \<Longrightarrow> batch_newUUID b = card_newUUID b"
proof -
  assume "length b = 16"
  then have "length (uuid_bits b) = 16" by simp
  then obtain b0 b1 b2 b3 b4 b5 b6 b7 b8 b9 b10 b11 b12 b13 b14 b15 where
    "uuid_bits b = [b0, b1, b2, b3, b4, b5, b6, b7, b8, b9, b10, b11, b12, b13, b14, b15]"
    by (rule length_16)
  then show ?thesis by (simp add: batch_newUUID_def card_newUUID_def Let_def hex_of_byte_def)
qed

lemma auth_newUUID_eq_card: "length b = 16 \<Longrightarrow> auth_newUUID b = card_newUUID b"
proof -
  assume "length b = 16"
  then have "length (uuid_bits b) = 16" by simp
  then obtain b0 b1 b2 b3 b4 b5 b6 b7 b8 b9 b10 b11 b12 b13 b14 b15 where
    "uuid_bits b = [b0, b1, b2, b3, b4, b5, b6, b7, b8, b9, b10, b11, b12, b13, b14, b15]"
    by (rule length_16)
  then show ?thesis
    by (simp add: auth_newUUID_def formatUUID_def card_newUUID_def Let_def nibbles [symmetric])
qed

lemma isCanonicalUUID_loop_Encode:
  "{i ..< i + 2 * length bs} \<inter> {8, 13, 18, 23} = {} \<Longrightarrow>
   isCanonicalUUID_loop i (EncodeToString bs)"
  by (rule isCanonicalUUID_loop_hex) (auto dest: EncodeToString_hex)

lemma batch_newUUID_canonical:
  assumes "length b = 16"
  shows "isCanonicalUUID (batch_newUUID b)"
proof -
  have "length (batch_newUUID b) = 36" using assms by (simp add: batch_newUUID_def Let_def)
  moreover have "ToLower (batch_newUUID b) = batch_newUUID b"
    unfolding ToLower_def
  proof (rule map_idI)
    fix c assume "c \<in> set (batch_newUUID b)"
    then have "is_hex_lower c \<or> c = CHR ''-''"
      by (auto simp: batch_newUUID_def Let_def dest: EncodeToString_hex)
    moreover have "lower_char CHR ''-'' = CHR ''-''" by (simp add: lower_char_def less_eq_char_def)
    ultimately show "lower_char c = c" using is_hex_lower_lower by blast
  qed
  moreover have "isCanonicalUUID_loop 0 (batch_newUUID b)"
    using assms by (simp add: batch_newUUID_def Let_def isCanonicalUUID_loop_append
          isCanonicalUUID_loop_Encode)
  ultimately show ?thesis by (simp add: isCanonicalUUID_def)
qed

section \<open>Properties\<close>

text \<open>
  Every generated identifier is accepted. The three ways the packages format sixteen
  random bytes give the same text, that text passes the canonical-UUID validators of the API
  and of the batch service, and two draws give the same identifier only if they agree on
  every byte outside the version and variant bits.
\<close>

theorem newUUID_canonical:
  assumes "length b = 16" and "length c = 16"
  shows "batch_newUUID b = card_newUUID b \<and> auth_newUUID b = card_newUUID b \<and>
         isCanonicalUUID (card_newUUID b) \<and>
         (card_newUUID b = card_newUUID c \<longleftrightarrow> uuid_bits b = uuid_bits c)"
proof -
  have inj: "uuid_bits b = uuid_bits c" if "batch_newUUID b = batch_newUUID c"
  proof -
    obtain b0 b1 b2 b3 b4 b5 b6 b7 b8 b9 b10 b11 b12 b13 b14 b15 where
      B: "uuid_bits b = [b0, b1, b2, b3, b4, b5, b6, b7, b8, b9, b10, b11, b12, b13, b14, b15]"
      using assms(1) length_16 [of "uuid_bits b"] by (metis length_uuid_bits)
    obtain c0 c1 c2 c3 c4 c5 c6 c7 c8 c9 c10 c11 c12 c13 c14 c15 where
      C: "uuid_bits c = [c0, c1, c2, c3, c4, c5, c6, c7, c8, c9, c10, c11, c12, c13, c14, c15]"
      using assms(2) length_16 [of "uuid_bits c"] by (metis length_uuid_bits)
    have "EncodeToString (uuid_bits b) = EncodeToString (uuid_bits c)"
      using that by (simp add: batch_newUUID_def Let_def B C hex_of_byte_def)
    then show ?thesis by (simp only: EncodeToString_inj)
  qed
  have b: "batch_newUUID b = card_newUUID b" and c: "batch_newUUID c = card_newUUID c"
    using assms batch_newUUID_eq_card by blast+
  have "card_newUUID b = card_newUUID c \<longleftrightarrow> uuid_bits b = uuid_bits c"
    using inj b c by (auto simp: card_newUUID_def)
  then show ?thesis
    using b auth_newUUID_eq_card [OF assms(1)] batch_newUUID_canonical [OF assms(1)] by simp
qed

theorem newUUID_canonical_witness:
  "length (replicate 16 0 :: bytes) = 16 \<and>
   isCanonicalUUID (card_newUUID (replicate 16 0)) \<and>
   batch_newUUID (replicate 16 0) = card_newUUID (replicate 16 0)"
  using newUUID_canonical [of "replicate 16 0" "replicate 16 0"] by simp

end
