(* ===== verification/Card_Service.thy ===== *)
theory Card_Service
  imports Shard_Store Vault_Client Lifecycle Uuid
begin

text \<open>
  \<open>internal/card/service.go\<close>: card reads, issuance, lifecycle commands, replacement and the
  manual retry of an expiry. Issuance is a saga over two stores: credentials are provisioned in
  the vault while the shard transaction is open, and revoked by a deferred function unless the
  transaction committed.
\<close>

section \<open>The service\<close>

record 'v issuer_world = "shard_db tx_world" +
  vault_state :: 'v

record 'v card_service =
  svc_vault :: "'v credential_ops option"
  svc_fingerprinter :: bytes

definition replayLifetime :: duration where
  "replayLifetime = 7 * 24 * 3600 * 1000000000"

definition in_vault :: "('v, 'a) prog \<Rightarrow> ('v issuer_world, 'a) prog" where
  "in_vault m = (\<lambda>w. case m (vault_state w) of (r, v) \<Rightarrow> (r, w\<lparr>vault_state := v\<rparr>))"

text \<open>\<open>_ = s.vault.Revoke(...)\<close>: the error of the revocation is dropped.\<close>

definition revoke_credentials :: "'v credential_ops \<Rightarrow> string \<Rightarrow> 'v issuer_world \<Rightarrow> 'v issuer_world" where
  "revoke_credentials ops cardID w = w\<lparr>vault_state := snd (Revoke ops cardID (vault_state w))\<rparr>"

definition newUUID :: "environment \<Rightarrow> ('m shard_world_scheme, uuid) prog" where
  "newUUID env = andThen (rand_Read env 16) (\<lambda>b. ret (card_newUUID b))"

definition actorEntityID :: "Principal \<Rightarrow> string" where
  "actorEntityID prin = (if p_Role prin = ''bank_operator'' then p_EntityID prin else '''')"

definition combined :: "Card \<Rightarrow> CardOperation \<Rightarrow> json" where
  "combined c operation = JObj [(''card'', cardJSON c), (''operation'', operationJSON operation)]"

definition issuanceResponse :: "Card \<Rightarrow> CardOperation \<Rightarrow> ProvisionedCredential \<Rightarrow> json" where
  "issuanceResponse c operation credentials = JObj
     [(''card'', cardJSON c),
      (''credentials'', JObj [(''cvv'', JStr (cred_CVV credentials)), (''pan'', JStr (cred_PAN credentials))]),
      (''operation'', operationJSON operation)]"

definition historyJSON :: "CardStatusHistory \<Rightarrow> json" where
  "historyJSON h = JObj
     [(''id'', JStr (hist_ID h)), (''previous_status'', JStr (hist_PreviousStatus h)),
      (''new_status'', JStr (hist_NewStatus h)), (''reason'', JStr (hist_Reason h)),
      (''created_at'', JTime (hist_CreatedAt h))]"

section \<open>Reads\<close>

definition ListCards :: "environment \<Rightarrow> uuid \<Rightarrow> string \<Rightarrow> string \<Rightarrow> string \<Rightarrow> string \<Rightarrow>
    ('m shard_world_scheme, json list) prog" where
  "ListCards env bank clientID accountID productID status =
     andThen (Reader_Cards env bank \<lparr>cf_ClientID = clientID, cf_AccountID = accountID,
       cf_ProductID = productID, cf_Status = status\<rparr>) (\<lambda>cards. ret (map cardJSON cards))"

definition GetCard :: "environment \<Rightarrow> uuid \<Rightarrow> uuid \<Rightarrow> ('m shard_world_scheme, json) prog" where
  "GetCard env bank rid = andThen (Reader_Card env bank rid) (\<lambda>card. ret (cardJSON card))"

definition ListCardOperations :: "environment \<Rightarrow> uuid \<Rightarrow> uuid \<Rightarrow> ('m shard_world_scheme, json list) prog" where
  "ListCardOperations env bank rid =
     andThen (Reader_CardOperations env bank rid) (\<lambda>items. ret (map operationJSON items))"

definition ListCardStatusHistory :: "environment \<Rightarrow> uuid \<Rightarrow> uuid \<Rightarrow> ('m shard_world_scheme, json list) prog" where
  "ListCardStatusHistory env bank rid =
     andThen (Reader_CardStatusHistory env bank rid) (\<lambda>items. ret (map historyJSON items))"

section \<open>Commands\<close>

definition idempotency_problem :: "go_error \<Rightarrow> go_error" where
  "idempotency_problem e =
     (if e = ErrIdempotencyConflict
      then Problem 409 ''idempotency_conflict'' ''Idempotency-Key was previously used for a different request.''
      else e)"

definition card_claim :: "environment \<Rightarrow> 'v card_service \<Rightarrow> uuid \<Rightarrow> string \<Rightarrow> string \<Rightarrow> bytes \<Rightarrow>
    ('m shard_world_scheme, ShardIdempotencyReplay) prog" where
  "card_claim env svc bank scope key body =
     andThen (time_now env) (\<lambda>now.
     onError (ClaimIdempotency env \<lparr>claim_Bank = bank, claim_Scope = scope, claim_Key = key,
       claim_Fingerprint = Fingerprint (svc_fingerprinter svc) body, claim_Now = now,
       claim_ExpiresAt = now + replayLifetime\<rparr>) idempotency_problem)"

text \<open>From the insert of the card to the commit: what runs under the deferred revocation.\<close>

definition issue_and_commit ::
  "environment \<Rightarrow> Principal \<Rightarrow> uuid \<Rightarrow> string \<Rightarrow> string \<Rightarrow> CardIssue \<Rightarrow> ProvisionedCredential \<Rightarrow>
   ('m shard_world_scheme, json) prog" where
  "issue_and_commit env prin bank scope key input credentials =
     andThen (IssueCard env bank input) (\<lambda>(card, operation).
     andThen (FinishIdempotency env bank scope key 201 (combined card operation) (ci_OperationID input)
       (p_UserID prin)) (\<lambda>_.
     andThen (Commit env) (\<lambda>_.
     ret (issuanceResponse card operation credentials))))"

definition IssueCardWorkflow ::
  "environment \<Rightarrow> 'v card_service \<Rightarrow> Principal \<Rightarrow> uuid \<Rightarrow> string \<Rightarrow> bytes \<Rightarrow> uuid \<Rightarrow> uuid \<Rightarrow> uuid \<Rightarrow> string \<Rightarrow> uuid \<Rightarrow>
   ('v issuer_world, json) prog" where
  "IssueCardWorkflow env svc prin bank key body clientID accountID productID reason requestID =
     transaction env bank
     (let scope = ''cards.issue.actor.'' @ p_UserID prin in
      andThen (card_claim env svc bank scope key body) (\<lambda>replay.
      if replay_Found replay then ret (replay_Response replay) else
      andThen (IssueReferencesValid env bank clientID accountID productID) (\<lambda>valid.
      if \<not> valid then throw (Problem 422 ''invalid_reference''
        ''The card references are not active and bank-consistent.'') else
      andThen (newUUID env) (\<lambda>cardID.
      andThen (newUUID env) (\<lambda>operationID.
      case svc_vault svc of
        None \<Rightarrow> throw (PlainError ''card: credential vault is not configured'')
      | Some ops \<Rightarrow>
          andThen (in_vault (Provision ops cardID)) (\<lambda>credentials.
          compensated
            (issue_and_commit env prin bank scope key
               \<lparr>ci_CardID = cardID, ci_OperationID = operationID, ci_ClientID = clientID,
                ci_AccountReferenceID = accountID, ci_ProductID = productID,
                ci_MaskedPAN = cred_MaskedPAN credentials, ci_Reason = reason,
                ci_ActorID = p_UserID prin, ci_ActorRole = p_Role prin,
                ci_ActorEntityID = actorEntityID prin, ci_RequestID = requestID\<rparr> credentials)
            (revoke_credentials ops cardID)))))))"

definition replace_and_commit ::
  "environment \<Rightarrow> Principal \<Rightarrow> uuid \<Rightarrow> string \<Rightarrow> string \<Rightarrow> CardReplacement \<Rightarrow> ProvisionedCredential \<Rightarrow>
   ('m shard_world_scheme, json \<times> int) prog" where
  "replace_and_commit env prin bank scope key input credentials =
     andThen (ReplaceCard env bank input) (\<lambda>(card, operation).
     andThen (FinishIdempotency env bank scope key 201 (combined card operation) (cr_OperationID input)
       (p_UserID prin)) (\<lambda>_.
     andThen (Commit env) (\<lambda>_.
     ret (issuanceResponse card operation credentials, 201))))"

definition card_replace ::
  "environment \<Rightarrow> 'v card_service \<Rightarrow> Principal \<Rightarrow> uuid \<Rightarrow> uuid \<Rightarrow> string \<Rightarrow> string \<Rightarrow> string \<Rightarrow> uuid \<Rightarrow> CardState \<Rightarrow>
   ('v issuer_world, json \<times> int) prog" where
  "card_replace env svc prin bank rid scope key reason requestID state =
     (if cs_Status state \<noteq> ''active'' \<and> cs_Status state \<noteq> ''suspended''
      then throw (Problem 422 ''invalid_card_transition''
        ''The card cannot be replaced in its current status.'') else
      andThen (ReplacementPending env bank rid) (\<lambda>pending.
      if pending then throw (Problem 409 ''replacement_pending''
        ''The card already has an issued replacement.'') else
      andThen (newUUID env) (\<lambda>successor.
      andThen (newUUID env) (\<lambda>operationID.
      case svc_vault svc of
        None \<Rightarrow> throw (PlainError ''card: credential vault is not configured'')
      | Some ops \<Rightarrow>
          andThen (in_vault (Provision ops successor)) (\<lambda>credentials.
          compensated
            (replace_and_commit env prin bank scope key
               \<lparr>cr_SuccessorID = successor, cr_OperationID = operationID, cr_PredecessorID = rid,
                cr_ClientID = cs_ClientID state, cr_AccountReferenceID = cs_AccountReferenceID state,
                cr_ProductID = cs_ProductID state, cr_MaskedPAN = cred_MaskedPAN credentials,
                cr_Reason = reason, cr_ActorID = p_UserID prin, cr_ActorRole = p_Role prin,
                cr_ActorEntityID = actorEntityID prin, cr_RequestID = requestID\<rparr> credentials)
            (revoke_credentials ops successor))))))"

definition card_not_found :: "go_error \<Rightarrow> go_error" where
  "card_not_found e =
     (if e = ErrNotFound then Problem 404 ''not_found'' ''The requested resource does not exist.'' else e)"

definition command_and_commit ::
  "environment \<Rightarrow> Principal \<Rightarrow> uuid \<Rightarrow> string \<Rightarrow> string \<Rightarrow> CardCommand \<Rightarrow> ('m shard_world_scheme, json \<times> int) prog" where
  "command_and_commit env prin bank scope key input =
     andThen (ApplyCardCommand env bank input) (\<lambda>(card, operation).
     andThen (FinishIdempotency env bank scope key 200 (combined card operation) (cmd_OperationID input)
       (p_UserID prin)) (\<lambda>_.
     andThen (Commit env) (\<lambda>_.
     ret (combined card operation, 200))))"

definition transition_command ::
  "environment \<Rightarrow> Principal \<Rightarrow> uuid \<Rightarrow> uuid \<Rightarrow> string \<Rightarrow> string \<Rightarrow> string \<Rightarrow> string \<Rightarrow> uuid \<Rightarrow> CardState \<Rightarrow>
   ('m shard_world_scheme, json \<times> int) prog" where
  "transition_command env prin bank rid action scope key reason requestID state =
     (case Transition (cs_Status state) action of (target, valid, ignored) \<Rightarrow>
      if \<not> valid then throw (Problem 422 ''invalid_card_transition''
        ''The requested card transition is not allowed.'') else
      andThen (newUUID env) (\<lambda>operationID.
      andThen (if action = ''activate'' \<and> \<not> ignored then newUUID env else ret '''') (\<lambda>predecessorOperationID.
      command_and_commit env prin bank scope key
        \<lparr>cmd_CardID = rid, cmd_OperationID = operationID, cmd_PredecessorOperationID = predecessorOperationID,
         cmd_Action = action, cmd_PreviousStatus = cs_Status state, cmd_TargetStatus = target,
         cmd_Ignored = ignored, cmd_Reason = reason, cmd_ActorID = p_UserID prin,
         cmd_ActorRole = p_Role prin, cmd_ActorEntityID = actorEntityID prin,
         cmd_RequestID = requestID\<rparr>)))"

definition CardCommandWorkflow ::
  "environment \<Rightarrow> 'v card_service \<Rightarrow> Principal \<Rightarrow> uuid \<Rightarrow> uuid \<Rightarrow> string \<Rightarrow> string \<Rightarrow> bytes \<Rightarrow> string \<Rightarrow> uuid \<Rightarrow>
   ('v issuer_world, json \<times> int) prog" where
  "CardCommandWorkflow env svc prin bank rid action key body reason requestID =
     transaction env bank
     (let scope = ''cards.'' @ action @ ''.'' @ rid @ ''.actor.'' @ p_UserID prin in
      andThen (card_claim env svc bank scope key body) (\<lambda>replay.
      if replay_Found replay then ret (replay_Response replay, replay_Status replay) else
      andThen (onError (LockCard env bank rid) card_not_found) (\<lambda>state.
      if action = ''replace''
      then card_replace env svc prin bank rid scope key reason requestID state
      else transition_command env prin bank rid action scope key reason requestID state)))"

definition RetryExpiryWorkflow ::
  "environment \<Rightarrow> 'v card_service \<Rightarrow> Principal \<Rightarrow> uuid \<Rightarrow> uuid \<Rightarrow> uuid \<Rightarrow> string \<Rightarrow> bytes \<Rightarrow> uuid \<Rightarrow>
   ('m shard_world_scheme, unit) prog" where
  "RetryExpiryWorkflow env svc prin bank runID itemID key body requestID =
     transaction env bank
     (let scope = ''expiry.retry.'' @ runID @ ''.'' @ itemID @ ''.actor.'' @ p_UserID prin in
      andThen (card_claim env svc bank scope key body) (\<lambda>replay.
      if replay_Found replay then Commit env else
      andThen (RetryExpiryItem env bank runID itemID (p_UserID prin)) (\<lambda>retryable.
      if \<not> retryable then throw (Problem 409 ''expiry_item_not_retryable''
        ''The expiry item is not eligible for manual retry.'') else
      andThen (RecordExpiryRetryAudit env bank itemID (p_UserID prin) requestID) (\<lambda>_.
      andThen (FinishIdempotency env bank scope key 202
        (JObj [(''id'', JStr itemID), (''status'', JStr ''pending'')]) itemID (p_UserID prin)) (\<lambda>_.
      Commit env)))))"

section \<open>The saga: a failed command leaves neither rows nor credentials\<close>

lemma vault_state_more:
  "tx_world.more w = tx_world.more w' \<Longrightarrow> vault_state w = vault_state w'"
  by (cases w; cases w') simp

lemma vault_state_simps [simp]:
  "vault_state (Rollback w) = vault_state w" "vault_state (ticked w) = vault_state w"
  "durable (w\<lparr>vault_state := v\<rparr>) = durable w" "view (w\<lparr>vault_state := v\<rparr>) = view w"
  by (simp_all add: Rollback_def ticked_def)

lemma keeps_newUUID [keeps_intros]:
  "keeps durable (newUUID env)" "keeps tx_world.more (newUUID env)" "keeps view (newUUID env)"
  unfolding newUUID_def by (intro keeps_intros)+

lemma keeps_card_claim [keeps_intros]:
  "keeps durable (card_claim env svc bank scope key body)"
  "keeps tx_world.more (card_claim env svc bank scope key body)"
  unfolding card_claim_def by (intro keeps_intros)+

lemma newUUID_nonempty: "newUUID env w = (Inr x, w') \<Longrightarrow> x \<noteq> ''''"
proof -
  assume "newUUID env w = (Inr x, w')"
  then obtain b where "x = batch_newUUID b" "length b = 16"
    by (auto simp: newUUID_def rand_Read_def ret_def batch_newUUID_eq_card
        elim!: andThen_InrE split: option.splits)
  then show ?thesis using batch_newUUID_canonical [of b] by (auto simp: isCanonicalUUID_def)
qed

lemma commit_programs_keep_vault [keeps_intros]:
  "keeps tx_world.more (issue_and_commit env prin bank scope key ci cred)"
  "keeps tx_world.more (replace_and_commit env prin bank scope key cr cred)"
  "keeps tx_world.more (command_and_commit env prin bank scope key cmd)"
  unfolding issue_and_commit_def replace_and_commit_def command_and_commit_def
  by (intro keeps_intros)+

lemma commit_programs_atomic [atomic_intros]:
  assumes "no_lost_commits env"
  shows "atomic (issue_and_commit env prin bank scope key ci cred)"
    and "atomic (replace_and_commit env prin bank scope key cr cred)"
    and "atomic (command_and_commit env prin bank scope key cmd)"
  using assms unfolding issue_and_commit_def replace_and_commit_def command_and_commit_def
  by (auto intro!: atomic_intros keeps_intros)

text \<open>
  The two sides of a saga: the committed tables are \<open>D\<close>, unless the acknowledgement of a commit was
  lost, and the vault satisfies \<open>V\<close> in any case.
\<close>

definition saga_safe :: "environment \<Rightarrow> ('v \<Rightarrow> bool) \<Rightarrow> shard_db \<Rightarrow> 'v issuer_world \<Rightarrow> bool" where
  "saga_safe env V D w \<longleftrightarrow> (no_lost_commits env \<longrightarrow> durable w = D) \<and> V (vault_state w)"

lemma saga_safe_cong:
  "durable w' = durable w \<Longrightarrow> tx_world.more w' = tx_world.more w \<Longrightarrow>
   saga_safe env V D w' = saga_safe env V D w"
  using vault_state_more [of w' w] by (simp add: saga_safe_def)

lemma saga_safe_keeps:
  assumes "keeps durable m" and "keeps tx_world.more m"
  shows "triple (saga_safe env V D) m (\<lambda>_. saga_safe env V D) (\<lambda>_. saga_safe env V D)"
  using keepsD [OF assms(1)] keepsD [OF assms(2)] saga_safe_cong by (intro tripleI) blast+

lemma saga_safe_atomic:
  assumes "no_lost_commits env \<Longrightarrow> atomic m" and "keeps tx_world.more m"
  shows "triple (saga_safe env V D) m (\<lambda>_ _. True) (\<lambda>_. saga_safe env V D)"
proof (rule tripleI)
  fix w e w' assume "saga_safe env V D w" "m w = (Inl e, w')"
  then show "saga_safe env V D w'"
    using atomicD [OF assms(1)] vault_state_more [OF keepsD [OF assms(2)]] by (auto simp: saga_safe_def)
qed simp

lemma saga_safe_transaction:
  assumes "triple (saga_safe env V D) m (\<lambda>_ _. True) (\<lambda>_. saga_safe env E D)" and "\<And>v. V v \<Longrightarrow> E v"
  shows "triple (saga_safe env V D) (transaction env bank m) (\<lambda>_ _. True) (\<lambda>_. saga_safe env E D)"
  unfolding transaction_def
  by (rule triple_andThen, rule triple_conseq [OF saga_safe_keeps [OF keeps_beginTenant]], assumption, assumption,
      simp add: saga_safe_def assms(2), rule triple_deferred, rule triple_conseq [OF assms(1)])
    (auto simp: saga_safe_def)

lemma transition_atomic:
  shows "no_lost_commits env \<Longrightarrow> atomic (transition_command env prin bank rid action scope key reason req state)"
    and "keeps tx_world.more (transition_command env prin bank rid action scope key reason req state)"
  unfolding transition_command_def
  by (auto intro!: atomic_intros keeps_intros split: prod.splits)

context vault_saga begin

lemma saga_weaken: "saga_safe env V D w \<Longrightarrow> saga_safe env E D w"
  by (simp add: saga_safe_def saga_start)

lemma saga_andThen:
  assumes "keeps durable m" and "keeps tx_world.more m"
    and "\<And>x. triple (saga_safe env V D) (f x) Q (\<lambda>_. saga_safe env E D)"
  shows "triple (saga_safe env V D) (andThen m f) Q (\<lambda>_. saga_safe env E D)"
proof (rule triple_andThen [OF _ assms(3)])
  show "triple (saga_safe env V D) m (\<lambda>_. saga_safe env V D) (\<lambda>_. saga_safe env E D)"
    by (rule triple_conseq [OF saga_safe_keeps [OF assms(1,2), of env V D]]) (auto intro: saga_weaken)
qed

lemma saga_throw: "triple (saga_safe env V D) (throw e) Q (\<lambda>_. saga_safe env E D)"
  by (rule triple_throw) (rule saga_weaken)

lemma saga_newUUID:
  assumes "\<And>x. x \<noteq> '''' \<Longrightarrow> triple (saga_safe env V D) (f x) Q (\<lambda>_. saga_safe env E D)"
  shows "triple (saga_safe env V D) (andThen (newUUID env) f) Q (\<lambda>_. saga_safe env E D)"
proof (rule triple_andThen)
  show "triple (saga_safe env V D) (newUUID env) (\<lambda>x w. x \<noteq> '''' \<and> saga_safe env V D w) (\<lambda>_. saga_safe env E D)"
    using saga_safe_keeps [OF keeps_newUUID(1,2), of env V D env] newUUID_nonempty saga_weaken
    by (intro tripleI) (blast dest: tripleD_Inr tripleD_Inl)+
  show "triple (\<lambda>w. x \<noteq> '''' \<and> saga_safe env V D w) (f x) Q (\<lambda>_. saga_safe env E D)" for x
    using assms [of x] by (cases "x = ''''") (auto simp: triple_def)
qed

text \<open>A provisioning under the deferred revocation.\<close>

lemma saga_provision:
  assumes c: "c \<noteq> ''''" and "\<And>cred. no_lost_commits env \<Longrightarrow> atomic (m cred)" and "\<And>cred. keeps tx_world.more (m cred)"
  shows "triple (saga_safe env V D)
    (andThen (in_vault (Provision ops c)) (\<lambda>cred. compensated (m cred) (revoke_credentials ops c)))
    (\<lambda>_ _. True) (\<lambda>_. saga_safe env E D)"
proof (rule triple_andThen)
  show "triple (saga_safe env V D) (in_vault (Provision ops c)) (\<lambda>_. saga_safe env (\<lambda>v. E (snd (Revoke ops c v))) D)
      (\<lambda>_. saga_safe env E D)"
    using saga_refused [OF c] saga_undone [OF c]
    by (intro tripleI) (auto simp: in_vault_def saga_safe_def split: prod.splits)
  fix cred
  show "triple (saga_safe env (\<lambda>v. E (snd (Revoke ops c v))) D) (compensated (m cred) (revoke_credentials ops c))
      (\<lambda>_ _. True) (\<lambda>_. saga_safe env E D)"
    by (intro triple_compensated triple_conseq [OF saga_safe_atomic [OF assms(2,3)]])
      (auto simp: saga_safe_def revoke_credentials_def)
qed

lemma issue_saga:
  assumes "svc_vault svc = Some ops"
  shows "triple (saga_safe env V D)
    (IssueCardWorkflow env svc prin bank key body client account product reason req)
    (\<lambda>_ _. True) (\<lambda>_. saga_safe env E D)"
  unfolding IssueCardWorkflow_def Let_def assms option.case
  by (rule saga_safe_transaction [OF _ saga_start], rule saga_andThen [OF keeps_card_claim], rule triple_if,
      rule triple_ret, simp, rule saga_andThen [OF keeps_store_durable(10) keeps_store_more(1)],
      rule triple_if, rule saga_throw, rule saga_newUUID, rule saga_newUUID,
      rule saga_provision, assumption, erule commit_programs_atomic, rule commit_programs_keep_vault)

lemma replace_saga:
  assumes "svc_vault svc = Some ops"
  shows "triple (saga_safe env V D)
    (card_replace env svc prin bank rid scope key reason req state)
    (\<lambda>_ _. True) (\<lambda>_. saga_safe env E D)"
  unfolding card_replace_def assms option.case
  by (rule triple_if, rule saga_throw,
      rule saga_andThen [OF keeps_store_durable(13) keeps_store_more(4)],
      rule triple_if, rule saga_throw, rule saga_newUUID, rule saga_newUUID,
      rule saga_provision, assumption, erule commit_programs_atomic, rule commit_programs_keep_vault)

lemma command_saga:
  assumes "svc_vault svc = Some ops"
  shows "triple (saga_safe env V D)
    (CardCommandWorkflow env svc prin bank rid action key body reason req)
    (\<lambda>_ _. True) (\<lambda>_. saga_safe env E D)"
  unfolding CardCommandWorkflow_def Let_def
  by (rule saga_safe_transaction [OF _ saga_start], rule saga_andThen [OF keeps_card_claim], rule triple_if,
      rule triple_ret, simp,
      rule saga_andThen [OF keeps_onError keeps_onError, OF keeps_store_durable(12) keeps_store_more(3)],
      rule triple_if, rule replace_saga [OF assms],
      rule triple_conseq [OF saga_safe_atomic [OF transition_atomic]], assumption, assumption, simp, erule saga_weaken)

end

text \<open>
  C8. Failed issuance and card commands are undone on both sides, with the vault that the API uses: the
  client of \<open>internal/vault/development\<close> before an in-memory vault, over a network that may lose any
  request or answer. When \<open>IssueCardWorkflow\<close> or \<open>CardCommandWorkflow\<close> (replacement included) reports
  an error, wherever a statement, the vault, the random source or the commit failed: the committed tables
  are as they were, unless the acknowledgement of a commit was lost; and no card has a valid credential
  that had none before, lost acknowledgements included, except one card when the answer to its
  provisioning was lost (the workflow does not revoke then) or the request of its revocation did not
  reach the vault (the workflow drops that error). The first request of the call is the provisioning,
  the second one the revocation.
\<close>

theorem failed_card_commands_leave_nothing:
  assumes "svc_vault svc = Some (client_ops net in_memory_ops)"
    and "IssueCardWorkflow env svc prin bank key body client account product reason req w = (Inl e, w') \<or>
      CardCommandWorkflow env svc prin bank rid action key body reason req w = (Inl e, w')"
  shows "(no_lost_commits env \<longrightarrow> durable w' = durable w) \<and>
    (\<exists>c. vm_live (rv_vault (vault_state w')) \<subseteq> insert c (vm_live (rv_vault (vault_state w)))) \<and>
    (net (rv_requests (vault_state w)) \<noteq> NoAnswer \<and> net (Suc (rv_requests (vault_state w))) \<noteq> NotSent \<longrightarrow>
      vm_live (rv_vault (vault_state w')) \<subseteq> vm_live (rv_vault (vault_state w)))"
proof -
  let ?V = "\<lambda>v. v = vault_state w" and ?E = "remote_leftover net (vault_state w)"
  have start: "saga_safe env ?V (durable w) w" by (simp add: saga_safe_def)
  from assms(2) have "saga_safe env ?E (durable w) w'"
    by (elim disjE; elim tripleD_Inl [OF development.issue_saga [OF assms(1)] start]
      tripleD_Inl [OF development.command_saga [OF assms(1)] start])
  then show ?thesis unfolding saga_safe_def remote_leftover_def by blast
qed

definition sample_prin :: Principal where
  "sample_prin = \<lparr>p_UserID = ''op'', p_Username = ''op'', p_Role = ''issuer_operator'', p_EntityID = ''''\<rparr>"

definition sample_service :: "InMemory card_service" where
  "sample_service = \<lparr>svc_vault = Some in_memory_ops, svc_fingerprinter = replicate 32 9\<rparr>"

definition sample_issuer_world :: "shard_db \<Rightarrow> InMemory issuer_world" where
  "sample_issuer_world d = \<lparr>durable = d, view = d, tx_start = 0, tick = 0, vault_state = sample_vault\<rparr>"

text \<open>The connection drops at the insert of the card, after its credentials were provisioned through the client.\<close>

definition dropping_env :: environment where
  "dropping_env = sample_env\<lparr>fault_at := (\<lambda>n. if n = 8 then Fail (NetError True False) else NoFault)\<rparr>"

definition remote_service :: "InMemory remote_vault card_service" where
  "remote_service = \<lparr>svc_vault = Some (client_ops (\<lambda>_. Delivered) in_memory_ops), svc_fingerprinter = replicate 32 9\<rparr>"

definition remote_world :: "InMemory remote_vault issuer_world" where
  "remote_world = \<lparr>durable = sample_db, view = sample_db, tx_start = 0, tick = 0,
     vault_state = \<lparr>rv_vault = sample_vault, rv_requests = 0\<rparr>\<rparr>"

definition dropped_issue :: "(json result) \<times> InMemory remote_vault issuer_world" where
  "dropped_issue = IssueCardWorkflow dropping_env remote_service sample_prin ''bank'' ''k1'' [1, 2] ''client''
      ''account'' ''product'' ''new card'' ''req'' remote_world"

definition dropped_id :: uuid where
  "dropped_id = card_newUUID (map (\<lambda>i. of_nat (6 + i)) [0..<16])"

lemma dropped_id_accepted: "accepted dropped_id"
  by code_simp

lemma dropped_provision:
  "\<exists>cred. client_Provision (\<lambda>_. Delivered) in_memory_ops dropped_id \<lparr>rv_vault = sample_vault, rv_requests = 0\<rparr> =
     (Inr cred, \<lparr>rv_vault = snd (vm_Provision dropped_id sample_vault), rv_requests = 1\<rparr>)"
  using accepted_nonempty [OF dropped_id_accepted]
  by (simp add: client_provision_run dropped_id_accepted) (simp add: vm_Provision_def Let_def)

lemma dropped_issue_runs:
  "\<exists>w'. dropped_issue = (Inl (NetError True False), w') \<and> rv_requests (vault_state w') = 2"
proof -
  obtain cred where p: "client_Provision (\<lambda>_. Delivered) in_memory_ops dropped_id \<lparr>rv_vault = sample_vault, rv_requests = 0\<rparr> =
     (Inr cred, \<lparr>rv_vault = snd (vm_Provision dropped_id sample_vault), rv_requests = 1\<rparr>)"
    using dropped_provision by (elim exE)
  have r: "rv_requests (snd (client_Revoke net in_memory_ops c v)) = Suc (rv_requests v)" for net c v
    by (simp add: client_revoke_run)
  have i: "card_newUUID [6, 7, 8, 9, 10, 11, 12, 13, 14, 15, 16, 17, 18, 19, 20, 21] = dropped_id"
    by (simp add: dropped_id_def upt_rec)
  show ?thesis
    unfolding dropped_issue_def
    by (simp add: IssueCardWorkflow_def transaction_def beginTenant_def pool_Begin_def andThen_def
        compensated_def deferred_def statement_def dropping_env_def sample_env_def remote_world_def remote_service_def
        card_claim_def time_now_def ClaimIdempotency_def idempotency_load_def idempotency_found_def
        onError_def read_only_def ret_def throw_def ticked_def sample_db_def empty_db_def query_row_def
        fresh_replay_def insert_idempotency_record_def exists_row_def insert_idempotency_def checked.simps
        new_idempotency_row_def idempotency_checks_def no_key_def entity_exists_def btrim_nonempty_def
        replayLifetime_def processing_body_def is_object_def IssueReferencesValid_def sample_prin_def
        Rollback_def Let_def newUUID_def rand_Read_def in_vault_def client_ops_def issue_and_commit_def
        IssueCard_def revoke_credentials_def upt_rec i p r)
qed

theorem failed_card_commands_leave_nothing_witness:
  "\<exists>w'. dropped_issue = (Inl (NetError True False), w') \<and> rv_requests (vault_state w') = 2 \<and>
    durable w' = sample_db \<and> vm_live (rv_vault (vault_state w')) = {}"
proof -
  obtain w' where r: "dropped_issue = (Inl (NetError True False), w')" "rv_requests (vault_state w') = 2"
    using dropped_issue_runs by (elim exE conjE)
  have v: "svc_vault remote_service = Some (client_ops (\<lambda>_. Delivered) in_memory_ops)" by (simp add: remote_service_def)
  have l: "vm_live sample_vault = {}" by (simp add: vm_live_def sample_vault_def)
  have n: "no_lost_commits dropping_env" by (simp add: no_lost_commits_def dropping_env_def)
  from failed_card_commands_leave_nothing [OF v disjI1, OF r(1) [unfolded dropped_issue_def]] n l
  have "durable w' = sample_db \<and> vm_live (rv_vault (vault_state w')) = {}" by (simp add: remote_world_def)
  with r show ?thesis by blast
qed

section \<open>What a successful issuance wrote\<close>

lemma card_claimE:
  assumes "card_claim env svc bank scope key body w = (Inr rep, w')" and "records_ok (view w)"
  obtains (fresh) now where "\<not> replay_Found rep"
      and "stored_response (bank, scope, key) (view w') =
        Some (Fingerprint (svc_fingerprinter svc) body, now + replayLifetime, 202, processing_body)"
      and "but_records (view w') = but_records (view w)"
      and "\<And>f t r. stored_response (bank, scope, key) (view w) = Some (f, t, r) \<Longrightarrow> t \<le> now"
      and "now = time_Now env (tick w)"
  | (replay) t where "replay_Found rep"
      and "stored_response (bank, scope, key) (view w) = Some (Fingerprint (svc_fingerprinter svc) body, t,
        replay_Status rep, replay_Response rep)"
      and "view w' = view w"
proof -
  let ?c = "\<lambda>now. \<lparr>claim_Bank = bank, claim_Scope = scope, claim_Key = key,
       claim_Fingerprint = Fingerprint (svc_fingerprinter svc) body, claim_Now = now,
       claim_ExpiresAt = now + replayLifetime\<rparr>"
  have k: "claim_key (?c now) = (bank, scope, key)" for now by (simp add: claim_key_def)
  from assms(1) have c: "ClaimIdempotency env (?c (time_Now env (tick w))) (ticked w) = (Inr rep, w')"
    by (simp add: card_claim_def andThen_def time_now_def onError_Inr)
  have r: "but_records (view w') = but_records (view w)" using claim_but_records [OF c] by simp
  from assms(2) have "records_ok (view (ticked w))" by simp
  with c show thesis
  proof (cases rule: ClaimIdempotency_InrE)
    case fresh
    then show thesis using that(1) [of "time_Now env (tick w)"] r
      by (auto simp: k stored_response_def record_data_def bind_eq_Some_conv)
  next
    case (replay r status)
    then show thesis using that(2) by (auto simp: k stored_response_def record_data_def)
  qed
qed

definition issue_scope :: "Principal \<Rightarrow> string" where
  "issue_scope prin = ''cards.issue.actor.'' @ p_UserID prin"

lemma issue_and_commit_result:
  assumes "issue_and_commit env prin bank scope key input cred w = (Inr resp, w')"
    and "stored_response (bank, scope, key) (view w) = Some (fp, t, r0)"
  shows "\<exists>c1 c2 c3 c4 crd operation.
    but_records (durable w') = issued_rows bank ''issue'' (ci_CardID input) (ci_OperationID input) (ci_ClientID input)
      (ci_AccountReferenceID input) (ci_ProductID input) (ci_MaskedPAN input) None (ci_Reason input)
      (ci_ActorID input) (ci_ActorRole input) (ci_ActorEntityID input) (ci_RequestID input) c1 c2 c3 c4
      (but_records (view w)) \<and>
    crd = scanCard (issued_card_row bank (ci_CardID input) (ci_ClientID input) (ci_AccountReferenceID input)
      (ci_ProductID input) (ci_MaskedPAN input) None (ci_ActorID input) c1) \<and>
    (bank, ci_CardID input) \<notin> card_key ` set (cards (view w)) \<and>
    stored_response (bank, scope, key) (durable w') = Some (fp, t, 201, combined crd operation) \<and>
    resp = issuanceResponse crd operation cred"
proof -
  from assms(1) obtain p w1 where i: "IssueCard env bank input w = (Inr p, w1)"
    and r: "(case p of (c, q) \<Rightarrow>
     andThen (FinishIdempotency env bank scope key 201 (combined c q) (ci_OperationID input)
       (p_UserID prin)) (\<lambda>_.
     andThen (Commit env) (\<lambda>_.
     ret (issuanceResponse c q cred)))) w1 = (Inr resp, w')"
    unfolding issue_and_commit_def by (rule andThen_InrE)
  obtain crd operation where p: "p = (crd, operation)" by (cases p)
  from r obtain u w2 u' w3 where f: "FinishIdempotency env bank scope key 201 (combined crd operation)
      (ci_OperationID input) (p_UserID prin) w1 = (Inr u, w2)"
    and c: "Commit env w2 = (Inr u', w3)" and e: "resp = issuanceResponse crd operation cred" "w' = w3"
    by (auto simp: p ret_def elim!: andThen_InrE)
  from c have d: "durable w' = view w2" by (auto simp: e elim: Commit_InrE)
  from IssueCard_result [OF i [unfolded p]] obtain c1 c2 c3 c4 where
    v: "view w1 = issued_rows bank ''issue'' (ci_CardID input) (ci_OperationID input) (ci_ClientID input)
      (ci_AccountReferenceID input) (ci_ProductID input) (ci_MaskedPAN input) None (ci_Reason input)
      (ci_ActorID input) (ci_ActorRole input) (ci_ActorEntityID input) (ci_RequestID input) c1 c2 c3 c4 (view w)"
    and crd: "crd = scanCard (issued_card_row bank (ci_CardID input) (ci_ClientID input) (ci_AccountReferenceID input)
      (ci_ProductID input) (ci_MaskedPAN input) None (ci_ActorID input) c1)"
    and new: "(bank, ci_CardID input) \<notin> card_key ` set (cards (view w))"
    by blast
  have "stored_response (bank, scope, key) (view w1) = Some (fp, t, r0)"
    using assms(2) by (simp add: v stored_response_cong [of "view w1" "view w"] issued_rows_def
        stored_response_def record_of_def)
  from finish_stored_response [OF f this]
  have "stored_response (bank, scope, key) (durable w') = Some (fp, t, 201, combined crd operation)"
    by (simp add: d)
  moreover have "but_records (durable w') = but_records (view w1)"
    using finish_but_records [OF f] by (simp add: d)
  moreover have "but_records (issued_rows b a ci oi cl ac pr m pd re ac2 ro en rq x1 x2 x3 x4 D) =
      issued_rows b a ci oi cl ac pr m pd re ac2 ro en rq x1 x2 x3 x4 (but_records D)"
    for b a ci oi cl ac pr m pd re ac2 ro en rq x1 x2 x3 x4 D
    by (simp add: but_records_def issued_rows_def)
  ultimately show ?thesis using v crd new e by metis
qed

lemma IssueReferencesValidE:
  assumes "IssueReferencesValid env bank client account product w = (Inr True, w')"
  shows "view w' = view w" and "durable w' = durable w" and "tx_world.more w' = tx_world.more w"
    and "\<exists>a \<in> set (account_references (view w)). ar_entity a = bank \<and> ar_ID a = account \<and> ar_ClientID a = client"
    and "\<exists>p \<in> set (card_products (view w)). prod_entity p = bank \<and> prod_ID p = product \<and> prod_Status p = ''active''"
  using assms unfolding IssueReferencesValid_def
  by (auto elim!: statement_readE simp: exists_row_iff)

lemma newUUIDE:
  assumes "newUUID env w = (Inr x, w')"
  shows "view w' = view w" and "durable w' = durable w" and "tx_world.more w' = tx_world.more w"
  using keepsD [OF keeps_newUUID(1) assms] keepsD [OF keeps_newUUID(2) assms] keepsD [OF keeps_newUUID(3) assms]
  by auto

text \<open>The successful runs of the workflow: a replay, or the steps up to the commit.\<close>

lemma IssueCardWorkflowE:
  assumes "IssueCardWorkflow env svc prin bank key body client account product reason req w = (Inr resp, w')"
    and "svc_vault svc = Some ops" and "records_ok (durable w)"
  obtains (replay) t status where "stored_response (bank, issue_scope prin, key) (durable w) =
        Some (Fingerprint (svc_fingerprinter svc) body, t, status, resp)"
      and "durable w' = durable w" and "vault_state w' = vault_state w"
  | (issued) cid oid cred now w1 w2 where
      "Provision ops cid (vault_state w) = (Inr cred, vault_state w')" and "cid \<noteq> ''''"
      and "but_records (view w1) = but_records (durable w)" and "w' = Rollback w2"
      and "stored_response (bank, issue_scope prin, key) (view w1) =
        Some (Fingerprint (svc_fingerprinter svc) body, now + replayLifetime, 202, processing_body)"
      and "issue_and_commit env prin bank (issue_scope prin) key
        \<lparr>ci_CardID = cid, ci_OperationID = oid, ci_ClientID = client,
         ci_AccountReferenceID = account, ci_ProductID = product,
         ci_MaskedPAN = cred_MaskedPAN cred, ci_Reason = reason,
         ci_ActorID = p_UserID prin, ci_ActorRole = p_Role prin,
         ci_ActorEntityID = actorEntityID prin, ci_RequestID = req\<rparr> cred w1 = (Inr resp, w2)"
      and "\<exists>a \<in> set (account_references (durable w)). ar_entity a = bank \<and> ar_ID a = account \<and> ar_ClientID a = client"
      and "\<exists>p \<in> set (card_products (durable w)). prod_entity p = bank \<and> prod_ID p = product \<and> prod_Status p = ''active''"
proof -
  let ?rest = "\<lambda>replay :: ShardIdempotencyReplay. if replay_Found replay then ret (replay_Response replay) else
      andThen (IssueReferencesValid env bank client account product) (\<lambda>valid.
      if \<not> valid then throw (Problem 422 ''invalid_reference''
        ''The card references are not active and bank-consistent.'') else
      andThen (newUUID env) (\<lambda>cardID.
      andThen (newUUID env) (\<lambda>operationID.
          andThen (in_vault (Provision ops cardID)) (\<lambda>credentials.
          compensated
            (issue_and_commit env prin bank (issue_scope prin) key
               \<lparr>ci_CardID = cardID, ci_OperationID = operationID, ci_ClientID = client,
                ci_AccountReferenceID = account, ci_ProductID = product,
                ci_MaskedPAN = cred_MaskedPAN credentials, ci_Reason = reason,
                ci_ActorID = p_UserID prin, ci_ActorRole = p_Role prin,
                ci_ActorEntityID = actorEntityID prin, ci_RequestID = req\<rparr> credentials)
            (revoke_credentials ops cardID)))))"
  from assms(1) obtain wa wz where a: "view wa = durable w" "durable wa = durable w"
      "tx_world.more wa = tx_world.more w" and z: "w' = Rollback wz"
    and m: "andThen (card_claim env svc bank (issue_scope prin) key body) ?rest wa = (Inr resp, wz)"
    unfolding IssueCardWorkflow_def issue_scope_def Let_def assms(2) option.case by (rule transaction_InrE)
  from m obtain rep wb where c: "card_claim env svc bank (issue_scope prin) key body wa = (Inr rep, wb)"
    and r: "?rest rep wb = (Inr resp, wz)" by (rule andThen_InrE)
  have b: "durable wb = durable w" "tx_world.more wb = tx_world.more w"
    using keepsD [OF keeps_card_claim(1) c] keepsD [OF keeps_card_claim(2) c] a by auto
  from c have "records_ok (view wa)" using assms(3) a by simp
  with c show thesis
  proof (cases rule: card_claimE)
    case (replay t)
    with r have "resp = replay_Response rep" "wz = wb" by (simp_all add: ret_def)
    with replay show thesis using a b z vault_state_more [of wb w] by (intro that(1)) auto
  next
    case (fresh now)
    from r obtain wc cid wd oid we cred wf where
      v: "IssueReferencesValid env bank client account product wb = (Inr True, wc)"
      and n1: "newUUID env wc = (Inr cid, wd)" and n2: "newUUID env wd = (Inr oid, we)"
      and p: "in_vault (Provision ops cid) we = (Inr cred, wf)"
      and i: "issue_and_commit env prin bank (issue_scope prin) key
               \<lparr>ci_CardID = cid, ci_OperationID = oid, ci_ClientID = client,
                ci_AccountReferenceID = account, ci_ProductID = product,
                ci_MaskedPAN = cred_MaskedPAN cred, ci_Reason = reason,
                ci_ActorID = p_UserID prin, ci_ActorRole = p_Role prin,
                ci_ActorEntityID = actorEntityID prin, ci_RequestID = req\<rparr> cred wf = (Inr resp, wz)"
      using fresh(1) by (auto simp: throw_def compensated_Inr elim!: andThen_InrE split: if_splits)
    have s: "view we = view wb" "tx_world.more we = tx_world.more wb"
      using IssueReferencesValidE [OF v] newUUIDE [OF n1] newUUIDE [OF n2] by auto
    have vf: "view wf = view we" and pf: "Provision ops cid (vault_state we) = (Inr cred, vault_state wf)"
      using p by (auto simp: in_vault_def split: prod.splits)
    have "vault_state we = vault_state w" "vault_state wz = vault_state wf"
      using s b vault_state_more [of we w] keepsD [OF commit_programs_keep_vault(1) i] vault_state_more by metis+
    then have "Provision ops cid (vault_state w) = (Inr cred, vault_state w')" using pf z by simp
    moreover have "but_records (view wf) = but_records (durable w)" using fresh vf s a by simp
    moreover have "stored_response (bank, issue_scope prin, key) (view wf) =
        Some (Fingerprint (svc_fingerprinter svc) body, now + replayLifetime, 202, processing_body)"
      using fresh vf s by simp
    moreover have "account_references (view wb) = account_references (durable w)"
      "card_products (view wb) = card_products (durable w)"
      using but_records_tables [OF fresh(3)] a by simp_all
    ultimately show thesis
      using that(2) i z newUUID_nonempty [OF n1] IssueReferencesValidE(4,5) [OF v] by metis
  qed
qed

lemma combined_has_no_credentials:
  "json_keys (combined c operation) \<inter> {''pan'', ''cvv'', ''credentials''} = {}"
  by (simp add: combined_def cardJSON_def operationJSON_def)

text \<open>
  C9. A successful \<open>IssueCardWorkflow\<close> is either a replay, which answers the response on record
  and changes neither the tables nor the vault, or an issuance. An issuance committed exactly four
  new rows (the card in status \<open>issued\<close> with a fresh id and the masked PAN, its operation, its
  history entry and its audit event) for an account of that client and an active product of the
  bank; the disclosed credentials are those the vault provisioned and verify as that card; the
  response kept for replays is the same card and operation without any credential.
\<close>

theorem issued_card_is_recorded:
  assumes "IssueCardWorkflow env svc prin bank key body client account product reason req w = (Inr resp, w')"
    and "svc_vault svc = Some in_memory_ops" and "records_ok (durable w)"
  shows "(\<exists>t status. stored_response (bank, issue_scope prin, key) (durable w) =
        Some (Fingerprint (svc_fingerprinter svc) body, t, status, resp) \<and>
      durable w' = durable w \<and> vault_state w' = vault_state w) \<or>
    (\<exists>cid oid cred now c1 c2 c3 c4 crd operation.
      (bank, cid) \<notin> card_key ` set (cards (durable w)) \<and>
      (\<exists>a \<in> set (account_references (durable w)). ar_entity a = bank \<and> ar_ID a = account \<and> ar_ClientID a = client) \<and>
      (\<exists>p \<in> set (card_products (durable w)). prod_entity p = bank \<and> prod_ID p = product \<and> prod_Status p = ''active'') \<and>
      but_records (durable w') = issued_rows bank ''issue'' cid oid client account product (cred_MaskedPAN cred) None
        reason (p_UserID prin) (p_Role prin) (actorEntityID prin) req c1 c2 c3 c4 (but_records (durable w)) \<and>
      crd = scanCard (issued_card_row bank cid client account product (cred_MaskedPAN cred) None (p_UserID prin) c1) \<and>
      resp = issuanceResponse crd operation cred \<and>
      stored_response (bank, issue_scope prin, key) (durable w') =
        Some (Fingerprint (svc_fingerprinter svc) body, now + replayLifetime, 201, combined crd operation) \<and>
      json_keys (combined crd operation) \<inter> {''pan'', ''cvv'', ''credentials''} = {} \<and>
      vm_Provision cid (vault_state w) = (Inr cred, vault_state w') \<and>
      fst (vm_Verify (cred_PAN cred) (cred_CVV cred) (vault_state w')) =
        Inr \<lparr>vr_CardID = cid, vr_Valid = True\<rparr>)"
  using assms
proof (cases rule: IssueCardWorkflowE)
  case (replay t status)
  then show ?thesis by blast
next
  case (issued cid oid cred now w1 w2)
  have p: "vm_Provision cid (vault_state w) = (Inr cred, vault_state w')"
    using issued(1) by (simp add: in_memory_ops_def)
  have "fst (vm_Verify (cred_PAN cred) (cred_CVV cred) (vault_state w')) = Inr \<lparr>vr_CardID = cid, vr_Valid = True\<rparr>"
    using in_memory.provision_verifies [OF issued(1)] by (simp add: in_memory_ops_def)
  moreover have "durable w' = durable w2" "cards (view w1) = cards (durable w)"
    using issued(4) but_records_tables(1) [OF issued(3)] by simp_all
  ultimately show ?thesis
    using issue_and_commit_result [OF issued(6,5)] issued(3,7,8) p combined_has_no_credentials
    apply (intro disjI2)
    apply (elim exE conjE)
    apply (intro exI conjI; (assumption | simp))
    done
qed

section \<open>A valid issuance succeeds\<close>

lemma newUUID_run:
  assumes "rand_source env (tick w) = Some b"
  shows "newUUID env w = (Inr (card_newUUID (map b [0..<16])), ticked w)"
  using assms by (simp add: newUUID_def rand_Read_def andThen_def ret_def)

text \<open>What \<open>crypto/rand\<close> and \<open>gen_random_uuid()\<close> are relied on for: they answer, with unused ids.\<close>

definition fresh_sources :: "environment \<Rightarrow> uuid \<Rightarrow> shard_db \<Rightarrow> bool" where
  "fresh_sources env bank d \<longleftrightarrow>
     (\<forall>n. gen_random_uuid env n 0 \<noteq> '''' \<and>
        (bank, gen_random_uuid env n 0) \<notin> idempotency_id_key ` set (idempotency_records d) \<and>
        (bank, gen_random_uuid env n 0) \<notin> history_key ` set (card_status_history d) \<and>
        (bank, gen_random_uuid env n 0) \<notin> audit_key ` set (audit_events d)) \<and>
     (\<forall>n. \<exists>b. rand_source env n = Some b \<and>
        (bank, card_newUUID (map b [0..<16])) \<notin> card_key ` set (cards d) \<and>
        (bank, card_newUUID (map b [0..<16])) \<notin> operation_key ` set (card_operations d) \<and>
        (bank, card_newUUID (map b [0..<16])) \<notin> (\<lambda>h. (hist_entity h, hist_operation_id h)) ` set (card_status_history d))"

definition actor_allowed :: "uuid \<Rightarrow> Principal \<Rightarrow> bool" where
  "actor_allowed bank prin \<longleftrightarrow>
     p_Role prin = ''issuer_operator'' \<or>
     (p_Role prin = ''bank_operator'' \<and> p_EntityID prin = bank \<and> bank \<noteq> '''')"

lemma actor_allowed_context:
  assumes "actor_allowed bank prin"
  shows "actor_context bank [''bank_operator''] [''issuer_operator''] (p_Role prin) (Some u)
      (nullable (actorEntityID prin)) x"
    and "actor_context bank [''bank_operator'', ''bank_readonly''] [''issuer_operator'', ''issuer_readonly'']
      (p_Role prin) (Some u) (nullable (actorEntityID prin)) x"
  using assms by (auto simp: actor_allowed_def actor_context_def nullable_def actorEntityID_def)

lemma IssueCard_run:
  assumes "no_faults env" and "\<And>n. (bank, gen_random_uuid env n 0) \<notin> history_key ` set (card_status_history (view w)) \<and>
        (bank, gen_random_uuid env n 0) \<notin> audit_key ` set (audit_events (view w))"
    and "(bank, ci_CardID input) \<notin> card_key ` set (cards (view w))"
    and "(bank, ci_OperationID input) \<notin> operation_key ` set (card_operations (view w))"
    and "(bank, ci_OperationID input) \<notin> (\<lambda>h. (hist_entity h, hist_operation_id h)) ` set (card_status_history (view w))"
    and "\<exists>a \<in> set (account_references (view w)). ar_entity a = bank \<and> ar_ClientID a = ci_ClientID input \<and>
      ar_ID a = ci_AccountReferenceID input"
    and "\<exists>p \<in> set (card_products (view w)). prod_entity p = bank \<and> prod_ID p = ci_ProductID input"
    and "entity_exists bank (view w)" and "btrim_nonempty (ci_Reason input)"
    and "actor_context bank [''bank_operator''] [''issuer_operator''] (ci_ActorRole input) (Some (ci_ActorID input))
      (nullable (ci_ActorEntityID input)) None"
    and "actor_context bank [''bank_operator'', ''bank_readonly''] [''issuer_operator'', ''issuer_readonly'']
      (ci_ActorRole input) (Some (ci_ActorID input)) (nullable (ci_ActorEntityID input)) None"
  shows "\<exists>r w'. IssueCard env bank input w = (Inr r, w') \<and>
    idempotency_records (view w') = idempotency_records (view w)"
proof -
  let ?c = "issued_card_row bank (ci_CardID input) (ci_ClientID input) (ci_AccountReferenceID input)
          (ci_ProductID input) (ci_MaskedPAN input) None (ci_ActorID input) (context_of env w)"
  let ?w1 = "(ticked w)\<lparr>view := (view w)\<lparr>cards := cards (view w) @ [?c]\<rparr>\<rparr>"
  let ?p = "operation_row_of bank (ci_OperationID input) (ci_CardID input) ''issue'' ''succeeded'' (ci_Reason input)
       (ci_ActorID input) (ci_ActorRole input) (ci_ActorEntityID input) (ci_RequestID input)
       (Some (sql_clock (context_of env ?w1))) (context_of env ?w1)"
  let ?w2 = "(ticked ?w1)\<lparr>view := (view ?w1)\<lparr>card_operations := card_operations (view w) @ [?p]\<rparr>\<rparr>"
  let ?h = "history_row_of bank (ci_CardID input) (ci_OperationID input) ''pending'' ''issued'' (ci_Reason input)
       (Some (ci_ActorID input)) (ci_ActorRole input) (nullable (ci_ActorEntityID input)) None (context_of env ?w2)"
  let ?w3 = "(ticked ?w2)\<lparr>view := (view ?w2)\<lparr>card_status_history := card_status_history (view w) @ [?h]\<rparr>\<rparr>"
  let ?a = "audit_row_of bank (Some (ci_ActorID input)) (ci_ActorRole input)
       (nullable (ci_ActorEntityID input)) None ''card.issue'' ''card'' (Some (ci_CardID input)) ''succeeded''
       (ci_RequestID input) (JObj []) (context_of env ?w3)"
  let ?w4 = "(ticked ?w3)\<lparr>view := (view ?w3)\<lparr>audit_events := audit_events (view w) @ [?a]\<rparr>\<rparr>"
  have gen: "(bank, gen_random_uuid env n 0) \<notin> history_key ` set (card_status_history (view w))"
    "(bank, gen_random_uuid env n 0) \<notin> audit_key ` set (audit_events (view w))" for n
    using assms(2) by auto
  have "insert_card ?c (view w) = Inr (view ?w1)"
    using assms(3,6,7) by (auto simp: insert_card_def checked_Inr issued_card_row_def is_card_state_def card_key_def
        no_key_iff exists_row_iff product_key_def)
  then have 1: "statement env (returning insert_card scanCard
       (issued_card_row bank (ci_CardID input) (ci_ClientID input) (ci_AccountReferenceID input)
          (ci_ProductID input) (ci_MaskedPAN input) None (ci_ActorID input))) w = (Inr (scanCard ?c), ?w1)"
    using assms(1) by (subst statement_run) (auto simp: returning_Inr)
  have "insert_operation ?p (view ?w1) = Inr (view ?w2)"
    using assms(4,9,10) by (auto simp: insert_operation_def checked_Inr operation_row_of_def operation_checks_def
        no_key_iff exists_row_iff card_key_def operation_key_def issued_card_row_def)
  then have 2: "insertCardOperation env bank (ci_OperationID input) (ci_CardID input) ''issue'' (ci_Reason input)
       (ci_ActorID input) (ci_ActorRole input) (ci_ActorEntityID input) (ci_RequestID input) ?w1 =
       (Inr (scanCardOperation ?p), ?w2)"
    using assms(1) unfolding insertCardOperation_def by (subst statement_run) (auto simp: returning_Inr)
  have "insert_history ?h (view ?w2) = Inr (view ?w3)"
    using assms(5,9,10) gen by (auto simp: insert_history_def checked_Inr history_row_of_def is_card_state_def
        no_key_iff exists_row_iff history_key_def operation_row_of_def context_of_def)
  then have 3: "insertStatusHistory env bank (ci_CardID input) (ci_OperationID input) ''pending'' ''issued''
       (ci_Reason input) (Some (ci_ActorID input)) (ci_ActorRole input) (nullable (ci_ActorEntityID input)) None ?w2 =
       (Inr (), ?w3)"
    using assms(1) unfolding insertStatusHistory_def by (subst statement_run) (auto simp: exec_Inr)
  have "insert_audit ?a (view ?w3) = Inr (view ?w4)"
    using assms(8,11) gen by (auto simp: insert_audit_def checked_Inr audit_row_of_def btrim_nonempty_def is_object_def
        no_key_iff audit_key_def entity_exists_def context_of_def)
  then have 4: "insertAudit env bank (Some (ci_ActorID input)) (ci_ActorRole input)
       (nullable (ci_ActorEntityID input)) None ''card.issue'' ''card'' (Some (ci_CardID input)) ''succeeded''
       (ci_RequestID input) (JObj []) ?w3 = (Inr (), ?w4)"
    using assms(1) unfolding insertAudit_def by (subst statement_run) (auto simp: exec_Inr)
  have "IssueCard env bank input w = (Inr (scanCard ?c, scanCardOperation ?p), ?w4)"
    unfolding IssueCard_def by (simp only: andThen_def 1 2 3 4 prod.case sum.case ret_def)
  then show ?thesis by auto
qed

lemma issue_and_commit_run:
  assumes "no_faults env" and "\<exists>r w1. IssueCard env bank input w = (Inr r, w1) \<and>
      idempotency_records (view w1) = idempotency_records (view w)"
    and "\<And>r. r \<in> set (idempotency_records (view w)) \<Longrightarrow> is_record bank scope key r \<Longrightarrow> idempotency_checks r"
  shows "\<exists>resp w'. issue_and_commit env prin bank scope key input cred w = (Inr resp, w')"
proof -
  obtain c p w1 where i: "IssueCard env bank input w = (Inr (c, p), w1)"
    and v: "idempotency_records (view w1) = idempotency_records (view w)"
    using assms(2) by auto
  have "\<exists>w2. FinishIdempotency env bank scope key 201 (combined c p) (ci_OperationID input)
      (p_UserID prin) w1 = (Inr (), w2)"
    using assms(3) by (intro finish_run [OF assms(1)])
      (auto simp: v idempotency_checks_def combined_def is_object_def)
  then obtain w2 where "FinishIdempotency env bank scope key 201 (combined c p) (ci_OperationID input)
      (p_UserID prin) w1 = (Inr (), w2)" ..
  with i assms(1) show ?thesis
    by (simp add: issue_and_commit_def andThen_def Commit_def ret_def)
qed

lemma issue_runs:
  assumes "no_faults env" and "svc_vault svc = Some in_memory_ops"
    and "fresh_sources env bank (durable w)" and "entity_exists bank (durable w)"
    and "\<exists>a \<in> set (account_references (durable w)). ar_entity a = bank \<and> ar_ID a = account \<and> ar_ClientID a = client"
    and "\<exists>p \<in> set (card_products (durable w)). prod_entity p = bank \<and> prod_ID p = product \<and> prod_Status p = ''active''"
    and "btrim_nonempty reason" and "actor_allowed bank prin"
    and "1 \<le> length key" and "length key \<le> 256"
    and "record_of (bank, issue_scope prin, key) (durable w) = None"
    and "clock_timestamp env (tick w) < time_Now env (Suc (Suc (tick w))) + replayLifetime"
  shows "\<exists>resp w'. IssueCardWorkflow env svc prin bank key body client account product reason req w = (Inr resp, w')"
proof -
  let ?w0 = "w\<lparr>view := durable w, tx_start := clock_timestamp env (tick w), tick := Suc (Suc (tick w))\<rparr>"
  let ?now = "time_Now env (tick ?w0)"
  let ?c = "\<lparr>claim_Bank = bank, claim_Scope = issue_scope prin, claim_Key = key,
       claim_Fingerprint = Fingerprint (svc_fingerprinter svc) body, claim_Now = ?now,
       claim_ExpiresAt = ?now + replayLifetime\<rparr>"
  let ?r = "new_idempotency_row ?c (context_of env (ticked (ticked ?w0)))"
  let ?w1 = "(ticked (ticked (ticked ?w0)))\<lparr>view := (durable w)\<lparr>idempotency_records :=
      idempotency_records (durable w) @ [?r]\<rparr>\<rparr>"
  let ?id = "gen_random_uuid env (Suc (Suc (tick ?w0))) 0"
  have gen: "?id \<noteq> ''''" "(bank, ?id) \<notin> idempotency_id_key ` set (idempotency_records (durable w))"
    using assms(3) unfolding fresh_sources_def by blast+
  have chk: "idempotency_checks ?r"
    using assms(9,10,12) by (simp add: idempotency_checks_def new_idempotency_row_def context_of_def btrim_nonempty_def
        issue_scope_def processing_body_def is_object_def)
  have "ClaimIdempotency env ?c (ticked ?w0) = (Inr (fresh_replay ?id), ?w1)"
    using absent_claim_run [OF assms(1), of ?c "ticked ?w0"] gen chk assms(4,11) by (simp add: claim_key_def)
  then have claim: "card_claim env svc bank (issue_scope prin) key body ?w0 = (Inr (fresh_replay ?id), ?w1)"
    by (simp add: card_claim_def andThen_def time_now_def onError_Inr)
  have refs: "IssueReferencesValid env bank client account product ?w1 = (Inr True, ticked ?w1)"
    using assms(1,5,6) by (auto simp: IssueReferencesValid_def statement_def read_only_def exists_row_iff)
  have rnd: "\<exists>b. rand_source env n = Some b \<and>
        (bank, card_newUUID (map b [0..<16])) \<notin> card_key ` set (cards (durable w)) \<and>
        (bank, card_newUUID (map b [0..<16])) \<notin> operation_key ` set (card_operations (durable w)) \<and>
        (bank, card_newUUID (map b [0..<16])) \<notin> (\<lambda>h. (hist_entity h, hist_operation_id h)) `
          set (card_status_history (durable w))" for n
    using assms(3) unfolding fresh_sources_def by blast
  obtain b1 where b1: "rand_source env (tick (ticked ?w1)) = Some b1"
    "(bank, card_newUUID (map b1 [0..<16])) \<notin> card_key ` set (cards (durable w))" using rnd by blast
  obtain b2 where b2: "rand_source env (tick (ticked (ticked ?w1))) = Some b2"
    "(bank, card_newUUID (map b2 [0..<16])) \<notin> operation_key ` set (card_operations (durable w))"
    "(bank, card_newUUID (map b2 [0..<16])) \<notin> (\<lambda>h. (hist_entity h, hist_operation_id h)) `
       set (card_status_history (durable w))" using rnd by blast
  define cid oid where "cid = card_newUUID (map b1 [0..<16])" and "oid = card_newUUID (map b2 [0..<16])"
  note n1 = newUUID_run [OF b1(1), folded cid_def] and n2 = newUUID_run [OF b2(1), folded oid_def]
  obtain cred v where prov: "Provision in_memory_ops cid (vault_state w) = (Inr cred, v)"
    using newUUID_nonempty [OF n1] by (auto simp: in_memory_ops_def vm_Provision_def Let_def)
  let ?w2 = "(ticked (ticked (ticked ?w1)))\<lparr>vault_state := v\<rparr>"
  let ?in = "\<lparr>ci_CardID = cid, ci_OperationID = oid, ci_ClientID = client, ci_AccountReferenceID = account,
      ci_ProductID = product, ci_MaskedPAN = cred_MaskedPAN cred, ci_Reason = reason, ci_ActorID = p_UserID prin,
      ci_ActorRole = p_Role prin, ci_ActorEntityID = actorEntityID prin, ci_RequestID = req\<rparr>"
  have p: "in_vault (Provision in_memory_ops cid) (ticked (ticked (ticked ?w1))) = (Inr cred, ?w2)"
    using prov by (simp add: in_vault_def ticked_def)
  have none: "\<not> is_record bank (issue_scope prin) key r" if "r \<in> set (idempotency_records (durable w))" for r
    using assms(11) that by (auto simp: record_of_def query_row_None)
  have hist: "(bank, gen_random_uuid env n 0) \<notin> history_key ` set (card_status_history (durable w)) \<and>
      (bank, gen_random_uuid env n 0) \<notin> audit_key ` set (audit_events (durable w))" for n
    using assms(3) unfolding fresh_sources_def by blast
  have "\<exists>r w'. IssueCard env bank ?in ?w2 = (Inr r, w') \<and>
      idempotency_records (view w') = idempotency_records (view ?w2)"
    using hist b1(2) b2(2,3) assms(4-8) actor_allowed_context [OF assms(8)]
    by (intro IssueCard_run [OF assms(1)]) (auto simp: cid_def oid_def entity_exists_def)
  then have "\<exists>resp w'. issue_and_commit env prin bank (issue_scope prin) key ?in cred ?w2 = (Inr resp, w')"
    using none chk by (intro issue_and_commit_run [OF assms(1)]) auto
  then obtain resp w' where fin: "issue_and_commit env prin bank (issue_scope prin) key ?in cred ?w2 = (Inr resp, w')"
    by blast
  have "IssueCardWorkflow env svc prin bank key body client account product reason req w = (Inr resp, Rollback w')"
    unfolding IssueCardWorkflow_def transaction_def Let_def assms(2) option.case issue_scope_def [symmetric]
    by (simp only: andThen_def beginTenant_run [OF assms(1)] deferred_def claim refs n1 n2 p fin compensated_def
        prod.case sum.case fresh_replay_def ShardIdempotencyReplay.select_convs if_False not_True_eq_False)
  then show ?thesis by blast
qed

definition sample_issue :: "(json result) \<times> InMemory issuer_world" where
  "sample_issue = IssueCardWorkflow sample_env sample_service sample_prin ''bank'' ''k1'' [1, 2] ''client''
     ''account'' ''product'' ''new card'' ''req'' (sample_issuer_world sample_db)"

lemma sample_fresh: "fresh_sources sample_env ''bank'' sample_db"
  by (simp add: fresh_sources_def sample_env_def sample_db_def empty_db_def)

lemma sample_issue_runs: "\<exists>resp w'. sample_issue = (Inr resp, w')"
  unfolding sample_issue_def
  by (rule issue_runs)
    (simp_all add: sample_fresh sample_service_def sample_issuer_world_def entity_exists_def exists_row_iff
      actor_allowed_def sample_prin_def btrim_nonempty_def record_of_def query_row_None,
     simp_all add: sample_db_def empty_db_def sample_env_def replayLifetime_def)

text \<open>
  C10. Liveness of issuance: a request for an account of the client and an active product of the bank,
  with a nonblank reason, by an operator entitled to the bank, under an idempotency key of 1 to 256
  characters that is not on record, succeeds whenever no fault occurs and the id sources answer
  with unused ids; the committed tables then hold a new card in status \<open>issued\<close>.
\<close>

theorem valid_issue_succeeds:
  assumes "no_faults env" and "svc_vault svc = Some in_memory_ops" and "records_ok (durable w)"
    and "fresh_sources env bank (durable w)" and "entity_exists bank (durable w)"
    and "\<exists>a \<in> set (account_references (durable w)). ar_entity a = bank \<and> ar_ID a = account \<and> ar_ClientID a = client"
    and "\<exists>p \<in> set (card_products (durable w)). prod_entity p = bank \<and> prod_ID p = product \<and> prod_Status p = ''active''"
    and "btrim_nonempty reason" and "actor_allowed bank prin"
    and "1 \<le> length key" and "length key \<le> 256"
    and "record_of (bank, issue_scope prin, key) (durable w) = None"
    and "clock_timestamp env (tick w) < time_Now env (Suc (Suc (tick w))) + replayLifetime"
  shows "\<exists>resp w' c. IssueCardWorkflow env svc prin bank key body client account product reason req w = (Inr resp, w') \<and>
    set (cards (durable w')) = insert c (set (cards (durable w))) \<and> c \<notin> set (cards (durable w)) \<and>
    card_entity c = bank \<and> card_Status c = ''issued'' \<and> card_AccountReferenceID c = account"
proof -
  obtain resp w' where run: "IssueCardWorkflow env svc prin bank key body client account product reason req w =
      (Inr resp, w')"
    using issue_runs [OF assms(1,2,4-13)] by blast
  then show ?thesis using assms(2,3)
  proof (cases rule: IssueCardWorkflowE)
    case (replay t status)
    then show ?thesis using assms(12) by (simp add: stored_response_def)
  next
    case (issued cid oid cred now w1 w2)
    have old: "cards (view w1) = cards (durable w)" using but_records_tables(1) [OF issued(3)] .
    obtain c1 c2 c3 c4 where
      rows: "but_records (durable w2) = issued_rows bank ''issue'' cid oid client account product
        (cred_MaskedPAN cred) None reason (p_UserID prin) (p_Role prin) (actorEntityID prin) req c1 c2 c3 c4
        (but_records (view w1))"
      and new: "(bank, cid) \<notin> card_key ` set (cards (view w1))"
      using issue_and_commit_result [OF issued(6,5)] by auto
    let ?c = "issued_card_row bank cid client account product (cred_MaskedPAN cred) None (p_UserID prin) c1"
    have "cards (durable w') = cards (durable w) @ [?c]"
      using arg_cong [OF rows, of cards] by (simp add: issued(4) but_records_def issued_rows_def old)
    moreover have "?c \<notin> set (cards (durable w))"
      using new old by (force simp: card_key_def issued_card_row_def)
    ultimately show ?thesis using run by (intro exI [of _ resp] exI [of _ w'] exI [of _ ?c])
      (simp add: issued_card_row_def)
  qed
qed

theorem valid_issue_succeeds_witness:
  "\<exists>resp w' c. sample_issue = (Inr resp, w') \<and> set (cards (durable w')) = {c} \<and> card_Status c = ''issued''"
  using valid_issue_succeeds [of sample_env sample_service "sample_issuer_world sample_db" "''bank''" "''account''"
      "''client''" "''product''" "''new card''" sample_prin "''k1''" "[1, 2]" "''req''"] sample_fresh
  unfolding sample_issue_def
  by (simp add: sample_service_def sample_issuer_world_def entity_exists_def exists_row_iff records_ok_def
      actor_allowed_def sample_prin_def btrim_nonempty_def record_of_def query_row_None)
    (simp add: sample_db_def empty_db_def sample_env_def replayLifetime_def, fastforce)

theorem issued_card_is_recorded_witness:
  "\<exists>resp w' cid cred. sample_issue = (Inr resp, w') \<and>
     vm_Provision cid sample_vault = (Inr cred, vault_state w') \<and>
     fst (vm_Verify (cred_PAN cred) (cred_CVV cred) (vault_state w')) = Inr \<lparr>vr_CardID = cid, vr_Valid = True\<rparr>"
proof -
  obtain resp w' where r: "sample_issue = (Inr resp, w')" using sample_issue_runs by blast
  have "svc_vault sample_service = Some in_memory_ops" "records_ok (durable (sample_issuer_world sample_db))"
    by (simp_all add: sample_service_def records_ok_def sample_issuer_world_def sample_db_def empty_db_def)
  from issued_card_is_recorded [OF r [unfolded sample_issue_def] this] show ?thesis
    using r by (auto simp: stored_response_def record_of_def query_row_def sample_issuer_world_def sample_db_def empty_db_def)
qed

end
