(* ===== verification/Card_Commands.thy ===== *)
theory Card_Commands
  imports Card_Service
begin

text \<open>
  What the card commands do: the exact effect of \<open>CardCommandWorkflow\<close> on the statuses of a
  bank's cards and on the status history, and the replay of finished commands.
\<close>

section \<open>Effect of an applied command\<close>

text \<open>The predecessor that the activation of a replacement closes, with its status.\<close>

definition closing_predecessor :: "shard_db \<Rightarrow> uuid \<Rightarrow> uuid \<Rightarrow> (uuid \<times> string) option" where
  "closing_predecessor d bank cid =
     (case predecessor_of d bank cid of
        None \<Rightarrow> None
      | Some p \<Rightarrow> if card_Status p \<in> {''active'', ''suspended''} then Some (card_ID p, card_Status p) else None)"

text \<open>Specification: the statuses after a command that is not a no-op.\<close>

definition status_after :: "shard_db \<Rightarrow> uuid \<Rightarrow> uuid \<Rightarrow> string \<Rightarrow> string \<Rightarrow> uuid \<Rightarrow> string option" where
  "status_after d bank cid action target x =
     (if x = cid then Some target
      else case (if action = ''activate'' then closing_predecessor d bank cid else None) of
             Some (p, _) \<Rightarrow> if x = p then Some ''closed'' else card_status_of d bank x
           | None \<Rightarrow> card_status_of d bank x)"

definition log_after :: "shard_db \<Rightarrow> uuid \<Rightarrow> uuid \<Rightarrow> string \<Rightarrow> string \<Rightarrow> string \<Rightarrow> (uuid \<times> string \<times> string) list" where
  "log_after d bank cid action previous target =
     (cid, previous, target) #
       (case (if action = ''activate'' then closing_predecessor d bank cid else None) of
          Some (p, s) \<Rightarrow> [(p, s, ''closed'')] | None \<Rightarrow> [])"

lemma status_change_fields [simp]:
  "card_ID (status_change action status actor ctx r) = card_ID r"
  "card_entity (status_change action status actor ctx r) = card_entity r"
  "card_PredecessorCardID (status_change action status actor ctx r) = card_PredecessorCardID r"
  "card_Status (status_change action status actor ctx r) = status"
  "card_key (status_change action status actor ctx r) = card_key r"
  by (simp_all add: status_change_def Let_def card_key_def)

lemma card_status_of_update:
  assumes "cards d' = update_where P (status_change action status actor ctx) (cards d)"
    and "\<And>r. P r \<Longrightarrow> card_key r = (bank, cid)"
    and "\<And>r. r \<in> set (cards d) \<Longrightarrow> card_key r = (bank, cid) \<Longrightarrow> P r"
  shows "card_status_of d' bank x =
    (if x = cid \<and> card_status_of d bank x \<noteq> None then Some status else card_status_of d bank x)"
proof -
  have "card_status_of d' bank x =
      (if (bank, x) = (bank, cid) \<and> card_status_of d bank x \<noteq> None then Some status else card_status_of d bank x)"
    by (rule card_status_of_change [OF assms(1)], rule status_change_fields(5), rule status_change_fields(4),
        erule assms(2), erule assms(3), assumption)
  then show ?thesis unfolding prod.inject by simp
qed

lemma predecessor_of_update:
  assumes "cards d' = update_where (\<lambda>r. card_entity r = bank \<and> card_ID r = cid)
      (status_change action status actor ctx) (cards d)"
    and "\<And>c. c \<in> set (cards d) \<Longrightarrow> card_key c = (bank, cid) \<Longrightarrow> card_PredecessorCardID c \<noteq> Some cid"
  shows "predecessor_of d' bank cid = predecessor_of d bank cid"
proof -
  let ?P = "\<lambda>r. card_entity r = bank \<and> card_ID r = cid"
  let ?f = "status_change action status actor ctx"
  have q: "query_row Q (cards d') = map_option (\<lambda>r. if ?P r then ?f r else r) (query_row Q (cards d))"
    if "\<And>r. Q (?f r) = Q r" for Q
    unfolding assms(1) by (rule query_row_update_other) (simp add: that)
  show ?thesis
  proof (cases "query_row ?P (cards d)")
    case None
    then show ?thesis by (simp add: predecessor_of_def q)
  next
    case (Some s)
    then have s: "s \<in> set (cards d)" "card_entity s = bank" "card_ID s = cid" by (auto dest: query_row_Some)
    have ne: "card_PredecessorCardID s \<noteq> Some cid" using assms(2) s by (simp add: card_key_def)
    have other: "map_option (\<lambda>r. if ?P r then ?f r else r) (query_row (\<lambda>r. card_entity r = bank \<and> card_ID r = p) (cards d)) =
        query_row (\<lambda>r. card_entity r = bank \<and> card_ID r = p) (cards d)" if "p \<noteq> cid" for p
      using that by (cases "query_row (\<lambda>r. card_entity r = bank \<and> card_ID r = p) (cards d)")
        (auto dest: query_row_Some)
    show ?thesis using Some s ne other
      by (auto simp: predecessor_of_def q split: option.splits)
  qed
qed

lemma updateCardStatusE:
  assumes "updateCardStatus env action bank cid status actor w = (Inr u, w')"
  obtains ctx where "view w' = (view w)\<lparr>cards := update_where (\<lambda>r. card_entity r = bank \<and> card_ID r = cid)
      (status_change action status actor ctx) (cards (view w))\<rparr>"
    and "action \<in> {''activate'', ''suspend'', ''close'', ''resume''}"
  using assms unfolding updateCardStatus_def
  by (auto simp: throw_def elim!: statement_exec_rowsE dest!: update_result split: if_splits)

definition closed_by :: "CardCommand \<Rightarrow> sql_context \<Rightarrow> card_row \<Rightarrow> card_row" where
  "closed_by input ctx = status_change ''close'' ''closed'' (cmd_ActorID input) ctx"

lemma closePredecessorE:
  fixes w w' :: "'m shard_world_scheme"
  assumes "closePredecessorOnActivation env bank input w = (Inr u, w')"
  obtains (none) "closing_predecessor (view w) bank (cmd_CardID input) = None" and "view w' = view w"
  | (closes) p ctx ops h where "closing_predecessor (view w) bank (cmd_CardID input) = Some (card_ID p, card_Status p)"
      and "predecessor_of (view w) bank (cmd_CardID input) = Some p"
      and "view w' = (view w)\<lparr>cards := update_where
        (\<lambda>r. card_entity r = bank \<and> card_ID r = card_ID p \<and> card_Status r \<in> set [''active'', ''suspended''])
        (closed_by input ctx) (cards (view w)),
        card_operations := ops, card_status_history := card_status_history (view w) @ [h]\<rparr>"
      and "log_entry h = (card_ID p, card_Status p, ''closed'')"
proof -
  from assms obtain found w1 where
    f: "statement env (read_only (\<lambda>d. Inr (predecessor_of d bank (cmd_CardID input)))) w = (Inr found, w1)"
    and r: "(case found of
       None \<Rightarrow> ret ()
     | Some p \<Rightarrow>
         if card_Status p \<noteq> ''active'' \<and> card_Status p \<noteq> ''suspended'' then ret ()
         else
           andThen (statement env (exec_rows (\<lambda>ctx. update_cards
             (\<lambda>r. card_entity r = bank \<and> card_ID r = card_ID p \<and> card_Status r \<in> set [''active'', ''suspended''])
             (closed_by input ctx)))) (\<lambda>_.
           andThen (insertCardOperation env bank (cmd_PredecessorOperationID input) (card_ID p) ''close''
             (cmd_Reason input) (cmd_ActorID input) (cmd_ActorRole input) (cmd_ActorEntityID input)
             (cmd_RequestID input)) (\<lambda>_.
           insertStatusHistory env bank (card_ID p) (cmd_PredecessorOperationID input) (card_Status p) ''closed''
             (cmd_Reason input) (Some (cmd_ActorID input)) (cmd_ActorRole input)
             (nullable (cmd_ActorEntityID input)) None))) w1 = (Inr u, w')"
    unfolding closePredecessorOnActivation_def closed_by_def by (rule andThen_InrE)
  have found: "found = predecessor_of (view w) bank (cmd_CardID input)" and v: "view w1 = view w"
    using f by (auto elim!: statement_readE)
  show thesis
  proof (cases found)
    case None
    then show thesis using r found v by (intro none) (auto simp: closing_predecessor_def ret_def)
  next
    case (Some p)
    note pred = found [unfolded Some, symmetric]
    show thesis
    proof (cases "card_Status p \<in> {''active'', ''suspended''}")
      case False
      then show thesis using r v Some by (intro none) (auto simp: closing_predecessor_def pred ret_def)
    next
      case True
      with r Some have "andThen (statement env (exec_rows (\<lambda>ctx. update_cards
             (\<lambda>r. card_entity r = bank \<and> card_ID r = card_ID p \<and> card_Status r \<in> set [''active'', ''suspended''])
             (closed_by input ctx)))) (\<lambda>_.
           andThen (insertCardOperation env bank (cmd_PredecessorOperationID input) (card_ID p) ''close''
             (cmd_Reason input) (cmd_ActorID input) (cmd_ActorRole input) (cmd_ActorEntityID input)
             (cmd_RequestID input)) (\<lambda>_.
           insertStatusHistory env bank (card_ID p) (cmd_PredecessorOperationID input) (card_Status p) ''closed''
             (cmd_Reason input) (Some (cmd_ActorID input)) (cmd_ActorRole input)
             (nullable (cmd_ActorEntityID input)) None)) w1 = (Inr u, w')"
        by auto
      then show thesis
      proof (elim andThen_InrE statement_exec_rowsE insertCardOperationE insertStatusHistoryE)
        fix w2 w3 :: "'m shard_world_scheme" and row ctx3 n
        assume u: "update_cards (\<lambda>r. card_entity r = bank \<and> card_ID r = card_ID p \<and>
              card_Status r \<in> set [''active'', ''suspended'']) (closed_by input (context_of env w1)) (view w1) =
            Inr (n, view w2)"
          and o: "view w3 = (view w2)\<lparr>card_operations := card_operations (view w2) @ [row]\<rparr>"
          and h: "view w' = (view w3)\<lparr>card_status_history := card_status_history (view w3) @
            [history_row_of bank (card_ID p) (cmd_PredecessorOperationID input) (card_Status p) ''closed''
             (cmd_Reason input) (Some (cmd_ActorID input)) (cmd_ActorRole input)
             (nullable (cmd_ActorEntityID input)) None ctx3]\<rparr>"
        show thesis using True v update_result(5) [OF u]
          by (intro closes [of p]) (auto simp: closing_predecessor_def pred o h)
      qed
    qed
  qed
qed

lemma predecessor_of_Some:
  "predecessor_of d bank cid = Some p \<Longrightarrow> p \<in> set (cards d) \<and> card_entity p = bank"
  by (auto simp: predecessor_of_def split: option.splits dest!: query_row_Some)

lemma card_status_of_other_bank:
  assumes "cards d' = update_where P (status_change action status actor ctx) (cards d)"
    and "\<And>r. P r \<Longrightarrow> card_entity r \<noteq> other"
  shows "card_status_of d' other x = card_status_of d other x"
proof -
  have "query_row (\<lambda>c. card_key c = (other, x)) (cards d') =
      map_option (\<lambda>r. if P r then status_change action status actor ctx r else r)
        (query_row (\<lambda>c. card_key c = (other, x)) (cards d))"
    unfolding assms(1) by (rule query_row_update_other) simp
  then show ?thesis using assms(2)
    by (cases "query_row (\<lambda>c. card_key c = (other, x)) (cards d)")
      (auto simp: card_status_of_def card_key_def dest!: query_row_Some)
qed

text \<open>The status map after the two updates of a command.\<close>

lemma apply_updates_status:
  assumes d1: "cards d1 = update_where (\<lambda>r. card_entity r = bank \<and> card_ID r = cid)
      (status_change action target actor ctx1) (cards d)"
    and known: "card_status_of d bank cid \<noteq> None" and uniq: "unique_key card_key (cards d)"
    and self: "\<And>c. c \<in> set (cards d) \<Longrightarrow> card_key c = (bank, cid) \<Longrightarrow> card_PredecessorCardID c \<noteq> Some cid"
    and pred: "closing_predecessor d1 bank cid = Some (card_ID p, card_Status p)" "predecessor_of d1 bank cid = Some p"
    and d2: "cards d2 = update_where
        (\<lambda>r. card_entity r = bank \<and> card_ID r = card_ID p \<and> card_Status r \<in> set [''active'', ''suspended''])
        (status_change ''close'' ''closed'' actor ctx2) (cards d1)"
  shows "card_status_of d2 bank x = status_after d bank cid ''activate'' target x"
    and "closing_predecessor d bank cid = Some (card_ID p, card_Status p)"
proof -
  have same: "predecessor_of d1 bank cid = predecessor_of d bank cid"
    using predecessor_of_update [OF d1 self] by blast
  then show cp: "closing_predecessor d bank cid = Some (card_ID p, card_Status p)"
    using pred by (simp add: closing_predecessor_def)
  have "unique_key card_key (cards d1)" unfolding d1 using uniq by (subst unique_key_update_where) auto
  moreover have p: "p \<in> set (cards d1)" "card_entity p = bank" using predecessor_of_Some pred(2) by auto
  ultimately have only: "r = p" if "r \<in> set (cards d1)" "card_key r = (bank, card_ID p)" for r
    using that unique_key_inj by (metis card_key_def)
  have act: "card_Status p \<in> {''active'', ''suspended''}"
    using pred by (auto simp: closing_predecessor_def split: if_splits)
  have s1: "card_status_of d1 bank x = (if x = cid then Some target else card_status_of d bank x)" for x
    using card_status_of_update [OF d1, of bank cid x] known by (auto simp: card_key_def)
  have s2: "card_status_of d2 bank x =
      (if x = card_ID p \<and> card_status_of d1 bank x \<noteq> None then Some ''closed'' else card_status_of d1 bank x)"
    using act only by (intro card_status_of_update [OF d2]) (auto simp: card_key_def)
  have "card_status_of d1 bank (card_ID p) \<noteq> None"
    using p by (auto simp: card_status_of_def query_row_None card_key_def)
  moreover have "card_ID p \<noteq> cid"
  proof
    assume eq: "card_ID p = cid"
    obtain s where s: "query_row (\<lambda>s. card_entity s = bank \<and> card_ID s = cid) (cards d) = Some s"
        "card_PredecessorCardID s = Some (card_ID p)"
      using pred(2) [unfolded same]
      by (auto simp: predecessor_of_def split: option.splits dest!: query_row_Some)
    with self [of s] eq show False by (auto simp: card_key_def dest: query_row_Some)
  qed
  ultimately show "card_status_of d2 bank x = status_after d bank cid ''activate'' target x"
    by (simp add: status_after_def s1 s2 cp)
qed

text \<open>\<open>applied bank input d d'\<close>: the command had its specified effect on statuses and history.\<close>

definition applied :: "uuid \<Rightarrow> CardCommand \<Rightarrow> shard_db \<Rightarrow> shard_db \<Rightarrow> bool" where
  "applied bank input d d' \<longleftrightarrow>
     (if cmd_Ignored input
      then cards d' = cards d \<and> card_status_history d' = card_status_history d
      else (\<forall>x. card_status_of d' bank x =
              status_after d bank (cmd_CardID input) (cmd_Action input) (cmd_TargetStatus input) x) \<and>
           (\<exists>hs. card_status_history d' = card_status_history d @ hs \<and>
              map log_entry hs = log_after d bank (cmd_CardID input) (cmd_Action input)
                (cmd_PreviousStatus input) (cmd_TargetStatus input))) \<and>
     (\<forall>other x. other \<noteq> bank \<longrightarrow> card_status_of d' other x = card_status_of d other x)"

lemma applied_change:
  fixes w w' :: "'m shard_world_scheme"
  assumes "andThen (updateCardStatus env (cmd_Action input) bank (cmd_CardID input) (cmd_TargetStatus input)
         (cmd_ActorID input)) (\<lambda>_.
       andThen (insertStatusHistory env bank (cmd_CardID input) (cmd_OperationID input)
         (cmd_PreviousStatus input) (cmd_TargetStatus input) (cmd_Reason input) (Some (cmd_ActorID input))
         (cmd_ActorRole input) (nullable (cmd_ActorEntityID input)) None) (\<lambda>_.
       if cmd_Action input = ''activate'' then closePredecessorOnActivation env bank input else ret ())) w = (Inr u, w')"
    and known: "card_status_of (view w) bank (cmd_CardID input) \<noteq> None"
    and uniq: "unique_key card_key (cards (view w))"
    and self: "\<And>c. c \<in> set (cards (view w)) \<Longrightarrow> card_key c = (bank, cmd_CardID input) \<Longrightarrow>
      card_PredecessorCardID c \<noteq> Some (cmd_CardID input)"
    and "\<not> cmd_Ignored input"
  shows "applied bank input (view w) (view w')"
  using assms(1)
proof (elim andThen_InrE updateCardStatusE insertStatusHistoryE)
  let ?cid = "cmd_CardID input"
  fix w1 w2 :: "'m shard_world_scheme" and ctx1 ctx2 u1
  assume v1: "view w1 = (view w)\<lparr>cards := update_where (\<lambda>r. card_entity r = bank \<and> card_ID r = ?cid)
      (status_change (cmd_Action input) (cmd_TargetStatus input) (cmd_ActorID input) ctx1) (cards (view w))\<rparr>"
    and v2: "view w2 = (view w1)\<lparr>card_status_history := card_status_history (view w1) @
      [history_row_of bank ?cid (cmd_OperationID input) (cmd_PreviousStatus input) (cmd_TargetStatus input)
        (cmd_Reason input) (Some (cmd_ActorID input)) (cmd_ActorRole input) (nullable (cmd_ActorEntityID input)) None ctx2]\<rparr>"
    and r: "(if cmd_Action input = ''activate'' then closePredecessorOnActivation env bank input else ret ()) w2 = (Inr u, w')"
  let ?h = "history_row_of bank ?cid (cmd_OperationID input) (cmd_PreviousStatus input) (cmd_TargetStatus input)
        (cmd_Reason input) (Some (cmd_ActorID input)) (cmd_ActorRole input) (nullable (cmd_ActorEntityID input)) None ctx2"
  have c2: "cards (view w2) = update_where (\<lambda>r. card_entity r = bank \<and> card_ID r = ?cid)
      (status_change (cmd_Action input) (cmd_TargetStatus input) (cmd_ActorID input) ctx1) (cards (view w))"
    by (simp add: v1 v2)
  have s: "card_status_of (view w2) bank x = (if x = ?cid then Some (cmd_TargetStatus input) else card_status_of (view w) bank x)" for x
    using card_status_of_update [OF c2, of bank ?cid x] known by (auto simp: card_key_def)
  have o: "card_status_of (view w2) other x = card_status_of (view w) other x" if "other \<noteq> bank" for other x
    using that by (intro card_status_of_other_bank [OF c2]) auto
  have same: "closing_predecessor (view w2) bank ?cid = closing_predecessor (view w) bank ?cid"
    unfolding closing_predecessor_def predecessor_of_update [OF c2 self, simplified] by (rule refl)
  have appliedI: "applied bank input (view w) (view w')"
    if "\<And>x. card_status_of (view w') bank x =
        status_after (view w) bank ?cid (cmd_Action input) (cmd_TargetStatus input) x"
      and "card_status_history (view w') = card_status_history (view w) @ hs"
      and "map log_entry hs = log_after (view w) bank ?cid (cmd_Action input) (cmd_PreviousStatus input) (cmd_TargetStatus input)"
      and "\<And>other x. other \<noteq> bank \<Longrightarrow> card_status_of (view w') other x = card_status_of (view w2) other x" for hs
    unfolding applied_def using assms(5) that o by simp
  have unchanged: "applied bank input (view w) (view w')" if "view w' = view w2"
      "cmd_Action input = ''activate'' \<Longrightarrow> closing_predecessor (view w) bank ?cid = None"
    by (rule appliedI [of "[?h]"]) (simp_all add: that s status_after_def log_after_def, simp_all add: v1 v2)
  show ?thesis
  proof (cases "cmd_Action input = ''activate''")
    case True
    with r have "closePredecessorOnActivation env bank input w2 = (Inr u, w')" by simp
    then show ?thesis
    proof (cases rule: closePredecessorE)
      case none
      with unchanged same show ?thesis by simp
    next
      case (closes p ctx ops h)
      have c3: "cards (view w') = update_where
        (\<lambda>r. card_entity r = bank \<and> card_ID r = card_ID p \<and> card_Status r \<in> set [''active'', ''suspended''])
        (status_change ''close'' ''closed'' (cmd_ActorID input) ctx) (cards (view w2))"
        by (simp add: closes(3) closed_by_def)
      note e = apply_updates_status [OF c2 known uniq self closes(1,2) c3]
      have "card_status_of (view w') other x = card_status_of (view w2) other x" if "other \<noteq> bank" for other x
        using that by (intro card_status_of_other_bank [OF c3]) auto
      then show ?thesis
        by (intro appliedI [of "[?h, h]"]) (simp_all add: True e log_after_def closes(4), simp_all add: closes(3) v1 v2)
    qed
  next
    case False
    with r unchanged show ?thesis by (simp add: ret_def)
  qed
qed

lemma cards_cong:
  assumes "cards d = cards e"
  shows "card_status_of d = card_status_of e" and "closing_predecessor d = closing_predecessor e"
  unfolding fun_eq_iff card_status_of_def closing_predecessor_def predecessor_of_def assms by simp_all

lemma applied_cong:
  assumes "cards d = cards e" and "card_status_history d = card_status_history e"
    and "cards d' = cards e'" and "card_status_history d' = card_status_history e'"
  shows "applied bank input d d' = applied bank input e e'"
  unfolding applied_def status_after_def log_after_def cards_cong [OF assms(1)] cards_cong [OF assms(3)] assms ..

definition self_free :: "shard_db \<Rightarrow> bool" where
  "self_free d \<longleftrightarrow> (\<forall>c \<in> set (cards d). card_PredecessorCardID c \<noteq> Some (card_ID c))"

lemma ApplyCardCommand_applied:
  fixes w w' :: "'m shard_world_scheme"
  assumes "ApplyCardCommand env bank input w = (Inr r, w')"
    and "card_status_of (view w) bank (cmd_CardID input) \<noteq> None"
    and "unique_key card_key (cards (view w))" and "self_free (view w)"
  shows "applied bank input (view w) (view w')"
  using assms(1) unfolding ApplyCardCommand_def
proof (elim andThen_InrE insertCardOperationE insertAuditE statement_readE)
  fix w1 w2 w3 w4 :: "'m shard_world_scheme" and row ctx u c operation
  assume v1: "view w1 = (view w)\<lparr>card_operations := card_operations (view w) @ [row]\<rparr>"
    and m: "(if cmd_Ignored input then ret () else
       andThen (updateCardStatus env (cmd_Action input) bank (cmd_CardID input) (cmd_TargetStatus input)
         (cmd_ActorID input)) (\<lambda>_.
       andThen (insertStatusHistory env bank (cmd_CardID input) (cmd_OperationID input)
         (cmd_PreviousStatus input) (cmd_TargetStatus input) (cmd_Reason input) (Some (cmd_ActorID input))
         (cmd_ActorRole input) (nullable (cmd_ActorEntityID input)) None) (\<lambda>_.
       if cmd_Action input = ''activate'' then closePredecessorOnActivation env bank input else ret ()))) w1 = (Inr u, w2)"
    and v3: "view w3 = (view w2)\<lparr>audit_events := audit_events (view w2) @
      [audit_row_of bank (Some (cmd_ActorID input)) (cmd_ActorRole input) (nullable (cmd_ActorEntityID input)) None
       (''card.'' @ cmd_Action input) ''card'' (Some (cmd_CardID input)) ''succeeded'' (cmd_RequestID input)
       (JObj [(''ignored'', JBool (cmd_Ignored input))]) ctx]\<rparr>"
    and v4: "view w4 = view w3" and e: "ret (c, operation) w4 = (Inr r, w')"
  have fin: "view w' = view w3" using e v4 by (simp add: ret_def)
  have "applied bank input (view w1) (view w2)"
  proof (cases "cmd_Ignored input")
    case True
    with m show ?thesis by (simp add: applied_def ret_def)
  next
    case False
    have "card_status_of (view w1) bank (cmd_CardID input) \<noteq> None" "unique_key card_key (cards (view w1))"
      using assms(2,3) by (simp_all add: v1 card_status_of_def)
    moreover have "card_PredecessorCardID c \<noteq> Some (cmd_CardID input)"
      if "c \<in> set (cards (view w1))" "card_key c = (bank, cmd_CardID input)" for c
      using assms(4) that by (auto simp: v1 self_free_def card_key_def)
    ultimately show ?thesis using m False by (intro applied_change) auto
  qed
  then show ?thesis by (subst (asm) applied_cong [of "view w1" "view w" "view w2" "view w'"]) (simp_all add: v1 v3 fin)
qed

lemma transition_commandE:
  fixes w w' :: "'m shard_world_scheme"
  assumes "transition_command env prin bank rid action scope key reason req state w = (Inr r, w')"
  obtains target ignored input c p and w1 w2 :: "'m shard_world_scheme" where "Transition (cs_Status state) action = (target, True, ignored)"
    and "cmd_CardID input = rid" and "cmd_Action input = action" and "cmd_PreviousStatus input = cs_Status state"
    and "cmd_TargetStatus input = target" and "cmd_Ignored input = ignored"
    and "view w1 = view w" and "ApplyCardCommand env bank input w1 = (Inr (c, p), w2)"
    and "but_records (durable w') = but_records (view w2)" and "r = (combined c p, 200)"
proof -
  obtain target valid ignored where t: "Transition (cs_Status state) action = (target, valid, ignored)"
    by (cases "Transition (cs_Status state) action") auto
  from assms t have v: "valid" by (auto simp: transition_command_def throw_def split: if_splits)
  let ?cmd = "\<lambda>oid pid. \<lparr>cmd_CardID = rid, cmd_OperationID = oid, cmd_PredecessorOperationID = pid,
         cmd_Action = action, cmd_PreviousStatus = cs_Status state, cmd_TargetStatus = target,
         cmd_Ignored = ignored, cmd_Reason = reason, cmd_ActorID = p_UserID prin,
         cmd_ActorRole = p_Role prin, cmd_ActorEntityID = actorEntityID prin, cmd_RequestID = req\<rparr>"
  from assms obtain oid w0 pid w1 where n: "newUUID env w = (Inr oid, w0)"
    and m: "(if action = ''activate'' \<and> \<not> ignored then newUUID env else ret '''') w0 = (Inr pid, w1)"
    and c: "command_and_commit env prin bank scope key (?cmd oid pid) w1 = (Inr r, w')"
    unfolding transition_command_def t by (auto simp: v elim!: andThen_InrE)
  have w1: "view w1 = view w"
    using newUUIDE(1) [OF n] m by (auto simp: ret_def dest: newUUIDE(1) split: if_splits)
  from c obtain q w2 where a: "ApplyCardCommand env bank (?cmd oid pid) w1 = (Inr q, w2)"
    and d: "(case q of (c, p) \<Rightarrow> andThen (FinishIdempotency env bank scope key 200 (combined c p)
        (cmd_OperationID (?cmd oid pid)) (p_UserID prin)) (\<lambda>_. andThen (Commit env) (\<lambda>_. ret (combined c p, 200)))) w2
      = (Inr r, w')"
    unfolding command_and_commit_def by (rule andThen_InrE)
  obtain c p where q: "q = (c, p)" by (cases q)
  from d have "but_records (durable w') = but_records (view w2)" "r = (combined c p, 200)"
    by (auto simp: q ret_def elim!: andThen_InrE Commit_InrE dest: finish_but_records)
  with t v w1 a show thesis by (intro that [of target ignored "?cmd oid pid" w1 c p w2]) (auto simp: q)
qed

definition command_scope :: "string \<Rightarrow> uuid \<Rightarrow> Principal \<Rightarrow> string" where
  "command_scope action rid prin = ''cards.'' @ action @ ''.'' @ rid @ ''.actor.'' @ p_UserID prin"

lemma LockCardE:
  assumes "LockCard env bank rid w = (Inr state, w')"
  shows "view w' = view w" and "card_status_of (view w) bank rid = Some (cs_Status state)"
  using assms unfolding LockCard_def
  by (auto simp: onError_Inr scan_row_def card_status_of_def card_key_def split: option.splits
      elim!: statement_readE)

text \<open>
  C11. A successful \<open>CardCommandWorkflow\<close> that is neither a replay nor a replacement follows the
  lifecycle exactly: the locked card's status admits the action (\<open>Transition\<close>); a no-op changes
  no card and logs nothing; otherwise the card has the target status, activating a replacement also
  closes its active or suspended predecessor, every other card of every bank keeps its status, and
  the status history grows by exactly one entry per change, with the previous and the new status.
\<close>

theorem card_command_effect:
  assumes "CardCommandWorkflow env svc prin bank rid action key body reason req w = (Inr (resp, status), w')"
    and "action \<noteq> ''replace''" and "record_of (bank, command_scope action rid prin, key) (durable w) = None"
    and "records_ok (durable w)" and "unique_key card_key (cards (durable w))" and "self_free (durable w)"
  shows "\<exists>previous target ignored.
    card_status_of (durable w) bank rid = Some previous \<and> Transition previous action = (target, True, ignored) \<and>
    status = 200 \<and>
    (ignored \<longrightarrow> cards (durable w') = cards (durable w) \<and>
       card_status_history (durable w') = card_status_history (durable w)) \<and>
    (\<not> ignored \<longrightarrow>
       (\<forall>x. card_status_of (durable w') bank x = status_after (durable w) bank rid action target x) \<and>
       (\<exists>hs. card_status_history (durable w') = card_status_history (durable w) @ hs \<and>
          map log_entry hs = log_after (durable w) bank rid action previous target)) \<and>
    (\<forall>other x. other \<noteq> bank \<longrightarrow> card_status_of (durable w') other x = card_status_of (durable w) other x)"
proof -
  let ?rest = "\<lambda>replay :: ShardIdempotencyReplay.
      if replay_Found replay then ret (replay_Response replay, replay_Status replay) else
      andThen (onError (LockCard env bank rid) card_not_found) (\<lambda>state.
      if action = ''replace''
      then card_replace env svc prin bank rid (command_scope action rid prin) key reason req state
      else transition_command env prin bank rid action (command_scope action rid prin) key reason req state)"
  from assms(1) obtain wa wz where a: "view wa = durable w" and z: "w' = Rollback wz"
    and m: "andThen (card_claim env svc bank (command_scope action rid prin) key body) ?rest wa = (Inr (resp, status), wz)"
    unfolding CardCommandWorkflow_def command_scope_def Let_def by (rule transaction_InrE)
  from m obtain rep wb where c: "card_claim env svc bank (command_scope action rid prin) key body wa = (Inr rep, wb)"
    and r: "?rest rep wb = (Inr (resp, status), wz)" by (rule andThen_InrE)
  from c have "records_ok (view wa)" using assms(4) a by simp
  with c have nf: "\<not> replay_Found rep" and br: "but_records (view wb) = but_records (durable w)"
    using assms(3) a by (auto elim!: card_claimE simp: stored_response_def)
  from r nf obtain state wc where l: "LockCard env bank rid wb = (Inr state, wc)"
    and t: "transition_command env prin bank rid action (command_scope action rid prin) key reason req state wc =
      (Inr (resp, status), wz)"
    using assms(2) by (auto simp: onError_Inr elim!: andThen_InrE)
  from t show ?thesis
  proof (cases rule: transition_commandE)
    case (1 target ignored input c p w1 w2)
    have cs: "cards (view w1) = cards (durable w)" "card_status_history (view w1) = card_status_history (durable w)"
      using but_records_tables(1) [OF br] arg_cong [OF br, of card_status_history] LockCardE(1) [OF l] 1(7)
      by (simp_all add: but_records_def)
    have ds: "cards (durable w') = cards (view w2)" "card_status_history (durable w') = card_status_history (view w2)"
      using but_records_tables(1) [OF 1(9)] arg_cong [OF 1(9), of card_status_history]
      by (simp_all add: z but_records_def)
    have prev: "card_status_of (durable w) bank rid = Some (cs_Status state)"
      using LockCardE(2) [OF l] cards_cong(1) [OF but_records_tables(1) [OF br]] by simp
    have "card_status_of (view w1) bank (cmd_CardID input) \<noteq> None"
      using prev cards_cong(1) [OF cs(1)] 1(2) by simp
    then have "applied bank input (view w1) (view w2)"
      using ApplyCardCommand_applied [OF 1(8)] assms(5,6) by (simp add: cs self_free_def)
    then have "applied bank input (durable w) (durable w')"
      by (subst applied_cong [of "durable w" "view w1" "durable w'" "view w2"]) (simp_all add: cs ds)
    then show ?thesis using prev 1(1-6,10) by (auto simp: applied_def)
  qed
qed

section \<open>A sample command\<close>

definition sample_card :: card_row where
  "sample_card = \<lparr>card_ID = ''card'', card_ClientID = ''client'', card_AccountReferenceID = ''account'',
     card_ProductID = ''product'', card_Status = ''active'', card_MaskedPAN = None,
     card_PredecessorCardID = None, card_IssuedAt = None, card_ActivatedAt = None, card_SuspendedAt = None,
     card_ClosedAt = None, card_ExpiresAt = None, card_Version = 1, card_CreatedAt = 0, card_UpdatedAt = 0,
     card_entity = ''bank'', card_created_by = ''op'', card_updated_by = ''op''\<rparr>"

definition sample_command :: "((json \<times> int) result) \<times> InMemory issuer_world" where
  "sample_command = CardCommandWorkflow sample_env sample_service sample_prin ''bank'' ''card'' ''suspend'' ''k2''
     [1, 2] ''lost'' ''req'' (sample_issuer_world (sample_db\<lparr>cards := [sample_card]\<rparr>))"

definition sample_fp :: bytes where
  "sample_fp = Fingerprint (svc_fingerprinter sample_service) [1, 2]"

lemma sample_fp_length [simp]: "length sample_fp = 32"
  by (simp add: sample_fp_def)

definition sample_uuid :: "nat \<Rightarrow> uuid" where
  "sample_uuid n = card_newUUID (map (\<lambda>i. of_nat (n + i)) [0..<16])"

lemma sample_newUUID: "newUUID sample_env w = (Inr (sample_uuid (tick w)), ticked w)"
  by (subst newUUID_run) (simp_all add: sample_env_def sample_uuid_def del: upt_rec_numeral)

lemma sample_apply:
  assumes "view w = sample_db\<lparr>cards := [sample_card], idempotency_records := rs\<rparr>"
  shows "\<exists>c p w'. ApplyCardCommand sample_env ''bank''
      \<lparr>cmd_CardID = ''card'', cmd_OperationID = oid, cmd_PredecessorOperationID = pid, cmd_Action = ''suspend'',
       cmd_PreviousStatus = ''active'', cmd_TargetStatus = ''suspended'', cmd_Ignored = False, cmd_Reason = ''lost'',
       cmd_ActorID = ''op'', cmd_ActorRole = ''issuer_operator'', cmd_ActorEntityID = '''', cmd_RequestID = ''req''\<rparr> w
      = (Inr (c, p), w') \<and> idempotency_records (view w') = rs"
  using assms
  by (simp add: andThen_def ret_def ApplyCardCommand_def insertCardOperation_def statement_def returning_def
    insert_operation_def checked.simps operation_checks_def operation_row_of_def btrim_nonempty_def actor_context_def
    nullable_def no_key_def exists_row_def sample_db_def empty_db_def sample_card_def card_key_def
    updateCardStatus_def exec_rows_def update_cards_def guarded_update_def affected_def update_where_def
    status_change_def guard_masked_pan_def is_card_state_def insertStatusHistory_def exec_def insert_history_def
    history_row_of_def insertAudit_def insert_audit_def audit_row_of_def is_object_def entity_exists_def
    read_only_def scan_row_def query_row_def)

lemma sample_transition:
  assumes "view w = sample_db\<lparr>cards := [sample_card], idempotency_records := [r]\<rparr>" and "idempotency_checks r"
  shows "\<exists>res w'. transition_command sample_env sample_prin ''bank'' ''card'' ''suspend'' scope ''k2'' ''lost'' ''req''
     \<lparr>cs_Status = ''active'', cs_ClientID = ''client'', cs_AccountReferenceID = ''account'', cs_ProductID = ''product''\<rparr>
     w = (Inr res, w')"
proof -
  have "view (ticked w) = sample_db\<lparr>cards := [sample_card], idempotency_records := [r]\<rparr>" using assms by simp
  from sample_apply [OF this, of "sample_uuid (tick w)" "''''"]
  obtain c p w1 where a: "ApplyCardCommand sample_env ''bank''
      \<lparr>cmd_CardID = ''card'', cmd_OperationID = sample_uuid (tick w), cmd_PredecessorOperationID = '''', cmd_Action = ''suspend'',
       cmd_PreviousStatus = ''active'', cmd_TargetStatus = ''suspended'', cmd_Ignored = False, cmd_Reason = ''lost'',
       cmd_ActorID = ''op'', cmd_ActorRole = ''issuer_operator'', cmd_ActorEntityID = '''', cmd_RequestID = ''req''\<rparr> (ticked w)
      = (Inr (c, p), w1)" and rs: "idempotency_records (view w1) = [r]" by blast
  have "\<exists>w2. FinishIdempotency sample_env ''bank'' scope ''k2'' 200 (combined c p) (sample_uuid (tick w)) ''op'' w1 = (Inr (), w2)"
    using assms(2) by (intro finish_run) (auto simp: rs idempotency_checks_def combined_def is_object_def)
  then obtain w2 where f: "FinishIdempotency sample_env ''bank'' scope ''k2'' 200 (combined c p) (sample_uuid (tick w)) ''op'' w1
      = (Inr (), w2)" ..
  show ?thesis
    by (simp add: transition_command_def sample_newUUID andThen_def ret_def command_and_commit_def sample_prin_def
        actorEntityID_def a f Commit_def)
qed

lemma sample_command_runs: "\<exists>res w'. sample_command = (Inr res, w')"
proof -
  let ?d = "sample_db\<lparr>cards := [sample_card]\<rparr>"
  define w where "w = sample_issuer_world ?d"
  let ?w0 = "w\<lparr>view := durable w, tx_start := clock_timestamp sample_env (tick w), tick := Suc (Suc (tick w))\<rparr>"
  let ?c = "\<lparr>claim_Bank = ''bank'', claim_Scope = command_scope ''suspend'' ''card'' sample_prin, claim_Key = ''k2'',
       claim_Fingerprint = sample_fp, claim_Now = time_Now sample_env (tick ?w0),
       claim_ExpiresAt = time_Now sample_env (tick ?w0) + replayLifetime\<rparr>"
  let ?r = "new_idempotency_row ?c (context_of sample_env (ticked (ticked ?w0)))"
  let ?v = "?d\<lparr>idempotency_records := [?r]\<rparr>"
  let ?st = "\<lparr>cs_Status = ''active'', cs_ClientID = ''client'', cs_AccountReferenceID = ''account'', cs_ProductID = ''product''\<rparr>"
  let ?w1 = "(ticked (ticked (ticked ?w0)))\<lparr>view := ?v\<rparr>"
  have d: "durable w = ?d" by (simp add: w_def sample_issuer_world_def)
  have chk: "idempotency_checks ?r"
    by (simp add: idempotency_checks_def new_idempotency_row_def context_of_def btrim_nonempty_def
        command_scope_def processing_body_def is_object_def sample_issuer_world_def replayLifetime_def)
  have rs: "idempotency_records ?d = []" by (simp add: sample_db_def empty_db_def)
  have ent: "entity_exists ''bank'' ?d" by (simp add: sample_db_def empty_db_def entity_exists_def exists_row_def)
  have rec: "record_of k ?d = None" for k by (cases k) (simp add: record_of_def rs query_row_def)
  have "ClaimIdempotency sample_env ?c (ticked ?w0) = (Inr (fresh_replay (gen_random_uuid sample_env (Suc (tick (ticked ?w0))) 0)), ?w1)"
    by (subst absent_claim_run) (use chk ent rec rs in \<open>simp_all add: d\<close>)
  then have claim: "card_claim sample_env sample_service ''bank'' (command_scope ''suspend'' ''card'' sample_prin) ''k2'' [1, 2]
      ?w0 = (Inr (fresh_replay (gen_random_uuid sample_env (Suc (tick (ticked ?w0))) 0)), ?w1)"
    by (simp add: card_claim_def andThen_def time_now_def onError_Inr sample_fp_def)
  have lock: "LockCard sample_env ''bank'' ''card'' ?w1 = (Inr ?st, ticked ?w1)"
    by (simp add: LockCard_def onError_Inr statement_def read_only_def scan_row_def query_row_def sample_card_def
        sample_db_def empty_db_def)
  have "view (ticked ?w1) = sample_db\<lparr>cards := [sample_card], idempotency_records := [?r]\<rparr>" by simp
  from sample_transition [OF this chk, of "command_scope ''suspend'' ''card'' sample_prin"]
  obtain res w' where t: "transition_command sample_env sample_prin ''bank'' ''card'' ''suspend''
      (command_scope ''suspend'' ''card'' sample_prin) ''k2'' ''lost'' ''req'' ?st (ticked ?w1) = (Inr res, w')"
    by blast
  have "sample_command = (Inr res, Rollback w')"
    unfolding sample_command_def w_def [symmetric] CardCommandWorkflow_def transaction_def Let_def command_scope_def [symmetric]
    by (simp only: andThen_def beginTenant_run [OF sample_env_no_faults(1)] deferred_def claim lock t onError_def
        prod.case sum.case fresh_replay_def ShardIdempotencyReplay.select_convs if_False)
      (simp add: t [simplified])
  then show ?thesis by blast
qed


theorem card_command_effect_witness:
  "\<exists>resp w'. sample_command = (Inr (resp, 200), w') \<and>
     card_status_of (durable w') ''bank'' ''card'' = Some ''suspended'' \<and>
     map log_entry (card_status_history (durable w')) =
       log_after (sample_db\<lparr>cards := [sample_card]\<rparr>) ''bank'' ''card'' ''suspend'' ''active'' ''suspended''"
proof -
  let ?d = "sample_db\<lparr>cards := [sample_card]\<rparr>"
  obtain resp status w' where r: "sample_command = (Inr (resp, status), w')"
    using sample_command_runs by (metis surj_pair)
  have d: "durable (sample_issuer_world x) = x" for x by (simp add: sample_issuer_world_def)
  have st: "card_status_of ?d ''bank'' ''card'' = Some ''active''"
    by (simp add: card_status_of_def query_row_def card_key_def sample_card_def)
  have tr: "Transition ''active'' ''suspend'' = (''suspended'', True, False)" by code_simp
  have h: "card_status_history ?d = []" by (simp add: sample_db_def empty_db_def)
  have rec: "record_of k ?d = None" for k by (cases k) (simp add: record_of_def sample_db_def empty_db_def query_row_def)
  have ok: "records_ok ?d" by (simp add: records_ok_def sample_db_def empty_db_def)
  have u: "unique_key card_key (cards ?d)" by (simp add: unique_key_def)
  have sf: "self_free ?d" by (simp add: self_free_def sample_card_def)
  show ?thesis
    using card_command_effect [OF r [unfolded sample_command_def], unfolded d, OF _ rec ok u sf] st tr h
    by (auto simp: r status_after_def)
qed

end
