(* ===== verification/Executor_Store.thy ===== *)
theory Executor_Store
  imports Shard_Store Lifecycle
begin

text \<open>
  The executor's shard adapter (\<open>internal/repository/shard/executor_store.go\<close>) with the records
  of \<open>internal/executor/ports.go\<close>: claiming queued batches and pending expiry items under a
  lease, recovering expired leases, applying, requeueing and failing the claimed work, and
  scheduling the daily expiry run. Every method is one transaction. Row locks
  (\<open>FOR UPDATE SKIP LOCKED\<close>) have no effect in the sequential model; a clock read in a
  statement and in its triggers is the same instant; a date is a day of the session's time zone, UTC.
\<close>

section \<open>The records of the executor\<close>

record Batch =
  exb_ID :: uuid
  exb_BankID :: uuid
  exb_TargetStatus :: string
  exb_Reason :: string
  exb_RequestedBy :: uuid
  exb_RequesterRole :: string
  exb_RequesterBankID :: string
  exb_RequestID :: uuid
  exb_ItemCount :: nat
  exb_AttemptCount :: nat
  exb_LeaseVersion :: int

record ExpiryItem =
  exi_ID :: uuid
  exi_RunID :: uuid
  exi_BankID :: uuid
  exi_CardID :: uuid
  exi_OperationID :: uuid
  exi_LeaseVersion :: int
  exi_AutomaticRetry :: nat

record Claim =
  clm_BankID :: uuid
  clm_Owner :: string
  clm_LeaseDuration :: duration

section \<open>Batches\<close>

text \<open>\<open>ORDER BY ... LIMIT 1\<close>\<close>

definition first_row :: "('r \<Rightarrow> 'k::linorder) \<Rightarrow> ('r \<Rightarrow> bool) \<Rightarrow> 'r list \<Rightarrow> 'r option" where
  "first_row key P rows = (case order_asc key (filter P rows) of [] \<Rightarrow> None | r # _ \<Rightarrow> Some r)"

definition next_queued_batch :: "uuid \<Rightarrow> time \<Rightarrow> shard_db \<Rightarrow> batch_row option" where
  "next_queued_batch bank now d =
     first_row (\<lambda>b. (batch_next_attempt_at b, batch_ID b))
       (\<lambda>b. batch_entity b = bank \<and> batch_Status b = ''queued'' \<and> batch_next_attempt_at b \<le> now)
       (card_status_batches d)"

definition claim_batch :: "Claim \<Rightarrow> sql_context \<Rightarrow> batch_row \<Rightarrow> batch_row" where
  "claim_batch claim ctx r = r\<lparr>batch_Status := ''processing'', batch_lease_owner := Some (clm_Owner claim),
     batch_lease_expires_at := Some (sql_clock ctx + clm_LeaseDuration claim),
     batch_lease_version := batch_lease_version r + 1, batch_attempt_count := batch_attempt_count r + 1,
     batch_started_at := Some (coalesce (batch_started_at r) (sql_clock ctx)),
     batch_UpdatedAt := sql_clock ctx\<rparr>"

definition update_claimed_batch ::
  "Claim \<Rightarrow> uuid \<Rightarrow> sql_context \<Rightarrow> shard_db \<Rightarrow> ((int \<times> nat) \<times> shard_db) result" where
  "update_claimed_batch claim batchID ctx d =
     (case update_batches (sql_clock ctx)
             (\<lambda>r. batch_entity r = clm_BankID claim \<and> batch_ID r = batchID \<and> batch_Status r = ''queued'')
             (claim_batch claim ctx) d of
        Inl e \<Rightarrow> Inl e
      | Inr (n, d') \<Rightarrow>
          if n = 0 then Inl ErrNoRows
          else map_sum id (\<lambda>x. (x, d')) (scan_row (\<lambda>r. (batch_lease_version r, batch_attempt_count r))
            (query_row (\<lambda>r. batch_entity r = clm_BankID claim \<and> batch_ID r = batchID) (card_status_batches d'))))"

definition claimed_batch :: "Claim \<Rightarrow> batch_row \<Rightarrow> int \<Rightarrow> nat \<Rightarrow> Batch" where
  "claimed_batch claim r version attempts =
     \<lparr>exb_ID = batch_ID r, exb_BankID = clm_BankID claim, exb_TargetStatus = batch_TargetStatus r,
      exb_Reason = batch_Reason r, exb_RequestedBy = batch_CreatedBy r,
      exb_RequesterRole = batch_RequesterRole r,
      exb_RequesterBankID = coalesce (batch_requester_entity_id r) '''',
      exb_RequestID = batch_request_id r, exb_ItemCount = batch_ItemCount r,
      exb_AttemptCount = attempts, exb_LeaseVersion = version\<rparr>"

definition ClaimBatch :: "environment \<Rightarrow> Claim \<Rightarrow> ('m shard_world_scheme, Batch option) prog" where
  "ClaimBatch env claim = transaction env (clm_BankID claim)
     (andThen (statement env (\<lambda>ctx. read_only (\<lambda>d. Inr (next_queued_batch (clm_BankID claim) (sql_clock ctx) d)) ctx))
      (\<lambda>found.
      case found of
        None \<Rightarrow> andThen (Commit env) (\<lambda>_. ret None)
      | Some r \<Rightarrow>
          andThen (statement env (update_claimed_batch claim (batch_ID r))) (\<lambda>(version, attempts).
          andThen (Commit env) (\<lambda>_. ret (Some (claimed_batch claim r version attempts))))))"

definition recover_batch :: "sql_context \<Rightarrow> batch_row \<Rightarrow> batch_row" where
  "recover_batch ctx r = r\<lparr>batch_Status := ''queued'', batch_lease_owner := None, batch_lease_expires_at := None,
     batch_lease_version := batch_lease_version r + 1, batch_next_attempt_at := sql_clock ctx,
     batch_UpdatedAt := sql_clock ctx\<rparr>"

text \<open>A comparison with \<open>NULL\<close> does not hold.\<close>

definition expired_by :: "time option \<Rightarrow> time \<Rightarrow> bool" where
  "expired_by expires now = (case expires of None \<Rightarrow> False | Some t \<Rightarrow> t \<le> now)"

definition current_at :: "time option \<Rightarrow> time \<Rightarrow> bool" where
  "current_at expires now = (case expires of None \<Rightarrow> False | Some t \<Rightarrow> now < t)"

definition RecoverBatches :: "environment \<Rightarrow> Claim \<Rightarrow> ('m shard_world_scheme, nat) prog" where
  "RecoverBatches env claim = transaction env (clm_BankID claim)
     (andThen (statement env (\<lambda>ctx. update_batches (sql_clock ctx)
        (\<lambda>r. batch_entity r = clm_BankID claim \<and> batch_Status r = ''processing'' \<and>
             expired_by (batch_lease_expires_at r) (sql_clock ctx))
        (recover_batch ctx))) (\<lambda>n.
      andThen (Commit env) (\<lambda>_. ret n)))"

text \<open>The fencing condition of every write under a batch lease.\<close>

definition holds_batch_lease :: "Batch \<Rightarrow> string \<Rightarrow> time \<Rightarrow> batch_row \<Rightarrow> bool" where
  "holds_batch_lease batch holder now r \<longleftrightarrow>
     batch_entity r = exb_BankID batch \<and> batch_ID r = exb_ID batch \<and> batch_Status r = ''processing'' \<and>
     batch_lease_owner r = Some holder \<and> batch_lease_version r = exb_LeaseVersion batch \<and>
     current_at (batch_lease_expires_at r) now"

definition verifyBatchLease :: "environment \<Rightarrow> Batch \<Rightarrow> string \<Rightarrow> ('m shard_world_scheme, unit) prog" where
  "verifyBatchLease env batch holder =
     andThen (statement env (\<lambda>ctx. read_only (\<lambda>d. Inr (exists_row (holds_batch_lease batch holder (sql_clock ctx))
       (card_status_batches d))) ctx)) (\<lambda>exists.
     if \<not> exists then throw ErrStale else ret ())"

definition safeBatchCode :: "string \<Rightarrow> string" where
  "safeBatchCode code =
     (if code \<in> set [''authorization_revoked'', ''retry_exhausted'', ''invalid_transition'',
                     ''control_unavailable'', ''dependency_unavailable'']
      then code else ''dependency_unavailable'')"

text \<open>The leased update that ends \<open>ApplyBatch\<close>, \<open>FailBatch\<close> and \<open>updateBatchLease\<close>.\<close>

definition update_leased_batch ::
  "environment \<Rightarrow> Batch \<Rightarrow> string \<Rightarrow> (sql_context \<Rightarrow> batch_row \<Rightarrow> batch_row) \<Rightarrow> ('m shard_world_scheme, unit) prog" where
  "update_leased_batch env batch holder f =
     andThen (statement env (\<lambda>ctx. update_batches (sql_clock ctx) (holds_batch_lease batch holder (sql_clock ctx)) (f ctx)))
     (\<lambda>n. if n \<noteq> 1 then throw ErrStale else ret ())"

definition updateBatchLease ::
  "environment \<Rightarrow> Batch \<Rightarrow> string \<Rightarrow> (sql_context \<Rightarrow> batch_row \<Rightarrow> batch_row) \<Rightarrow> ('m shard_world_scheme, unit) prog" where
  "updateBatchLease env batch holder f = transaction env (exb_BankID batch)
     (andThen (update_leased_batch env batch holder f) (\<lambda>_. Commit env))"

definition requeue_summary :: "string \<Rightarrow> string" where
  "requeue_summary code =
     (if code = ''control_unavailable'' then ''Authorization dependency is temporarily unavailable.''
      else if code = ''dependency_unavailable'' then ''A temporary dependency failure occurred.''
      else ''The batch will be retried.'')"

definition requeue_batch :: "string \<Rightarrow> duration \<Rightarrow> sql_context \<Rightarrow> batch_row \<Rightarrow> batch_row" where
  "requeue_batch code delay ctx r = r\<lparr>batch_Status := ''queued'', batch_lease_owner := None,
     batch_lease_expires_at := None, batch_next_attempt_at := sql_clock ctx + delay,
     batch_FailureCode := Some code, batch_FailureSummary := Some (requeue_summary code),
     batch_UpdatedAt := sql_clock ctx\<rparr>"

definition RequeueBatch ::
  "environment \<Rightarrow> Batch \<Rightarrow> string \<Rightarrow> string \<Rightarrow> duration \<Rightarrow> ('m shard_world_scheme, unit) prog" where
  "RequeueBatch env batch holder code delay =
     updateBatchLease env batch holder (requeue_batch (safeBatchCode code) delay)"

subsection \<open>\<open>ApplyBatch\<close>\<close>

record batch_card =
  bc_id :: uuid
  bc_cardID :: uuid
  bc_operationID :: uuid
  bc_status :: string

text \<open>The items of the batch joined with their cards, in the order of the cards.\<close>

definition batch_cards :: "uuid \<Rightarrow> uuid \<Rightarrow> shard_db \<Rightarrow> batch_card list" where
  "batch_cards bank batch d = order_asc bc_cardID (concat (map (\<lambda>i.
     map (\<lambda>c. \<lparr>bc_id = bi_id i, bc_cardID = bi_card_id i, bc_operationID = bi_operation_id i,
               bc_status = card_Status c\<rparr>)
       (filter (\<lambda>c. card_key c = (bi_entity i, bi_card_id i)) (cards d))) (batch_items_of d bank batch)))"

text \<open>The scan loop: every transition must be allowed; the flag is \<open>ignored\<close>.\<close>

fun scan_batch_cards :: "string \<Rightarrow> batch_card list \<Rightarrow> (batch_card \<times> bool) list result" where
  "scan_batch_cards target [] = Inr []"
| "scan_batch_cards target (value # rest) =
     (let (valid, ignored) = CanTransition (bc_status value) target in
      if \<not> valid then Inl (PlainError ''invalid batch transition'')
      else map_sum id (\<lambda>items. (value, ignored) # items) (scan_batch_cards target rest))"

definition item_outcome ::
  "environment \<Rightarrow> uuid \<Rightarrow> uuid \<Rightarrow> (batch_item_row \<Rightarrow> batch_item_row) \<Rightarrow> ('m shard_world_scheme, unit) prog" where
  "item_outcome env bank itemID f =
     statement env (exec_rows (\<lambda>_. update_batch_items
       (\<lambda>i. bi_entity i = bank \<and> bi_id i = itemID \<and> bi_outcome i = ''pending'') f))"

definition succeed_operation :: "string \<Rightarrow> uuid \<Rightarrow> sql_context \<Rightarrow> operation_row \<Rightarrow> operation_row" where
  "succeed_operation holder actor ctx r = r\<lparr>op_Status := ''succeeded'', op_executor_identity := Some holder,
     op_started_at := Some (sql_clock ctx), op_CompletedAt := Some (sql_clock ctx),
     op_updated_by := Some actor, op_updated_at := sql_clock ctx\<rparr>"

definition succeed_batch_operation ::
  "environment \<Rightarrow> Batch \<Rightarrow> string \<Rightarrow> uuid \<Rightarrow> ('m shard_world_scheme, unit) prog" where
  "succeed_batch_operation env batch holder operationID =
     statement env (exec_rows (\<lambda>ctx. update_operations
       (\<lambda>r. op_entity r = exb_BankID batch \<and> op_ID r = operationID \<and> op_Status r = ''queued'')
       (succeed_operation holder (exb_RequestedBy batch) ctx)))"

definition audit_batch ::
  "environment \<Rightarrow> Batch \<Rightarrow> string \<Rightarrow> string \<Rightarrow> uuid \<Rightarrow> string \<Rightarrow> json \<Rightarrow> ('m shard_world_scheme, unit) prog" where
  "audit_batch env batch holder kind resource outcome details =
     insertAudit env (exb_BankID batch) (Some (exb_RequestedBy batch)) (exb_RequesterRole batch)
       (nullable (exb_RequesterBankID batch)) (Some holder) ''batch.apply'' kind (Some resource) outcome
       (exb_RequestID batch) details"

definition batch_status_change :: "string \<Rightarrow> uuid \<Rightarrow> sql_context \<Rightarrow> card_row \<Rightarrow> card_row" where
  "batch_status_change target actor ctx r = r\<lparr>card_Status := target,
     card_ActivatedAt := (if target = ''active'' then Some (sql_clock ctx) else card_ActivatedAt r),
     card_SuspendedAt := (if target = ''suspended'' then Some (sql_clock ctx) else card_SuspendedAt r),
     card_ClosedAt := (if target = ''closed'' then Some (sql_clock ctx) else card_ClosedAt r),
     card_Version := card_Version r + 1, card_updated_by := actor, card_UpdatedAt := sql_clock ctx\<rparr>"

definition ignore_batch_card :: "environment \<Rightarrow> Batch \<Rightarrow> string \<Rightarrow> batch_card \<Rightarrow> ('m shard_world_scheme, unit) prog" where
  "ignore_batch_card env batch holder item =
     andThen (item_outcome env (exb_BankID batch) (bc_id item) (\<lambda>i. i\<lparr>bi_outcome := ''ignored''\<rparr>)) (\<lambda>_.
     andThen (succeed_batch_operation env batch holder (bc_operationID item)) (\<lambda>_.
     audit_batch env batch holder ''card'' (bc_cardID item) ''succeeded'' (JObj [(''ignored'', JBool True)])))"

definition apply_batch_card :: "environment \<Rightarrow> Batch \<Rightarrow> string \<Rightarrow> batch_card \<Rightarrow> ('m shard_world_scheme, unit) prog" where
  "apply_batch_card env batch holder item =
     andThen (statement env (exec_rows (\<lambda>ctx. update_cards
       (\<lambda>r. card_entity r = exb_BankID batch \<and> card_ID r = bc_cardID item)
       (batch_status_change (exb_TargetStatus batch) (exb_RequestedBy batch) ctx)))) (\<lambda>_.
     andThen (succeed_batch_operation env batch holder (bc_operationID item)) (\<lambda>_.
     andThen (insertStatusHistory env (exb_BankID batch) (bc_cardID item) (bc_operationID item) (bc_status item)
       (exb_TargetStatus batch) (exb_Reason batch) (Some (exb_RequestedBy batch)) (exb_RequesterRole batch)
       (nullable (exb_RequesterBankID batch)) None) (\<lambda>_.
     andThen (item_outcome env (exb_BankID batch) (bc_id item)
       (\<lambda>i. i\<lparr>bi_outcome := ''applied'', bi_previous_status := Some (bc_status item)\<rparr>)) (\<lambda>_.
     audit_batch env batch holder ''card'' (bc_cardID item) ''succeeded'' (JObj [])))))"

fun apply_batch_loop ::
  "environment \<Rightarrow> Batch \<Rightarrow> string \<Rightarrow> nat \<Rightarrow> nat \<Rightarrow> (batch_card \<times> bool) list \<Rightarrow> ('m shard_world_scheme, nat \<times> nat) prog" where
  "apply_batch_loop env batch holder applied ignored [] = ret (applied, ignored)"
| "apply_batch_loop env batch holder applied ignored ((item, item_ignored) # rest) =
     (if item_ignored
      then andThen (ignore_batch_card env batch holder item)
             (\<lambda>_. apply_batch_loop env batch holder applied (Suc ignored) rest)
      else andThen (apply_batch_card env batch holder item)
             (\<lambda>_. apply_batch_loop env batch holder (Suc applied) ignored rest))"

definition succeed_batch :: "nat \<Rightarrow> nat \<Rightarrow> sql_context \<Rightarrow> batch_row \<Rightarrow> batch_row" where
  "succeed_batch applied ignored ctx r = r\<lparr>batch_Status := ''succeeded'', batch_AppliedCount := applied,
     batch_IgnoredCount := ignored, batch_CompletedAt := Some (sql_clock ctx), batch_lease_owner := None,
     batch_lease_expires_at := None, batch_UpdatedAt := sql_clock ctx\<rparr>"

definition ApplyBatch :: "environment \<Rightarrow> Batch \<Rightarrow> string \<Rightarrow> ('m shard_world_scheme, unit) prog" where
  "ApplyBatch env batch holder = transaction env (exb_BankID batch)
     (andThen (verifyBatchLease env batch holder) (\<lambda>_.
      andThen (statement env (read_only (\<lambda>d. Inr (batch_cards (exb_BankID batch) (exb_ID batch) d)))) (\<lambda>rows.
      andThen (liftResult (scan_batch_cards (exb_TargetStatus batch) rows)) (\<lambda>items.
      andThen (apply_batch_loop env batch holder 0 0 items) (\<lambda>(applied, ignored).
      andThen (update_leased_batch env batch holder (succeed_batch applied ignored)) (\<lambda>_.
      Commit env))))))"

subsection \<open>\<open>FailBatch\<close>\<close>

definition fail_item :: "shard_db \<Rightarrow> string \<Rightarrow> string \<Rightarrow> batch_item_row \<Rightarrow> batch_item_row" where
  "fail_item d target code i =
     (if card_status_of d (bi_entity i) (bi_card_id i) = Some target
      then i\<lparr>bi_outcome := ''ignored'', bi_previous_status := None, bi_failure_code := None\<rparr>
      else i\<lparr>bi_outcome := ''not_applied'', bi_previous_status := None, bi_failure_code := Some code\<rparr>)"

definition fail_operation :: "string \<Rightarrow> string \<Rightarrow> sql_context \<Rightarrow> operation_row \<Rightarrow> operation_row" where
  "fail_operation holder code ctx r = r\<lparr>op_Status := ''failed'', op_executor_identity := Some holder,
     op_started_at := Some (sql_clock ctx), op_CompletedAt := Some (sql_clock ctx),
     op_failure_code := Some code, op_failure_summary := Some ''The batch could not be completed.'',
     op_updated_at := sql_clock ctx\<rparr>"

definition failure_summary_of :: "string \<Rightarrow> string" where
  "failure_summary_of code =
     (if code = ''authorization_revoked'' then ''The requester is no longer authorized.''
      else if code = ''retry_exhausted'' then ''The retry limit was reached.''
      else if code = ''invalid_transition'' then ''One or more card transitions are not allowed.''
      else ''The batch could not be completed.'')"

definition fail_batch :: "nat \<Rightarrow> string \<Rightarrow> sql_context \<Rightarrow> batch_row \<Rightarrow> batch_row" where
  "fail_batch ignored code ctx r = r\<lparr>batch_Status := ''failed'', batch_AppliedCount := 0,
     batch_IgnoredCount := ignored, batch_FailureCode := Some code,
     batch_FailureSummary := Some (failure_summary_of code), batch_CompletedAt := Some (sql_clock ctx),
     batch_lease_owner := None, batch_lease_expires_at := None, batch_UpdatedAt := sql_clock ctx\<rparr>"

definition FailBatch :: "environment \<Rightarrow> Batch \<Rightarrow> string \<Rightarrow> string \<Rightarrow> ('m shard_world_scheme, unit) prog" where
  "FailBatch env batch holder code = transaction env (exb_BankID batch)
     (andThen (verifyBatchLease env batch holder) (\<lambda>_.
      andThen (statement env (exec_rows (\<lambda>_ d. update_batch_items
        (\<lambda>i. bi_entity i = exb_BankID batch \<and> bi_batch_id i = exb_ID batch \<and> bi_outcome i = ''pending'' \<and>
             exists_row (\<lambda>c. card_key c = (bi_entity i, bi_card_id i)) (cards d))
        (fail_item d (exb_TargetStatus batch) (safeBatchCode code)) d))) (\<lambda>_.
      andThen (statement env (exec_rows (\<lambda>ctx d. update_operations
        (\<lambda>r. op_entity r = exb_BankID batch \<and> op_Status r = ''queued'' \<and>
             exists_row (\<lambda>i. bi_entity i = op_entity r \<and> bi_batch_id i = exb_ID batch \<and>
               bi_operation_id i = op_ID r) (card_status_batch_items d))
        (fail_operation holder (safeBatchCode code) ctx) d))) (\<lambda>_.
      andThen (audit_batch env batch holder ''card_status_batch'' (exb_ID batch) ''failed'' (JObj [])) (\<lambda>_.
      andThen (statement env (read_only (\<lambda>d. Inr (affected (\<lambda>i. bi_outcome i = ''ignored'')
        (batch_items_of d (exb_BankID batch) (exb_ID batch)))))) (\<lambda>ignored.
      andThen (update_leased_batch env batch holder (fail_batch ignored (safeBatchCode code))) (\<lambda>_.
      Commit env)))))))"


section \<open>Expiry runs\<close>

definition expiryScheduleBatchSize :: nat where
  "expiryScheduleBatchSize = 200"

definition day_length :: duration where
  "day_length = 24 * 60 * 60 * 1000000000"

text \<open>\<open>day.Format("2006-01-02")\<close> as a date: the number of the UTC day.\<close>

definition date_of :: "time \<Rightarrow> int" where
  "date_of t = t div day_length"

text \<open>\<open>INSERT ... ON CONFLICT (entity_id, run_date) DO UPDATE ... RETURNING id\<close>\<close>

definition upsert_expiry_run :: "uuid \<Rightarrow> int \<Rightarrow> string \<Rightarrow> sql_context \<Rightarrow> shard_db \<Rightarrow> (uuid \<times> shard_db) result" where
  "upsert_expiry_run bank day holder ctx d =
     (case query_row (\<lambda>r. er_entity r = bank \<and> er_run_date r = day) (card_expiry_runs d) of
        Some run \<Rightarrow> map_sum id (\<lambda>r. (er_id run, snd r))
          (update_expiry_runs (\<lambda>r. er_entity r = bank \<and> er_run_date r = day)
             (\<lambda>r. r\<lparr>er_updated_at := sql_clock ctx\<rparr>) d)
      | None \<Rightarrow> returning insert_expiry_run er_id (\<lambda>ctx.
          \<lparr>er_entity = bank, er_id = sql_uuid ctx 0, er_run_date = day, er_status = ''processing'',
           er_item_count = 0, er_expired_count = 0, er_skipped_already_expired_count = 0,
           er_manual_retry_required_count = 0, er_executor_identity = holder, er_created_at = sql_now ctx,
           er_updated_at = sql_now ctx, er_completed_at = None\<rparr>) ctx d)"

text \<open>The cards to schedule: not terminal, expiring before the end of the day, not yet in the run.\<close>

definition expires_by :: "int \<Rightarrow> card_row \<Rightarrow> bool" where
  "expires_by day c = (case card_ExpiresAt c of None \<Rightarrow> False | Some t \<Rightarrow> t < (day + 1) * day_length)"

definition due_card :: "uuid \<Rightarrow> int \<Rightarrow> uuid \<Rightarrow> shard_db \<Rightarrow> card_row \<Rightarrow> bool" where
  "due_card bank day runID d c \<longleftrightarrow>
     card_entity c = bank \<and> card_Status c \<in> set [''pending'', ''issued'', ''active'', ''suspended''] \<and>
     expires_by day c \<and>
     \<not> exists_row (\<lambda>i. ei_entity i = card_entity c \<and> ei_expiry_run_id i = runID \<and> ei_card_id i = card_ID c)
         (card_expiry_run_items d)"

definition due_cards :: "uuid \<Rightarrow> int \<Rightarrow> uuid \<Rightarrow> shard_db \<Rightarrow> uuid list" where
  "due_cards bank day runID d =
     take expiryScheduleBatchSize (map card_ID (order_asc card_ID (filter (due_card bank day runID d) (cards d))))"

definition expire_operation_row :: "uuid \<Rightarrow> uuid \<Rightarrow> string \<Rightarrow> sql_context \<Rightarrow> operation_row" where
  "expire_operation_row bank cardID holder ctx =
     \<lparr>op_ID = sql_uuid ctx 0, op_CardID = cardID, op_Action = ''expire'', op_Status = ''queued'',
      op_Reason = ''scheduled expiry'', op_CreatedAt = sql_now ctx, op_CompletedAt = None, op_entity = bank,
      op_actor_user_id = None, op_actor_role = ''system'', op_actor_entity_id = None,
      op_executor_identity = Some holder, op_request_id = sql_uuid ctx 1, op_started_at = Some (sql_clock ctx),
      op_failure_code = None, op_failure_summary = None, op_updated_at = sql_now ctx,
      op_created_by = None, op_updated_by = None\<rparr>"

definition new_expiry_item_row :: "uuid \<Rightarrow> uuid \<Rightarrow> uuid \<Rightarrow> uuid \<Rightarrow> sql_context \<Rightarrow> expiry_item_row" where
  "new_expiry_item_row bank runID cardID operationID ctx =
     \<lparr>ei_entity = bank, ei_id = sql_uuid ctx 0, ei_expiry_run_id = runID, ei_card_id = cardID,
      ei_operation_id = operationID, ei_status = ''pending'', ei_attempt_count = 0,
      ei_automatic_retry_count = 0, ei_manual_retry_count = 0, ei_next_attempt_at = sql_now ctx,
      ei_lease_owner = None, ei_lease_expires_at = None, ei_lease_version = 0, ei_failure_code = None,
      ei_manual_retry_by = None, ei_manual_retry_at = None, ei_created_at = sql_now ctx,
      ei_updated_at = sql_now ctx\<rparr>"

text \<open>\<open>ON CONFLICT (entity_id, expiry_run_id, card_id) DO NOTHING\<close>\<close>

definition insert_new_expiry_item :: "expiry_item_row \<Rightarrow> shard_db \<Rightarrow> shard_db result" where
  "insert_new_expiry_item r d =
     (if exists_row (\<lambda>i. ei_entity i = ei_entity r \<and> ei_expiry_run_id i = ei_expiry_run_id r \<and>
           ei_card_id i = ei_card_id r) (card_expiry_run_items d)
      then Inr d else insert_expiry_item r d)"

fun schedule_loop :: "environment \<Rightarrow> uuid \<Rightarrow> uuid \<Rightarrow> string \<Rightarrow> uuid list \<Rightarrow> ('m shard_world_scheme, unit) prog" where
  "schedule_loop env bank runID holder [] = ret ()"
| "schedule_loop env bank runID holder (cardID # rest) =
     andThen (statement env (returning insert_operation op_ID (expire_operation_row bank cardID holder))) (\<lambda>operationID.
     andThen (statement env (exec (\<lambda>ctx. insert_new_expiry_item
       (new_expiry_item_row bank runID cardID operationID ctx)))) (\<lambda>_.
     schedule_loop env bank runID holder rest))"

definition EnsureExpiryRun :: "environment \<Rightarrow> uuid \<Rightarrow> time \<Rightarrow> string \<Rightarrow> ('m shard_world_scheme, unit) prog" where
  "EnsureExpiryRun env bank day holder = transaction env bank
     (andThen (statement env (upsert_expiry_run bank (date_of day) holder)) (\<lambda>runID.
      andThen (statement env (read_only (\<lambda>d. Inr (due_cards bank (date_of day) runID d)))) (\<lambda>cardIDs.
      andThen (if cardIDs = [] then ret () else
        statement env (exec_rows (\<lambda>ctx. update_expiry_runs
          (\<lambda>r. er_entity r = bank \<and> er_id r = runID \<and> er_status r = ''completed'')
          (\<lambda>r. r\<lparr>er_status := ''processing'', er_completed_at := None, er_updated_at := sql_clock ctx\<rparr>)))) (\<lambda>_.
      andThen (schedule_loop env bank runID holder cardIDs) (\<lambda>_.
      andThen (statement env (exec_rows (\<lambda>ctx d. update_expiry_runs
          (\<lambda>r. er_entity r = bank \<and> er_id r = runID)
          (\<lambda>r. r\<lparr>er_item_count := length (expiry_items_of d bank runID), er_updated_at := sql_clock ctx\<rparr>) d))) (\<lambda>_.
      Commit env))))))"

definition next_pending_item :: "uuid \<Rightarrow> time \<Rightarrow> shard_db \<Rightarrow> expiry_item_row option" where
  "next_pending_item bank now d =
     first_row (\<lambda>i. (ei_next_attempt_at i, ei_id i))
       (\<lambda>i. ei_entity i = bank \<and> ei_status i = ''pending'' \<and> ei_next_attempt_at i \<le> now)
       (card_expiry_run_items d)"

definition claim_item :: "Claim \<Rightarrow> sql_context \<Rightarrow> expiry_item_row \<Rightarrow> expiry_item_row" where
  "claim_item claim ctx i = i\<lparr>ei_status := ''processing'', ei_lease_owner := Some (clm_Owner claim),
     ei_lease_expires_at := Some (sql_clock ctx + clm_LeaseDuration claim),
     ei_lease_version := ei_lease_version i + 1, ei_updated_at := sql_clock ctx\<rparr>"

definition update_claimed_item ::
  "Claim \<Rightarrow> uuid \<Rightarrow> sql_context \<Rightarrow> shard_db \<Rightarrow> (int \<times> shard_db) result" where
  "update_claimed_item claim itemID ctx d =
     (case update_expiry_items (sql_clock ctx)
             (\<lambda>i. ei_entity i = clm_BankID claim \<and> ei_id i = itemID \<and> ei_status i = ''pending'')
             (claim_item claim ctx) d of
        Inl e \<Rightarrow> Inl e
      | Inr (n, d') \<Rightarrow>
          if n = 0 then Inl ErrNoRows
          else map_sum id (\<lambda>x. (x, d')) (scan_row ei_lease_version
            (query_row (\<lambda>i. ei_entity i = clm_BankID claim \<and> ei_id i = itemID) (card_expiry_run_items d'))))"

definition claimed_item :: "Claim \<Rightarrow> expiry_item_row \<Rightarrow> int \<Rightarrow> ExpiryItem" where
  "claimed_item claim i version =
     \<lparr>exi_ID = ei_id i, exi_RunID = ei_expiry_run_id i, exi_BankID = clm_BankID claim,
      exi_CardID = ei_card_id i, exi_OperationID = ei_operation_id i, exi_LeaseVersion = version,
      exi_AutomaticRetry = ei_automatic_retry_count i\<rparr>"

definition ClaimExpiryItem :: "environment \<Rightarrow> Claim \<Rightarrow> ('m shard_world_scheme, ExpiryItem option) prog" where
  "ClaimExpiryItem env claim = transaction env (clm_BankID claim)
     (andThen (statement env (\<lambda>ctx. read_only (\<lambda>d. Inr (next_pending_item (clm_BankID claim) (sql_clock ctx) d)) ctx))
      (\<lambda>found.
      case found of
        None \<Rightarrow> andThen (Commit env) (\<lambda>_. ret None)
      | Some i \<Rightarrow>
          andThen (statement env (update_claimed_item claim (ei_id i))) (\<lambda>version.
          andThen (Commit env) (\<lambda>_. ret (Some (claimed_item claim i version))))))"

definition holds_item_lease :: "ExpiryItem \<Rightarrow> string \<Rightarrow> time \<Rightarrow> expiry_item_row \<Rightarrow> bool" where
  "holds_item_lease item holder now i \<longleftrightarrow>
     ei_entity i = exi_BankID item \<and> ei_id i = exi_ID item \<and> ei_status i = ''processing'' \<and>
     ei_lease_owner i = Some holder \<and> ei_lease_version i = exi_LeaseVersion item \<and>
     current_at (ei_lease_expires_at i) now"

definition verifyExpiryLease :: "environment \<Rightarrow> ExpiryItem \<Rightarrow> string \<Rightarrow> ('m shard_world_scheme, unit) prog" where
  "verifyExpiryLease env item holder =
     andThen (statement env (\<lambda>ctx. read_only (\<lambda>d. Inr (exists_row (holds_item_lease item holder (sql_clock ctx))
       (card_expiry_run_items d))) ctx)) (\<lambda>exists.
     if \<not> exists then throw ErrStale else ret ())"

definition update_leased_item ::
  "environment \<Rightarrow> ExpiryItem \<Rightarrow> string \<Rightarrow> (sql_context \<Rightarrow> expiry_item_row \<Rightarrow> expiry_item_row) \<Rightarrow>
   ('m shard_world_scheme, unit) prog" where
  "update_leased_item env item holder f =
     andThen (statement env (\<lambda>ctx. update_expiry_items (sql_clock ctx)
       (holds_item_lease item holder (sql_clock ctx)) (f ctx)))
     (\<lambda>n. if n \<noteq> 1 then throw ErrStale else ret ())"

definition completeExpiryRun :: "environment \<Rightarrow> uuid \<Rightarrow> uuid \<Rightarrow> ('m shard_world_scheme, unit) prog" where
  "completeExpiryRun env bank run =
     statement env (exec_rows (\<lambda>ctx d. let items = expiry_items_of d bank run in
       update_expiry_runs
         (\<lambda>r. er_entity r = bank \<and> er_id r = run \<and> er_status r = ''processing'' \<and>
              \<not> exists_row (\<lambda>i. ei_status i \<in> set [''pending'', ''processing'']) items)
         (\<lambda>r. r\<lparr>er_status := ''completed'', er_expired_count := count_status ''expired'' items,
                er_skipped_already_expired_count := count_status ''skipped_already_expired'' items,
                er_manual_retry_required_count := count_status ''manual_retry_required'' items,
                er_completed_at := Some (sql_clock ctx), er_updated_at := sql_clock ctx\<rparr>) d))"

definition recover_item :: "sql_context \<Rightarrow> expiry_item_row \<Rightarrow> expiry_item_row" where
  "recover_item ctx i = i\<lparr>
     ei_status := (if 3 \<le> ei_automatic_retry_count i then ''manual_retry_required'' else ''pending''),
     ei_attempt_count := ei_attempt_count i + 1,
     ei_automatic_retry_count := ei_automatic_retry_count i + (if 3 \<le> ei_automatic_retry_count i then 0 else 1),
     ei_lease_owner := None, ei_lease_expires_at := None, ei_lease_version := ei_lease_version i + 1,
     ei_next_attempt_at := sql_clock ctx, ei_failure_code := Some ''expiry_failed'', ei_updated_at := sql_clock ctx\<rparr>"

definition lapsed_item :: "uuid \<Rightarrow> time \<Rightarrow> expiry_item_row \<Rightarrow> bool" where
  "lapsed_item bank now i \<longleftrightarrow> ei_entity i = bank \<and> ei_status i = ''processing'' \<and>
     expired_by (ei_lease_expires_at i) now"

text \<open>The update returns the run of every recovered item.\<close>

definition recover_items :: "uuid \<Rightarrow> sql_context \<Rightarrow> shard_db \<Rightarrow> (uuid list \<times> shard_db) result" where
  "recover_items bank ctx d =
     map_sum id (\<lambda>r. (map ei_expiry_run_id (filter (lapsed_item bank (sql_clock ctx)) (card_expiry_run_items d)), snd r))
       (update_expiry_items (sql_clock ctx) (lapsed_item bank (sql_clock ctx)) (recover_item ctx) d)"

fun complete_runs :: "environment \<Rightarrow> uuid \<Rightarrow> uuid list \<Rightarrow> ('m shard_world_scheme, unit) prog" where
  "complete_runs env bank [] = ret ()"
| "complete_runs env bank (run # runs) =
     andThen (completeExpiryRun env bank run) (\<lambda>_. complete_runs env bank runs)"

definition RecoverExpiryItems :: "environment \<Rightarrow> Claim \<Rightarrow> ('m shard_world_scheme, nat) prog" where
  "RecoverExpiryItems env claim = transaction env (clm_BankID claim)
     (andThen (statement env (recover_items (clm_BankID claim))) (\<lambda>runs.
      andThen (complete_runs env (clm_BankID claim) runs) (\<lambda>_.
      andThen (Commit env) (\<lambda>_. ret (length runs)))))"

definition expire_card :: "sql_context \<Rightarrow> card_row \<Rightarrow> card_row" where
  "expire_card ctx r = r\<lparr>card_Status := ''expired'',
     card_ExpiresAt := Some (coalesce (card_ExpiresAt r) (sql_clock ctx)),
     card_Version := card_Version r + 1, card_UpdatedAt := sql_clock ctx\<rparr>"

definition expire_locked_card ::
  "environment \<Rightarrow> ExpiryItem \<Rightarrow> string \<Rightarrow> string \<Rightarrow> ('m shard_world_scheme, string) prog" where
  "expire_locked_card env item holder status =
     (if status = ''expired'' then ret ''skipped_already_expired''
      else if \<not> fst (snd (Transition status ''expire'')) then throw (PlainError ''invalid expiry transition'')
      else
        andThen (statement env (exec_rows (\<lambda>ctx. update_cards
          (\<lambda>r. card_entity r = exi_BankID item \<and> card_ID r = exi_CardID item) (expire_card ctx)))) (\<lambda>_.
        andThen (insertStatusHistory env (exi_BankID item) (exi_CardID item) (exi_OperationID item) status ''expired''
          ''scheduled expiry'' None ''system'' None (Some holder)) (\<lambda>_.
        ret ''expired'')))"

definition finish_item :: "string \<Rightarrow> sql_context \<Rightarrow> expiry_item_row \<Rightarrow> expiry_item_row" where
  "finish_item result ctx i = i\<lparr>ei_status := result, ei_attempt_count := ei_attempt_count i + 1,
     ei_lease_owner := None, ei_lease_expires_at := None, ei_failure_code := None,
     ei_updated_at := sql_clock ctx\<rparr>"

definition ApplyExpiryItem :: "environment \<Rightarrow> ExpiryItem \<Rightarrow> string \<Rightarrow> ('m shard_world_scheme, unit) prog" where
  "ApplyExpiryItem env item holder = transaction env (exi_BankID item)
     (andThen (verifyExpiryLease env item holder) (\<lambda>_.
      andThen (statement env (read_only (\<lambda>d. scan_row card_Status
        (query_row (\<lambda>r. card_entity r = exi_BankID item \<and> card_ID r = exi_CardID item) (cards d))))) (\<lambda>status.
      andThen (expire_locked_card env item holder status) (\<lambda>result.
      andThen (statement env (exec_rows (\<lambda>ctx. update_operations
        (\<lambda>r. op_entity r = exi_BankID item \<and> op_ID r = exi_OperationID item)
        (\<lambda>r. r\<lparr>op_Status := ''succeeded'', op_executor_identity := Some holder,
               op_CompletedAt := Some (sql_clock ctx), op_updated_at := sql_clock ctx\<rparr>)))) (\<lambda>_.
      andThen (statement env (exec (\<lambda>ctx. insert_audit (audit_row_of (exi_BankID item) None ''system'' None
        (Some holder) ''card.expire'' ''card'' (Some (exi_CardID item)) ''succeeded'' (sql_uuid ctx 1) (JObj []) ctx)))) (\<lambda>_.
      andThen (update_leased_item env item holder (finish_item result)) (\<lambda>_.
      andThen (completeExpiryRun env (exi_BankID item) (exi_RunID item)) (\<lambda>_.
      Commit env))))))))"

definition requeue_status :: "ExpiryItem \<Rightarrow> string" where
  "requeue_status item = (if 3 \<le> exi_AutomaticRetry item then ''manual_retry_required'' else ''pending'')"

definition requeue_item :: "string \<Rightarrow> duration \<Rightarrow> sql_context \<Rightarrow> expiry_item_row \<Rightarrow> expiry_item_row" where
  "requeue_item status delay ctx i = i\<lparr>ei_status := status, ei_attempt_count := ei_attempt_count i + 1,
     ei_automatic_retry_count := ei_automatic_retry_count i + (if status = ''pending'' then 1 else 0),
     ei_lease_owner := None, ei_lease_expires_at := None, ei_next_attempt_at := sql_clock ctx + delay,
     ei_failure_code := Some ''expiry_failed'', ei_updated_at := sql_clock ctx\<rparr>"

definition RequeueExpiryItem ::
  "environment \<Rightarrow> ExpiryItem \<Rightarrow> string \<Rightarrow> duration \<Rightarrow> ('m shard_world_scheme, unit) prog" where
  "RequeueExpiryItem env item holder delay = transaction env (exi_BankID item)
     (andThen (update_leased_item env item holder (requeue_item (requeue_status item) delay)) (\<lambda>_.
      andThen (completeExpiryRun env (exi_BankID item) (exi_RunID item)) (\<lambda>_.
      Commit env)))"

definition FailExpiryItem :: "environment \<Rightarrow> ExpiryItem \<Rightarrow> string \<Rightarrow> ('m shard_world_scheme, unit) prog" where
  "FailExpiryItem env item holder = RequeueExpiryItem env item holder 1000000000"

end
