(* ===== verification/Executor_Leases.thy ===== *)
theory Executor_Leases
  imports Executor_Store
begin

text \<open>
  Fencing: a lease is a version of a row in status \<open>processing\<close>. The contract of a table of
  leased work is a locale, interpreted for the batches and for the expiry items; its lemmas show
  that a lease that was given up stays spent whatever the executor does afterwards.
\<close>

section \<open>The contract of a table of leases\<close>

text \<open>
  The lease with version \<open>v\<close> on the row \<open>k\<close> is spent: the row has a later version, or this
  version and is not leased; and the row exists, so its key cannot be inserted again.
\<close>

definition lease_spent :: "('r \<Rightarrow> 'k) \<Rightarrow> ('r \<Rightarrow> int) \<Rightarrow> ('r \<Rightarrow> bool) \<Rightarrow> 'k \<Rightarrow> int \<Rightarrow> 'r list \<Rightarrow> bool" where
  "lease_spent key version leased k v rows \<longleftrightarrow>
     k \<in> key ` set rows \<and> (\<forall>r \<in> set rows. key r = k \<longrightarrow> v < version r \<or> (v = version r \<and> \<not> leased r))"

locale lease_table =
  fixes rows :: "shard_db \<Rightarrow> 'r list" and key :: "'r \<Rightarrow> uuid \<times> uuid" and version :: "'r \<Rightarrow> int"
    and leased :: "'r \<Rightarrow> bool"
    and update :: "time \<Rightarrow> ('r \<Rightarrow> bool) \<Rightarrow> ('r \<Rightarrow> 'r) \<Rightarrow> shard_db \<Rightarrow> (nat \<times> shard_db) result"
  assumes update_rows:
      "update now P f d = Inr (n, d') \<Longrightarrow> n = affected P (rows d) \<and> rows d' = update_where P f (rows d)"
    and update_key: "update now P f d = Inr (n, d') \<Longrightarrow> r \<in> set (rows d) \<Longrightarrow> P r \<Longrightarrow> key (f r) = key r"
    and claim_version:
      "update now P f d = Inr (n, d') \<Longrightarrow> r \<in> set (rows d) \<Longrightarrow> P r \<Longrightarrow> \<not> leased r \<Longrightarrow> leased (f r) \<Longrightarrow>
       version (f r) = version r + 1"
begin

lemma spent_update:
  assumes u: "update now P f d = Inr (n, d')" and f: "\<And>r. P r \<Longrightarrow> version r \<le> version (f r)"
    and s: "lease_spent key version leased k v (rows d)"
  shows "lease_spent key version leased k v (rows d')"
  unfolding lease_spent_def
proof (intro conjI ballI impI)
  from s obtain r where "r \<in> set (rows d)" "key r = k" by (auto simp: lease_spent_def)
  then have "(if P r then f r else r) \<in> set (rows d')" "key (if P r then f r else r) = k"
    using update_rows [OF u] update_key [OF u] by (auto simp: set_update_where)
  then show "k \<in> key ` set (rows d')" by (metis image_eqI)
next
  fix r' assume r': "r' \<in> set (rows d')" "key r' = k"
  then obtain r where r: "r \<in> set (rows d)" "r' = (if P r then f r else r)"
    using update_rows [OF u] by (auto simp: set_update_where)
  show "v < version r' \<or> (v = version r' \<and> \<not> leased r')"
  proof (cases "P r")
    case True
    then have "v < version r \<or> (v = version r \<and> \<not> leased r)"
      using s r r' update_key [OF u r(1) True] by (auto simp: lease_spent_def)
    then show ?thesis
      using f [OF True] claim_version [OF u r(1) True] r(2) True by (cases "leased (f r)") auto
  next
    case False
    with s r r' show ?thesis by (auto simp: lease_spent_def)
  qed
qed

lemma spent_release:
  assumes u: "update now P f d = Inr (Suc 0, d')" and uk: "unique_key key (rows d)"
    and P: "\<And>r. P r \<Longrightarrow> key r = k \<and> version r = v"
    and f: "\<And>r. P r \<Longrightarrow> \<not> leased (f r) \<and> version (f r) = version r"
  shows "lease_spent key version leased k v (rows d')"
  unfolding lease_spent_def
proof (intro conjI ballI impI)
  have "affected P (rows d) \<noteq> 0" using update_rows [OF u] by simp
  then obtain r where r: "r \<in> set (rows d)" "P r" using affected_pos [of P "rows d"] by auto
  then have "f r \<in> set (rows d')" "key (f r) = k"
    using update_rows [OF u] update_key [OF u r] P by (auto simp: set_update_where)
  then show "k \<in> key ` set (rows d')" by (metis image_eqI)
next
  fix r' assume r': "r' \<in> set (rows d')" "key r' = k"
  then obtain r where r: "r \<in> set (rows d)" "r' = (if P r then f r else r)"
    using update_rows [OF u] by (auto simp: set_update_where)
  have "affected P (rows d) \<noteq> 0" using update_rows [OF u] by simp
  then obtain r0 where r0: "r0 \<in> set (rows d)" "P r0" using affected_pos [of P "rows d"] by auto
  have "key r = key r0" using r r' P [OF r0(2)] update_key [OF u r(1)] by (auto split: if_splits)
  then have "P r" using unique_key_inj [OF uk r(1) r0(1)] r0(2) by simp
  then show "v < version r' \<or> (v = version r' \<and> \<not> leased r')" using f r(2) P by auto
qed

lemma spent_not_held:
  "lease_spent key version leased k v (rows d) \<Longrightarrow> r \<in> set (rows d) \<Longrightarrow> key r = k \<Longrightarrow> leased r \<Longrightarrow> version r \<noteq> v"
  by (auto simp: lease_spent_def)

lemma held_update:
  assumes u: "update now P f d = Inr (n, d')" and r: "r \<in> set (rows d)" and P: "\<not> P r"
  shows "r \<in> set (rows d')"
  using update_rows [OF u] r P by (force simp: set_update_where)

end

lemma guarded_update_conditions:
  assumes "map_sum id g (guarded_update c P f rows) = Inr y" and "r \<in> set rows" and "P r"
  shows "\<forall>x \<in> set (c r (f r)). snd x"
  using assms by (auto simp: map_sum_Inr_iff guarded_update_Inr)

interpretation batch_lease: lease_table card_status_batches batch_key batch_lease_version
  "\<lambda>b. batch_Status b = ''processing''" update_batches
proof
  fix now P f d n d' and r :: batch_row
  assume u: "update_batches now P f d = Inr (n, d')"
  show "n = affected P (card_status_batches d) \<and> card_status_batches d' = update_where P f (card_status_batches d)"
    using update_result(8) [OF u] by simp
  assume r: "r \<in> set (card_status_batches d)" "P r"
  note c = guarded_update_conditions [OF u [unfolded update_batches_def] r]
  show "batch_key (f r) = batch_key r" using c by simp
  show "batch_lease_version (f r) = batch_lease_version r + 1"
    if "batch_Status r \<noteq> ''processing''" "batch_Status (f r) = ''processing''"
    using c that by (auto simp: guard_batch_state_def)
qed

interpretation item_lease: lease_table card_expiry_run_items expiry_item_key ei_lease_version
  "\<lambda>i. ei_status i = ''processing''" update_expiry_items
proof
  fix now P f d n d' and r :: expiry_item_row
  assume u: "update_expiry_items now P f d = Inr (n, d')"
  show "n = affected P (card_expiry_run_items d) \<and> card_expiry_run_items d' = update_where P f (card_expiry_run_items d)"
    using update_result(11) [OF u] by simp
  assume r: "r \<in> set (card_expiry_run_items d)" "P r"
  note c = guarded_update_conditions [OF u [unfolded update_expiry_items_def] r]
  show "expiry_item_key (f r) = expiry_item_key r" using c by simp
  show "ei_lease_version (f r) = ei_lease_version r + 1"
    if "ei_status r \<noteq> ''processing''" "ei_status (f r) = ''processing''"
    using c that by (auto simp: guard_expiry_run_item_def)
qed


section \<open>Spent leases stay spent\<close>

definition batch_spent :: "uuid \<times> uuid \<Rightarrow> int \<Rightarrow> shard_db \<Rightarrow> bool" where
  "batch_spent k v d = lease_spent batch_key batch_lease_version (\<lambda>b. batch_Status b = ''processing'') k v
     (card_status_batches d)"

definition item_spent :: "uuid \<times> uuid \<Rightarrow> int \<Rightarrow> shard_db \<Rightarrow> bool" where
  "item_spent k v d = lease_spent expiry_item_key ei_lease_version (\<lambda>i. ei_status i = ''processing'') k v
     (card_expiry_run_items d)"

text \<open>Statements on the other tables keep every predicate that reads the leases only.\<close>

definition reads_leases :: "(shard_db \<Rightarrow> bool) \<Rightarrow> bool" where
  "reads_leases I \<longleftrightarrow> (\<forall>d d'. card_status_batches d' = card_status_batches d \<and>
     card_expiry_run_items d' = card_expiry_run_items d \<longrightarrow> I d \<longrightarrow> I d')"

lemma reads_leasesD:
  "reads_leases I \<Longrightarrow> I d \<Longrightarrow> card_status_batches d' = card_status_batches d \<Longrightarrow>
   card_expiry_run_items d' = card_expiry_run_items d \<Longrightarrow> I d'"
  unfolding reads_leases_def by blast

lemma reads_leases_spent [simp]: "reads_leases (batch_spent k v)" "reads_leases (item_spent k v)"
  by (simp_all add: reads_leases_def batch_spent_def item_spent_def)

named_theorems other_tables "statements that keep what reads the leases only"

lemma preserves_other_updates [other_tables]:
  assumes "reads_leases I"
  shows "preserves I (statement env (exec_rows (\<lambda>ctx d. update_cards (P1 ctx d) (f1 ctx d) d)))"
    and "preserves I (statement env (exec_rows (\<lambda>ctx d. update_operations (P2 ctx d) (f2 ctx d) d)))"
    and "preserves I (statement env (exec_rows (\<lambda>ctx d. update_expiry_runs (P3 ctx d) (f3 ctx d) d)))"
    and "preserves I (statement env (exec_rows (\<lambda>ctx d. update_batch_items (P4 ctx d) (f4 ctx d) d)))"
  by (rule preserves_exec_rows, rule reads_leasesD [OF assms], assumption, auto dest!: update_result)+

lemma preserves_other_inserts [other_tables]:
  assumes "reads_leases I"
  shows "preserves I (insertAudit env bank actor role ent ex action kind res outcome req details)"
    and "preserves I (insertStatusHistory env bank cid oid prev new reason actor role ent ex)"
    and "preserves I (statement env (exec (\<lambda>ctx. insert_audit (a ctx))))"
    and "preserves I (statement env (returning insert_operation scan row))"
  unfolding insertAudit_def insertStatusHistory_def
  by (rule preserves_exec preserves_statement, rule reads_leasesD [OF assms], assumption,
      auto simp: returning_Inr dest!: insert_result)+

lemma preserves_upsert_run [other_tables]:
  assumes "reads_leases I"
  shows "preserves I (statement env (upsert_expiry_run bank day holder))"
  by (rule preserves_statement, rule reads_leasesD [OF assms], assumption)
    (auto simp: upsert_expiry_run_def returning_Inr map_sum_Inr_iff insert_expiry_run_def checked_Inr
      dest!: update_result split: option.splits)

lemma preserves_completeExpiryRun [other_tables]:
  assumes "reads_leases I"
  shows "preserves I (completeExpiryRun env bank run)"
  unfolding completeExpiryRun_def Let_def by (rule preserves_other_updates(3) [OF assms])

lemma preserves_complete_runs [other_tables]: "reads_leases I \<Longrightarrow> preserves I (complete_runs env bank runs)"
  by (induction runs) (auto intro!: preserves_intros other_tables)

text \<open>Statements on the leases themselves.\<close>

lemma batch_spent_update_batches:
  assumes "update_batches now P f d = Inr (n, d')" and "\<And>r. P r \<Longrightarrow> batch_lease_version r \<le> batch_lease_version (f r)"
  shows "batch_spent k v d \<Longrightarrow> batch_spent k v d'" and "item_spent k v d \<Longrightarrow> item_spent k v d'"
  using batch_lease.spent_update [OF assms] update_result(8) [OF assms(1)]
  by (auto simp: batch_spent_def item_spent_def)

lemma item_spent_update_items:
  assumes "update_expiry_items now P f d = Inr (n, d')" and "\<And>i. P i \<Longrightarrow> ei_lease_version i \<le> ei_lease_version (f i)"
  shows "item_spent k v d \<Longrightarrow> item_spent k v d'" and "batch_spent k v d \<Longrightarrow> batch_spent k v d'"
  using item_lease.spent_update [OF assms] update_result(11) [OF assms(1)]
  by (auto simp: batch_spent_def item_spent_def)

definition spent_invariant :: "(shard_db \<Rightarrow> bool) \<Rightarrow> bool" where
  "spent_invariant I \<longleftrightarrow> (\<exists>k v. I = batch_spent k v \<or> I = item_spent k v)"

lemma spent_invariants [simp]: "spent_invariant (batch_spent k v)" "spent_invariant (item_spent k v)"
  unfolding spent_invariant_def by blast+

lemma spent_invariant_reads: "spent_invariant I \<Longrightarrow> reads_leases I"
  by (auto simp: spent_invariant_def)

lemma preserves_batch_updates:
  assumes "spent_invariant I" and "\<And>ctx r. batch_lease_version r \<le> batch_lease_version (f ctx r)"
  shows "preserves I (statement env (\<lambda>ctx. update_batches (sql_clock ctx) (P ctx) (f ctx)))"
  using assms by (intro preserves_statement)
    (auto simp: spent_invariant_def intro: batch_spent_update_batches)

lemma preserves_item_updates:
  assumes "spent_invariant I" and "\<And>ctx r. ei_lease_version r \<le> ei_lease_version (f ctx r)"
  shows "preserves I (statement env (\<lambda>ctx. update_expiry_items (sql_clock ctx) (P ctx) (f ctx)))"
  using assms by (intro preserves_statement)
    (auto simp: spent_invariant_def intro: item_spent_update_items)

lemma preserves_new_items:
  assumes "spent_invariant I"
  shows "preserves I (statement env (exec (\<lambda>ctx. insert_new_expiry_item (r ctx))))"
proof (rule preserves_exec)
  fix ctx d d' assume I: "I d" and ins: "insert_new_expiry_item (r ctx) d = Inr d'"
  then have "d' = d \<or> (d' = d\<lparr>card_expiry_run_items := card_expiry_run_items d @ [r ctx]\<rparr> \<and>
      expiry_item_key (r ctx) \<notin> expiry_item_key ` set (card_expiry_run_items d))"
    by (auto simp: insert_new_expiry_item_def insert_expiry_item_def checked_Inr no_key_iff split: if_splits)
  with I assms show "I d'"
    by (auto simp: spent_invariant_def batch_spent_def item_spent_def lease_spent_def)
qed

lemma preserves_schedule_loop:
  "spent_invariant I \<Longrightarrow> preserves I (schedule_loop env bank run holder cs)"
  by (induction cs) (auto intro!: preserves_intros other_tables preserves_new_items spent_invariant_reads)

lemma preserves_claims:
  assumes "spent_invariant I"
  shows "preserves I (statement env (update_claimed_batch claim bid))"
    and "preserves I (statement env (update_claimed_item claim iid))"
    and "preserves I (statement env (recover_items bank))"
  using assms
  by (auto intro!: preserves_statement simp: spent_invariant_def update_claimed_batch_def
      update_claimed_item_def recover_items_def map_sum_Inr_iff split: sum.splits prod.splits if_splits
      elim!: batch_spent_update_batches item_spent_update_items
      simp: claim_batch_def claim_item_def recover_item_def)

lemma preserves_batch_cards [other_tables]:
  assumes "reads_leases I"
  shows "preserves I (ignore_batch_card env batch holder item)" and "preserves I (apply_batch_card env batch holder item)"
  unfolding ignore_batch_card_def apply_batch_card_def item_outcome_def succeed_batch_operation_def audit_batch_def
  by (intro preserves_intros other_tables assms)+

lemma preserves_apply_loop [other_tables]: "reads_leases I \<Longrightarrow> preserves I (apply_batch_loop env batch holder a i items)"
  by (induction env batch holder a i items rule: apply_batch_loop.induct)
    (auto intro!: preserves_intros preserves_batch_cards)

lemma preserves_expire_card [other_tables]:
  "reads_leases I \<Longrightarrow> preserves I (expire_locked_card env item holder status)"
  unfolding expire_locked_card_def by (intro preserves_intros other_tables)

lemma preserves_leased_updates:
  assumes "spent_invariant I"
  shows "(\<And>ctx r. batch_lease_version (f ctx r) = batch_lease_version r) \<Longrightarrow>
      preserves I (update_leased_batch env batch holder f)"
    and "(\<And>ctx i. ei_lease_version (g ctx i) = ei_lease_version i) \<Longrightarrow>
      preserves I (update_leased_item env item holder g)"
  unfolding update_leased_batch_def update_leased_item_def
  by (intro preserves_intros preserves_batch_updates preserves_item_updates assms; simp)+


section \<open>The executor's steps\<close>

text \<open>
  One call of the executor's store, by any executor, in any environment (with any faults), as a
  step of the committed tables.
\<close>

inductive executor_step :: "shard_db \<Rightarrow> shard_db \<Rightarrow> bool" where
  claim_batch: "executor_step (durable w) (durable (snd (ClaimBatch env claim (w :: shard_world))))"
| recover_batches: "executor_step (durable w) (durable (snd (RecoverBatches env claim (w :: shard_world))))"
| apply_batch: "executor_step (durable w) (durable (snd (ApplyBatch env batch holder (w :: shard_world))))"
| requeue_batch: "executor_step (durable w) (durable (snd (RequeueBatch env batch holder code delay (w :: shard_world))))"
| fail_batch: "executor_step (durable w) (durable (snd (FailBatch env batch holder code (w :: shard_world))))"
| ensure_run: "executor_step (durable w) (durable (snd (EnsureExpiryRun env bank day holder (w :: shard_world))))"
| recover_items: "executor_step (durable w) (durable (snd (RecoverExpiryItems env claim (w :: shard_world))))"
| claim_item: "executor_step (durable w) (durable (snd (ClaimExpiryItem env claim (w :: shard_world))))"
| apply_item: "executor_step (durable w) (durable (snd (ApplyExpiryItem env item holder (w :: shard_world))))"
| requeue_item: "executor_step (durable w) (durable (snd (RequeueExpiryItem env item holder delay (w :: shard_world))))"
| fail_item: "executor_step (durable w) (durable (snd (FailExpiryItem env item holder (w :: shard_world))))"

lemmas spent_intros =
  preserves_intros other_tables spent_invariant_reads preserves_schedule_loop preserves_claims
  preserves_leased_updates

lemma batch_methods_preserve_spent:
  assumes I: "spent_invariant I" and d: "I (durable w)"
  shows "I (durable (snd (ClaimBatch env claim w)))" and "I (durable (snd (RecoverBatches env claim w)))"
    and "I (durable (snd (ApplyBatch env batch holder w)))"
    and "I (durable (snd (RequeueBatch env batch holder code delay w)))"
    and "I (durable (snd (FailBatch env batch holder code w)))"
  unfolding ClaimBatch_def RecoverBatches_def ApplyBatch_def RequeueBatch_def updateBatchLease_def FailBatch_def
    verifyBatchLease_def audit_batch_def
  by (rule preserves_transaction [where I = I, OF _ d],
      intro spent_intros preserves_batch_updates I;
      simp add: recover_batch_def requeue_batch_def succeed_batch_def fail_batch_def)+

lemma item_methods_preserve_spent:
  assumes I: "spent_invariant I" and d: "I (durable w)"
  shows "I (durable (snd (EnsureExpiryRun env bank day holder w)))"
    and "I (durable (snd (RecoverExpiryItems env claim w)))" and "I (durable (snd (ClaimExpiryItem env claim w)))"
    and "I (durable (snd (ApplyExpiryItem env item holder w)))"
    and "I (durable (snd (RequeueExpiryItem env item holder delay w)))"
    and "I (durable (snd (FailExpiryItem env item holder w)))"
  unfolding EnsureExpiryRun_def RecoverExpiryItems_def ClaimExpiryItem_def ApplyExpiryItem_def
    RequeueExpiryItem_def FailExpiryItem_def verifyExpiryLease_def
  by (rule preserves_transaction [where I = I, OF _ d],
      intro spent_intros I;
      simp add: finish_item_def requeue_item_def)+

lemma executor_step_spent: "executor_step d d' \<Longrightarrow> spent_invariant I \<Longrightarrow> I d \<Longrightarrow> I d'"
  by (induction rule: executor_step.induct)
    (auto intro: batch_methods_preserve_spent item_methods_preserve_spent)

interpretation batch_fence: machine "batch_spent k v" executor_step "batch_spent k v"
  by unfold_locales (simp_all, rule executor_step_spent [where I = "batch_spent k v"], simp_all)

interpretation item_fence: machine "item_spent k v" executor_step "item_spent k v"
  by unfold_locales (simp_all, rule executor_step_spent [where I = "item_spent k v"], simp_all)


section \<open>A lease completes at most once\<close>

lemma update_leased_batchE:
  assumes "update_leased_batch env batch holder f w = (Inr u, w')"
  obtains "update_batches (sql_clock (context_of env w)) (holds_batch_lease batch holder (sql_clock (context_of env w)))
      (f (context_of env w)) (view w) = Inr (Suc 0, view w')"
  using assms unfolding update_leased_batch_def
  by (auto elim!: andThen_InrE statement_InrE simp: ret_def throw_def split: if_splits)

lemma update_leased_itemE:
  assumes "update_leased_item env item holder f w = (Inr u, w')"
  obtains "update_expiry_items (sql_clock (context_of env w)) (holds_item_lease item holder (sql_clock (context_of env w)))
      (f (context_of env w)) (view w) = Inr (Suc 0, view w')"
  using assms unfolding update_leased_item_def
  by (auto elim!: andThen_InrE statement_InrE simp: ret_def throw_def split: if_splits)

lemma released_batch_spent:
  assumes "update_leased_batch env batch holder f w = (Inr u, w')" and "unique_key batch_key (card_status_batches (view w))"
    and "\<And>ctx r. batch_Status (f ctx r) \<noteq> ''processing''" and "\<And>ctx r. batch_lease_version (f ctx r) = batch_lease_version r"
  shows "batch_spent (exb_BankID batch, exb_ID batch) (exb_LeaseVersion batch) (view w')"
  using assms(1)
proof (rule update_leased_batchE)
  assume u: "update_batches (sql_clock (context_of env w)) (holds_batch_lease batch holder (sql_clock (context_of env w)))
      (f (context_of env w)) (view w) = Inr (Suc 0, view w')"
  show ?thesis unfolding batch_spent_def
    by (rule batch_lease.spent_release [OF u assms(2)]) (auto simp: holds_batch_lease_def batch_key_def assms(3,4))
qed

lemma released_item_spent:
  assumes "update_leased_item env item holder f w = (Inr u, w')" and "unique_key expiry_item_key (card_expiry_run_items (view w))"
    and "\<And>ctx i. ei_status (f ctx i) \<noteq> ''processing''" and "\<And>ctx i. ei_lease_version (f ctx i) = ei_lease_version i"
  shows "item_spent (exi_BankID item, exi_ID item) (exi_LeaseVersion item) (view w')"
  using assms(1)
proof (rule update_leased_itemE)
  assume u: "update_expiry_items (sql_clock (context_of env w)) (holds_item_lease item holder (sql_clock (context_of env w)))
      (f (context_of env w)) (view w) = Inr (Suc 0, view w')"
  show ?thesis unfolding item_spent_def
    by (rule item_lease.spent_release [OF u assms(2)]) (auto simp: holds_item_lease_def expiry_item_key_def assms(3,4))
qed

text \<open>A program that ends with a leased update and a commit spends its lease.\<close>

definition spends :: "(shard_db \<Rightarrow> bool) \<Rightarrow> (shard_db \<Rightarrow> bool) \<Rightarrow> ('m shard_world_scheme, 'a) prog \<Rightarrow> bool" where
  "spends U S m \<longleftrightarrow> (\<forall>w x w'. m w = (Inr x, w') \<longrightarrow> U (view w) \<longrightarrow> U (durable w) \<longrightarrow> S (durable w'))"

lemma spends_andThen_value:
  assumes "preserves U m" and "\<And>x w w'. m w = (Inr x, w') \<Longrightarrow> spends U S (f x)"
  shows "spends U S (andThen m f)"
  unfolding spends_def
proof (intro allI impI)
  fix w x w' assume "andThen m f w = (Inr x, w')" and U: "U (view w)" "U (durable w)"
  then obtain y w1 where m: "m w = (Inr y, w1)" and f: "f y w1 = (Inr x, w')" by (elim andThen_InrE)
  from preservesD [OF assms(1) m U] show "S (durable w')" using f assms(2) [OF m] unfolding spends_def by blast
qed

lemma spends_andThen: "preserves U m \<Longrightarrow> (\<And>x. spends U S (f x)) \<Longrightarrow> spends U S (andThen m f)"
  by (rule spends_andThen_value)

lemma spends_prod: "(\<And>a b. spends U S (f a b)) \<Longrightarrow> spends U S (case p of (a, b) \<Rightarrow> f a b)"
  by (cases p) simp

lemma spends_transaction:
  "spends U S m \<Longrightarrow> transaction env bank m w = (Inr x, w') \<Longrightarrow> U (durable w) \<Longrightarrow> S (durable w')"
  unfolding spends_def by (elim transaction_InrE) auto

abbreviation batch_keys_unique :: "shard_db \<Rightarrow> bool" where
  "batch_keys_unique d \<equiv> unique_key batch_key (card_status_batches d)"

abbreviation item_keys_unique :: "shard_db \<Rightarrow> bool" where
  "item_keys_unique d \<equiv> unique_key expiry_item_key (card_expiry_run_items d)"

lemma reads_leases_unique [simp]: "reads_leases batch_keys_unique" "reads_leases item_keys_unique"
  by (auto simp: reads_leases_def)

lemma spends_batch_lease:
  assumes "\<And>ctx r. batch_Status (f ctx r) \<noteq> ''processing''" and "\<And>ctx r. batch_lease_version (f ctx r) = batch_lease_version r"
  shows "spends batch_keys_unique (batch_spent (exb_BankID batch, exb_ID batch) (exb_LeaseVersion batch))
    (andThen (update_leased_batch env batch holder f) (\<lambda>_. Commit env))"
  unfolding spends_def
proof (intro allI impI, elim andThen_InrE)
  fix w w' w1 :: "'a shard_world_scheme" and u x :: unit
  assume "batch_keys_unique (view w)" and "update_leased_batch env batch holder f w = (Inr u, w1)"
    and "Commit env w1 = (Inr x, w')"
  then show "batch_spent (exb_BankID batch, exb_ID batch) (exb_LeaseVersion batch) (durable w')"
    using released_batch_spent [OF _ _ assms] by (auto elim!: Commit_InrE)
qed

lemma spends_item_lease:
  assumes "\<And>ctx i. ei_status (f ctx i) \<noteq> ''processing''" and "\<And>ctx i. ei_lease_version (f ctx i) = ei_lease_version i"
  shows "spends item_keys_unique (item_spent (exi_BankID item, exi_ID item) (exi_LeaseVersion item))
    (andThen (update_leased_item env item holder f) (\<lambda>_. andThen (completeExpiryRun env bank run) (\<lambda>_. Commit env)))"
  unfolding spends_def
proof (intro allI impI, elim andThen_InrE)
  fix w w' w1 w2 :: "'a shard_world_scheme" and u v x :: unit
  assume u: "item_keys_unique (view w)" and l: "update_leased_item env item holder f w = (Inr u, w1)"
    and c: "completeExpiryRun env bank run w1 = (Inr v, w2)" and "Commit env w2 = (Inr x, w')"
  then have "durable w' = view w2" by (auto elim: Commit_InrE)
  moreover have "card_expiry_run_items (view w2) = card_expiry_run_items (view w1)"
    using c unfolding completeExpiryRun_def Let_def by (auto elim!: statement_exec_rowsE dest!: update_result)
  ultimately show "item_spent (exi_BankID item, exi_ID item) (exi_LeaseVersion item) (durable w')"
    using released_item_spent [OF l u assms] by (simp add: item_spent_def)
qed

definition batch_completions ::
  "environment \<Rightarrow> Batch \<Rightarrow> string \<Rightarrow> ('m shard_world_scheme, unit) prog set" where
  "batch_completions env batch holder =
     {ApplyBatch env batch holder} \<union> {RequeueBatch env batch holder code delay | code delay. True} \<union>
     {FailBatch env batch holder code | code. True}"

definition item_completions ::
  "environment \<Rightarrow> ExpiryItem \<Rightarrow> string \<Rightarrow> ('m shard_world_scheme, unit) prog set" where
  "item_completions env item holder =
     {ApplyExpiryItem env item holder, FailExpiryItem env item holder} \<union>
     {RequeueExpiryItem env item holder delay | delay. True}"

lemma completed_batch_spent:
  assumes "m \<in> batch_completions env batch holder" and "m w = (Inr x, w')" and "batch_keys_unique (durable w)"
  shows "batch_spent (exb_BankID batch, exb_ID batch) (exb_LeaseVersion batch) (durable w')"
proof -
  let ?S = "batch_spent (exb_BankID batch, exb_ID batch) (exb_LeaseVersion batch)"
  consider (a) "m = ApplyBatch env batch holder" | (r) c t where "m = RequeueBatch env batch holder c t"
    | (f) c where "m = FailBatch env batch holder c"
    using assms(1) by (auto simp: batch_completions_def)
  then have "\<exists>body. m = transaction env (exb_BankID batch) body \<and> spends batch_keys_unique ?S body"
  proof cases
    case a
    show ?thesis unfolding a ApplyBatch_def verifyBatchLease_def
      by (intro exI conjI, rule refl)
        ((rule spends_prod | (rule spends_andThen, (intro preserves_intros other_tables reads_leases_unique; fail)))+,
         rule spends_batch_lease, simp_all add: succeed_batch_def)
  next
    case r
    show ?thesis unfolding r RequeueBatch_def updateBatchLease_def
      by (intro exI conjI, rule refl, rule spends_batch_lease) (simp_all add: requeue_batch_def)
  next
    case f
    show ?thesis unfolding f FailBatch_def verifyBatchLease_def audit_batch_def
      by (intro exI conjI, rule refl)
        ((rule spends_andThen, (intro preserves_intros other_tables reads_leases_unique; fail))+,
         rule spends_batch_lease, simp_all add: fail_batch_def)
  qed
  then obtain body where m: "m = transaction env (exb_BankID batch) body" and sp: "spends batch_keys_unique ?S body" by blast
  show ?thesis using assms(2,3) unfolding m by (rule spends_transaction [OF sp])
qed

lemma expire_locked_card_result:
  "expire_locked_card env item holder status w = (Inr r, w') \<Longrightarrow> r \<noteq> ''processing''"
  unfolding expire_locked_card_def by (auto simp: ret_def throw_def elim!: andThen_InrE split: if_splits)

lemma completed_item_spent:
  assumes "m \<in> item_completions env item holder" and "m w = (Inr x, w')" and "item_keys_unique (durable w)"
  shows "item_spent (exi_BankID item, exi_ID item) (exi_LeaseVersion item) (durable w')"
proof -
  let ?S = "item_spent (exi_BankID item, exi_ID item) (exi_LeaseVersion item)"
  consider (a) "m = ApplyExpiryItem env item holder" | (r) t where "m = RequeueExpiryItem env item holder t"
    using assms(1) by (auto simp: item_completions_def FailExpiryItem_def)
  then have "\<exists>body. m = transaction env (exi_BankID item) body \<and> spends item_keys_unique ?S body"
  proof cases
    case a
    show ?thesis unfolding a ApplyExpiryItem_def verifyExpiryLease_def
      by (intro exI conjI, rule refl)
        (rule spends_andThen, (intro preserves_intros other_tables reads_leases_unique; fail),
         rule spends_andThen, (intro preserves_intros other_tables reads_leases_unique; fail),
         rule spends_andThen_value, (intro preserves_intros other_tables reads_leases_unique; fail),
         (rule spends_andThen, (intro preserves_intros other_tables reads_leases_unique; fail))+,
         rule spends_item_lease, simp_all add: finish_item_def expire_locked_card_result)
  next
    case r
    show ?thesis unfolding r RequeueExpiryItem_def
      by (intro exI conjI, rule refl, rule spends_item_lease) (simp_all add: requeue_item_def requeue_status_def)
  qed
  then obtain body where m: "m = transaction env (exi_BankID item) body" and sp: "spends item_keys_unique ?S body" by blast
  show ?thesis using assms(2,3) unfolding m by (rule spends_transaction [OF sp])
qed


lemma no_batch_holds_spent:
  assumes "batch_spent (exb_BankID batch, exb_ID batch) (exb_LeaseVersion batch) d" and "r \<in> set (card_status_batches d)"
  shows "\<not> holds_batch_lease batch holder now r"
  using batch_lease.spent_not_held [OF assms(1) [unfolded batch_spent_def] assms(2)]
  by (auto simp: holds_batch_lease_def batch_key_def)

lemma no_item_holds_spent:
  assumes "item_spent (exi_BankID item, exi_ID item) (exi_LeaseVersion item) d" and "i \<in> set (card_expiry_run_items d)"
  shows "\<not> holds_item_lease item holder now i"
  using item_lease.spent_not_held [OF assms(1) [unfolded item_spent_def] assms(2)]
  by (auto simp: holds_item_lease_def expiry_item_key_def)

lemma guarded_update_none:
  "(\<And>r. r \<in> set rows \<Longrightarrow> \<not> P r) \<Longrightarrow> guarded_update g P f rows = Inr (0, rows)"
  by (simp add: guarded_update_Inr affected_def update_where_none filter_empty_conv)

text \<open>A program that fails at once with an error, on every world whose view satisfies \<open>S\<close>.\<close>

definition refuses :: "(shard_db \<Rightarrow> bool) \<Rightarrow> go_error \<Rightarrow> ('m shard_world_scheme, 'a) prog \<Rightarrow> bool" where
  "refuses S e m \<longleftrightarrow> (\<forall>w. S (view w) \<longrightarrow> (\<exists>w'. m w = (Inl e, w') \<and> durable w' = durable w))"

lemma refuses_andThen: "refuses S e m \<Longrightarrow> refuses S e (andThen m f)"
  by (fastforce simp: refuses_def andThen_def)

lemma refuses_transaction:
  assumes "refuses S e m" and "no_faults env" and "S (durable w)"
  shows "\<exists>w'. transaction env bank m w = (Inl e, w') \<and> durable w' = durable w"
proof -
  let ?w = "w\<lparr>view := durable w, tx_start := clock_timestamp env (tick w), tick := Suc (Suc (tick w))\<rparr>"
  have "S (view ?w)" using assms(3) by simp
  then obtain w' where "m ?w = (Inl e, w')" "durable w' = durable ?w"
    using assms(1) unfolding refuses_def by metis
  then show ?thesis
    by (simp add: transaction_def andThen_def beginTenant_run [OF assms(2)] deferred_def)
qed

lemma stale_batch_statements:
  assumes "no_faults env"
  shows "refuses (batch_spent (exb_BankID batch, exb_ID batch) (exb_LeaseVersion batch)) ErrStale
      (verifyBatchLease env batch holder)"
    and "refuses (batch_spent (exb_BankID batch, exb_ID batch) (exb_LeaseVersion batch)) ErrStale
      (update_leased_batch env batch holder f)"
  using assms no_batch_holds_spent unfolding refuses_def
  by (auto simp: verifyBatchLease_def update_leased_batch_def andThen_def statement_def read_only_def throw_def
      exists_row_iff update_batches_def guarded_update_none)

lemma stale_item_statements:
  assumes "no_faults env"
  shows "refuses (item_spent (exi_BankID item, exi_ID item) (exi_LeaseVersion item)) ErrStale
      (verifyExpiryLease env item holder)"
    and "refuses (item_spent (exi_BankID item, exi_ID item) (exi_LeaseVersion item)) ErrStale
      (update_leased_item env item holder f)"
  using assms no_item_holds_spent unfolding refuses_def
  by (auto simp: verifyExpiryLease_def update_leased_item_def andThen_def statement_def read_only_def throw_def
      exists_row_iff update_expiry_items_def guarded_update_none)

lemma spent_batch_refused:
  assumes "m \<in> batch_completions env batch holder" and "no_faults env"
    and "batch_spent (exb_BankID batch, exb_ID batch) (exb_LeaseVersion batch) (durable w)"
  shows "\<exists>w'. m w = (Inl ErrStale, w') \<and> durable w' = durable w"
  using assms(1) unfolding batch_completions_def ApplyBatch_def RequeueBatch_def updateBatchLease_def FailBatch_def
  by (auto intro!: refuses_transaction [where S = "batch_spent (exb_BankID batch, exb_ID batch) (exb_LeaseVersion batch)",
        OF _ assms(2,3)] refuses_andThen stale_batch_statements [OF assms(2)])

lemma spent_item_refused:
  assumes "m \<in> item_completions env item holder" and "no_faults env"
    and "item_spent (exi_BankID item, exi_ID item) (exi_LeaseVersion item) (durable w)"
  shows "\<exists>w'. m w = (Inl ErrStale, w') \<and> durable w' = durable w"
  using assms(1) unfolding item_completions_def ApplyExpiryItem_def RequeueExpiryItem_def FailExpiryItem_def
  by (auto intro!: refuses_transaction [where S = "item_spent (exi_BankID item, exi_ID item) (exi_LeaseVersion item)",
        OF _ assms(2,3)] refuses_andThen stale_item_statements [OF assms(2)])


text \<open>
  C12. Fencing of batches: once a batch lease was completed (applied, requeued or failed), no
  completion under the same lease version succeeds any more, by whatever holder and whatever the
  executors did in between (claims, recoveries, other completions, with any faults): it reports
  \<open>ErrStale\<close> and changes nothing.
\<close>

theorem completed_batch_lease_is_fenced:
  fixes w w' w2 :: shard_world
  assumes "m \<in> batch_completions env batch holder" and "m w = (Inr (), w')"
    and "unique_key batch_key (card_status_batches (durable w))"
    and "executor_step\<^sup>*\<^sup>* (durable w') (durable w2)"
    and "m2 \<in> batch_completions env2 batch holder2" and "no_faults env2"
  shows "\<exists>w3. m2 w2 = (Inl ErrStale, w3) \<and> durable w3 = durable w2"
proof (rule spent_batch_refused [OF assms(5,6)])
  show "batch_spent (exb_BankID batch, exb_ID batch) (exb_LeaseVersion batch) (durable w2)"
    using batch_fence.inv_rtranclp [OF assms(4)] completed_batch_spent [OF assms(1-3)] .
qed

text \<open>
  Fencing of expiry items: the same for an expiry item that was applied, requeued or failed.
\<close>

theorem completed_item_lease_is_fenced:
  fixes w w' w2 :: shard_world
  assumes "m \<in> item_completions env item holder" and "m w = (Inr (), w')"
    and "unique_key expiry_item_key (card_expiry_run_items (durable w))"
    and "executor_step\<^sup>*\<^sup>* (durable w') (durable w2)"
    and "m2 \<in> item_completions env2 item holder2" and "no_faults env2"
  shows "\<exists>w3. m2 w2 = (Inl ErrStale, w3) \<and> durable w3 = durable w2"
proof (rule spent_item_refused [OF assms(5,6)])
  show "item_spent (exi_BankID item, exi_ID item) (exi_LeaseVersion item) (durable w2)"
    using item_fence.inv_rtranclp [OF assms(4)] completed_item_spent [OF assms(1-3)] .
qed


section \<open>A sample lease\<close>

definition leased_batch_row :: batch_row where
  "leased_batch_row = \<lparr>batch_ID = ''batch'', batch_TargetStatus = ''suspended'', batch_Reason = ''review'',
     batch_CreatedBy = ''op'', batch_RequesterRole = ''issuer_operator'', batch_Status = ''processing'',
     batch_ItemCount = 1, batch_AppliedCount = 0, batch_IgnoredCount = 0, batch_FailureCode = None,
     batch_FailureSummary = None, batch_RetryOfBatchID = None, batch_CreatedAt = 0, batch_UpdatedAt = 0,
     batch_CompletedAt = None, batch_entity = ''bank'', batch_requester_entity_id = None,
     batch_request_id = ''req'', batch_idempotency_record_id = ''rec'', batch_attempt_count = 1,
     batch_next_attempt_at = 0, batch_lease_owner = Some ''exec'', batch_lease_expires_at = Some 9000,
     batch_lease_version = 1, batch_started_at = Some 0, batch_created_by = ''op'', batch_updated_by = ''op''\<rparr>"

definition sample_lease :: Batch where
  "sample_lease = \<lparr>exb_ID = ''batch'', exb_BankID = ''bank'', exb_TargetStatus = ''suspended'', exb_Reason = ''review'',
     exb_RequestedBy = ''op'', exb_RequesterRole = ''issuer_operator'', exb_RequesterBankID = '''',
     exb_RequestID = ''req'', exb_ItemCount = 1, exb_AttemptCount = 1, exb_LeaseVersion = 1\<rparr>"

definition sample_lease_claim :: Claim where
  "sample_lease_claim = \<lparr>clm_BankID = ''bank'', clm_Owner = ''other'', clm_LeaseDuration = 100\<rparr>"

definition leased_batch_db :: shard_db where
  "leased_batch_db = sample_db\<lparr>card_status_batches := [leased_batch_row]\<rparr>"

lemma sample_requeue_runs:
  "\<exists>w'. RequeueBatch sample_env sample_lease ''exec'' ''dependency_unavailable'' 5 (sample_world leased_batch_db) = (Inr (), w')"
  by (simp add: RequeueBatch_def updateBatchLease_def transaction_def andThen_def deferred_def beginTenant_run
      update_leased_batch_def statement_def update_batches_def guarded_update_def checked.simps holds_batch_lease_def
      sample_lease_def leased_batch_db_def leased_batch_row_def sample_world_def current_at_def
      requeue_batch_def guard_batch_request_def guard_batch_state_def batch_next_states_def batch_results_ok_def
      batch_key_def batch_checks_def is_card_state_def btrim_nonempty_def failure_code_ok_def failure_summary_ok_def
      actor_context_def safeBatchCode_def requeue_summary_def affected_def update_where_def ret_def Commit_def Let_def)

theorem completed_batch_lease_is_fenced_witness:
  "\<exists>w' w3. RequeueBatch sample_env sample_lease ''exec'' ''dependency_unavailable'' 5 (sample_world leased_batch_db) = (Inr (), w') \<and>
     ApplyBatch sample_env sample_lease ''exec'' (snd (ClaimBatch sample_env sample_lease_claim w')) = (Inl ErrStale, w3)"
proof -
  obtain w' where r: "RequeueBatch sample_env sample_lease ''exec'' ''dependency_unavailable'' 5 (sample_world leased_batch_db) = (Inr (), w')"
    using sample_requeue_runs by blast
  let ?w2 = "snd (ClaimBatch sample_env sample_lease_claim w')"
  have u: "unique_key batch_key (card_status_batches (durable (sample_world leased_batch_db)))"
    by (simp add: sample_world_def leased_batch_db_def unique_key_def)
  have s: "executor_step\<^sup>*\<^sup>* (durable w') (durable ?w2)"
    by (rule r_into_rtranclp, rule executor_step.claim_batch)
  have c: "RequeueBatch sample_env sample_lease ''exec'' ''dependency_unavailable'' 5 \<in> batch_completions sample_env sample_lease ''exec''"
      "ApplyBatch sample_env sample_lease ''exec'' \<in> batch_completions sample_env sample_lease ''exec''"
    by (auto simp: batch_completions_def)
  show ?thesis
    using completed_batch_lease_is_fenced [OF c(1) r u s c(2) sample_env_no_faults(1)] r by blast
qed

definition leased_item_row :: expiry_item_row where
  "leased_item_row = \<lparr>ei_entity = ''bank'', ei_id = ''item'', ei_expiry_run_id = ''run'', ei_card_id = ''card'',
     ei_operation_id = ''oper'', ei_status = ''processing'', ei_attempt_count = 0, ei_automatic_retry_count = 0,
     ei_manual_retry_count = 0, ei_next_attempt_at = 0, ei_lease_owner = Some ''exec'', ei_lease_expires_at = Some 9000,
     ei_lease_version = 1, ei_failure_code = None, ei_manual_retry_by = None, ei_manual_retry_at = None,
     ei_created_at = 0, ei_updated_at = 0\<rparr>"

definition open_run_row :: expiry_run_row where
  "open_run_row = \<lparr>er_entity = ''bank'', er_id = ''run'', er_run_date = 0, er_status = ''processing'', er_item_count = 1,
     er_expired_count = 0, er_skipped_already_expired_count = 0, er_manual_retry_required_count = 0,
     er_executor_identity = ''exec'', er_created_at = 0, er_updated_at = 0, er_completed_at = None\<rparr>"

definition sample_item :: ExpiryItem where
  "sample_item = \<lparr>exi_ID = ''item'', exi_RunID = ''run'', exi_BankID = ''bank'', exi_CardID = ''card'',
     exi_OperationID = ''oper'', exi_LeaseVersion = 1, exi_AutomaticRetry = 0\<rparr>"

definition leased_item_db :: shard_db where
  "leased_item_db = sample_db\<lparr>card_expiry_runs := [open_run_row], card_expiry_run_items := [leased_item_row]\<rparr>"

lemma sample_fail_item_runs:
  "\<exists>w'. FailExpiryItem sample_env sample_item ''exec'' (sample_world leased_item_db) = (Inr (), w')"
  by (simp add: FailExpiryItem_def RequeueExpiryItem_def transaction_def andThen_def deferred_def beginTenant_run
      update_leased_item_def statement_def update_expiry_items_def guarded_update_def checked.simps holds_item_lease_def
      sample_item_def leased_item_db_def leased_item_row_def sample_world_def current_at_def
      requeue_item_def requeue_status_def guard_expiry_run_item_def exists_row_def expiry_run_key_def expiry_item_key_def
      open_run_row_def expiry_item_checks_def terminal_expiry_states_def affected_def update_where_def ret_def
      completeExpiryRun_def exec_rows_def update_expiry_runs_def expiry_items_of_def Commit_def Let_def)

theorem completed_item_lease_is_fenced_witness:
  "\<exists>w' w3. FailExpiryItem sample_env sample_item ''exec'' (sample_world leased_item_db) = (Inr (), w') \<and>
     ApplyExpiryItem sample_env sample_item ''exec'' (snd (ClaimExpiryItem sample_env sample_lease_claim w')) = (Inl ErrStale, w3)"
proof -
  obtain w' where r: "FailExpiryItem sample_env sample_item ''exec'' (sample_world leased_item_db) = (Inr (), w')"
    using sample_fail_item_runs by blast
  let ?w2 = "snd (ClaimExpiryItem sample_env sample_lease_claim w')"
  have u: "unique_key expiry_item_key (card_expiry_run_items (durable (sample_world leased_item_db)))"
    by (simp add: sample_world_def leased_item_db_def unique_key_def)
  have s: "executor_step\<^sup>*\<^sup>* (durable w') (durable ?w2)"
    by (rule r_into_rtranclp, rule executor_step.claim_item)
  have c: "FailExpiryItem sample_env sample_item ''exec'' \<in> item_completions sample_env sample_item ''exec''"
      "ApplyExpiryItem sample_env sample_item ''exec'' \<in> item_completions sample_env sample_item ''exec''"
    by (auto simp: item_completions_def)
  show ?thesis
    using completed_item_lease_is_fenced [OF c(1) r u s c(2) sample_env_no_faults(1)] r by blast
qed

end
