(* ===== verification/Executor_Batches.thy ===== *)
theory Executor_Batches
  imports Executor_Leases
begin

text \<open>
  What the executor does to the cards: the effect of an applied batch, of a failed one and of an
  applied expiry item, the atomicity of every method, and the claim protocol.
\<close>

section \<open>The items of a batch\<close>

lemma batch_status_change_fields [simp]:
  "card_key (batch_status_change target actor ctx r) = card_key r"
  "card_Status (batch_status_change target actor ctx r) = target"
  by (simp_all add: batch_status_change_def card_key_def)

lemma succeed_batch_operationE:
  assumes "succeed_batch_operation env batch holder oid w = (Inr u, w')"
  obtains ops where "view w' = (view w)\<lparr>card_operations := ops\<rparr>"
  using assms unfolding succeed_batch_operation_def
  by (auto elim!: statement_exec_rowsE dest!: update_result)

lemma item_outcomeE:
  assumes "item_outcome env bank iid f w = (Inr u, w')"
  obtains "view w' = (view w)\<lparr>card_status_batch_items :=
      update_where (\<lambda>i. bi_entity i = bank \<and> bi_id i = iid \<and> bi_outcome i = ''pending'') f
        (card_status_batch_items (view w))\<rparr>"
  using assms unfolding item_outcome_def
  by (auto elim!: statement_exec_rowsE dest!: update_result)

text \<open>The cards and the status log after one item.\<close>

lemma ignore_batch_cardE:
  assumes "ignore_batch_card env batch holder item w = (Inr u, w')"
  shows "cards (view w') = cards (view w)" and "card_status_history (view w') = card_status_history (view w)"
  using assms unfolding ignore_batch_card_def audit_batch_def
  by (auto elim!: andThen_InrE item_outcomeE succeed_batch_operationE insertAuditE)

lemma apply_batch_cardE:
  assumes "apply_batch_card env batch holder item w = (Inr u, w')"
  obtains h ctx where "cards (view w') = update_where
        (\<lambda>r. card_entity r = exb_BankID batch \<and> card_ID r = bc_cardID item)
        (batch_status_change (exb_TargetStatus batch) (exb_RequestedBy batch) ctx) (cards (view w))"
    and "card_status_history (view w') = card_status_history (view w) @ [h]"
    and "log_entry h = (bc_cardID item, bc_status item, exb_TargetStatus batch)"
  using assms unfolding apply_batch_card_def audit_batch_def
  by (auto elim!: andThen_InrE item_outcomeE succeed_batch_operationE insertAuditE insertStatusHistoryE
      statement_exec_rowsE dest!: update_result)

definition changed_items :: "(batch_card \<times> bool) list \<Rightarrow> batch_card list" where
  "changed_items items = map fst (filter (\<lambda>p. \<not> snd p) items)"

lemma changed_items_simps [simp]:
  "changed_items [] = []"
  "changed_items ((item, ignored) # rest) = (if ignored then changed_items rest else item # changed_items rest)"
  by (simp_all add: changed_items_def)

text \<open>
  The effect of a batch on the cards and on the status log: the changed cards have the target
  status, no other card changed, and the log grew by one entry per changed card, in order.
\<close>

definition batch_effect :: "Batch \<Rightarrow> batch_card list \<Rightarrow> shard_db \<Rightarrow> shard_db \<Rightarrow> bool" where
  "batch_effect batch changed d d' \<longleftrightarrow>
     (\<forall>k x. card_status_of d' k x =
        (if k = exb_BankID batch \<and> x \<in> bc_cardID ` set changed \<and> card_status_of d k x \<noteq> None
         then Some (exb_TargetStatus batch) else card_status_of d k x)) \<and>
     (\<exists>hs. card_status_history d' = card_status_history d @ hs \<and>
        map log_entry hs = map (\<lambda>i. (bc_cardID i, bc_status i, exb_TargetStatus batch)) changed)"

lemma batch_effect_same:
  "cards d' = cards d \<Longrightarrow> card_status_history d' = card_status_history d \<Longrightarrow> batch_effect batch [] d d'"
  by (simp add: batch_effect_def card_status_of_def)

lemma batch_effect_cong:
  assumes "cards d1 = cards d" "card_status_history d1 = card_status_history d" and "batch_effect batch cs d1 d'"
  shows "batch_effect batch cs d d'"
  using assms unfolding batch_effect_def card_status_of_def by simp

lemma batch_effect_Cons:
  assumes c: "cards d1 = update_where (\<lambda>r. card_entity r = exb_BankID batch \<and> card_ID r = bc_cardID item)
        (batch_status_change (exb_TargetStatus batch) actor ctx) (cards d)"
    and h: "card_status_history d1 = card_status_history d @ [h]"
    and l: "log_entry h = (bc_cardID item, bc_status item, exb_TargetStatus batch)"
    and e: "batch_effect batch cs d1 d'"
  shows "batch_effect batch (item # cs) d d'"
proof -
  have s: "card_status_of d1 k x =
      (if (k, x) = (exb_BankID batch, bc_cardID item) \<and> card_status_of d k x \<noteq> None
       then Some (exb_TargetStatus batch) else card_status_of d k x)" for k x
    by (rule card_status_of_change [OF c]) (simp_all add: card_key_def batch_status_change_def)
  obtain hs where "card_status_history d' = card_status_history d1 @ hs"
      "map log_entry hs = map (\<lambda>i. (bc_cardID i, bc_status i, exb_TargetStatus batch)) cs"
    using e unfolding batch_effect_def by blast
  then have "card_status_history d' = card_status_history d @ (h # hs) \<and>
      map log_entry (h # hs) = map (\<lambda>i. (bc_cardID i, bc_status i, exb_TargetStatus batch)) (item # cs)"
    using h l by simp
  moreover have "card_status_of d' k x =
      (if k = exb_BankID batch \<and> x \<in> bc_cardID ` set (item # cs) \<and> card_status_of d k x \<noteq> None
       then Some (exb_TargetStatus batch) else card_status_of d k x)" for k x
  proof -
    have "card_status_of d' k x =
      (if k = exb_BankID batch \<and> x \<in> bc_cardID ` set cs \<and> card_status_of d1 k x \<noteq> None
       then Some (exb_TargetStatus batch) else card_status_of d1 k x)"
      using e unfolding batch_effect_def by blast
    then show ?thesis unfolding s by (auto split: if_splits)
  qed
  ultimately show ?thesis unfolding batch_effect_def by blast
qed

lemma apply_batch_loop_effect:
  assumes "apply_batch_loop env batch holder a g items w = (Inr (applied, ignored), w')"
  shows "applied = a + length (changed_items items) \<and> ignored + length (changed_items items) = g + length items \<and>
    batch_effect batch (changed_items items) (view w) (view w')"
  using assms
proof (induction env batch holder a g items arbitrary: w rule: apply_batch_loop.induct)
  case (1 env batch holder a g)
  then show ?case by (simp add: ret_def batch_effect_same)
next
  case (2 env batch holder a g item item_ignored rest)
  show ?case
  proof (cases item_ignored)
    case True
    with 2 obtain u w1 where i: "ignore_batch_card env batch holder item w = (Inr u, w1)"
      and r: "apply_batch_loop env batch holder a (Suc g) rest w1 = (Inr (applied, ignored), w')"
      by (auto elim!: andThen_InrE)
    show ?thesis
      using "2.IH"(1) [OF True r] batch_effect_cong [OF ignore_batch_cardE [OF i]] True by simp
  next
    case False
    with 2 obtain u w1 where i: "apply_batch_card env batch holder item w = (Inr u, w1)"
      and r: "apply_batch_loop env batch holder (Suc a) g rest w1 = (Inr (applied, ignored), w')"
      by (auto elim!: andThen_InrE)
    from i show ?thesis
      using "2.IH"(2) [OF False r] False by (elim apply_batch_cardE) (simp add: batch_effect_Cons)
  qed
qed


lemma scan_batch_cards_Inr:
  "scan_batch_cards target rows = Inr items \<Longrightarrow>
   map fst items = rows \<and> (\<forall>p \<in> set items. CanTransition (bc_status (fst p)) target = (True, snd p))"
proof (induction rows arbitrary: items)
  case (Cons v rows)
  obtain valid ignored where "CanTransition (bc_status v) target = (valid, ignored)" by (cases rule: prod.exhaust)
  with Cons show ?case by (fastforce simp: map_sum_Inr_iff split: if_splits)
qed simp

lemma changed_items_scan:
  assumes "scan_batch_cards target rows = Inr items"
  shows "changed_items items = filter (\<lambda>v. bc_status v \<noteq> target) rows" and "length items = length rows"
proof -
  have "snd p \<longleftrightarrow> bc_status (fst p) = target" if "p \<in> set items" for p
    using bspec [OF conjunct2 [OF scan_batch_cards_Inr [OF assms]] that]
    by (auto simp: CanTransition_def CanTransition_loop_iff split: if_splits)
  then have "filter (\<lambda>p. \<not> snd p) items = filter (\<lambda>p. bc_status (fst p) \<noteq> target) items" by (intro filter_cong) auto
  then show "changed_items items = filter (\<lambda>v. bc_status v \<noteq> target) rows"
    using scan_batch_cards_Inr [OF assms] by (auto simp: changed_items_def filter_map comp_def)
  show "length items = length rows" using scan_batch_cards_Inr [OF assms] by (metis length_map)
qed

lemma update_leased_batch_row:
  assumes "update_leased_batch env batch holder f w = (Inr u, w')"
  obtains b ctx where "b \<in> set (card_status_batches (view w))" and "f ctx b \<in> set (card_status_batches (view w'))"
    and "batch_key b = (exb_BankID batch, exb_ID batch)" and "batch_Status b = ''processing''"
    and "batch_results_ok (view w) b (f ctx b) \<or> batch_Status (f ctx b) = ''processing''"
    and "batch_key (f ctx b) = batch_key b"
    and "cards (view w') = cards (view w)" and "card_status_history (view w') = card_status_history (view w)"
    and "card_status_batch_items (view w') = card_status_batch_items (view w)"
  using assms
proof (rule update_leased_batchE)
  let ?c = "context_of env w" and ?P = "holds_batch_lease batch holder (sql_clock (context_of env w))"
  assume u: "update_batches (sql_clock ?c) ?P (f ?c) (view w) = Inr (Suc 0, view w')"
  note r = update_result(8) [OF u]
  have "affected ?P (card_status_batches (view w)) \<noteq> 0" using r by simp
  then obtain b where b: "b \<in> set (card_status_batches (view w))" "?P b"
    using affected_pos [of ?P "card_status_batches (view w)"] by auto
  have "f ?c b \<in> set (card_status_batches (view w'))" using r b by (auto simp: set_update_where)
  moreover have "batch_results_ok (view w) b (f ?c b) \<or> batch_Status (f ?c b) = ''processing''"
      and "batch_key (f ?c b) = batch_key b"
    using guarded_update_conditions [OF u [unfolded update_batches_def] b] b(2)
    by (auto simp: guard_batch_state_def holds_batch_lease_def split: if_splits)
  ultimately show thesis using that [OF b(1)] b(2) r by (simp add: holds_batch_lease_def batch_key_def)
qed

lemma in_batch_cards:
  "v \<in> set (batch_cards bank batch d) \<longleftrightarrow> (\<exists>i \<in> set (batch_items_of d bank batch). \<exists>c \<in> set (cards d).
     card_key c = (bank, bi_card_id i) \<and> v = \<lparr>bc_id = bi_id i, bc_cardID = bi_card_id i,
       bc_operationID = bi_operation_id i, bc_status = card_Status c\<rparr>)"
  by (auto simp: batch_cards_def batch_items_of_def)


section \<open>Applied batches\<close>

lemma ApplyBatchE:
  fixes w w' :: "'m shard_world_scheme"
  assumes "ApplyBatch env batch holder w = (Inr u, w')"
  obtains items b' where "scan_batch_cards (exb_TargetStatus batch) (batch_cards (exb_BankID batch) (exb_ID batch) (durable w)) = Inr items"
    and "batch_effect batch (changed_items items) (durable w) (durable w')"
    and "b' \<in> set (card_status_batches (durable w'))" and "batch_key b' = (exb_BankID batch, exb_ID batch)"
    and "batch_Status b' = ''succeeded''" and "batch_AppliedCount b' = length (changed_items items)"
    and "batch_IgnoredCount b' + length (changed_items items) = length items"
    and "batch_AppliedCount b' + batch_IgnoredCount b' = batch_ItemCount b'"
    and "list_all (\<lambda>i. bi_outcome i \<in> {''applied'', ''ignored''}) (batch_items_of (durable w') (exb_BankID batch) (exb_ID batch))"
  using assms unfolding ApplyBatch_def
proof (elim transaction_InrE andThen_InrE)
  let ?rows = "batch_cards (exb_BankID batch) (exb_ID batch)"
  fix w0 w1 w2 w3 w4 w5 wz :: "'m shard_world_scheme" and u0 u1 u2 rows items p
  assume v: "view w0 = durable w" and ver: "verifyBatchLease env batch holder w0 = (Inr u0, w1)"
    and rd: "statement env (read_only (\<lambda>d. Inr (?rows d))) w1 = (Inr rows, w2)"
    and sc: "liftResult (scan_batch_cards (exb_TargetStatus batch) rows) w2 = (Inr items, w3)"
    and lp: "apply_batch_loop env batch holder 0 0 items w3 = (Inr p, w4)"
    and fin: "(case p of (applied, ignored) \<Rightarrow>
         andThen (update_leased_batch env batch holder (succeed_batch applied ignored)) (\<lambda>_. Commit env)) w4 = (Inr u, wz)"
    and w': "w' = Rollback wz"
  have v1: "view w1 = durable w" using ver v unfolding verifyBatchLease_def
    by (auto elim!: andThen_InrE statement_InrE simp: read_only_Inr ret_def throw_def split: if_splits)
  have s: "scan_batch_cards (exb_TargetStatus batch) (?rows (durable w)) = Inr items" and v3: "view w3 = durable w"
    using rd sc v1 by (auto elim!: statement_readE simp: liftResult_def)
  obtain applied ignored where p: "p = (applied, ignored)" by (cases p)
  note e = apply_batch_loop_effect [OF lp [unfolded p]]
  from fin obtain u1 w5 where l: "update_leased_batch env batch holder (succeed_batch applied ignored) w4 = (Inr u1, w5)"
    and c: "Commit env w5 = (Inr u, wz)" unfolding p by (auto elim!: andThen_InrE)
  have d: "durable w' = view w5" using c w' by (auto elim: Commit_InrE)
  from l show thesis
  proof (rule update_leased_batch_row)
    fix b ctx
    let ?b = "succeed_batch applied ignored ctx b"
    assume b: "?b \<in> set (card_status_batches (view w5))" "batch_key b = (exb_BankID batch, exb_ID batch)"
      "batch_results_ok (view w4) b ?b \<or> batch_Status ?b = ''processing''" "batch_key ?b = batch_key b"
      and same: "cards (view w5) = cards (view w4)" "card_status_history (view w5) = card_status_history (view w4)"
      "card_status_batch_items (view w5) = card_status_batch_items (view w4)"
    have k: "batch_entity b = exb_BankID batch" "batch_ID b = exb_ID batch" using b(2) by (simp_all add: batch_key_def)
    have f: "batch_Status ?b = ''succeeded''" "batch_AppliedCount ?b = applied" "batch_IgnoredCount ?b = ignored"
      by (simp_all add: succeed_batch_def)
    have ok: "batch_results_ok (view w4) b ?b" using b(3) f by simp
    then have n: "applied + ignored = batch_ItemCount ?b"
      and o: "list_all (\<lambda>i. bi_outcome i \<in> {''applied'', ''ignored''}) (batch_items_of (view w4) (exb_BankID batch) (exb_ID batch))"
      using f by (simp_all add: batch_results_ok_def Let_def succeed_batch_def k)
    have eff: "batch_effect batch (changed_items items) (durable w) (durable w')"
      using e v3 d same unfolding batch_effect_def card_status_of_def by simp
    show thesis
      by (rule that [OF s eff, of ?b]) (use b f n o e d same in \<open>simp_all add: batch_items_of_def\<close>)
  qed
qed


lemma batch_card_status:
  assumes "unique_key card_key (cards d)" and "v \<in> set (batch_cards bank batch d)"
  shows "card_status_of d bank (bc_cardID v) = Some (bc_status v)"
    and "bc_cardID v \<in> bi_card_id ` set (batch_items_of d bank batch)"
proof -
  obtain i c where i: "i \<in> set (batch_items_of d bank batch)" and c: "c \<in> set (cards d)"
    "card_key c = (bank, bi_card_id i)" and v: "bc_cardID v = bi_card_id i" "bc_status v = card_Status c"
    using assms(2) by (auto simp: in_batch_cards)
  have "query_row (\<lambda>r. card_key r = (bank, bi_card_id i)) (cards d) = Some c"
    using assms(1) c by (intro query_row_unique [of card_key]) auto
  then show "card_status_of d bank (bc_cardID v) = Some (bc_status v)" by (simp add: card_status_of_def v)
  show "bc_cardID v \<in> bi_card_id ` set (batch_items_of d bank batch)" using i v by auto
qed

lemma batch_item_card:
  assumes "i \<in> set (batch_items_of d bank batch)" and "card_status_of d bank (bi_card_id i) = Some s"
  obtains v where "v \<in> set (batch_cards bank batch d)" and "bc_cardID v = bi_card_id i" and "bc_status v = s"
proof -
  obtain c where q: "query_row (\<lambda>r. card_key r = (bank, bi_card_id i)) (cards d) = Some c" and s: "card_Status c = s"
    using assms(2) by (auto simp: card_status_of_def)
  let ?v = "\<lparr>bc_id = bi_id i, bc_cardID = bi_card_id i, bc_operationID = bi_operation_id i, bc_status = s\<rparr>"
  have "?v \<in> set (batch_cards bank batch d)"
    using query_row_Some [OF q] assms(1) s by (auto simp: in_batch_cards)
  then show thesis by (rule that) simp_all
qed



definition batch_db :: shard_db where
  "batch_db = sample_db\<lparr>
     cards := [\<lparr>card_ID = ''card'', card_ClientID = ''client'', card_AccountReferenceID = ''account'',
       card_ProductID = ''product'', card_Status = ''active'', card_MaskedPAN = None,
       card_PredecessorCardID = None, card_IssuedAt = None, card_ActivatedAt = None, card_SuspendedAt = None,
       card_ClosedAt = None, card_ExpiresAt = None, card_Version = 1, card_CreatedAt = 0, card_UpdatedAt = 0,
       card_entity = ''bank'', card_created_by = ''op'', card_updated_by = ''op''\<rparr>],
     card_operations := [\<lparr>op_ID = ''oper'', op_CardID = ''card'', op_Action = ''suspend'', op_Status = ''queued'',
       op_Reason = ''review'', op_CreatedAt = 0, op_CompletedAt = None, op_entity = ''bank'',
       op_actor_user_id = Some ''op'', op_actor_role = ''issuer_operator'', op_actor_entity_id = None,
       op_executor_identity = None, op_request_id = ''req'', op_started_at = None, op_failure_code = None,
       op_failure_summary = None, op_updated_at = 0, op_created_by = Some ''op'', op_updated_by = Some ''op''\<rparr>],
     card_status_batches := [leased_batch_row],
     card_status_batch_items := [\<lparr>bi_entity = ''bank'', bi_id = ''bitem'', bi_batch_id = ''batch'', bi_card_id = ''card'',
       bi_operation_id = ''oper'', bi_previous_status = None, bi_outcome = ''pending'', bi_failure_code = None\<rparr>]\<rparr>"

lemmas sample_run_defs =
  transaction_def andThen_def deferred_def beginTenant_run statement_def read_only_def exec_def exec_rows_def
  liftResult_def ret_def throw_def Commit_def Rollback_def guarded_update_def checked.simps affected_def
  update_where_def exists_row_def query_row_def no_key_def order_asc_def scan_row_def map_sum_def

lemmas sample_schema_defs =
  update_cards_def update_operations_def update_batches_def update_batch_items_def insert_history_def insert_audit_def
  card_key_def operation_key_def batch_key_def batch_item_key_def guard_masked_pan_def operation_checks_def
  guard_batch_request_def guard_batch_state_def batch_next_states_def batch_results_ok_def batch_checks_def
  guard_batch_item_result_def batch_item_checks_def is_card_state_def btrim_nonempty_def failure_code_ok_def
  failure_summary_ok_def actor_context_def is_object_def entity_exists_def nullable_def

text \<open>The sample environment with a stopped clock.\<close>

definition frozen_env :: environment where
  "frozen_env = sample_env\<lparr>clock_timestamp := (\<lambda>_. 1000)\<rparr>"

lemma frozen_env_fields [simp]:
  "fault_at frozen_env n = NoFault" "clock_timestamp frozen_env n = 1000"
  "gen_random_uuid frozen_env n = gen_random_uuid sample_env n" "no_faults frozen_env"
  by (simp_all add: frozen_env_def no_faults_def)

definition sample_batch_card :: batch_card where
  "sample_batch_card = \<lparr>bc_id = ''bitem'', bc_cardID = ''card'', bc_operationID = ''oper'', bc_status = ''active''\<rparr>"

definition applied_item :: batch_item_row where
  "applied_item = \<lparr>bi_entity = ''bank'', bi_id = ''bitem'', bi_batch_id = ''batch'', bi_card_id = ''card'',
     bi_operation_id = ''oper'', bi_previous_status = Some ''active'', bi_outcome = ''applied'', bi_failure_code = None\<rparr>"

lemma sample_batch_cards: "batch_cards ''bank'' ''batch'' batch_db = [sample_batch_card]"
  by (simp add: batch_cards_def batch_items_of_def batch_db_def card_key_def order_asc_def sample_batch_card_def)

lemma sample_scan: "scan_batch_cards ''suspended'' [sample_batch_card] = Inr [(sample_batch_card, False)]"
proof -
  have "CanTransition ''active'' ''suspended'' = (True, False)" by code_simp
  then show ?thesis by (simp add: sample_batch_card_def)
qed

lemma sample_card_applied:
  assumes "view w = batch_db"
  shows "\<exists>w'. apply_batch_card frozen_env sample_lease ''exec'' sample_batch_card w = (Inr (), w') \<and>
    card_status_batches (view w') = [leased_batch_row] \<and> card_status_batch_items (view w') = [applied_item] \<and>
    map card_Status (cards (view w')) = [''suspended'']"
  using assms
  by (simp add: apply_batch_card_def batch_status_change_def succeed_batch_operation_def succeed_operation_def
      insertStatusHistory_def history_row_of_def item_outcome_def audit_batch_def insertAudit_def audit_row_of_def
      sample_lease_def batch_db_def leased_batch_row_def sample_batch_card_def applied_item_def
      sample_db_def empty_db_def sample_run_defs sample_schema_defs)

lemma sample_batch_succeeds:
  assumes "card_status_batches (view w) = [leased_batch_row]" and "card_status_batch_items (view w) = [applied_item]"
  shows "\<exists>w'. update_leased_batch frozen_env sample_lease ''exec'' (succeed_batch (Suc 0) 0) w = (Inr (), w') \<and>
    cards (view w') = cards (view w)"
  using assms
  by (simp add: update_leased_batch_def succeed_batch_def holds_batch_lease_def current_at_def sample_lease_def
      leased_batch_row_def applied_item_def batch_items_of_def Let_def sample_run_defs sample_schema_defs)

lemma sample_apply_runs:
  assumes "durable w = batch_db"
  shows "\<exists>w'. ApplyBatch frozen_env sample_lease ''exec'' w = (Inr (), w') \<and> map card_Status (cards (durable w')) = [''suspended'']"
proof -
  define w0 where "w0 = w\<lparr>view := durable w, tx_start := clock_timestamp frozen_env (tick w), tick := Suc (Suc (tick w))\<rparr>"
  have v: "view w0 = batch_db" by (simp add: w0_def assms)
  have bg: "beginTenant frozen_env ''bank'' w = (Inr (), w0)" by (simp add: beginTenant_run w0_def)
  have ver: "verifyBatchLease frozen_env sample_lease ''exec'' w0 = (Inr (), ticked w0)"
    by (simp add: verifyBatchLease_def andThen_def statement_def read_only_def v batch_db_def exists_row_def
        holds_batch_lease_def leased_batch_row_def sample_lease_def current_at_def ret_def)
  let ?w2 = "ticked (ticked w0)"
  have v2: "view ?w2 = batch_db" by (simp add: v)
  from sample_card_applied [OF v2] obtain w3
    where c: "apply_batch_card frozen_env sample_lease ''exec'' sample_batch_card ?w2 = (Inr (), w3)"
      and w3: "card_status_batches (view w3) = [leased_batch_row]" "card_status_batch_items (view w3) = [applied_item]"
        "map card_Status (cards (view w3)) = [''suspended'']"
    by (elim exE conjE)
  from sample_batch_succeeds [OF w3(1,2)] obtain w4
    where s: "update_leased_batch frozen_env sample_lease ''exec'' (succeed_batch (Suc 0) 0) w3 = (Inr (), w4)"
      and w4: "cards (view w4) = cards (view w3)" by (elim exE conjE)
  have r: "statement frozen_env (read_only (\<lambda>d. Inr (batch_cards ''bank'' ''batch'' d))) (ticked w0) = (Inr [sample_batch_card], ?w2)"
    by (simp add: statement_def read_only_def v sample_batch_cards)
  have f: "exb_BankID sample_lease = ''bank''" "exb_ID sample_lease = ''batch''" "exb_TargetStatus sample_lease = ''suspended''"
    by (simp_all add: sample_lease_def)
  have "ApplyBatch frozen_env sample_lease ''exec'' w = (Inr (), Rollback ((ticked w4)\<lparr>durable := view w4\<rparr>))"
    unfolding ApplyBatch_def transaction_def f
    by (simp add: andThen_def deferred_def bg ver r liftResult_def sample_scan c ret_def s Commit_def
        del: scan_batch_cards.simps)
  with w3(3) w4 show ?thesis by simp
qed


end
