(* ===== verification/Executor_Claims.thy ===== *)
theory Executor_Claims
  imports Executor_Batches
begin

text \<open>
  The claim protocol of the executor's store: which row a claim takes and what it writes, that a
  recovery takes only lapsed leases, that a failed call changes nothing, and where a claim is stuck.
\<close>

section \<open>Atomicity\<close>

lemma keeps_executor_loops [keeps_intros]:
  "keeps durable (apply_batch_loop env batch holder a g items)"
  "keeps durable (schedule_loop env bank run holder cs)"
  "keeps durable (complete_runs env bank runs)"
proof -
  show "keeps durable (apply_batch_loop env batch holder a g items)"
    by (induction env batch holder a g items rule: apply_batch_loop.induct)
      (auto simp: ignore_batch_card_def apply_batch_card_def item_outcome_def succeed_batch_operation_def
        audit_batch_def insertAudit_def insertStatusHistory_def intro!: keeps_intros)
  show "keeps durable (schedule_loop env bank run holder cs)" by (induction cs) (auto intro!: keeps_intros)
  show "keeps durable (complete_runs env bank runs)"
    by (induction runs) (auto simp: completeExpiryRun_def intro!: keeps_intros)
qed

lemma keeps_executor_statements [keeps_intros]:
  "keeps durable (verifyBatchLease env batch holder)" "keeps durable (update_leased_batch env batch holder f)"
  "keeps durable (verifyExpiryLease env item holder)" "keeps durable (update_leased_item env item holder g)"
  "keeps durable (completeExpiryRun env bank run)" "keeps durable (audit_batch env batch holder kind res outcome details)"
  "keeps durable (expire_locked_card env item holder status)"
  unfolding verifyBatchLease_def update_leased_batch_def verifyExpiryLease_def update_leased_item_def
    completeExpiryRun_def audit_batch_def insertAudit_def insertStatusHistory_def expire_locked_card_def
  by (intro keeps_intros)+

text \<open>
  Every call of the executor's store that reports an error has changed nothing durable, wherever
  it failed, as long as no acknowledgement of a commit is lost.
\<close>

theorem failed_executor_calls_change_nothing:
  assumes "no_lost_commits env"
  shows "atomic (ClaimBatch env claim) \<and> atomic (RecoverBatches env claim) \<and>
    atomic (ApplyBatch env batch holder) \<and> atomic (RequeueBatch env batch holder code delay) \<and>
    atomic (FailBatch env batch holder code) \<and> atomic (EnsureExpiryRun env bank day holder) \<and>
    atomic (RecoverExpiryItems env claim) \<and> atomic (ClaimExpiryItem env claim) \<and>
    atomic (ApplyExpiryItem env item holder) \<and> atomic (RequeueExpiryItem env item holder delay) \<and>
    atomic (FailExpiryItem env item holder)"
  unfolding ClaimBatch_def RecoverBatches_def ApplyBatch_def RequeueBatch_def updateBatchLease_def FailBatch_def
    EnsureExpiryRun_def RecoverExpiryItems_def ClaimExpiryItem_def ApplyExpiryItem_def RequeueExpiryItem_def
    FailExpiryItem_def
  by (intro conjI; intro atomic_transaction atomic_Commit_ret atomic_andThen atomic_option atomic_prod
      atomic_Commit keeps_intros assms)

text \<open>The connection drops at the last statement of applying the sample batch.\<close>

definition cut_env :: environment where
  "cut_env = sample_env\<lparr>fault_at := (\<lambda>n. if n = 3 then Fail (NetError False True) else NoFault)\<rparr>"

theorem failed_executor_calls_change_nothing_witness:
  "\<exists>w'. ApplyBatch cut_env sample_lease ''exec'' (sample_world batch_db) = (Inl (NetError False True), w') \<and>
     durable w' = batch_db"
proof -
  have n: "no_lost_commits cut_env" by (simp add: no_lost_commits_def cut_env_def sample_env_def)
  have "\<exists>w'. ApplyBatch cut_env sample_lease ''exec'' (sample_world batch_db) = (Inl (NetError False True), w')"
    by (simp add: ApplyBatch_def transaction_def beginTenant_def pool_Begin_def compensated_def verifyBatchLease_def
        andThen_def deferred_def statement_def read_only_def cut_env_def sample_world_def batch_db_def exists_row_def
        holds_batch_lease_def leased_batch_row_def sample_lease_def current_at_def ret_def)
  then obtain w' where w': "ApplyBatch cut_env sample_lease ''exec'' (sample_world batch_db) = (Inl (NetError False True), w')" ..
  have "atomic (ApplyBatch cut_env sample_lease ''exec'' :: (shard_world, unit) prog)"
    using failed_executor_calls_change_nothing [OF n] by blast
  from atomicD [OF this w'] w' show ?thesis by (simp add: sample_world_def)
qed

section \<open>Claims\<close>

lemma first_row_Some:
  assumes "first_row key P rows = Some r"
  shows "r \<in> set rows \<and> P r" and "\<And>r'. r' \<in> set rows \<Longrightarrow> P r' \<Longrightarrow> key r \<le> key r'"
proof -
  obtain rest where s: "order_asc key (filter P rows) = r # rest"
    using assms by (auto simp: first_row_def split: list.splits)
  have "set (r # rest) = {x \<in> set rows. P x}" unfolding s [symmetric] by simp
  then show "r \<in> set rows \<and> P r" by auto
  have "sorted (map key (r # rest))" unfolding s [symmetric] order_asc_def by simp
  moreover fix r' assume "r' \<in> set rows" "P r'"
  then have "r' \<in> set (r # rest)" unfolding s [symmetric] by simp
  ultimately show "key r \<le> key r'" by auto
qed

lemma first_row_None: "first_row key P rows = None \<longleftrightarrow> (\<forall>r \<in> set rows. \<not> P r)"
proof -
  have "first_row key P rows = None \<longleftrightarrow> order_asc key (filter P rows) = []"
    by (simp add: first_row_def split: list.splits)
  also have "\<dots> \<longleftrightarrow> filter P rows = []" by (metis length_order_asc length_0_conv)
  finally show ?thesis by (simp add: filter_empty_conv)
qed

definition due_batch :: "uuid \<Rightarrow> time \<Rightarrow> batch_row \<Rightarrow> bool" where
  "due_batch bank now b \<longleftrightarrow> batch_entity b = bank \<and> batch_Status b = ''queued'' \<and> batch_next_attempt_at b \<le> now"

lemma next_queued_batch_due:
  "next_queued_batch bank now d = first_row (\<lambda>b. (batch_next_attempt_at b, batch_ID b)) (due_batch bank now) (card_status_batches d)"
  by (simp add: next_queued_batch_def due_batch_def [abs_def])

lemma update_claimed_batchE:
  assumes "update_claimed_batch claim (batch_ID r) ctx d = Inr ((v, n), d')" and "unique_key batch_key (card_status_batches d)"
    and "r \<in> set (card_status_batches d)" and "batch_entity r = clm_BankID claim" and "batch_Status r = ''queued''"
  shows "d' = d\<lparr>card_status_batches := update_where (\<lambda>b. batch_key b = batch_key r) (claim_batch claim ctx) (card_status_batches d)\<rparr>"
    and "v = batch_lease_version r + 1" and "n = batch_attempt_count r + 1"
proof -
  let ?P = "\<lambda>b. batch_entity b = clm_BankID claim \<and> batch_ID b = batch_ID r \<and> batch_Status b = ''queued''"
  let ?Q = "\<lambda>b. batch_entity b = clm_BankID claim \<and> batch_ID b = batch_ID r"
  obtain m where u: "update_batches (sql_clock ctx) ?P (claim_batch claim ctx) d = Inr (m, d')"
    and q: "scan_row (\<lambda>r. (batch_lease_version r, batch_attempt_count r)) (query_row ?Q (card_status_batches d')) = Inr (v, n)"
    using assms(1) by (auto simp: update_claimed_batch_def map_sum_Inr_iff split: sum.splits prod.splits if_splits)
  have eq: "b = r" if "b \<in> set (card_status_batches d)" "?Q b" for b
    using unique_key_inj [OF assms(2) that(1) assms(3)] that assms(4) by (simp add: batch_key_def)
  have P: "?P b = (batch_key b = batch_key r)" if "b \<in> set (card_status_batches d)" for b
    using eq [OF that] assms(4,5) by (auto simp: batch_key_def)
  have w: "update_where ?P (claim_batch claim ctx) (card_status_batches d) =
      update_where (\<lambda>b. batch_key b = batch_key r) (claim_batch claim ctx) (card_status_batches d)"
    unfolding update_where_def by (rule map_cong) (simp_all only: P)
  then show d': "d' = d\<lparr>card_status_batches := update_where (\<lambda>b. batch_key b = batch_key r) (claim_batch claim ctx) (card_status_batches d)\<rparr>"
    using update_result(8) [OF u] by simp
  have k: "batch_entity (claim_batch claim ctx b) = batch_entity b" "batch_ID (claim_batch claim ctx b) = batch_ID b" for b
    by (simp_all add: claim_batch_def)
  have "query_row ?Q (card_status_batches d) = Some r"
    using assms(2,3,4) eq by (intro query_row_unique [of batch_key]) (auto simp: batch_key_def)
  then have "query_row ?Q (card_status_batches d') = Some (claim_batch claim ctx r)"
    unfolding d' using query_row_update_other [of "card_status_batches d" ?Q "claim_batch claim ctx"] k by simp
  with q show "v = batch_lease_version r + 1" "n = batch_attempt_count r + 1"
    by (simp_all add: scan_row_def claim_batch_def)
qed

text \<open>The clock of a call: \<open>beginTenant\<close> takes two interactions, the transaction starts at the first.\<close>

lemma transaction_clockE:
  assumes "transaction env bank m w = (Inr x, w')"
  obtains w1 w2 where "view w1 = durable w" and "tick w1 = tick w + 2" and "tx_start w1 = clock_timestamp env (tick w)"
    and "m w1 = (Inr x, w2)" and "w' = Rollback w2"
proof -
  from assms obtain u w1 where b: "beginTenant env bank w = (Inr u, w1)" and d: "deferred m Rollback w1 = (Inr x, w')"
    unfolding transaction_def by (rule andThen_InrE)
  from b have "view w1 = durable w" "tick w1 = tick w + 2" "tx_start w1 = clock_timestamp env (tick w)"
    by (auto simp: beginTenant_def pool_Begin_def andThen_def compensated_def statement_def
        split: fault.splits prod.splits sum.splits)
  moreover from d obtain w2 where "m w1 = (Inr x, w2)" "w' = Rollback w2"
    by (auto simp: deferred_def split: prod.splits)
  ultimately show thesis by (rule that)
qed

lemma claim_batch_row:
  "claim_batch claim (context_of env w) = (\<lambda>b. b\<lparr>batch_Status := ''processing'',
     batch_lease_owner := Some (clm_Owner claim),
     batch_lease_expires_at := Some (clock_timestamp env (tick w) + clm_LeaseDuration claim),
     batch_lease_version := batch_lease_version b + 1, batch_attempt_count := batch_attempt_count b + 1,
     batch_started_at := Some (case batch_started_at b of None \<Rightarrow> clock_timestamp env (tick w) | Some t \<Rightarrow> t),
     batch_UpdatedAt := clock_timestamp env (tick w)\<rparr>)"
  by (rule ext) (simp add: claim_batch_def context_of_def coalesce_def)

text \<open>
  C16. A claim takes the due batch of the bank that waits longest. The clock of the selection is that
  of the third interaction of the call (after \<open>BEGIN\<close> and \<open>set_config\<close>), the clock of the update
  that of the fourth. When \<open>ClaimBatch\<close> returns a batch, that batch was queued and due at the
  selection, no other due batch of the bank comes before it, its row is now leased to the owner until
  the lease duration after the update, under the next lease version with one more attempt and with the
  time of its first attempt kept, the returned request carries the row's target, reason and requester,
  and no other row and no other table changed. When it returns none, no batch of the bank was due at
  the selection and nothing changed.
\<close>

theorem claimed_batch_is_next:
  assumes "ClaimBatch env claim w = (Inr res, w')" and "unique_key batch_key (card_status_batches (durable w))"
  shows "case res of
      None \<Rightarrow> (\<forall>b \<in> set (card_status_batches (durable w)).
          \<not> due_batch (clm_BankID claim) (clock_timestamp env (tick w + 2)) b) \<and> durable w' = durable w
    | Some batch \<Rightarrow> (\<exists>r \<in> set (card_status_batches (durable w)).
        due_batch (clm_BankID claim) (clock_timestamp env (tick w + 2)) r \<and>
        (\<forall>r' \<in> set (card_status_batches (durable w)). due_batch (clm_BankID claim) (clock_timestamp env (tick w + 2)) r' \<longrightarrow>
          (batch_next_attempt_at r, batch_ID r) \<le> (batch_next_attempt_at r', batch_ID r')) \<and>
        batch = \<lparr>exb_ID = batch_ID r, exb_BankID = clm_BankID claim, exb_TargetStatus = batch_TargetStatus r,
          exb_Reason = batch_Reason r, exb_RequestedBy = batch_CreatedBy r, exb_RequesterRole = batch_RequesterRole r,
          exb_RequesterBankID = (case batch_requester_entity_id r of None \<Rightarrow> '''' | Some e \<Rightarrow> e),
          exb_RequestID = batch_request_id r, exb_ItemCount = batch_ItemCount r,
          exb_AttemptCount = batch_attempt_count r + 1, exb_LeaseVersion = batch_lease_version r + 1\<rparr> \<and>
        durable w' = (durable w)\<lparr>card_status_batches := update_where (\<lambda>b. batch_key b = batch_key r)
          (\<lambda>b. b\<lparr>batch_Status := ''processing'', batch_lease_owner := Some (clm_Owner claim),
             batch_lease_expires_at := Some (clock_timestamp env (tick w + 3) + clm_LeaseDuration claim),
             batch_lease_version := batch_lease_version b + 1, batch_attempt_count := batch_attempt_count b + 1,
             batch_started_at := Some (case batch_started_at b of None \<Rightarrow> clock_timestamp env (tick w + 3) | Some t \<Rightarrow> t),
             batch_UpdatedAt := clock_timestamp env (tick w + 3)\<rparr>) (card_status_batches (durable w))\<rparr>)"
proof -
  let ?bank = "clm_BankID claim" and ?d = "durable w" and ?now = "clock_timestamp env (tick w + 2)"
  from assms(1) obtain w1 wz where v: "view w1 = ?d" and t: "tick w1 = tick w + 2" and w': "w' = Rollback wz" and m: "andThen
      (statement env (\<lambda>ctx. read_only (\<lambda>d. Inr (next_queued_batch ?bank (sql_clock ctx) d)) ctx))
      (\<lambda>found. case found of None \<Rightarrow> andThen (Commit env) (\<lambda>_. ret None)
        | Some r \<Rightarrow> andThen (statement env (update_claimed_batch claim (batch_ID r))) (\<lambda>(version, attempts).
          andThen (Commit env) (\<lambda>_. ret (Some (claimed_batch claim r version attempts))))) w1 = (Inr res, wz)"
    unfolding ClaimBatch_def by (rule transaction_clockE)
  from m obtain found w2 where s: "statement env (\<lambda>ctx. read_only (\<lambda>d. Inr (next_queued_batch ?bank (sql_clock ctx) d)) ctx) w1 =
      (Inr found, w2)" and c: "(case found of None \<Rightarrow> andThen (Commit env) (\<lambda>_. ret None)
        | Some r \<Rightarrow> andThen (statement env (update_claimed_batch claim (batch_ID r))) (\<lambda>(version, attempts).
          andThen (Commit env) (\<lambda>_. ret (Some (claimed_batch claim r version attempts))))) w2 = (Inr res, wz)"
    by (rule andThen_InrE)
  from s v t have f: "found = next_queued_batch ?bank ?now ?d" and v2: "view w2 = ?d" and t2: "tick w2 = tick w + 3"
    by (auto elim!: statement_InrE simp: read_only_Inr context_of_def)
  show ?thesis
  proof (cases found)
    case None
    with c w' v2 have "res = None" "durable w' = ?d" by (auto elim!: andThen_InrE Commit_InrE simp: ret_def)
    with None f show ?thesis by (auto simp: next_queued_batch_due first_row_None)
  next
    case (Some r)
    note nx = first_row_Some [OF Some [unfolded f next_queued_batch_due]]
    from c Some obtain v n w3 where u: "statement env (update_claimed_batch claim (batch_ID r)) w2 = (Inr (v, n), w3)"
      and z: "andThen (Commit env) (\<lambda>_. ret (Some (claimed_batch claim r v n))) w3 = (Inr res, wz)"
      by (simp, elim andThen_InrE [of "statement env (update_claimed_batch claim (batch_ID r))"]) (auto split: prod.splits)
    from u v2 have uc: "update_claimed_batch claim (batch_ID r) (context_of env w2) ?d = Inr ((v, n), view w3)"
      by (auto elim: statement_InrE)
    have r: "r \<in> set (card_status_batches ?d)" "batch_entity r = ?bank" "batch_Status r = ''queued''"
      using nx(1) by (simp_all add: due_batch_def)
    note up = update_claimed_batchE [OF uc assms(2) r, unfolded claim_batch_row t2]
    from z w' have "durable w' = view w3" "res = Some (claimed_batch claim r v n)"
      by (auto elim!: andThen_InrE Commit_InrE simp: ret_def)
    then show ?thesis using nx up
      by (auto simp: claimed_batch_def coalesce_def intro!: bexI [of _ r])
  qed
qed


text \<open>A claim that finds nothing: no batch of the bank was due.\<close>

lemma ClaimBatch_None:
  assumes "ClaimBatch env claim w = (Inr None, w')" and "b \<in> set (card_status_batches (durable w))"
  shows "\<not> due_batch (clm_BankID claim) (clock_timestamp env (tick w + 2)) b"
proof -
  let ?bank = "clm_BankID claim"
  from assms(1) obtain w1 wz where v: "view w1 = durable w" and t: "tick w1 = tick w + 2" and "w' = Rollback wz" and m: "andThen
      (statement env (\<lambda>ctx. read_only (\<lambda>d. Inr (next_queued_batch ?bank (sql_clock ctx) d)) ctx))
      (\<lambda>found. case found of None \<Rightarrow> andThen (Commit env) (\<lambda>_. ret None)
        | Some r \<Rightarrow> andThen (statement env (update_claimed_batch claim (batch_ID r))) (\<lambda>(version, attempts).
          andThen (Commit env) (\<lambda>_. ret (Some (claimed_batch claim r version attempts))))) w1 = (Inr None, wz)"
    unfolding ClaimBatch_def by (rule transaction_clockE)
  from m obtain found w2 where s: "statement env (\<lambda>ctx. read_only (\<lambda>d. Inr (next_queued_batch ?bank (sql_clock ctx) d)) ctx) w1 =
      (Inr found, w2)" and "found = None"
    by (elim andThen_InrE) (auto simp: ret_def elim!: andThen_InrE split: option.splits)
  then have "next_queued_batch ?bank (clock_timestamp env (tick w + 2)) (durable w) = None"
    using v t by (auto elim!: statement_InrE simp: read_only_Inr context_of_def)
  with assms(2) show ?thesis by (simp add: next_queued_batch_due first_row_None)
qed

definition queued_db :: shard_db where
  "queued_db = sample_db\<lparr>card_status_batches := [leased_batch_row\<lparr>batch_Status := ''queued'', batch_lease_owner := None,
     batch_lease_expires_at := None\<rparr>]\<rparr>"

lemma sample_claim_runs:
  "\<exists>batch w'. ClaimBatch sample_env sample_lease_claim (sample_world queued_db) = (Inr (Some batch), w')"
  by (simp add: ClaimBatch_def next_queued_batch_def first_row_def update_claimed_batch_def claim_batch_def
      sample_lease_claim_def sample_world_def queued_db_def leased_batch_row_def lease_current_def coalesce_def
      Let_def sample_run_defs sample_schema_defs)

theorem claimed_batch_is_next_witness:
  "\<exists>batch w'. ClaimBatch sample_env sample_lease_claim (sample_world queued_db) = (Inr (Some batch), w') \<and>
     exb_ID batch = ''batch'' \<and> exb_LeaseVersion batch = 2 \<and> exb_AttemptCount batch = 2 \<and>
     (\<exists>b \<in> set (card_status_batches (durable w')). batch_Status b = ''processing'' \<and>
        batch_lease_owner b = Some ''other'' \<and> batch_lease_expires_at b = Some 1103)"
proof -
  obtain batch w' where r: "ClaimBatch sample_env sample_lease_claim (sample_world queued_db) = (Inr (Some batch), w')"
    using sample_claim_runs by blast
  have "unique_key batch_key (card_status_batches (durable (sample_world queued_db)))"
    by (simp add: sample_world_def queued_db_def unique_key_def)
  from claimed_batch_is_next [OF r this]
  have "exb_ID batch = ''batch'' \<and> exb_LeaseVersion batch = 2 \<and> exb_AttemptCount batch = 2 \<and>
     (\<exists>b \<in> set (card_status_batches (durable w')). batch_Status b = ''processing'' \<and>
        batch_lease_owner b = Some ''other'' \<and> batch_lease_expires_at b = Some 1103)"
    by (auto simp: sample_world_def queued_db_def leased_batch_row_def sample_lease_claim_def update_where_def)
  with r show ?thesis by blast
qed

section \<open>Recovery\<close>

lemma expired_not_current: "expired_by t now \<Longrightarrow> \<not> current_at t now"
  by (auto simp: expired_by_def current_at_def split: option.splits)

text \<open>A recovered lease is spent: its version is behind the row's.\<close>

lemma recovered_lease_is_spent:
  assumes "unique_key batch_key rows" and "b \<in> set rows" and "P b"
    and "\<And>r. batch_key (f r) = batch_key r" and "\<And>r. batch_lease_version (f r) = batch_lease_version r + 1"
    and "card_status_batches d = update_where P f rows"
  shows "batch_spent (batch_key b) (batch_lease_version b) d"
proof -
  have "f b \<in> set (card_status_batches d)" using assms(2,3,6) by (force simp: set_update_where)
  then have k: "batch_key b \<in> batch_key ` set (card_status_batches d)" by (metis assms(4) image_eqI)
  have "batch_lease_version b < batch_lease_version r'"
    if r': "r' \<in> set (card_status_batches d)" "batch_key r' = batch_key b" for r'
  proof -
    obtain r where r: "r \<in> set rows" "r' = (if P r then f r else r)"
      using r'(1) by (auto simp: assms(6) set_update_where)
    then have "r = b" using r'(2) assms(4) unique_key_inj [OF assms(1) r(1) assms(2)] by (simp split: if_splits)
    then show ?thesis using r(2) assms(3,5) by simp
  qed
  with k show ?thesis by (auto simp: batch_spent_def lease_spent_def)
qed

definition lapsed_batch :: "uuid \<Rightarrow> time \<Rightarrow> batch_row \<Rightarrow> bool" where
  "lapsed_batch bank now b \<longleftrightarrow> batch_entity b = bank \<and> batch_Status b = ''processing'' \<and>
     (\<exists>t. batch_lease_expires_at b = Some t \<and> t \<le> now)"

lemma lapsed_batch_expired:
  "lapsed_batch bank now = (\<lambda>b. batch_entity b = bank \<and> batch_Status b = ''processing'' \<and> expired_by (batch_lease_expires_at b) now)"
  by (rule ext) (auto simp: lapsed_batch_def expired_by_def split: option.splits)

lemma RecoverBatchesE:
  assumes "RecoverBatches env claim w = (Inr n, w')"
  shows "n = affected (lapsed_batch (clm_BankID claim) (clock_timestamp env (tick w + 2))) (card_status_batches (durable w))"
    and "durable w' = (durable w)\<lparr>card_status_batches :=
      update_where (lapsed_batch (clm_BankID claim) (clock_timestamp env (tick w + 2)))
        (\<lambda>b. b\<lparr>batch_Status := ''queued'', batch_lease_owner := None, batch_lease_expires_at := None,
           batch_lease_version := batch_lease_version b + 1, batch_next_attempt_at := clock_timestamp env (tick w + 2),
           batch_UpdatedAt := clock_timestamp env (tick w + 2)\<rparr>) (card_status_batches (durable w))\<rparr>"
proof -
  let ?now = "clock_timestamp env (tick w + 2)"
  from assms obtain w1 wz where v: "view w1 = durable w" and t: "tick w1 = tick w + 2" and w': "w' = Rollback wz"
    and m: "andThen (statement env (\<lambda>ctx. update_batches (sql_clock ctx)
        (\<lambda>r. batch_entity r = clm_BankID claim \<and> batch_Status r = ''processing'' \<and>
             expired_by (batch_lease_expires_at r) (sql_clock ctx)) (recover_batch ctx))) (\<lambda>n.
      andThen (Commit env) (\<lambda>_. ret n)) w1 = (Inr n, wz)"
    unfolding RecoverBatches_def by (rule transaction_clockE)
  have c: "sql_clock (context_of env w1) = ?now" by (simp add: context_of_def t)
  have up: "update_batches ?now (lapsed_batch (clm_BankID claim) ?now) (recover_batch (context_of env w1)) (durable w) =
      Inr (n, durable w')"
    using m w' v by (auto elim!: andThen_InrE statement_InrE Commit_InrE simp: ret_def c lapsed_batch_expired)
  show "n = affected (lapsed_batch (clm_BankID claim) ?now) (card_status_batches (durable w))"
    "durable w' = (durable w)\<lparr>card_status_batches := update_where (lapsed_batch (clm_BankID claim) ?now)
        (\<lambda>b. b\<lparr>batch_Status := ''queued'', batch_lease_owner := None, batch_lease_expires_at := None,
           batch_lease_version := batch_lease_version b + 1, batch_next_attempt_at := ?now,
           batch_UpdatedAt := ?now\<rparr>) (card_status_batches (durable w))\<rparr>"
    using update_result(8) [OF up] by (simp_all add: recover_batch_def [abs_def] c)
qed

text \<open>
  C17. Recovery takes exactly the lapsed leases: at the clock of its update, \<open>RecoverBatches\<close> returns
  every batch of the bank that is \<open>processing\<close> under an expired lease to the queue, due at once, without
  owner and with the next lease version; it changes no other row and no other table, and the number it
  reports is the number of leases taken. Whoever held a recovered lease can no longer apply, requeue or
  fail the batch under it, whatever the executors do in between: the attempt reports \<open>ErrStale\<close> and
  changes nothing.
\<close>

theorem recovery_takes_lapsed_leases:
  fixes w w' :: shard_world
  assumes "RecoverBatches env claim w = (Inr n, w')" and "unique_key batch_key (card_status_batches (durable w))"
  shows "let now = clock_timestamp env (tick w + 2); lapsed = lapsed_batch (clm_BankID claim) now;
      batches = card_status_batches (durable w) in
    n = length (filter lapsed batches) \<and>
    durable w' = (durable w)\<lparr>card_status_batches := update_where lapsed
      (\<lambda>b. b\<lparr>batch_Status := ''queued'', batch_lease_owner := None, batch_lease_expires_at := None,
         batch_lease_version := batch_lease_version b + 1, batch_next_attempt_at := now, batch_UpdatedAt := now\<rparr>) batches\<rparr> \<and>
    (\<forall>b \<in> set batches. lapsed b \<longrightarrow>
      (\<forall>(w2 :: shard_world) env2 batch holder m. executor_step\<^sup>*\<^sup>* (durable w') (durable w2) \<and> no_faults env2 \<and>
        (exb_BankID batch, exb_ID batch) = batch_key b \<and> exb_LeaseVersion batch = batch_lease_version b \<and>
        m \<in> batch_completions env2 batch holder \<longrightarrow>
        (\<exists>w3. m w2 = (Inl ErrStale, w3) \<and> durable w3 = durable w2)))"
proof -
  let ?now = "clock_timestamp env (tick w + 2)" and ?batches = "card_status_batches (durable w)"
  let ?lapsed = "lapsed_batch (clm_BankID claim) ?now"
  note r = RecoverBatchesE [OF assms(1)]
  have "\<exists>w3. m w2 = (Inl ErrStale, w3) \<and> durable w3 = durable w2"
    if b: "b \<in> set ?batches" "?lapsed b" and s: "executor_step\<^sup>*\<^sup>* (durable w') (durable w2)" and "no_faults env2"
      and k: "(exb_BankID batch, exb_ID batch) = batch_key b" "exb_LeaseVersion batch = batch_lease_version b"
      and "m \<in> batch_completions env2 batch holder"
    for b batch env2 holder m and w2 :: shard_world
  proof (rule spent_batch_refused [OF that(7,4)])
    have "batch_spent (batch_key b) (batch_lease_version b) (durable w')"
      by (rule recovered_lease_is_spent [OF assms(2) b(1), where P = ?lapsed and f = "\<lambda>b. b\<lparr>batch_Status := ''queued'',
            batch_lease_owner := None, batch_lease_expires_at := None, batch_lease_version := batch_lease_version b + 1,
            batch_next_attempt_at := ?now, batch_UpdatedAt := ?now\<rparr>"])
        (simp_all add: r(2) b(2) [simplified] batch_key_def)
    then show "batch_spent (exb_BankID batch, exb_ID batch) (exb_LeaseVersion batch) (durable w2)"
      unfolding k by (rule batch_fence.inv_rtranclp [OF s])
  qed
  then show ?thesis unfolding Let_def
    by (intro conjI ballI impI allI r(2) r(1) [unfolded affected_def]) (elim conjE)
qed


definition late_env :: environment where
  "late_env = sample_env\<lparr>clock_timestamp := (\<lambda>_. 10000)\<rparr>"

lemma sample_recover_runs:
  "\<exists>n w'. RecoverBatches late_env sample_lease_claim (sample_world leased_batch_db) = (Inr n, w')"
  by (simp add: late_env_def RecoverBatches_def beginTenant_def pool_Begin_def compensated_def recover_batch_def expired_by_def
      sample_lease_claim_def sample_world_def leased_batch_db_def leased_batch_row_def Let_def sample_run_defs sample_schema_defs)

theorem recovery_takes_lapsed_leases_witness:
  "\<exists>w' w3. RecoverBatches late_env sample_lease_claim (sample_world leased_batch_db) = (Inr 1, w') \<and>
     map batch_Status (card_status_batches (durable w')) = [''queued''] \<and>
     map batch_lease_version (card_status_batches (durable w')) = [2] \<and>
     ApplyBatch sample_env sample_lease ''exec'' w' = (Inl ErrStale, w3) \<and> durable w3 = durable w'"
proof -
  obtain n w' where r: "RecoverBatches late_env sample_lease_claim (sample_world leased_batch_db) = (Inr n, w')"
    using sample_recover_runs by blast
  have "unique_key batch_key (card_status_batches (durable (sample_world leased_batch_db)))"
    by (simp add: sample_world_def leased_batch_db_def unique_key_def)
  note t = recovery_takes_lapsed_leases [OF r this, unfolded Let_def]
  have b: "card_status_batches (durable (sample_world leased_batch_db)) = [leased_batch_row]"
    by (simp add: sample_world_def leased_batch_db_def)
  have l: "lapsed_batch (clm_BankID sample_lease_claim) (clock_timestamp late_env k) leased_batch_row" for k
    by (simp add: lapsed_batch_def late_env_def sample_lease_claim_def leased_batch_row_def)
  have "n = 1" using t by (simp add: b l)
  moreover have "map batch_Status (card_status_batches (durable w')) = [''queued'']"
    "map batch_lease_version (card_status_batches (durable w')) = [2]"
    using t by (simp_all add: b update_where_def lapsed_batch_def late_env_def sample_lease_claim_def leased_batch_row_def)
  moreover have stale: "\<exists>w3. ApplyBatch sample_env sample_lease ''exec'' w' = (Inl ErrStale, w3) \<and> durable w3 = durable w'"
  proof (rule conjunct2 [OF conjunct2 [OF t], rule_format, where b = leased_batch_row])
    show "executor_step\<^sup>*\<^sup>* (durable w') (durable w') \<and> no_faults sample_env \<and>
        (exb_BankID sample_lease, exb_ID sample_lease) = batch_key leased_batch_row \<and>
        exb_LeaseVersion sample_lease = batch_lease_version leased_batch_row \<and>
        ApplyBatch sample_env sample_lease ''exec'' \<in> batch_completions sample_env sample_lease ''exec''"
      by (simp add: sample_lease_def leased_batch_row_def batch_key_def batch_completions_def)
  qed (simp_all only: b l list.set_intros)
  ultimately have "RecoverBatches late_env sample_lease_claim (sample_world leased_batch_db) = (Inr 1, w') \<and>
     map batch_Status (card_status_batches (durable w')) = [''queued''] \<and>
     map batch_lease_version (card_status_batches (durable w')) = [2]" using r by simp
  moreover from stale obtain w3 where "ApplyBatch sample_env sample_lease ''exec'' w' = (Inl ErrStale, w3)" "durable w3 = durable w'"
    by (elim exE conjE)
  ultimately show ?thesis by (intro exI [of _ w'] exI [of _ w3]) simp
qed

section \<open>A stuck claim\<close>

lemma checked_guard_fails: "\<not> b \<Longrightarrow> checked ((code, b) # cs) x = Inl (PgError code)"
  by (simp add: checked.simps)

lemma guarded_update_fails:
  assumes "filter P rows = [r]" and "g r (f r) = (code, b) # cs" and "\<not> b"
  shows "guarded_update g P f rows = Inl (PgError code)"
proof -
  have "concat (map (\<lambda>r. if P r then g r (f r) else []) rows) = concat (map (\<lambda>r. g r (f r)) (filter P rows))"
    by (induction rows) auto
  then show ?thesis using assms by (simp add: guarded_update_def checked_guard_fails)
qed

lemma filter_key_single:
  assumes "unique_key key rows" and "r \<in> set rows" and "P r" and "\<And>x. x \<in> set rows \<Longrightarrow> P x \<Longrightarrow> key x = key r"
  shows "filter P rows = [r]"
  using assms
proof (induction rows)
  case (Cons x xs)
  then show ?case
  proof (cases "x = r")
    case True
    have "\<not> P y" if y: "y \<in> set xs" for y
    proof
      assume "P y"
      then have "key y = key r" using Cons.prems(4) [of y] y by simp
      moreover have "key y \<in> key ` set xs" using y by simp
      ultimately show False using Cons.prems(1) True by (simp add: unique_key_def)
    qed
    then have "filter P xs = []" by (simp add: filter_empty_conv)
    then show ?thesis using True Cons.prems(3) by simp
  next
    case False
    then have r: "r \<in> set xs" using Cons.prems(2) by simp
    have "\<not> P x"
    proof
      assume "P x"
      then have "key x = key r" using Cons.prems(4) [of x] by simp
      moreover have "key r \<in> key ` set xs" using r by simp
      ultimately show False using Cons.prems(1) by (simp add: unique_key_def)
    qed
    moreover have u: "unique_key key xs" using Cons.prems(1) by (simp add: unique_key_def)
    have "filter P xs = [r]" by (rule Cons.IH [OF u r Cons.prems(3)], rule Cons.prems(4)) simp_all
    ultimately show ?thesis by simp
  qed
qed simp

text \<open>
  C18. A pending expiry item whose card is already expired blocks the bank's expiry queue. When it is the
  next item, \<open>ClaimExpiryItem\<close> fails with the exception of the trigger \<open>guard_expiry_run_item\<close> (SQLSTATE
  P0001) and leaves everything as it was, so that the item stays pending and stays the next one: the
  branch of \<open>ApplyExpiryItem\<close> that would record it as \<open>skipped_already_expired\<close> is not reached.
\<close>

theorem expired_card_blocks_expiry_claims:
  assumes "no_faults env" and "next_pending_item (clm_BankID claim) (clock_timestamp env (Suc (Suc (tick w)))) (durable w) = Some i"
    and "card_status_of (durable w) (clm_BankID claim) (ei_card_id i) = Some ''expired''"
    and "unique_key expiry_item_key (card_expiry_run_items (durable w))"
  shows "\<exists>w'. ClaimExpiryItem env claim w = (Inl (PgError ''P0001''), w') \<and> durable w' = durable w"
proof -
  let ?bank = "clm_BankID claim" and ?d = "durable w"
  define w0 where "w0 = w\<lparr>view := ?d, tx_start := clock_timestamp env (tick w), tick := Suc (Suc (tick w))\<rparr>"
  have bg: "beginTenant env ?bank w = (Inr (), w0)" by (simp add: beginTenant_run [OF assms(1)] w0_def)
  have w0: "view w0 = ?d" "durable w0 = ?d" "tick w0 = Suc (Suc (tick w))" by (simp_all add: w0_def)
  let ?P = "\<lambda>x. ei_entity x = ?bank \<and> ei_id x = ei_id i \<and> ei_status x = ''pending''"
  have i: "i \<in> set (card_expiry_run_items ?d)" "ei_entity i = ?bank" "ei_status i = ''pending''"
    using first_row_Some(1) [OF assms(2) [unfolded next_pending_item_def]] by auto
  have one: "filter ?P (card_expiry_run_items ?d) = [i]"
    using i by (intro filter_key_single [OF assms(4)]) (auto simp: expiry_item_key_def)
  have refused: "update_expiry_items now ?P (claim_item claim ctx) ?d = Inl (PgError ''P0001'')" for now ctx
  proof -
    have "\<not> guard_expiry_run_item ?d now i (claim_item claim ctx i)"
      using i assms(3) by (simp add: guard_expiry_run_item_def claim_item_def)
    then show ?thesis unfolding update_expiry_items_def by (subst guarded_update_fails [OF one]) auto
  qed
  have "statement env (\<lambda>ctx. read_only (\<lambda>d. Inr (next_pending_item ?bank (sql_clock ctx) d)) ctx) w0 = (Inr (Some i), ticked w0)"
    using assms(1,2) w0 by (simp add: statement_def read_only_def)
  moreover have "statement env (update_claimed_item claim (ei_id i)) (ticked w0) = (Inl (PgError ''P0001''), ticked (ticked w0))"
    using assms(1) w0 by (simp add: statement_def update_claimed_item_def refused)
  ultimately have "ClaimExpiryItem env claim w = (Inl (PgError ''P0001''), Rollback (ticked (ticked w0)))"
    by (simp add: ClaimExpiryItem_def transaction_def andThen_def bg deferred_def)
  then show ?thesis using w0 by simp
qed


definition blocked_db :: shard_db where
  "blocked_db = batch_db\<lparr>cards := map (\<lambda>c. c\<lparr>card_Status := ''expired''\<rparr>) (cards batch_db),
     card_expiry_runs := [open_run_row],
     card_expiry_run_items := [leased_item_row\<lparr>ei_status := ''pending'', ei_lease_owner := None, ei_lease_expires_at := None\<rparr>]\<rparr>"

theorem expired_card_blocks_expiry_claims_witness:
  "\<exists>w'. ClaimExpiryItem sample_env sample_lease_claim (sample_world blocked_db) = (Inl (PgError ''P0001''), w') \<and>
     durable w' = blocked_db"
proof -
  let ?i = "leased_item_row\<lparr>ei_status := ''pending'', ei_lease_owner := None, ei_lease_expires_at := None\<rparr>"
  have "next_pending_item (clm_BankID sample_lease_claim)
      (clock_timestamp sample_env (Suc (Suc (tick (sample_world blocked_db))))) (durable (sample_world blocked_db)) = Some ?i"
    by (simp add: next_pending_item_def first_row_def order_asc_def sample_lease_claim_def sample_world_def blocked_db_def
        leased_item_row_def)
  moreover have "card_status_of (durable (sample_world blocked_db)) (clm_BankID sample_lease_claim) (ei_card_id ?i) = Some ''expired''"
    by (simp add: card_status_of_def query_row_def card_key_def sample_lease_claim_def sample_world_def blocked_db_def
        batch_db_def leased_item_row_def)
  moreover have "unique_key expiry_item_key (card_expiry_run_items (durable (sample_world blocked_db)))"
    by (simp add: unique_key_def sample_world_def blocked_db_def)
  ultimately show ?thesis
    using expired_card_blocks_expiry_claims [OF sample_env_no_faults(1), of sample_lease_claim "sample_world blocked_db" ?i]
    by (simp add: sample_world_def)
qed

end
