(* ===== verification/Executor_Service.thy ===== *)
theory Executor_Service
  imports Executor_Claims
begin

text \<open>
  The executor (\<open>internal/executor/service.go\<close>, \<open>internal/executor/config.go\<close>): the polling cycle
  that schedules, recovers and claims work under bounded concurrency, and the workers it starts.
  The directory (users and bank routes of the control database) is a parameter whose answers may
  change from one call to the next. A worker is an element of the pool; it runs its calls of the store
  one after the other, and the steps of a running executor are the cycles and the runs of workers.
  Go's \<open>int\<close> counters are integers.
\<close>

section \<open>Configuration and backoff\<close>

record Config =
  cfg_Identity :: string
  cfg_OperationalAddress :: string
  cfg_ControlURL :: string
  cfg_ShardURL :: string
  cfg_ShardID :: string
  cfg_PollInterval :: duration
  cfg_MaxClaims :: int
  cfg_PerBankConcurrency :: int
  cfg_LeaseDuration :: duration
  cfg_BatchMaxAttempts :: nat
  cfg_BatchInitialBackoff :: duration
  cfg_BatchMaximumBackoff :: duration
  cfg_BatchSizeCap :: nat
  cfg_ExpiryInitialBackoff :: duration
  cfg_DrainTimeout :: duration

text \<open>Arithmetic of \<open>time.Duration\<close>, a signed 64-bit integer.\<close>

definition wrap64 :: "int \<Rightarrow> int" where
  "wrap64 x = (x + 2 ^ 63) mod 2 ^ 64 - 2 ^ 63"

fun backoff_loop :: "duration \<Rightarrow> nat \<Rightarrow> duration \<Rightarrow> duration" where
  "backoff_loop maximum 0 value = value"
| "backoff_loop maximum (Suc n) value =
     (if maximum div 2 \<le> value then maximum else backoff_loop maximum n (wrap64 (value * 2)))"

definition batchBackoff :: "duration \<Rightarrow> duration \<Rightarrow> nat \<Rightarrow> duration" where
  "batchBackoff initial maximum attempt =
     (if attempt \<le> 1 then initial else backoff_loop maximum (attempt - 1) initial)"

section \<open>The service\<close>

datatype task = BatchTask Batch | ExpiryTask ExpiryItem

fun task_bank :: "task \<Rightarrow> uuid" where
  "task_bank (BatchTask b) = exb_BankID b"
| "task_bank (ExpiryTask i) = exi_BankID i"

record executor_world = "shard_db tx_world" +
  exs_rotation :: nat
  exs_byBank :: "uuid \<Rightarrow> int"
  exs_inFlight :: int
  exs_workers :: "task list"
  exs_claims :: nat
  exs_retries :: nat
  exs_recoveries :: nat
  exs_succeeded :: nat
  exs_failed :: nat
  exs_loopOK :: nat

record directory =
  dir_User :: "nat \<Rightarrow> uuid \<Rightarrow> DirectoryUser result"
  dir_Banks :: "nat \<Rightarrow> Route list result"

definition directory_User :: "directory \<Rightarrow> uuid \<Rightarrow> ('m shard_world_scheme, DirectoryUser) prog" where
  "directory_User dir uid = (\<lambda>w. (dir_User dir (tick w) uid, ticked w))"

definition directory_Banks :: "directory \<Rightarrow> ('m shard_world_scheme, Route list) prog" where
  "directory_Banks dir = (\<lambda>w. (dir_Banks dir (tick w), ticked w))"

definition IsTransient :: "go_error \<Rightarrow> bool" where
  "IsTransient err =
     (case err of
        PgError code \<Rightarrow> code \<in> set [''40001'', ''40P01'', ''55P03'', ''57P01''] \<or> take 2 code = ''08''
      | NetError timeout temporary \<Rightarrow> timeout \<or> temporary
      | _ \<Rightarrow> False)"

definition reserve :: "Config \<Rightarrow> uuid \<Rightarrow> executor_world \<Rightarrow> bool \<times> executor_world" where
  "reserve cfg bank w =
     (if cfg_MaxClaims cfg \<le> exs_inFlight w \<or> cfg_PerBankConcurrency cfg \<le> exs_byBank w bank then (False, w)
      else (True, w\<lparr>exs_inFlight := exs_inFlight w + 1, exs_byBank := (exs_byBank w)(bank := exs_byBank w bank + 1)\<rparr>))"

definition release :: "uuid \<Rightarrow> executor_world \<Rightarrow> executor_world" where
  "release bank w = w\<lparr>exs_inFlight := exs_inFlight w - 1, exs_byBank := (exs_byBank w)(bank := exs_byBank w bank - 1)\<rparr>"

definition rotate_banks :: "uuid list \<Rightarrow> executor_world \<Rightarrow> uuid list \<times> executor_world" where
  "rotate_banks banks w =
     (if length banks < 2 then (banks, w)
      else (let start = exs_rotation w mod length banks in
        (drop start banks @ take start banks,
         w\<lparr>exs_rotation := (exs_rotation w + 1) mod length banks\<rparr>)))"

definition activeBanks :: "Config \<Rightarrow> directory \<Rightarrow> ('m shard_world_scheme, uuid list) prog" where
  "activeBanks cfg dir =
     andThen (directory_Banks dir) (\<lambda>routes.
     ret (sort (map route_EntityID (filter (\<lambda>r. route_ShardID r = cfg_ShardID cfg \<and> route_PlacementStatus r = ''active'') routes))))"

definition authorized_user :: "Config \<Rightarrow> Batch \<Rightarrow> DirectoryUser \<Rightarrow> Route list \<Rightarrow> bool" where
  "authorized_user cfg batch user routes =
     (if du_Status user \<noteq> ''enabled'' then False
      else if du_Role user = ''bank_operator'' \<and> du_EntityID user \<noteq> exb_BankID batch then False
      else if du_Role user \<noteq> ''issuer_operator'' \<and> du_Role user \<noteq> ''bank_operator'' then False
      else list_ex (\<lambda>r. route_EntityID r = exb_BankID batch \<and> route_ShardID r = cfg_ShardID cfg \<and>
             route_PlacementStatus r = ''active'') routes)"

text \<open>The answer \<open>(allowed, retryable)\<close>.\<close>

definition authorized :: "Config \<Rightarrow> directory \<Rightarrow> Batch \<Rightarrow> executor_world \<Rightarrow> (bool \<times> bool) \<times> executor_world" where
  "authorized cfg dir batch w =
     (case directory_User dir (exb_RequestedBy batch) w of
        (Inl e, w1) \<Rightarrow> (if e = ErrNoRows then ((False, False), w1) else ((False, True), w1))
      | (Inr user, w1) \<Rightarrow>
          (case directory_Banks dir w1 of
             (Inl e, w2) \<Rightarrow> ((False, True), w2)
           | (Inr routes, w2) \<Rightarrow> ((authorized_user cfg batch user routes, False), w2)))"

definition fail_and_count :: "environment \<Rightarrow> Config \<Rightarrow> Batch \<Rightarrow> string \<Rightarrow> executor_world \<Rightarrow> executor_world" where
  "fail_and_count env cfg batch code w =
     (let w1 = snd (FailBatch env batch (cfg_Identity cfg) code w) in w1\<lparr>exs_failed := exs_failed w1 + 1\<rparr>)"

definition retryBatch :: "environment \<Rightarrow> Config \<Rightarrow> Batch \<Rightarrow> string \<Rightarrow> executor_world \<Rightarrow> executor_world" where
  "retryBatch env cfg batch code w =
     (if cfg_BatchMaxAttempts cfg \<le> exb_AttemptCount batch then fail_and_count env cfg batch ''retry_exhausted'' w
      else case RequeueBatch env batch (cfg_Identity cfg) code
             (batchBackoff (cfg_BatchInitialBackoff cfg) (cfg_BatchMaximumBackoff cfg) (exb_AttemptCount batch)) w of
        (Inr _, w1) \<Rightarrow> w1\<lparr>exs_retries := exs_retries w1 + 1\<rparr>
      | (Inl _, w1) \<Rightarrow> w1)"

definition work_batch :: "environment \<Rightarrow> Config \<Rightarrow> directory \<Rightarrow> Batch \<Rightarrow> executor_world \<Rightarrow> executor_world" where
  "work_batch env cfg dir batch w =
     (if cfg_BatchSizeCap cfg < exb_ItemCount batch then fail_and_count env cfg batch ''invalid_transition'' w
      else case authorized cfg dir batch w of ((allowed, retryable), w1) \<Rightarrow>
        if retryable then retryBatch env cfg batch ''control_unavailable'' w1
        else if \<not> allowed then fail_and_count env cfg batch ''authorization_revoked'' w1
        else case ApplyBatch env batch (cfg_Identity cfg) w1 of
          (Inr _, w2) \<Rightarrow> w2\<lparr>exs_succeeded := exs_succeeded w2 + 1\<rparr>
        | (Inl err, w2) \<Rightarrow>
            if err = ErrRetryable \<or> IsTransient err then retryBatch env cfg batch ''dependency_unavailable'' w2
            else if err = ErrStale then w2
            else fail_and_count env cfg batch ''invalid_transition'' w2)"

definition runBatch :: "environment \<Rightarrow> Config \<Rightarrow> directory \<Rightarrow> Batch \<Rightarrow> executor_world \<Rightarrow> executor_world" where
  "runBatch env cfg dir batch w = release (exb_BankID batch) (work_batch env cfg dir batch w)"

definition work_expiry :: "environment \<Rightarrow> Config \<Rightarrow> ExpiryItem \<Rightarrow> executor_world \<Rightarrow> executor_world" where
  "work_expiry env cfg item w =
     (case ApplyExpiryItem env item (cfg_Identity cfg) w of
        (Inr _, w1) \<Rightarrow> w1\<lparr>exs_succeeded := exs_succeeded w1 + 1\<rparr>
      | (Inl err, w1) \<Rightarrow>
          if err = ErrRetryable \<or> IsTransient err then
            (case RequeueExpiryItem env item (cfg_Identity cfg) (cfg_ExpiryInitialBackoff cfg) w1 of
               (Inr _, w2) \<Rightarrow> w2\<lparr>exs_retries := exs_retries w2 + 1\<rparr>
             | (Inl _, w2) \<Rightarrow> w2)
          else if err = ErrStale then w1
          else (let w2 = snd (FailExpiryItem env item (cfg_Identity cfg) w1) in w2\<lparr>exs_failed := exs_failed w2 + 1\<rparr>))"

definition runExpiry :: "environment \<Rightarrow> Config \<Rightarrow> ExpiryItem \<Rightarrow> executor_world \<Rightarrow> executor_world" where
  "runExpiry env cfg item w = release (exi_BankID item) (work_expiry env cfg item w)"

definition bank_claim :: "Config \<Rightarrow> uuid \<Rightarrow> Claim" where
  "bank_claim cfg bank = \<lparr>clm_BankID = bank, clm_Owner = cfg_Identity cfg, clm_LeaseDuration = cfg_LeaseDuration cfg\<rparr>"

definition count_recoveries :: "nat \<Rightarrow> executor_world \<Rightarrow> executor_world" where
  "count_recoveries n w = w\<lparr>exs_recoveries := exs_recoveries w + n\<rparr>"

text \<open>The first loop of \<open>cycle\<close>: the run of the day and the recoveries of every bank.\<close>

fun prepare_loop :: "environment \<Rightarrow> Config \<Rightarrow> time \<Rightarrow> uuid list \<Rightarrow> (executor_world, unit) prog" where
  "prepare_loop env cfg today [] = ret ()"
| "prepare_loop env cfg today (bank # banks) =
     andThen (EnsureExpiryRun env bank today (cfg_Identity cfg)) (\<lambda>_.
     andThen (RecoverBatches env (bank_claim cfg bank)) (\<lambda>count w.
     andThen (RecoverExpiryItems env (bank_claim cfg bank)) (\<lambda>count' w'.
     prepare_loop env cfg today banks (count_recoveries count' w')) (count_recoveries count w)))"

definition start_worker :: "task \<Rightarrow> executor_world \<Rightarrow> executor_world" where
  "start_worker t w = w\<lparr>exs_claims := exs_claims w + 1, exs_workers := exs_workers w @ [t]\<rparr>"

text \<open>One reserved claim: an error or an empty claim gives the reservation back.\<close>

definition claim_work :: "uuid \<Rightarrow> (executor_world, 'a option) prog \<Rightarrow> ('a \<Rightarrow> task) \<Rightarrow> (executor_world, unit) prog" where
  "claim_work bank claim mk =
     andThen (compensated claim (release bank)) (\<lambda>found w.
       case found of
         Some x \<Rightarrow> (Inr (), start_worker (mk x) w)
       | None \<Rightarrow> (Inr (), release bank w))"

fun claim_loop :: "environment \<Rightarrow> Config \<Rightarrow> uuid list \<Rightarrow> (executor_world, unit) prog" where
  "claim_loop env cfg [] w = (Inr (), w)"
| "claim_loop env cfg (bank # banks) w =
     (case reserve cfg bank w of
        (False, w1) \<Rightarrow> claim_loop env cfg banks w1
      | (True, w1) \<Rightarrow>
          andThen (claim_work bank (ClaimBatch env (bank_claim cfg bank)) BatchTask) (\<lambda>_ w2.
          case reserve cfg bank w2 of
            (False, w3) \<Rightarrow> claim_loop env cfg banks w3
          | (True, w3) \<Rightarrow>
              andThen (claim_work bank (ClaimExpiryItem env (bank_claim cfg bank)) ExpiryTask) (\<lambda>_.
              claim_loop env cfg banks) w3) w1)"

definition cycle :: "environment \<Rightarrow> Config \<Rightarrow> directory \<Rightarrow> (executor_world, unit) prog" where
  "cycle env cfg dir =
     andThen (activeBanks cfg dir) (\<lambda>routes.
     andThen (time_now env) (\<lambda>now.
     andThen (prepare_loop env cfg (now - now mod day_length) routes) (\<lambda>_ w.
     (case rotate_banks routes w of (banks, w1) \<Rightarrow>
      andThen (claim_loop env cfg banks) (\<lambda>_ w2. (Inr (), w2\<lparr>exs_loopOK := exs_loopOK w2 + 1\<rparr>)) w1))))"

record Snapshot =
  snap_Claims :: nat
  snap_Retries :: nat
  snap_Recoveries :: nat
  snap_Succeeded :: nat
  snap_Failed :: nat
  snap_Loops :: nat
  snap_InFlight :: int

definition Metrics :: "executor_world \<Rightarrow> Snapshot" where
  "Metrics w = \<lparr>snap_Claims = exs_claims w, snap_Retries = exs_retries w, snap_Recoveries = exs_recoveries w,
     snap_Succeeded = exs_succeeded w, snap_Failed = exs_failed w, snap_Loops = exs_loopOK w, snap_InFlight = exs_inFlight w\<rparr>"

text \<open>A worker runs to its end and leaves the pool.\<close>

fun run_task :: "environment \<Rightarrow> Config \<Rightarrow> directory \<Rightarrow> task \<Rightarrow> executor_world \<Rightarrow> executor_world" where
  "run_task env cfg dir (BatchTask b) w = runBatch env cfg dir b w"
| "run_task env cfg dir (ExpiryTask i) w = runExpiry env cfg i w"

definition new_executor :: "executor_world \<Rightarrow> bool" where
  "new_executor w \<longleftrightarrow> exs_rotation w = 0 \<and> exs_byBank w = (\<lambda>_. 0) \<and> exs_inFlight w = 0 \<and> exs_workers w = [] \<and>
     exs_claims w = 0 \<and> exs_retries w = 0 \<and> exs_recoveries w = 0 \<and> exs_succeeded w = 0 \<and> exs_failed w = 0 \<and> exs_loopOK w = 0"

inductive service_step :: "Config \<Rightarrow> executor_world \<Rightarrow> executor_world \<Rightarrow> bool" for cfg where
  poll: "service_step cfg w (snd (cycle env cfg dir w))"
| work: "exs_workers w = ts @ t # us \<Longrightarrow>
    service_step cfg w ((run_task env cfg dir t w)\<lparr>exs_workers := ts @ us\<rparr>)"

inductive_cases service_stepE: "service_step cfg w w'"


section \<open>Bounded concurrency\<close>

text \<open>
  The pool with outstanding reservations \<open>rs\<close>: the counters are exactly the workers and the
  reservations, in total and per bank, and within the configured limits.
\<close>

definition pool_ok :: "Config \<Rightarrow> uuid list \<Rightarrow> executor_world \<Rightarrow> bool" where
  "pool_ok cfg rs w \<longleftrightarrow>
     exs_inFlight w = int (length (exs_workers w) + length rs) \<and> exs_inFlight w \<le> max 0 (cfg_MaxClaims cfg) \<and>
     (\<forall>b. exs_byBank w b = int (count_list (map task_bank (exs_workers w)) b + count_list rs b) \<and>
          exs_byBank w b \<le> max 0 (cfg_PerBankConcurrency cfg))"

lemma pool_okI:
  assumes "exs_inFlight w = int (length (exs_workers w) + length rs)" and "exs_inFlight w \<le> max 0 (cfg_MaxClaims cfg)"
    and "\<And>b. exs_byBank w b = int (count_list (map task_bank (exs_workers w)) b + count_list rs b)"
    and "\<And>b. exs_byBank w b \<le> max 0 (cfg_PerBankConcurrency cfg)"
  shows "pool_ok cfg rs w"
  using assms by (simp add: pool_ok_def)

lemma pool_okD:
  assumes "pool_ok cfg rs w"
  shows "exs_inFlight w = int (length (exs_workers w) + length rs)" and "exs_inFlight w \<le> max 0 (cfg_MaxClaims cfg)"
    and "exs_byBank w b = int (count_list (map task_bank (exs_workers w)) b + count_list rs b)"
    and "exs_byBank w b \<le> max 0 (cfg_PerBankConcurrency cfg)"
  using assms unfolding pool_ok_def by blast+

lemma reserve_ok:
  assumes "pool_ok cfg rs w" and "reserve cfg b w = (r, w')"
  shows "pool_ok cfg (if r then b # rs else rs) w'"
proof (cases "cfg_MaxClaims cfg \<le> exs_inFlight w \<or> cfg_PerBankConcurrency cfg \<le> exs_byBank w b")
  case False
  then have r: "r" "w' = w\<lparr>exs_inFlight := exs_inFlight w + 1, exs_byBank := (exs_byBank w)(b := exs_byBank w b + 1)\<rparr>"
    using assms(2) by (auto simp: reserve_def)
  show ?thesis
    by (rule pool_okI) (use pool_okD [OF assms(1)] False r in \<open>auto simp: fun_upd_def\<close>)
qed (use assms in \<open>auto simp: reserve_def\<close>)

lemma release_ok:
  assumes "pool_ok cfg (b # rs) w"
  shows "pool_ok cfg rs (release b w)"
proof (rule pool_okI)
  fix x
  show "exs_byBank (release b w) x = int (count_list (map task_bank (exs_workers (release b w))) x + count_list rs x)"
    using pool_okD(3) [OF assms, of x] by (auto simp: release_def split: if_splits)
  show "exs_byBank (release b w) x \<le> max 0 (cfg_PerBankConcurrency cfg)"
    using pool_okD(4) [OF assms, of x] by (auto simp: release_def)
qed (use pool_okD(1,2) [OF assms] in \<open>simp_all add: release_def\<close>)

lemma start_worker_ok:
  assumes "pool_ok cfg (task_bank t # rs) w"
  shows "pool_ok cfg rs (start_worker t w)"
proof (rule pool_okI)
  fix x
  show "exs_byBank (start_worker t w) x = int (count_list (map task_bank (exs_workers (start_worker t w))) x + count_list rs x)"
    using pool_okD(3) [OF assms, of x] by (simp add: start_worker_def)
  show "exs_byBank (start_worker t w) x \<le> max 0 (cfg_PerBankConcurrency cfg)"
    using pool_okD(4) [OF assms, of x] by (simp add: start_worker_def)
qed (use pool_okD(1,2) [OF assms] in \<open>simp_all add: start_worker_def\<close>)

lemma pool_fields:
  "tx_world.more w' = tx_world.more w \<Longrightarrow> exs_inFlight w' = exs_inFlight w \<and> exs_byBank w' = exs_byBank w \<and>
     exs_workers w' = exs_workers w \<and> exs_rotation w' = exs_rotation w"
  by (cases w; cases w') simp

lemma pool_ok_more: "tx_world.more w' = tx_world.more w \<Longrightarrow> pool_ok cfg rs w' = pool_ok cfg rs w"
  using pool_fields [of w' w] by (simp add: pool_ok_def)

lemma keeps_executor_loops_more [keeps_intros]:
  "keeps tx_world.more (apply_batch_loop env batch holder a g items)"
  "keeps tx_world.more (schedule_loop env bank run holder cs)"
  "keeps tx_world.more (complete_runs env bank runs)"
proof -
  show "keeps tx_world.more (apply_batch_loop env batch holder a g items)"
    by (induction env batch holder a g items rule: apply_batch_loop.induct)
      (auto simp: ignore_batch_card_def apply_batch_card_def item_outcome_def succeed_batch_operation_def
        audit_batch_def insertAudit_def insertStatusHistory_def intro!: keeps_intros)
  show "keeps tx_world.more (schedule_loop env bank run holder cs)" by (induction cs) (auto intro!: keeps_intros)
  show "keeps tx_world.more (complete_runs env bank runs)"
    by (induction runs) (auto simp: completeExpiryRun_def intro!: keeps_intros)
qed

lemma keeps_executor_methods_more:
  "keeps tx_world.more (ClaimBatch env claim)" "keeps tx_world.more (RecoverBatches env claim)"
  "keeps tx_world.more (ApplyBatch env batch holder)" "keeps tx_world.more (RequeueBatch env batch holder code delay)"
  "keeps tx_world.more (FailBatch env batch holder code)" "keeps tx_world.more (EnsureExpiryRun env bank day holder)"
  "keeps tx_world.more (RecoverExpiryItems env claim)" "keeps tx_world.more (ClaimExpiryItem env claim)"
  "keeps tx_world.more (ApplyExpiryItem env item holder)" "keeps tx_world.more (RequeueExpiryItem env item holder delay)"
  "keeps tx_world.more (FailExpiryItem env item holder)"
  unfolding ClaimBatch_def RecoverBatches_def ApplyBatch_def RequeueBatch_def updateBatchLease_def FailBatch_def
    EnsureExpiryRun_def RecoverExpiryItems_def ClaimExpiryItem_def ApplyExpiryItem_def RequeueExpiryItem_def FailExpiryItem_def
    transaction_def verifyBatchLease_def update_leased_batch_def verifyExpiryLease_def update_leased_item_def completeExpiryRun_def
    audit_batch_def insertAudit_def insertStatusHistory_def expire_locked_card_def
  by (intro keeps_intros)+


lemma claimed_banks:
  "ClaimBatch env claim w = (Inr (Some b), w') \<Longrightarrow> exb_BankID b = clm_BankID claim"
  "ClaimExpiryItem env claim w = (Inr (Some i), w') \<Longrightarrow> exi_BankID i = clm_BankID claim"
  unfolding ClaimBatch_def ClaimExpiryItem_def
  by (auto elim!: transaction_InrE andThen_InrE simp: ret_def claimed_batch_def claimed_item_def split: option.splits)

text \<open>What the pool is counted by.\<close>

definition pool_view :: "executor_world \<Rightarrow> int \<times> (uuid \<Rightarrow> int) \<times> task list" where
  "pool_view w = (exs_inFlight w, exs_byBank w, exs_workers w)"

lemma pool_ok_view: "pool_view w' = pool_view w \<Longrightarrow> pool_ok cfg rs w' = pool_ok cfg rs w"
  by (simp add: pool_ok_def pool_view_def)

lemma pool_view_more: "keeps tx_world.more m \<Longrightarrow> pool_view (snd (m w)) = pool_view w"
  using pool_fields [of "snd (m w)" w] by (simp add: keeps_def pool_view_def)

lemma pool_view_counters [simp]:
  "pool_view (w\<lparr>exs_failed := n\<rparr>) = pool_view w" "pool_view (w\<lparr>exs_succeeded := n\<rparr>) = pool_view w"
  "pool_view (w\<lparr>exs_retries := n\<rparr>) = pool_view w" "pool_view (w\<lparr>exs_loopOK := n\<rparr>) = pool_view w"
  "pool_view (w\<lparr>exs_rotation := n\<rparr>) = pool_view w" "pool_view (count_recoveries n w) = pool_view w"
  "pool_view (ticked w) = pool_view w"
  by (simp_all add: pool_view_def count_recoveries_def ticked_def)

lemma pool_view_methods [simp]:
  "pool_view (snd (ApplyBatch env batch holder w)) = pool_view w"
  "pool_view (snd (RequeueBatch env batch holder code delay w)) = pool_view w"
  "pool_view (snd (FailBatch env batch holder code w)) = pool_view w"
  "pool_view (snd (ApplyExpiryItem env item holder w)) = pool_view w"
  "pool_view (snd (RequeueExpiryItem env item holder delay w)) = pool_view w"
  "pool_view (snd (FailExpiryItem env item holder w)) = pool_view w"
  by (intro pool_view_more keeps_executor_methods_more)+

lemma pool_view_authorized [simp]: "pool_view (snd (authorized cfg dir batch w)) = pool_view w"
  by (auto simp: authorized_def directory_User_def directory_Banks_def split: sum.splits)

lemma pool_view_retry [simp]:
  "pool_view (fail_and_count env cfg batch code w) = pool_view w" "pool_view (retryBatch env cfg batch code w) = pool_view w"
proof -
  show f: "pool_view (fail_and_count env cfg batch code w) = pool_view w" for code w
    by (simp add: fail_and_count_def Let_def)
  show "pool_view (retryBatch env cfg batch code w) = pool_view w"
    by (simp add: retryBatch_def f split_beta split: sum.split)
qed

lemma pool_view_work [simp]:
  "pool_view (work_batch env cfg dir batch w) = pool_view w" "pool_view (work_expiry env cfg item w) = pool_view w"
  by (simp_all add: work_batch_def work_expiry_def split_beta Let_def split: sum.split)

lemma run_task_view: "pool_view (run_task env cfg dir t w) = pool_view (release (task_bank t) w)"
proof -
  have r: "pool_view (release b w1) = pool_view (release b w2)" if "pool_view w1 = pool_view w2" for b w1 w2
    using that by (simp add: pool_view_def release_def)
  show ?thesis
    by (cases t) (simp_all only: run_task.simps task_bank.simps runBatch_def runExpiry_def, (rule r, simp)+)
qed

lemma run_task_ok:
  assumes "pool_ok cfg rs w" and "exs_workers w = ts @ t # us"
  shows "pool_ok cfg rs ((run_task env cfg dir t w)\<lparr>exs_workers := ts @ us\<rparr>)"
proof -
  let ?w = "w\<lparr>exs_workers := ts @ us\<rparr>"
  have "pool_ok cfg (task_bank t # rs) ?w"
  proof (rule pool_okI)
    fix b
    show "exs_byBank ?w b = int (count_list (map task_bank (exs_workers ?w)) b + count_list (task_bank t # rs) b)"
      using pool_okD(3) [OF assms(1), of b] by (simp add: assms(2))
    show "exs_byBank ?w b \<le> max 0 (cfg_PerBankConcurrency cfg)"
      using pool_okD(4) [OF assms(1), of b] by simp
  qed (use pool_okD(1,2) [OF assms(1)] assms(2) in simp_all)
  then have "pool_ok cfg rs (release (task_bank t) ?w)" by (rule release_ok)
  moreover have "pool_view ((run_task env cfg dir t w)\<lparr>exs_workers := ts @ us\<rparr>) = pool_view (release (task_bank t) ?w)"
    using run_task_view [of env cfg dir t w] by (simp add: pool_view_def release_def)
  ultimately show ?thesis by (rule iffD2 [OF pool_ok_view, rotated])
qed

lemma claim_work_ok:
  assumes "pool_ok cfg (bank # rs) w" and "keeps tx_world.more claim"
    and "\<And>x w'. claim w = (Inr (Some x), w') \<Longrightarrow> task_bank (mk x) = bank"
  shows "pool_ok cfg rs (snd (claim_work bank claim mk w))"
proof (cases "claim w")
  case (Pair r w1)
  have p: "pool_ok cfg (bank # rs) w1"
    using iffD2 [OF pool_ok_view [OF pool_view_more [OF assms(2)]] assms(1)] Pair by simp
  show ?thesis
  proof (cases r)
    case (Inl e)
    with Pair release_ok [OF p] show ?thesis by (simp add: claim_work_def andThen_def compensated_def)
  next
    case (Inr found)
    have "pool_ok cfg rs (start_worker (mk x) w1)" if "found = Some x" for x
      using assms(3) Pair Inr that p by (intro start_worker_ok) simp
    with Pair Inr release_ok [OF p] show ?thesis
      by (cases found) (simp_all add: claim_work_def andThen_def compensated_def)
  qed
qed

lemma claim_loop_ok: "pool_ok cfg rs w \<Longrightarrow> pool_ok cfg rs (snd (claim_loop env cfg banks w))"
proof (induction banks arbitrary: w)
  case (Cons bank banks)
  obtain r1 w1 where r1: "reserve cfg bank w = (r1, w1)" by fastforce
  have p1: "pool_ok cfg (if r1 then bank # rs else rs) w1" using reserve_ok [OF Cons.prems r1] .
  show ?case
  proof (cases r1)
    case False
    with Cons.IH [of w1] p1 r1 show ?thesis by simp
  next
    case True
    obtain x2 w2 where w2: "claim_work bank (ClaimBatch env (bank_claim cfg bank)) BatchTask w1 = (x2, w2)" by fastforce
    have "pool_ok cfg rs (snd (claim_work bank (ClaimBatch env (bank_claim cfg bank)) BatchTask w1))"
      using p1 True by (intro claim_work_ok keeps_executor_methods_more) (auto dest: claimed_banks simp: bank_claim_def)
    then have p2: "pool_ok cfg rs w2" using w2 by simp
    obtain r3 w3 where r3: "reserve cfg bank w2 = (r3, w3)" by fastforce
    have p3: "pool_ok cfg (if r3 then bank # rs else rs) w3" using reserve_ok [OF p2 r3] .
    obtain x4 w4 where w4: "claim_work bank (ClaimExpiryItem env (bank_claim cfg bank)) ExpiryTask w3 = (x4, w4)" by fastforce
    have "pool_ok cfg rs w4" if r3
    proof -
      have "pool_ok cfg rs (snd (claim_work bank (ClaimExpiryItem env (bank_claim cfg bank)) ExpiryTask w3))"
        using p3 that by (intro claim_work_ok keeps_executor_methods_more) (auto dest: claimed_banks simp: bank_claim_def)
      then show ?thesis using w4 by simp
    qed
    with r1 True w2 p2 r3 p3 w4 Cons.IH [of w3] Cons.IH [of w4] show ?thesis
      by (cases x2; cases r3; cases x4) (simp_all add: andThen_def)
  qed
qed simp

lemma prepare_loop_view: "pool_view (snd (prepare_loop env cfg today banks w)) = pool_view w"
proof (induction banks arbitrary: w)
  case (Cons bank banks)
  have k: "pool_view (snd (EnsureExpiryRun env bank today (cfg_Identity cfg) w)) = pool_view w"
    "pool_view (snd (RecoverBatches env (bank_claim cfg bank) w)) = pool_view w"
    "pool_view (snd (RecoverExpiryItems env (bank_claim cfg bank) w)) = pool_view w" for w
    by (intro pool_view_more keeps_executor_methods_more)+
  show ?case by (simp add: andThen_def split_beta k Cons.IH split: sum.split)
qed (simp add: ret_def)

lemma cycle_ok: "pool_ok cfg rs w \<Longrightarrow> pool_ok cfg rs (snd (cycle env cfg dir w))"
proof -
  assume "pool_ok cfg rs w"
  have A: "pool_view (snd (activeBanks cfg dir w)) = pool_view w"
    by (simp add: activeBanks_def directory_Banks_def andThen_def ret_def split: sum.split)
  have R: "pool_view (snd (rotate_banks banks w)) = pool_view w" for banks w
    by (simp add: rotate_banks_def Let_def)
  have T: "pool_view (snd (time_now env w)) = pool_view w" for w
    by (simp add: time_now_def)
  have P: "pool_ok cfg rs w1" if "pool_view w1 = pool_view w" for w1
    using iffD2 [OF pool_ok_view [OF that] \<open>pool_ok cfg rs w\<close>] .
  have C: "pool_ok cfg rs (snd (claim_loop env cfg banks w1))" if "pool_view w1 = pool_view w" for banks w1
    using P [OF that] by (rule claim_loop_ok)
  have L: "pool_ok cfg rs (w1\<lparr>exs_loopOK := n\<rparr>) = pool_ok cfg rs w1" for w1 n
    by (rule pool_ok_view) simp
  show ?thesis
    unfolding cycle_def andThen_def
    by (auto simp: split_beta L split: sum.split;
        (rule C, simp add: A T R prepare_loop_view | rule P, simp add: A T R prepare_loop_view))
qed

interpretation pool: machine new_executor "service_step cfg" "pool_ok cfg []" for cfg
proof
  show "new_executor s \<Longrightarrow> pool_ok cfg [] s" for s by (simp add: new_executor_def pool_ok_def)
  show "service_step cfg s t \<Longrightarrow> pool_ok cfg [] s \<Longrightarrow> pool_ok cfg [] t" for s t
    by (erule service_stepE) (auto intro: cycle_ok run_task_ok)
qed

text \<open>
  C20. Bounded concurrency: in every reachable state of an executor the counter of work in flight is
  the number of its workers and stays within \<open>MaxClaims\<close>, the counter of each bank is the number of
  the workers of that bank and stays within \<open>PerBankConcurrency\<close>, whatever the store and the
  directory answer and however calls fail.
\<close>

theorem concurrency_is_bounded:
  assumes "reaches new_executor (service_step cfg) w" and "0 \<le> cfg_MaxClaims cfg" and "0 \<le> cfg_PerBankConcurrency cfg"
  shows "snap_InFlight (Metrics w) = int (length (exs_workers w)) \<and> int (length (exs_workers w)) \<le> cfg_MaxClaims cfg \<and>
    (\<forall>b. exs_byBank w b = int (count_list (map task_bank (exs_workers w)) b) \<and>
         int (count_list (map task_bank (exs_workers w)) b) \<le> cfg_PerBankConcurrency cfg)"
proof -
  have p: "pool_ok cfg [] w" using assms(1) by (rule pool.inv_reachable)
  show ?thesis using pool_okD(1,2) [OF p] pool_okD(3,4) [OF p] assms(2,3) by (simp add: Metrics_def)
qed


definition sample_config :: Config where
  "sample_config = \<lparr>cfg_Identity = ''exec'', cfg_OperationalAddress = [], cfg_ControlURL = [], cfg_ShardURL = [],
     cfg_ShardID = ''shard'', cfg_PollInterval = 1000000000, cfg_MaxClaims = 8, cfg_PerBankConcurrency = 2,
     cfg_LeaseDuration = 60000000000, cfg_BatchMaxAttempts = 5, cfg_BatchInitialBackoff = 1000000000,
     cfg_BatchMaximumBackoff = 60000000000, cfg_BatchSizeCap = 100, cfg_ExpiryInitialBackoff = 1000000000,
     cfg_DrainTimeout = 30000000000\<rparr>"

definition sample_directory :: directory where
  "sample_directory = \<lparr>dir_User = (\<lambda>_ uid. Inr \<lparr>du_ID = uid, du_Username = ''ops'', du_Role = ''issuer_operator'',
       du_EntityID = [], du_Status = ''enabled'', du_CreatedAt = 0, du_UpdatedAt = 0\<rparr>),
     dir_Banks = (\<lambda>_. Inr [\<lparr>route_EntityID = ''bank'', route_ShardID = ''shard'', route_PlacementStatus = ''active'',
       route_CreatedAt = 0\<rparr>])\<rparr>"

definition idle_executor :: "shard_db \<Rightarrow> executor_world" where
  "idle_executor d = \<lparr>durable = d, view = d, tx_start = 1000, tick = 0, exs_rotation = 0, exs_byBank = (\<lambda>_. 0),
     exs_inFlight = 0, exs_workers = [], exs_claims = 0, exs_retries = 0, exs_recoveries = 0, exs_succeeded = 0,
     exs_failed = 0, exs_loopOK = 0\<rparr>"

theorem concurrency_is_bounded_witness:
  "snap_InFlight (Metrics (snd (cycle sample_env sample_config sample_directory (idle_executor batch_db)))) \<le> 8"
proof -
  have "reaches new_executor (service_step sample_config) (snd (cycle sample_env sample_config sample_directory (idle_executor batch_db)))"
  proof (rule reaches_step)
    show "reaches new_executor (service_step sample_config) (idle_executor batch_db)"
      by (rule reaches_init) (simp add: new_executor_def idle_executor_def)
  qed (rule poll)
  from concurrency_is_bounded [OF this] show ?thesis by (simp add: sample_config_def)
qed

section \<open>Backoff\<close>

lemma wrap64_id: "- (2 ^ 63) \<le> x \<Longrightarrow> x < 2 ^ 63 \<Longrightarrow> wrap64 x = x"
  by (simp add: wrap64_def mod_pos_pos_trivial)

lemma backoff_loop_bounds:
  assumes "0 < v" and "v \<le> m" and "m < 2 ^ 63"
  shows "v \<le> backoff_loop m n v \<and> backoff_loop m n v \<le> m \<and>
    (backoff_loop m n v = v * 2 ^ n \<or> (backoff_loop m n v = m \<and> m \<le> v * 2 ^ n + 1))"
  using assms
proof (induction n arbitrary: v)
  case (Suc n)
  show ?case
  proof (cases "m div 2 \<le> v")
    case True
    then have "m \<le> 2 * v + 1" by presburger
    also have "2 * v \<le> v * 2 ^ Suc n" using Suc.prems(1) by (simp add: mult.commute [of v])
    finally show ?thesis using True Suc.prems by simp
  next
    case False
    then have v: "2 * v < m" by linarith
    then have w: "wrap64 (v * 2) = 2 * v" using Suc.prems by (simp add: wrap64_id mult.commute)
    have "2 * v * 2 ^ n = v * 2 ^ Suc n" by simp
    with Suc.IH [of "2 * v"] Suc.prems v False w show ?thesis by auto
  qed
qed simp

lemma backoff_loop_mono:
  assumes "0 < v" and "v \<le> m" and "m < 2 ^ 63"
  shows "backoff_loop m n v \<le> backoff_loop m (Suc n) v"
  using assms
proof (induction n arbitrary: v)
  case (Suc n)
  then show ?case using Suc.IH [of "2 * v"] by (cases "m div 2 \<le> v") (simp_all add: wrap64_id mult.commute)
next
  case 0
  then show ?case by (simp add: wrap64_id)
qed

text \<open>
  C21. The backoff of a batch stays within the configured bounds, never wraps around, and is the
  doubled delay or the cap: with \<open>0 < initial \<le> maximum\<close> in the range of a duration, every attempt
  waits at least \<open>initial\<close> and at most \<open>maximum\<close>; the delay is \<open>initial * 2 ^ (attempt - 1)\<close> unless that
  reaches the maximum (up to the rounding of \<open>maximum / 2\<close>), in which case it is the maximum; and a later attempt never waits less.
\<close>

theorem backoff_is_bounded:
  assumes "0 < initial" and "initial \<le> maximum" and "maximum < 2 ^ 63"
  shows "initial \<le> batchBackoff initial maximum n \<and> batchBackoff initial maximum n \<le> maximum \<and>
    (batchBackoff initial maximum n = initial * 2 ^ (n - 1) \<or>
     batchBackoff initial maximum n = maximum \<and> maximum \<le> initial * 2 ^ (n - 1) + 1) \<and>
    batchBackoff initial maximum n \<le> batchBackoff initial maximum (Suc n)"
proof (cases "n \<le> 1")
  case True
  then have "n = 0 \<or> n = 1" by linarith
  then show ?thesis using assms backoff_loop_bounds [OF assms, of 1] backoff_loop_bounds [OF assms, of 0]
    by (auto simp: batchBackoff_def)
next
  case False
  then obtain k where "n = Suc (Suc k)" by (metis Suc_le_D not_less_eq_eq One_nat_def le_less_linear less_iff_Suc_add add_Suc)
  then show ?thesis
    using backoff_loop_bounds [OF assms, of "Suc k"] backoff_loop_mono [OF assms, of "Suc k"]
    by (simp add: batchBackoff_def del: backoff_loop.simps)
qed

theorem backoff_is_bounded_witness:
  "batchBackoff 1000000000 60000000000 7 = 60000000000 \<and> batchBackoff 1000000000 60000000000 3 = 4000000000 \<and>
   1000000000 \<le> batchBackoff 1000000000 60000000000 4 \<and> batchBackoff 1000000000 60000000000 4 \<le> 60000000000"
proof -
  have "batchBackoff 1000000000 60000000000 7 = 60000000000" "batchBackoff 1000000000 60000000000 3 = 4000000000"
    by (simp_all add: batchBackoff_def wrap64_def numeral_eq_Suc)
  with backoff_is_bounded [of 1000000000 60000000000 4] show ?thesis by simp
qed

section \<open>Rotation\<close>

text \<open>A queued batch stays queued while a cycle schedules and recovers.\<close>

lemma preserves_queued_row:
  assumes "batch_Status x = ''queued''"
  shows "preserves (\<lambda>d. x \<in> set (card_status_batches d)) (statement env (exec (\<lambda>ctx. insert_new_expiry_item (r ctx))))"
    and "preserves (\<lambda>d. x \<in> set (card_status_batches d)) (schedule_loop env bank run holder cs)"
    and "preserves (\<lambda>d. x \<in> set (card_status_batches d)) (statement env (recover_items bank))"
    and "preserves (\<lambda>d. x \<in> set (card_status_batches d)) (statement env (\<lambda>ctx. update_batches (sql_clock ctx)
        (\<lambda>r. batch_entity r = bank \<and> batch_Status r = ''processing'' \<and>
             expired_by (batch_lease_expires_at r) (sql_clock ctx)) (recover_batch ctx)))"
proof -
  let ?I = "\<lambda>d. x \<in> set (card_status_batches d)"
  have I: "reads_leases ?I" by (simp add: reads_leases_def)
  show ins: "preserves ?I (statement env (exec (\<lambda>ctx. insert_new_expiry_item (r ctx))))" for r
    by (rule preserves_exec) (auto simp: insert_new_expiry_item_def insert_expiry_item_def checked_Inr split: if_splits)
  show "preserves ?I (schedule_loop env bank run holder cs)"
    by (induction cs) (auto intro!: preserves_intros other_tables ins I)
  show "preserves ?I (statement env (recover_items bank))"
    by (rule preserves_statement) (auto simp: recover_items_def map_sum_Inr_iff dest!: update_result split: sum.splits prod.splits if_splits)
  show "preserves ?I (statement env (\<lambda>ctx. update_batches (sql_clock ctx)
        (\<lambda>r. batch_entity r = bank \<and> batch_Status r = ''processing'' \<and>
             expired_by (batch_lease_expires_at r) (sql_clock ctx)) (recover_batch ctx)))"
    by (rule preserves_statement) (use assms in \<open>force simp: set_update_where dest!: update_result(8)\<close>)
qed

lemma queued_row_stays:
  assumes q: "batch_Status x = ''queued''" and x: "x \<in> set (card_status_batches (durable w))"
  shows "x \<in> set (card_status_batches (durable (snd (EnsureExpiryRun env bank day holder w))))"
    and "x \<in> set (card_status_batches (durable (snd (RecoverBatches env claim w))))"
    and "x \<in> set (card_status_batches (durable (snd (RecoverExpiryItems env claim w))))"
proof -
  have I: "reads_leases (\<lambda>d. x \<in> set (card_status_batches d))" by (simp add: reads_leases_def)
  show "x \<in> set (card_status_batches (durable (snd (EnsureExpiryRun env bank day holder w))))"
    "x \<in> set (card_status_batches (durable (snd (RecoverBatches env claim w))))"
    "x \<in> set (card_status_batches (durable (snd (RecoverExpiryItems env claim w))))"
    unfolding EnsureExpiryRun_def RecoverBatches_def RecoverExpiryItems_def
    by (rule preserves_transaction [where I = "\<lambda>d. x \<in> set (card_status_batches d)", OF _ x],
        intro preserves_intros other_tables preserves_queued_row q I)+
qed

lemma keeps_rotation: "keeps tx_world.more m \<Longrightarrow> exs_rotation (snd (m w)) = exs_rotation w"
  using pool_fields [of "snd (m w)" w] by (simp add: keeps_def)

lemma prepare_loop_keeps:
  "exs_rotation (snd (prepare_loop env cfg today banks w)) = exs_rotation w"
  "batch_Status x = ''queued'' \<Longrightarrow> x \<in> set (card_status_batches (durable w)) \<Longrightarrow>
   x \<in> set (card_status_batches (durable (snd (prepare_loop env cfg today banks w))))"
proof (induction banks arbitrary: w)
  case (Cons bank banks)
  have k: "exs_rotation (snd (EnsureExpiryRun env bank today (cfg_Identity cfg) w)) = exs_rotation w"
    "exs_rotation (snd (RecoverBatches env (bank_claim cfg bank) w)) = exs_rotation w"
    "exs_rotation (snd (RecoverExpiryItems env (bank_claim cfg bank) w)) = exs_rotation w"
    "exs_rotation (count_recoveries n w) = exs_rotation w" "durable (count_recoveries n w) = durable w" for w n
    by (intro keeps_rotation keeps_executor_methods_more | simp add: count_recoveries_def)+
  case 1 show ?case by (simp add: andThen_def split_beta k Cons.IH(1) split: sum.split)
  case 2
  then show ?case
    by (auto simp: andThen_def split_beta k queued_row_stays split: sum.split intro!: Cons.IH(2))
qed (simp_all add: ret_def)

text \<open>What a claim loop does to the pool: it appends workers and keeps the rotation.\<close>

definition extends_pool :: "executor_world \<Rightarrow> executor_world \<Rightarrow> bool" where
  "extends_pool w w' \<longleftrightarrow> exs_rotation w' = exs_rotation w \<and> (\<exists>ts. exs_workers w' = exs_workers w @ ts)"

lemma extends_pool_trans: "extends_pool w1 w2 \<Longrightarrow> extends_pool w2 w3 \<Longrightarrow> extends_pool w1 w3"
  by (auto simp: extends_pool_def)

lemma extends_pool_same: "exs_rotation w' = exs_rotation w \<Longrightarrow> exs_workers w' = exs_workers w \<Longrightarrow> extends_pool w w'"
  by (simp add: extends_pool_def)

lemma reserve_extends: "reserve cfg bank w = (r, w') \<Longrightarrow> extends_pool w w' \<and> exs_workers w' = exs_workers w \<and> durable w' = durable w"
  by (auto simp: reserve_def extends_pool_def split: if_splits)

lemma claim_work_extends:
  assumes "keeps tx_world.more claim"
  shows "extends_pool w (snd (claim_work bank claim mk w))"
proof (cases "claim w")
  case (Pair r w1)
  have "exs_rotation w1 = exs_rotation w" "exs_workers w1 = exs_workers w"
    using pool_fields [OF keepsD [OF assms Pair]] by simp_all
  with Pair show ?thesis
    by (cases r) (auto simp: claim_work_def andThen_def compensated_def release_def start_worker_def extends_pool_def
        split: option.splits)
qed

lemma claim_loop_extends: "extends_pool w (snd (claim_loop env cfg banks w))"
proof (induction banks arbitrary: w)
  case (Cons bank banks)
  obtain r1 w1 where r1: "reserve cfg bank w = (r1, w1)" by fastforce
  obtain x2 w2 where w2: "claim_work bank (ClaimBatch env (bank_claim cfg bank)) BatchTask w1 = (x2, w2)" by fastforce
  obtain r3 w3 where r3: "reserve cfg bank w2 = (r3, w3)" by fastforce
  obtain x4 w4 where w4: "claim_work bank (ClaimExpiryItem env (bank_claim cfg bank)) ExpiryTask w3 = (x4, w4)" by fastforce
  have e1: "extends_pool w w1" and e3: "extends_pool w2 w3" using reserve_extends [OF r1] reserve_extends [OF r3] by simp_all
  have e2: "extends_pool w1 w2" and e4: "extends_pool w3 w4"
    using claim_work_extends [OF keeps_executor_methods_more(1), of w1 bank env "bank_claim cfg bank" BatchTask] w2
      claim_work_extends [OF keeps_executor_methods_more(8), of w3 bank env "bank_claim cfg bank" ExpiryTask] w4 by simp_all
  note t2 = extends_pool_trans [OF e1 e2] and t3 = extends_pool_trans [OF extends_pool_trans [OF e1 e2] e3]
  note t4 = extends_pool_trans [OF t3 e4]
  show ?case
    using r1 w2 r3 w4 t2 t4 extends_pool_trans [OF e1 Cons.IH] extends_pool_trans [OF t3 Cons.IH]
      extends_pool_trans [OF t4 Cons.IH]
    by (cases r1; cases x2; cases r3; cases x4) (simp_all add: andThen_def)
qed (simp add: extends_pool_def)

text \<open>The first bank of the loop with a free slot and a due batch gets the first worker.\<close>

lemma claim_loop_first:
  assumes "claim_loop env cfg (bank # banks) w = (Inr u, w')"
    and "exs_inFlight w < cfg_MaxClaims cfg" and "exs_byBank w bank < cfg_PerBankConcurrency cfg"
    and "b \<in> set (card_status_batches (durable w))" and "\<And>n. due_batch bank (clock_timestamp env n) b"
  shows "\<exists>batch ts. exs_workers w' = exs_workers w @ BatchTask batch # ts \<and> exb_BankID batch = bank"
proof -
  obtain w1 where r: "reserve cfg bank w = (True, w1)" using assms(2,3) by (simp add: reserve_def)
  have w1: "durable w1 = durable w" "exs_workers w1 = exs_workers w" using reserve_extends [OF r] by simp_all
  let ?next = "\<lambda>_ w2. case reserve cfg bank w2 of
            (False, w3) \<Rightarrow> claim_loop env cfg banks w3
          | (True, w3) \<Rightarrow>
              andThen (claim_work bank (ClaimExpiryItem env (bank_claim cfg bank)) ExpiryTask) (\<lambda>_.
              claim_loop env cfg banks) w3"
  from assms(1) have "andThen (claim_work bank (ClaimBatch env (bank_claim cfg bank)) BatchTask) ?next w1 = (Inr u, w')"
    by (simp add: r)
  then obtain y w2 where c: "claim_work bank (ClaimBatch env (bank_claim cfg bank)) BatchTask w1 = (Inr y, w2)"
    and n: "?next y w2 = (Inr u, w')" by (rule andThen_InrE)
  have "extends_pool w2 w'"
  proof -
    obtain r3 w3 where r3: "reserve cfg bank w2 = (r3, w3)" by fastforce
    obtain x4 w4 where w4: "claim_work bank (ClaimExpiryItem env (bank_claim cfg bank)) ExpiryTask w3 = (x4, w4)" by fastforce
    have e3: "extends_pool w2 w3" using reserve_extends [OF r3] by simp
    have e4: "extends_pool w3 w4"
      using claim_work_extends [OF keeps_executor_methods_more(8), of w3 bank env "bank_claim cfg bank" ExpiryTask] w4 by simp
    show ?thesis
      using n r3 w4 extends_pool_trans [OF e3 claim_loop_extends [of w3 env cfg banks]]
        extends_pool_trans [OF extends_pool_trans [OF e3 e4] claim_loop_extends [of w4 env cfg banks]]
      by (cases r3; cases x4) (simp_all add: andThen_def)
  qed
  moreover from c obtain found w0 where f: "ClaimBatch env (bank_claim cfg bank) w1 = (Inr found, w0)"
    and w2: "w2 = (case found of Some x \<Rightarrow> start_worker (BatchTask x) w0 | None \<Rightarrow> release bank w0)"
    by (auto simp: claim_work_def compensated_Inr elim!: andThen_InrE split: option.splits)
  have "found \<noteq> None"
  proof
    assume "found = None"
    from ClaimBatch_None [OF f [unfolded this], of b] assms(4,5) w1 show False by (simp add: bank_claim_def)
  qed
  then obtain batch where b: "found = Some batch" by blast
  have "exs_workers w0 = exs_workers w1" using pool_fields [OF keepsD [OF keeps_executor_methods_more(1) f]] by simp
  with b w2 w1 have "exs_workers w2 = exs_workers w @ [BatchTask batch]" by (simp add: start_worker_def)
  moreover have "exb_BankID batch = bank" using claimed_banks(1) [OF f [unfolded b]] by (simp add: bank_claim_def)
  ultimately show ?thesis by (auto simp: extends_pool_def)
qed

lemma cycleE:
  assumes "cycle env cfg dir w = (Inr u, w')" and "fst (activeBanks cfg dir w) = Inr banks"
  obtains w2 w3 where "exs_rotation w2 = exs_rotation w" and "pool_view w2 = pool_view w"
    and "\<forall>x. batch_Status x = ''queued'' \<longrightarrow> x \<in> set (card_status_batches (durable w)) \<longrightarrow> x \<in> set (card_status_batches (durable w2))"
    and "claim_loop env cfg (fst (rotate_banks banks w2)) (snd (rotate_banks banks w2)) = (Inr (), w3)"
    and "exs_rotation w' = exs_rotation w3" and "exs_workers w' = exs_workers w3"
proof -
  have a: "activeBanks cfg dir w = (Inr banks, ticked w)"
    using assms(2) by (auto simp: activeBanks_def directory_Banks_def andThen_def ret_def split: sum.splits)
  let ?day = "time_Now env (tick (ticked w)) - time_Now env (tick (ticked w)) mod day_length"
  let ?w = "ticked (ticked w)"
  obtain r2 w2 where p: "prepare_loop env cfg ?day banks ?w = (r2, w2)" by fastforce
  obtain r3 w3 where c: "claim_loop env cfg (fst (rotate_banks banks w2)) (snd (rotate_banks banks w2)) = (r3, w3)" by fastforce
  from assms(1) a p c have r: "r2 = Inr ()" "r3 = Inr ()" "w' = w3\<lparr>exs_loopOK := exs_loopOK w3 + 1\<rparr>"
    by (auto simp: cycle_def andThen_def time_now_def split_beta split: sum.splits)
  have "exs_rotation ?w = exs_rotation w" by (simp add: ticked_def)
  then show thesis
    using that [of w2 w3] c r p prepare_loop_keeps(1) [of env cfg ?day banks ?w] prepare_loop_keeps(2) [of _ ?w env cfg ?day banks]
      prepare_loop_view [of env cfg ?day banks ?w] by simp
qed

lemma rotate_first:
  "banks \<noteq> [] \<Longrightarrow> \<exists>rest. fst (rotate_banks banks w) = banks ! (exs_rotation w mod length banks) # rest"
proof (cases "length banks < 2")
  case True
  assume "banks \<noteq> []"
  with True obtain b where "banks = [b]" by (cases banks) auto
  then show ?thesis by (simp add: rotate_banks_def)
next
  case False
  assume "banks \<noteq> []"
  then have "exs_rotation w mod length banks < length banks" by simp
  with False show ?thesis by (simp add: rotate_banks_def Let_def Cons_nth_drop_Suc [symmetric])
qed

lemma rotate_next:
  "banks \<noteq> [] \<Longrightarrow> exs_rotation (snd (rotate_banks banks w)) mod length banks = (exs_rotation w + 1) mod length banks"
  by (cases "length banks = 1") (auto simp: rotate_banks_def Let_def, (cases banks; auto))

text \<open>One cycle: it serves the bank at the rotation first and moves the rotation on by one.\<close>

lemma cycle_serves_first:
  assumes "fst (cycle env cfg dir w) = Inr ()" and "fst (activeBanks cfg dir w) = Inr banks" and "banks \<noteq> []"
  shows "exs_rotation (snd (cycle env cfg dir w)) mod length banks = (exs_rotation w + 1) mod length banks"
    and "exs_inFlight w < cfg_MaxClaims cfg \<Longrightarrow> bank = banks ! (exs_rotation w mod length banks) \<Longrightarrow>
      exs_byBank w bank < cfg_PerBankConcurrency cfg \<Longrightarrow> b \<in> set (card_status_batches (durable w)) \<Longrightarrow>
      (\<And>n. due_batch bank (clock_timestamp env n) b) \<Longrightarrow>
      \<exists>batch ts. exs_workers (snd (cycle env cfg dir w)) = exs_workers w @ BatchTask batch # ts \<and> exb_BankID batch = bank"
proof -
  obtain w' where w': "cycle env cfg dir w = (Inr (), w')" using assms(1) by (metis prod.collapse)
  from w' assms(2) obtain w2 w3 where w2: "exs_rotation w2 = exs_rotation w" "pool_view w2 = pool_view w"
    and q: "\<forall>x. batch_Status x = ''queued'' \<longrightarrow> x \<in> set (card_status_batches (durable w)) \<longrightarrow> x \<in> set (card_status_batches (durable w2))"
    and c: "claim_loop env cfg (fst (rotate_banks banks w2)) (snd (rotate_banks banks w2)) = (Inr (), w3)"
    and w3: "exs_rotation w' = exs_rotation w3" "exs_workers w' = exs_workers w3" by (rule cycleE)
  let ?w2 = "snd (rotate_banks banks w2)"
  have k: "durable ?w2 = durable w2" "pool_view ?w2 = pool_view w2" by (simp_all add: rotate_banks_def Let_def)
  have "extends_pool ?w2 w3" using claim_loop_extends [of ?w2 env cfg "fst (rotate_banks banks w2)"] c by simp
  then show "exs_rotation (snd (cycle env cfg dir w)) mod length banks = (exs_rotation w + 1) mod length banks"
    using w3 w' rotate_next [OF assms(3), of w2] w2(1) by (simp add: extends_pool_def)
  assume p: "exs_inFlight w < cfg_MaxClaims cfg" "bank = banks ! (exs_rotation w mod length banks)"
    "exs_byBank w bank < cfg_PerBankConcurrency cfg" and b: "b \<in> set (card_status_batches (durable w))"
    and d: "\<And>n. due_batch bank (clock_timestamp env n) b"
  have "batch_Status b = ''queued''" using d [of 0] by (simp add: due_batch_def)
  then have "b \<in> set (card_status_batches (durable ?w2))" using q b k(1) by simp
  moreover obtain rest where "fst (rotate_banks banks w2) = bank # rest" using rotate_first [OF assms(3), of w2] w2(1) p(2) by auto
  moreover have "pool_view ?w2 = pool_view w" using k(2) w2(2) by simp
  ultimately show "\<exists>batch ts. exs_workers (snd (cycle env cfg dir w)) = exs_workers w @ BatchTask batch # ts \<and> exb_BankID batch = bank"
    using claim_loop_first [OF c [unfolded \<open>fst (rotate_banks banks w2) = bank # rest\<close>], of b] p d w3 w'
    by (simp add: pool_view_def)
qed

lemma unique_turn:
  assumes "i < (n :: nat)"
  shows "\<exists>k < n. (r + k) mod n = i \<and> (\<forall>k' < n. (r + k') mod n = i \<longrightarrow> k' = k)"
proof -
  have n: "0 < n" using assms by simp
  let ?k = "(i + (n - r mod n)) mod n"
  have "(r + ?k) mod n = (r mod n + (i + (n - r mod n))) mod n" by (simp add: mod_simps)
  also have "r mod n + (i + (n - r mod n)) = i + n" using mod_less_divisor [OF n, of r] by simp
  finally have k: "?k < n \<and> (r + ?k) mod n = i" using n assms by simp
  have le: "x = y" if "x < n" "y < n" "(r + x) mod n = (r + y) mod n" "x \<le> y" for x y
  proof -
    have "n dvd (r + y) - (r + x)" using mod_eq_dvd_iff_nat [of "r + x" "r + y" n] that(3,4) by simp
    then have "n dvd y - x" by simp
    then show ?thesis using that(2,4) dvd_imp_le [of n "y - x"] by (cases "x = y") simp_all
  qed
  have "k' = ?k" if "k' < n" "(r + k') mod n = i" for k'
    using le [of k' ?k] le [of ?k k'] that k by (metis nat_le_linear)
  with k show ?thesis by blast
qed

lemma rotation_after_cycles:
  assumes "\<And>k. k < length banks \<Longrightarrow> fst (activeBanks cfg (dir k) (ws k)) = Inr banks"
    and "\<And>k. k < length banks \<Longrightarrow> fst (cycle (env k) cfg (dir k) (ws k)) = Inr ()"
    and "\<And>k. k < length banks \<Longrightarrow> exs_rotation (ws (Suc k)) = exs_rotation (snd (cycle (env k) cfg (dir k) (ws k)))"
    and "k < length banks"
  shows "exs_rotation (ws k) mod length banks = (exs_rotation (ws 0) + k) mod length banks"
  using assms(4)
proof (induction k)
  case (Suc k)
  then have k: "k < length banks" and "banks \<noteq> []" by auto
  from cycle_serves_first(1) [OF assms(2) [OF k] assms(1) [OF k] this(2)] assms(3) [OF k] Suc.IH [OF k]
  show ?case by (metis Suc_eq_plus1 add_Suc_right mod_Suc_eq)
qed simp

text \<open>
  C22. No bank is starved by the order of the claims. Take as many consecutive successful cycles as there are
  active banks, over which the list of the active banks stays the same and between which nothing
  touches the rotation. Then every bank has exactly one of these cycles as its own, the one whose
  rotation is at it. If in that cycle a slot is free for the bank and the bank has a batch that is due at
  every clock of the cycle, then the first work that the cycle claims is a batch of that bank, whatever
  the other banks have waiting.
\<close>

theorem rotation_is_fair:
  assumes "\<And>k. k < length banks \<Longrightarrow> fst (activeBanks cfg (dir k) (ws k)) = Inr banks"
    and "\<And>k. k < length banks \<Longrightarrow> fst (cycle (env k) cfg (dir k) (ws k)) = Inr ()"
    and "\<And>k. k < length banks \<Longrightarrow> exs_rotation (ws (Suc k)) = exs_rotation (snd (cycle (env k) cfg (dir k) (ws k)))"
    and "i < length banks"
  shows "\<exists>k < length banks. (exs_rotation (ws 0) + k) mod length banks = i \<and>
    (\<forall>k' < length banks. (exs_rotation (ws 0) + k') mod length banks = i \<longrightarrow> k' = k) \<and>
    (exs_inFlight (ws k) < cfg_MaxClaims cfg \<and> exs_byBank (ws k) (banks ! i) < cfg_PerBankConcurrency cfg \<and>
     (\<exists>b \<in> set (card_status_batches (durable (ws k))). \<forall>n. due_batch (banks ! i) (clock_timestamp (env k) n) b) \<longrightarrow>
     (\<exists>batch ts. exs_workers (snd (cycle (env k) cfg (dir k) (ws k))) = exs_workers (ws k) @ BatchTask batch # ts \<and>
        exb_BankID batch = banks ! i))"
proof -
  obtain k where k: "k < length banks" "(exs_rotation (ws 0) + k) mod length banks = i"
    and u: "\<forall>k' < length banks. (exs_rotation (ws 0) + k') mod length banks = i \<longrightarrow> k' = k"
    using unique_turn [OF assms(4)] by blast
  have r: "exs_rotation (ws k) mod length banks = i"
    using rotation_after_cycles [where ws = ws and env = env and dir = dir and cfg = cfg, OF assms(1-3) k(1)] k(2) by simp
  have "banks \<noteq> []" using k(1) by auto
  note first = cycle_serves_first(2) [OF assms(2) [OF k(1)] assms(1) [OF k(1)] this, unfolded r]
  show ?thesis
    by (intro exI [of _ k] conjI k u impI) (elim conjE bexE, rule first, assumption, rule refl, assumption+, erule spec)
qed

definition two_banks :: directory where
  "two_banks = sample_directory\<lparr>dir_Banks := (\<lambda>_. Inr [
     \<lparr>route_EntityID = ''bank2'', route_ShardID = ''shard'', route_PlacementStatus = ''active'', route_CreatedAt = 0\<rparr>,
     \<lparr>route_EntityID = ''bank'', route_ShardID = ''shard'', route_PlacementStatus = ''active'', route_CreatedAt = 0\<rparr>])\<rparr>"

definition two_banks_db :: shard_db where
  "two_banks_db = queued_db\<lparr>entities := entities queued_db @
     [\<lparr>ent_ID = ''bank2'', ent_BankReference = ''B2'', ent_Name = ''Bank 2'', ent_Status = ''active'',
       ent_CreatedAt = 0, ent_UpdatedAt = 0, ent_created_by = ''op'', ent_updated_by = ''op''\<rparr>]\<rparr>"

definition turn :: "nat \<Rightarrow> executor_world" where
  "turn k = (idle_executor two_banks_db)\<lparr>exs_rotation := k mod 2\<rparr>"

lemma two_banks_active: "fst (activeBanks sample_config two_banks w) = Inr [''bank'', ''bank2'']"
  by (simp add: activeBanks_def directory_Banks_def two_banks_def andThen_def ret_def sample_config_def)

lemmas sample_cycle_defs =
  cycle_def activeBanks_def directory_Banks_def two_banks_def sample_config_def time_now_def prepare_loop.simps
  EnsureExpiryRun_def upsert_expiry_run_def RecoverBatches_def RecoverExpiryItems_def recover_items_def
  bank_claim_def due_cards_def due_card_def returning_def insert_expiry_run_def update_expiry_runs_def
  update_expiry_items_def count_recoveries_def expiry_items_of_def expiry_run_key_def guard_expiry_run_def
  turn_def idle_executor_def two_banks_db_def queued_db_def sample_db_def empty_db_def Let_def leased_batch_row_def
  rotate_banks_def claim_loop.simps reserve_def claim_work_def ClaimBatch_def next_queued_batch_def first_row_def
  update_claimed_batch_def claim_batch_def claimed_batch_def ClaimExpiryItem_def next_pending_item_def
  start_worker_def release_def compensated_def lease_current_def coalesce_def sample_run_defs sample_schema_defs

lemma sample_ensure:
  fixes w :: executor_world
  assumes "durable w = two_banks_db\<lparr>card_expiry_runs := []\<rparr>"
  shows "\<exists>w' r. EnsureExpiryRun sample_env ''bank'' day ''exec'' w = (Inr (), w') \<and>
    durable w' = two_banks_db\<lparr>card_expiry_runs := [r]\<rparr> \<and> er_entity r = ''bank''"
  using assms by (simp add: sample_cycle_defs)

lemma sample_ensure2:
  fixes w :: executor_world
  assumes "durable w = two_banks_db\<lparr>card_expiry_runs := [r]\<rparr>" "er_entity r = ''bank''"
  shows "\<exists>w' r'. EnsureExpiryRun sample_env ''bank2'' day ''exec'' w = (Inr (), w') \<and>
    durable w' = two_banks_db\<lparr>card_expiry_runs := [r, r']\<rparr>"
  using assms by (simp add: sample_cycle_defs)

lemma sample_recover:
  fixes w :: executor_world
  assumes "durable w = two_banks_db\<lparr>card_expiry_runs := rs\<rparr>"
  shows "\<exists>w'. RecoverBatches sample_env (bank_claim sample_config bank) w = (Inr 0, w') \<and> durable w' = durable w"
   "\<exists>w'. RecoverExpiryItems sample_env (bank_claim sample_config bank) w = (Inr 0, w') \<and> durable w' = durable w"
  using assms by (simp_all add: sample_cycle_defs)

lemma sample_claim:
  fixes w :: executor_world
  assumes "durable w = two_banks_db\<lparr>card_expiry_runs := rs\<rparr>"
  shows "\<exists>c w'. ClaimBatch sample_env (bank_claim sample_config ''bank'') w = (Inr c, w') \<and>
    card_expiry_run_items (durable w') = [] \<and> (\<forall>b \<in> set (card_status_batches (durable w')). batch_entity b = ''bank'')"
  using assms by (simp add: sample_cycle_defs)

lemma sample_claim_none:
  fixes w :: executor_world
  assumes "\<forall>b \<in> set (card_status_batches (durable w)). batch_entity b = ''bank''"
  shows "\<exists>c w'. ClaimBatch sample_env (bank_claim sample_config ''bank2'') w = (Inr c, w') \<and> durable w' = durable w"
proof -
  have "filter (\<lambda>b. batch_entity b = ''bank2'' \<and> P b) (card_status_batches (durable w)) = []" for P
    using assms by (auto simp: filter_empty_conv)
  then show ?thesis by (simp add: sample_cycle_defs)
qed

lemma sample_claim_item:
  fixes w :: executor_world
  assumes "card_expiry_run_items (durable w) = []"
  shows "\<exists>c w'. ClaimExpiryItem sample_env (bank_claim sample_config bank) w = (Inr c, w') \<and> durable w' = durable w"
  using assms by (simp add: sample_cycle_defs)

text \<open>A claim loop whose calls all succeed, with a condition \<open>K\<close> on the tables between them.\<close>

lemma claim_loop_succeeds:
  assumes "K (durable w)"
    and "\<And>w1 :: executor_world. durable w1 = durable w \<Longrightarrow> \<exists>c w'. ClaimBatch env (bank_claim cfg bank) w1 = (Inr c, w') \<and> K (durable w')"
    and "\<And>w1 :: executor_world. K (durable w1) \<Longrightarrow> \<exists>c w'. ClaimExpiryItem env (bank_claim cfg bank) w1 = (Inr c, w') \<and> K (durable w')"
    and "\<And>w1. K (durable w1) \<Longrightarrow> fst (claim_loop env cfg banks w1) = Inr ()"
  shows "fst (claim_loop env cfg (bank # banks) w) = Inr ()"
proof -
  have cw: "\<exists>w'. claim_work bank claim mk w1 = (Inr (), w') \<and> K (durable w')"
    if "\<exists>c w'. claim w1 = (Inr c, w') \<and> K (durable w')" for claim w1 and mk :: "'x \<Rightarrow> task"
  proof -
    from that obtain c w' where "claim w1 = (Inr c, w')" "K (durable w')" by blast
    then show ?thesis
      by (cases c) (simp_all add: claim_work_def andThen_def compensated_def release_def start_worker_def)
  qed
  obtain r1 w1 where r1: "reserve cfg bank w = (r1, w1)" by fastforce
  have d1: "durable w1 = durable w" using reserve_extends [OF r1] by simp
  obtain w2 where w2: "claim_work bank (ClaimBatch env (bank_claim cfg bank)) BatchTask w1 = (Inr (), w2)" "K (durable w2)"
    using cw [of "ClaimBatch env (bank_claim cfg bank)" w1 BatchTask, OF assms(2) [OF d1]] by blast
  obtain r3 w3 where r3: "reserve cfg bank w2 = (r3, w3)" by fastforce
  have d3: "K (durable w3)" using reserve_extends [OF r3] w2(2) by simp
  obtain w4 where w4: "claim_work bank (ClaimExpiryItem env (bank_claim cfg bank)) ExpiryTask w3 = (Inr (), w4)" "K (durable w4)"
    using cw [of "ClaimExpiryItem env (bank_claim cfg bank)" w3 ExpiryTask, OF assms(3) [OF d3]] by blast
  show ?thesis
    using r1 d1 assms(1,4) w2 r3 d3 w4 by (cases r1; cases r3) (simp_all add: andThen_def)
qed

lemma sample_claim_loops:
  fixes w :: executor_world
  assumes "durable w = two_banks_db\<lparr>card_expiry_runs := rs\<rparr>"
  shows "fst (claim_loop sample_env sample_config [''bank'', ''bank2''] w) = Inr ()"
    and "fst (claim_loop sample_env sample_config [''bank2'', ''bank''] w) = Inr ()"
proof -
  let ?K = "\<lambda>d :: shard_db. card_expiry_run_items d = [] \<and> (\<forall>b \<in> set (card_status_batches d). batch_entity b = ''bank'')"
  let ?S = "\<lambda>d. d = two_banks_db\<lparr>card_expiry_runs := rs\<rparr>"
  have SK: "?K d" if "?S d" for d
    using that by (simp add: two_banks_db_def queued_db_def leased_batch_row_def sample_db_def empty_db_def)
  have item: "\<exists>c w'. ClaimExpiryItem sample_env (bank_claim sample_config bank) w1 = (Inr c, w') \<and> J (durable w')"
    if "J (durable w1)" "?K (durable w1)" for bank J and w1 :: executor_world
    using sample_claim_item [of w1 bank] that by (elim exE conjE) auto
  have nothing: "fst (claim_loop sample_env sample_config [] w1) = Inr ()" for w1 by simp
  have bank: "fst (claim_loop sample_env sample_config (''bank'' # banks) w1) = Inr ()"
    if "?S (durable w1)" "\<And>w2. ?K (durable w2) \<Longrightarrow> fst (claim_loop sample_env sample_config banks w2) = Inr ()" for banks w1
    using SK [OF that(1)] that sample_claim by (intro claim_loop_succeeds [where K = ?K] item) auto
  have bank2: "fst (claim_loop sample_env sample_config (''bank2'' # banks) w1) = Inr ()"
    if "J (durable w1)" "\<And>d. J d \<Longrightarrow> ?K d" "\<And>w2. J (durable w2) \<Longrightarrow> fst (claim_loop sample_env sample_config banks w2) = Inr ()"
    for J banks w1
  proof (rule claim_loop_succeeds [where K = J])
    fix w2 :: executor_world assume "durable w2 = durable w1"
    with that(1) have "J (durable w2)" by simp
    with sample_claim_none [of w2] that(2) show "\<exists>c w'. ClaimBatch sample_env (bank_claim sample_config ''bank2'') w2 = (Inr c, w') \<and> J (durable w')"
      by metis
  qed (use that item in auto)
  show "fst (claim_loop sample_env sample_config [''bank'', ''bank2''] w) = Inr ()"
    by (rule bank [OF assms], rule bank2 [where J = ?K]) (use nothing in auto)
  show "fst (claim_loop sample_env sample_config [''bank2'', ''bank''] w) = Inr ()"
    by (rule bank2 [where J = ?S, OF assms SK], assumption, rule bank) (use nothing in auto)
qed

lemma sample_prepare:
  fixes w :: executor_world
  assumes "durable w = two_banks_db"
  shows "\<exists>w' rs. prepare_loop sample_env sample_config day [''bank'', ''bank2''] w = (Inr (), w') \<and>
    durable w' = two_banks_db\<lparr>card_expiry_runs := rs\<rparr>"
proof -
  have c: "cfg_Identity sample_config = ''exec''" by (simp add: sample_config_def)
  have n: "durable (count_recoveries k x) = durable x" for k x by (simp add: count_recoveries_def)
  have "two_banks_db = two_banks_db\<lparr>card_expiry_runs := []\<rparr>"
    by (simp add: two_banks_db_def queued_db_def sample_db_def empty_db_def)
  with assms have d: "durable w = two_banks_db\<lparr>card_expiry_runs := []\<rparr>" by simp
  obtain w1 r where e1: "EnsureExpiryRun sample_env ''bank'' day ''exec'' w = (Inr (), w1)"
    "durable w1 = two_banks_db\<lparr>card_expiry_runs := [r]\<rparr>" "er_entity r = ''bank''" using sample_ensure [OF d] by blast
  obtain w2 where e2: "RecoverBatches sample_env (bank_claim sample_config ''bank'') w1 = (Inr 0, w2)" "durable w2 = durable w1"
    using sample_recover(1) [OF e1(2)] by blast
  have "durable (count_recoveries 0 w2) = two_banks_db\<lparr>card_expiry_runs := [r]\<rparr>" using e2 e1 by (simp add: n)
  from sample_recover(2) [OF this] obtain w3 where
    e3: "RecoverExpiryItems sample_env (bank_claim sample_config ''bank'') (count_recoveries 0 w2) = (Inr 0, w3)"
    "durable w3 = durable (count_recoveries 0 w2)" by blast
  have "durable (count_recoveries 0 w3) = two_banks_db\<lparr>card_expiry_runs := [r]\<rparr>" using e3 e2 e1 by (simp add: n)
  from sample_ensure2 [OF this e1(3)] obtain w4 r' where
    e4: "EnsureExpiryRun sample_env ''bank2'' day ''exec'' (count_recoveries 0 w3) = (Inr (), w4)"
    "durable w4 = two_banks_db\<lparr>card_expiry_runs := [r, r']\<rparr>" by blast
  obtain w5 where e5: "RecoverBatches sample_env (bank_claim sample_config ''bank2'') w4 = (Inr 0, w5)" "durable w5 = durable w4"
    using sample_recover(1) [OF e4(2)] by blast
  have "durable (count_recoveries 0 w5) = two_banks_db\<lparr>card_expiry_runs := [r, r']\<rparr>" using e5 e4 by (simp add: n)
  from sample_recover(2) [OF this] obtain w6 where
    e6: "RecoverExpiryItems sample_env (bank_claim sample_config ''bank2'') (count_recoveries 0 w5) = (Inr 0, w6)"
    "durable w6 = durable (count_recoveries 0 w5)" by blast
  have "prepare_loop sample_env sample_config day [''bank'', ''bank2''] w = (Inr (), count_recoveries 0 w6)"
    by (simp add: andThen_def ret_def c e1(1) e2(1) e3(1) e4(1) e5(1) e6(1))
  moreover have "durable (count_recoveries 0 w6) = two_banks_db\<lparr>card_expiry_runs := [r, r']\<rparr>" using e6 e5 e4 by (simp add: n)
  ultimately show ?thesis by blast
qed

lemma sample_cycle_succeeds: "fst (cycle sample_env sample_config two_banks (turn k)) = Inr ()"
proof -
  have a: "activeBanks sample_config two_banks (turn k) = (Inr [''bank'', ''bank2''], ticked (turn k))"
    by (simp add: activeBanks_def directory_Banks_def two_banks_def andThen_def ret_def sample_config_def)
  let ?w = "ticked (ticked (turn k))"
  let ?day = "time_Now sample_env (tick (ticked (turn k))) - time_Now sample_env (tick (ticked (turn k))) mod day_length"
  have "durable ?w = two_banks_db" by (simp add: turn_def idle_executor_def)
  from sample_prepare [OF this] obtain w2 rs where
    p: "prepare_loop sample_env sample_config ?day [''bank'', ''bank2''] ?w = (Inr (), w2)"
    and d: "durable w2 = two_banks_db\<lparr>card_expiry_runs := rs\<rparr>" by blast
  let ?r = "rotate_banks [''bank'', ''bank2''] w2"
  have "durable (snd ?r) = two_banks_db\<lparr>card_expiry_runs := rs\<rparr>" using d by (simp add: rotate_banks_def Let_def)
  moreover have "fst ?r = [''bank'', ''bank2''] \<or> fst ?r = [''bank2'', ''bank'']"
  proof -
    have "exs_rotation w2 mod 2 = 0 \<or> exs_rotation w2 mod 2 = Suc 0" by arith
    then show ?thesis by (auto simp: rotate_banks_def Let_def simp flip: numeral_2_eq_2)
  qed
  ultimately have "fst (claim_loop sample_env sample_config (fst ?r) (snd ?r)) = Inr ()" using sample_claim_loops by metis
  then show ?thesis
    using a p by (cases "claim_loop sample_env sample_config (fst ?r) (snd ?r)")
      (simp add: cycle_def andThen_def time_now_def split_beta)
qed

theorem rotation_is_fair_witness:
  "\<exists>batch ts. exs_workers (snd (cycle sample_env sample_config two_banks (turn 0))) = BatchTask batch # ts \<and>
     exb_BankID batch = ''bank''"
proof -
  let ?banks = "[''bank'', ''bank2'']"
  have t: "exs_rotation (turn k) = k mod 2" for k by (simp add: turn_def)
  have next_turn: "exs_rotation (turn (Suc k)) = exs_rotation (snd (cycle sample_env sample_config two_banks (turn k)))" for k
  proof -
    obtain w' where "cycle sample_env sample_config two_banks (turn k) = (Inr (), w')"
      using sample_cycle_succeeds by (metis prod.collapse)
    from this two_banks_active obtain w2 w3 where w2: "exs_rotation w2 = exs_rotation (turn k)"
      and c: "claim_loop sample_env sample_config (fst (rotate_banks ?banks w2)) (snd (rotate_banks ?banks w2)) = (Inr (), w3)"
      and w3: "exs_rotation w' = exs_rotation w3" by (rule cycleE)
    have "extends_pool (snd (rotate_banks ?banks w2)) w3" using claim_loop_extends c by (metis snd_conv)
    then show ?thesis using w2 w3 \<open>cycle _ _ _ _ = _\<close> by (simp add: t extends_pool_def rotate_banks_def Let_def mod_Suc_eq flip: numeral_2_eq_2)
  qed
  have b: "\<exists>b \<in> set (card_status_batches (durable (turn 0))). \<forall>n. due_batch (?banks ! 0) (clock_timestamp sample_env n) b"
    by (simp add: turn_def idle_executor_def two_banks_db_def queued_db_def due_batch_def leased_batch_row_def)
  have "(0 :: nat) < length ?banks" by simp
  from rotation_is_fair [where banks = ?banks and dir = "\<lambda>_. two_banks" and env = "\<lambda>_. sample_env" and ws = turn
      and cfg = sample_config, OF two_banks_active sample_cycle_succeeds next_turn this]
  obtain k where k: "k < length ?banks" "(exs_rotation (turn 0) + k) mod length ?banks = 0"
    and h: "exs_inFlight (turn k) < cfg_MaxClaims sample_config \<and> exs_byBank (turn k) (?banks ! 0) < cfg_PerBankConcurrency sample_config \<and>
     (\<exists>b \<in> set (card_status_batches (durable (turn k))). \<forall>n. due_batch (?banks ! 0) (clock_timestamp sample_env n) b) \<longrightarrow>
     (\<exists>batch ts. exs_workers (snd (cycle sample_env sample_config two_banks (turn k))) = exs_workers (turn k) @ BatchTask batch # ts \<and>
        exb_BankID batch = ?banks ! 0)" by (elim exE conjE)
  have "k = 0" using k by (simp add: t less_2_cases_iff numeral_2_eq_2)
  moreover have "exs_inFlight (turn 0) < cfg_MaxClaims sample_config" "exs_byBank (turn 0) (?banks ! 0) < cfg_PerBankConcurrency sample_config"
    by (simp_all add: turn_def idle_executor_def sample_config_def)
  ultimately have "\<exists>batch ts. exs_workers (snd (cycle sample_env sample_config two_banks (turn 0))) =
      exs_workers (turn 0) @ BatchTask batch # ts \<and> exb_BankID batch = ?banks ! 0" using h b by blast
  then show ?thesis by (simp add: turn_def idle_executor_def)
qed

section \<open>Authorization of workers\<close>

text \<open>The tables that hold the cards and their history.\<close>

definition card_tables :: "shard_db \<Rightarrow> card_row list \<times> history_row list" where
  "card_tables d = (cards d, card_status_history d)"

lemma preserves_card_tables:
  "preserves (\<lambda>d. card_tables d = t) (update_leased_batch env batch holder f)"
  "preserves (\<lambda>d. card_tables d = t) (statement env (exec_rows (\<lambda>ctx d. update_batch_items (P ctx d) (g ctx d) d)))"
  "preserves (\<lambda>d. card_tables d = t) (statement env (exec_rows (\<lambda>ctx d. update_operations (P' ctx d) (g' ctx d) d)))"
  "preserves (\<lambda>d. card_tables d = t) (audit_batch env batch holder kind res outcome details)"
proof -
  have "preserves (\<lambda>d. card_tables d = t) (statement env (\<lambda>ctx. update_batches (sql_clock ctx) (Q ctx) (h ctx)))" for Q h
    by (rule preserves_statement) (auto dest!: update_result simp: card_tables_def)
  then show "preserves (\<lambda>d. card_tables d = t) (update_leased_batch env batch holder f)"
    unfolding update_leased_batch_def by (intro preserves_intros)
  show "preserves (\<lambda>d. card_tables d = t) (statement env (exec_rows (\<lambda>ctx d. update_batch_items (P ctx d) (g ctx d) d)))"
    "preserves (\<lambda>d. card_tables d = t) (statement env (exec_rows (\<lambda>ctx d. update_operations (P' ctx d) (g' ctx d) d)))"
    by (rule preserves_exec_rows, auto dest!: update_result simp: card_tables_def)+
  show "preserves (\<lambda>d. card_tables d = t) (audit_batch env batch holder kind res outcome details)"
    unfolding audit_batch_def insertAudit_def
    by (rule preserves_exec) (auto dest!: insert_result simp: card_tables_def)
qed

lemma failed_batches_keep_cards:
  "card_tables (durable (snd (FailBatch env batch holder code w))) = card_tables (durable w)"
  "card_tables (durable (snd (RequeueBatch env batch holder code delay w))) = card_tables (durable w)"
  unfolding FailBatch_def RequeueBatch_def updateBatchLease_def verifyBatchLease_def
  by (rule preserves_transaction, (intro preserves_intros preserves_card_tables; fail), rule refl)+

lemma counted_failures_keep_cards:
  "card_tables (durable (fail_and_count env cfg batch code w)) = card_tables (durable w)"
  "card_tables (durable (retryBatch env cfg batch code w)) = card_tables (durable w)"
  by (simp_all add: fail_and_count_def retryBatch_def Let_def split_beta failed_batches_keep_cards split: sum.split)

lemma authorized_durable: "durable (snd (authorized cfg dir batch w)) = durable w"
  by (simp add: authorized_def directory_User_def directory_Banks_def split: sum.split)

lemma authorized_iff:
  "fst (fst (authorized cfg dir batch w)) \<longleftrightarrow>
     (\<exists>user routes. dir_User dir (tick w) (exb_RequestedBy batch) = Inr user \<and> dir_Banks dir (Suc (tick w)) = Inr routes \<and>
        authorized_user cfg batch user routes)"
  by (auto simp: authorized_def directory_User_def directory_Banks_def split: sum.split)

text \<open>
  C23. A worker changes cards only with authority: whenever running a batch changed the cards or
  their status history, the batch was within the size cap and the directory, asked during that run,
  had answered that the requesting user is enabled, is an issuer operator or an operator of the bank of
  the batch, and that the bank is actively placed on this shard.
\<close>

theorem changed_cards_were_authorized:
  assumes "card_tables (durable (runBatch env cfg dir batch w)) \<noteq> card_tables (durable w)"
  shows "exb_ItemCount batch \<le> cfg_BatchSizeCap cfg \<and>
    (\<exists>user routes. dir_User dir (tick w) (exb_RequestedBy batch) = Inr user \<and> dir_Banks dir (Suc (tick w)) = Inr routes \<and>
       du_Status user = ''enabled'' \<and>
       (du_Role user = ''issuer_operator'' \<or> du_Role user = ''bank_operator'' \<and> du_EntityID user = exb_BankID batch) \<and>
       (\<exists>r \<in> set routes. route_EntityID r = exb_BankID batch \<and> route_ShardID r = cfg_ShardID cfg \<and>
          route_PlacementStatus r = ''active''))"
proof -
  have n: "card_tables (durable (work_batch env cfg dir batch w)) \<noteq> card_tables (durable w)"
    using assms by (simp add: runBatch_def release_def)
  then have "exb_ItemCount batch \<le> cfg_BatchSizeCap cfg" "fst (fst (authorized cfg dir batch w))"
    by (auto simp: work_batch_def split_beta counted_failures_keep_cards authorized_durable split: if_splits)
  then show ?thesis unfolding authorized_iff
    by (auto simp: authorized_user_def list_ex_iff split: if_splits)
qed

theorem changed_cards_were_authorized_witness:
  "card_tables (durable (runBatch frozen_env sample_config sample_directory sample_lease (idle_executor batch_db))) \<noteq> card_tables batch_db \<and>
   exb_ItemCount sample_lease \<le> 100"
proof -
  let ?w = "idle_executor batch_db"
  have a: "authorized sample_config sample_directory sample_lease ?w = ((True, False), ticked (ticked ?w))"
    by (simp add: authorized_def directory_User_def directory_Banks_def sample_directory_def authorized_user_def
        sample_config_def sample_lease_def)
  have d: "durable (ticked (ticked ?w)) = batch_db" by (simp add: idle_executor_def)
  obtain w' where r: "ApplyBatch frozen_env sample_lease ''exec'' (ticked (ticked ?w)) = (Inr (), w')"
    and s: "map card_Status (cards (durable w')) = [''suspended'']"
    using sample_apply_runs [OF d] by (elim exE conjE)
  have "map card_Status (cards batch_db) = [''active'']" by (simp add: batch_db_def)
  with s have c: "card_tables (durable w') \<noteq> card_tables batch_db" by (auto simp: card_tables_def)
  have f: "cfg_Identity sample_config = ''exec''" "\<not> cfg_BatchSizeCap sample_config < exb_ItemCount sample_lease"
    by (simp_all add: sample_config_def sample_lease_def)
  have "durable (runBatch frozen_env sample_config sample_directory sample_lease ?w) = durable w'"
    by (simp add: runBatch_def release_def work_batch_def f a r)
  with c have n: "card_tables (durable (runBatch frozen_env sample_config sample_directory sample_lease ?w)) \<noteq> card_tables (durable ?w)"
    by (simp add: idle_executor_def)
  have i: "durable ?w = batch_db" "cfg_BatchSizeCap sample_config = 100" by (simp_all add: idle_executor_def sample_config_def)
  from changed_cards_were_authorized [OF n] n show ?thesis unfolding i by (elim conjE) (intro conjI)
qed

end
