(* ===== verification/Batch_Service.thy ===== *)
theory Batch_Service
  imports Card_Service Go_Json
begin

text \<open>
  \<open>internal/batch/service.go\<close>: the workflows on card-status batches. A batch is created as a draft,
  executed (queued for the executor), cancelled or retried as a new draft; every workflow is one
  shard transaction under an idempotency claim. The body that a creation is fingerprinted by is the
  canonical JSON text of the request, so that the order of its card ids does not matter.
\<close>

section \<open>The service\<close>

definition maxSize :: nat where
  "maxSize = 200"

text \<open>\<open>response\<close>: the batch, its items unless there are none, and the link to execute it.\<close>

definition batch_json :: "uuid \<Rightarrow> CardStatusBatch \<Rightarrow> CardStatusBatchItem list \<Rightarrow> json" where
  "batch_json bank batch items =
     (case batchJSON batch of
        JObj kvs \<Rightarrow> JObj (kvs @ (if items = [] then [] else [(''items'', JArr (map batchItemJSON items))]) @
          [(''links'', JObj [(''execute'', JStr (''/v1/banks/'' @ bank @ ''/card-status-batches/'' @ batch_ID batch @ '':execute''))])])
      | j \<Rightarrow> j)"

definition ListCardStatusBatches :: "environment \<Rightarrow> uuid \<Rightarrow> ('m shard_world_scheme, json list) prog" where
  "ListCardStatusBatches env bank = andThen (Reader_CardStatusBatches env bank) (\<lambda>items. ret (map batchJSON items))"

definition GetCardStatusBatch :: "environment \<Rightarrow> uuid \<Rightarrow> uuid \<Rightarrow> ('m shard_world_scheme, json) prog" where
  "GetCardStatusBatch env bank rid =
     andThen (Reader_CardStatusBatch env bank rid) (\<lambda>value. ret (batch_json bank value []))"

definition ListCardStatusBatchItems :: "environment \<Rightarrow> uuid \<Rightarrow> uuid \<Rightarrow> ('m shard_world_scheme, json list) prog" where
  "ListCardStatusBatchItems env bank rid =
     andThen (Reader_CardStatusBatchItems env bank rid) (\<lambda>items. ret (map batchItemJSON items))"

fun adjacent_equal :: "'a list \<Rightarrow> bool" where
  "adjacent_equal (x # y # ys) = (x = y \<or> adjacent_equal (y # ys))"
| "adjacent_equal _ = False"

text \<open>\<open>json.Marshal\<close> of the struct with the fields \<open>target_status\<close>, \<open>reason\<close> and \<open>card_ids\<close>.\<close>

definition request_text :: "string \<Rightarrow> string \<Rightarrow> string list \<Rightarrow> string" where
  "request_text targetStatus reason ids =
     ''{'' @ marshal_string ''target_status'' @ '':'' @ marshal_string targetStatus @ '','' @
     marshal_string ''reason'' @ '':'' @ marshal_string reason @ '','' @
     marshal_string ''card_ids'' @ '':'' @ marshal_strings ids @ ''}''"

definition normalize :: "string \<Rightarrow> string \<Rightarrow> string list \<Rightarrow> (string list \<times> bytes) result" where
  "normalize targetStatus reason cardIDs =
     (let targetStatus = TrimSpace targetStatus; reason = TrimSpace reason; ids = sort cardIDs in
      if targetStatus \<noteq> ''active'' \<and> targetStatus \<noteq> ''suspended'' \<and> targetStatus \<noteq> ''closed''
      then Inl (Problem 400 ''invalid_request'' ''target_status must be active, suspended, or closed.'')
      else if reason = '''' \<or> length cardIDs = 0 \<or> maxSize < length cardIDs
      then Inl (Problem 400 ''invalid_request'' ''reason and between 1 and 200 card_ids are required.'')
      else if list_ex (\<lambda>x. \<not> isCanonicalUUID x) cardIDs
      then Inl (Problem 400 ''invalid_request'' ''card_ids must contain canonical UUIDs.'')
      else if adjacent_equal ids
      then Inl (Problem 400 ''invalid_request'' ''card_ids must not contain duplicates.'')
      else Inr (ids, bytes_of_string (request_text targetStatus reason ids)))"

definition batch_claim :: "environment \<Rightarrow> bytes \<Rightarrow> uuid \<Rightarrow> string \<Rightarrow> string \<Rightarrow> bytes \<Rightarrow>
    ('m shard_world_scheme, ShardIdempotencyReplay) prog" where
  "batch_claim env fingerprinter bank scope key body =
     andThen (time_now env) (\<lambda>now.
     onError (ClaimIdempotency env \<lparr>claim_Bank = bank, claim_Scope = scope, claim_Key = key,
       claim_Fingerprint = Fingerprint fingerprinter body, claim_Now = now,
       claim_ExpiresAt = now + 7 * 24 * 3600 * 1000000000\<rparr>) idempotency_problem)"

definition newID :: "environment \<Rightarrow> ('m shard_world_scheme, uuid) prog" where
  "newID env = andThen (rand_Read env 16) (\<lambda>b. ret (batch_newUUID b))"

fun newIDs :: "environment \<Rightarrow> nat \<Rightarrow> ('m shard_world_scheme, uuid list) prog" where
  "newIDs env 0 = ret []"
| "newIDs env (Suc n) = andThen (newID env) (\<lambda>x. andThen (newIDs env n) (\<lambda>xs. ret (x # xs)))"

definition batchProblem :: "go_error \<Rightarrow> go_error" where
  "batchProblem e =
     (if e = ErrNotFound then Problem 404 ''not_found'' ''The requested resource does not exist.''
      else if e = ErrBatchNotCancellable
      then Problem 409 ''batch_not_cancellable'' ''The batch cannot be cancelled after processing begins.''
      else if e = ErrBatchNotRetryable
      then Problem 409 ''batch_not_retryable'' ''Only failed or cancelled batches may be retried.''
      else e)"

section \<open>Workflows\<close>

definition finish_and_commit ::
  "environment \<Rightarrow> Principal \<Rightarrow> uuid \<Rightarrow> string \<Rightarrow> string \<Rightarrow> int \<Rightarrow> json \<Rightarrow> uuid \<Rightarrow> 'a \<Rightarrow> ('m shard_world_scheme, 'a) prog" where
  "finish_and_commit env prin bank scope key status raw rid result =
     andThen (FinishIdempotency env bank scope key status raw rid (p_UserID prin)) (\<lambda>_.
     andThen (Commit env) (\<lambda>_. ret result))"

definition CreateCardStatusBatchWorkflow ::
  "environment \<Rightarrow> bytes \<Rightarrow> Principal \<Rightarrow> uuid \<Rightarrow> string \<Rightarrow> string \<Rightarrow> string \<Rightarrow> string list \<Rightarrow> uuid \<Rightarrow>
   ('m shard_world_scheme, json \<times> int) prog" where
  "CreateCardStatusBatchWorkflow env fp prin bank key targetStatus reason cardIDs requestID =
     andThen (liftResult (normalize targetStatus reason cardIDs)) (\<lambda>(canonicalIDs, normalized).
     transaction env bank
     (let scope = ''card-status-batches.create.actor.'' @ p_UserID prin in
      andThen (batch_claim env fp bank scope key normalized) (\<lambda>replay.
      if replay_Found replay then ret (replay_Response replay, replay_Status replay) else
      andThen (CardsExist env bank canonicalIDs) (\<lambda>exists.
      if \<not> exists then throw (Problem 422 ''invalid_card'' ''Every requested card must belong to the selected bank.'') else
      andThen (newID env) (\<lambda>batchID.
      andThen (newIDs env (length canonicalIDs)) (\<lambda>operationIDs.
      andThen (CreateCardStatusBatchDraft env bank
        \<lparr>bd_ID = batchID, bd_IdempotencyRecordID = replay_RecordID replay, bd_TargetStatus = TrimSpace targetStatus,
         bd_Reason = TrimSpace reason, bd_CardIDs = canonicalIDs, bd_OperationIDs = operationIDs,
         bd_ActorID = p_UserID prin, bd_ActorRole = p_Role prin, bd_ActorEntityID = actorEntityID prin,
         bd_RequestID = requestID\<rparr>) (\<lambda>(batch, items).
      finish_and_commit env prin bank scope key 201 (batch_json bank batch items) (batch_ID batch)
        (batch_json bank batch items, 201))))))))"

definition change ::
  "environment \<Rightarrow> bytes \<Rightarrow> Principal \<Rightarrow> uuid \<Rightarrow> uuid \<Rightarrow> string \<Rightarrow> bytes \<Rightarrow> uuid \<Rightarrow> string \<Rightarrow>
   ('m shard_world_scheme, json) prog" where
  "change env fp prin bank rid key body requestID action =
     transaction env bank
     (let scope = ''card-status-batches.'' @ action @ ''.'' @ rid @ ''.actor.'' @ p_UserID prin in
      andThen (batch_claim env fp bank scope key body) (\<lambda>replay.
      if replay_Found replay then ret (replay_Response replay) else
      andThen
        (if action = ''execute'' then
           onError (ExecuteCardStatusBatch env bank rid (p_UserID prin) (p_Role prin) (actorEntityID prin) requestID) batchProblem
         else if action = ''cancel'' then
           onError (CancelCardStatusBatch env bank rid (p_UserID prin) (p_Role prin) (actorEntityID prin) requestID) batchProblem
         else throw (PlainError (''unsupported batch action '' @ [quote] @ action @ [quote]))) (\<lambda>batch.
      finish_and_commit env prin bank scope key (if action = ''cancel'' then 200 else 202)
        (batch_json bank batch []) (batch_ID batch) (batch_json bank batch []))))"

definition ExecuteCardStatusBatchWorkflow ::
  "environment \<Rightarrow> bytes \<Rightarrow> Principal \<Rightarrow> uuid \<Rightarrow> uuid \<Rightarrow> string \<Rightarrow> bytes \<Rightarrow> uuid \<Rightarrow> ('m shard_world_scheme, json) prog" where
  "ExecuteCardStatusBatchWorkflow env fp prin bank rid key body requestID =
     change env fp prin bank rid key body requestID ''execute''"

definition CancelCardStatusBatchWorkflow ::
  "environment \<Rightarrow> bytes \<Rightarrow> Principal \<Rightarrow> uuid \<Rightarrow> uuid \<Rightarrow> string \<Rightarrow> bytes \<Rightarrow> uuid \<Rightarrow> ('m shard_world_scheme, json) prog" where
  "CancelCardStatusBatchWorkflow env fp prin bank rid key body requestID =
     change env fp prin bank rid key body requestID ''cancel''"

definition RetryCardStatusBatchWorkflow ::
  "environment \<Rightarrow> bytes \<Rightarrow> Principal \<Rightarrow> uuid \<Rightarrow> uuid \<Rightarrow> string \<Rightarrow> bytes \<Rightarrow> uuid \<Rightarrow> ('m shard_world_scheme, json) prog" where
  "RetryCardStatusBatchWorkflow env fp prin bank rid key body requestID =
     transaction env bank
     (let scope = ''card-status-batches.retry.'' @ rid @ ''.actor.'' @ p_UserID prin in
      andThen (batch_claim env fp bank scope key body) (\<lambda>replay.
      if replay_Found replay then ret (replay_Response replay) else
      andThen (newID env) (\<lambda>batchID.
      andThen (onError (LockCardStatusBatch env bank rid) batchProblem) (\<lambda>source.
      if batch_Status source \<noteq> ''failed'' \<and> batch_Status source \<noteq> ''cancelled''
      then throw (Problem 409 ''batch_not_retryable'' ''Only failed or cancelled batches may be retried.'') else
      andThen (newIDs env (batch_ItemCount source)) (\<lambda>operationIDs.
      andThen (onError (RetryCardStatusBatch env bank rid
        \<lparr>br_ID = batchID, br_IdempotencyRecordID = replay_RecordID replay, br_OperationIDs = operationIDs,
         br_ActorID = p_UserID prin, br_ActorRole = p_Role prin, br_ActorEntityID = actorEntityID prin,
         br_RequestID = requestID\<rparr>) batchProblem) (\<lambda>(batch, items).
      finish_and_commit env prin bank scope key 201 (batch_json bank batch items) (batch_ID batch)
        (batch_json bank batch items)))))))"


section \<open>Normalization\<close>

lemma adjacent_equal_sorted: "sorted (xs :: 'a :: linorder list) \<Longrightarrow> adjacent_equal xs \<longleftrightarrow> \<not> distinct xs"
proof (induction xs rule: adjacent_equal.induct)
  case (1 x y ys)
  show ?case
  proof (cases "x = y")
    case False
    then have "x \<notin> set (y # ys)" using "1.prems" by auto
    with 1 False show ?thesis by simp
  qed simp
qed simp_all

lemma normalize_Inr:
  "normalize t r ids = Inr (cs, raw) \<longleftrightarrow>
     TrimSpace t \<in> {''active'', ''suspended'', ''closed''} \<and> TrimSpace r \<noteq> '''' \<and> ids \<noteq> [] \<and> length ids \<le> 200 \<and>
     (\<forall>x \<in> set ids. isCanonicalUUID x) \<and> distinct ids \<and> cs = sort ids \<and>
     raw = bytes_of_string (request_text (TrimSpace t) (TrimSpace r) cs)"
  by (auto simp: normalize_def Let_def maxSize_def list_ex_iff adjacent_equal_sorted)

lemma bytes_of_string_inj: "bytes_of_string s = bytes_of_string s' \<longleftrightarrow> s = s'"
proof -
  have "unat (of_char c :: byte) = of_char c" for c
    using of_char_lt [of c] unat_of_nat [of "of_char c :: nat", where ?'a = 8] by (simp add: of_nat_of_char)
  then have "inj (of_char :: char \<Rightarrow> byte)" by (metis injI of_char_eq_iff)
  then show ?thesis unfolding bytes_of_string_def by (simp add: inj_map_eq_map)
qed

lemma canonical_char:
  assumes "isCanonicalUUID_loop i s" and "c \<in> set s"
  shows "of_char c < (128 :: nat)"
  using assms
proof (induction i s rule: isCanonicalUUID_loop.induct)
  case (2 i d s)
  then show ?case by (cases "c = d") (auto simp: less_eq_char_def split: if_splits)
qed simp

lemma ascii_valid: "(\<And>c. c \<in> set s \<Longrightarrow> of_char c < (128 :: nat)) \<Longrightarrow> valid_utf8 s"
  unfolding valid_utf8_def
proof (induction s)
  case (Cons c s)
  then have "of_char c \<le> (127 :: nat)" by (simp add: less_Suc_eq_le [symmetric])
  then have "rune_length (c # s) = 1" by (simp add: rune_length_def byte_in_def Let_def)
  with Cons show ?case by simp
qed simp

lemma join_marshal_inj:
  assumes "\<And>x. x \<in> set xs \<union> set ys \<Longrightarrow> valid_utf8 x"
    and "join_with '','' (map marshal_string xs) @ '']'' @ t = join_with '','' (map marshal_string ys) @ '']'' @ t'"
  shows "xs = ys"
  using assms
proof (induction xs arbitrary: ys)
  case Nil
  then show ?case by (cases ys; cases "tl ys") (auto simp: marshal_string_def quote_def)
next
  case (Cons x xs)
  note xs = Cons
  show ?case
  proof (cases ys)
    case Nil
    then show ?thesis using xs(3) by (cases xs) (auto simp: marshal_string_def quote_def)
  next
    case (Cons y ys')
    let ?rest = "\<lambda>zs u. (case zs of [] \<Rightarrow> '']'' @ u | _ \<Rightarrow> '','' @ join_with '','' (map marshal_string zs) @ '']'' @ u)"
    have j: "join_with '','' (map marshal_string (z # zs)) @ '']'' @ u = marshal_string z @ ?rest zs u" for z zs u
      by (cases zs) simp_all
    have "valid_utf8 x" "valid_utf8 y" using xs(2) Cons by auto
    from marshal_string_inj [OF this, of "?rest xs t" "?rest ys' t'"] xs(3)
    have e: "x = y" "?rest xs t = ?rest ys' t'" unfolding Cons j by blast+
    have "xs = ys'"
    proof (cases "xs = [] \<or> ys' = []")
      case True
      then show ?thesis using e(2) by (cases xs; cases ys') auto
    next
      case False
      then have "join_with '','' (map marshal_string xs) @ '']'' @ t = join_with '','' (map marshal_string ys') @ '']'' @ t'"
        using e(2) by (cases xs; cases ys') auto
      with xs(1) [of ys'] xs(2) show ?thesis unfolding Cons by auto
    qed
    with e Cons show ?thesis by simp
  qed
qed

lemma request_text_inj:
  assumes "valid_utf8 t" and "valid_utf8 t'" and "valid_utf8 r" and "valid_utf8 r'"
    and "\<And>x. x \<in> set xs \<union> set xs' \<Longrightarrow> valid_utf8 x" and "request_text t r xs = request_text t' r' xs'"
  shows "t = t' \<and> r = r' \<and> xs = xs'"
proof -
  let ?tail = "\<lambda>xs. '','' @ marshal_string ''card_ids'' @ '':'' @ marshal_strings xs @ ''}''"
  let ?mid = "\<lambda>r xs. '','' @ marshal_string ''reason'' @ '':'' @ marshal_string r @ ?tail xs"
  have "marshal_string t @ ?mid r xs = marshal_string t' @ ?mid r' xs'"
    using assms(6) by (simp add: request_text_def)
  from marshal_string_inj [OF assms(1,2) this] have t: "t = t'" "marshal_string r @ ?tail xs = marshal_string r' @ ?tail xs'"
    by simp_all
  from marshal_string_inj [OF assms(3,4) t(2)] have r: "r = r'" "marshal_strings xs @ ''}'' = marshal_strings xs' @ ''}''"
    by simp_all
  from r(2) join_marshal_inj [of xs xs' "''}''" "''}''"] assms(5) t r show ?thesis by (simp add: marshal_strings_def)
qed

text \<open>
  C24. Normalization accepts exactly the valid requests (one of the three target statuses, a reason,
  between 1 and 200 distinct canonical card ids), gives the sorted ids, and its body is a faithful
  encoding: every order of the same ids gives the same result, and two requests with the same
  body have the same target status, reason and cards.
\<close>

theorem normalize_is_canonical:
  "((\<exists>res. normalize t r ids = Inr res) \<longleftrightarrow>
     TrimSpace t \<in> {''active'', ''suspended'', ''closed''} \<and> TrimSpace r \<noteq> '''' \<and> 1 \<le> length ids \<and> length ids \<le> 200 \<and>
     (\<forall>x \<in> set ids. isCanonicalUUID x) \<and> distinct ids) \<and>
   (\<forall>cs raw. normalize t r ids = Inr (cs, raw) \<longrightarrow>
     sorted cs \<and> distinct cs \<and> set cs = set ids \<and>
     (\<forall>ids'. distinct ids' \<and> set ids' = set ids \<longrightarrow> normalize t r ids' = Inr (cs, raw)) \<and>
     (\<forall>t' r' ids' cs'. normalize t' r' ids' = Inr (cs', raw) \<and> valid_utf8 (TrimSpace r) \<and> valid_utf8 (TrimSpace r') \<longrightarrow>
        TrimSpace t' = TrimSpace t \<and> TrimSpace r' = TrimSpace r \<and> cs' = cs))"
proof (intro conjI allI impI)
  show "(\<exists>res. normalize t r ids = Inr res) \<longleftrightarrow>
     TrimSpace t \<in> {''active'', ''suspended'', ''closed''} \<and> TrimSpace r \<noteq> '''' \<and> 1 \<le> length ids \<and> length ids \<le> 200 \<and>
     (\<forall>x \<in> set ids. isCanonicalUUID x) \<and> distinct ids"
    by (simp add: normalize_Inr split_paired_Ex Suc_le_eq)
  fix cs raw assume n: "normalize t r ids = Inr (cs, raw)"
  then show "sorted cs" "distinct cs" "set cs = set ids" by (simp_all add: normalize_Inr)
  show "normalize t r ids' = Inr (cs, raw)" if "distinct ids' \<and> set ids' = set ids" for ids'
  proof -
    have "sort ids' = sort ids" using that n by (intro sorted_distinct_set_unique) (simp_all add: normalize_Inr)
    moreover have "length ids' = length ids" using that n by (metis distinct_card normalize_Inr)
    ultimately show ?thesis using that n unfolding normalize_Inr by (metis length_0_conv)
  qed
  fix t' r' ids' cs'
  assume m: "normalize t' r' ids' = Inr (cs', raw) \<and> valid_utf8 (TrimSpace r) \<and> valid_utf8 (TrimSpace r')"
  have target: "valid_utf8 x" if "x \<in> {''active'', ''suspended'', ''closed''}" for x
    using that by (intro ascii_valid) auto
  have "valid_utf8 x" if "x \<in> set cs \<union> set cs'" for x
    using that n m by (intro ascii_valid canonical_char [of 0]) (auto simp: normalize_Inr isCanonicalUUID_def split: if_splits)
  with request_text_inj [of "TrimSpace t" "TrimSpace t'" "TrimSpace r" "TrimSpace r'" cs cs'] n m target
  have "TrimSpace t = TrimSpace t' \<and> TrimSpace r = TrimSpace r' \<and> cs = cs'"
    by (auto simp: normalize_Inr bytes_of_string_inj)
  then show "TrimSpace t' = TrimSpace t" "TrimSpace r' = TrimSpace r" "cs' = cs" by simp_all
qed


definition uuid_a :: uuid where
  "uuid_a = ''00000000-0000-4000-8000-00000000000a''"

definition uuid_b :: uuid where
  "uuid_b = ''00000000-0000-4000-8000-00000000000b''"

theorem normalize_is_canonical_witness:
  "\<exists>raw. normalize '' active'' ''review'' [uuid_b, uuid_a] = Inr ([uuid_a, uuid_b], raw) \<and>
     normalize '' active'' ''review'' [uuid_a, uuid_b] = Inr ([uuid_a, uuid_b], raw)"
proof -
  let ?t = "'' active''" and ?r = "''review''" and ?ids = "[uuid_b, uuid_a]"
  have tr: "TrimSpace ?t = ''active''" "TrimSpace ?r = ''review''" by code_simp+
  have c: "isCanonicalUUID uuid_a" "isCanonicalUUID uuid_b" "uuid_a \<noteq> uuid_b" "uuid_a < uuid_b" by code_simp+
  have "\<exists>res. normalize ?t ?r ?ids = Inr res"
    unfolding conjunct1 [OF normalize_is_canonical] tr using c by simp
  then obtain cs raw where n: "normalize ?t ?r ?ids = Inr (cs, raw)" by auto
  note p = conjunct2 [OF normalize_is_canonical, rule_format, OF n]
  have "normalize ?t ?r [uuid_a, uuid_b] = Inr (cs, raw)"
    using p [THEN conjunct2, THEN conjunct2, THEN conjunct2, THEN conjunct1, rule_format, of "[uuid_a, uuid_b]"] c(3)
    by (simp add: insert_commute)
  have "cs = [uuid_a, uuid_b]"
  proof (rule sorted_distinct_set_unique)
    show "sorted cs" "distinct cs" using p [THEN conjunct1] p [THEN conjunct2, THEN conjunct1] .
    show "set cs = set [uuid_a, uuid_b]" using p [THEN conjunct2, THEN conjunct2, THEN conjunct1] by (simp add: insert_commute)
    show "sorted [uuid_a, uuid_b]" "distinct [uuid_a, uuid_b]" using c(3,4) by simp_all
  qed
  with n show ?thesis using \<open>normalize ?t ?r [uuid_a, uuid_b] = Inr (cs, raw)\<close> by simp
qed

section \<open>Errors\<close>

lemma keeps_newID [keeps_intros]: "keeps durable (newID env)" "keeps view (newID env)"
  unfolding newID_def by (intro keeps_intros)+

lemma keeps_newIDs [keeps_intros]: "keeps durable (newIDs env n)" "keeps view (newIDs env n)"
  by (induction n) (auto intro!: keeps_intros)

lemma batch_claim_card_claim: "batch_claim env fp = card_claim env \<lparr>svc_vault = None :: unit credential_ops option, svc_fingerprinter = fp\<rparr>"
  by (intro ext) (simp add: batch_claim_def card_claim_def replayLifetime_def)

lemma keeps_batch_claim [keeps_intros]: "keeps durable (batch_claim env fp bank scope key body)"
  unfolding batch_claim_card_claim by (intro keeps_intros)

lemma atomic_batch_workflows:
  assumes "no_lost_commits env"
  shows "atomic (change env fp prin bank rid key body req action)"
    and "atomic (RetryCardStatusBatchWorkflow env fp prin bank rid key body req)"
    and "atomic (CreateCardStatusBatchWorkflow env fp prin bank key t r ids req)"
  unfolding change_def RetryCardStatusBatchWorkflow_def CreateCardStatusBatchWorkflow_def finish_and_commit_def Let_def
  by (intro atomic_transaction atomic_Commit_ret atomic_andThen atomic_if atomic_ret atomic_throw atomic_prod keeps_intros assms)+

text \<open>
  A batch workflow that reports an error, wherever it failed, has changed nothing durable, as
  long as no acknowledgement of a commit is lost.
\<close>

theorem failed_batch_workflows_change_nothing:
  assumes "no_lost_commits env"
  shows "atomic (CreateCardStatusBatchWorkflow env fp prin bank key t r ids req) \<and>
    atomic (ExecuteCardStatusBatchWorkflow env fp prin bank rid key body req) \<and>
    atomic (CancelCardStatusBatchWorkflow env fp prin bank rid key body req) \<and>
    atomic (RetryCardStatusBatchWorkflow env fp prin bank rid key body req)"
  unfolding ExecuteCardStatusBatchWorkflow_def [abs_def] CancelCardStatusBatchWorkflow_def [abs_def]
  by (intro conjI atomic_batch_workflows assms)


definition broken_env :: environment where
  "broken_env = sample_env\<lparr>fault_at := (\<lambda>n. if n = 3 then Fail (NetError True False) else NoFault)\<rparr>"

theorem failed_batch_workflows_change_nothing_witness:
  "\<exists>w'. CancelCardStatusBatchWorkflow broken_env [] sample_prin ''bank'' ''batch'' ''k1'' [] ''req'' (sample_world sample_db) =
      (Inl (NetError True False), w') \<and> durable w' = sample_db"
proof -
  have n: "no_lost_commits broken_env" by (simp add: no_lost_commits_def broken_env_def sample_env_def)
  let ?p = "CancelCardStatusBatchWorkflow broken_env [] sample_prin ''bank'' ''batch'' ''k1'' [] ''req'' :: (shard_world, json) prog"
  have "\<exists>w'. ?p (sample_world sample_db) = (Inl (NetError True False), w')"
    by (simp add: CancelCardStatusBatchWorkflow_def change_def transaction_def beginTenant_def pool_Begin_def compensated_def
        andThen_def deferred_def statement_def broken_env_def sample_world_def batch_claim_def time_now_def onError_def
        ClaimIdempotency_def idempotency_load_def idempotency_found_def idempotency_problem_def Let_def)
  then obtain w' where w': "?p (sample_world sample_db) = (Inl (NetError True False), w')" ..
  have "atomic ?p" using failed_batch_workflows_change_nothing [OF n] by blast
  from atomicD [OF this w'] w' show ?thesis by (simp add: sample_world_def)
qed

end
