(* ===== verification/Batch_Workflows.thy ===== *)
theory Batch_Workflows
  imports Batch_Service
begin

text \<open>
  What the batch workflows write: the rows of a new draft, the moves of the batch state machine that
  requests can make, and the replay of finished requests.
\<close>

section \<open>What a workflow wrote\<close>

lemma claimed_workflowE:
  fixes w w' :: "'m shard_world_scheme"
  assumes "transaction env bank (andThen (batch_claim env fp bank scope key raw) (\<lambda>rep.
      if replay_Found rep then ret (g rep) else body rep)) w = (Inr x, w')"
    and "records_ok (durable w)"
  obtains (replay) rep t where "x = g rep" and "durable w' = durable w"
      and "stored_response (bank, scope, key) (durable w) =
        Some (Fingerprint fp raw, t, replay_Status rep, replay_Response rep)"
  | (fresh) rep now and w1 w2 :: "'m shard_world_scheme" where "body rep w1 = (Inr x, w2)" and "durable w' = durable w2"
      and "but_records (view w1) = but_records (durable w)"
      and "stored_response (bank, scope, key) (view w1) =
        Some (Fingerprint fp raw, now + replayLifetime, 202, processing_body)"
proof -
  from assms(1) obtain wa wz where a: "view wa = durable w" "durable wa = durable w" and z: "w' = Rollback wz"
    and m: "andThen (batch_claim env fp bank scope key raw) (\<lambda>rep.
      if replay_Found rep then ret (g rep) else body rep) wa = (Inr x, wz)"
    by (rule transaction_InrE)
  from m obtain rep wb where c: "batch_claim env fp bank scope key raw wa = (Inr rep, wb)"
    and r: "(if replay_Found rep then ret (g rep) else body rep) wb = (Inr x, wz)" by (rule andThen_InrE)
  note c' = c [unfolded batch_claim_card_claim]
  have b: "durable wb = durable w" using keepsD [OF keeps_batch_claim c] a by simp
  from a(1) assms(2) have ok: "records_ok (view wa)" by simp
  from c' ok show thesis
  proof (cases rule: card_claimE)
    case (replay t)
    with r b z a show thesis by (intro that(1) [of rep t]) (simp_all add: ret_def)
  next
    case (fresh now)
    with r z a show thesis by (intro that(2) [of rep wb wz now]) simp_all
  qed
qed

lemma finished_workflow:
  assumes "finish_and_commit env prin bank scope key status resp res y w = (Inr x, w')"
    and "stored_response (bank, scope, key) (view w) = Some (f, t, r0)"
  shows "x = y" and "but_records (durable w') = but_records (view w)"
    and "stored_response (bank, scope, key) (durable w') = Some (f, t, status, resp)"
proof -
  from assms(1) obtain u w1 where f: "FinishIdempotency env bank scope key status resp res (p_UserID prin) w = (Inr u, w1)"
    and "andThen (Commit env) (\<lambda>_. ret y) w1 = (Inr x, w')" unfolding finish_and_commit_def by (rule andThen_InrE)
  then have c: "x = y" "durable w' = view w1"
    by (auto simp: ret_def elim!: andThen_InrE Commit_InrE)
  show "x = y" by (rule c)
  show "but_records (durable w') = but_records (view w)" using finish_but_records [OF f] c by simp
  show "stored_response (bank, scope, key) (durable w') = Some (f, t, status, resp)"
    using finish_stored_response [OF f assms(2)] c by simp
qed

lemma newIDsE: "newIDs env n w = (Inr xs, w') \<Longrightarrow> length xs = n \<and> view w' = view w"
proof (induction n arbitrary: w xs)
  case (Suc n)
  from Suc.prems obtain x w1 ys w2 where "newID env w = (Inr x, w1)" "newIDs env n w1 = (Inr ys, w2)" "xs = x # ys" "w' = w2"
    by (auto simp: ret_def elim!: andThen_InrE)
  with Suc.IH [of w1 ys] keepsD [OF keeps_newID(2)] show ?case by fastforce
qed (simp add: ret_def)

text \<open>
  \<open>drafted bank target reason retryOf cs batchID d d'\<close>: from \<open>d\<close> to \<open>d'\<close> exactly the rows of a
  new draft on the cards \<open>cs\<close> were added: the batch, one queued operation and one pending item per
  card, and an audit event.
\<close>

definition drafted_item :: "uuid \<Rightarrow> uuid \<Rightarrow> batch_item_row \<Rightarrow> bool" where
  "drafted_item bank batchID i \<longleftrightarrow> bi_entity i = bank \<and> bi_batch_id i = batchID \<and> bi_outcome i = ''pending'' \<and>
     bi_previous_status i = None \<and> bi_failure_code i = None"

definition drafted_operation :: "uuid \<Rightarrow> string \<Rightarrow> string \<Rightarrow> operation_row \<Rightarrow> bool" where
  "drafted_operation bank action reason p \<longleftrightarrow> op_entity p = bank \<and> op_Action p = action \<and> op_Reason p = reason \<and>
     op_Status p = ''queued'' \<and> op_CompletedAt p = None"

definition drafted_batch :: "uuid \<Rightarrow> string \<Rightarrow> string \<Rightarrow> uuid option \<Rightarrow> nat \<Rightarrow> batch_row \<Rightarrow> bool" where
  "drafted_batch bank target reason retryOf n b \<longleftrightarrow> batch_entity b = bank \<and> batch_TargetStatus b = target \<and>
     batch_Reason b = reason \<and> batch_RetryOfBatchID b = retryOf \<and> batch_ItemCount b = n \<and> batch_Status b = ''draft'' \<and>
     batch_AppliedCount b = 0 \<and> batch_IgnoredCount b = 0"

definition drafted :: "uuid \<Rightarrow> string \<Rightarrow> string \<Rightarrow> uuid option \<Rightarrow> uuid list \<Rightarrow> shard_db \<Rightarrow> shard_db \<Rightarrow> bool" where
  "drafted bank target reason retryOf cs d d' \<longleftrightarrow>
     (\<exists>b ops its ae. drafted_batch bank target reason retryOf (length cs) b \<and>
        list_all (drafted_operation bank (batchOperationAction target) reason) ops \<and> map op_CardID ops = cs \<and>
        list_all (drafted_item bank (batch_ID b)) its \<and> map bi_card_id its = cs \<and> map bi_operation_id its = map op_ID ops \<and>
        d' = d\<lparr>card_status_batches := card_status_batches d @ [b], card_operations := card_operations d @ ops,
               card_status_batch_items := card_status_batch_items d @ its, audit_events := audit_events d @ [ae]\<rparr>)"

lemma insert_items_loopE:
  assumes "insert_items_loop env bank b action reason actor role ent req t ps w = (Inr items, w')"
  shows "\<exists>ops its. list_all (drafted_operation bank action reason) ops \<and> map op_CardID ops = map fst ps \<and>
    map op_ID ops = map snd ps \<and> list_all (drafted_item bank b) its \<and> map bi_card_id its = map fst ps \<and>
    map bi_operation_id its = map snd ps \<and>
    view w' = (view w)\<lparr>card_operations := card_operations (view w) @ ops,
      card_status_batch_items := card_status_batch_items (view w) @ its\<rparr>"
  using assms
proof (induction ps arbitrary: w items)
  case Nil
  then show ?case by (intro exI [of _ "[]"]) (simp add: ret_def)
next
  case (Cons p ps)
  obtain cid oid where p: "p = (cid, oid)" by (cases p)
  let ?op = "operation_row_of bank oid cid action ''queued'' reason actor role ent req None"
  let ?it = "\<lambda>ctx. \<lparr>bi_entity = bank, bi_id = sql_uuid ctx 0, bi_batch_id = b, bi_card_id = cid,
        bi_operation_id = oid, bi_previous_status = None, bi_outcome = ''pending'', bi_failure_code = None\<rparr>"
  from Cons.prems obtain w1 iid w2 its' where
    a: "statement env (exec (\<lambda>ctx. insert_operation (?op ctx))) w = (Inr (), w1)"
    and i: "statement env (returning insert_batch_item bi_id ?it) w1 = (Inr iid, w2)"
    and l: "insert_items_loop env bank b action reason actor role ent req t ps w2 = (Inr its', w')"
    unfolding p insert_items_loop.simps by (auto simp: ret_def elim!: andThen_InrE)
  from a obtain c1 where v1: "view w1 = (view w)\<lparr>card_operations := card_operations (view w) @ [?op c1]\<rparr>"
    by (rule statement_execE) (use insert_result(2) in blast)
  obtain c2 where "c2 = context_of env w1" by simp
  then have v2: "view w2 = (view w1)\<lparr>card_status_batch_items := card_status_batch_items (view w1) @ [?it c2]\<rparr>"
    using i by (elim statement_returningE) (simp, rule insert_result(6))
  from Cons.IH [OF l] obtain ops its where
    h: "list_all (drafted_operation bank action reason) ops" "map op_CardID ops = map fst ps" "map op_ID ops = map snd ps"
      "list_all (drafted_item bank b) its" "map bi_card_id its = map fst ps" "map bi_operation_id its = map snd ps"
      "view w' = (view w2)\<lparr>card_operations := card_operations (view w2) @ ops,
        card_status_batch_items := card_status_batch_items (view w2) @ its\<rparr>" by blast
  have "drafted_operation bank action reason (?op c1)" "op_CardID (?op c1) = cid" "op_ID (?op c1) = oid"
    by (simp_all add: drafted_operation_def operation_row_of_def)
  moreover have "drafted_item bank b (?it c2)" by (simp add: drafted_item_def)
  ultimately show ?case
    using h by (intro exI [of _ "?op c1 # ops"] exI [of _ "?it c2 # its"]) (simp add: p v1 v2)
qed


lemma insertCardStatusBatchItemsE:
  assumes "insertCardStatusBatchItems env bank b target reason cs oids actor role ent req t w = (Inr items, w')"
  shows "\<exists>ops its. list_all (drafted_operation bank (batchOperationAction target) reason) ops \<and> map op_CardID ops = cs \<and>
    list_all (drafted_item bank b) its \<and> map bi_card_id its = cs \<and> map bi_operation_id its = map op_ID ops \<and>
    view w' = (view w)\<lparr>card_operations := card_operations (view w) @ ops,
      card_status_batch_items := card_status_batch_items (view w) @ its\<rparr>"
proof -
  have l: "length cs = length oids"
    and i: "insert_items_loop env bank b (batchOperationAction target) reason actor role ent req t (zip cs oids) w = (Inr items, w')"
    using assms by (simp_all add: insertCardStatusBatchItems_def throw_def split: if_splits)
  from insert_items_loopE [OF i] l show ?thesis by (elim exE conjE) (intro exI conjI, assumption+, simp_all)
qed

text \<open>The statements that both workflows draft a batch with.\<close>

lemma drafting_statements:
  fixes w w' :: "'m shard_world_scheme"
  assumes "andThen (statement env (returning insert_batch scanCardStatusBatch
       (new_batch_row bank bid target reason actor role ent req rec n src))) (\<lambda>batch.
     andThen (insertCardStatusBatchItems env bank bid target reason cs oids actor role ent req (batch_CreatedAt batch)) (\<lambda>items.
     andThen (insertAudit env bank (Some actor) role (nullable ent) None action kind res outcome req details) (\<lambda>_.
     ret (batch, items)))) w = (Inr (batch, items), w')"
    and "n = length cs"
  shows "drafted bank target reason src cs (view w) (view w')"
proof -
  let ?b = "new_batch_row bank bid target reason actor role ent req rec n src (context_of env w)"
  from assms(1) obtain c :: CardStatusBatch and w1 w2 :: "'m shard_world_scheme" and its0 w3 where
    b: "statement env (returning insert_batch scanCardStatusBatch
       (new_batch_row bank bid target reason actor role ent req rec n src)) w = (Inr c, w1)"
    and i: "insertCardStatusBatchItems env bank bid target reason cs oids actor role ent req (batch_CreatedAt c) w1 = (Inr its0, w2)"
    and a: "insertAudit env bank (Some actor) role (nullable ent) None action kind res outcome req details w2 = (Inr (), w3)"
    and w3: "w' = w3"
    by (auto simp: ret_def elim!: andThen_InrE)
  have v1: "view w1 = (view w)\<lparr>card_status_batches := card_status_batches (view w) @ [?b]\<rparr>"
    using b by (elim statement_returningE) (rule insert_result(5))
  from insertCardStatusBatchItemsE [OF i] obtain ops its where
    h: "list_all (drafted_operation bank (batchOperationAction target) reason) ops" "map op_CardID ops = cs"
      "list_all (drafted_item bank bid) its" "map bi_card_id its = cs" "map bi_operation_id its = map op_ID ops"
      "view w2 = (view w1)\<lparr>card_operations := card_operations (view w1) @ ops,
        card_status_batch_items := card_status_batch_items (view w1) @ its\<rparr>" by (elim exE conjE)
  obtain ae where v3: "view w3 = (view w2)\<lparr>audit_events := audit_events (view w2) @ [ae]\<rparr>"
    using a by (elim insertAuditE) simp
  have "drafted_batch bank target reason src (length cs) ?b" "batch_ID ?b = bid"
    by (simp_all add: drafted_batch_def new_batch_row_def assms(2))
  with h show ?thesis
    unfolding drafted_def by (intro exI [of _ ?b] exI [of _ ops] exI [of _ its] exI [of _ ae]) (simp add: w3 v1 v3)
qed

lemma drafted_records:
  assumes "drafted bank target reason src cs d d'"
  shows "drafted bank target reason src cs (but_records d) (but_records d')" and "idempotency_records d' = idempotency_records d"
    and "cards d' = cards d" and "card_status_history d' = card_status_history d"
proof -
  from assms obtain b ops its ae where
    h: "drafted_batch bank target reason src (length cs) b"
      "list_all (drafted_operation bank (batchOperationAction target) reason) ops" "map op_CardID ops = cs"
      "list_all (drafted_item bank (batch_ID b)) its" "map bi_card_id its = cs" "map bi_operation_id its = map op_ID ops"
    and d': "d' = d\<lparr>card_status_batches := card_status_batches d @ [b], card_operations := card_operations d @ ops,
               card_status_batch_items := card_status_batch_items d @ its, audit_events := audit_events d @ [ae]\<rparr>"
    unfolding drafted_def by (elim exE conjE)
  show "drafted bank target reason src cs (but_records d) (but_records d')"
    unfolding drafted_def using h
    by (intro exI [of _ b] exI [of _ ops] exI [of _ its] exI [of _ ae]) (simp add: d' but_records_def)
qed (use assms in \<open>auto simp: drafted_def\<close>)

lemma drafted_cong:
  "drafted bank target reason src cs d d' \<Longrightarrow> but_records d = but_records e \<Longrightarrow> drafted bank target reason src cs (but_records e) (but_records d')"
  using drafted_records(1) by metis

lemma CreateCardStatusBatchDraft_drafted:
  assumes "CreateCardStatusBatchDraft env bank input w = (Inr (batch, items), w')"
  shows "drafted bank (bd_TargetStatus input) (bd_Reason input) None (bd_CardIDs input) (view w) (view w')"
  using assms unfolding CreateCardStatusBatchDraft_def by (rule drafting_statements) simp

lemma LockCardStatusBatchE:
  assumes "LockCardStatusBatch env bank rid w = (Inr b, w')"
  obtains r where "r \<in> set (card_status_batches (view w))" and "batch_key r = (bank, rid)" and "b = scanCardStatusBatch r"
    and "view w' = view w" and "query_row (\<lambda>r. batch_entity r = bank \<and> batch_ID r = rid) (card_status_batches (view w)) = Some r"
  using assms unfolding LockCardStatusBatch_def onError_Inr
  by (elim statement_readE) (auto simp: scan_row_def batch_key_def split: option.splits dest: query_row_Some)

lemma RetryCardStatusBatch_drafted:
  fixes w w' :: "'m shard_world_scheme"
  assumes "RetryCardStatusBatch env bank rid input w = (Inr (batch, items), w')"
  shows "\<exists>r. r \<in> set (card_status_batches (view w)) \<and> batch_key r = (bank, rid) \<and> batch_Status r \<in> {''failed'', ''cancelled''} \<and>
    drafted bank (batch_TargetStatus r) (batch_Reason r) (Some rid)
      (sort (map bi_card_id (batch_items_of (view w) bank rid))) (view w) (view w')"
proof -
  from assms obtain b :: CardStatusBatch and cs and w1 w2 :: "'m shard_world_scheme" where
    l: "LockCardStatusBatch env bank rid w = (Inr b, w1)" and s: "batch_Status b = ''failed'' \<or> batch_Status b = ''cancelled''"
    and q: "statement env (read_only (\<lambda>d. Inr (order_asc (\<lambda>c. c) (map bi_card_id (batch_items_of d bank rid))))) w1 = (Inr cs, w2)"
    and n: "length cs = batch_ItemCount b"
    and m: "andThen (statement env (returning insert_batch scanCardStatusBatch
       (new_batch_row bank (br_ID input) (batch_TargetStatus b) (batch_Reason b) (br_ActorID input)
          (br_ActorRole input) (br_ActorEntityID input) (br_RequestID input) (br_IdempotencyRecordID input)
          (batch_ItemCount b) (Some rid)))) (\<lambda>batch.
     andThen (insertCardStatusBatchItems env bank (br_ID input) (batch_TargetStatus b) (batch_Reason b)
       cs (br_OperationIDs input) (br_ActorID input) (br_ActorRole input)
       (br_ActorEntityID input) (br_RequestID input) (batch_CreatedAt batch)) (\<lambda>items.
     andThen (insertAudit env bank (Some (br_ActorID input)) (br_ActorRole input)
       (nullable (br_ActorEntityID input)) None ''card_status_batch.retry'' ''card_status_batch''
       (Some (br_ID input)) ''succeeded'' (br_RequestID input)
       (JObj [(''item_count'', JInt (int (batch_ItemCount b))), (''retry_of_batch_id'', JStr rid)])) (\<lambda>_.
     ret (batch, items)))) w2 = (Inr (batch, items), w')"
    unfolding RetryCardStatusBatch_def by (auto simp: throw_def elim!: andThen_InrE split: if_splits)
  from l obtain r where r: "r \<in> set (card_status_batches (view w))" "batch_key r = (bank, rid)" "b = scanCardStatusBatch r"
    "view w1 = view w" by (rule LockCardStatusBatchE)
  have c: "cs = sort (map bi_card_id (batch_items_of (view w) bank rid))" "view w2 = view w"
    using q r(4) by (auto simp: order_asc_def elim!: statement_readE)
  have "drafted bank (batch_TargetStatus b) (batch_Reason b) (Some rid) cs (view w2) (view w')"
    using drafting_statements [OF m] n by simp
  with r s c show ?thesis by (intro exI [of _ r]) (simp add: scanCardStatusBatch_def CardStatusBatch.truncate_def)
qed


lemma cards_exist:
  assumes "unique_key card_key rows" and "distinct cs"
    and "affected (\<lambda>r. card_entity r = bank \<and> card_ID r \<in> set cs) rows = length cs" and "c \<in> set cs"
  shows "\<exists>r \<in> set rows. card_key r = (bank, c)"
proof -
  let ?rs = "filter (\<lambda>r. card_entity r = bank \<and> card_ID r \<in> set cs) rows"
  have "distinct (map card_key ?rs)" using assms(1) unfolding unique_key_def by (simp add: distinct_map_filter)
  moreover have k: "map card_key ?rs = map (Pair bank) (map card_ID ?rs)" by (simp add: card_key_def)
  ultimately have "distinct (map card_ID ?rs)" unfolding k by (simp only: distinct_map)
  then have "card (set (map card_ID ?rs)) = card (set cs)"
    using assms(2,3) distinct_card [of "map card_ID ?rs"] distinct_card [of cs] by (simp add: affected_def)
  then have "set (map card_ID ?rs) = set cs" by (intro card_subset_eq) auto
  then have "c \<in> set (map card_ID ?rs)" using assms(4) by (simp only:)
  then show ?thesis by (auto simp: card_key_def)
qed

definition create_scope :: "Principal \<Rightarrow> string" where
  "create_scope prin = ''card-status-batches.create.actor.'' @ p_UserID prin"

definition batch_scope :: "string \<Rightarrow> uuid \<Rightarrow> Principal \<Rightarrow> string" where
  "batch_scope action rid prin = ''card-status-batches.'' @ action @ ''.'' @ rid @ ''.actor.'' @ p_UserID prin"

lemma stored_response_drafted:
  "drafted bank target reason src cs d d' \<Longrightarrow> stored_response k d' = stored_response k d"
  by (rule stored_response_cong) (simp add: drafted_records(2))

lemma create_workflow_result:
  fixes w w' :: "'m shard_world_scheme"
  assumes "records_ok (durable w)" and "unique_key card_key (cards (durable w))"
    and "CreateCardStatusBatchWorkflow env fp prin bank key t r ids req w = (Inr (resp, status), w')"
  shows "\<exists>cs raw till. normalize t r ids = Inr (cs, raw) \<and>
    stored_response (bank, create_scope prin, key) (durable w') = Some (Fingerprint fp raw, till, status, resp) \<and>
    (durable w' = durable w \<or>
     (status = 201 \<and> (\<forall>c \<in> set cs. \<exists>x \<in> set (cards (durable w)). card_key x = (bank, c)) \<and>
      drafted bank (TrimSpace t) (TrimSpace r) None cs (but_records (durable w)) (but_records (durable w'))))"
proof -
  from assms(3) obtain cs raw where n: "normalize t r ids = Inr (cs, raw)"
    unfolding CreateCardStatusBatchWorkflow_def by (auto simp: liftResult_def elim!: andThen_InrE)
  have d: "distinct cs" using n by (simp add: normalize_Inr)
  let ?body = "\<lambda>replay. andThen (CardsExist env bank cs) (\<lambda>exists.
      if \<not> exists then throw (Problem 422 ''invalid_card'' ''Every requested card must belong to the selected bank.'') else
      andThen (newID env) (\<lambda>batchID.
      andThen (newIDs env (length cs)) (\<lambda>operationIDs.
      andThen (CreateCardStatusBatchDraft env bank
        \<lparr>bd_ID = batchID, bd_IdempotencyRecordID = replay_RecordID replay, bd_TargetStatus = TrimSpace t,
         bd_Reason = TrimSpace r, bd_CardIDs = cs, bd_OperationIDs = operationIDs,
         bd_ActorID = p_UserID prin, bd_ActorRole = p_Role prin, bd_ActorEntityID = actorEntityID prin,
         bd_RequestID = req\<rparr>) (\<lambda>(batch, items).
      finish_and_commit env prin bank (create_scope prin) key 201 (batch_json bank batch items) (batch_ID batch)
        (batch_json bank batch items, 201)))))"
  have "transaction env bank (andThen (batch_claim env fp bank (create_scope prin) key raw) (\<lambda>rep.
      if replay_Found rep then ret (replay_Response rep, replay_Status rep) else ?body rep)) w = (Inr (resp, status), w')"
    using assms(3) unfolding CreateCardStatusBatchWorkflow_def n Let_def create_scope_def [symmetric]
    by (simp add: liftResult_def andThen_def [of "\<lambda>s. (Inr (cs, raw), s)"])
  from this assms(1) show ?thesis
  proof (cases rule: claimed_workflowE)
    case (replay rep till)
    then show ?thesis using n by (intro exI [of _ cs] exI [of _ raw] exI [of _ till]) simp
  next
    case (fresh rep now w1 w2)
    from fresh(1) obtain wa and bid :: uuid and wb and oids :: "uuid list" and wc and batch :: CardStatusBatch and items wd where
      e: "CardsExist env bank cs w1 = (Inr True, wa)" and b: "newID env wa = (Inr bid, wb)" and o: "newIDs env (length cs) wb = (Inr oids, wc)"
      and c: "CreateCardStatusBatchDraft env bank
        \<lparr>bd_ID = bid, bd_IdempotencyRecordID = replay_RecordID rep, bd_TargetStatus = TrimSpace t,
         bd_Reason = TrimSpace r, bd_CardIDs = cs, bd_OperationIDs = oids,
         bd_ActorID = p_UserID prin, bd_ActorRole = p_Role prin, bd_ActorEntityID = actorEntityID prin,
         bd_RequestID = req\<rparr> wc = (Inr (batch, items), wd)"
      and f: "finish_and_commit env prin bank (create_scope prin) key 201 (batch_json bank batch items) (batch_ID batch)
        (batch_json bank batch items, 201) wd = (Inr (resp, status), w2)"
      by (auto simp: throw_def elim!: andThen_InrE split: if_splits)
    have v: "view wc = view w1"
      using e keepsD [OF keeps_newID(2) b] newIDsE [OF o] by (auto simp: CardsExist_def elim!: statement_readE)
    have dr: "drafted bank (TrimSpace t) (TrimSpace r) None cs (view w1) (view wd)"
      using CreateCardStatusBatchDraft_drafted [OF c] by (simp add: v)
    note k = finished_workflow [OF f, unfolded stored_response_drafted [OF dr], OF fresh(4)]
    have ex: "\<exists>x \<in> set (cards (durable w)). card_key x = (bank, x')" if "x' \<in> set cs" for x'
      using e that d assms(2) but_records_tables(1) [OF fresh(3)]
      by (intro cards_exist) (auto simp: CardsExist_def elim!: statement_readE)
    have "drafted bank (TrimSpace t) (TrimSpace r) None cs (but_records (durable w)) (but_records (durable w'))"
      using drafted_cong [OF dr fresh(3)] k(2) fresh(2) by simp
    then show ?thesis
      using n k(1,3) ex fresh(2) by (intro exI [of _ cs] exI [of _ raw] exI [of _ "now + replayLifetime"]) simp
  qed
qed


lemma retry_workflow_result:
  fixes w w' :: "'m shard_world_scheme"
  assumes "records_ok (durable w)"
    and "RetryCardStatusBatchWorkflow env fp prin bank rid key body req w = (Inr resp, w')"
  shows "\<exists>till status. stored_response (bank, batch_scope ''retry'' rid prin, key) (durable w') = Some (Fingerprint fp body, till, status, resp) \<and>
    (durable w' = durable w \<or>
     (\<exists>src. src \<in> set (card_status_batches (durable w)) \<and> batch_key src = (bank, rid) \<and> batch_Status src \<in> {''failed'', ''cancelled''} \<and>
        drafted bank (batch_TargetStatus src) (batch_Reason src) (Some rid)
          (sort (map bi_card_id (batch_items_of (durable w) bank rid))) (but_records (durable w)) (but_records (durable w'))))"
proof -
  have s: "''card-status-batches.retry.'' @ rid @ ''.actor.'' @ p_UserID prin = batch_scope ''retry'' rid prin"
    by (simp add: batch_scope_def)
  from assms(2) [unfolded RetryCardStatusBatchWorkflow_def Let_def s] assms(1) show ?thesis
  proof (cases rule: claimed_workflowE)
    case (replay rep till)
    then show ?thesis by (intro exI [of _ till] exI [of _ "replay_Status rep"]) simp
  next
    case (fresh rep now w1 w2)
    from fresh(1) obtain bid wa and b :: CardStatusBatch and wb and oids :: "uuid list" and wc and batch :: CardStatusBatch and items wd where
      n: "newID env w1 = (Inr bid, wa)" and l: "onError (LockCardStatusBatch env bank rid) batchProblem wa = (Inr b, wb)"
      and i: "newIDs env (batch_ItemCount b) wb = (Inr oids, wc)"
      and c: "onError (RetryCardStatusBatch env bank rid
        \<lparr>br_ID = bid, br_IdempotencyRecordID = replay_RecordID rep, br_OperationIDs = oids,
         br_ActorID = p_UserID prin, br_ActorRole = p_Role prin, br_ActorEntityID = actorEntityID prin,
         br_RequestID = req\<rparr>) batchProblem wc = (Inr (batch, items), wd)"
      and f: "finish_and_commit env prin bank (batch_scope ''retry'' rid prin) key 201 (batch_json bank batch items) (batch_ID batch)
        (batch_json bank batch items) wd = (Inr resp, w2)"
      by (auto simp: throw_def elim!: andThen_InrE split: if_splits)
    have "view wb = view wa" using l unfolding onError_Inr by (rule LockCardStatusBatchE)
    then have v: "view wc = view w1" using keepsD [OF keeps_newID(2) n] newIDsE [OF i] by simp
    from RetryCardStatusBatch_drafted [OF c [unfolded onError_Inr]] obtain src where
      src: "src \<in> set (card_status_batches (view w1))" "batch_key src = (bank, rid)" "batch_Status src \<in> {''failed'', ''cancelled''}"
      and dr: "drafted bank (batch_TargetStatus src) (batch_Reason src) (Some rid)
        (sort (map bi_card_id (batch_items_of (view w1) bank rid))) (view w1) (view wd)" unfolding v by (elim exE conjE)
    have t: "card_status_batches (view w1) = card_status_batches (durable w)"
      "batch_items_of (view w1) bank rid = batch_items_of (durable w) bank rid"
      using but_records_tables(3) [OF fresh(3)] arg_cong [OF fresh(3), of card_status_batch_items]
      by (simp_all add: batch_items_of_def but_records_def)
    note k = finished_workflow [OF f, unfolded stored_response_drafted [OF dr], OF fresh(4)]
    have "drafted bank (batch_TargetStatus src) (batch_Reason src) (Some rid)
        (sort (map bi_card_id (batch_items_of (durable w) bank rid))) (but_records (durable w)) (but_records (durable w'))"
      using drafted_cong [OF dr fresh(3)] k(2) fresh(2) t(2) by simp
    then show ?thesis
      using k(1,3) src fresh(2) unfolding t(1)
      by (intro exI [of _ "now + replayLifetime"] exI [of _ 201] conjI disjI2 exI [of _ src]) simp_all
  qed
qed

text \<open>
  C26. What drafting a batch writes. A creation that succeeds had a request that normalizes, and
  either replays the response stored for exactly this request or commits exactly one draft batch with
  one queued operation and one pending item per requested card, all of them cards of the bank. A
  retry that succeeds replays, or commits exactly a new draft on the same cards, target and reason
  as a failed or cancelled batch, and refers to it. Afterwards the response is the stored one.
\<close>

theorem drafted_batches_are_recorded:
  assumes "records_ok (durable w)" and "unique_key card_key (cards (durable w))"
  shows "(CreateCardStatusBatchWorkflow env fp prin bank key t r ids req w = (Inr (resp, status), w') \<longrightarrow>
    (\<exists>cs raw till. normalize t r ids = Inr (cs, raw) \<and>
       stored_response (bank, create_scope prin, key) (durable w') = Some (Fingerprint fp raw, till, status, resp) \<and>
       (durable w' = durable w \<or>
        (status = 201 \<and> (\<forall>c \<in> set cs. \<exists>x \<in> set (cards (durable w)). card_key x = (bank, c)) \<and>
         drafted bank (TrimSpace t) (TrimSpace r) None cs (but_records (durable w)) (but_records (durable w')))))) \<and>
   (RetryCardStatusBatchWorkflow env fp prin bank rid key body req w = (Inr resp, w') \<longrightarrow>
    (\<exists>till st. stored_response (bank, batch_scope ''retry'' rid prin, key) (durable w') = Some (Fingerprint fp body, till, st, resp) \<and>
       (durable w' = durable w \<or>
        (\<exists>src. src \<in> set (card_status_batches (durable w)) \<and> batch_key src = (bank, rid) \<and> batch_Status src \<in> {''failed'', ''cancelled''} \<and>
          drafted bank (batch_TargetStatus src) (batch_Reason src) (Some rid)
            (sort (map bi_card_id (batch_items_of (durable w) bank rid))) (but_records (durable w)) (but_records (durable w'))))))"
  by (rule conjI; rule impI; erule create_workflow_result [OF assms] retry_workflow_result [OF assms(1)])


text \<open>
  \<open>batch_changed env bank rid action prin req f d d'\<close>: from \<open>d\<close> to \<open>d'\<close> exactly the row of the batch was
  rewritten by \<open>f\<close>, at a time of the database's clock, and the audit event of the action was appended.
\<close>

definition batch_changed :: "environment \<Rightarrow> uuid \<Rightarrow> uuid \<Rightarrow> string \<Rightarrow> Principal \<Rightarrow> uuid \<Rightarrow>
    (time \<Rightarrow> batch_row \<Rightarrow> batch_row) \<Rightarrow> shard_db \<Rightarrow> shard_db \<Rightarrow> bool" where
  "batch_changed env bank rid action prin req f d d' \<longleftrightarrow>
     (\<exists>n auditID at. d' = d\<lparr>
        card_status_batches := update_where (\<lambda>b. batch_key b = (bank, rid)) (f (clock_timestamp env n)) (card_status_batches d),
        audit_events := audit_events d @ [\<lparr>audit_entity = bank, audit_id = auditID, audit_actor_user_id = Some (p_UserID prin),
          audit_actor_role = p_Role prin, audit_actor_entity_id = nullable (actorEntityID prin), audit_executor_identity = None,
          audit_action = action, audit_resource_type = ''card_status_batch'', audit_resource_id = Some rid,
          audit_outcome = ''succeeded'', audit_request_id = req, audit_occurred_at = at, audit_details = JObj []\<rparr>]\<rparr>)"

definition queued_by :: "Principal \<Rightarrow> time \<Rightarrow> batch_row \<Rightarrow> batch_row" where
  "queued_by prin now b = b\<lparr>batch_Status := ''queued'', batch_next_attempt_at := now,
     batch_updated_by := p_UserID prin, batch_UpdatedAt := now\<rparr>"

definition cancelled_by :: "Principal \<Rightarrow> time \<Rightarrow> batch_row \<Rightarrow> batch_row" where
  "cancelled_by prin now b = b\<lparr>batch_Status := ''cancelled'', batch_CompletedAt := Some now,
     batch_updated_by := p_UserID prin, batch_UpdatedAt := now\<rparr>"

text \<open>The row of a batch.\<close>

definition batch_of :: "shard_db \<Rightarrow> uuid \<times> uuid \<Rightarrow> batch_row option" where
  "batch_of d k = lookup_key batch_key k (card_status_batches d)"

lemma batch_of_query: "query_row (\<lambda>r. batch_entity r = bank \<and> batch_ID r = rid) (card_status_batches d) = batch_of d (bank, rid)"
proof -
  have "(\<lambda>r. batch_key r = (bank, rid)) = (\<lambda>r. batch_entity r = bank \<and> batch_ID r = rid)" by (auto simp: batch_key_def)
  then show ?thesis by (simp add: batch_of_def lookup_key_def query_row_def)
qed

lemma lock_lookup:
  assumes "LockCardStatusBatch env bank rid w = (Inr b, w')"
  obtains r where "batch_of (view w) (bank, rid) = Some r" and "b = scanCardStatusBatch r" and "view w' = view w"
    and "batch_Status b = batch_Status r"
  using assms by (elim LockCardStatusBatchE) (simp add: batch_of_query scanCardStatusBatch_def CardStatusBatch.truncate_def)

text \<open>The update of the locked batch and its audit event.\<close>

lemma change_statements:
  fixes w w' :: "'m shard_world_scheme"
  assumes "andThen (statement env (update_batch_returning bank rid f)) (\<lambda>batch.
      andThen (insertAudit env bank (Some (p_UserID prin)) (p_Role prin) (nullable (actorEntityID prin)) None
         action ''card_status_batch'' (Some rid) ''succeeded'' req (JObj [])) (\<lambda>_. ret batch)) w = (Inr b, w')"
    and "\<And>ctx. f ctx = g (sql_clock ctx)"
  shows "batch_changed env bank rid action prin req g (view w) (view w')"
    and "\<exists>r. batch_of (view w') (bank, rid) = Some r \<and> b = scanCardStatusBatch r"
    and "idempotency_records (view w') = idempotency_records (view w)"
proof -
  let ?P = "\<lambda>r. batch_entity r = bank \<and> batch_ID r = rid" and ?ctx = "context_of env w"
  from assms(1) obtain b1 :: CardStatusBatch and w1 w2 :: "'m shard_world_scheme" where
    u: "statement env (update_batch_returning bank rid f) w = (Inr b1, w1)"
    and a: "insertAudit env bank (Some (p_UserID prin)) (p_Role prin) (nullable (actorEntityID prin)) None
         action ''card_status_batch'' (Some rid) ''succeeded'' req (JObj []) w1 = (Inr (), w2)" and e: "w' = w2" "b = b1"
    by (auto simp: ret_def elim!: andThen_InrE)
  from u obtain n where up: "update_batches (sql_clock ?ctx) ?P (f ?ctx) (view w) = Inr (n, view w1)"
    and q: "scan_row scanCardStatusBatch (query_row ?P (card_status_batches (view w1))) = Inr b1"
    by (auto simp: update_batch_returning_def map_sum_Inr_iff elim!: statement_InrE split: sum.splits prod.splits)
  have P: "?P = (\<lambda>b. batch_key b = (bank, rid))" by (auto simp: batch_key_def)
  have v1: "view w1 = (view w)\<lparr>card_status_batches :=
      update_where (\<lambda>b. batch_key b = (bank, rid)) (g (clock_timestamp env (tick w))) (card_status_batches (view w))\<rparr>"
    using update_result(8) [OF up] unfolding P by (simp add: assms(2) context_of_def)
  from a obtain c where v2: "view w2 = (view w1)\<lparr>audit_events := audit_events (view w1) @
      [audit_row_of bank (Some (p_UserID prin)) (p_Role prin) (nullable (actorEntityID prin)) None
         action ''card_status_batch'' (Some rid) ''succeeded'' req (JObj []) c]\<rparr>" by (rule insertAuditE)
  show "batch_changed env bank rid action prin req g (view w) (view w')"
    unfolding batch_changed_def e v2 v1 audit_row_of_def
    by (rule exI [of _ "tick w"], rule exI [of _ "sql_uuid c 0"], rule exI [of _ "sql_now c"]) simp
  show "\<exists>r. batch_of (view w') (bank, rid) = Some r \<and> b = scanCardStatusBatch r"
    using q unfolding batch_of_query by (auto simp: e v2 batch_of_def scan_row_def split: option.splits)
  show "idempotency_records (view w') = idempotency_records (view w)" by (simp add: e v2 v1)
qed

lemma but_records_change:
  "but_records (d\<lparr>card_status_batches := f (card_status_batches d), audit_events := audit_events d @ [ae]\<rparr>) =
   (but_records d)\<lparr>card_status_batches := f (card_status_batches (but_records d)), audit_events := audit_events (but_records d) @ [ae]\<rparr>"
  by (simp add: but_records_def)

lemma batch_changed_records:
  assumes "batch_changed env bank rid action prin req g d d'" and "but_records d = but_records e" and "but_records d' = but_records e'"
  shows "batch_changed env bank rid action prin req g (but_records e) (but_records e')"
  using assms(1) unfolding batch_changed_def assms(2,3) [symmetric]
  by (elim exE, intro exI) (erule subst [OF sym], simp only: but_records_change)

lemma batch_of_records: "but_records d = but_records e \<Longrightarrow> batch_of d = batch_of e"
  by (drule but_records_tables(3)) (simp add: batch_of_def fun_eq_iff)

text \<open>What the two store methods do to the tables: \<open>change_effect\<close> for the action of the workflow.\<close>

definition change_effect :: "environment \<Rightarrow> Principal \<Rightarrow> uuid \<Rightarrow> uuid \<Rightarrow> uuid \<Rightarrow> string \<Rightarrow> shard_db \<Rightarrow> shard_db \<Rightarrow> bool" where
  "change_effect env prin bank rid req action d d' \<longleftrightarrow> (\<exists>r. batch_of d (bank, rid) = Some r \<and>
     (if action = ''execute''
      then (if batch_Status r = ''draft''
            then batch_changed env bank rid ''card_status_batch.execute'' prin req (queued_by prin) d d'
            else d' = d)
      else action = ''cancel'' \<and> batch_Status r \<in> {''draft'', ''queued''} \<and>
           batch_changed env bank rid ''card_status_batch.cancel'' prin req (cancelled_by prin) d d'))"

lemma change_effect_simps:
  "change_effect env prin bank rid req ''execute'' d d' \<longleftrightarrow> (\<exists>r. batch_of d (bank, rid) = Some r \<and>
     (if batch_Status r = ''draft''
      then batch_changed env bank rid ''card_status_batch.execute'' prin req (queued_by prin) d d' else d' = d))"
  "change_effect env prin bank rid req ''cancel'' d d' \<longleftrightarrow> (\<exists>r. batch_of d (bank, rid) = Some r \<and>
     batch_Status r \<in> {''draft'', ''queued''} \<and>
     batch_changed env bank rid ''card_status_batch.cancel'' prin req (cancelled_by prin) d d')"
proof -
  have n: "(''cancel'' = ''execute'') = False" by simp
  show "change_effect env prin bank rid req ''execute'' d d' \<longleftrightarrow> (\<exists>r. batch_of d (bank, rid) = Some r \<and>
     (if batch_Status r = ''draft''
      then batch_changed env bank rid ''card_status_batch.execute'' prin req (queued_by prin) d d' else d' = d))"
    "change_effect env prin bank rid req ''cancel'' d d' \<longleftrightarrow> (\<exists>r. batch_of d (bank, rid) = Some r \<and>
     batch_Status r \<in> {''draft'', ''queued''} \<and>
     batch_changed env bank rid ''card_status_batch.cancel'' prin req (cancelled_by prin) d d')"
    by (simp_all only: change_effect_def n if_True if_False simp_thms)
qed

lemma ExecuteCardStatusBatchE:
  assumes "ExecuteCardStatusBatch env bank rid (p_UserID prin) (p_Role prin) (actorEntityID prin) req w = (Inr b, w')"
  shows "change_effect env prin bank rid req ''execute'' (view w) (view w')"
    and "\<exists>r. batch_of (view w') (bank, rid) = Some r \<and> b = scanCardStatusBatch r"
    and "idempotency_records (view w') = idempotency_records (view w)"
proof -
  from assms obtain c :: CardStatusBatch and w1 where l: "LockCardStatusBatch env bank rid w = (Inr c, w1)"
    and r: "(if batch_Status c \<noteq> ''draft'' then ret c
      else andThen (statement env (update_batch_returning bank rid (queue_batch (p_UserID prin)))) (\<lambda>batch.
       andThen (insertAudit env bank (Some (p_UserID prin)) (p_Role prin) (nullable (actorEntityID prin)) None
         ''card_status_batch.execute'' ''card_status_batch'' (Some rid) ''succeeded'' req (JObj [])) (\<lambda>_. ret batch))) w1 = (Inr b, w')"
    unfolding ExecuteCardStatusBatch_def by (rule andThen_InrE)
  from l obtain x where x: "batch_of (view w) (bank, rid) = Some x" "c = scanCardStatusBatch x" "view w1 = view w"
    "batch_Status c = batch_Status x" by (rule lock_lookup)
  have q: "queue_batch (p_UserID prin) ctx = queued_by prin (sql_clock ctx)" for ctx
    by (rule ext) (simp add: queue_batch_def queued_by_def)
  have "change_effect env prin bank rid req ''execute'' (view w) (view w') \<and>
      (\<exists>r. batch_of (view w') (bank, rid) = Some r \<and> b = scanCardStatusBatch r) \<and>
      idempotency_records (view w') = idempotency_records (view w)"
  proof (cases "batch_Status x = ''draft''")
    case False
    with r x show ?thesis by (simp add: ret_def change_effect_def)
  next
    case True
    with x(4) have "batch_Status c = ''draft''" by simp
    note k = change_statements [OF r [unfolded this, simplified] q]
    show ?thesis using k x True by (simp add: change_effect_def)
  qed
  then show "change_effect env prin bank rid req ''execute'' (view w) (view w')"
    "\<exists>r. batch_of (view w') (bank, rid) = Some r \<and> b = scanCardStatusBatch r"
    "idempotency_records (view w') = idempotency_records (view w)" by blast+
qed

lemma CancelCardStatusBatchE:
  assumes "CancelCardStatusBatch env bank rid (p_UserID prin) (p_Role prin) (actorEntityID prin) req w = (Inr b, w')"
  shows "change_effect env prin bank rid req ''cancel'' (view w) (view w')"
    and "\<exists>r. batch_of (view w') (bank, rid) = Some r \<and> b = scanCardStatusBatch r"
    and "idempotency_records (view w') = idempotency_records (view w)"
proof -
  from assms obtain c :: CardStatusBatch and w1 where l: "LockCardStatusBatch env bank rid w = (Inr c, w1)"
    and r: "(if batch_Status c \<noteq> ''draft'' \<and> batch_Status c \<noteq> ''queued'' then throw ErrBatchNotCancellable
      else andThen (statement env (update_batch_returning bank rid (cancel_batch (p_UserID prin)))) (\<lambda>batch.
       andThen (insertAudit env bank (Some (p_UserID prin)) (p_Role prin) (nullable (actorEntityID prin)) None
         ''card_status_batch.cancel'' ''card_status_batch'' (Some rid) ''succeeded'' req (JObj [])) (\<lambda>_. ret batch))) w1 = (Inr b, w')"
    unfolding CancelCardStatusBatch_def by (rule andThen_InrE)
  from l obtain x where x: "batch_of (view w) (bank, rid) = Some x" "c = scanCardStatusBatch x" "view w1 = view w"
    "batch_Status c = batch_Status x" by (rule lock_lookup)
  have q: "cancel_batch (p_UserID prin) ctx = cancelled_by prin (sql_clock ctx)" for ctx
    by (rule ext) (simp add: cancel_batch_def cancelled_by_def)
  have s: "batch_Status x \<in> {''draft'', ''queued''}" using r x(4) by (auto simp: throw_def split: if_splits)
  then have "\<not> (batch_Status c \<noteq> ''draft'' \<and> batch_Status c \<noteq> ''queued'')" using x(4) by simp
  note k = change_statements [OF r [unfolded if_not_P [OF this]] q]
  show "change_effect env prin bank rid req ''cancel'' (view w) (view w')" using k(1) x s by (simp add: change_effect_def)
  show "\<exists>r. batch_of (view w') (bank, rid) = Some r \<and> b = scanCardStatusBatch r" by (rule k(2))
  show "idempotency_records (view w') = idempotency_records (view w)" using k(3) x by simp
qed

lemma change_effect_records:
  assumes "change_effect env prin bank rid req action d d'" and "but_records d = but_records e" and "but_records d' = but_records e'"
  shows "change_effect env prin bank rid req action (but_records e) (but_records e')"
proof -
  have b: "batch_of (but_records e) = batch_of d"
    using batch_of_records [OF assms(2)] by (simp add: batch_of_def fun_eq_iff but_records_def)
  note c = batch_changed_records [OF _ assms(2,3)]
  have k: "d' = d \<Longrightarrow> but_records e' = but_records e" using assms(2,3) by simp
  from assms(1) obtain r where r: "batch_of d (bank, rid) = Some r" and h: "if action = ''execute''
      then (if batch_Status r = ''draft''
            then batch_changed env bank rid ''card_status_batch.execute'' prin req (queued_by prin) d d' else d' = d)
      else action = ''cancel'' \<and> batch_Status r \<in> {''draft'', ''queued''} \<and>
           batch_changed env bank rid ''card_status_batch.cancel'' prin req (cancelled_by prin) d d'"
    unfolding change_effect_def by (elim exE conjE)
  show ?thesis unfolding change_effect_def b
  proof (rule exI [of _ r], rule conjI [OF r])
    show "if action = ''execute''
      then (if batch_Status r = ''draft''
            then batch_changed env bank rid ''card_status_batch.execute'' prin req (queued_by prin) (but_records e) (but_records e')
            else but_records e' = but_records e)
      else action = ''cancel'' \<and> batch_Status r \<in> {''draft'', ''queued''} \<and>
           batch_changed env bank rid ''card_status_batch.cancel'' prin req (cancelled_by prin) (but_records e) (but_records e')"
      using h by (cases "action = ''execute''"; cases "batch_Status r = ''draft''")
        (simp_all only: if_True if_False c k simp_thms)
  qed
qed

lemma change_result:
  fixes w w' :: "'m shard_world_scheme"
  assumes "change env fp prin bank rid key body req action w = (Inr resp, w')" and "records_ok (durable w)"
  shows "\<exists>till status. stored_response (bank, batch_scope action rid prin, key) (durable w') = Some (Fingerprint fp body, till, status, resp) \<and>
    (durable w' = durable w \<or>
     status = (if action = ''cancel'' then 200 else 202) \<and>
     (\<exists>r. batch_of (durable w') (bank, rid) = Some r \<and> resp = batch_json bank (scanCardStatusBatch r) []) \<and>
     change_effect env prin bank rid req action (but_records (durable w)) (but_records (durable w')))"
  using assms(1) [unfolded change_def Let_def batch_scope_def [symmetric]] assms(2)
proof (cases rule: claimed_workflowE)
  case (replay rep till)
  then show ?thesis by (intro exI [of _ till] exI [of _ "replay_Status rep"]) simp
next
  case (fresh rep now w1 w2)
  from fresh(1) obtain b :: CardStatusBatch and wa where
    m: "(if action = ''execute'' then
           onError (ExecuteCardStatusBatch env bank rid (p_UserID prin) (p_Role prin) (actorEntityID prin) req) batchProblem
         else if action = ''cancel'' then
           onError (CancelCardStatusBatch env bank rid (p_UserID prin) (p_Role prin) (actorEntityID prin) req) batchProblem
         else throw (PlainError (''unsupported batch action '' @ [quote] @ action @ [quote]))) w1 = (Inr b, wa)"
    and f: "finish_and_commit env prin bank (batch_scope action rid prin) key (if action = ''cancel'' then 200 else 202)
        (batch_json bank b []) (batch_ID b) (batch_json bank b []) wa = (Inr resp, w2)"
    by (rule andThen_InrE)
  have "action = ''execute'' \<and> ExecuteCardStatusBatch env bank rid (p_UserID prin) (p_Role prin) (actorEntityID prin) req w1 = (Inr b, wa) \<or>
      action = ''cancel'' \<and> CancelCardStatusBatch env bank rid (p_UserID prin) (p_Role prin) (actorEntityID prin) req w1 = (Inr b, wa)"
    using m by (auto simp: onError_Inr throw_def split: if_splits)
  then have all: "change_effect env prin bank rid req action (view w1) (view wa) \<and>
      (\<exists>r. batch_of (view wa) (bank, rid) = Some r \<and> b = scanCardStatusBatch r) \<and>
      idempotency_records (view wa) = idempotency_records (view w1)"
    by (elim disjE conjE; hypsubst) (intro conjI; erule ExecuteCardStatusBatchE CancelCardStatusBatchE)+
  note c = conjunct1 [OF all] and b = conjunct1 [OF conjunct2 [OF all]] and i = conjunct2 [OF conjunct2 [OF all]]
  note k = finished_workflow [OF f, unfolded stored_response_cong [OF i], OF fresh(4)]
  have br: "but_records (view wa) = but_records (durable w')" using k(2) fresh(2) by simp
  note ce = change_effect_records [OF c fresh(3) br]
  have st: "stored_response (bank, batch_scope action rid prin, key) (durable w') =
      Some (Fingerprint fp body, now + replayLifetime, if action = ''cancel'' then 200 else 202, resp)"
    using k(1,3) fresh(2) by simp
  have rb: "\<exists>r. batch_of (durable w') (bank, rid) = Some r \<and> resp = batch_json bank (scanCardStatusBatch r) []"
    using b k(1) batch_of_records [OF br] by auto
  show ?thesis by (rule exI, rule exI, rule conjI [OF st], intro disjI2 conjI refl rb ce)
qed


text \<open>
  C27. Executing queues a draft, cancelling stops a draft or a queued batch, and nothing else changes.
  After an execution or a cancellation that succeeds, the response is the one stored for exactly
  this request. Either nothing changed, because it was stored before, or the response is the row of
  the batch as it is now, and, apart from the record of the request: an execution found a batch
  of the bank and, if it was a draft, made it queued and due at that time and appended the audit event
  of the execution, and otherwise changed nothing; a cancellation found the batch in draft or queued,
  made it cancelled and completed at that time and appended the audit event of the cancellation. No
  other row and no other table changed.
\<close>

theorem batch_changes_follow_the_states:
  assumes "records_ok (durable w)"
  shows "(ExecuteCardStatusBatchWorkflow env fp prin bank rid key body req w = (Inr resp, w') \<longrightarrow>
      (\<exists>till status. stored_response (bank, batch_scope ''execute'' rid prin, key) (durable w') =
          Some (Fingerprint fp body, till, status, resp) \<and>
        (durable w' = durable w \<or>
         status = 202 \<and> (\<exists>r. batch_of (durable w') (bank, rid) = Some r \<and> resp = batch_json bank (scanCardStatusBatch r) []) \<and>
         (\<exists>r. batch_of (durable w) (bank, rid) = Some r \<and>
            (if batch_Status r = ''draft''
             then batch_changed env bank rid ''card_status_batch.execute'' prin req (queued_by prin)
                    (but_records (durable w)) (but_records (durable w'))
             else but_records (durable w') = but_records (durable w)))))) \<and>
    (CancelCardStatusBatchWorkflow env fp prin bank rid key body req w = (Inr resp, w') \<longrightarrow>
      (\<exists>till status. stored_response (bank, batch_scope ''cancel'' rid prin, key) (durable w') =
          Some (Fingerprint fp body, till, status, resp) \<and>
        (durable w' = durable w \<or>
         status = 200 \<and> (\<exists>r. batch_of (durable w') (bank, rid) = Some r \<and> resp = batch_json bank (scanCardStatusBatch r) []) \<and>
         (\<exists>r. batch_of (durable w) (bank, rid) = Some r \<and> batch_Status r \<in> {''draft'', ''queued''} \<and>
            batch_changed env bank rid ''card_status_batch.cancel'' prin req (cancelled_by prin)
              (but_records (durable w)) (but_records (durable w'))))))"
proof -
  have b: "batch_of (but_records (durable w)) = batch_of (durable w)" by (simp add: batch_of_def but_records_def fun_eq_iff)
  have n: "(''execute'' = ''cancel'') = False" "(''cancel'' = ''cancel'') = True" by simp_all
  show ?thesis
    unfolding ExecuteCardStatusBatchWorkflow_def CancelCardStatusBatchWorkflow_def
    by (intro conjI impI; drule change_result [OF _ assms]) (simp_all only: change_effect_simps b n if_True if_False)
qed


section \<open>Sample runs\<close>

lemma sample_batch_claim:
  assumes "idempotency_records (view w) = []" and "entity_exists ''bank'' (view w)" and "btrim_nonempty scope"
    and "tx_start w \<le> 1000 + int (tick w)"
  shows "\<exists>r. batch_claim sample_env fp ''bank'' scope ''k1'' raw w = (Inr (fresh_replay (idem_id r)),
      (ticked (ticked (ticked w)))\<lparr>view := (view w)\<lparr>idempotency_records := [r]\<rparr>\<rparr>) \<and>
    idempotency_checks r \<and> idem_entity r = ''bank''"
proof -
  let ?c = "\<lparr>claim_Bank = ''bank'', claim_Scope = scope, claim_Key = ''k1'', claim_Fingerprint = Fingerprint fp raw,
       claim_Now = time_Now sample_env (tick w), claim_ExpiresAt = time_Now sample_env (tick w) + replayLifetime\<rparr>"
  let ?r = "new_idempotency_row ?c (context_of sample_env (ticked (ticked w)))"
  have chk: "idempotency_checks ?r"
    using assms(3,4) by (simp add: idempotency_checks_def new_idempotency_row_def context_of_def btrim_nonempty_def
        processing_body_def is_object_def replayLifetime_def)
  have rec: "record_of k (view w) = None" for k by (cases k) (simp add: record_of_def assms(1) query_row_def)
  have "ClaimIdempotency sample_env ?c (ticked w) = (Inr (fresh_replay (gen_random_uuid sample_env (Suc (tick (ticked w))) 0)),
      (ticked (ticked (ticked w)))\<lparr>view := (view w)\<lparr>idempotency_records := [?r]\<rparr>\<rparr>)"
    by (subst absent_claim_run) (use chk assms rec in simp_all)
  then have "batch_claim sample_env fp ''bank'' scope ''k1'' raw w = (Inr (fresh_replay (idem_id ?r)),
      (ticked (ticked (ticked w)))\<lparr>view := (view w)\<lparr>idempotency_records := [?r]\<rparr>\<rparr>)"
    by (simp add: batch_claim_def andThen_def time_now_def onError_Inr replayLifetime_def new_idempotency_row_def context_of_def)
  with chk show ?thesis by (intro exI [of _ ?r]) (simp add: new_idempotency_row_def)
qed

lemma sample_finish:
  assumes "idempotency_records (view w) = [r]" and "idempotency_checks r" and "is_object raw" and "status \<in> {200, 201, 202}"
  shows "\<exists>w'. finish_and_commit sample_env sample_prin ''bank'' scope key status raw rid x w = (Inr x, w')"
proof -
  have "\<exists>w'. FinishIdempotency sample_env ''bank'' scope key status raw rid (p_UserID sample_prin) w = (Inr (), w')"
    using assms by (intro finish_run) (auto simp: idempotency_checks_def)
  then show ?thesis by (auto simp: finish_and_commit_def andThen_def Commit_def ret_def)
qed

lemma batch_json_object [simp]: "is_object (batch_json bank b items)"
  by (simp add: batch_json_def batchJSON_def is_object_def)

definition draft_batch_row :: batch_row where
  "draft_batch_row = new_batch_row ''bank'' ''batch'' ''suspended'' ''review'' ''op'' ''issuer_operator'' '''' ''req'' ''idem'' 1 None
     \<lparr>sql_clock = 0, sql_now = 0, sql_uuid = (\<lambda>_. ''g'')\<rparr>"

definition draft_db :: shard_db where
  "draft_db = sample_db\<lparr>card_status_batches := [draft_batch_row]\<rparr>"

lemma sample_cancel:
  assumes "view w = draft_db\<lparr>idempotency_records := rs\<rparr>"
  shows "\<exists>b w'. CancelCardStatusBatch sample_env ''bank'' ''batch'' ''op'' ''issuer_operator'' '''' ''req'' w = (Inr b, w') \<and>
    idempotency_records (view w') = rs"
  using assms
  by (simp add: andThen_def ret_def CancelCardStatusBatch_def LockCardStatusBatch_def onError_def statement_def read_only_def
      scan_row_def query_row_def draft_db_def draft_batch_row_def new_batch_row_def scanCardStatusBatch_def CardStatusBatch.truncate_def
      update_batch_returning_def update_batches_def guarded_update_def affected_def update_where_def cancel_batch_def checked.simps
      guard_batch_request_def guard_batch_state_def batch_next_states_def batch_results_ok_def batch_items_of_def batch_key_def
      batch_checks_def is_card_state_def btrim_nonempty_def failure_code_ok_def failure_summary_ok_def actor_context_def nullable_def
      insertAudit_def exec_def insert_audit_def audit_row_of_def is_object_def entity_exists_def exists_row_def
      sample_db_def empty_db_def no_key_def Let_def)


text \<open>A workflow whose body runs after a fresh claim.\<close>

lemma sample_claimed_run:
  fixes d :: shard_db
  assumes "idempotency_records d = []" and "entity_exists ''bank'' d" and "btrim_nonempty scope"
    and "\<And>r (w1 :: shard_world). view w1 = d\<lparr>idempotency_records := [r]\<rparr> \<Longrightarrow> idempotency_checks r \<Longrightarrow> idem_entity r = ''bank'' \<Longrightarrow>
      \<exists>x w2. body (fresh_replay (idem_id r)) w1 = (Inr x, w2)"
  shows "\<exists>x w'. transaction sample_env ''bank'' (andThen (batch_claim sample_env fp ''bank'' scope ''k1'' raw) (\<lambda>rep.
      if replay_Found rep then ret (g rep) else body rep)) (sample_world d) = (Inr x, w')"
proof -
  let ?w = "sample_world d"
  define w0 where "w0 = ?w\<lparr>view := durable ?w, tx_start := clock_timestamp sample_env (tick ?w), tick := Suc (Suc (tick ?w))\<rparr>"
  have w0: "view w0 = d" "tx_start w0 \<le> 1000 + int (tick w0)" by (simp_all add: w0_def sample_world_def)
  from sample_batch_claim [of w0 scope fp raw, unfolded w0(1), OF assms(1-3) w0(2)] obtain r where
    c: "batch_claim sample_env fp ''bank'' scope ''k1'' raw w0 = (Inr (fresh_replay (idem_id r)),
      (ticked (ticked (ticked w0)))\<lparr>view := d\<lparr>idempotency_records := [r]\<rparr>\<rparr>)" and r: "idempotency_checks r" "idem_entity r = ''bank''" by blast
  let ?w1 = "(ticked (ticked (ticked w0)))\<lparr>view := d\<lparr>idempotency_records := [r]\<rparr>\<rparr>"
  from assms(4) [of ?w1 r, OF _ r] obtain x w2 where b: "body (fresh_replay (idem_id r)) ?w1 = (Inr x, w2)" by auto
  have "\<not> replay_Found (fresh_replay (idem_id r))" by (simp add: fresh_replay_def)
  moreover have "beginTenant sample_env ''bank'' ?w = (Inr (), w0)" by (simp add: beginTenant_run w0_def)
  ultimately show ?thesis using b c by (simp add: transaction_def andThen_def deferred_def)
qed

lemma sample_cancel_runs:
  "\<exists>x w'. CancelCardStatusBatchWorkflow sample_env [] sample_prin ''bank'' ''batch'' ''k1'' [] ''req'' (sample_world draft_db) = (Inr x, w')"
  unfolding CancelCardStatusBatchWorkflow_def change_def Let_def
proof (rule sample_claimed_run)
  show "idempotency_records draft_db = []" "entity_exists ''bank'' draft_db"
    by (simp_all add: draft_db_def sample_db_def empty_db_def entity_exists_def exists_row_def)
  fix r and w1 :: shard_world assume w1: "view w1 = draft_db\<lparr>idempotency_records := [r]\<rparr>" and r: "idempotency_checks r"
  from sample_cancel [OF w1] obtain b w2 where
    c: "CancelCardStatusBatch sample_env ''bank'' ''batch'' ''op'' ''issuer_operator'' '''' ''req'' w1 = (Inr b, w2)"
      "idempotency_records (view w2) = [r]" by blast
  let ?scope = "''card-status-batches.'' @ ''cancel'' @ ''.'' @ ''batch'' @ ''.actor.'' @ p_UserID sample_prin"
  obtain w3 where
    f: "finish_and_commit sample_env sample_prin ''bank'' ?scope ''k1'' 200
      (batch_json ''bank'' b []) (batch_ID b) (batch_json ''bank'' b []) w2 = (Inr (batch_json ''bank'' b []), w3)"
    using sample_finish [where raw = "batch_json ''bank'' b []" and status = 200 and scope = ?scope and key = "''k1''"
        and rid = "batch_ID b" and x = "batch_json ''bank'' b []", OF c(2) r batch_json_object] by auto
  have p: "p_UserID sample_prin = ''op''" "p_Role sample_prin = ''issuer_operator''" "actorEntityID sample_prin = ''''"
    by (simp_all add: sample_prin_def actorEntityID_def)
  show "\<exists>x w2. andThen
        (if ''cancel'' = ''execute'' then
           onError (ExecuteCardStatusBatch sample_env ''bank'' ''batch'' (p_UserID sample_prin) (p_Role sample_prin) (actorEntityID sample_prin) ''req'') batchProblem
         else if ''cancel'' = ''cancel'' then
           onError (CancelCardStatusBatch sample_env ''bank'' ''batch'' (p_UserID sample_prin) (p_Role sample_prin) (actorEntityID sample_prin) ''req'') batchProblem
         else throw (PlainError (''unsupported batch action '' @ [quote] @ ''cancel'' @ [quote]))) (\<lambda>batch.
      finish_and_commit sample_env sample_prin ''bank'' (''card-status-batches.'' @ ''cancel'' @ ''.'' @ ''batch'' @ ''.actor.'' @ p_UserID sample_prin) ''k1''
        (if ''cancel'' = ''cancel'' then 200 else 202)
        (batch_json ''bank'' batch []) (batch_ID batch) (batch_json ''bank'' batch [])) w1 = (Inr x, w2)"
    using c(1) f unfolding p by (intro exI) (simp add: andThen_def onError_def)
qed (simp add: btrim_nonempty_def)

theorem batch_changes_follow_the_states_witness:
  "\<exists>x w' till. CancelCardStatusBatchWorkflow sample_env [] sample_prin ''bank'' ''batch'' ''k1'' [] ''req'' (sample_world draft_db) = (Inr x, w') \<and>
     stored_response (''bank'', batch_scope ''cancel'' ''batch'' sample_prin, ''k1'') (durable w') = Some (Fingerprint [] [], till, 200, x) \<and>
     map batch_Status (card_status_batches (durable w')) = [''cancelled''] \<and>
     map audit_action (audit_events (durable w')) = [''card_status_batch.cancel'']"
proof -
  obtain x w' where r: "CancelCardStatusBatchWorkflow sample_env [] sample_prin ''bank'' ''batch'' ''k1'' [] ''req'' (sample_world draft_db) = (Inr x, w')"
    using sample_cancel_runs by (elim exE)
  have d: "durable (sample_world draft_db) = draft_db" by (simp add: sample_world_def)
  have ok: "records_ok (durable (sample_world draft_db))" unfolding d by (simp add: records_ok_def draft_db_def sample_db_def empty_db_def)
  have none: "stored_response k draft_db = None" for k
    by (cases k) (simp add: stored_response_def record_of_def draft_db_def sample_db_def empty_db_def query_row_def)
  from conjunct2 [OF batch_changes_follow_the_states [OF ok], rule_format, OF r] obtain till status where
    st: "stored_response (''bank'', batch_scope ''cancel'' ''batch'' sample_prin, ''k1'') (durable w') = Some (Fingerprint [] [], till, status, x)"
    and c: "durable w' = draft_db \<or> status = 200 \<and>
      batch_changed sample_env ''bank'' ''batch'' ''card_status_batch.cancel'' sample_prin ''req'' (cancelled_by sample_prin)
        (but_records draft_db) (but_records (durable w'))"
    unfolding d by (elim exE conjE disjE) blast+
  have "durable w' \<noteq> draft_db" using st none by auto
  with c have s: "status = 200" and bc: "batch_changed sample_env ''bank'' ''batch'' ''card_status_batch.cancel'' sample_prin ''req''
      (cancelled_by sample_prin) (but_records draft_db) (but_records (durable w'))" by blast+
  from bc have "map batch_Status (card_status_batches (but_records (durable w'))) = [''cancelled''] \<and>
      map audit_action (audit_events (but_records (durable w'))) = [''card_status_batch.cancel'']"
    unfolding batch_changed_def
    by (elim exE) (simp add: draft_db_def draft_batch_row_def new_batch_row_def but_records_def update_where_def batch_key_def
        cancelled_by_def sample_db_def empty_db_def)
  with r st s show ?thesis by (auto simp: but_records_def)
qed


definition card_db :: shard_db where
  "card_db = sample_db\<lparr>cards := [\<lparr>card_ID = uuid_a, card_ClientID = ''client'', card_AccountReferenceID = ''account'',
       card_ProductID = ''product'', card_Status = ''active'', card_MaskedPAN = None,
       card_PredecessorCardID = None, card_IssuedAt = None, card_ActivatedAt = None, card_SuspendedAt = None,
       card_ClosedAt = None, card_ExpiresAt = None, card_Version = 1, card_CreatedAt = 0, card_UpdatedAt = 0,
       card_entity = ''bank'', card_created_by = ''op'', card_updated_by = ''op''\<rparr>]\<rparr>"

lemma sample_draft:
  assumes "view w = card_db\<lparr>idempotency_records := [r]\<rparr>" and "idem_entity r = ''bank''"
  shows "\<exists>b items w'. CreateCardStatusBatchDraft sample_env ''bank''
      \<lparr>bd_ID = bid, bd_IdempotencyRecordID = idem_id r, bd_TargetStatus = ''suspended'', bd_Reason = ''review'',
       bd_CardIDs = [uuid_a], bd_OperationIDs = [oid], bd_ActorID = ''op'', bd_ActorRole = ''issuer_operator'',
       bd_ActorEntityID = '''', bd_RequestID = ''req''\<rparr> w = (Inr (b, items), w') \<and> idempotency_records (view w') = [r]"
  using assms
  by (simp add: andThen_def ret_def CreateCardStatusBatchDraft_def statement_def returning_def insert_batch_def checked.simps
      guard_batch_insert_def guard_batch_retry_provenance_def new_batch_row_def batch_checks_def is_card_state_def btrim_nonempty_def
      failure_code_ok_def failure_summary_ok_def actor_context_def nullable_def no_key_def exists_row_def idempotency_id_key_def
      card_db_def sample_db_def empty_db_def insertCardStatusBatchItems_def batchOperationAction_def scanCardStatusBatch_def
      CardStatusBatch.truncate_def exec_def insert_operation_def operation_checks_def operation_row_of_def card_key_def
      insert_batch_item_def batch_key_def insertAudit_def insert_audit_def audit_row_of_def is_object_def entity_exists_def)

lemma sample_newID: "\<exists>x. newID sample_env w = (Inr x, ticked w)"
  by (simp add: newID_def andThen_def rand_Read_def sample_env_def ret_def)

lemma sample_normalize: "\<exists>raw. normalize ''suspended'' ''review'' [uuid_a] = Inr ([uuid_a], raw)"
proof -
  have "TrimSpace ''suspended'' = ''suspended''" "TrimSpace ''review'' = ''review''" "isCanonicalUUID uuid_a" by code_simp+
  then show ?thesis by (simp add: normalize_Inr)
qed

lemma andThen_lifted: "andThen (liftResult (Inr x)) f = f x"
  by (intro ext) (simp add: andThen_def liftResult_def)

lemma sample_create_runs:
  "\<exists>x w'. CreateCardStatusBatchWorkflow sample_env [] sample_prin ''bank'' ''k1'' ''suspended'' ''review'' [uuid_a] ''req''
     (sample_world card_db) = (Inr x, w')"
proof -
  obtain raw where n: "normalize ''suspended'' ''review'' [uuid_a] = Inr ([uuid_a], raw)" using sample_normalize by (elim exE)
  have t: "TrimSpace ''suspended'' = ''suspended''" "TrimSpace ''review'' = ''review''" by code_simp+
  have p: "p_UserID sample_prin = ''op''" "p_Role sample_prin = ''issuer_operator''" "actorEntityID sample_prin = ''''"
    by (simp_all add: sample_prin_def actorEntityID_def)
  show ?thesis
    unfolding CreateCardStatusBatchWorkflow_def n Let_def andThen_lifted prod.case t
  proof (rule sample_claimed_run)
    show "idempotency_records card_db = []" "entity_exists ''bank'' card_db"
      by (simp_all add: card_db_def sample_db_def empty_db_def entity_exists_def exists_row_def)
    let ?scope = "''card-status-batches.create.actor.'' @ p_UserID sample_prin"
    show "btrim_nonempty ?scope" by (simp add: btrim_nonempty_def)
    fix r and w1 :: shard_world
    assume w1: "view w1 = card_db\<lparr>idempotency_records := [r]\<rparr>" and r: "idempotency_checks r" "idem_entity r = ''bank''"
    have e: "CardsExist sample_env ''bank'' [uuid_a] w1 = (Inr True, ticked w1)"
      by (simp add: CardsExist_def statement_def read_only_def w1 card_db_def affected_def)
    obtain bid where b: "newID sample_env (ticked w1) = (Inr bid, ticked (ticked w1))" using sample_newID by blast
    obtain oid where o: "newID sample_env (ticked (ticked w1)) = (Inr oid, ticked (ticked (ticked w1)))" using sample_newID by blast
    have os: "newIDs sample_env (Suc 0) (ticked (ticked w1)) = (Inr [oid], ticked (ticked (ticked w1)))"
      by (simp add: andThen_def o ret_def)
    have "view (ticked (ticked (ticked w1))) = card_db\<lparr>idempotency_records := [r]\<rparr>" by (simp add: w1)
    from sample_draft [OF this r(2), of bid oid] obtain c items w2 where
      d: "CreateCardStatusBatchDraft sample_env ''bank''
      \<lparr>bd_ID = bid, bd_IdempotencyRecordID = idem_id r, bd_TargetStatus = ''suspended'', bd_Reason = ''review'',
       bd_CardIDs = [uuid_a], bd_OperationIDs = [oid], bd_ActorID = ''op'', bd_ActorRole = ''issuer_operator'',
       bd_ActorEntityID = '''', bd_RequestID = ''req''\<rparr> (ticked (ticked (ticked w1))) = (Inr (c, items), w2)"
      and rs: "idempotency_records (view w2) = [r]" by (elim exE conjE)
    obtain w3 where
      f: "finish_and_commit sample_env sample_prin ''bank'' ?scope ''k1'' 201
        (batch_json ''bank'' c items) (batch_ID c) (batch_json ''bank'' c items, 201 :: int) w2 = (Inr (batch_json ''bank'' c items, 201), w3)"
      using sample_finish [where raw = "batch_json ''bank'' c items" and status = 201 and scope = ?scope and key = "''k1''"
          and rid = "batch_ID c" and x = "(batch_json ''bank'' c items, 201 :: int)", OF rs r(1) batch_json_object] by auto
    show "\<exists>x w2. andThen (CardsExist sample_env ''bank'' [uuid_a]) (\<lambda>exists.
        if \<not> exists then throw (Problem 422 ''invalid_card'' ''Every requested card must belong to the selected bank.'')
        else andThen (newID sample_env) (\<lambda>batchID.
          andThen (newIDs sample_env (length [uuid_a])) (\<lambda>operationIDs.
          andThen (CreateCardStatusBatchDraft sample_env ''bank''
            \<lparr>bd_ID = batchID, bd_IdempotencyRecordID = replay_RecordID (fresh_replay (idem_id r)), bd_TargetStatus = ''suspended'',
             bd_Reason = ''review'', bd_CardIDs = [uuid_a], bd_OperationIDs = operationIDs, bd_ActorID = p_UserID sample_prin,
             bd_ActorRole = p_Role sample_prin, bd_ActorEntityID = actorEntityID sample_prin, bd_RequestID = ''req''\<rparr>) (\<lambda>(batch, items).
          finish_and_commit sample_env sample_prin ''bank'' ?scope ''k1'' 201 (batch_json ''bank'' batch items) (batch_ID batch)
            (batch_json ''bank'' batch items, 201 :: int))))) w1 = (Inr x, w2)"
      using f unfolding p by (intro exI) (simp add: andThen_def e b os d fresh_replay_def del: newIDs.simps)
  qed
qed

theorem drafted_batches_are_recorded_witness:
  "\<exists>x w' till status. CreateCardStatusBatchWorkflow sample_env [] sample_prin ''bank'' ''k1'' ''suspended'' ''review'' [uuid_a] ''req''
     (sample_world card_db) = (Inr (x, status), w') \<and>
     (\<exists>fp. stored_response (''bank'', create_scope sample_prin, ''k1'') (durable w') = Some (fp, till, status, x))"
proof -
  obtain x status w' where r: "CreateCardStatusBatchWorkflow sample_env [] sample_prin ''bank'' ''k1'' ''suspended'' ''review'' [uuid_a] ''req''
     (sample_world card_db) = (Inr (x, status), w')" using sample_create_runs by (metis surj_pair)
  have d: "durable (sample_world card_db) = card_db" by (simp add: sample_world_def)
  have ok: "records_ok (durable (sample_world card_db))" "unique_key card_key (cards (durable (sample_world card_db)))"
    unfolding d by (simp_all add: records_ok_def card_db_def sample_db_def empty_db_def unique_key_def)
  from conjunct1 [OF drafted_batches_are_recorded [OF ok], rule_format, OF r] show ?thesis using r by blast
qed

end
