(* ===== verification/Expiry_Accounting.thy ===== *)
theory Expiry_Accounting
  imports Executor_Claims Card_Service
begin

text \<open>
  The retry budget of card expiry: an invariant of the expiry items kept by every call of the
  executor's store and by the manual retry of the API.
\<close>

section \<open>The invariant\<close>

text \<open>
  Every attempt on an item is an automatic retry, was answered by a manual retry, or ended the item;
  at most three retries are automatic, and only an item that used all of them asks for a manual one.
\<close>

definition item_accounted :: "expiry_item_row \<Rightarrow> bool" where
  "item_accounted i \<longleftrightarrow>
     ei_attempt_count i = ei_automatic_retry_count i + ei_manual_retry_count i +
       (if ei_status i \<in> set terminal_expiry_states then 1 else 0) \<and>
     ei_automatic_retry_count i \<le> 3 \<and>
     (ei_status i = ''manual_retry_required'' \<longrightarrow> ei_automatic_retry_count i = 3)"

definition items_accounted :: "shard_db \<Rightarrow> bool" where
  "items_accounted d \<longleftrightarrow> (\<forall>i \<in> set (card_expiry_run_items d). item_accounted i)"

lemma reads_leases_accounted [simp]: "reads_leases items_accounted"
  by (simp add: reads_leases_def items_accounted_def)

lemma items_accounted_update:
  assumes "update_expiry_items now P f d = Inr (n, d')" and "items_accounted d"
    and "\<And>i. P i \<Longrightarrow> item_accounted i \<Longrightarrow> guard_expiry_run_item d now i (f i) \<Longrightarrow> expiry_item_checks (f i) \<Longrightarrow> item_accounted (f i)"
  shows "items_accounted d'"
  unfolding items_accounted_def
proof
  fix i' assume "i' \<in> set (card_expiry_run_items d')"
  then obtain i where i: "i \<in> set (card_expiry_run_items d)" "i' = (if P i then f i else i)"
    using update_result(11) [OF assms(1)] by (auto simp: set_update_where)
  show "item_accounted i'"
  proof (cases "P i")
    case True
    have "guard_expiry_run_item d now i (f i)" "expiry_item_checks (f i)"
      using guarded_update_conditions [OF assms(1) [unfolded update_expiry_items_def] i(1) True] by simp_all
    with assms(2,3) i True show ?thesis by (simp add: items_accounted_def)
  qed (use assms(2) i in \<open>simp add: items_accounted_def\<close>)
qed

lemma accounted_steps:
  "item_accounted i \<Longrightarrow> ei_status i = ''pending'' \<Longrightarrow> item_accounted (claim_item claim ctx i)"
  "item_accounted i \<Longrightarrow> ei_status i = ''processing'' \<Longrightarrow> item_accounted (recover_item ctx i)"
  "item_accounted i \<Longrightarrow> ei_status i = ''processing'' \<Longrightarrow> r \<in> {''expired'', ''skipped_already_expired''} \<Longrightarrow>
     item_accounted (finish_item r ctx i)"
  by (auto simp: item_accounted_def claim_item_def recover_item_def finish_item_def terminal_expiry_states_def)

lemma guard_manual_retry:
  assumes "guard_expiry_run_item d now old new" and "ei_status new = ''manual_retry_required''" and "ei_status old \<noteq> ei_status new"
  shows "ei_automatic_retry_count new = 3"
  using assms unfolding guard_expiry_run_item_def by simp

lemma checks_retry_bound: "expiry_item_checks i \<Longrightarrow> ei_automatic_retry_count i \<le> 3"
  unfolding expiry_item_checks_def by blast

lemma requeue_item_fields [simp]:
  "ei_status (requeue_item s delay ctx i) = s"
  "ei_attempt_count (requeue_item s delay ctx i) = ei_attempt_count i + 1"
  "ei_manual_retry_count (requeue_item s delay ctx i) = ei_manual_retry_count i"
  "ei_automatic_retry_count (requeue_item s delay ctx i) = ei_automatic_retry_count i + (if s = ''pending'' then 1 else 0)"
  by (simp_all add: requeue_item_def)

lemma accounted_requeue:
  assumes "item_accounted i" and "ei_status i = ''processing''" and "s \<in> {''pending'', ''manual_retry_required''}"
    and "guard_expiry_run_item d now i (requeue_item s delay ctx i)" and "expiry_item_checks (requeue_item s delay ctx i)"
  shows "item_accounted (requeue_item s delay ctx i)"
proof -
  from assms(3) consider "s = ''pending''" | "s = ''manual_retry_required''" by blast
  then show ?thesis
  proof cases
    case 1
    with assms(1,2) checks_retry_bound [OF assms(5)] show ?thesis
      by (simp add: item_accounted_def terminal_expiry_states_def)
  next
    case 2
    have "ei_automatic_retry_count i = 3" using guard_manual_retry [OF assms(4)] assms(2) 2 by simp
    with assms(1,2) 2 show ?thesis by (simp add: item_accounted_def terminal_expiry_states_def)
  qed
qed

section \<open>Every call keeps it\<close>

lemma preserves_accounted_items:
  assumes "\<And>ctx d i. P ctx i \<Longrightarrow> item_accounted i \<Longrightarrow> guard_expiry_run_item d (sql_clock ctx) i (f ctx i) \<Longrightarrow>
    expiry_item_checks (f ctx i) \<Longrightarrow> item_accounted (f ctx i)"
  shows "preserves items_accounted (statement env (\<lambda>ctx. update_expiry_items (sql_clock ctx) (P ctx) (f ctx)))"
  using assms by (intro preserves_statement) (auto intro: items_accounted_update)

lemma preserves_accounted_claims:
  "preserves items_accounted (statement env (update_claimed_item claim iid))"
  "preserves items_accounted (statement env (recover_items bank))"
  "preserves items_accounted (statement env (update_claimed_batch claim bid))"
proof -
  show "preserves items_accounted (statement env (update_claimed_item claim iid))"
    by (rule preserves_statement)
      (auto simp: update_claimed_item_def map_sum_Inr_iff accounted_steps split: sum.splits prod.splits if_splits
        elim!: items_accounted_update)
  show "preserves items_accounted (statement env (recover_items bank))"
    by (rule preserves_statement)
      (auto simp: recover_items_def map_sum_Inr_iff lapsed_item_def accounted_steps elim!: items_accounted_update)
  show "preserves items_accounted (statement env (update_claimed_batch claim bid))"
    by (rule preserves_statement)
      (auto simp: update_claimed_batch_def map_sum_Inr_iff items_accounted_def split: sum.splits prod.splits if_splits
        dest!: update_result)
qed

lemma preserves_accounted_batches:
  "preserves items_accounted (statement env (\<lambda>ctx. update_batches (sql_clock ctx) (P ctx) (f ctx)))"
  "preserves items_accounted (update_leased_batch env batch holder g)"
proof -
  show u: "preserves items_accounted (statement env (\<lambda>ctx. update_batches (sql_clock ctx) (P ctx) (f ctx)))" for P f
    by (rule preserves_statement) (auto simp: items_accounted_def dest!: update_result)
  show "preserves items_accounted (update_leased_batch env batch holder g)"
    unfolding update_leased_batch_def by (intro preserves_intros u)
qed

lemma preserves_accounted_schedule:
  "preserves items_accounted (schedule_loop env bank run holder cs)"
proof (induction cs)
  case (Cons c cs)
  have "preserves items_accounted (statement env (exec (\<lambda>ctx. insert_new_expiry_item (new_expiry_item_row bank run c oid ctx))))" for oid
    by (rule preserves_exec)
      (auto simp: insert_new_expiry_item_def insert_expiry_item_def checked_Inr items_accounted_def item_accounted_def
        new_expiry_item_row_def terminal_expiry_states_def split: if_splits)
  with Cons show ?case by (auto intro!: preserves_intros other_tables)
qed (auto intro!: preserves_intros)

lemma preserves_accounted_leased:
  "s \<in> {''pending'', ''manual_retry_required''} \<Longrightarrow> preserves items_accounted (update_leased_item env item holder (requeue_item s delay))"
  "r \<in> {''expired'', ''skipped_already_expired''} \<Longrightarrow> preserves items_accounted (update_leased_item env item holder (finish_item r))"
  unfolding update_leased_item_def
  by (intro preserves_intros preserves_accounted_items; auto simp: holds_item_lease_def intro: accounted_requeue accounted_steps)+


lemma preserves_andThen_value:
  fixes m :: "('m shard_world_scheme, 'a) prog"
  assumes "preserves I m" and "\<And>x w w'. m w = (Inr x, w') \<Longrightarrow> preserves I (f x)"
  shows "preserves I (andThen m f)"
  unfolding preserves_def
proof (intro allI impI)
  fix w :: "'m shard_world_scheme" assume I: "I (view w) \<and> I (durable w)"
  obtain r w1 where m: "m w = (r, w1)" by (cases "m w")
  have w1: "I (view w1) \<and> I (durable w1)" using preservesD [OF assms(1) m] I by blast
  show "I (view (snd (andThen m f w))) \<and> I (durable (snd (andThen m f w)))"
  proof (cases r)
    case (Inl e)
    with m w1 show ?thesis by (simp add: andThen_def)
  next
    case (Inr x)
    with m have "preserves I (f x)" using assms(2) by blast
    with m w1 Inr show ?thesis by (simp add: andThen_def preserves_def)
  qed
qed

lemma expire_locked_card_outcome:
  "expire_locked_card env item holder status w = (Inr r, w') \<Longrightarrow> r \<in> {''expired'', ''skipped_already_expired''}"
  unfolding expire_locked_card_def by (auto simp: ret_def throw_def elim!: andThen_InrE split: if_splits)

lemmas accounted_intros =
  preserves_intros other_tables reads_leases_accounted preserves_accounted_claims preserves_accounted_batches
  preserves_accounted_schedule

lemma batch_methods_keep_accounts:
  assumes "items_accounted (durable w)"
  shows "items_accounted (durable (snd (ClaimBatch env claim w)))"
    and "items_accounted (durable (snd (RecoverBatches env claim w)))"
    and "items_accounted (durable (snd (ApplyBatch env batch holder w)))"
    and "items_accounted (durable (snd (RequeueBatch env batch holder code delay w)))"
    and "items_accounted (durable (snd (FailBatch env batch holder code w)))"
  unfolding ClaimBatch_def RecoverBatches_def ApplyBatch_def RequeueBatch_def updateBatchLease_def FailBatch_def
    verifyBatchLease_def audit_batch_def
  by (rule preserves_transaction [where I = items_accounted, OF _ assms], intro accounted_intros)+

lemma item_methods_keep_accounts:
  assumes "items_accounted (durable w)"
  shows "items_accounted (durable (snd (EnsureExpiryRun env bank day holder w)))"
    and "items_accounted (durable (snd (RecoverExpiryItems env claim w)))"
    and "items_accounted (durable (snd (ClaimExpiryItem env claim w)))"
    and "items_accounted (durable (snd (RequeueExpiryItem env item holder delay w)))"
  unfolding EnsureExpiryRun_def RecoverExpiryItems_def ClaimExpiryItem_def RequeueExpiryItem_def
  by (rule preserves_transaction [where I = items_accounted, OF _ assms],
      intro accounted_intros preserves_accounted_leased; simp add: requeue_status_def)+

lemma apply_item_keeps_accounts:
  assumes "items_accounted (durable w)"
  shows "items_accounted (durable (snd (ApplyExpiryItem env item holder w)))"
  unfolding ApplyExpiryItem_def verifyExpiryLease_def
proof (rule preserves_transaction [where I = items_accounted, OF _ assms],
    rule preserves_andThen, (intro accounted_intros; fail), rule preserves_andThen, (intro accounted_intros; fail),
    rule preserves_andThen_value, (intro accounted_intros; fail))
  fix status r and w1 w2 :: "'a shard_world_scheme"
  assume "expire_locked_card env item holder status w1 = (Inr r, w2)"
  then have "preserves items_accounted (update_leased_item env item holder (finish_item r) :: ('a shard_world_scheme, unit) prog)"
    by (rule preserves_accounted_leased(2) [OF expire_locked_card_outcome])
  then show "preserves items_accounted (andThen (statement env (exec_rows (\<lambda>ctx. update_operations
        (\<lambda>r. op_entity r = exi_BankID item \<and> op_ID r = exi_OperationID item)
        (\<lambda>r. r\<lparr>op_Status := ''succeeded'', op_executor_identity := Some holder,
               op_CompletedAt := Some (sql_clock ctx), op_updated_at := sql_clock ctx\<rparr>)))) (\<lambda>_.
      andThen (statement env (exec (\<lambda>ctx. insert_audit (audit_row_of (exi_BankID item) None ''system'' None
        (Some holder) ''card.expire'' ''card'' (Some (exi_CardID item)) ''succeeded'' (sql_uuid ctx 1) (JObj []) ctx)))) (\<lambda>_.
      andThen (update_leased_item env item holder (finish_item r)) (\<lambda>_.
      andThen (completeExpiryRun env (exi_BankID item) (exi_RunID item)) (\<lambda>_.
      Commit env)))) :: ('a shard_world_scheme, unit) prog)"
    by (intro accounted_intros)
qed

lemma executor_step_accounts: "executor_step d d' \<Longrightarrow> items_accounted d \<Longrightarrow> items_accounted d'"
  by (induction rule: executor_step.induct)
    (auto simp: FailExpiryItem_def intro: batch_methods_keep_accounts item_methods_keep_accounts apply_item_keeps_accounts)


section \<open>The manual retry of the API\<close>

lemma preserves_time_now [preserves_intros]: "preserves I (time_now env)"
  by (simp add: preserves_def time_now_def)

lemma preserves_idempotency [other_tables]:
  assumes "reads_leases I"
  shows "preserves I (ClaimIdempotency env c)"
    and "preserves I (FinishIdempotency env bank scope key status response result actor)"
proof -
  have u: "preserves I (statement env (exec_rows (\<lambda>ctx d. update_idempotency (P ctx d) (f ctx d) d)))" for P f
    by (rule preserves_exec_rows, rule reads_leasesD [OF assms], assumption, auto dest!: update_result)
  have i: "preserves I (statement env (insert_idempotency_record c))"
    by (rule preserves_statement, rule reads_leasesD [OF assms], assumption)
      (auto simp: insert_idempotency_record_def Let_def map_sum_Inr_iff split: if_splits dest!: insert_result)
  show "preserves I (ClaimIdempotency env c)"
    unfolding ClaimIdempotency_def idempotency_load_def idempotency_found_def by (intro preserves_intros u i)
  show "preserves I (FinishIdempotency env bank scope key status response result actor)"
    unfolding FinishIdempotency_def by (rule u)
qed

lemma preserves_RetryExpiryItem: "preserves items_accounted (RetryExpiryItem env bank run item actor)"
  unfolding RetryExpiryItem_def
proof (intro preserves_intros other_tables reads_leases_accounted)
  show "preserves items_accounted (statement env (\<lambda>ctx d. update_expiry_items (sql_clock ctx)
       (\<lambda>i. ei_entity i = bank \<and> ei_expiry_run_id i = run \<and> ei_id i = item \<and>
            ei_status i = ''manual_retry_required'' \<and>
            exists_row (\<lambda>c. card_entity c = ei_entity i \<and> card_ID c = ei_card_id i \<and>
              card_Status c \<noteq> ''expired'') (cards d))
       (\<lambda>i. i\<lparr>ei_status := ''pending'', ei_manual_retry_count := ei_manual_retry_count i + 1,
              ei_manual_retry_by := Some actor, ei_manual_retry_at := Some (sql_clock ctx),
              ei_next_attempt_at := sql_clock ctx, ei_updated_at := sql_clock ctx\<rparr>) d))"
    by (rule preserves_statement, rule items_accounted_update, assumption, assumption)
      (simp add: item_accounted_def terminal_expiry_states_def)
qed

lemma retry_workflow_keeps_accounts:
  assumes "items_accounted (durable w)"
  shows "items_accounted (durable (snd (RetryExpiryWorkflow env svc prin bank run item key body req w)))"
  unfolding RetryExpiryWorkflow_def card_claim_def RecordExpiryRetryAudit_def Let_def
  by (rule preserves_transaction [where I = items_accounted, OF _ assms],
      intro accounted_intros preserves_time_now preserves_idempotency preserves_RetryExpiryItem)

text \<open>A call of the executor's store or a manual retry, as a step of the committed tables.\<close>

inductive expiry_step :: "shard_db \<Rightarrow> shard_db \<Rightarrow> bool" where
  executor: "executor_step d d' \<Longrightarrow> expiry_step d d'"
| manual_retry: "expiry_step (durable w) (durable (snd (RetryExpiryWorkflow env (svc :: unit card_service) prin bank run item key body req
    (w :: shard_world))))"

interpretation accounting: machine "\<lambda>d. card_expiry_run_items d = []" expiry_step items_accounted
proof
  show "items_accounted d" if "card_expiry_run_items d = []" for d using that by (simp add: items_accounted_def)
  show "items_accounted d'" if "expiry_step d d'" "items_accounted d" for d d'
    using that by (cases rule: expiry_step.cases) (auto intro: executor_step_accounts retry_workflow_keeps_accounts)
qed

text \<open>
  C19. The retry budget: starting from a shard with no expiry items, in every state that any sequence of
  executor calls and manual retries reaches (whatever fails in between), every attempt on an expiry item
  is accounted for by an automatic retry, a manual retry or the end of the item; an item has at most three
  automatic retries, it asks for a manual retry only when all three are used up, and so it is attempted
  at most four times more often than it was retried by hand.
\<close>

theorem expiry_attempts_are_bounded:
  assumes "reaches (\<lambda>d. card_expiry_run_items d = []) expiry_step d" and "i \<in> set (card_expiry_run_items d)"
  shows "item_accounted i \<and> ei_attempt_count i \<le> ei_manual_retry_count i + 4"
  using accounting.inv_reachable [OF assms(1)] assms(2)
  by (auto simp: items_accounted_def item_accounted_def split: if_splits)


text \<open>The sample card has expired and a run schedules it.\<close>

definition due_db :: shard_db where
  "due_db = batch_db\<lparr>cards := map (\<lambda>c. c\<lparr>card_ExpiresAt := Some 0\<rparr>) (cards batch_db), card_operations := []\<rparr>"

lemma sample_ensure_runs:
  "card_expiry_run_items (durable (snd (EnsureExpiryRun sample_env ''bank'' 0 ''exec'' (sample_world due_db)))) \<noteq> []"
  by (simp add: EnsureExpiryRun_def upsert_expiry_run_def returning_def insert_expiry_run_def due_cards_def due_card_def
      expires_by_def date_of_def day_length_def expiryScheduleBatchSize_def expire_operation_row_def insert_operation_def
      insert_new_expiry_item_def new_expiry_item_row_def insert_expiry_item_def expiry_run_key_def expiry_item_key_def
      update_expiry_runs_def guard_expiry_run_def expiry_items_of_def due_db_def batch_db_def sample_world_def
      sample_db_def empty_db_def Let_def sample_run_defs sample_schema_defs)

theorem expiry_attempts_are_bounded_witness:
  "\<exists>i \<in> set (card_expiry_run_items (durable (snd (EnsureExpiryRun sample_env ''bank'' 0 ''exec'' (sample_world due_db))))).
     ei_attempt_count i \<le> ei_manual_retry_count i + 4"
proof -
  let ?d = "durable (snd (EnsureExpiryRun sample_env ''bank'' 0 ''exec'' (sample_world due_db)))"
  obtain i where i: "i \<in> set (card_expiry_run_items ?d)" using sample_ensure_runs by (metis list.set_sel(1))
  have "card_expiry_run_items (durable (sample_world due_db)) = []"
    by (simp add: sample_world_def due_db_def batch_db_def sample_db_def empty_db_def)
  then have "reaches (\<lambda>d. card_expiry_run_items d = []) expiry_step ?d"
    by (intro reaches_step [OF reaches_init [of _ "durable (sample_world due_db)"]] expiry_step.executor executor_step.ensure_run)
  from expiry_attempts_are_bounded [OF this i] i show ?thesis by blast
qed

end
