(* ===== verification/Batch_States.thy ===== *)
theory Batch_States
  imports Batch_Workflows Expiry_Accounting
begin

text \<open>
  The life of a batch across the two programs that move it: the API (\<open>internal/batch/service.go\<close>) and
  the executor. A finished batch keeps its status and its result in every history of requests and
  executor calls.
\<close>

section \<open>Finished batches\<close>

definition batch_result :: "batch_row \<Rightarrow> string \<times> nat \<times> nat \<times> nat \<times> string \<times> string \<times> time option \<times> string option \<times> string option" where
  "batch_result b = (batch_Status b, batch_ItemCount b, batch_AppliedCount b, batch_IgnoredCount b, batch_TargetStatus b,
     batch_Reason b, batch_CompletedAt b, batch_FailureCode b, batch_FailureSummary b)"

definition finished_batch :: "uuid \<times> uuid \<Rightarrow> batch_row \<Rightarrow> shard_db \<Rightarrow> bool" where
  "finished_batch k b d \<longleftrightarrow> (\<exists>r \<in> set (card_status_batches d). batch_key r = k \<and> batch_result r = batch_result b) \<and>
     batch_Status b \<in> {''succeeded'', ''failed'', ''cancelled''}"

lemma reads_leases_finished [simp]: "reads_leases (finished_batch k b)"
  by (simp add: reads_leases_def finished_batch_def)

text \<open>The triggers of the batches table let no update touch a result.\<close>

lemma finished_update:
  assumes "update_batches now P f d = Inr (n, d')" and "finished_batch k b d"
  shows "finished_batch k b d'"
proof -
  obtain r where r: "r \<in> set (card_status_batches d)" "batch_key r = k" "batch_result r = batch_result b"
    and t: "batch_Status b \<in> {''succeeded'', ''failed'', ''cancelled''}"
    using assms(2) by (auto simp: finished_batch_def)
  have s: "batch_Status r = batch_Status b" using r(3) by (simp add: batch_result_def)
  have d': "set (card_status_batches d') = (\<lambda>r. if P r then f r else r) ` set (card_status_batches d)"
    using update_result(8) [OF assms(1)] by (simp add: set_update_where)
  have "batch_key (f r) = k \<and> batch_result (f r) = batch_result b" if "P r"
  proof -
    note c = guarded_update_conditions [OF assms(1) [unfolded update_batches_def] r(1) that]
    have g: "guard_batch_request r (f r)" "guard_batch_state d now r (f r)" "batch_key (f r) = batch_key r"
      using c by simp_all
    have "batch_Status (f r) = batch_Status r"
      using g(2) s t by (auto simp: guard_batch_state_def batch_next_states_def split: if_splits)
    with g s t r(2,3) show ?thesis by (auto simp: guard_batch_state_def guard_batch_request_def batch_result_def split: if_splits)
  qed
  with r t show ?thesis unfolding finished_batch_def d'
    by (intro conjI bexI [of _ "if P r then f r else r"] imageI) simp_all
qed

lemma preserves_finished:
  "preserves (finished_batch k b) (statement env (\<lambda>ctx. update_batches (sql_clock ctx) (P ctx) (f ctx)))"
  "preserves (finished_batch k b) (update_leased_batch env batch holder g)"
  "preserves (finished_batch k b) (statement env (update_claimed_batch claim bid))"
  "preserves (finished_batch k b) (statement env (update_batch_returning bank rid h))"
  "preserves (finished_batch k b) (statement env (returning insert_batch scan row))"
proof -
  show u: "preserves (finished_batch k b) (statement env (\<lambda>ctx. update_batches (sql_clock ctx) (P ctx) (f ctx)))" for P f
    by (rule preserves_statement) (erule (1) finished_update [rotated])
  show "preserves (finished_batch k b) (update_leased_batch env batch holder g)"
    unfolding update_leased_batch_def by (intro preserves_intros u)
  show "preserves (finished_batch k b) (statement env (update_claimed_batch claim bid))"
    by (rule preserves_statement)
      (auto simp: update_claimed_batch_def map_sum_Inr_iff split: sum.splits prod.splits if_splits intro: finished_update)
  show "preserves (finished_batch k b) (statement env (update_batch_returning bank rid h))"
    by (rule preserves_statement)
      (auto simp: update_batch_returning_def map_sum_Inr_iff split: sum.splits prod.splits intro: finished_update)
  show "preserves (finished_batch k b) (statement env (returning insert_batch scan row))"
    by (rule preserves_statement) (auto simp: returning_Inr finished_batch_def dest!: insert_result(5))
qed

lemma preserves_finished_items:
  "preserves (finished_batch k b) (statement env (update_claimed_item claim iid))"
  "preserves (finished_batch k b) (statement env (recover_items bank))"
  "preserves (finished_batch k b) (update_leased_item env item holder g)"
  "preserves (finished_batch k b) (schedule_loop env bank run holder cs)"
  "preserves (finished_batch k b) (statement env (returning insert_batch_item scan row))"
  "preserves (finished_batch k b) (statement env (exec (\<lambda>ctx. insert_operation (p ctx))))"
proof -
  have u: "preserves (finished_batch k b) (statement env (\<lambda>ctx. update_expiry_items (sql_clock ctx) (P ctx) (f ctx)))" for P f
    by (rule preserves_statement) (auto simp: finished_batch_def dest!: update_result)
  show "preserves (finished_batch k b) (statement env (update_claimed_item claim iid))"
    by (rule preserves_statement)
      (auto simp: update_claimed_item_def map_sum_Inr_iff finished_batch_def split: sum.splits prod.splits if_splits dest!: update_result)
  show "preserves (finished_batch k b) (statement env (recover_items bank))"
    by (rule preserves_statement) (auto simp: recover_items_def map_sum_Inr_iff finished_batch_def dest!: update_result)
  show "preserves (finished_batch k b) (update_leased_item env item holder g)"
    unfolding update_leased_item_def by (intro preserves_intros u)
  have n: "preserves (finished_batch k b) (statement env (exec (\<lambda>ctx. insert_new_expiry_item (r ctx))))" for r
    by (rule preserves_exec) (auto simp: insert_new_expiry_item_def insert_expiry_item_def checked_Inr finished_batch_def split: if_splits)
  show "preserves (finished_batch k b) (schedule_loop env bank run holder cs)"
    by (induction cs) (auto intro!: preserves_intros other_tables n)
  show "preserves (finished_batch k b) (statement env (returning insert_batch_item scan row))"
    by (rule preserves_statement) (auto simp: returning_Inr finished_batch_def dest!: insert_result(6))
  show "preserves (finished_batch k b) (statement env (exec (\<lambda>ctx. insert_operation (p ctx))))"
    by (rule preserves_exec) (auto simp: finished_batch_def dest!: insert_result(2))
qed

lemmas finished_intros = preserves_intros other_tables reads_leases_finished preserves_finished preserves_finished_items

lemma executor_keeps_finished:
  assumes "finished_batch k b (durable w)"
  shows "finished_batch k b (durable (snd (ClaimBatch env claim w)))"
    and "finished_batch k b (durable (snd (RecoverBatches env claim w)))"
    and "finished_batch k b (durable (snd (ApplyBatch env batch holder w)))"
    and "finished_batch k b (durable (snd (RequeueBatch env batch holder code delay w)))"
    and "finished_batch k b (durable (snd (FailBatch env batch holder code w)))"
    and "finished_batch k b (durable (snd (EnsureExpiryRun env bank day holder w)))"
    and "finished_batch k b (durable (snd (RecoverExpiryItems env claim w)))"
    and "finished_batch k b (durable (snd (ClaimExpiryItem env claim w)))"
    and "finished_batch k b (durable (snd (ApplyExpiryItem env item holder w)))"
    and "finished_batch k b (durable (snd (RequeueExpiryItem env item holder delay w)))"
    and "finished_batch k b (durable (snd (FailExpiryItem env item holder w)))"
  unfolding ClaimBatch_def RecoverBatches_def ApplyBatch_def RequeueBatch_def updateBatchLease_def FailBatch_def
    verifyBatchLease_def audit_batch_def EnsureExpiryRun_def RecoverExpiryItems_def ClaimExpiryItem_def ApplyExpiryItem_def
    RequeueExpiryItem_def FailExpiryItem_def verifyExpiryLease_def
  by (rule preserves_transaction [where I = "finished_batch k b", OF _ assms], (intro finished_intros; fail))+

section \<open>The API\<close>

lemma preserves_random: "preserves I (rand_Read env n)" "preserves I (newID env)" "preserves I (newIDs env n)"
proof -
  show r: "preserves I (rand_Read env n)" for n by (auto simp: preserves_def rand_Read_def split: option.splits)
  show i: "preserves I (newID env)" unfolding newID_def by (intro preserves_intros r)
  show "preserves I (newIDs env n)" by (induction n) (auto intro!: preserves_intros i)
qed

lemma preserves_insert_items: "preserves (finished_batch k b) (insert_items_loop env bank bid a r u ro e q t ps)"
  by (induction ps) (auto intro!: finished_intros)

lemma preserves_batch_requests:
  "preserves (finished_batch k b) (batch_claim env fp bank scope key raw)"
  "preserves (finished_batch k b) (CardsExist env bank cs)"
  "preserves (finished_batch k b) (LockCardStatusBatch env bank rid)"
  "preserves (finished_batch k b) (CreateCardStatusBatchDraft env bank bd)"
  "preserves (finished_batch k b) (ExecuteCardStatusBatch env bank rid actor role ent req)"
  "preserves (finished_batch k b) (CancelCardStatusBatch env bank rid actor role ent req)"
  "preserves (finished_batch k b) (RetryCardStatusBatch env bank rid br)"
  "preserves (finished_batch k b) (finish_and_commit env prin bank scope key status resp rid x)"
  unfolding batch_claim_def CardsExist_def LockCardStatusBatch_def CreateCardStatusBatchDraft_def insertCardStatusBatchItems_def
    ExecuteCardStatusBatch_def CancelCardStatusBatch_def RetryCardStatusBatch_def finish_and_commit_def
  by (intro finished_intros preserves_insert_items)+

lemma requests_keep_finished:
  assumes "finished_batch k b (durable w)"
  shows "finished_batch k b (durable (snd (change env fp prin bank rid key body req action w)))"
    and "finished_batch k b (durable (snd (RetryCardStatusBatchWorkflow env fp prin bank rid key body req w)))"
    and "finished_batch k b (durable (snd (CreateCardStatusBatchWorkflow env fp prin bank key t r ids req w)))"
proof -
  show "finished_batch k b (durable (snd (change env fp prin bank rid key body req action w)))"
    unfolding change_def Let_def
    by (rule preserves_transaction [where I = "finished_batch k b", OF _ assms], intro preserves_intros preserves_batch_requests)
  show "finished_batch k b (durable (snd (RetryCardStatusBatchWorkflow env fp prin bank rid key body req w)))"
    unfolding RetryCardStatusBatchWorkflow_def Let_def
    by (rule preserves_transaction [where I = "finished_batch k b", OF _ assms],
        intro preserves_intros preserves_batch_requests preserves_random)
  show "finished_batch k b (durable (snd (CreateCardStatusBatchWorkflow env fp prin bank key t r ids req w)))"
  proof (cases "normalize t r ids")
    case (Inl e)
    then show ?thesis using assms by (simp add: CreateCardStatusBatchWorkflow_def andThen_def liftResult_def)
  next
    case (Inr res)
    obtain cs raw where n: "normalize t r ids = Inr (cs, raw)" using Inr by (cases res) simp
    show ?thesis
      unfolding CreateCardStatusBatchWorkflow_def n Let_def andThen_lifted prod.case
      by (rule preserves_transaction [where I = "finished_batch k b", OF _ assms],
          intro preserves_intros preserves_batch_requests preserves_random)
  qed
qed

text \<open>One step of the system: a call of the executor's store or a batch request, with any environment.\<close>

inductive batch_step :: "shard_db \<Rightarrow> shard_db \<Rightarrow> bool" where
  executor: "executor_step d d' \<Longrightarrow> batch_step d d'"
| create: "batch_step (durable w) (durable (snd (CreateCardStatusBatchWorkflow env fp prin bank key t r ids req (w :: shard_world))))"
| execute: "batch_step (durable w) (durable (snd (ExecuteCardStatusBatchWorkflow env fp prin bank rid key body req (w :: shard_world))))"
| cancel: "batch_step (durable w) (durable (snd (CancelCardStatusBatchWorkflow env fp prin bank rid key body req (w :: shard_world))))"
| retry: "batch_step (durable w) (durable (snd (RetryCardStatusBatchWorkflow env fp prin bank rid key body req (w :: shard_world))))"

lemma executor_step_finished: "executor_step d d' \<Longrightarrow> finished_batch k b d \<Longrightarrow> finished_batch k b d'"
  by (induction rule: executor_step.induct) (rule executor_keeps_finished, assumption)+

lemma batch_step_finished: "batch_step d d' \<Longrightarrow> finished_batch k b d \<Longrightarrow> finished_batch k b d'"
  by (induction rule: batch_step.induct)
    (auto simp: ExecuteCardStatusBatchWorkflow_def CancelCardStatusBatchWorkflow_def
      intro: executor_step_finished requests_keep_finished)

interpretation finished: machine "finished_batch k b" batch_step "finished_batch k b" for k b
  by unfold_locales (simp, erule (1) batch_step_finished)

text \<open>
  C28. A finished batch is final: once a batch has succeeded, failed or been cancelled, its status,
  its counters, its failure and its request are the same after every further sequence of batch
  requests and executor calls, whatever faults occur.
\<close>

theorem finished_batches_are_final:
  assumes "batch_step\<^sup>*\<^sup>* d d'" and "b \<in> set (card_status_batches d)"
    and "batch_Status b \<in> {''succeeded'', ''failed'', ''cancelled''}"
  shows "\<exists>b' \<in> set (card_status_batches d'). batch_key b' = batch_key b \<and> batch_result b' = batch_result b"
proof -
  have "finished_batch (batch_key b) b d" using assms(2,3) by (auto simp: finished_batch_def)
  from finished.inv_rtranclp [OF assms(1) this] show ?thesis by (simp add: finished_batch_def)
qed

definition cancelled_row :: batch_row where
  "cancelled_row = draft_batch_row\<lparr>batch_Status := ''cancelled'', batch_CompletedAt := Some 5\<rparr>"

theorem finished_batches_are_final_witness:
  "\<exists>b' \<in> set (card_status_batches (durable (snd (RetryCardStatusBatchWorkflow sample_env [] sample_prin ''bank'' ''batch'' ''k1'' [] ''req''
      (sample_world (draft_db\<lparr>card_status_batches := [cancelled_row]\<rparr>)))))). batch_Status b' = ''cancelled''"
proof -
  let ?d = "draft_db\<lparr>card_status_batches := [cancelled_row]\<rparr>"
  have "batch_step\<^sup>*\<^sup>* (durable (sample_world ?d)) (durable (snd (RetryCardStatusBatchWorkflow sample_env [] sample_prin ''bank'' ''batch'' ''k1'' [] ''req''
      (sample_world ?d))))" by (rule r_into_rtranclp) (rule batch_step.retry)
  from finished_batches_are_final [OF this, of cancelled_row]
  show ?thesis by (auto simp: sample_world_def cancelled_row_def batch_result_def)
qed

end
