(* ===== verification/Json_Text.thy ===== *)
theory Json_Text
  imports Go_Json
begin

text \<open>
  A \<open>json.RawMessage\<close> is the text of a JSON value. \<open>json.Marshal\<close> of a struct with a raw member
  writes it compacted: the scanner of \<open>encoding/json\<close> checks it byte by byte, the spaces between
  tokens are dropped, and the characters that matter in HTML and the two line separators are escaped.
  The scanner here has the states, the stack and the nesting bound of that scanner, one byte per step.
\<close>

section \<open>The scanner\<close>

datatype scan_state =
    BeginValueOrEmpty | BeginValue | BeginStringOrEmpty | BeginString | EndValue | EndTop
  | InString | InStringEsc | InStringEscU nat
  | Neg | Digits1 | Digits0 | Dot | Dot0 | Exp | ExpSign | Exp0
  | Keyword string

datatype parse_state = ObjectKey | ObjectValue | ArrayValue

type_synonym scanner = "scan_state \<times> parse_state list"

datatype scan_code = Continue scanner | SkipSpace scanner

definition is_space :: "char \<Rightarrow> bool" where
  "is_space c \<longleftrightarrow> c = CHR '' '' \<or> c = CHR 0x09 \<or> c = CHR 0x0A \<or> c = CHR 0x0D"

definition maxNestingDepth :: nat where
  "maxNestingDepth = 10000"

definition push :: "scan_state \<Rightarrow> parse_state \<Rightarrow> parse_state list \<Rightarrow> scan_code option" where
  "push st p ps = (if maxNestingDepth < length (p # ps) then None else Some (Continue (st, p # ps)))"

definition pop :: "parse_state list \<Rightarrow> scan_code option" where
  "pop ps = Some (Continue (if ps = [] then EndTop else EndValue, ps))"

definition end_top :: "parse_state list \<Rightarrow> char \<Rightarrow> scan_code option" where
  "end_top ps c = (if is_space c then Some (SkipSpace (EndTop, ps)) else None)"

definition end_value :: "parse_state list \<Rightarrow> char \<Rightarrow> scan_code option" where
  "end_value ps c =
     (case ps of
        [] \<Rightarrow> end_top [] c
      | p # rest \<Rightarrow>
          if is_space c then Some (SkipSpace (EndValue, ps))
          else (case p of
              ObjectKey \<Rightarrow> if c = CHR '':'' then Some (Continue (BeginValue, ObjectValue # rest)) else None
            | ObjectValue \<Rightarrow>
                if c = CHR '','' then Some (Continue (BeginString, ObjectKey # rest))
                else if c = CHR ''}'' then pop rest else None
            | ArrayValue \<Rightarrow>
                if c = CHR '','' then Some (Continue (BeginValue, ps))
                else if c = CHR '']'' then pop rest else None))"

definition begin_value :: "parse_state list \<Rightarrow> char \<Rightarrow> scan_code option" where
  "begin_value ps c =
     (if is_space c then Some (SkipSpace (BeginValue, ps))
      else if c = CHR ''{'' then push BeginStringOrEmpty ObjectKey ps
      else if c = CHR ''['' then push BeginValueOrEmpty ArrayValue ps
      else if c = quote then Some (Continue (InString, ps))
      else if c = CHR ''-'' then Some (Continue (Neg, ps))
      else if c = CHR ''0'' then Some (Continue (Digits0, ps))
      else if c = CHR ''t'' then Some (Continue (Keyword ''rue'', ps))
      else if c = CHR ''f'' then Some (Continue (Keyword ''alse'', ps))
      else if c = CHR ''n'' then Some (Continue (Keyword ''ull'', ps))
      else if is_digit c then Some (Continue (Digits1, ps))
      else None)"

definition begin_string :: "parse_state list \<Rightarrow> char \<Rightarrow> scan_code option" where
  "begin_string ps c =
     (if is_space c then Some (SkipSpace (BeginString, ps))
      else if c = quote then Some (Continue (InString, ps)) else None)"

definition is_hex :: "char \<Rightarrow> bool" where
  "is_hex c \<longleftrightarrow> is_digit c \<or> CHR ''a'' \<le> c \<and> c \<le> CHR ''f'' \<or> CHR ''A'' \<le> c \<and> c \<le> CHR ''F''"

definition is_exp :: "char \<Rightarrow> bool" where
  "is_exp c \<longleftrightarrow> c = CHR ''e'' \<or> c = CHR ''E''"

definition digits0 :: "parse_state list \<Rightarrow> char \<Rightarrow> scan_code option" where
  "digits0 ps c =
     (if c = CHR ''.'' then Some (Continue (Dot, ps))
      else if is_exp c then Some (Continue (Exp, ps)) else end_value ps c)"

text \<open>\<open>s.step(s, c)\<close>; \<open>None\<close> is \<open>scanError\<close>.\<close>

fun step :: "scanner \<Rightarrow> char \<Rightarrow> scan_code option" where
  "step (BeginValueOrEmpty, ps) c =
     (if is_space c then Some (SkipSpace (BeginValueOrEmpty, ps))
      else if c = CHR '']'' then end_value ps c else begin_value ps c)"
| "step (BeginValue, ps) c = begin_value ps c"
| "step (BeginStringOrEmpty, ps) c =
     (if is_space c then Some (SkipSpace (BeginStringOrEmpty, ps))
      else if c = CHR ''}'' then end_value (ObjectValue # tl ps) c else begin_string ps c)"
| "step (BeginString, ps) c = begin_string ps c"
| "step (EndValue, ps) c = end_value ps c"
| "step (EndTop, ps) c = end_top ps c"
| "step (InString, ps) c =
     (if c = quote then Some (Continue (EndValue, ps))
      else if c = backslash then Some (Continue (InStringEsc, ps))
      else if of_char c < (0x20 :: nat) then None
      else Some (Continue (InString, ps)))"
| "step (InStringEsc, ps) c =
     (if c \<in> set (''bfnrt/'' @ [backslash, quote]) then Some (Continue (InString, ps))
      else if c = CHR ''u'' then Some (Continue (InStringEscU 3, ps)) else None)"
| "step (InStringEscU n, ps) c =
     (if is_hex c then Some (Continue (case n of 0 \<Rightarrow> InString | Suc m \<Rightarrow> InStringEscU m, ps)) else None)"
| "step (Neg, ps) c =
     (if c = CHR ''0'' then Some (Continue (Digits0, ps))
      else if is_digit c then Some (Continue (Digits1, ps)) else None)"
| "step (Digits1, ps) c = (if is_digit c then Some (Continue (Digits1, ps)) else digits0 ps c)"
| "step (Digits0, ps) c = digits0 ps c"
| "step (Dot, ps) c = (if is_digit c then Some (Continue (Dot0, ps)) else None)"
| "step (Dot0, ps) c =
     (if is_digit c then Some (Continue (Dot0, ps))
      else if is_exp c then Some (Continue (Exp, ps)) else end_value ps c)"
| "step (Exp, ps) c =
     (if c = CHR ''+'' \<or> c = CHR ''-'' then Some (Continue (ExpSign, ps))
      else if is_digit c then Some (Continue (Exp0, ps)) else None)"
| "step (ExpSign, ps) c = (if is_digit c then Some (Continue (Exp0, ps)) else None)"
| "step (Exp0, ps) c = (if is_digit c then Some (Continue (Exp0, ps)) else end_value ps c)"
| "step (Keyword k, ps) c =
     (case k of [] \<Rightarrow> end_value ps c
      | d # rest \<Rightarrow> if c = d then Some (Continue (if rest = [] then EndValue else Keyword rest, ps)) else None)"

fun next_scanner :: "scan_code \<Rightarrow> scanner" where
  "next_scanner (Continue s) = s"
| "next_scanner (SkipSpace s) = s"

text \<open>\<open>eof\<close>: the input ended after a whole value, possibly a number that only the end delimits.\<close>

definition at_end :: "scanner \<Rightarrow> bool" where
  "at_end s \<longleftrightarrow> fst s = EndTop \<or> (case step s (CHR '' '') of None \<Rightarrow> False | Some code \<Rightarrow> fst (next_scanner code) = EndTop)"

section \<open>Compaction\<close>

text \<open>The bytes written for the front of the text, with how many bytes they stand for.\<close>

definition compact_front :: "string \<Rightarrow> string \<times> nat" where
  "compact_front s =
     (if s \<noteq> [] \<and> hd s \<in> set ''<>&''
      then ([backslash] @ ''u00'' @ [hex_digit (of_char (hd s) div 16), hex_digit (of_char (hd s) mod 16)], 1)
      else if line_separator s then ([backslash] @ ''u202'' @ [hex_digit (of_char (s ! 2) mod 16)], 3)
      else (take 1 s, 1))"

text \<open>\<open>appendCompact\<close>: \<open>written\<close> bytes at the front are already written, they only step the scanner.\<close>

fun compact_from :: "nat \<Rightarrow> scanner \<Rightarrow> string \<Rightarrow> string option" where
  "compact_from written s [] = (if at_end s then Some [] else None)"
| "compact_from written s (c # cs) =
     (case step s c of
        None \<Rightarrow> None
      | Some (SkipSpace s') \<Rightarrow> compact_from 0 s' cs
      | Some (Continue s') \<Rightarrow>
          (case written of
             Suc k \<Rightarrow> compact_from k s' cs
           | 0 \<Rightarrow> map_option (\<lambda>rest. fst (compact_front (c # cs)) @ rest)
               (compact_from (snd (compact_front (c # cs)) - 1) s' cs)))"

definition compact :: "string \<Rightarrow> string option" where
  "compact s = compact_from 0 (BeginValue, []) s"

end
