(* ===== verification/Catalog.thy ===== *)
theory Catalog
  imports Batch_Workflows Json_Text
begin

text \<open>
  \<open>internal/catalog/service.go\<close>: the card products, clients and account references of a bank. The
  six writes share two bodies, \<open>mutate\<close> and \<open>patch\<close>: claim the idempotency key, write the
  row, record the audit event, store the response, commit. The configuration of a product arrives as
  JSON text; \<open>jsonb\<close> is the cast of that text by the database, a parameter of the model.
\<close>

section \<open>Encodings\<close>

definition productJSON :: "CardProduct \<Rightarrow> json" where
  "productJSON p = JObj
     [(''id'', JStr (prod_ID p)), (''product_code'', JStr (prod_ProductCode p)), (''name'', JStr (prod_Name p)),
      (''status'', JStr (prod_Status p)), (''configuration'', prod_Configuration p),
      (''configuration_version'', JInt (prod_ConfigurationVersion p)),
      (''created_at'', JTime (prod_CreatedAt p)), (''updated_at'', JTime (prod_UpdatedAt p))]"

definition clientJSON :: "Client \<Rightarrow> json" where
  "clientJSON c = JObj
     [(''id'', JStr (cl_ID c)), (''external_client_ref'', JStr (cl_ExternalClientRef c)),
      (''display_name'', JOptStr (cl_DisplayName c)),
      (''created_at'', JTime (cl_CreatedAt c)), (''updated_at'', JTime (cl_UpdatedAt c))]"

definition accountJSON :: "AccountReference \<Rightarrow> json" where
  "accountJSON a = JObj
     [(''id'', JStr (ar_ID a)), (''client_id'', JStr (ar_ClientID a)),
      (''external_account_ref'', JStr (ar_ExternalAccountRef a)),
      (''created_at'', JTime (ar_CreatedAt a)), (''updated_at'', JTime (ar_UpdatedAt a))]"

text \<open>The members of the input structs: a string, a \<open>*string\<close>, a raw message.\<close>

definition marshal_pointer :: "string option \<Rightarrow> string" where
  "marshal_pointer x = (case x of None \<Rightarrow> ''null'' | Some s \<Rightarrow> marshal_string s)"

definition marshal_raw :: "string option \<Rightarrow> string result" where
  "marshal_raw x = (case x of None \<Rightarrow> Inr ''null''
     | Some s \<Rightarrow> (case compact s of None \<Rightarrow> Inl (PlainError ''json: error calling MarshalJSON for type json.RawMessage'')
                  | Some t \<Rightarrow> Inr t))"

definition member :: "string \<Rightarrow> string \<Rightarrow> string" where
  "member k text = marshal_string k @ '':'' @ text"

section \<open>Reads\<close>

definition ListReference :: "environment \<Rightarrow> uuid \<Rightarrow> string \<Rightarrow> ('m shard_world_scheme, json list) prog" where
  "ListReference env bank kind =
     (if kind = ''card-products'' then andThen (Reader_CardProducts env bank) (\<lambda>items. ret (map productJSON items))
      else if kind = ''clients'' then andThen (Reader_Clients env bank) (\<lambda>items. ret (map clientJSON items))
      else if kind = ''account-references''
      then andThen (Reader_AccountReferences env bank) (\<lambda>items. ret (map accountJSON items))
      else throw (PlainError (''unsupported reference kind '' @ [quote] @ kind @ [quote])))"

definition GetReference :: "environment \<Rightarrow> uuid \<Rightarrow> string \<Rightarrow> uuid \<Rightarrow> ('m shard_world_scheme, json) prog" where
  "GetReference env bank kind rid =
     (if kind = ''card-products'' then andThen (Reader_CardProduct env bank rid) (\<lambda>x. ret (productJSON x))
      else if kind = ''clients'' then andThen (Reader_Client env bank rid) (\<lambda>x. ret (clientJSON x))
      else if kind = ''account-references'' then andThen (Reader_AccountReference env bank rid) (\<lambda>x. ret (accountJSON x))
      else throw (PlainError (''unsupported reference kind '' @ [quote] @ kind @ [quote])))"

section \<open>Writes\<close>

definition referenceAudit :: "Principal \<Rightarrow> uuid \<Rightarrow> string \<Rightarrow> string \<Rightarrow> uuid \<Rightarrow> uuid \<Rightarrow> ReferenceAudit" where
  "referenceAudit prin bank action kind resourceID requestID =
     \<lparr>ra_Bank = bank, ra_ActorID = p_UserID prin, ra_ActorRole = p_Role prin,
      ra_ActorEntityID = (if p_Role prin = ''bank_operator'' then p_EntityID prin else ''''),
      ra_Action = action, ra_Kind = kind, ra_ResourceID = resourceID, ra_RequestID = requestID\<rparr>"

text \<open>\<open>claim\<close> is written out once more in this package, with the same text and lifetime as that of batches.\<close>

abbreviation catalog_claim :: "environment \<Rightarrow> bytes \<Rightarrow> uuid \<Rightarrow> string \<Rightarrow> string \<Rightarrow> bytes \<Rightarrow>
    ('m shard_world_scheme, ShardIdempotencyReplay) prog" where
  "catalog_claim \<equiv> batch_claim"

definition mutate ::
  "environment \<Rightarrow> bytes \<Rightarrow> Principal \<Rightarrow> uuid \<Rightarrow> string \<Rightarrow> string \<Rightarrow> string result \<Rightarrow> uuid \<Rightarrow>
   ('m shard_world_scheme, json \<times> uuid) prog \<Rightarrow> ('m shard_world_scheme, json) prog" where
  "mutate env fp prin bank kind key input requestID create =
     andThen (liftResult input) (\<lambda>body.
     transaction env bank
     (let scope = kind @ ''.create.actor.'' @ p_UserID prin in
      andThen (catalog_claim env fp bank scope key (bytes_of_string body)) (\<lambda>replay.
      if replay_Found replay then ret (replay_Response replay) else
      andThen create (\<lambda>(raw, rid).
      andThen (RecordReferenceAudit env (referenceAudit prin bank (kind @ ''.create'') kind rid requestID)) (\<lambda>_.
      finish_and_commit env prin bank scope key 201 raw rid raw)))))"

definition patch ::
  "environment \<Rightarrow> bytes \<Rightarrow> Principal \<Rightarrow> uuid \<Rightarrow> string \<Rightarrow> uuid \<Rightarrow> string \<Rightarrow> string result \<Rightarrow> uuid \<Rightarrow>
   ('m shard_world_scheme, json option) prog \<Rightarrow> ('m shard_world_scheme, json) prog" where
  "patch env fp prin bank kind rid key input requestID update =
     andThen (liftResult input) (\<lambda>body.
     transaction env bank
     (let scope = kind @ ''.patch.'' @ rid @ ''.actor.'' @ p_UserID prin in
      andThen (catalog_claim env fp bank scope key (bytes_of_string body)) (\<lambda>replay.
      if replay_Found replay then ret (replay_Response replay) else
      andThen update (\<lambda>updated.
      case updated of
        None \<Rightarrow> throw (Problem 404 ''not_found'' ''The requested resource does not exist.'')
      | Some raw \<Rightarrow>
          andThen (RecordReferenceAudit env (referenceAudit prin bank (kind @ ''.patch'') kind rid requestID)) (\<lambda>_.
          finish_and_commit env prin bank scope key 200 raw rid raw)))))"

text \<open>The bodies that the six writes are fingerprinted by.\<close>

definition product_input :: "string \<Rightarrow> string \<Rightarrow> string \<Rightarrow> string option \<Rightarrow> string result" where
  "product_input productCode name status configuration =
     map_sum id (\<lambda>raw. ''{'' @ join_with '',''
       [member ''product_code'' (marshal_string productCode), member ''name'' (marshal_string name),
        member ''status'' (marshal_string status), member ''configuration'' raw] @ ''}'') (marshal_raw configuration)"

definition product_patch_input :: "string option \<Rightarrow> string option \<Rightarrow> string option \<Rightarrow> string result" where
  "product_patch_input name status configuration =
     map_sum id (\<lambda>raw. ''{'' @ join_with '',''
       [member ''name'' (marshal_pointer name), member ''status'' (marshal_pointer status),
        member ''configuration'' raw] @ ''}'') (marshal_raw configuration)"

definition client_input :: "string \<Rightarrow> string option \<Rightarrow> string" where
  "client_input external display = ''{'' @ join_with '',''
     [member ''external_client_ref'' (marshal_string external), member ''display_name'' (marshal_pointer display)] @ ''}''"

definition client_patch_input :: "string option \<Rightarrow> string" where
  "client_patch_input display = ''{'' @ member ''display_name'' (marshal_pointer display) @ ''}''"

definition account_input :: "string \<Rightarrow> string \<Rightarrow> string" where
  "account_input clientID external = ''{'' @ join_with '',''
     [member ''client_id'' (marshal_string clientID), member ''external_account_ref'' (marshal_string external)] @ ''}''"

definition account_patch_input :: "string \<Rightarrow> string" where
  "account_patch_input clientID = ''{'' @ member ''client_id'' (marshal_string clientID) @ ''}''"

text \<open>A configuration argument of a statement: \<open>NULL\<close> for a nil message, otherwise the cast text.\<close>

definition jsonb_argument :: "(string \<Rightarrow> json result) \<Rightarrow> string option \<Rightarrow> json option result" where
  "jsonb_argument jsonb x = (case x of None \<Rightarrow> Inr None | Some s \<Rightarrow> map_sum id Some (jsonb s))"

text \<open>The column \<open>configuration\<close> is \<open>NOT NULL\<close>.\<close>

definition not_null :: "'a option \<Rightarrow> 'a result" where
  "not_null x = (case x of None \<Rightarrow> Inl (PgError ''23502'') | Some v \<Rightarrow> Inr v)"

text \<open>The functions that the workflows pass to \<open>mutate\<close> and \<open>patch\<close>.\<close>

definition create_product ::
  "environment \<Rightarrow> (string \<Rightarrow> json result) \<Rightarrow> Principal \<Rightarrow> uuid \<Rightarrow> string \<Rightarrow> string \<Rightarrow> string \<Rightarrow> string option \<Rightarrow>
   ('m shard_world_scheme, json \<times> uuid) prog" where
  "create_product env jsonb prin bank productCode name status configuration =
     andThen (liftResult (jsonb_argument jsonb configuration)) (\<lambda>argument.
     andThen (liftResult (not_null argument)) (\<lambda>config.
     andThen (CreateCardProduct env bank \<lparr>pc_ProductCode = productCode, pc_Name = name, pc_Status = status,
        pc_Configuration = config, pc_ActorID = p_UserID prin\<rparr>) (\<lambda>product.
     ret (productJSON product, prod_ID product))))"

definition create_client ::
  "environment \<Rightarrow> Principal \<Rightarrow> uuid \<Rightarrow> string \<Rightarrow> string option \<Rightarrow> ('m shard_world_scheme, json \<times> uuid) prog" where
  "create_client env prin bank external display =
     andThen (CreateClient env bank \<lparr>cc_ExternalClientRef = external, cc_DisplayName = display,
        cc_ActorID = p_UserID prin\<rparr>) (\<lambda>client. ret (clientJSON client, cl_ID client))"

definition create_account ::
  "environment \<Rightarrow> Principal \<Rightarrow> uuid \<Rightarrow> string \<Rightarrow> string \<Rightarrow> ('m shard_world_scheme, json \<times> uuid) prog" where
  "create_account env prin bank clientID external =
     andThen (CreateAccountReference env bank \<lparr>ac_ClientID = clientID, ac_ExternalAccountRef = external,
        ac_ActorID = p_UserID prin\<rparr>) (\<lambda>account. ret (accountJSON account, ar_ID account))"

definition update_product ::
  "environment \<Rightarrow> (string \<Rightarrow> json result) \<Rightarrow> Principal \<Rightarrow> uuid \<Rightarrow> uuid \<Rightarrow> string option \<Rightarrow> string option \<Rightarrow>
   string option \<Rightarrow> ('m shard_world_scheme, json option) prog" where
  "update_product env jsonb prin bank rid name status configuration =
     andThen (liftResult (jsonb_argument jsonb configuration)) (\<lambda>argument.
     andThen (UpdateCardProduct env bank rid \<lparr>pp_Name = name, pp_Status = status, pp_Configuration = argument,
        pp_ActorID = p_UserID prin\<rparr>) (\<lambda>product. ret (map_option productJSON product)))"

definition update_client ::
  "environment \<Rightarrow> Principal \<Rightarrow> uuid \<Rightarrow> uuid \<Rightarrow> string option \<Rightarrow> ('m shard_world_scheme, json option) prog" where
  "update_client env prin bank rid display =
     andThen (UpdateClient env bank rid \<lparr>cp_DisplayName = display, cp_ActorID = p_UserID prin\<rparr>)
       (\<lambda>client. ret (map_option clientJSON client))"

definition update_account ::
  "environment \<Rightarrow> Principal \<Rightarrow> uuid \<Rightarrow> uuid \<Rightarrow> string \<Rightarrow> ('m shard_world_scheme, json option) prog" where
  "update_account env prin bank rid clientID =
     andThen (UpdateAccountReference env bank rid \<lparr>ap_ClientID = clientID, ap_ActorID = p_UserID prin\<rparr>)
       (\<lambda>account. ret (map_option accountJSON account))"

definition CreateCardProductWorkflow ::
  "environment \<Rightarrow> (string \<Rightarrow> json result) \<Rightarrow> bytes \<Rightarrow> Principal \<Rightarrow> uuid \<Rightarrow> string \<Rightarrow> string \<Rightarrow> string \<Rightarrow> string \<Rightarrow>
   string option \<Rightarrow> uuid \<Rightarrow> ('m shard_world_scheme, json) prog" where
  "CreateCardProductWorkflow env jsonb fp prin bank key productCode name status configuration requestID =
     mutate env fp prin bank ''card-products'' key (product_input productCode name status configuration) requestID
       (create_product env jsonb prin bank productCode name status configuration)"

definition CreateClientWorkflow ::
  "environment \<Rightarrow> bytes \<Rightarrow> Principal \<Rightarrow> uuid \<Rightarrow> string \<Rightarrow> string \<Rightarrow> string option \<Rightarrow> uuid \<Rightarrow>
   ('m shard_world_scheme, json) prog" where
  "CreateClientWorkflow env fp prin bank key external display requestID =
     mutate env fp prin bank ''clients'' key (Inr (client_input external display)) requestID
       (create_client env prin bank external display)"

definition CreateAccountReferenceWorkflow ::
  "environment \<Rightarrow> bytes \<Rightarrow> Principal \<Rightarrow> uuid \<Rightarrow> string \<Rightarrow> string \<Rightarrow> string \<Rightarrow> uuid \<Rightarrow>
   ('m shard_world_scheme, json) prog" where
  "CreateAccountReferenceWorkflow env fp prin bank key clientID external requestID =
     mutate env fp prin bank ''account-references'' key (Inr (account_input clientID external)) requestID
       (create_account env prin bank clientID external)"

definition PatchCardProductWorkflow ::
  "environment \<Rightarrow> (string \<Rightarrow> json result) \<Rightarrow> bytes \<Rightarrow> Principal \<Rightarrow> uuid \<Rightarrow> uuid \<Rightarrow> string \<Rightarrow> string option \<Rightarrow>
   string option \<Rightarrow> string option \<Rightarrow> uuid \<Rightarrow> ('m shard_world_scheme, json) prog" where
  "PatchCardProductWorkflow env jsonb fp prin bank rid key name status configuration requestID =
     patch env fp prin bank ''card-products'' rid key (product_patch_input name status configuration) requestID
       (update_product env jsonb prin bank rid name status configuration)"

definition PatchClientWorkflow ::
  "environment \<Rightarrow> bytes \<Rightarrow> Principal \<Rightarrow> uuid \<Rightarrow> uuid \<Rightarrow> string \<Rightarrow> string option \<Rightarrow> uuid \<Rightarrow>
   ('m shard_world_scheme, json) prog" where
  "PatchClientWorkflow env fp prin bank rid key display requestID =
     patch env fp prin bank ''clients'' rid key (Inr (client_patch_input display)) requestID
       (update_client env prin bank rid display)"

definition PatchAccountReferenceWorkflow ::
  "environment \<Rightarrow> bytes \<Rightarrow> Principal \<Rightarrow> uuid \<Rightarrow> uuid \<Rightarrow> string \<Rightarrow> string \<Rightarrow> uuid \<Rightarrow>
   ('m shard_world_scheme, json) prog" where
  "PatchAccountReferenceWorkflow env fp prin bank rid key clientID requestID =
     patch env fp prin bank ''account-references'' rid key (Inr (account_patch_input clientID)) requestID
       (update_account env prin bank rid clientID)"

section \<open>What the writes share\<close>

text \<open>
  The contract of the function that \<open>mutate\<close> and \<open>patch\<close> call: its effect on the tables is the
  given relation, which is indifferent to the idempotency records, and nothing durable changes.
\<close>

locale reference_operation =
  fixes operation :: "('m shard_world_scheme, 'a) prog"
    and effect :: "'a \<Rightarrow> shard_db \<Rightarrow> shard_db \<Rightarrow> bool"
  assumes effects: "operation w = (Inr x, w') \<Longrightarrow> effect x (view w) (view w')"
    and pending: "keeps durable operation"
    and records: "effect x d d' \<Longrightarrow> idempotency_records d' = idempotency_records d"
    and frame: "effect x d d' \<Longrightarrow> effect x (but_records d) (but_records d')"

definition audited ::
  "Principal \<Rightarrow> uuid \<Rightarrow> string \<Rightarrow> string \<Rightarrow> uuid \<Rightarrow> uuid \<Rightarrow> sql_context \<Rightarrow> shard_db \<Rightarrow> shard_db" where
  "audited prin bank action kind rid req ctx d = d\<lparr>audit_events := audit_events d @
     [audit_row_of bank (Some (p_UserID prin)) (p_Role prin) (nullable (actorEntityID prin)) None action kind (Some rid)
        ''succeeded'' req (JObj []) ctx]\<rparr>"

lemma RecordReferenceAuditE:
  assumes "RecordReferenceAudit env (referenceAudit prin bank action kind rid req) w = (Inr x, w')"
  obtains ctx where "view w' = audited prin bank action kind rid req ctx (view w)"
  using assms unfolding RecordReferenceAudit_def referenceAudit_def
  by (auto simp: audited_def actorEntityID_def elim!: insertAuditE)

lemma audited_records [simp]:
  "idempotency_records (audited prin bank action kind rid req ctx d) = idempotency_records d"
  "but_records (audited prin bank action kind rid req ctx d) = audited prin bank action kind rid req ctx (but_records d)"
  by (simp_all add: audited_def but_records_def)

context reference_operation
begin

text \<open>From a fresh claim to the commit: the effect, then the audit event, and the stored response.\<close>

lemma audited_and_finished:
  assumes "operation w1 = (Inr x, wa)"
    and "RecordReferenceAudit env (referenceAudit prin bank action kind rid req) wa = (Inr u, wb)"
    and "finish_and_commit env prin bank scope key status raw rid raw wb = (Inr resp, w2)"
    and "stored_response (bank, scope, key) (view w1) = Some (f, t, r0)" and "but_records (view w1) = but_records d"
  shows "resp = raw" and "stored_response (bank, scope, key) (durable w2) = Some (f, t, status, raw)"
    and "\<exists>d' ctx. effect x (but_records d) d' \<and> but_records (durable w2) = audited prin bank action kind rid req ctx d'"
proof -
  note e = effects [OF assms(1)]
  obtain ctx where a: "view wb = audited prin bank action kind rid req ctx (view wa)"
    by (rule RecordReferenceAuditE [OF assms(2)])
  have s: "stored_response (bank, scope, key) (view wb) = Some (f, t, r0)"
    using assms(4) stored_response_cong [of "view wb" "view w1"] records [OF e] a by simp
  note k = finished_workflow [OF assms(3) s]
  show "resp = raw" "stored_response (bank, scope, key) (durable w2) = Some (f, t, status, raw)" by (fact k)+
  show "\<exists>d' ctx. effect x (but_records d) d' \<and> but_records (durable w2) = audited prin bank action kind rid req ctx d'"
    using frame [OF e] assms(5) k(2) a by (intro exI [of _ "but_records (view wa)"] exI [of _ ctx]) simp
qed

end

text \<open>The relation between the state before and after a write that succeeded.\<close>

definition wrote ::
  "bytes \<Rightarrow> idem_key \<Rightarrow> string result \<Rightarrow> int \<Rightarrow> json \<Rightarrow> (shard_db \<Rightarrow> shard_db \<Rightarrow> bool) \<Rightarrow> shard_db \<Rightarrow> shard_db \<Rightarrow> bool" where
  "wrote fp k input status resp delta d d' \<longleftrightarrow>
     (\<exists>body till st. input = Inr body \<and>
        stored_response k d' = Some (Fingerprint fp (bytes_of_string body), till, st, resp) \<and>
        (d' = d \<or> st = status \<and> delta (but_records d) (but_records d')))"

locale reference_creation = reference_operation operation effect
  for operation :: "('m shard_world_scheme, json \<times> uuid) prog"
    and effect :: "json \<times> uuid \<Rightarrow> shard_db \<Rightarrow> shard_db \<Rightarrow> bool"
begin

lemma mutate_wrote:
  fixes w w' :: "'m shard_world_scheme"
  assumes "mutate env fp prin bank kind key input req operation w = (Inr resp, w')" and "records_ok (durable w)"
  shows "wrote fp (bank, kind @ ''.create.actor.'' @ p_UserID prin, key) input 201 resp
    (\<lambda>d d'. \<exists>rid d1 ctx. effect (resp, rid) d d1 \<and> d' = audited prin bank (kind @ ''.create'') kind rid req ctx d1)
    (durable w) (durable w')"
proof -
  let ?scope = "kind @ ''.create.actor.'' @ p_UserID prin"
  from assms(1) obtain body where b: "input = Inr body"
    unfolding mutate_def by (auto simp: liftResult_def elim!: andThen_InrE split: sum.splits)
  from assms(1) have "transaction env bank (andThen (batch_claim env fp bank ?scope key (bytes_of_string body)) (\<lambda>rep.
      if replay_Found rep then ret (replay_Response rep) else andThen operation (\<lambda>(raw, rid).
      andThen (RecordReferenceAudit env (referenceAudit prin bank (kind @ ''.create'') kind rid req)) (\<lambda>_.
      finish_and_commit env prin bank ?scope key 201 raw rid raw)))) w = (Inr resp, w')"
    unfolding mutate_def Let_def b by (simp add: liftResult_def andThen_def [of "\<lambda>s. (Inr body, s)"])
  from this assms(2) show ?thesis
  proof (cases rule: claimed_workflowE)
    case (replay rep t)
    then show ?thesis using b by (auto simp: wrote_def)
  next
    case (fresh rep now w1 w2)
    from fresh(1) obtain raw rid wa u wb where o: "operation w1 = (Inr (raw, rid), wa)"
      and a: "RecordReferenceAudit env (referenceAudit prin bank (kind @ ''.create'') kind rid req) wa = (Inr u, wb)"
      and f: "finish_and_commit env prin bank ?scope key 201 raw rid raw wb = (Inr resp, w2)"
      by (auto elim!: andThen_InrE)
    note k = audited_and_finished [OF o a f fresh(4) fresh(3)]
    from k show ?thesis unfolding wrote_def b fresh(2) by blast
  qed
qed

end

locale reference_update = reference_operation operation effect
  for operation :: "('m shard_world_scheme, json option) prog"
    and effect :: "json option \<Rightarrow> shard_db \<Rightarrow> shard_db \<Rightarrow> bool"
begin

lemma patch_wrote:
  fixes w w' :: "'m shard_world_scheme"
  assumes "patch env fp prin bank kind rid key input req operation w = (Inr resp, w')" and "records_ok (durable w)"
  shows "wrote fp (bank, kind @ ''.patch.'' @ rid @ ''.actor.'' @ p_UserID prin, key) input 200 resp
    (\<lambda>d d'. \<exists>d1 ctx. effect (Some resp) d d1 \<and> d' = audited prin bank (kind @ ''.patch'') kind rid req ctx d1)
    (durable w) (durable w')"
proof -
  let ?scope = "kind @ ''.patch.'' @ rid @ ''.actor.'' @ p_UserID prin"
  from assms(1) obtain body where b: "input = Inr body"
    unfolding patch_def by (auto simp: liftResult_def elim!: andThen_InrE split: sum.splits)
  from assms(1) have "transaction env bank (andThen (batch_claim env fp bank ?scope key (bytes_of_string body)) (\<lambda>rep.
      if replay_Found rep then ret (replay_Response rep) else andThen operation (\<lambda>updated. case updated of
        None \<Rightarrow> throw (Problem 404 ''not_found'' ''The requested resource does not exist.'')
      | Some raw \<Rightarrow> andThen (RecordReferenceAudit env (referenceAudit prin bank (kind @ ''.patch'') kind rid req)) (\<lambda>_.
      finish_and_commit env prin bank ?scope key 200 raw rid raw)))) w = (Inr resp, w')"
    unfolding patch_def Let_def b by (simp add: liftResult_def andThen_def [of "\<lambda>s. (Inr body, s)"])
  from this assms(2) show ?thesis
  proof (cases rule: claimed_workflowE)
    case (replay rep t)
    then show ?thesis using b by (auto simp: wrote_def)
  next
    case (fresh rep now w1 w2)
    from fresh(1) obtain raw wa u wb where o: "operation w1 = (Inr (Some raw), wa)"
      and a: "RecordReferenceAudit env (referenceAudit prin bank (kind @ ''.patch'') kind rid req) wa = (Inr u, wb)"
      and f: "finish_and_commit env prin bank ?scope key 200 raw rid raw wb = (Inr resp, w2)"
      by (auto simp: throw_def elim!: andThen_InrE split: option.splits)
    note k = audited_and_finished [OF o a f fresh(4) fresh(3)]
    from k show ?thesis unfolding wrote_def b fresh(2) by blast
  qed
qed

end

section \<open>The six writes\<close>

datatype catalog_write =
    NewProduct string string string "string option"
  | NewClient string "string option"
  | NewAccount string string
  | PatchProduct uuid "string option" "string option" "string option"
  | PatchClient uuid "string option"
  | PatchAccount uuid string

text \<open>The requests that the handlers pass on, by the write they ask for.\<close>

fun write_workflow ::
  "environment \<Rightarrow> (string \<Rightarrow> json result) \<Rightarrow> bytes \<Rightarrow> Principal \<Rightarrow> uuid \<Rightarrow> string \<Rightarrow> uuid \<Rightarrow> catalog_write \<Rightarrow>
   ('m shard_world_scheme, json) prog" where
  "write_workflow env jsonb fp prin bank key req (NewProduct code name status config) =
     CreateCardProductWorkflow env jsonb fp prin bank key code name status config req"
| "write_workflow env jsonb fp prin bank key req (NewClient external display) =
     CreateClientWorkflow env fp prin bank key external display req"
| "write_workflow env jsonb fp prin bank key req (NewAccount clientID external) =
     CreateAccountReferenceWorkflow env fp prin bank key clientID external req"
| "write_workflow env jsonb fp prin bank key req (PatchProduct rid name status config) =
     PatchCardProductWorkflow env jsonb fp prin bank rid key name status config req"
| "write_workflow env jsonb fp prin bank key req (PatchClient rid display) =
     PatchClientWorkflow env fp prin bank rid key display req"
| "write_workflow env jsonb fp prin bank key req (PatchAccount rid clientID) =
     PatchAccountReferenceWorkflow env fp prin bank rid key clientID req"

fun write_kind :: "catalog_write \<Rightarrow> string" where
  "write_kind (NewProduct _ _ _ _) = ''card-products''"
| "write_kind (NewClient _ _) = ''clients''"
| "write_kind (NewAccount _ _) = ''account-references''"
| "write_kind (PatchProduct _ _ _ _) = ''card-products''"
| "write_kind (PatchClient _ _) = ''clients''"
| "write_kind (PatchAccount _ _) = ''account-references''"

fun write_target :: "catalog_write \<Rightarrow> uuid option" where
  "write_target (PatchProduct rid _ _ _) = Some rid"
| "write_target (PatchClient rid _) = Some rid"
| "write_target (PatchAccount rid _) = Some rid"
| "write_target _ = None"

definition write_action :: "catalog_write \<Rightarrow> string" where
  "write_action wr = write_kind wr @ (if write_target wr = None then ''.create'' else ''.patch'')"

definition write_status :: "catalog_write \<Rightarrow> int" where
  "write_status wr = (if write_target wr = None then 201 else 200)"

definition write_scope :: "Principal \<Rightarrow> catalog_write \<Rightarrow> string" where
  "write_scope prin wr = write_action wr @
     (case write_target wr of None \<Rightarrow> '''' | Some rid \<Rightarrow> ''.'' @ rid) @ ''.actor.'' @ p_UserID prin"

fun write_body :: "catalog_write \<Rightarrow> string result" where
  "write_body (NewProduct code name status config) = product_input code name status config"
| "write_body (NewClient external display) = Inr (client_input external display)"
| "write_body (NewAccount clientID external) = Inr (account_input clientID external)"
| "write_body (PatchProduct rid name status config) = product_patch_input name status config"
| "write_body (PatchClient rid display) = Inr (client_patch_input display)"
| "write_body (PatchAccount rid clientID) = Inr (account_patch_input clientID)"

text \<open>
  The change each write makes to its table, with the response and the id of the row: one row added
  with the given data, or the row of the bank with that id patched and every other row kept.
\<close>

definition product_patched :: "string option \<Rightarrow> string option \<Rightarrow> json option \<Rightarrow> uuid \<Rightarrow> time \<Rightarrow> product_row \<Rightarrow> product_row" where
  "product_patched name status config actor t r =
     r\<lparr>prod_Name := coalesce name (prod_Name r), prod_Status := coalesce status (prod_Status r),
       prod_Configuration := coalesce config (prod_Configuration r),
       prod_ConfigurationVersion := prod_ConfigurationVersion r +
         (if config = None \<or> config = Some (prod_Configuration r) then 0 else 1),
       prod_updated_by := actor, prod_UpdatedAt := t\<rparr>"

fun write_effect ::
  "(string \<Rightarrow> json result) \<Rightarrow> uuid \<Rightarrow> uuid \<Rightarrow> catalog_write \<Rightarrow> json \<Rightarrow> uuid \<Rightarrow> shard_db \<Rightarrow> shard_db \<Rightarrow> bool" where
  "write_effect jsonb bank actor (NewProduct code name status config) resp rid d d' \<longleftrightarrow>
     (\<exists>text value t r. config = Some text \<and> jsonb text = Inr value \<and>
        r = \<lparr>prod_ID = rid, prod_ProductCode = code, prod_Name = name, prod_Status = status, prod_Configuration = value,
             prod_ConfigurationVersion = 1, prod_CreatedAt = t, prod_UpdatedAt = t,
             prod_entity = bank, prod_created_by = actor, prod_updated_by = actor\<rparr> \<and>
        resp = productJSON (scanCardProduct r) \<and> d' = d\<lparr>card_products := card_products d @ [r]\<rparr>)"
| "write_effect jsonb bank actor (NewClient external display) resp rid d d' \<longleftrightarrow>
     (\<exists>t r. r = \<lparr>cl_ID = rid, cl_ExternalClientRef = external, cl_DisplayName = display, cl_CreatedAt = t, cl_UpdatedAt = t,
             cl_entity = bank, cl_created_by = actor, cl_updated_by = actor\<rparr> \<and>
        resp = clientJSON (scanClient r) \<and> d' = d\<lparr>clients := clients d @ [r]\<rparr>)"
| "write_effect jsonb bank actor (NewAccount clientID external) resp rid d d' \<longleftrightarrow>
     (\<exists>t r. r = \<lparr>ar_ID = rid, ar_ClientID = clientID, ar_ExternalAccountRef = external, ar_CreatedAt = t, ar_UpdatedAt = t,
             ar_entity = bank, ar_created_by = actor, ar_updated_by = actor\<rparr> \<and>
        resp = accountJSON (scanAccountReference r) \<and> d' = d\<lparr>account_references := account_references d @ [r]\<rparr>)"
| "write_effect jsonb bank actor (PatchProduct target name status config) resp rid d d' \<longleftrightarrow>
     (\<exists>value t. \<exists>r \<in> set (card_products d). rid = target \<and> product_key r = (bank, target) \<and>
        jsonb_argument jsonb config = Inr value \<and>
        resp = productJSON (scanCardProduct (product_patched name status value actor t r)) \<and>
        d' = d\<lparr>card_products := update_where (\<lambda>r. product_key r = (bank, target))
                (product_patched name status value actor t) (card_products d)\<rparr>)"
| "write_effect jsonb bank actor (PatchClient target display) resp rid d d' \<longleftrightarrow>
     (\<exists>t. \<exists>r \<in> set (clients d). rid = target \<and> client_key r = (bank, target) \<and>
        resp = clientJSON (scanClient (r\<lparr>cl_DisplayName := display, cl_updated_by := actor, cl_UpdatedAt := t\<rparr>)) \<and>
        d' = d\<lparr>clients := update_where (\<lambda>r. client_key r = (bank, target))
                (\<lambda>r. r\<lparr>cl_DisplayName := display, cl_updated_by := actor, cl_UpdatedAt := t\<rparr>) (clients d)\<rparr>)"
| "write_effect jsonb bank actor (PatchAccount target clientID) resp rid d d' \<longleftrightarrow>
     (\<exists>t. \<exists>r \<in> set (account_references d). rid = target \<and> account_key r = (bank, target) \<and>
        resp = accountJSON (scanAccountReference (r\<lparr>ar_ClientID := clientID, ar_updated_by := actor, ar_UpdatedAt := t\<rparr>)) \<and>
        d' = d\<lparr>account_references := update_where (\<lambda>r. account_key r = (bank, target))
                (\<lambda>r. r\<lparr>ar_ClientID := clientID, ar_updated_by := actor, ar_UpdatedAt := t\<rparr>) (account_references d)\<rparr>)"

lemma write_effect_frame:
  assumes "write_effect jsonb bank actor wr resp rid d d'"
  shows "idempotency_records d' = idempotency_records d"
    and "write_effect jsonb bank actor wr resp rid (but_records d) (but_records d')"
proof -
  show "idempotency_records d' = idempotency_records d" using assms by (cases wr) auto
  show "write_effect jsonb bank actor wr resp rid (but_records d) (but_records d')"
    using assms unfolding but_records_def by (cases wr) fastforce+
qed

lemma insert_reference_result:
  "insert_product p d = Inr d' \<Longrightarrow> d' = d\<lparr>card_products := card_products d @ [p]\<rparr>"
  "insert_client c d = Inr d' \<Longrightarrow> d' = d\<lparr>clients := clients d @ [c]\<rparr>"
  "insert_account a d = Inr d' \<Longrightarrow> d' = d\<lparr>account_references := account_references d @ [a]\<rparr>"
  by (simp_all add: insert_defs checked_Inr)

lemma reference_scan_ids:
  "prod_ID (scanCardProduct p) = prod_ID p" "cl_ID (scanClient c) = cl_ID c" "ar_ID (scanAccountReference a) = ar_ID a"
  by (simp_all add: scanCardProduct_def CardProduct.truncate_def scanClient_def Client.truncate_def
      scanAccountReference_def AccountReference.truncate_def)

section \<open>The operations keep the contract\<close>

lemma creation_effects:
  "create_product env jsonb prin bank code name status config w = (Inr (resp, rid), w') \<Longrightarrow>
     write_effect jsonb bank (p_UserID prin) (NewProduct code name status config) resp rid (view w) (view w')"
  "create_client env prin bank external display w = (Inr (resp, rid), w') \<Longrightarrow>
     write_effect jsonb bank (p_UserID prin) (NewClient external display) resp rid (view w) (view w')"
  "create_account env prin bank clientID external w = (Inr (resp, rid), w') \<Longrightarrow>
     write_effect jsonb bank (p_UserID prin) (NewAccount clientID external) resp rid (view w) (view w')"
  unfolding create_product_def create_client_def create_account_def CreateCardProduct_def CreateClient_def
    CreateAccountReference_def
  by (auto simp: liftResult_def ret_def reference_scan_ids jsonb_argument_def not_null_def map_sum_Inr_iff split: option.splits
      elim!: andThen_InrE statement_returningE dest!: insert_reference_result)

text \<open>\<open>UPDATE ... RETURNING\<close> as the patches use it.\<close>

lemma statement_update:
  assumes "statement env (\<lambda>ctx d. case upd (F ctx) d of Inl e \<Rightarrow> Inl e
      | Inr (n, d') \<Rightarrow> Inr (map_option scan (query_row P (table d')), d')) w = (Inr x, w')"
    and "\<And>f d n d'. upd f d = Inr (n, d') \<Longrightarrow> d' = put d (update_where P f (table d))"
    and "\<And>d rows. table (put d rows) = rows" and "\<And>d. put d (table d) = d" and "\<And>ctx r. P r \<Longrightarrow> P (F ctx r)"
  shows "x = None \<and> view w' = view w \<or>
    (\<exists>r ctx. r \<in> set (table (view w)) \<and> P r \<and> x = Some (scan (F ctx r)) \<and>
       view w' = put (view w) (update_where P (F ctx) (table (view w))))"
proof -
  let ?c = "context_of env w"
  from assms(1) have "(case upd (F ?c) (view w) of Inl e \<Rightarrow> Inl e
      | Inr (n, d') \<Rightarrow> Inr (map_option scan (query_row P (table d')), d')) = Inr (x, view w')" by (rule statement_InrE)
  then obtain n d' where u: "upd (F ?c) (view w) = Inr (n, d')"
    and x: "x = map_option scan (query_row P (table d'))" "view w' = d'"
    by (cases "upd (F ?c) (view w)") auto
  note d' = assms(2) [OF u]
  let ?rows = "update_where P (F ?c) (table (view w))"
  have q: "x = map_option scan (query_row P ?rows)" "view w' = put (view w) ?rows"
    using x unfolding d' assms(3) by simp_all
  show ?thesis
  proof (cases "query_row P ?rows")
    case None
    have "\<not> P r" if "r \<in> set (table (view w))" for r
    proof
      assume "P r"
      then have "F ?c r \<in> set ?rows" using that by (auto simp: update_where_def intro!: image_eqI [of _ _ r])
      then show False using None assms(5) [OF \<open>P r\<close>, of ?c] unfolding query_row_None by blast
    qed
    then have "?rows = table (view w)" by (simp add: update_where_def map_idI)
    then show ?thesis using q None assms(4) by simp
  next
    case (Some r)
    from query_row_update_where [OF this assms(5)] obtain r0 where "r0 \<in> set (table (view w))" "P r0" "r = F ?c r0" by blast
    then show ?thesis using q Some by auto
  qed
qed

definition patch_effect ::
  "(string \<Rightarrow> json result) \<Rightarrow> uuid \<Rightarrow> uuid \<Rightarrow> catalog_write \<Rightarrow> uuid \<Rightarrow> json option \<Rightarrow> shard_db \<Rightarrow> shard_db \<Rightarrow> bool" where
  "patch_effect jsonb bank actor wr rid x d d' \<longleftrightarrow>
     (case x of None \<Rightarrow> d' = d | Some resp \<Rightarrow> write_effect jsonb bank actor wr resp rid d d')"

lemma product_patched_eq:
  "product_patched name status config actor t r =
     r\<lparr>prod_Name := coalesce name (prod_Name r), prod_Status := coalesce status (prod_Status r),
       prod_Configuration := coalesce config (prod_Configuration r),
       prod_ConfigurationVersion := prod_ConfigurationVersion r +
         (case config of None \<Rightarrow> 0 | Some c \<Rightarrow> if prod_Configuration r = c then 0 else 1),
       prod_updated_by := actor, prod_UpdatedAt := t\<rparr>"
  by (auto simp: product_patched_def split: option.splits)

lemma update_product_effect:
  fixes w w' :: "'m shard_world_scheme"
  assumes "update_product env jsonb prin bank rid name status config w = (Inr x, w')"
  shows "patch_effect jsonb bank (p_UserID prin) (PatchProduct rid name status config) rid x (view w) (view w')"
proof -
  from assms obtain v and product :: "CardProduct option" where v: "jsonb_argument jsonb config = Inr v"
    and u: "UpdateCardProduct env bank rid \<lparr>pp_Name = name, pp_Status = status, pp_Configuration = v,
        pp_ActorID = p_UserID prin\<rparr> w = (Inr product, w')" and x: "x = map_option productJSON product"
    unfolding update_product_def by (auto simp: liftResult_def ret_def elim!: andThen_InrE)
  let ?P = "\<lambda>r. prod_entity r = bank \<and> prod_ID r = rid"
  have k: "(\<lambda>r. product_key r = (bank, rid)) = ?P" by (simp add: fun_eq_iff product_key_def)
  have "product = None \<and> view w' = view w \<or>
    (\<exists>r (ctx :: sql_context). r \<in> set (card_products (view w)) \<and> ?P r \<and>
       product = Some (scanCardProduct (product_patched name status v (p_UserID prin) (sql_clock ctx) r)) \<and>
       view w' = (view w)\<lparr>card_products := update_where ?P (product_patched name status v (p_UserID prin) (sql_clock ctx))
         (card_products (view w))\<rparr>)"
    by (rule statement_update [where upd = "update_products ?P" and put = "\<lambda>d rows. d\<lparr>card_products := rows\<rparr>"
          and F = "\<lambda>ctx. product_patched name status v (p_UserID prin) (sql_clock ctx)",
          OF u [unfolded UpdateCardProduct_def CardProductPatch.simps product_patched_eq [symmetric]]])
      (simp_all add: product_patched_def update_result(4))
  with x v show ?thesis unfolding patch_effect_def write_effect.simps k by (elim disjE exE conjE) (simp, simp add: product_key_def, blast)
qed

lemma update_client_effect:
  fixes w w' :: "'m shard_world_scheme"
  assumes "update_client env prin bank rid display w = (Inr x, w')"
  shows "patch_effect jsonb bank (p_UserID prin) (PatchClient rid display) rid x (view w) (view w')"
proof -
  from assms obtain client :: "Client option" where
    u: "UpdateClient env bank rid \<lparr>cp_DisplayName = display, cp_ActorID = p_UserID prin\<rparr> w = (Inr client, w')"
    and x: "x = map_option clientJSON client"
    unfolding update_client_def by (auto simp: ret_def elim!: andThen_InrE)
  let ?P = "\<lambda>r. cl_entity r = bank \<and> cl_ID r = rid"
  let ?F = "\<lambda>ctx r. r\<lparr>cl_DisplayName := display, cl_updated_by := p_UserID prin, cl_UpdatedAt := sql_clock ctx\<rparr>"
  have k: "(\<lambda>r. client_key r = (bank, rid)) = ?P" by (simp add: fun_eq_iff client_key_def)
  have "client = None \<and> view w' = view w \<or>
    (\<exists>r (ctx :: sql_context). r \<in> set (clients (view w)) \<and> ?P r \<and> client = Some (scanClient (?F ctx r)) \<and>
       view w' = (view w)\<lparr>clients := update_where ?P (?F ctx) (clients (view w))\<rparr>)"
    by (rule statement_update [where upd = "update_clients ?P" and put = "\<lambda>d rows. d\<lparr>clients := rows\<rparr>" and F = ?F,
          OF u [unfolded UpdateClient_def ClientPatch.simps]]) (simp_all add: update_result(2))
  with x show ?thesis unfolding patch_effect_def write_effect.simps k by (elim disjE exE conjE) (simp, simp add: client_key_def, blast)
qed

lemma update_account_effect:
  fixes w w' :: "'m shard_world_scheme"
  assumes "update_account env prin bank rid clientID w = (Inr x, w')"
  shows "patch_effect jsonb bank (p_UserID prin) (PatchAccount rid clientID) rid x (view w) (view w')"
proof -
  from assms obtain account :: "AccountReference option" where
    u: "UpdateAccountReference env bank rid \<lparr>ap_ClientID = clientID, ap_ActorID = p_UserID prin\<rparr> w = (Inr account, w')"
    and x: "x = map_option accountJSON account"
    unfolding update_account_def by (auto simp: ret_def elim!: andThen_InrE)
  let ?P = "\<lambda>r. ar_entity r = bank \<and> ar_ID r = rid"
  let ?F = "\<lambda>ctx r. r\<lparr>ar_ClientID := clientID, ar_updated_by := p_UserID prin, ar_UpdatedAt := sql_clock ctx\<rparr>"
  have k: "(\<lambda>r. account_key r = (bank, rid)) = ?P" by (simp add: fun_eq_iff account_key_def)
  have "account = None \<and> view w' = view w \<or>
    (\<exists>r (ctx :: sql_context). r \<in> set (account_references (view w)) \<and> ?P r \<and> account = Some (scanAccountReference (?F ctx r)) \<and>
       view w' = (view w)\<lparr>account_references := update_where ?P (?F ctx) (account_references (view w))\<rparr>)"
    by (rule statement_update [where upd = "update_accounts ?P" and put = "\<lambda>d rows. d\<lparr>account_references := rows\<rparr>" and F = ?F,
          OF u [unfolded UpdateAccountReference_def AccountReferencePatch.simps]]) (simp_all add: update_result(3))
  with x show ?thesis unfolding patch_effect_def write_effect.simps k by (elim disjE exE conjE) (simp, simp add: account_key_def, blast)
qed

lemma keeps_catalog_operations [keeps_intros]:
  "keeps durable (create_product env jsonb prin bank code name status config)"
  "keeps durable (create_client env prin bank external display)"
  "keeps durable (create_account env prin bank clientID external)"
  "keeps durable (update_product env jsonb prin bank rid pname pstatus config)"
  "keeps durable (update_client env prin bank rid display)"
  "keeps durable (update_account env prin bank rid clientID)"
  unfolding create_product_def create_client_def create_account_def update_product_def update_client_def update_account_def
  by (intro keeps_intros)+

lemma patch_effect_frame:
  assumes "patch_effect jsonb bank actor wr rid x d d'"
  shows "idempotency_records d' = idempotency_records d"
    and "patch_effect jsonb bank actor wr rid x (but_records d) (but_records d')"
  using assms write_effect_frame unfolding patch_effect_def by (fastforce split: option.splits)+

interpretation product_creation: reference_creation
  "create_product env jsonb prin bank code name status config"
  "\<lambda>(resp, rid). write_effect jsonb bank (p_UserID prin) (NewProduct code name status config) resp rid"
  for env jsonb prin bank code name status config
  by unfold_locales (auto intro: keeps_intros dest: write_effect_frame creation_effects simp del: write_effect.simps)

interpretation client_creation: reference_creation
  "create_client env prin bank external display"
  "\<lambda>(resp, rid). write_effect jsonb bank (p_UserID prin) (NewClient external display) resp rid"
  for env jsonb prin bank external display
  by unfold_locales (auto intro: keeps_intros dest: write_effect_frame creation_effects simp del: write_effect.simps)

interpretation account_creation: reference_creation
  "create_account env prin bank clientID external"
  "\<lambda>(resp, rid). write_effect jsonb bank (p_UserID prin) (NewAccount clientID external) resp rid"
  for env jsonb prin bank clientID external
  by unfold_locales (auto intro: keeps_intros dest: write_effect_frame creation_effects simp del: write_effect.simps)

interpretation product_update: reference_update
  "update_product env jsonb prin bank rid name status config"
  "patch_effect jsonb bank (p_UserID prin) (PatchProduct rid name status config) rid"
  for env jsonb prin bank rid name status config
  by unfold_locales (auto intro: keeps_intros update_product_effect dest: patch_effect_frame)

interpretation client_update: reference_update
  "update_client env prin bank rid display"
  "patch_effect jsonb bank (p_UserID prin) (PatchClient rid display) rid"
  for env jsonb prin bank rid display
  by unfold_locales (auto intro: keeps_intros update_client_effect dest: patch_effect_frame)

interpretation account_update: reference_update
  "update_account env prin bank rid clientID"
  "patch_effect jsonb bank (p_UserID prin) (PatchAccount rid clientID) rid"
  for env jsonb prin bank rid clientID
  by unfold_locales (auto intro: keeps_intros update_account_effect dest: patch_effect_frame)

section \<open>Recorded writes\<close>

lemma write_wrote:
  assumes "write_workflow env jsonb fp prin bank key req wr w = (Inr resp, w')" and "records_ok (durable w)"
  shows "wrote fp (bank, write_scope prin wr, key) (write_body wr) (write_status wr) resp
    (\<lambda>d d'. \<exists>rid d1 ctx. write_effect jsonb bank (p_UserID prin) wr resp rid d d1 \<and>
       d' = audited prin bank (write_action wr) (write_kind wr) rid req ctx d1) (durable w) (durable w')"
proof -
  note sc = write_scope_def write_action_def write_status_def
  have p: "wrote fp k b st resp (\<lambda>d d'. \<exists>rid d1 ctx. write_effect jsonb bank a wr resp rid d d1 \<and>
      d' = audited prin bank act kind rid req ctx d1) d d'"
    if "wrote fp k b st resp (\<lambda>d d'. \<exists>d1 ctx. patch_effect jsonb bank a wr rid (Some resp) d d1 \<and>
      d' = audited prin bank act kind rid req ctx d1) d d'" for k b st a act kind rid d d'
    using that unfolding wrote_def patch_effect_def option.case by blast
  show ?thesis
  proof (cases wr)
    case (NewProduct code name status config)
    then show ?thesis using product_creation.mutate_wrote [OF _ assms(2)] assms(1)
      by (fastforce simp: CreateCardProductWorkflow_def sc simp del: write_effect.simps)
  next
    case (NewClient external display)
    then show ?thesis using client_creation.mutate_wrote [OF _ assms(2)] assms(1)
      by (fastforce simp: CreateClientWorkflow_def sc simp del: write_effect.simps)
  next
    case (NewAccount clientID external)
    then show ?thesis using account_creation.mutate_wrote [OF _ assms(2)] assms(1)
      by (fastforce simp: CreateAccountReferenceWorkflow_def sc simp del: write_effect.simps)
  next
    case (PatchProduct rid name status config)
    then show ?thesis using product_update.patch_wrote [OF _ assms(2)] assms(1)
      by (intro p [where rid = rid]) (fastforce simp: PatchCardProductWorkflow_def sc)
  next
    case (PatchClient rid display)
    then show ?thesis using client_update.patch_wrote [OF _ assms(2)] assms(1)
      by (intro p [where rid = rid]) (fastforce simp: PatchClientWorkflow_def sc)
  next
    case (PatchAccount rid clientID)
    then show ?thesis using account_update.patch_wrote [OF _ assms(2)] assms(1)
      by (intro p [where rid = rid]) (fastforce simp: PatchAccountReferenceWorkflow_def sc)
  qed
qed

lemma atomic_catalog:
  assumes "no_lost_commits env"
  shows "keeps durable create \<Longrightarrow> atomic (mutate env fp prin bank kind key input req create)"
    and "keeps durable update \<Longrightarrow> atomic (patch env fp prin bank kind rid key input req update)"
  unfolding mutate_def patch_def finish_and_commit_def Let_def
  by (intro atomic_transaction atomic_Commit_ret atomic_andThen atomic_if atomic_ret atomic_throw atomic_prod
      atomic_option keeps_intros assms | assumption)+

lemma atomic_writes: "no_lost_commits env \<Longrightarrow> atomic (write_workflow env jsonb fp prin bank key req wr)"
  by (cases wr) (simp_all add: CreateCardProductWorkflow_def CreateClientWorkflow_def CreateAccountReferenceWorkflow_def
      PatchCardProductWorkflow_def PatchClientWorkflow_def PatchAccountReferenceWorkflow_def
      atomic_catalog keeps_catalog_operations)

text \<open>
  C40. A catalogue write either fails and changes nothing durable, or it answers with the response that
  is stored under its key for the fingerprint of its input; then it changed nothing (a replay), or
  its commit holds exactly the one row it created or patched, for this bank, and the audit event of
  that row by the acting user.
\<close>

theorem catalog_writes_are_recorded:
  fixes w w' :: "'m shard_world_scheme"
  assumes "records_ok (durable w)" and "no_lost_commits env"
    and "write_workflow env jsonb fp prin bank key req wr w = (res, w')"
  shows "case res of
      Inl e \<Rightarrow> durable w' = durable w
    | Inr resp \<Rightarrow> \<exists>body till status. write_body wr = Inr body \<and>
        stored_response (bank, write_scope prin wr, key) (durable w') =
          Some (Fingerprint fp (bytes_of_string body), till, status, resp) \<and>
        (durable w' = durable w \<or> status = write_status wr \<and>
         (\<exists>rid d1 ctx. write_effect jsonb bank (p_UserID prin) wr resp rid (but_records (durable w)) d1 \<and>
            but_records (durable w') = audited prin bank (write_action wr) (write_kind wr) rid req ctx d1))"
proof (cases res)
  case (Inl e)
  then show ?thesis using atomicD [OF atomic_writes [OF assms(2)]] assms(3) by simp
next
  case (Inr resp)
  then show ?thesis using write_wrote [OF _ assms(1)] assms(3) unfolding wrote_def by (simp del: write_effect.simps)
qed

lemma sample_client_created:
  assumes "view w = sample_db\<lparr>idempotency_records := [r]\<rparr>"
  shows "\<exists>raw rid w'. andThen (create_client sample_env sample_prin ''bank'' ''c7'' None) (\<lambda>(raw, rid).
      andThen (RecordReferenceAudit sample_env (referenceAudit sample_prin ''bank'' (''clients'' @ ''.create'') ''clients'' rid ''req'')) (\<lambda>_.
      ret (raw, rid))) w = (Inr (raw, rid), w') \<and> idempotency_records (view w') = [r] \<and> is_object raw"
  using assms
  by (simp add: create_client_def CreateClient_def RecordReferenceAudit_def referenceAudit_def insertAudit_def exec_def
      andThen_def ret_def statement_def returning_def insert_client_def insert_audit_def checked.simps sample_db_def empty_db_def
      btrim_nonempty_def no_key_def client_key_def entity_exists_def exists_row_def audit_row_of_def actor_context_def
      nullable_def sample_prin_def is_object_def clientJSON_def context_of_def sample_env_def)

lemma sample_client_runs:
  "\<exists>x w'. CreateClientWorkflow sample_env [] sample_prin ''bank'' ''k1'' ''c7'' None ''req'' (sample_world sample_db) = (Inr x, w')"
proof -
  let ?scope = "''clients'' @ ''.create.actor.'' @ p_UserID sample_prin"
  let ?body = "andThen (create_client sample_env sample_prin ''bank'' ''c7'' None) (\<lambda>(raw, rid).
      andThen (RecordReferenceAudit sample_env (referenceAudit sample_prin ''bank'' (''clients'' @ ''.create'') ''clients'' rid ''req'')) (\<lambda>_.
      finish_and_commit sample_env sample_prin ''bank'' ?scope ''k1'' 201 raw rid raw)) :: (shard_world, json) prog"
  have "\<exists>x w2. ?body w1 = (Inr x, w2)" if w1: "view w1 = sample_db\<lparr>idempotency_records := [r]\<rparr>" and r: "idempotency_checks r" for r w1
  proof -
    from sample_client_created [OF w1] obtain raw rid w2 where
      c: "andThen (create_client sample_env sample_prin ''bank'' ''c7'' None) (\<lambda>(raw, rid).
        andThen (RecordReferenceAudit sample_env (referenceAudit sample_prin ''bank'' (''clients'' @ ''.create'') ''clients'' rid ''req'')) (\<lambda>_.
        ret (raw, rid))) w1 = (Inr (raw, rid), w2)" and v: "idempotency_records (view w2) = [r]" and o: "is_object raw" by blast
    from sample_finish [OF v r o, of 201 ?scope "''k1''" rid raw] c show ?thesis
      by (fastforce simp: andThen_def ret_def split: sum.splits prod.splits)
  qed
  then show ?thesis
    unfolding CreateClientWorkflow_def mutate_def Let_def
    using sample_claimed_run [of sample_db ?scope "\<lambda>_. ?body" "[]" "bytes_of_string (client_input ''c7'' None)" replay_Response]
    by (simp add: liftResult_def andThen_def [of "\<lambda>s. (Inr _, s)"] sample_db_def empty_db_def entity_exists_def exists_row_def
        btrim_nonempty_def)
qed

theorem catalog_writes_are_recorded_witness:
  "\<exists>resp w' d1 rid ctx. write_workflow sample_env (\<lambda>_. Inr (JObj [])) [] sample_prin ''bank'' ''k1'' ''req''
       (NewClient ''c7'' None) (sample_world sample_db) = (Inr resp, w') \<and>
     write_effect (\<lambda>_. Inr (JObj [])) ''bank'' ''op'' (NewClient ''c7'' None) resp rid (but_records sample_db) d1 \<and>
     but_records (durable w') = audited sample_prin ''bank'' ''clients.create'' ''clients'' rid ''req'' ctx d1"
proof -
  let ?wr = "NewClient ''c7'' None" and ?j = "\<lambda>_. Inr (JObj []) :: json result"
  obtain resp w' where run: "write_workflow sample_env ?j [] sample_prin ''bank'' ''k1'' ''req'' ?wr (sample_world sample_db) = (Inr resp, w')"
    using sample_client_runs by auto
  have ok: "records_ok (durable (sample_world sample_db))" "no_lost_commits sample_env" and d: "durable (sample_world sample_db) = sample_db"
    by (simp_all add: sample_world_def records_ok_def sample_db_def empty_db_def no_lost_commits_def sample_env_def unique_key_def)
  from catalog_writes_are_recorded [OF ok run] obtain body till status where
    s: "stored_response (''bank'', write_scope sample_prin ?wr, ''k1'') (durable w') = Some (Fingerprint [] (bytes_of_string body), till, status, resp)"
    and c: "durable w' = sample_db \<or> (\<exists>rid d1 ctx. write_effect ?j ''bank'' (p_UserID sample_prin) ?wr resp rid (but_records sample_db) d1 \<and>
            but_records (durable w') = audited sample_prin ''bank'' (write_action ?wr) (write_kind ?wr) rid ''req'' ctx d1)"
    unfolding d sum.case by blast
  have "durable w' \<noteq> sample_db"
    using s by (auto simp: stored_response_def record_of_def sample_db_def empty_db_def query_row_def)
  with c have "\<exists>rid d1 ctx. write_effect ?j ''bank'' ''op'' ?wr resp rid (but_records sample_db) d1 \<and>
      but_records (durable w') = audited sample_prin ''bank'' ''clients.create'' ''clients'' rid ''req'' ctx d1"
    by (simp add: write_action_def sample_prin_def del: write_effect.simps)
  with run show ?thesis by blast
qed

end
