(* ===== verification/Control_Schema.thy ===== *)
theory Control_Schema
  imports Shard_Tx
begin

text \<open>
  The control database (\<open>database/migrations/control\<close>) as far as the services use it: the
  routing entries, the users, their sessions and refresh tokens, the audit of authentication, and the
  idempotency records of commands. An
  insert or an update returns the new tables or the SQLSTATE of the first trigger or constraint that
  refuses it, in the order in which PostgreSQL evaluates them.
\<close>

section \<open>Tables\<close>

record routing_row =
  rt_entity :: uuid
  rt_shard_id :: string
  rt_routing_version :: int
  rt_placement_status :: string
  rt_created_at :: time
  rt_updated_at :: time

record user_row =
  usr_id :: uuid
  usr_normalized_username :: string
  usr_password_hash :: string
  usr_role :: string
  usr_entity :: "uuid option"
  usr_status :: string
  usr_auth_version :: int
  usr_created_at :: time
  usr_updated_at :: time
  usr_created_by :: "uuid option"
  usr_updated_by :: "uuid option"

record session_row =
  ses_id :: uuid
  ses_user :: uuid
  ses_auth_version :: int
  ses_created_at :: time
  ses_expires_at :: time
  ses_last_refreshed_at :: time
  ses_revoked_at :: "time option"
  ses_revocation_reason :: "string option"

record token_row =
  tok_id :: uuid
  tok_session :: uuid
  tok_hash :: bytes
  tok_parent :: "uuid option"
  tok_issued_at :: time
  tok_expires_at :: time
  tok_consumed_at :: "time option"

record auth_audit_row =
  aa_id :: uuid
  aa_event_type :: string
  aa_outcome :: string
  aa_actor :: "uuid option"
  aa_subject :: "uuid option"
  aa_entity :: "uuid option"
  aa_session :: "uuid option"
  aa_request :: uuid
  aa_occurred_at :: time
  aa_details :: "(string \<times> string) list"

record command_row =
  cidem_id :: uuid
  cidem_operation_scope :: string
  cidem_idempotency_key :: string
  cidem_request_fingerprint :: bytes
  cidem_response_status :: int
  cidem_response_body :: json
  cidem_result_reference :: "uuid option"
  cidem_expires_at :: time
  cidem_created_at :: time
  cidem_updated_at :: time

record control_db =
  bank_routing_entries :: "routing_row list"
  users :: "user_row list"
  auth_sessions :: "session_row list"
  refresh_tokens :: "token_row list"
  authentication_audit_events :: "auth_audit_row list"
  command_idempotency_records :: "command_row list"

definition empty_control :: control_db where
  "empty_control = \<lparr>bank_routing_entries = [], users = [], auth_sessions = [], refresh_tokens = [],
     authentication_audit_events = [], command_idempotency_records = []\<rparr>"

section \<open>Routing entries\<close>

definition route_checks :: "routing_row \<Rightarrow> bool" where
  "route_checks r \<longleftrightarrow> btrim_nonempty (rt_shard_id r) \<and> 0 < rt_routing_version r \<and>
     rt_placement_status r \<in> set [''provisioning'', ''active'', ''paused'']"

definition insert_route :: "routing_row \<Rightarrow> control_db \<Rightarrow> control_db result" where
  "insert_route r d = checked
     [(''23514'', route_checks r),
      (''23505'', no_key rt_entity (rt_entity r) (bank_routing_entries d))]
     (d\<lparr>bank_routing_entries := bank_routing_entries d @ [r]\<rparr>)"

definition update_routes ::
  "(routing_row \<Rightarrow> bool) \<Rightarrow> (routing_row \<Rightarrow> routing_row) \<Rightarrow> control_db \<Rightarrow> (nat \<times> control_db) result" where
  "update_routes P f d = map_sum id (map_prod id (\<lambda>rows. d\<lparr>bank_routing_entries := rows\<rparr>))
     (guarded_update (\<lambda>old new. [(''23514'', route_checks new)]) P f (bank_routing_entries d))"

section \<open>Idempotency records\<close>

definition command_checks :: "command_row \<Rightarrow> bool" where
  "command_checks r \<longleftrightarrow>
     btrim_nonempty (cidem_operation_scope r) \<and>
     1 \<le> length (cidem_idempotency_key r) \<and> length (cidem_idempotency_key r) \<le> 256 \<and>
     length (cidem_request_fingerprint r) = 32 \<and>
     200 \<le> cidem_response_status r \<and> cidem_response_status r \<le> 299 \<and> is_object (cidem_response_body r) \<and>
     cidem_created_at r < cidem_expires_at r"

definition command_key :: "command_row \<Rightarrow> string \<times> string" where
  "command_key r = (cidem_operation_scope r, cidem_idempotency_key r)"

definition insert_command :: "command_row \<Rightarrow> control_db \<Rightarrow> control_db result" where
  "insert_command r d = checked
     [(''23514'', command_checks r),
      (''23505'', no_key cidem_id (cidem_id r) (command_idempotency_records d)),
      (''23505'', no_key command_key (command_key r) (command_idempotency_records d))]
     (d\<lparr>command_idempotency_records := command_idempotency_records d @ [r]\<rparr>)"

text \<open>\<open>guard_command_idempotency\<close> keeps the identity and sets the time of the update.\<close>

definition update_commands ::
  "time \<Rightarrow> (command_row \<Rightarrow> bool) \<Rightarrow> (command_row \<Rightarrow> command_row) \<Rightarrow> control_db \<Rightarrow> (nat \<times> control_db) result" where
  "update_commands clock P f d = map_sum id (map_prod id (\<lambda>rows. d\<lparr>command_idempotency_records := rows\<rparr>))
     (guarded_update (\<lambda>old new.
        [(''P0001'', cidem_id new = cidem_id old \<and> command_key new = command_key old \<and>
                     cidem_created_at new = cidem_created_at old),
         (''23514'', command_checks new)])
      P (\<lambda>old. (f old)\<lparr>cidem_updated_at := clock\<rparr>) (command_idempotency_records d))"

section \<open>Users\<close>

definition username_char :: "char \<Rightarrow> bool" where
  "username_char c \<longleftrightarrow> is_digit c \<or> CHR ''a'' \<le> c \<and> c \<le> CHR ''z'' \<or> c \<in> set ''_.@-''"

definition user_checks :: "user_row \<Rightarrow> bool" where
  "user_checks u \<longleftrightarrow>
     (case usr_normalized_username u of
        [] \<Rightarrow> False
      | c # s \<Rightarrow> (is_digit c \<or> CHR ''a'' \<le> c \<and> c \<le> CHR ''z'') \<and> length s \<le> 127 \<and> list_all username_char s) \<and>
     starts_with ''$argon2id$'' (usr_password_hash u) \<and>
     usr_role u \<in> set [''issuer_operator'', ''issuer_readonly'', ''bank_operator'', ''bank_readonly''] \<and>
     usr_status u \<in> set [''enabled'', ''disabled''] \<and> 0 < usr_auth_version u \<and>
     (usr_role u \<in> set [''bank_operator'', ''bank_readonly''] \<longleftrightarrow> usr_entity u \<noteq> None)"

text \<open>
  \<open>guard_user\<close>: an update of the password, the role, the bank or the status raises the
  authorization version, whatever the statement says.
\<close>

definition guard_user :: "time \<Rightarrow> user_row \<Rightarrow> user_row \<Rightarrow> user_row" where
  "guard_user clock old new = new\<lparr>
     usr_auth_version :=
       (if (usr_password_hash new, usr_role new, usr_entity new, usr_status new) \<noteq>
           (usr_password_hash old, usr_role old, usr_entity old, usr_status old)
        then max (usr_auth_version new) (usr_auth_version old + 1) else usr_auth_version new),
     usr_updated_at := clock\<rparr>"

definition update_users ::
  "time \<Rightarrow> (user_row \<Rightarrow> bool) \<Rightarrow> (user_row \<Rightarrow> user_row) \<Rightarrow> control_db \<Rightarrow> (nat \<times> control_db) result" where
  "update_users clock P f d = map_sum id (map_prod id (\<lambda>rows. d\<lparr>users := rows\<rparr>))
     (guarded_update (\<lambda>old new.
        [(''P0001'', usr_id new = usr_id old \<and> usr_created_at new = usr_created_at old \<and>
                     usr_created_by new = usr_created_by old),
         (''P0001'', usr_auth_version old \<le> usr_auth_version (f old)),
         (''23514'', user_checks new),
         (''23505'', usr_normalized_username new = usr_normalized_username old \<or>
                     no_key usr_normalized_username (usr_normalized_username new) (users d)),
         (''23503'', case usr_entity new of None \<Rightarrow> True
                     | Some e \<Rightarrow> exists_row (\<lambda>r. rt_entity r = e) (bank_routing_entries d)),
         (''23503'', case usr_updated_by new of None \<Rightarrow> True | Some u \<Rightarrow> exists_row (\<lambda>r. usr_id r = u) (users d))])
      P (\<lambda>old. guard_user clock old (f old)) (users d))"

text \<open>\<open>guard_user\<close> on insert: the name is trimmed and put into lower case before the checks.\<close>

definition normalized :: "string \<Rightarrow> string" where
  "normalized name =
     map (\<lambda>c. if CHR ''A'' \<le> c \<and> c \<le> CHR ''Z'' then char_of (of_char c + 32 :: nat) else c)
       (strip [[CHR '' '']] (rev (strip [[CHR '' '']] (rev name))))"

definition insert_user :: "user_row \<Rightarrow> control_db \<Rightarrow> control_db result" where
  "insert_user new d =
     (let u = new\<lparr>usr_normalized_username := normalized (usr_normalized_username new)\<rparr> in
      checked
       [(''23514'', user_checks u),
        (''23505'', no_key usr_id (usr_id u) (users d)),
        (''23505'', no_key usr_normalized_username (usr_normalized_username u) (users d)),
        (''23503'', case usr_entity u of None \<Rightarrow> True
                    | Some e \<Rightarrow> exists_row (\<lambda>r. rt_entity r = e) (bank_routing_entries d)),
        (''23503'', case usr_created_by u of None \<Rightarrow> True | Some x \<Rightarrow> exists_row (\<lambda>r. usr_id r = x) (users d @ [u])),
        (''23503'', case usr_updated_by u of None \<Rightarrow> True | Some x \<Rightarrow> exists_row (\<lambda>r. usr_id r = x) (users d @ [u]))]
       (d\<lparr>users := users d @ [u]\<rparr>))"

section \<open>Sessions\<close>

definition session_lifetime :: duration where
  "session_lifetime = 7 * 24 * 60 * 60 * 1000000000"

definition session_checks :: "session_row \<Rightarrow> bool" where
  "session_checks s \<longleftrightarrow>
     0 < ses_auth_version s \<and>
     ses_created_at s < ses_expires_at s \<and> ses_expires_at s \<le> ses_created_at s + session_lifetime \<and>
     ses_created_at s \<le> ses_last_refreshed_at s \<and> ses_last_refreshed_at s \<le> ses_expires_at s \<and>
     (ses_revoked_at s = None \<longleftrightarrow> ses_revocation_reason s = None)"

definition insert_session :: "session_row \<Rightarrow> control_db \<Rightarrow> control_db result" where
  "insert_session s d = checked
     [(''23514'', session_checks s),
      (''23505'', no_key ses_id (ses_id s) (auth_sessions d)),
      (''23503'', exists_row (\<lambda>u. usr_id u = ses_user s) (users d))]
     (d\<lparr>auth_sessions := auth_sessions d @ [s]\<rparr>)"

definition update_sessions ::
  "(session_row \<Rightarrow> bool) \<Rightarrow> (session_row \<Rightarrow> session_row) \<Rightarrow> control_db \<Rightarrow> (nat \<times> control_db) result" where
  "update_sessions P f d = map_sum id (map_prod id (\<lambda>rows. d\<lparr>auth_sessions := rows\<rparr>))
     (guarded_update (\<lambda>old new.
        [(''P0001'', (ses_id new, ses_user new, ses_auth_version new, ses_created_at new, ses_expires_at new) =
                     (ses_id old, ses_user old, ses_auth_version old, ses_created_at old, ses_expires_at old)),
         (''P0001'', ses_revoked_at old \<noteq> None \<longrightarrow>
                     (ses_revoked_at new, ses_revocation_reason new) = (ses_revoked_at old, ses_revocation_reason old)),
         (''23514'', session_checks new)])
      P f (auth_sessions d))"

section \<open>Refresh tokens\<close>

definition token_checks :: "token_row \<Rightarrow> bool" where
  "token_checks t \<longleftrightarrow>
     length (tok_hash t) = 32 \<and> tok_parent t \<noteq> Some (tok_id t) \<and> tok_issued_at t < tok_expires_at t \<and>
     (case tok_consumed_at t of None \<Rightarrow> True | Some c \<Rightarrow> tok_issued_at t \<le> c)"

text \<open>
  \<open>guard_refresh_token\<close> on insert: the token fits into the lifetime of its session, the session is not
  revoked, and the parent is an earlier token of the session. Then the checks, the unique keys (the id, the
  hash, the parent, and one token without a parent in each session).
\<close>

definition insert_token :: "token_row \<Rightarrow> control_db \<Rightarrow> control_db result" where
  "insert_token t d = checked
     [(''P0002'', exists_row (\<lambda>s. ses_id s = tok_session t) (auth_sessions d)),
      (''P0001'', \<not> exists_row (\<lambda>s. ses_id s = tok_session t \<and>
                    (ses_expires_at s < tok_expires_at t \<or> tok_issued_at t < ses_created_at s)) (auth_sessions d)),
      (''P0001'', \<not> exists_row (\<lambda>s. ses_id s = tok_session t \<and> ses_revoked_at s \<noteq> None) (auth_sessions d)),
      (''23503'', case tok_parent t of None \<Rightarrow> True
                  | Some p \<Rightarrow> exists_row (\<lambda>x. tok_id x = p \<and> tok_session x = tok_session t \<and>
                      tok_issued_at x \<le> tok_issued_at t) (refresh_tokens d)),
      (''23514'', token_checks t),
      (''23505'', no_key tok_id (tok_id t) (refresh_tokens d)),
      (''23505'', no_key tok_hash (tok_hash t) (refresh_tokens d)),
      (''23505'', tok_parent t = None \<or> no_key tok_parent (tok_parent t) (refresh_tokens d)),
      (''23505'', tok_parent t \<noteq> None \<or>
                  \<not> exists_row (\<lambda>x. tok_session x = tok_session t \<and> tok_parent x = None) (refresh_tokens d))]
     (d\<lparr>refresh_tokens := refresh_tokens d @ [t]\<rparr>)"

definition update_tokens ::
  "(token_row \<Rightarrow> bool) \<Rightarrow> (token_row \<Rightarrow> token_row) \<Rightarrow> control_db \<Rightarrow> (nat \<times> control_db) result" where
  "update_tokens P f d = map_sum id (map_prod id (\<lambda>rows. d\<lparr>refresh_tokens := rows\<rparr>))
     (guarded_update (\<lambda>old new.
        [(''P0001'', (tok_id new, tok_session new, tok_hash new, tok_parent new, tok_issued_at new, tok_expires_at new) =
                     (tok_id old, tok_session old, tok_hash old, tok_parent old, tok_issued_at old, tok_expires_at old)),
         (''P0001'', tok_consumed_at old = None \<or> tok_consumed_at new = tok_consumed_at old),
         (''23514'', token_checks new)])
      P f (refresh_tokens d))"

section \<open>Audit\<close>

definition known_user :: "control_db \<Rightarrow> uuid option \<Rightarrow> bool" where
  "known_user d u = (case u of None \<Rightarrow> True | Some x \<Rightarrow> exists_row (\<lambda>r. usr_id r = x) (users d))"

definition insert_auth_audit :: "auth_audit_row \<Rightarrow> control_db \<Rightarrow> control_db result" where
  "insert_auth_audit a d = checked
     [(''23514'', btrim_nonempty (aa_event_type a) \<and> aa_outcome a \<in> set [''succeeded'', ''failed'', ''rejected'']),
      (''23505'', no_key aa_id (aa_id a) (authentication_audit_events d)),
      (''23503'', known_user d (aa_actor a)), (''23503'', known_user d (aa_subject a)),
      (''23503'', case aa_entity a of None \<Rightarrow> True | Some e \<Rightarrow> exists_row (\<lambda>r. rt_entity r = e) (bank_routing_entries d)),
      (''23503'', case aa_session a of None \<Rightarrow> True | Some s \<Rightarrow> exists_row (\<lambda>r. ses_id r = s) (auth_sessions d))]
     (d\<lparr>authentication_audit_events := authentication_audit_events d @ [a]\<rparr>)"

lemmas control_defs =
  insert_session_def update_sessions_def insert_token_def update_tokens_def insert_auth_audit_def update_users_def

end
