(* ===== verification/Auth_Store.thy ===== *)
theory Auth_Store
  imports Control_Schema
begin

text \<open>
  Authentication's persistence (\<open>internal/auth/repository.go\<close> and
  \<open>internal/repository/auth/store.go\<close>): one definition per method of the store and of its transaction.
  The \<open>lock\<close> argument of the reads takes the row locks that make the transactions of one user, session
  and token run one after the other; here transactions run one after the other anyway.
\<close>

section \<open>Records\<close>

record UserRecord =
  ur_ID :: uuid
  ur_Username :: string
  ur_PasswordHash :: string
  ur_Role :: string
  ur_EntityID :: string
  ur_Status :: string
  ur_AuthVersion :: int

record RefreshLookup =
  rl_TokenID :: uuid
  rl_SessionID :: uuid
  rl_UserID :: uuid

record SessionRecord =
  sr_ID :: uuid
  sr_AuthVersion :: int
  sr_ExpiresAt :: time
  sr_Revoked :: bool

record RefreshTokenRecord =
  rt_ID :: uuid
  rt_ExpiresAt :: time
  rt_Consumed :: bool

record AuditEvent =
  ae_EventType :: string
  ae_Outcome :: string
  ae_ActorID :: string
  ae_SubjectID :: string
  ae_EntityID :: string
  ae_SessionID :: string
  ae_RequestID :: string
  ae_Details :: "(string \<times> string) list option"

type_synonym 'm control_world_scheme = "(control_db, 'm) tx_world_scheme"
type_synonym control_world = "control_db tx_world"

definition auth_ErrNotFound :: go_error where
  "auth_ErrNotFound = PlainError ''auth record not found''"

section \<open>The store\<close>

definition auth_Begin :: "environment \<Rightarrow> ('m control_world_scheme, unit) prog" where
  "auth_Begin env = pool_Begin env"

text \<open>\<open>defer tx.Rollback(ctx)\<close> after \<open>Begin\<close>.\<close>

definition auth_transaction :: "environment \<Rightarrow> ('m control_world_scheme, 'a) prog \<Rightarrow> ('m control_world_scheme, 'a) prog" where
  "auth_transaction env body = andThen (auth_Begin env) (\<lambda>_. deferred body Rollback)"

text \<open>A query on the pool, outside a transaction: it sees the committed tables.\<close>

definition pool_QueryRow :: "environment \<Rightarrow> (control_db \<Rightarrow> 'a result) \<Rightarrow> ('m control_world_scheme, 'a) prog" where
  "pool_QueryRow env q = (\<lambda>w. case fault_at env (tick w) of
       NoFault \<Rightarrow> (q (durable w), ticked w) | Fail e \<Rightarrow> (Inl e, ticked w) | Lost e \<Rightarrow> (Inl e, ticked w))"

definition find_refresh :: "bytes \<Rightarrow> control_db \<Rightarrow> RefreshLookup option" where
  "find_refresh hash d =
     (case query_row (\<lambda>t. tok_hash t = hash) (refresh_tokens d) of
        None \<Rightarrow> None
      | Some t \<Rightarrow> map_option (\<lambda>s. \<lparr>rl_TokenID = tok_id t, rl_SessionID = tok_session t, rl_UserID = ses_user s\<rparr>)
          (query_row (\<lambda>s. ses_id s = tok_session t) (auth_sessions d)))"

definition LookupRefresh :: "environment \<Rightarrow> bytes \<Rightarrow> ('m control_world_scheme, RefreshLookup) prog" where
  "LookupRefresh env hash = pool_QueryRow env (\<lambda>d.
     case find_refresh hash d of None \<Rightarrow> Inl auth_ErrNotFound | Some lookup \<Rightarrow> Inr lookup)"

section \<open>Transactions\<close>

definition scanUser :: "user_row option \<Rightarrow> UserRecord result" where
  "scanUser found = (case found of
     None \<Rightarrow> Inl auth_ErrNotFound
   | Some u \<Rightarrow> Inr \<lparr>ur_ID = usr_id u, ur_Username = usr_normalized_username u, ur_PasswordHash = usr_password_hash u,
       ur_Role = usr_role u, ur_EntityID = (case usr_entity u of None \<Rightarrow> '''' | Some e \<Rightarrow> e),
       ur_Status = usr_status u, ur_AuthVersion = usr_auth_version u\<rparr>)"

definition UserByUsername :: "environment \<Rightarrow> string \<Rightarrow> ('m control_world_scheme, UserRecord) prog" where
  "UserByUsername env username =
     statement env (read_only (\<lambda>d. scanUser (query_row (\<lambda>u. usr_normalized_username u = username) (users d))))"

definition UserByID :: "environment \<Rightarrow> uuid \<Rightarrow> ('m control_world_scheme, UserRecord) prog" where
  "UserByID env uid = statement env (read_only (\<lambda>d. scanUser (query_row (\<lambda>u. usr_id u = uid) (users d))))"

definition session_record :: "session_row \<Rightarrow> SessionRecord" where
  "session_record s = \<lparr>sr_ID = ses_id s, sr_AuthVersion = ses_auth_version s, sr_ExpiresAt = ses_expires_at s,
     sr_Revoked = (ses_revoked_at s \<noteq> None)\<rparr>"

definition auth_Session :: "environment \<Rightarrow> uuid \<Rightarrow> ('m control_world_scheme, SessionRecord) prog" where
  "auth_Session env sid = statement env (read_only (\<lambda>d.
     case query_row (\<lambda>s. ses_id s = sid) (auth_sessions d) of
       None \<Rightarrow> Inl auth_ErrNotFound | Some s \<Rightarrow> Inr (session_record s)))"

definition token_record :: "token_row \<Rightarrow> RefreshTokenRecord" where
  "token_record t = \<lparr>rt_ID = tok_id t, rt_ExpiresAt = tok_expires_at t, rt_Consumed = (tok_consumed_at t \<noteq> None)\<rparr>"

definition auth_RefreshToken :: "environment \<Rightarrow> uuid \<Rightarrow> uuid \<Rightarrow> ('m control_world_scheme, RefreshTokenRecord) prog" where
  "auth_RefreshToken env tid sid = statement env (read_only (\<lambda>d.
     case query_row (\<lambda>t. tok_id t = tid \<and> tok_session t = sid) (refresh_tokens d) of
       None \<Rightarrow> Inl auth_ErrNotFound | Some t \<Rightarrow> Inr (token_record t)))"

definition new_session :: "uuid \<Rightarrow> uuid \<Rightarrow> int \<Rightarrow> sql_context \<Rightarrow> session_row" where
  "new_session sid uid version ctx = \<lparr>ses_id = sid, ses_user = uid, ses_auth_version = version,
     ses_created_at = sql_now ctx, ses_expires_at = sql_now ctx + session_lifetime, ses_last_refreshed_at = sql_now ctx,
     ses_revoked_at = None, ses_revocation_reason = None\<rparr>"

definition CreateSession :: "environment \<Rightarrow> uuid \<Rightarrow> uuid \<Rightarrow> int \<Rightarrow> ('m control_world_scheme, time) prog" where
  "CreateSession env sid uid version = statement env (\<lambda>ctx d.
     map_sum id (\<lambda>d'. (ses_expires_at (new_session sid uid version ctx), d')) (insert_session (new_session sid uid version ctx) d))"

definition new_token :: "uuid \<Rightarrow> uuid \<Rightarrow> bytes \<Rightarrow> string \<Rightarrow> time \<Rightarrow> sql_context \<Rightarrow> token_row" where
  "new_token tid sid hash parentID expiresAt ctx = \<lparr>tok_id = tid, tok_session = sid, tok_hash = hash,
     tok_parent = (if parentID = '''' then None else Some parentID), tok_issued_at = sql_now ctx,
     tok_expires_at = expiresAt, tok_consumed_at = None\<rparr>"

definition CreateRefreshToken ::
  "environment \<Rightarrow> uuid \<Rightarrow> uuid \<Rightarrow> bytes \<Rightarrow> string \<Rightarrow> time \<Rightarrow> ('m control_world_scheme, unit) prog" where
  "CreateRefreshToken env tid sid hash parentID expiresAt =
     statement env (exec (\<lambda>ctx d. insert_token (new_token tid sid hash parentID expiresAt ctx) d))"

definition RevokeSession :: "environment \<Rightarrow> uuid \<Rightarrow> time \<Rightarrow> string \<Rightarrow> ('m control_world_scheme, unit) prog" where
  "RevokeSession env sid at reason = statement env (exec_rows (\<lambda>ctx.
     update_sessions (\<lambda>s. ses_id s = sid \<and> ses_revoked_at s = None)
       (\<lambda>s. s\<lparr>ses_revoked_at := Some at, ses_revocation_reason := Some reason\<rparr>)))"

definition ConsumeRefreshToken :: "environment \<Rightarrow> uuid \<Rightarrow> time \<Rightarrow> ('m control_world_scheme, unit) prog" where
  "ConsumeRefreshToken env tid at = statement env (exec_rows (\<lambda>ctx.
     update_tokens (\<lambda>t. tok_id t = tid \<and> tok_consumed_at t = None) (\<lambda>t. t\<lparr>tok_consumed_at := Some at\<rparr>)))"

definition TouchSession :: "environment \<Rightarrow> uuid \<Rightarrow> time \<Rightarrow> ('m control_world_scheme, unit) prog" where
  "TouchSession env sid at = statement env (exec_rows (\<lambda>ctx.
     update_sessions (\<lambda>s. ses_id s = sid) (\<lambda>s. s\<lparr>ses_last_refreshed_at := at\<rparr>)))"

definition UpdatePassword :: "environment \<Rightarrow> uuid \<Rightarrow> string \<Rightarrow> ('m control_world_scheme, unit) prog" where
  "UpdatePassword env uid hash = statement env (exec_rows (\<lambda>ctx.
     update_users (sql_clock ctx) (\<lambda>u. usr_id u = uid) (\<lambda>u. u\<lparr>usr_password_hash := hash, usr_updated_by := Some uid\<rparr>)))"

definition auth_nullable :: "string \<Rightarrow> string option" where
  "auth_nullable value = (if value = '''' then None else Some value)"

definition audit_row_of_event :: "AuditEvent \<Rightarrow> sql_context \<Rightarrow> auth_audit_row" where
  "audit_row_of_event event ctx = \<lparr>aa_id = sql_uuid ctx 0, aa_event_type = ae_EventType event, aa_outcome = ae_Outcome event,
     aa_actor = auth_nullable (ae_ActorID event), aa_subject = auth_nullable (ae_SubjectID event), aa_entity = auth_nullable (ae_EntityID event),
     aa_session = auth_nullable (ae_SessionID event), aa_request = ae_RequestID event, aa_occurred_at = sql_now ctx,
     aa_details = (case ae_Details event of None \<Rightarrow> [] | Some details \<Rightarrow> details)\<rparr>"

definition RecordAudit :: "environment \<Rightarrow> AuditEvent \<Rightarrow> ('m control_world_scheme, unit) prog" where
  "RecordAudit env event = statement env (exec (\<lambda>ctx d. insert_auth_audit (audit_row_of_event event ctx) d))"

end
