(* ===== verification/Control_Store.thy ===== *)
theory Control_Store
  imports Auth_Store Card_Service
begin

text \<open>
  The control database behind banks and staff: \<open>internal/repository/control/store.go\<close> (the
  idempotency of commands, the routing entries, the directory of users), the queries of
  \<open>internal/repository/routing/store.go\<close>, and the bank-access decisions of
  \<open>internal/tenant/service.go\<close>. The idempotency records interpret the same locale as those of a shard.
\<close>

section \<open>Records\<close>

record CentralIdempotencyClaim =
  cclaim_Scope :: string
  cclaim_Key :: string
  cclaim_Fingerprint :: bytes
  cclaim_Now :: time
  cclaim_ExpiresAt :: time

record CentralIdempotencyReplay =
  creplay_Response :: json
  creplay_Found :: bool

record StaffUserCreate =
  suc_Username :: string
  suc_PasswordHash :: string
  suc_Role :: string
  suc_EntityID :: string
  suc_ActorID :: string

record AuthenticationAudit =
  auau_EventType :: string
  auau_ActorUserID :: string
  auau_SubjectUserID :: string
  auau_EntityID :: string
  auau_RequestID :: string

section \<open>Idempotency of commands\<close>

definition control_transaction ::
  "environment \<Rightarrow> ('m control_world_scheme, 'a) prog \<Rightarrow> ('m control_world_scheme, 'a) prog" where
  "control_transaction env body = andThen (pool_Begin env) (\<lambda>_. deferred body Rollback)"

definition is_command :: "string \<Rightarrow> string \<Rightarrow> command_row \<Rightarrow> bool" where
  "is_command scope key r \<longleftrightarrow> cidem_operation_scope r = scope \<and> cidem_idempotency_key r = key"

definition no_replay :: CentralIdempotencyReplay where
  "no_replay = \<lparr>creplay_Response = JNull, creplay_Found = False\<rparr>"

definition new_command_row :: "CentralIdempotencyClaim \<Rightarrow> sql_context \<Rightarrow> command_row" where
  "new_command_row claim ctx =
     \<lparr>cidem_id = sql_uuid ctx 0, cidem_operation_scope = cclaim_Scope claim, cidem_idempotency_key = cclaim_Key claim,
      cidem_request_fingerprint = cclaim_Fingerprint claim, cidem_response_status = 202, cidem_response_body = JObj [],
      cidem_result_reference = None, cidem_expires_at = cclaim_ExpiresAt claim, cidem_created_at = sql_now ctx,
      cidem_updated_at = sql_now ctx\<rparr>"

definition control_ClaimIdempotency ::
  "environment \<Rightarrow> CentralIdempotencyClaim \<Rightarrow> ('m control_world_scheme, CentralIdempotencyReplay) prog" where
  "control_ClaimIdempotency env claim =
     andThen (statement env (read_only (\<lambda>d. Inr (query_row (is_command (cclaim_Scope claim) (cclaim_Key claim))
       (command_idempotency_records d))))) (\<lambda>row.
     case row of
       Some r \<Rightarrow>
         if cclaim_Now claim < cidem_expires_at r then
           if cidem_request_fingerprint r \<noteq> cclaim_Fingerprint claim then throw ErrIdempotencyConflict
           else ret \<lparr>creplay_Response = cidem_response_body r, creplay_Found = True\<rparr>
         else
           andThen (statement env (exec_rows (\<lambda>ctx. update_commands (sql_clock ctx)
             (is_command (cclaim_Scope claim) (cclaim_Key claim))
             (\<lambda>r. r\<lparr>cidem_request_fingerprint := cclaim_Fingerprint claim, cidem_response_status := 202,
                    cidem_response_body := JObj [], cidem_result_reference := None,
                    cidem_expires_at := cclaim_ExpiresAt claim\<rparr>)))) (\<lambda>_. ret no_replay)
     | None \<Rightarrow> andThen (statement env (exec (\<lambda>ctx. insert_command (new_command_row claim ctx)))) (\<lambda>_. ret no_replay))"

definition control_FinishIdempotency ::
  "environment \<Rightarrow> string \<Rightarrow> string \<Rightarrow> int \<Rightarrow> json \<Rightarrow> string \<Rightarrow> ('m control_world_scheme, unit) prog" where
  "control_FinishIdempotency env scope key status response resultID =
     statement env (exec_rows (\<lambda>ctx. update_commands (sql_clock ctx) (is_command scope key)
       (\<lambda>r. r\<lparr>cidem_response_status := status, cidem_response_body := response,
              cidem_result_reference := nullable resultID\<rparr>)))"

section \<open>Routes\<close>

definition CreateBankRoute :: "environment \<Rightarrow> uuid \<Rightarrow> string \<Rightarrow> ('m control_world_scheme, unit) prog" where
  "CreateBankRoute env entityID shardID =
     statement env (exec (\<lambda>ctx. insert_route
       \<lparr>rt_entity = entityID, rt_shard_id = shardID, rt_routing_version = 1, rt_placement_status = ''provisioning'',
        rt_created_at = sql_now ctx, rt_updated_at = sql_now ctx\<rparr>))"

definition SetBankRouteStatus :: "environment \<Rightarrow> uuid \<Rightarrow> string \<Rightarrow> string \<Rightarrow> ('m control_world_scheme, unit) prog" where
  "SetBankRouteStatus env entityID shardID status =
     statement env (exec_rows (\<lambda>ctx. update_routes (\<lambda>r. rt_entity r = entityID \<and> rt_shard_id r = shardID)
       (\<lambda>r. r\<lparr>rt_placement_status := status, rt_updated_at := sql_clock ctx\<rparr>)))"

definition SetBankRouteStatusForEntity :: "environment \<Rightarrow> uuid \<Rightarrow> string \<Rightarrow> ('m control_world_scheme, unit) prog" where
  "SetBankRouteStatusForEntity env entityID status =
     statement env (exec_rows (\<lambda>ctx. update_routes (\<lambda>r. rt_entity r = entityID)
       (\<lambda>r. r\<lparr>rt_placement_status := status, rt_updated_at := sql_clock ctx\<rparr>)))"

text \<open>The queries of the routing store run on the pool, outside any transaction.\<close>

definition Banks :: "environment \<Rightarrow> ('m control_world_scheme, Route list) prog" where
  "Banks env = pool_QueryRow env (\<lambda>d. Inr (map (\<lambda>r. \<lparr>route_EntityID = rt_entity r, route_ShardID = rt_shard_id r,
       route_PlacementStatus = rt_placement_status r, route_CreatedAt = rt_created_at r\<rparr>)
     (order_desc (\<lambda>r. (rt_created_at r, rt_entity r)) (bank_routing_entries d))))"

definition HasActiveRoute :: "environment \<Rightarrow> uuid \<Rightarrow> string \<Rightarrow> ('m control_world_scheme, bool) prog" where
  "HasActiveRoute env entityID shardID = pool_QueryRow env (\<lambda>d. Inr (affected (\<lambda>r. rt_entity r = entityID \<and>
     rt_shard_id r = shardID \<and> rt_placement_status r = ''active'') (bank_routing_entries d) = 1))"

definition HasActiveOrProvisioningRoute :: "environment \<Rightarrow> uuid \<Rightarrow> string \<Rightarrow> ('m control_world_scheme, bool) prog" where
  "HasActiveOrProvisioningRoute env entityID shardID = pool_QueryRow env (\<lambda>d. Inr (affected (\<lambda>r. rt_entity r = entityID \<and>
     rt_shard_id r = shardID \<and> rt_placement_status r \<in> set [''active'', ''paused'', ''provisioning'']) (bank_routing_entries d) = 1))"

section \<open>Bank access\<close>

text \<open>\<open>err == nil && ok\<close>: a failing query counts as no.\<close>

definition succeeds :: "('s, bool) prog \<Rightarrow> ('s, bool) prog" where
  "succeeds m = (\<lambda>w. case m w of (Inl e, w') \<Rightarrow> (Inr False, w') | (Inr b, w') \<Rightarrow> (Inr b, w'))"

definition Active :: "environment \<Rightarrow> string \<Rightarrow> uuid \<Rightarrow> ('m control_world_scheme, bool) prog" where
  "Active env shardID bankID = succeeds (HasActiveRoute env bankID shardID)"

definition ActiveOrProvisioning :: "environment \<Rightarrow> string \<Rightarrow> uuid \<Rightarrow> ('m control_world_scheme, bool) prog" where
  "ActiveOrProvisioning env shardID bankID = succeeds (HasActiveOrProvisioningRoute env bankID shardID)"

definition CanRead :: "environment \<Rightarrow> string \<Rightarrow> Principal \<Rightarrow> uuid \<Rightarrow> ('m control_world_scheme, bool) prog" where
  "CanRead env shardID prin bankID =
     (if p_Role prin = ''issuer_operator'' \<or> p_Role prin = ''issuer_readonly'' then Active env shardID bankID
      else if p_EntityID prin = bankID then Active env shardID bankID else ret False)"

definition CanReadBank :: "environment \<Rightarrow> string \<Rightarrow> Principal \<Rightarrow> uuid \<Rightarrow> ('m control_world_scheme, bool) prog" where
  "CanReadBank env shardID prin bankID = CanRead env shardID prin bankID"

section \<open>Users\<close>

definition scanDirectoryUser :: "user_row \<Rightarrow> DirectoryUser" where
  "scanDirectoryUser u = \<lparr>du_ID = usr_id u, du_Username = usr_normalized_username u, du_Role = usr_role u,
     du_EntityID = (case usr_entity u of None \<Rightarrow> '''' | Some e \<Rightarrow> e), du_Status = usr_status u,
     du_CreatedAt = usr_created_at u, du_UpdatedAt = usr_updated_at u\<rparr>"

definition find_user :: "uuid \<Rightarrow> control_db \<Rightarrow> DirectoryUser result" where
  "find_user uid d = (case query_row (\<lambda>u. usr_id u = uid) (users d) of
     None \<Rightarrow> Inl ErrNoRows | Some u \<Rightarrow> Inr (scanDirectoryUser u))"

definition control_Users :: "environment \<Rightarrow> ('m control_world_scheme, DirectoryUser list) prog" where
  "control_Users env = pool_QueryRow env (\<lambda>d. Inr (map scanDirectoryUser
     (order_desc (\<lambda>u. (usr_created_at u, usr_id u)) (users d))))"

definition control_User :: "environment \<Rightarrow> uuid \<Rightarrow> ('m control_world_scheme, DirectoryUser) prog" where
  "control_User env uid = pool_QueryRow env (find_user uid)"

definition userByID :: "environment \<Rightarrow> uuid \<Rightarrow> ('m control_world_scheme, DirectoryUser) prog" where
  "userByID env uid = statement env (read_only (find_user uid))"

definition new_user_row :: "StaffUserCreate \<Rightarrow> sql_context \<Rightarrow> user_row" where
  "new_user_row input ctx =
     \<lparr>usr_id = sql_uuid ctx 0, usr_normalized_username = suc_Username input, usr_password_hash = suc_PasswordHash input,
      usr_role = suc_Role input, usr_entity = nullable (suc_EntityID input), usr_status = ''enabled'', usr_auth_version = 1,
      usr_created_at = sql_now ctx, usr_updated_at = sql_now ctx, usr_created_by = Some (suc_ActorID input),
      usr_updated_by = Some (suc_ActorID input)\<rparr>"

definition CreateUser :: "environment \<Rightarrow> StaffUserCreate \<Rightarrow> ('m control_world_scheme, DirectoryUser) prog" where
  "CreateUser env input =
     andThen (statement env (\<lambda>ctx d. map_sum id (\<lambda>d'. (usr_id (new_user_row input ctx), d'))
       (insert_user (new_user_row input ctx) d)))
     (\<lambda>uid. userByID env uid)"

text \<open>\<open>tag.RowsAffected()\<close>: the user is returned only when exactly one row was updated.\<close>

definition update_user ::
  "environment \<Rightarrow> uuid \<Rightarrow> (user_row \<Rightarrow> user_row) \<Rightarrow> ('m control_world_scheme, DirectoryUser option) prog" where
  "update_user env uid f =
     andThen (statement env (\<lambda>ctx. update_users (sql_clock ctx) (\<lambda>u. usr_id u = uid) f)) (\<lambda>n.
     if n \<noteq> 1 then ret None else andThen (userByID env uid) (\<lambda>user. ret (Some user)))"

definition UpdateUserRole ::
  "environment \<Rightarrow> uuid \<Rightarrow> string \<Rightarrow> string \<Rightarrow> uuid \<Rightarrow> ('m control_world_scheme, DirectoryUser option) prog" where
  "UpdateUserRole env uid role entityID actorID =
     update_user env uid (\<lambda>u. u\<lparr>usr_role := role, usr_entity := nullable entityID, usr_updated_by := Some actorID\<rparr>)"

definition UpdateUserStatus ::
  "environment \<Rightarrow> uuid \<Rightarrow> string \<Rightarrow> uuid \<Rightarrow> ('m control_world_scheme, DirectoryUser option) prog" where
  "UpdateUserStatus env uid status actorID =
     update_user env uid (\<lambda>u. u\<lparr>usr_status := status, usr_updated_by := Some actorID\<rparr>)"

definition UpdateUserPassword ::
  "environment \<Rightarrow> uuid \<Rightarrow> string \<Rightarrow> uuid \<Rightarrow> ('m control_world_scheme, DirectoryUser option) prog" where
  "UpdateUserPassword env uid passwordHash actorID =
     update_user env uid (\<lambda>u. u\<lparr>usr_password_hash := passwordHash, usr_updated_by := Some actorID\<rparr>)"

definition staff_audit_row :: "AuthenticationAudit \<Rightarrow> sql_context \<Rightarrow> auth_audit_row" where
  "staff_audit_row event ctx = \<lparr>aa_id = sql_uuid ctx 0, aa_event_type = auau_EventType event, aa_outcome = ''succeeded'',
     aa_actor = Some (auau_ActorUserID event), aa_subject = Some (auau_SubjectUserID event),
     aa_entity = nullable (auau_EntityID event), aa_session = None, aa_request = auau_RequestID event,
     aa_occurred_at = sql_now ctx, aa_details = []\<rparr>"

definition RecordAuthenticationAudit :: "environment \<Rightarrow> AuthenticationAudit \<Rightarrow> ('m control_world_scheme, unit) prog" where
  "RecordAuthenticationAudit env event = statement env (exec (\<lambda>ctx. insert_auth_audit (staff_audit_row event ctx)))"

section \<open>Replays of commands\<close>

text \<open>
  \<open>centralIdempotency\<close>, which the bank and the staff service have in the same words.
\<close>

definition centralIdempotency ::
  "environment \<Rightarrow> bytes \<Rightarrow> string \<Rightarrow> string \<Rightarrow> bytes \<Rightarrow> ('m control_world_scheme, CentralIdempotencyReplay) prog" where
  "centralIdempotency env fp scope key body =
     andThen (time_now env) (\<lambda>now.
     onError (control_ClaimIdempotency env \<lparr>cclaim_Scope = scope, cclaim_Key = key,
       cclaim_Fingerprint = Fingerprint fp body, cclaim_Now = now,
       cclaim_ExpiresAt = now + 7 * 24 * 3600 * 1000000000\<rparr>) idempotency_problem)"

text \<open>What is on record for a key: the fingerprint, the expiry and the response.\<close>

type_synonym command_id = "string \<times> string"

definition stored_command :: "command_id \<Rightarrow> control_db \<Rightarrow> (bytes \<times> time \<times> json) option" where
  "stored_command k d = map_option (\<lambda>r. (cidem_request_fingerprint r, cidem_expires_at r, cidem_response_body r))
     (query_row (is_command (fst k) (snd k)) (command_idempotency_records d))"

definition but_commands :: "control_db \<Rightarrow> control_db" where
  "but_commands d = d\<lparr>command_idempotency_records := []\<rparr>"

lemma stored_command_cong:
  "command_idempotency_records d = command_idempotency_records d' \<Longrightarrow> stored_command k d = stored_command k d'"
  by (simp add: stored_command_def)

lemma update_commands_Inr:
  assumes "update_commands c P f d = Inr (n, d')"
  shows "d' = d\<lparr>command_idempotency_records := update_where P (\<lambda>r. (f r)\<lparr>cidem_updated_at := c\<rparr>) (command_idempotency_records d)\<rparr>"
  using assms by (auto simp: update_commands_def map_sum_Inr_iff guarded_update_Inr)

text \<open>An update of the record of a key, with what is on record before and after it.\<close>

lemma update_stored_command:
  assumes "update_commands c (is_command scope key) f d = Inr (n, d')"
    and "\<And>r. is_command scope key r \<Longrightarrow> is_command scope key (f r)"
  shows "but_commands d' = but_commands d"
    and "query_row (is_command scope key) (command_idempotency_records d') =
      map_option (\<lambda>r. (f r)\<lparr>cidem_updated_at := c\<rparr>) (query_row (is_command scope key) (command_idempotency_records d))"
proof -
  note d' = update_commands_Inr [OF assms(1)]
  show "but_commands d' = but_commands d" by (simp add: d' but_commands_def)
  show "query_row (is_command scope key) (command_idempotency_records d') =
      map_option (\<lambda>r. (f r)\<lparr>cidem_updated_at := c\<rparr>) (query_row (is_command scope key) (command_idempotency_records d))"
    unfolding d' by (simp, subst query_row_update_same) (use assms(2) in \<open>auto simp: is_command_def\<close>)
qed

lemma control_claimE:
  assumes "control_ClaimIdempotency env c w = (Inr rep, w')"
  obtains (fresh) "\<not> creplay_Found rep"
      and "\<And>f t r. stored_command (cclaim_Scope c, cclaim_Key c) (view w) = Some (f, t, r) \<Longrightarrow> t \<le> cclaim_Now c"
      and "stored_command (cclaim_Scope c, cclaim_Key c) (view w') = Some (cclaim_Fingerprint c, cclaim_ExpiresAt c, JObj [])"
      and "but_commands (view w') = but_commands (view w)"
  | (replay) t where "creplay_Found rep" and "cclaim_Now c < t" and "view w' = view w"
      and "stored_command (cclaim_Scope c, cclaim_Key c) (view w) = Some (cclaim_Fingerprint c, t, creplay_Response rep)"
proof -
  let ?P = "is_command (cclaim_Scope c) (cclaim_Key c)"
  let ?row = "query_row ?P (command_idempotency_records (view w))"
  obtain w1 where v: "view w1 = view w" and r: "(case ?row of
       Some r \<Rightarrow>
         if cclaim_Now c < cidem_expires_at r then
           if cidem_request_fingerprint r \<noteq> cclaim_Fingerprint c then throw ErrIdempotencyConflict
           else ret \<lparr>creplay_Response = cidem_response_body r, creplay_Found = True\<rparr>
         else
           andThen (statement env (exec_rows (\<lambda>ctx. update_commands (sql_clock ctx) ?P
             (\<lambda>r. r\<lparr>cidem_request_fingerprint := cclaim_Fingerprint c, cidem_response_status := 202,
                    cidem_response_body := JObj [], cidem_result_reference := None,
                    cidem_expires_at := cclaim_ExpiresAt c\<rparr>)))) (\<lambda>_. ret no_replay)
     | None \<Rightarrow> andThen (statement env (exec (\<lambda>ctx. insert_command (new_command_row c ctx)))) (\<lambda>_. ret no_replay)) w1 = (Inr rep, w')"
    using assms unfolding control_ClaimIdempotency_def by (auto elim!: andThen_InrE statement_readE)
  show thesis
  proof (cases ?row)
    case None
    with r obtain ctx where "rep = no_replay" and i: "insert_command (new_command_row c ctx) (view w) = Inr (view w')"
      by (auto simp: ret_def v elim!: andThen_InrE statement_execE)
    moreover have "view w' = (view w)\<lparr>command_idempotency_records := command_idempotency_records (view w) @ [new_command_row c ctx]\<rparr>"
      using i by (simp add: insert_command_def checked_Inr)
    ultimately show thesis using None
      by (intro fresh) (simp_all add: stored_command_def no_replay_def but_commands_def query_row_append new_command_row_def is_command_def)
  next
    case (Some x)
    show thesis
    proof (cases "cclaim_Now c < cidem_expires_at x")
      case True
      then show thesis using r Some v by (intro replay [of "cidem_expires_at x"])
          (auto simp: throw_def ret_def stored_command_def split: if_splits)
    next
      case False
      then obtain clock n where "rep = no_replay" and u: "update_commands clock ?P
           (\<lambda>r. r\<lparr>cidem_request_fingerprint := cclaim_Fingerprint c, cidem_response_status := 202,
                  cidem_response_body := JObj [], cidem_result_reference := None,
                  cidem_expires_at := cclaim_ExpiresAt c\<rparr>) (view w) = Inr (n, view w')"
        using r Some by (auto simp: ret_def v elim!: andThen_InrE statement_exec_rowsE)
      with update_stored_command [OF u] False Some show thesis
        by (intro fresh) (auto simp: stored_command_def no_replay_def is_command_def)
    qed
  qed
qed

lemma control_finish:
  assumes "control_FinishIdempotency env scope key status response rid w = (Inr u, w')"
  shows "but_commands (view w') = but_commands (view w)"
    and "stored_command (scope, key) (view w) = Some (f, t, r0) \<Longrightarrow>
      stored_command (scope, key) (view w') = Some (f, t, response)"
proof -
  from assms obtain clock n where u: "update_commands clock (is_command scope key)
      (\<lambda>r. r\<lparr>cidem_response_status := status, cidem_response_body := response, cidem_result_reference := nullable rid\<rparr>)
      (view w) = Inr (n, view w')"
    unfolding control_FinishIdempotency_def by (auto elim!: statement_exec_rowsE)
  note k = update_stored_command [OF u]
  show "but_commands (view w') = but_commands (view w)" by (rule k) (simp add: is_command_def)
  show "stored_command (scope, key) (view w') = Some (f, t, response)" if "stored_command (scope, key) (view w) = Some (f, t, r0)"
    using that k(2) by (auto simp: stored_command_def is_command_def)
qed

section \<open>The control transaction implements the protocol\<close>

definition control_claim :: "environment \<Rightarrow> command_id \<Rightarrow> bytes \<Rightarrow> time \<Rightarrow> time \<Rightarrow> ('m control_world_scheme, json option) prog" where
  "control_claim env k fp now till =
     andThen (control_ClaimIdempotency env \<lparr>cclaim_Scope = fst k, cclaim_Key = snd k, cclaim_Fingerprint = fp,
       cclaim_Now = now, cclaim_ExpiresAt = till\<rparr>)
     (\<lambda>replay. ret (if creplay_Found replay then Some (creplay_Response replay) else None))"

definition control_finish_of :: "environment \<Rightarrow> int \<Rightarrow> string \<Rightarrow> command_id \<Rightarrow> json \<Rightarrow> ('m control_world_scheme, unit) prog" where
  "control_finish_of env status rid k r = control_FinishIdempotency env (fst k) (snd k) status r rid"

interpretation control_idempotency: idempotency_store
  "control_claim env" "control_finish_of env status rid" "\<lambda>k w. stored_command k (view w)" "\<lambda>_. True"
  for env status rid
proof
  fix s s' :: "'m control_world_scheme" and k fp now till
  assume "control_claim env k fp now till s = (Inr None, s')"
  then show "(\<forall>f t r. stored_command k (view s) = Some (f, t, r) \<longrightarrow> t \<le> now) \<and>
      (\<exists>r. stored_command k (view s') = Some (fp, till, r))"
    by (auto simp: control_claim_def ret_def split: if_splits elim!: andThen_InrE control_claimE)
next
  fix s s' :: "'m control_world_scheme" and k fp now till r
  assume "control_claim env k fp now till s = (Inr (Some r), s')"
  then show "(\<exists>t. stored_command k (view s) = Some (fp, t, r) \<and> now < t) \<and>
      stored_command k (view s') = stored_command k (view s)"
    by (auto simp: control_claim_def ret_def split: if_splits elim!: andThen_InrE control_claimE)
next
  fix s s' :: "'m control_world_scheme" and k r f t r0
  assume "control_finish_of env status rid k r s = (Inr (), s')" "stored_command k (view s) = Some (f, t, r0)"
  then show "stored_command k (view s') = Some (f, t, r)"
    unfolding control_finish_of_def using control_finish(2) [of env "fst k" "snd k"] by simp
qed simp_all

section \<open>Transactions under a command key\<close>

lemma control_transaction_InrE:
  assumes "control_transaction env m w = (Inr x, w')"
  obtains w1 w2 where "view w1 = durable w" and "durable w1 = durable w" and "m w1 = (Inr x, w2)" and "w' = Rollback w2"
proof -
  from assms obtain u w1 where b: "pool_Begin env w = (Inr u, w1)" and d: "deferred m Rollback w1 = (Inr x, w')"
    unfolding control_transaction_def by (rule andThen_InrE)
  from d obtain w2 where "m w1 = (Inr x, w2)" "w' = Rollback w2" by (auto simp: deferred_def split: prod.splits)
  with b show thesis by (intro that [of w1 w2]) (auto simp: pool_Begin_def split: fault.splits)
qed

lemma keeps_control_idempotency [keeps_intros]:
  "keeps durable (control_ClaimIdempotency env c)" "keeps durable (centralIdempotency env fp scope key body)"
  "keeps durable (control_FinishIdempotency env scope key status response rid)"
  unfolding centralIdempotency_def control_ClaimIdempotency_def control_FinishIdempotency_def by (intro keeps_intros)+

lemma claimed_commandE:
  fixes w w' :: "'m control_world_scheme"
  assumes "control_transaction env (andThen (centralIdempotency env fp scope key body) m) w = (Inr x, w')"
  obtains (replay) rep t w1 w2 where "creplay_Found rep" and "m rep w1 = (Inr x, w2)" and "w' = Rollback w2"
      and "view w1 = durable w" and "durable w1 = durable w"
      and "stored_command (scope, key) (durable w) = Some (Fingerprint fp body, t, creplay_Response rep)"
  | (fresh) rep till w1 w2 where "\<not> creplay_Found rep" and "m rep w1 = (Inr x, w2)" and "w' = Rollback w2"
      and "but_commands (view w1) = but_commands (durable w)" and "durable w1 = durable w"
      and "stored_command (scope, key) (view w1) = Some (Fingerprint fp body, till, JObj [])"
proof -
  from assms obtain wa wz where a: "view wa = durable w" "durable wa = durable w" and z: "w' = Rollback wz"
    and m: "andThen (centralIdempotency env fp scope key body) m wa = (Inr x, wz)"
    by (rule control_transaction_InrE)
  from m obtain rep wb where c: "centralIdempotency env fp scope key body wa = (Inr rep, wb)" and r: "m rep wb = (Inr x, wz)"
    by (rule andThen_InrE)
  have d: "durable wb = durable w" using keepsD [OF keeps_control_idempotency(2) c] a by simp
  let ?c = "\<lambda>now. \<lparr>cclaim_Scope = scope, cclaim_Key = key, cclaim_Fingerprint = Fingerprint fp body, cclaim_Now = now,
       cclaim_ExpiresAt = now + 7 * 24 * 3600 * 1000000000\<rparr>"
  from c have "control_ClaimIdempotency env (?c (time_Now env (tick wa))) (ticked wa) = (Inr rep, wb)"
    by (simp add: centralIdempotency_def andThen_def time_now_def onError_Inr)
  then show thesis
  proof (cases rule: control_claimE)
    case fresh
    with r z d a show thesis by (intro that(2) [of rep wb wz]) simp_all
  next
    case (replay t)
    with r z d a show thesis by (intro that(1) [of rep wb wz t]) simp_all
  qed
qed

definition finish_command :: "environment \<Rightarrow> string \<Rightarrow> string \<Rightarrow> int \<Rightarrow> json \<Rightarrow> string \<Rightarrow> ('m control_world_scheme, int \<times> json) prog" where
  "finish_command env scope key status raw rid =
     andThen (control_FinishIdempotency env scope key status raw rid) (\<lambda>_.
     andThen (Commit env) (\<lambda>_. ret (status, raw)))"

lemma finished_command:
  assumes "finish_command env scope key status raw rid w = (Inr x, w')"
    and "stored_command (scope, key) (view w) = Some (f, t, r0)"
  shows "x = (status, raw)" and "but_commands (durable w') = but_commands (view w)"
    and "stored_command (scope, key) (durable w') = Some (f, t, raw)"
proof -
  from assms(1) obtain u w1 where k: "control_FinishIdempotency env scope key status raw rid w = (Inr u, w1)"
    and "andThen (Commit env) (\<lambda>_. ret (status, raw)) w1 = (Inr x, w')" unfolding finish_command_def by (rule andThen_InrE)
  then have c: "x = (status, raw)" "durable w' = view w1" by (auto simp: ret_def elim!: andThen_InrE Commit_InrE)
  show "x = (status, raw)" by (rule c)
  show "but_commands (durable w') = but_commands (view w)" using control_finish(1) [OF k] c by simp
  show "stored_command (scope, key) (durable w') = Some (f, t, raw)" using control_finish(2) [OF k assms(2)] c by simp
qed

end
