(* ===== verification/Base64.thy ===== *)
theory Base64
  imports Go_Base
begin

unbundle bit_operations_syntax

text \<open>
  \<open>encoding/base64\<close> as the sources use it: \<open>RawURLEncoding\<close> (access tokens, refresh
  tokens, page cursors), \<open>RawStdEncoding\<close> and \<open>StdEncoding\<close> (password hashes). The decoders
  skip carriage returns and line feeds and do not check the bits after the last byte, as in Go.
\<close>

section \<open>Alphabets\<close>

definition std_alphabet :: string where
  "std_alphabet = ''ABCDEFGHIJKLMNOPQRSTUVWXYZabcdefghijklmnopqrstuvwxyz0123456789+/''"

definition url_alphabet :: string where
  "url_alphabet = ''ABCDEFGHIJKLMNOPQRSTUVWXYZabcdefghijklmnopqrstuvwxyz0123456789-_''"

definition sextet_of :: "string \<Rightarrow> char \<Rightarrow> nat option" where
  "sextet_of alphabet c = List.find (\<lambda>i. alphabet ! i = c) [0..<64]"

section \<open>Encoding\<close>

text \<open>Three bytes are the 24-bit number whose four base-64 digits are written.\<close>

definition digits_of :: "nat \<Rightarrow> nat list" where
  "digits_of n = [n div 262144 mod 64, n div 4096 mod 64, n div 64 mod 64, n mod 64]"

fun encode_sextets :: "bytes \<Rightarrow> nat list" where
  "encode_sextets (a # b # c # bs) = digits_of (unat a * 65536 + unat b * 256 + unat c) @ encode_sextets bs"
| "encode_sextets [a, b] = take 3 (digits_of (unat a * 65536 + unat b * 256))"
| "encode_sextets [a] = take 2 (digits_of (unat a * 65536))"
| "encode_sextets [] = []"

definition raw_encode :: "string \<Rightarrow> bytes \<Rightarrow> string" where
  "raw_encode alphabet bs = map ((!) alphabet) (encode_sextets bs)"

abbreviation RawURLEncode :: "bytes \<Rightarrow> string" where
  "RawURLEncode \<equiv> raw_encode url_alphabet"

abbreviation RawStdEncode :: "bytes \<Rightarrow> string" where
  "RawStdEncode \<equiv> raw_encode std_alphabet"

section \<open>Decoding\<close>

definition bytes_of_24 :: "nat \<Rightarrow> bytes" where
  "bytes_of_24 n = [of_nat (n div 65536), of_nat (n div 256 mod 256), of_nat (n mod 256)]"

fun decode_sextets :: "nat list \<Rightarrow> bytes option" where
  "decode_sextets (a # b # c # d # xs) =
     map_option ((@) (bytes_of_24 (a * 262144 + b * 4096 + c * 64 + d))) (decode_sextets xs)"
| "decode_sextets [a, b, c] = Some (take 2 (bytes_of_24 (a * 262144 + b * 4096 + c * 64)))"
| "decode_sextets [a, b] = Some (take 1 (bytes_of_24 (a * 262144 + b * 4096)))"
| "decode_sextets [a] = None"
| "decode_sextets [] = Some []"

fun sextets :: "string \<Rightarrow> string \<Rightarrow> nat list option" where
  "sextets alphabet [] = Some []"
| "sextets alphabet (c # s) =
     (case sextet_of alphabet c of None \<Rightarrow> None | Some n \<Rightarrow> map_option ((#) n) (sextets alphabet s))"

definition skip_newlines :: "string \<Rightarrow> string" where
  "skip_newlines s = filter (\<lambda>c. c \<noteq> CHR 0x0A \<and> c \<noteq> CHR 0x0D) s"

definition raw_decode :: "string \<Rightarrow> string \<Rightarrow> bytes option" where
  "raw_decode alphabet s = Option.bind (sextets alphabet (skip_newlines s)) decode_sextets"

abbreviation RawURLDecode :: "string \<Rightarrow> bytes option" where
  "RawURLDecode \<equiv> raw_decode url_alphabet"

abbreviation RawStdDecode :: "string \<Rightarrow> bytes option" where
  "RawStdDecode \<equiv> raw_decode std_alphabet"

text \<open>\<open>StdEncoding\<close>: whole groups of four, the last of which may end in one or two \<open>=\<close>.\<close>

definition StdDecode :: "string \<Rightarrow> bytes option" where
  "StdDecode s =
     (let t = skip_newlines s; n = length t in
      if n mod 4 \<noteq> 0 then None
      else if 4 \<le> n \<and> drop (n - 2) t = ''=='' then raw_decode std_alphabet (take (n - 2) t)
      else if 4 \<le> n \<and> drop (n - 1) t = ''='' then raw_decode std_alphabet (take (n - 1) t)
      else raw_decode std_alphabet t)"

section \<open>Round trip\<close>

lemma byte_split: "of_nat (unat (b :: byte)) = b" and byte_lt: "unat (b :: byte) < 256"
  using unsigned_less [of b] by simp_all

lemma digits_lt: "\<forall>n \<in> set (digits_of k). n < 64"
  by (simp add: digits_of_def)

lemma sextets_lt: "\<forall>n \<in> set (encode_sextets bs). n < 64"
  by (induction bs rule: encode_sextets.induct) (auto simp: digits_of_def)

lemma digits_value:
  fixes k :: nat
  assumes "k < 16777216"
  shows "k div 262144 mod 64 * 262144 + k div 4096 mod 64 * 4096 + k div 64 mod 64 * 64 + k mod 64 = k"
proof -
  define p q r where "p = k div 64" and "q = p div 64" and "r = q div 64"
  have e: "k div 4096 = q" "k div 262144 = r"
    by (simp_all add: p_def q_def r_def div_mult2_eq [symmetric])
  have "r < 64" unfolding e [symmetric] using assms by (simp add: div_less_iff_less_mult)
  moreover have "k = p * 64 + k mod 64" "p = q * 64 + p mod 64" "q = r * 64 + q mod 64"
    by (simp_all add: p_def q_def r_def)
  ultimately show ?thesis unfolding e p_def [symmetric] by simp
qed

lemma split_24:
  fixes x y z :: nat
  assumes "x < 256" and "y < 256" and "z < 256"
  shows "(x * 65536 + y * 256 + z) div 65536 = x" and "(x * 65536 + y * 256 + z) div 256 mod 256 = y"
    and "(x * 65536 + y * 256 + z) mod 256 = z"
proof -
  have "(x * 65536 + y * 256 + z) div 256 = x * 256 + y"
    using assms by (intro div_nat_eqI) simp_all
  then show "(x * 65536 + y * 256 + z) div 256 mod 256 = y" using assms by simp
  show "(x * 65536 + y * 256 + z) div 65536 = x" using assms by (intro div_nat_eqI) simp_all
  have "x * 65536 + y * 256 + z = z + 256 * (x * 256 + y)" by simp
  then show "(x * 65536 + y * 256 + z) mod 256 = z" using assms by (simp only: mod_mult_self2) simp
qed

lemma bytes_value:
  fixes a b c :: byte
  shows "bytes_of_24 (unat a * 65536 + unat b * 256 + unat c) = [a, b, c]"
  using split_24 [OF byte_lt byte_lt byte_lt, of a b c] by (simp add: bytes_of_24_def)

lemma decode_group:
  fixes a b c :: byte and xs :: "nat list"
  defines "k \<equiv> unat a * 65536 + unat b * 256 + unat c"
  shows "k div 262144 mod 64 * 262144 + k div 4096 mod 64 * 4096 + k div 64 mod 64 * 64 + k mod 64 = k"
    and "c = 0 \<Longrightarrow> k mod 64 = 0" and "b = 0 \<Longrightarrow> c = 0 \<Longrightarrow> k div 64 mod 64 = 0"
proof -
  show "k div 262144 mod 64 * 262144 + k div 4096 mod 64 * 4096 + k div 64 mod 64 * 64 + k mod 64 = k"
    using byte_lt [of a] byte_lt [of b] byte_lt [of c] unfolding k_def by (intro digits_value) linarith
  assume c: "c = 0"
  have "k = (unat a * 1024 + unat b * 4) * 64" by (simp add: k_def c)
  then show "k mod 64 = 0" by (simp only: mod_mult_self2_is_0)
  assume "b = 0"
  with c have "k = unat a * 16 * 64 * 64" by (simp add: k_def)
  then show "k div 64 mod 64 = 0" by simp
qed

lemma take_group: "take 3 [w, x, y, z] = [w, x, y]" "take 2 [w, x, y, z] = [w, x]"
  by simp_all

lemma decode_encode_sextets: "decode_sextets (encode_sextets bs) = Some bs"
proof (induction bs rule: encode_sextets.induct)
  case (1 a b c bs)
  define k where "k = unat a * 65536 + unat b * 256 + unat c"
  have "decode_sextets (digits_of k @ encode_sextets bs) = Some (bytes_of_24 k @ bs)"
    using decode_group(1) [of a b c] 1 unfolding k_def [symmetric]
    by (simp only: digits_of_def append.simps decode_sextets.simps option.map)
  then show ?case using bytes_value [of a b c] by (simp add: k_def)
next
  case (2 a b)
  define k where "k = unat a * 65536 + unat b * 256 + unat (0 :: byte)"
  have "decode_sextets (take 3 (digits_of k)) = Some (take 2 (bytes_of_24 k))"
    using decode_group(1) [of a b 0] decode_group(2) [where a = a and b = b, OF refl] unfolding k_def [symmetric]
    by (simp only: digits_of_def take_group decode_sextets.simps add_0_right)
  then show ?case using bytes_value [of a b 0] by (simp add: k_def)
next
  case (3 a)
  define k where "k = unat a * 65536 + unat (0 :: byte) * 256 + unat (0 :: byte)"
  have "decode_sextets (take 2 (digits_of k)) = Some (take 1 (bytes_of_24 k))"
    using decode_group(1) [of a 0 0] decode_group(2) [where a = a and b = 0, OF refl]
      decode_group(3) [where a = a, OF refl refl] unfolding k_def [symmetric]
    by (simp only: digits_of_def take_group decode_sextets.simps add_0_right mult_0)
  then show ?case using bytes_value [of a 0 0] by (simp add: k_def)
qed simp

text \<open>An alphabet of 64 distinct characters without line breaks.\<close>

definition base64_alphabet :: "string \<Rightarrow> bool" where
  "base64_alphabet al \<longleftrightarrow> length al = 64 \<and> distinct al \<and> CHR 0x0A \<notin> set al \<and> CHR 0x0D \<notin> set al"

lemma alphabets [simp]: "base64_alphabet std_alphabet" "base64_alphabet url_alphabet"
  by (code_simp, code_simp)

lemma sextet_of_nth:
  assumes "base64_alphabet al" and "n < 64"
  shows "sextet_of al (al ! n) = Some n"
proof -
  have "List.find (\<lambda>i. al ! i = al ! n) [0..<64] = Some n"
    using assms by (subst find_Some_iff) (auto simp: base64_alphabet_def nth_eq_iff_index_eq intro!: exI [of _ n])
  then show ?thesis by (simp add: sextet_of_def)
qed

lemma sextets_map:
  assumes "base64_alphabet al" and "\<forall>n \<in> set ns. n < 64"
  shows "sextets al (map ((!) al) ns) = Some ns"
  using assms(2) by (induction ns) (simp_all add: sextet_of_nth [OF assms(1)])

lemma raw_encode_set:
  assumes "base64_alphabet al" shows "set (raw_encode al bs) \<subseteq> set al"
  using assms sextets_lt [of bs] by (auto simp: raw_encode_def base64_alphabet_def)

lemma skip_newlines_raw:
  assumes "base64_alphabet al" shows "skip_newlines (raw_encode al bs) = raw_encode al bs"
  unfolding skip_newlines_def using assms raw_encode_set [OF assms, of bs]
  by (intro filter_True) (auto simp: base64_alphabet_def)

lemma raw_decode_encode:
  assumes "base64_alphabet al" shows "raw_decode al (raw_encode al bs) = Some bs"
  unfolding raw_decode_def skip_newlines_raw [OF assms]
  by (simp add: raw_encode_def sextets_map [OF assms sextets_lt] decode_encode_sextets)

lemma raw_encode_inj: "base64_alphabet al \<Longrightarrow> raw_encode al bs = raw_encode al bs' \<longleftrightarrow> bs = bs'"
  using raw_decode_encode by (metis option.inject)

lemma length_encode_sextets: "length (encode_sextets bs) = (4 * length bs + 2) div 3"
  by (induction bs rule: encode_sextets.induct) (auto simp: digits_of_def)

end
