(* ===== verification/Jwt.thy ===== *)
theory Jwt
  imports Auth_Store Go_Json Base64 Uuid
begin

text \<open>
  Access tokens (\<open>internal/auth/jwt.go\<close>): issuing a signed token with its claims, and the conditions on
  the claims. The Ed25519 signature is a parameter, a function of the private key and the message.
\<close>

section \<open>Time\<close>

text \<open>\<open>t.Unix()\<close>\<close>

definition Unix :: "time \<Rightarrow> int" where
  "Unix t = t div 1000000000"

text \<open>The date of a day counted from 1970-01-01 in the proleptic Gregorian calendar.\<close>

definition civil_from_days :: "int \<Rightarrow> int \<times> int \<times> int" where
  "civil_from_days days =
     (let z = days + 719468; era = z div 146097; doe = z mod 146097;
          yoe = (doe - doe div 1460 + doe div 36524 - doe div 146096) div 365;
          doy = doe - (365 * yoe + yoe div 4 - yoe div 100);
          mp = (5 * doy + 2) div 153;
          d = doy - (153 * mp + 2) div 5 + 1;
          m = (if mp < 10 then mp + 3 else mp - 9);
          y = yoe + era * 400 + (if m \<le> 2 then 1 else 0)
      in (y, m, d))"

text \<open>\<open>t.UTC().Format(time.RFC3339)\<close>, for the years 0 to 9999\<close>

definition format_RFC3339 :: "time \<Rightarrow> string" where
  "format_RFC3339 t =
     (let s = Unix t; (y, m, d) = civil_from_days (s div 86400); r = s mod 86400;
          two = (\<lambda>n. format_padded 2 (nat n))
      in format_padded 4 (nat y) @ ''-'' @ two m @ ''-'' @ two d @ ''T'' @
         two (r div 3600) @ '':'' @ two (r div 60 mod 60) @ '':'' @ two (r mod 60) @ ''Z'')"

section \<open>Claims\<close>

definition accessLifetime :: duration where
  "accessLifetime = 15 * 60 * 1000000000"

record Signer =
  sg_privateKey :: bytes
  sg_issuer :: string
  sg_audience :: string

record jwtClaims =
  jc_Subject :: string
  jc_Username :: string
  jc_Role :: string
  jc_Status :: string
  jc_EntityID :: string
  jc_SessionID :: string
  jc_Issuer :: string
  jc_Audience :: string
  jc_IssuedAt :: int
  jc_ExpiresAt :: int
  jc_JWTID :: string

record UserSummary =
  us_Username :: string
  us_Status :: string
  us_Role :: string

record Claims =
  clm_Summary :: UserSummary
  clm_UserID :: string
  clm_SessionID :: string
  clm_EntityID :: string

record TokenResponse =
  tr_AccessToken :: string
  tr_TokenType :: string
  tr_ExpiresAt :: string
  tr_User :: UserSummary

definition summary :: "UserRecord \<Rightarrow> UserSummary" where
  "summary u = \<lparr>us_Username = ur_Username u, us_Status = ur_Status u, us_Role = ur_Role u\<rparr>"

definition Claims_Principal :: "Claims \<Rightarrow> Principal" where
  "Claims_Principal c = \<lparr>p_UserID = clm_UserID c, p_Username = us_Username (clm_Summary c),
     p_Role = us_Role (clm_Summary c), p_EntityID = clm_EntityID c\<rparr>"

section \<open>Issuing\<close>

definition format_int :: "int \<Rightarrow> string" where
  "format_int n = (if n < 0 then ''-'' @ decimal_digits (nat (- n)) else decimal_digits (nat n))"

definition json_field :: "string \<Rightarrow> string \<Rightarrow> string" where
  "json_field name text = marshal_string name @ '':'' @ text"

text \<open>\<open>json.Marshal(claims)\<close>; \<open>entity_id\<close> is omitted when it is empty.\<close>

definition marshal_claims :: "jwtClaims \<Rightarrow> string" where
  "marshal_claims c = ''{'' @ join_with '',''
     ([json_field ''sub'' (marshal_string (jc_Subject c)), json_field ''username'' (marshal_string (jc_Username c)),
       json_field ''role'' (marshal_string (jc_Role c)), json_field ''status'' (marshal_string (jc_Status c))] @
      (if jc_EntityID c = '''' then [] else [json_field ''entity_id'' (marshal_string (jc_EntityID c))]) @
      [json_field ''sid'' (marshal_string (jc_SessionID c)), json_field ''iss'' (marshal_string (jc_Issuer c)),
       json_field ''aud'' (marshal_string (jc_Audience c)), json_field ''iat'' (format_int (jc_IssuedAt c)),
       json_field ''exp'' (format_int (jc_ExpiresAt c)), json_field ''jti'' (marshal_string (jc_JWTID c))]) @ ''}''"

definition jwt_header :: string where
  "jwt_header = ''{'' @ join_with '','' [json_field ''alg'' (marshal_string ''EdDSA''), json_field ''typ'' (marshal_string ''JWT'')] @ ''}''"

definition claims_of :: "Signer \<Rightarrow> UserRecord \<Rightarrow> uuid \<Rightarrow> time \<Rightarrow> uuid \<Rightarrow> jwtClaims" where
  "claims_of signer user sessionID issued jwtID =
     \<lparr>jc_Subject = ur_ID user, jc_Username = ur_Username user, jc_Role = ur_Role user, jc_Status = ur_Status user,
      jc_EntityID = ur_EntityID user, jc_SessionID = sessionID, jc_Issuer = sg_issuer signer, jc_Audience = sg_audience signer,
      jc_IssuedAt = Unix issued, jc_ExpiresAt = Unix (issued + accessLifetime), jc_JWTID = jwtID\<rparr>"

definition signing_input :: "jwtClaims \<Rightarrow> string" where
  "signing_input claims =
     RawURLEncode (bytes_of_string jwt_header) @ ''.'' @ RawURLEncode (bytes_of_string (marshal_claims claims))"

definition jwt_newUUID :: "environment \<Rightarrow> (('d, 'm) tx_world_scheme, uuid) prog" where
  "jwt_newUUID env = andThen (rand_Read env 16) (\<lambda>b. ret (auth_newUUID b))"

definition Issue :: "(bytes \<Rightarrow> bytes \<Rightarrow> bytes) \<Rightarrow> environment \<Rightarrow> Signer \<Rightarrow> UserRecord \<Rightarrow> uuid \<Rightarrow>
    (('d, 'm) tx_world_scheme, TokenResponse) prog" where
  "Issue sign env signer user sessionID =
     andThen (time_now env) (\<lambda>issued.
     andThen (jwt_newUUID env) (\<lambda>jwtID.
     let signingInput = signing_input (claims_of signer user sessionID issued jwtID);
         signature = sign (sg_privateKey signer) (bytes_of_string signingInput)
     in ret \<lparr>tr_AccessToken = signingInput @ ''.'' @ RawURLEncode signature, tr_TokenType = ''Bearer'',
             tr_ExpiresAt = format_RFC3339 (issued + accessLifetime), tr_User = summary user\<rparr>))"

section \<open>Conditions on the claims\<close>

definition validRole :: "string \<Rightarrow> bool" where
  "validRole role \<longleftrightarrow>
     role = ''issuer_operator'' \<or> role = ''issuer_readonly'' \<or> role = ''bank_operator'' \<or> role = ''bank_readonly''"

definition validClaims :: "jwtClaims \<Rightarrow> string \<Rightarrow> string \<Rightarrow> time \<Rightarrow> bool" where
  "validClaims c issuer audience now \<longleftrightarrow>
     \<not> (\<not> isCanonicalUUID (jc_Subject c) \<or> jc_Username c = '''' \<or> \<not> isCanonicalUUID (jc_SessionID c) \<or>
        \<not> isCanonicalUUID (jc_JWTID c) \<or> jc_Issuer c \<noteq> issuer \<or> jc_Audience c \<noteq> audience \<or> jc_IssuedAt c \<le> 0 \<or>
        jc_ExpiresAt c \<le> jc_IssuedAt c \<or> jc_ExpiresAt c \<le> Unix now \<or> jc_Status c \<noteq> ''enabled'' \<or> \<not> validRole (jc_Role c)) \<and>
     (let bankRole = jc_Role c = ''bank_operator'' \<or> jc_Role c = ''bank_readonly'' in
      bankRole = (jc_EntityID c \<noteq> '''') \<and> (\<not> bankRole \<or> isCanonicalUUID (jc_EntityID c)))"

section \<open>Lemmas\<close>

lemma civil_samples:
  "civil_from_days 0 = (1970, 1, 1)" "civil_from_days 11016 = (2000, 2, 29)" "civil_from_days 20088 = (2024, 12, 31)"
  by code_simp+

lemma claims_of_valid:
  assumes "isCanonicalUUID (ur_ID user)" and "ur_Username user \<noteq> ''''" and "isCanonicalUUID sessionID" and "isCanonicalUUID jwtID"
    and "1000000000 \<le> issued" and "ur_Status user = ''enabled''" and "validRole (ur_Role user)"
    and "(ur_Role user = ''bank_operator'' \<or> ur_Role user = ''bank_readonly'') \<longleftrightarrow> ur_EntityID user \<noteq> ''''"
    and "ur_EntityID user \<noteq> '''' \<Longrightarrow> isCanonicalUUID (ur_EntityID user)"
  shows "validClaims (claims_of signer user sessionID issued jwtID) (sg_issuer signer) (sg_audience signer) now \<longleftrightarrow>
    Unix now < Unix issued + 900"
proof -
  have "Unix (issued + accessLifetime) = Unix issued + 900"
    by (simp add: Unix_def accessLifetime_def)
  moreover have "0 < Unix issued" using assms(5) by (simp add: Unix_def)
  ultimately show ?thesis using assms by (auto simp: validClaims_def claims_of_def)
qed

end
