(* ===== verification/Password.thy ===== *)
theory Password
  imports Go_Json Base64 Transactions
begin

text \<open>
  Passwords (\<open>internal/auth/password.go\<close>): the policy for a new password, the encoding of an
  Argon2id hash and its verification. Argon2id itself (\<open>golang.org/x/crypto/argon2\<close>) and the
  classes of \<open>unicode\<close> are parameters.
\<close>

section \<open>Text\<close>

text \<open>The runes of a string (\<open>[]rune(s)\<close>): every byte that starts no valid rune is U+FFFD.\<close>

definition rune_value :: "string \<Rightarrow> nat" where
  "rune_value s =
     (let b = (\<lambda>i. of_char (s ! i) :: nat); n = rune_length s in
      if n = 0 then 0xFFFD
      else if n = 1 then b 0
      else if n = 2 then (b 0 - 0xC0) * 64 + (b 1 - 0x80)
      else if n = 3 then (b 0 - 0xE0) * 4096 + (b 1 - 0x80) * 64 + (b 2 - 0x80)
      else (b 0 - 0xF0) * 262144 + (b 1 - 0x80) * 4096 + (b 2 - 0x80) * 64 + (b 3 - 0x80))"

function runes :: "string \<Rightarrow> nat list" where
  "runes s = (if s = [] then [] else rune_value s # runes (drop (max 1 (rune_length s)) s))"
  by pat_completeness auto
termination
  by (relation "measure length") auto

declare runes.simps [simp del]

fun parse_decimal :: "nat \<Rightarrow> string \<Rightarrow> nat option" where
  "parse_decimal acc [] = Some acc"
| "parse_decimal acc (c # s) = (if is_digit c then parse_decimal (acc * 10 + (of_char c - 48)) s else None)"

text \<open>\<open>strconv.ParseUint(s, 10, 32)\<close>\<close>

definition ParseUint32 :: "string \<Rightarrow> nat option" where
  "ParseUint32 s =
     (if s = [] then None
      else case parse_decimal 0 s of None \<Rightarrow> None | Some n \<Rightarrow> if n < 2 ^ 32 then Some n else None)"

text \<open>\<open>strings.Cut(s, "=")\<close>\<close>

definition Cut :: "string \<Rightarrow> char \<Rightarrow> (string \<times> string) option" where
  "Cut s sep = (case dropWhile (\<lambda>c. c \<noteq> sep) s of [] \<Rightarrow> None | _ # rest \<Rightarrow> Some (takeWhile (\<lambda>c. c \<noteq> sep) s, rest))"

section \<open>Policy\<close>

record unicode_classes =
  IsUpper :: "nat \<Rightarrow> bool"
  IsNumber :: "nat \<Rightarrow> bool"
  IsPunct :: "nat \<Rightarrow> bool"
  IsSymbol :: "nat \<Rightarrow> bool"

definition MaxPasswordBytes :: nat where
  "MaxPasswordBytes = 1024"

definition ErrPasswordPolicy :: go_error where
  "ErrPasswordPolicy = PlainError ''password does not meet policy''"

definition utf8RuneCount :: "string \<Rightarrow> nat" where
  "utf8RuneCount value = length (runes value)"

definition ValidateNewPassword :: "unicode_classes \<Rightarrow> string \<Rightarrow> unit result" where
  "ValidateNewPassword cls password =
     (if MaxPasswordBytes < length password \<or> utf8RuneCount password < 13 then Inl ErrPasswordPolicy
      else if \<not> list_ex (IsUpper cls) (runes password) \<or> \<not> list_ex (IsNumber cls) (runes password) \<or>
          \<not> list_ex (\<lambda>r. IsPunct cls r \<or> IsSymbol cls r) (runes password) then Inl ErrPasswordPolicy
      else Inr ())"

section \<open>Hashes\<close>

text \<open>\<open>argon2.IDKey(password, salt, time, memory, threads, keyLen)\<close>\<close>

type_synonym idkey = "bytes \<Rightarrow> bytes \<Rightarrow> nat \<Rightarrow> nat \<Rightarrow> nat \<Rightarrow> nat \<Rightarrow> bytes"

definition argonMemory :: nat where "argonMemory = 19456"
definition argonIterations :: nat where "argonIterations = 2"
definition argonParallelism :: nat where "argonParallelism = 1"
definition argonKeyLength :: nat where "argonKeyLength = 32"

definition encode_hash :: "bytes \<Rightarrow> bytes \<Rightarrow> string" where
  "encode_hash salt hash =
     ''$argon2id$v=19$m='' @ decimal_digits argonMemory @ '',t='' @ decimal_digits argonIterations @
     '',p='' @ decimal_digits argonParallelism @ ''$'' @ RawStdEncode salt @ ''$'' @ RawStdEncode hash"

definition HashPassword :: "idkey \<Rightarrow> environment \<Rightarrow> string \<Rightarrow> (('d, 'm) tx_world_scheme, string) prog" where
  "HashPassword idkey env password =
     (if MaxPasswordBytes < length password then throw ErrPasswordPolicy
      else andThen (rand_Read env 16) (\<lambda>salt.
        ret (encode_hash salt
          (idkey (bytes_of_string password) salt argonIterations argonMemory argonParallelism argonKeyLength))))"

definition decodePasswordPart :: "string \<Rightarrow> bytes option" where
  "decodePasswordPart value = (case RawStdDecode value of Some decoded \<Rightarrow> Some decoded | None \<Rightarrow> StdDecode value)"

definition invalid_hash :: go_error where
  "invalid_hash = PlainError ''invalid password hash''"

text \<open>The parameters of a hash; a repeated name takes its last value.\<close>

fun hash_values :: "string list \<Rightarrow> (string \<times> nat) list \<Rightarrow> (string \<times> nat) list option" where
  "hash_values [] values = Some values"
| "hash_values (parameter # ps) values =
     (case Cut parameter CHR ''='' of
        None \<Rightarrow> None
      | Some (key, value) \<Rightarrow>
          (case ParseUint32 value of None \<Rightarrow> None | Some parsed \<Rightarrow> hash_values ps ((key, parsed) # values)))"

definition value_of :: "(string \<times> nat) list \<Rightarrow> string \<Rightarrow> nat" where
  "value_of values key = (case map_of values key of None \<Rightarrow> 0 | Some n \<Rightarrow> n)"

definition compare_hash :: "idkey \<Rightarrow> (string \<times> nat) list \<Rightarrow> string \<Rightarrow> string \<Rightarrow> string \<Rightarrow> bool result" where
  "compare_hash idkey values salt_part want_part password =
     (let memory = value_of values ''m''; iterations = value_of values ''t''; parallelism = value_of values ''p'' in
      if memory = 0 \<or> 65536 < memory \<or> iterations = 0 \<or> 8 < iterations \<or> parallelism = 0 \<or> 4 < parallelism
      then Inl (PlainError ''unsupported password hash'')
      else case decodePasswordPart salt_part of
        None \<Rightarrow> Inl invalid_hash
      | Some salt \<Rightarrow>
          if length salt < 8 then Inl invalid_hash
          else case decodePasswordPart want_part of
            None \<Rightarrow> Inl invalid_hash
          | Some want \<Rightarrow>
              if length want < 16 \<or> 64 < length want then Inl invalid_hash
              else Inr (idkey (bytes_of_string password) salt iterations memory parallelism (length want) = want))"

definition VerifyPassword :: "idkey \<Rightarrow> string \<Rightarrow> string \<Rightarrow> bool result" where
  "VerifyPassword idkey encoded password =
     (case Split encoded CHR ''$'' of
        [p0, p1, p2, p3, p4, p5] \<Rightarrow>
          if p0 \<noteq> [] \<or> p1 \<noteq> ''argon2id'' \<or> p2 \<noteq> ''v=19'' then Inl invalid_hash
          else let params = Split p3 CHR '','' in
            if length params \<noteq> 3 then Inl invalid_hash
            else (case hash_values params [] of
                None \<Rightarrow> Inl invalid_hash
              | Some values \<Rightarrow> compare_hash idkey values p4 p5 password)
      | _ \<Rightarrow> Inl invalid_hash)"

section \<open>Hashing and verification\<close>

lemma Split_single: "sep \<notin> set a \<Longrightarrow> Split a sep = [a]"
  by (induction a) auto

lemma Split_append: "sep \<notin> set a \<Longrightarrow> Split (a @ sep # b) sep = a # Split b sep"
  by (induction a) auto

lemma std_no_dollar: "CHR ''$'' \<notin> set (RawStdEncode bs)"
  using raw_encode_set [OF alphabets(1), of bs] by (auto simp: std_alphabet_def)

lemma decodePasswordPart_encode: "decodePasswordPart (RawStdEncode bs) = Some bs"
  by (simp add: decodePasswordPart_def raw_decode_encode)

lemma verify_encode_hash:
  assumes "8 \<le> length salt" and "16 \<le> length hash" and "length hash \<le> 64"
  shows "VerifyPassword idkey (encode_hash salt hash) password =
    Inr (idkey (bytes_of_string password) salt argonIterations argonMemory argonParallelism (length hash) = hash)"
proof -
  have d: "decimal_digits argonMemory = ''19456''" "decimal_digits argonIterations = ''2''" "decimal_digits argonParallelism = ''1''"
    by (simp add: argonMemory_def argonIterations_def argonParallelism_def decimal_digits.simps, code_simp)+
  have e: "encode_hash salt hash = [] @ CHR ''$'' # ''argon2id'' @ CHR ''$'' # ''v=19'' @ CHR ''$'' #
      ''m=19456,t=2,p=1'' @ CHR ''$'' # RawStdEncode salt @ CHR ''$'' # RawStdEncode hash"
    by (simp add: encode_hash_def d)
  have s: "Split (encode_hash salt hash) CHR ''$'' =
      [[], ''argon2id'', ''v=19'', ''m=19456,t=2,p=1'', RawStdEncode salt, RawStdEncode hash]"
    unfolding e by (subst Split_append, simp add: std_no_dollar)+ (simp add: Split_single std_no_dollar)
  have p: "Split ''m=19456,t=2,p=1'' CHR '','' = [''m=19456'', ''t=2'', ''p=1'']" by simp
  have v: "hash_values [''m=19456'', ''t=2'', ''p=1''] [] = Some [(''p'', 1), (''t'', 2), (''m'', 19456)]"
    by (simp add: Cut_def ParseUint32_def is_digit_def less_eq_char_def)
  show ?thesis
    using assms unfolding VerifyPassword_def s p Let_def
    by (simp add: p v compare_hash_def value_of_def del: hash_values.simps
        add: decodePasswordPart_encode argonMemory_def argonIterations_def argonParallelism_def)
qed

lemma rand_Read_length: "rand_Read env n w = (Inr b, w') \<Longrightarrow> length b = n"
  by (auto simp: rand_Read_def split: option.splits)

lemma HashPasswordE:
  assumes "HashPassword idkey env password w = (Inr h, w')"
  obtains salt where "length salt = 16" and "h = encode_hash salt
    (idkey (bytes_of_string password) salt argonIterations argonMemory argonParallelism argonKeyLength)"
    and "durable w' = durable w" and "view w' = view w" and "tx_world.more w' = tx_world.more w"
proof -
  from assms obtain f where "h = encode_hash (map f [0..<16]) (idkey (bytes_of_string password) (map f [0..<16])
      argonIterations argonMemory argonParallelism argonKeyLength)" "w' = ticked w"
    by (auto simp: HashPassword_def throw_def ret_def rand_Read_def andThen_def split: if_splits option.splits)
  then show thesis by (intro that [of "map f [0..<16]"]) simp_all
qed

text \<open>
  C32. A password hash that \<open>HashPassword\<close> returns verifies against its own password, and
  verifies against another one only if Argon2id maps both to the same key under the hash's salt.
\<close>

theorem hashed_passwords_verify:
  assumes run: "HashPassword idkey env password w = (Inr h, w')"
    and len: "\<And>p s. length (idkey p s argonIterations argonMemory argonParallelism argonKeyLength) = argonKeyLength"
  shows "VerifyPassword idkey h password = Inr True \<and>
    (\<exists>salt. length salt = 16 \<and> (\<forall>other. VerifyPassword idkey h other =
      Inr (idkey (bytes_of_string other) salt argonIterations argonMemory argonParallelism argonKeyLength =
           idkey (bytes_of_string password) salt argonIterations argonMemory argonParallelism argonKeyLength)))"
proof -
  from run obtain salt where s: "length salt = 16" "h = encode_hash salt
      (idkey (bytes_of_string password) salt argonIterations argonMemory argonParallelism argonKeyLength)"
    by (rule HashPasswordE)
  have "VerifyPassword idkey h other =
      Inr (idkey (bytes_of_string other) salt argonIterations argonMemory argonParallelism argonKeyLength =
           idkey (bytes_of_string password) salt argonIterations argonMemory argonParallelism argonKeyLength)" for other
    unfolding s(2) using s(1) len by (subst verify_encode_hash) (simp_all add: argonKeyLength_def)
  with s(1) show ?thesis by auto
qed

text \<open>A key derivation for the witness: the salt and the password, cut and padded to the key's length.\<close>

definition sample_idkey :: idkey where
  "sample_idkey p s t m par n = take n (s @ p @ replicate n 0)"

theorem hashed_passwords_verify_witness:
  "\<exists>h w'. HashPassword sample_idkey sample_env ''Correct-Horse-1'' (tx_world.make () () 0 0) = (Inr h, w') \<and>
     VerifyPassword sample_idkey h ''Correct-Horse-1'' = Inr True"
proof -
  obtain h w' where h: "HashPassword sample_idkey sample_env ''Correct-Horse-1'' (tx_world.make () () 0 0) = (Inr h, w')"
    by (simp add: HashPassword_def MaxPasswordBytes_def rand_Read_def andThen_def ret_def sample_env_def tx_world.make_def)
  have "length (sample_idkey p s argonIterations argonMemory argonParallelism argonKeyLength) = argonKeyLength" for p s
    by (simp add: sample_idkey_def)
  from hashed_passwords_verify [OF h this] h show ?thesis by blast
qed

text \<open>
  C33. Verifying a stored hash only ever runs Argon2id with bounded work: the answer depends on the key
  derivation only at parameters within the limits (memory of at most 65536 KiB, at most 8 passes, at most 4
  lanes, a salt of at least 8 bytes, a key of 16 to 64 bytes), whatever text is stored as the hash.
\<close>

theorem password_work_is_bounded:
  assumes "\<And>p s t m par n. 1 \<le> t \<Longrightarrow> t \<le> 8 \<Longrightarrow> 1 \<le> m \<Longrightarrow> m \<le> 65536 \<Longrightarrow> 1 \<le> par \<Longrightarrow> par \<le> 4 \<Longrightarrow>
      8 \<le> length s \<Longrightarrow> 16 \<le> n \<Longrightarrow> n \<le> 64 \<Longrightarrow> idkey p s t m par n = idkey' p s t m par n"
  shows "VerifyPassword idkey encoded password = VerifyPassword idkey' encoded password"
proof -
  have "compare_hash idkey = compare_hash idkey'"
    unfolding compare_hash_def Let_def by (intro ext) (auto split: option.splits simp: assms not_less Suc_le_eq)
  then show ?thesis unfolding VerifyPassword_def by (simp only:)
qed

theorem password_work_is_bounded_witness:
  "VerifyPassword (\<lambda>p s t m par n. if 8 < t then [] else sample_idkey p s t m par n)
     ''$argon2id$v=19$m=19456,t=4000000000,p=1$AAAAAAAAAAAAAA$AAAAAAAAAAAAAAAAAAAAAA'' ''x'' =
   VerifyPassword sample_idkey ''$argon2id$v=19$m=19456,t=4000000000,p=1$AAAAAAAAAAAAAA$AAAAAAAAAAAAAAAAAAAAAA'' ''x''"
  by (rule password_work_is_bounded) simp

end
