(* ===== verification/Commit_Points.thy ===== *)
theory Commit_Points
  imports Transactions
begin

text \<open>
  What a transaction makes durable, whatever faults it meets: \<open>leads d0 d R m\<close> says of a program
  that runs inside a transaction, on the view \<open>d\<close> over the committed tables \<open>d0\<close>, that
  after it the committed tables are \<open>d0\<close> still or satisfy \<open>R\<close>. The rules follow the
  statements of the program up to its commit, which must establish \<open>R\<close> of the view.
\<close>

named_theorems leads_intros "rules that follow a transaction to its commit"

definition leads :: "'d \<Rightarrow> 'd \<Rightarrow> ('d \<Rightarrow> bool) \<Rightarrow> (('d, 'm) tx_world_scheme, 'a) prog \<Rightarrow> bool" where
  "leads d0 d R m \<longleftrightarrow>
     (\<forall>w. durable w = d0 \<and> view w = d \<longrightarrow> durable (snd (m w)) = d0 \<or> R (durable (snd (m w))))"

lemma leads_keeps: "keeps durable m \<Longrightarrow> leads d0 d R m"
  by (auto simp: leads_def keeps_def)

lemma leads_exits [leads_intros]: "leads d0 d R (ret x)" "leads d0 d R (throw e)" "leads d0 d R (liftResult r)"
  by (simp_all add: leads_def ret_def throw_def liftResult_def)

lemma leads_if [leads_intros]: "(b \<Longrightarrow> leads d0 d R m) \<Longrightarrow> (\<not> b \<Longrightarrow> leads d0 d R m') \<Longrightarrow> leads d0 d R (if b then m else m')"
  by simp

lemma leads_sum [leads_intros]:
  "(\<And>e. r = Inl e \<Longrightarrow> leads d0 d R (f e)) \<Longrightarrow> (\<And>x. r = Inr x \<Longrightarrow> leads d0 d R (g x)) \<Longrightarrow>
   leads d0 d R (case r of Inl e \<Rightarrow> f e | Inr x \<Rightarrow> g x)"
  by (cases r) simp_all

lemma leads_lift [leads_intros]:
  "(\<And>x. r = Inr x \<Longrightarrow> leads d0 d R (f x)) \<Longrightarrow> leads d0 d R (andThen (liftResult r) f)"
  by (auto simp: leads_def andThen_def liftResult_def split: sum.splits)

lemma leads_statement:
  assumes "\<And>ctx x d'. g ctx d = Inr (x, d') \<Longrightarrow> leads d0 d' R (f x)"
  shows "leads d0 d R (andThen (statement env g) f)"
proof -
  have "durable (snd (andThen (statement env g) f w)) = d0 \<or> R (durable (snd (andThen (statement env g) f w)))"
    if w: "durable w = d0" "view w = d" for w
  proof (cases "statement env g w")
    case (Pair r w1)
    have k: "durable w1 = d0" using keepsD [OF keeps_statement_durable Pair] w by simp
    show ?thesis
    proof (cases r)
      case (Inl e)
      then show ?thesis using Pair k by (simp add: andThen_def)
    next
      case (Inr x)
      then obtain ctx where "g ctx d = Inr (x, view w1)" using Pair w(2) by (auto elim!: statement_InrE)
      from assms [OF this] k have "durable (snd (f x w1)) = d0 \<or> R (durable (snd (f x w1)))" by (simp add: leads_def)
      then show ?thesis using Pair Inr by (simp add: andThen_def)
    qed
  qed
  then show ?thesis by (simp add: leads_def)
qed

lemma leads_read [leads_intros]:
  assumes "\<And>x. q d = Inr x \<Longrightarrow> leads d0 d R (f x)"
  shows "leads d0 d R (andThen (statement env (read_only q)) f)"
  by (rule leads_statement) (auto simp: read_only_Inr intro: assms)

lemma leads_exec [leads_intros]:
  assumes "\<And>ctx d'. g ctx d = Inr d' \<Longrightarrow> leads d0 d' R (f ())"
  shows "leads d0 d R (andThen (statement env (exec g)) f)"
  by (rule leads_statement) (auto simp: exec_Inr intro: assms)

lemma leads_exec_rows [leads_intros]:
  assumes "\<And>ctx n d'. g ctx d = Inr (n, d') \<Longrightarrow> leads d0 d' R (f ())"
  shows "leads d0 d R (andThen (statement env (exec_rows g)) f)"
  by (rule leads_statement) (auto simp: exec_rows_Inr intro: assms)

text \<open>A program that touches neither the committed tables nor the view, such as a clock or a random source.\<close>

lemma leads_quiet:
  assumes m: "keeps durable m" "keeps view m" and f: "\<And>x. leads d0 d R (f x)"
  shows "leads d0 d R (andThen m f)"
proof -
  have "durable (snd (andThen m f w)) = d0 \<or> R (durable (snd (andThen m f w)))"
    if w: "durable w = d0" "view w = d" for w
  proof (cases "m w")
    case (Pair r w1)
    have "durable w1 = d0" "view w1 = d" using keepsD [OF m(1) Pair] keepsD [OF m(2) Pair] w by simp_all
    then show ?thesis using f Pair by (auto simp: andThen_def leads_def split: sum.splits)
  qed
  then show ?thesis by (simp add: leads_def)
qed

lemma keeps_view_time_now: "keeps view (time_now env)" and keeps_view_rand: "keeps view (rand_Read env n)"
  by (auto simp: keeps_def time_now_def rand_Read_def split: option.splits)

lemma leads_time_now [leads_intros]: "(\<And>t. leads d0 d R (f t)) \<Longrightarrow> leads d0 d R (andThen (time_now env) f)"
  by (rule leads_quiet) (auto intro: keeps_intros keeps_view_time_now)

lemma leads_Commit [leads_intros]:
  assumes "R d" and "\<And>u. keeps durable (f u)"
  shows "leads d0 d R (andThen (Commit env) f)"
proof -
  have "durable (snd (andThen (Commit env) f w)) = d0 \<or> R (durable (snd (andThen (Commit env) f w)))"
    if w: "durable w = d0" "view w = d" for w
  proof (cases "Commit env w")
    case (Pair r w1)
    have "durable w1 = d0 \<or> durable w1 = d" using Pair w by (auto simp: Commit_def split: fault.splits)
    moreover have "durable (snd (andThen (Commit env) f w)) = durable w1"
      using Pair assms(2) by (auto simp: andThen_def keeps_def split: sum.splits)
    ultimately show ?thesis using assms(1) by auto
  qed
  then show ?thesis by (simp add: leads_def)
qed

lemma leads_Commit_end [leads_intros]: "R d \<Longrightarrow> leads d0 d R (Commit env)"
  by (auto simp: leads_def Commit_def split: fault.splits)

lemma leads_deferred [leads_intros]: "leads d0 d R m \<Longrightarrow> leads d0 d R (deferred m Rollback)"
  by (auto simp: leads_def deferred_def split: prod.splits)

lemma leads_Begin:
  assumes "\<And>d0. leads d0 d0 (R d0) m"
  shows "durable (snd (andThen (pool_Begin env) (\<lambda>_. deferred m Rollback) w)) = durable w \<or>
    R (durable w) (durable (snd (andThen (pool_Begin env) (\<lambda>_. deferred m Rollback) w)))"
proof (cases "fault_at env (tick w)")
  case NoFault
  let ?w = "(ticked w)\<lparr>view := durable w, tx_start := clock_timestamp env (tick w)\<rparr>"
  have "durable (snd (deferred m Rollback ?w)) = durable w \<or> R (durable w) (durable (snd (deferred m Rollback ?w)))"
    using leads_deferred [OF assms [of "durable w"]] by (simp add: leads_def)
  then show ?thesis using NoFault by (simp add: andThen_def pool_Begin_def)
qed (simp_all add: andThen_def pool_Begin_def)

section \<open>What a successful transaction returns\<close>

text \<open>
  \<open>returns d Q m\<close>: on the view \<open>d\<close>, every value \<open>m\<close> returns satisfies
  \<open>Q\<close> together with the tables that are committed by then.
\<close>

named_theorems returns_intros "rules that follow a transaction to the value it returns"

definition returns :: "'d \<Rightarrow> ('a \<Rightarrow> 'd \<Rightarrow> bool) \<Rightarrow> (('d, 'm) tx_world_scheme, 'a) prog \<Rightarrow> bool" where
  "returns d Q m \<longleftrightarrow> (\<forall>w x w'. view w = d \<longrightarrow> m w = (Inr x, w') \<longrightarrow> Q x (durable w'))"

lemma returns_throw [returns_intros]: "returns d Q (throw e)"
  by (simp add: returns_def throw_def)

lemma returns_if [returns_intros]: "(b \<Longrightarrow> returns d Q m) \<Longrightarrow> (\<not> b \<Longrightarrow> returns d Q m') \<Longrightarrow> returns d Q (if b then m else m')"
  by simp

lemma returns_statement:
  assumes "\<And>ctx x d'. g ctx d = Inr (x, d') \<Longrightarrow> returns d' Q (f x)"
  shows "returns d Q (andThen (statement env g) f)"
  using assms unfolding returns_def by (blast elim: andThen_InrE statement_InrE)

lemma returns_read [returns_intros]:
  assumes "\<And>x. q d = Inr x \<Longrightarrow> returns d Q (f x)"
  shows "returns d Q (andThen (statement env (read_only q)) f)"
  by (rule returns_statement) (auto simp: read_only_Inr intro: assms)

lemma returns_exec [returns_intros]:
  assumes "\<And>ctx d'. g ctx d = Inr d' \<Longrightarrow> returns d' Q (f ())"
  shows "returns d Q (andThen (statement env (exec g)) f)"
  by (rule returns_statement) (auto simp: exec_Inr intro: assms)

lemma returns_exec_rows [returns_intros]:
  assumes "\<And>ctx n d'. g ctx d = Inr (n, d') \<Longrightarrow> returns d' Q (f ())"
  shows "returns d Q (andThen (statement env (exec_rows g)) f)"
  by (rule returns_statement) (auto simp: exec_rows_Inr intro: assms)

lemma returns_quiet:
  assumes "keeps view m" and "\<And>x. returns d Q (f x)"
  shows "returns d Q (andThen m f)"
  unfolding returns_def
proof (intro allI impI)
  fix w x w'
  assume w: "view w = d" and r: "andThen m f w = (Inr x, w')"
  from r obtain y w1 where 1: "m w = (Inr y, w1)" "f y w1 = (Inr x, w')" by (rule andThen_InrE)
  have "view w1 = d" using keepsD [OF assms(1) 1(1)] w by simp
  then show "Q x (durable w')" using assms(2) 1(2) by (simp add: returns_def)
qed

lemma returns_time_now [returns_intros]: "(\<And>t. returns d Q (f t)) \<Longrightarrow> returns d Q (andThen (time_now env) f)"
  by (rule returns_quiet) (auto intro: keeps_view_time_now)

lemma returns_Commit [returns_intros]:
  assumes "\<And>w x w'. f () w = (Inr x, w') \<Longrightarrow> Q x d" and "keeps durable (f ())"
  shows "returns d Q (andThen (Commit env) f)"
  unfolding returns_def
proof (intro allI impI)
  fix w x w'
  assume w: "view w = d" and r: "andThen (Commit env) f w = (Inr x, w')"
  from r obtain w1 where 1: "Commit env w = (Inr (), w1)" "f () w1 = (Inr x, w')" by (auto elim!: andThen_InrE)
  have "durable w' = d" using keepsD [OF assms(2) 1(2)] 1(1) w by (auto elim!: Commit_InrE)
  then show "Q x (durable w')" using assms(1) 1(2) by simp
qed

lemma returns_Begin:
  assumes m: "\<And>d. returns d (Q d) m" and run: "andThen (pool_Begin env) (\<lambda>_. deferred m Rollback) w = (Inr x, w')"
  shows "Q (durable w) x (durable w')"
proof -
  let ?w = "(ticked w)\<lparr>view := durable w, tx_start := clock_timestamp env (tick w)\<rparr>"
  from run obtain w2 where "m ?w = (Inr x, w2)" "w' = Rollback w2"
    by (auto simp: pool_Begin_def deferred_def split: fault.splits prod.splits elim!: andThen_InrE)
  moreover have "view ?w = durable w" by simp
  ultimately show ?thesis using m [of "durable w"] unfolding returns_def by (metis Rollback_simps(1))
qed

end
