(* ===== verification/Auth_Service.thy ===== *)
theory Auth_Service
  imports Jwt Password Commit_Points Sha256
begin

text \<open>
  Authentication (\<open>internal/auth/service.go\<close>): login with a password, rotation of the refresh token with
  detection of reuse, logout and change of the password. The effects of every call on the tables are the
  steps of \<open>auth_step\<close>; what holds of the sessions follows from the steps alone.
\<close>

section \<open>The service\<close>

definition dummyPasswordHash :: string where
  "dummyPasswordHash = ''$argon2id$v=19$m=19456,t=2,p=1$a5cSmLw26Ij1Grx1duyRbg$4TkbMQuIpUQA9uLWupb1Hz87cmt/Na1GIAD9hf97qWk''"

definition ErrInvalidCredentials :: go_error where
  "ErrInvalidCredentials = PlainError ''invalid credentials''"

definition ErrInvalidRefresh :: go_error where
  "ErrInvalidRefresh = PlainError ''invalid refresh token''"

definition ErrInvalidPassword :: go_error where
  "ErrInvalidPassword = PlainError ''invalid current password''"

record auth_service =
  as_signer :: Signer
  as_sign :: "bytes \<Rightarrow> bytes \<Rightarrow> bytes"
  as_idkey :: idkey
  as_unicode :: unicode_classes

text \<open>
  \<open>strings.ToLower(strings.TrimSpace(value))\<close>. The result is compared with stored usernames, which
  are ASCII: of the runes above 127 only U+212A and U+0130 have a lower case there, the others are left as
  they are.
\<close>

fun lower_username :: "string \<Rightarrow> string" where
  "lower_username s =
     (case s of
        [] \<Rightarrow> []
      | c # s' \<Rightarrow>
          if starts_with [CHR 0xE2, CHR 0x84, CHR 0xAA] s then CHR ''k'' # lower_username (drop 3 s)
          else if starts_with [CHR 0xC4, CHR 0xB0] s then CHR ''i'' # lower_username (drop 2 s)
          else lower_char c # lower_username s')"

declare lower_username.simps [simp del]

definition normalizeUsername :: "string \<Rightarrow> string" where
  "normalizeUsername value = lower_username (TrimSpace value)"

definition newRefreshToken :: "environment \<Rightarrow> (('d, 'm) tx_world_scheme, string) prog" where
  "newRefreshToken env = andThen (rand_Read env 32) (\<lambda>b. ret (RawURLEncode b))"

definition tokenHash :: "string \<Rightarrow> bytes" where
  "tokenHash token = Sum256 (bytes_of_string token)"

definition user_event :: "string \<Rightarrow> string \<Rightarrow> UserRecord \<Rightarrow> string \<Rightarrow> string \<Rightarrow> (string \<times> string) list option \<Rightarrow> AuditEvent" where
  "user_event event outcome user sessionID requestID details =
     \<lparr>ae_EventType = event, ae_Outcome = outcome, ae_ActorID = ur_ID user, ae_SubjectID = ur_ID user,
      ae_EntityID = ur_EntityID user, ae_SessionID = sessionID, ae_RequestID = requestID, ae_Details = details\<rparr>"

definition anonymous_event :: "string \<Rightarrow> string \<Rightarrow> string \<Rightarrow> (string \<times> string) list option \<Rightarrow> AuditEvent" where
  "anonymous_event event outcome requestID details =
     \<lparr>ae_EventType = event, ae_Outcome = outcome, ae_ActorID = '''', ae_SubjectID = '''', ae_EntityID = '''',
      ae_SessionID = '''', ae_RequestID = requestID, ae_Details = details\<rparr>"

text \<open>An audited refusal: the event is committed and the call fails.\<close>

definition refuse :: "environment \<Rightarrow> AuditEvent \<Rightarrow> go_error \<Rightarrow> ('m control_world_scheme, 'a) prog" where
  "refuse env event err = andThen (RecordAudit env event) (\<lambda>_. andThen (Commit env) (\<lambda>_. throw err))"

text \<open>The value or the error of a call whose error is inspected.\<close>

definition attempt :: "('s, 'a) prog \<Rightarrow> ('s, 'a result) prog" where
  "attempt m = (\<lambda>s. case m s of (r, s') \<Rightarrow> (Inr r, s'))"

definition open_session :: "auth_service \<Rightarrow> environment \<Rightarrow> UserRecord \<Rightarrow> string \<Rightarrow>
    ('m control_world_scheme, TokenResponse \<times> string \<times> time) prog" where
  "open_session svc env user requestID =
     andThen (jwt_newUUID env) (\<lambda>sessionID.
     andThen (newRefreshToken env) (\<lambda>rawToken.
     andThen (CreateSession env sessionID (ur_ID user) (ur_AuthVersion user)) (\<lambda>expiresAt.
     andThen (jwt_newUUID env) (\<lambda>refreshID.
     andThen (CreateRefreshToken env refreshID sessionID (tokenHash rawToken) '''' expiresAt) (\<lambda>_.
     andThen (RecordAudit env (user_event ''login'' ''succeeded'' user sessionID requestID None)) (\<lambda>_.
     andThen (Commit env) (\<lambda>_.
     andThen (Issue (as_sign svc) env (as_signer svc) user sessionID) (\<lambda>response.
     ret (response, rawToken, expiresAt)))))))))"

definition Login :: "auth_service \<Rightarrow> environment \<Rightarrow> string \<Rightarrow> string \<Rightarrow> string \<Rightarrow>
    ('m control_world_scheme, TokenResponse \<times> string \<times> time) prog" where
  "Login svc env username password requestID =
     auth_transaction env
     (andThen (attempt (UserByUsername env (normalizeUsername username))) (\<lambda>found.
      let unknown = andThen (liftResult (VerifyPassword (as_idkey svc) dummyPasswordHash password)) (\<lambda>_.
            refuse env (anonymous_event ''login'' ''failed'' requestID (Some [(''reason'', ''invalid_credentials'')])) ErrInvalidCredentials)
      in case found of
           Inl e \<Rightarrow> unknown
         | Inr user \<Rightarrow>
             if ur_Status user \<noteq> ''enabled'' then unknown
             else andThen (liftResult (VerifyPassword (as_idkey svc) (ur_PasswordHash user) password)) (\<lambda>valid.
               if \<not> valid then
                 refuse env (user_event ''login'' ''failed'' user '''' requestID (Some [(''reason'', ''invalid_credentials'')])) ErrInvalidCredentials
               else open_session svc env user requestID)))"

definition recordUnknownRefresh :: "environment \<Rightarrow> string \<Rightarrow> ('m control_world_scheme, unit) prog" where
  "recordUnknownRefresh env requestID =
     auth_transaction env
     (andThen (RecordAudit env (anonymous_event ''refresh'' ''failed'' requestID (Some [(''reason'', ''invalid_refresh_token'')]))) (\<lambda>_.
      Commit env))"

definition refusable :: "UserRecord \<Rightarrow> SessionRecord \<Rightarrow> RefreshTokenRecord \<Rightarrow> time \<Rightarrow> bool" where
  "refusable user session token now \<longleftrightarrow>
     rt_Consumed token \<or> sr_Revoked session \<or> ur_Status user \<noteq> ''enabled'' \<or> ur_AuthVersion user \<noteq> sr_AuthVersion session \<or>
     \<not> now < sr_ExpiresAt session \<or> \<not> now < rt_ExpiresAt token"

definition refuse_refresh :: "environment \<Rightarrow> UserRecord \<Rightarrow> SessionRecord \<Rightarrow> RefreshTokenRecord \<Rightarrow> time \<Rightarrow> string \<Rightarrow>
    ('m control_world_scheme, 'a) prog" where
  "refuse_refresh env user session token now requestID =
     (if rt_Consumed token \<and> \<not> sr_Revoked session
      then andThen (RevokeSession env (sr_ID session) now ''refresh_token_reuse'') (\<lambda>_.
        refuse env (user_event ''refresh_replay'' ''rejected'' user (sr_ID session) requestID None) ErrInvalidRefresh)
      else refuse env (user_event ''refresh'' ''failed'' user (sr_ID session) requestID
        (Some [(''reason'', ''invalid_refresh_token'')])) ErrInvalidRefresh)"

definition rotate_token :: "auth_service \<Rightarrow> environment \<Rightarrow> UserRecord \<Rightarrow> SessionRecord \<Rightarrow> RefreshTokenRecord \<Rightarrow> time \<Rightarrow> string \<Rightarrow>
    ('m control_world_scheme, TokenResponse \<times> string \<times> time) prog" where
  "rotate_token svc env user session token now requestID =
     andThen (newRefreshToken env) (\<lambda>newToken.
     andThen (ConsumeRefreshToken env (rt_ID token) now) (\<lambda>_.
     andThen (TouchSession env (sr_ID session) now) (\<lambda>_.
     andThen (jwt_newUUID env) (\<lambda>refreshID.
     andThen (CreateRefreshToken env refreshID (sr_ID session) (tokenHash newToken) (rt_ID token) (sr_ExpiresAt session)) (\<lambda>_.
     andThen (RecordAudit env (user_event ''refresh'' ''succeeded'' user (sr_ID session) requestID None)) (\<lambda>_.
     andThen (Commit env) (\<lambda>_.
     andThen (Issue (as_sign svc) env (as_signer svc) user (sr_ID session)) (\<lambda>response.
     ret (response, newToken, sr_ExpiresAt session)))))))))"

text \<open>The transaction of a refresh, after the lookup of the token.\<close>

definition refresh_with :: "auth_service \<Rightarrow> environment \<Rightarrow> RefreshLookup \<Rightarrow> string \<Rightarrow>
    ('m control_world_scheme, TokenResponse \<times> string \<times> time) prog" where
  "refresh_with svc env lookup requestID =
     auth_transaction env
     (andThen (UserByID env (rl_UserID lookup)) (\<lambda>user.
      andThen (auth_Session env (rl_SessionID lookup)) (\<lambda>session.
      andThen (auth_RefreshToken env (rl_TokenID lookup) (rl_SessionID lookup)) (\<lambda>token.
      andThen (time_now env) (\<lambda>now.
      if refusable user session token now then refuse_refresh env user session token now requestID
      else rotate_token svc env user session token now requestID)))))"

definition Refresh :: "auth_service \<Rightarrow> environment \<Rightarrow> string \<Rightarrow> string \<Rightarrow>
    ('m control_world_scheme, TokenResponse \<times> string \<times> time) prog" where
  "Refresh svc env rawToken requestID =
     andThen (attempt (LookupRefresh env (tokenHash rawToken))) (\<lambda>found.
     case found of
       Inl e \<Rightarrow> if e = auth_ErrNotFound then andThen (recordUnknownRefresh env requestID) (\<lambda>_. throw ErrInvalidRefresh) else throw e
     | Inr lookup \<Rightarrow> refresh_with svc env lookup requestID)"

definition logout_with :: "environment \<Rightarrow> RefreshLookup \<Rightarrow> string \<Rightarrow> ('m control_world_scheme, unit) prog" where
  "logout_with env lookup requestID =
     auth_transaction env
     (andThen (UserByID env (rl_UserID lookup)) (\<lambda>user.
      andThen (auth_Session env (rl_SessionID lookup)) (\<lambda>session.
      andThen (auth_RefreshToken env (rl_TokenID lookup) (rl_SessionID lookup)) (\<lambda>_.
      if \<not> sr_Revoked session then
        andThen (time_now env) (\<lambda>now.
        andThen (RevokeSession env (sr_ID session) now ''logout'') (\<lambda>_.
        andThen (RecordAudit env (user_event ''logout'' ''succeeded'' user (sr_ID session) requestID None)) (\<lambda>_.
        Commit env)))
      else Commit env))))"

definition Logout :: "environment \<Rightarrow> string \<Rightarrow> string \<Rightarrow> ('m control_world_scheme, unit) prog" where
  "Logout env rawToken requestID =
     andThen (attempt (LookupRefresh env (tokenHash rawToken))) (\<lambda>found.
     case found of
       Inl e \<Rightarrow> if e = auth_ErrNotFound then ret () else throw e
     | Inr lookup \<Rightarrow> logout_with env lookup requestID)"

definition ChangePassword :: "auth_service \<Rightarrow> environment \<Rightarrow> Claims \<Rightarrow> string \<Rightarrow> string \<Rightarrow> string \<Rightarrow>
    ('m control_world_scheme, unit) prog" where
  "ChangePassword svc env claims currentPassword newPassword requestID =
     andThen (liftResult (ValidateNewPassword (as_unicode svc) newPassword)) (\<lambda>_.
     auth_transaction env
     (andThen (attempt (UserByID env (clm_UserID claims))) (\<lambda>found.
      let reason = Some [(''reason'', ''invalid_current_password'')] in
      case found of
        Inl e \<Rightarrow>
          if e = auth_ErrNotFound then refuse env (anonymous_event ''password_change'' ''rejected'' requestID reason) ErrInvalidPassword
          else throw e
      | Inr user \<Rightarrow>
          if ur_Status user \<noteq> ''enabled'' then refuse env (user_event ''password_change'' ''rejected'' user '''' requestID reason) ErrInvalidPassword
          else andThen (liftResult (VerifyPassword (as_idkey svc) (ur_PasswordHash user) currentPassword)) (\<lambda>valid.
            if \<not> valid then refuse env (user_event ''password_change'' ''failed'' user '''' requestID reason) ErrInvalidPassword
            else andThen (HashPassword (as_idkey svc) env newPassword) (\<lambda>hash.
              andThen (UpdatePassword env (ur_ID user) hash) (\<lambda>_.
              andThen (RecordAudit env (user_event ''password_change'' ''succeeded'' user '''' requestID None)) (\<lambda>_.
              Commit env)))))))"

end
