(* ===== verification/Auth_Sessions.thy ===== *)
theory Auth_Sessions
  imports Auth_Service
begin

text \<open>
  What authentication guarantees of sessions. \<open>auth_step\<close> lists the changes of the tables a call can
  commit; every call of the service, under every fault, commits one of them or nothing. The properties of
  sessions and refresh tokens are then proved by rule induction over the steps.
\<close>

section \<open>The steps\<close>

inductive auth_step :: "control_db \<Rightarrow> control_db \<Rightarrow> bool" where
  audited: "users d' = users d \<Longrightarrow> auth_sessions d' = auth_sessions d \<Longrightarrow> refresh_tokens d' = refresh_tokens d \<Longrightarrow>
    auth_step d d'"
| opened: "u \<in> set (users d) \<Longrightarrow> usr_status u = ''enabled'' \<Longrightarrow>
    ses_user s = usr_id u \<Longrightarrow> ses_auth_version s = usr_auth_version u \<Longrightarrow> ses_revoked_at s = None \<Longrightarrow>
    ses_expires_at s = ses_created_at s + session_lifetime \<Longrightarrow> ses_id s \<notin> ses_id ` set (auth_sessions d) \<Longrightarrow>
    tok_session t = ses_id s \<Longrightarrow> tok_parent t = None \<Longrightarrow> tok_consumed_at t = None \<Longrightarrow> tok_expires_at t = ses_expires_at s \<Longrightarrow>
    tok_id t \<notin> tok_id ` set (refresh_tokens d) \<Longrightarrow> tok_hash t \<notin> tok_hash ` set (refresh_tokens d) \<Longrightarrow>
    users d' = users d \<Longrightarrow> auth_sessions d' = auth_sessions d @ [s] \<Longrightarrow> refresh_tokens d' = refresh_tokens d @ [t] \<Longrightarrow>
    auth_step d d'"
| rotated: "u \<in> set (users d) \<Longrightarrow> usr_status u = ''enabled'' \<Longrightarrow> s \<in> set (auth_sessions d) \<Longrightarrow> ses_user s = usr_id u \<Longrightarrow>
    ses_auth_version s = usr_auth_version u \<Longrightarrow> ses_revoked_at s = None \<Longrightarrow>
    t \<in> set (refresh_tokens d) \<Longrightarrow> tok_session t = ses_id s \<Longrightarrow> tok_consumed_at t = None \<Longrightarrow>
    now < ses_expires_at s \<Longrightarrow> now < tok_expires_at t \<Longrightarrow>
    tok_session t' = ses_id s \<Longrightarrow> tok_consumed_at t' = None \<Longrightarrow> tok_expires_at t' = ses_expires_at s \<Longrightarrow>
    tok_id t' \<notin> tok_id ` set (refresh_tokens d) \<Longrightarrow> tok_hash t' \<notin> tok_hash ` set (refresh_tokens d) \<Longrightarrow>
    users d' = users d \<Longrightarrow>
    auth_sessions d' = update_where (\<lambda>x. ses_id x = ses_id s) (\<lambda>x. x\<lparr>ses_last_refreshed_at := now\<rparr>) (auth_sessions d) \<Longrightarrow>
    refresh_tokens d' = update_where (\<lambda>x. tok_id x = tok_id t \<and> tok_consumed_at x = None)
      (\<lambda>x. x\<lparr>tok_consumed_at := Some now\<rparr>) (refresh_tokens d) @ [t'] \<Longrightarrow>
    auth_step d d'"
| revoked: "s \<in> set (auth_sessions d) \<Longrightarrow> ses_revoked_at s = None \<Longrightarrow> users d' = users d \<Longrightarrow>
    auth_sessions d' = update_where (\<lambda>x. ses_id x = ses_id s \<and> ses_revoked_at x = None)
      (\<lambda>x. x\<lparr>ses_revoked_at := Some at, ses_revocation_reason := Some reason\<rparr>) (auth_sessions d) \<Longrightarrow>
    refresh_tokens d' = refresh_tokens d \<Longrightarrow> auth_step d d'"
| password: "u \<in> set (users d) \<Longrightarrow> usr_status u = ''enabled'' \<Longrightarrow>
    users d' = update_where (\<lambda>x. usr_id x = usr_id u)
      (\<lambda>x. guard_user clock x (x\<lparr>usr_password_hash := hash, usr_updated_by := Some (usr_id u)\<rparr>)) (users d) \<Longrightarrow>
    auth_sessions d' = auth_sessions d \<Longrightarrow> refresh_tokens d' = refresh_tokens d \<Longrightarrow> auth_step d d'"

inductive_cases auth_stepE: "auth_step d d'"

section \<open>Following the programs to their commits\<close>

lemma insert_auth_audit_Inr:
  "insert_auth_audit a d = Inr d' \<Longrightarrow> d' = d\<lparr>authentication_audit_events := authentication_audit_events d @ [a]\<rparr>"
  by (simp add: insert_auth_audit_def checked_Inr)

lemma insert_session_Inr:
  assumes "insert_session s d = Inr d'"
  shows "d' = d\<lparr>auth_sessions := auth_sessions d @ [s]\<rparr>" and "ses_id s \<notin> ses_id ` set (auth_sessions d)"
  using assms by (simp_all add: insert_session_def checked_Inr no_key_iff)

lemma insert_token_Inr:
  assumes "insert_token t d = Inr d'"
  shows "d' = d\<lparr>refresh_tokens := refresh_tokens d @ [t]\<rparr>" and "tok_id t \<notin> tok_id ` set (refresh_tokens d)"
    and "tok_hash t \<notin> tok_hash ` set (refresh_tokens d)"
  using assms by (simp_all add: insert_token_def checked_Inr no_key_iff)

lemma update_sessions_Inr:
  "update_sessions P f d = Inr (n, d') \<Longrightarrow> d' = d\<lparr>auth_sessions := update_where P f (auth_sessions d)\<rparr>"
  by (auto simp: update_sessions_def map_sum_Inr_iff guarded_update_Inr)

lemma update_tokens_Inr:
  "update_tokens P f d = Inr (n, d') \<Longrightarrow> d' = d\<lparr>refresh_tokens := update_where P f (refresh_tokens d)\<rparr>"
  by (auto simp: update_tokens_def map_sum_Inr_iff guarded_update_Inr)

lemma update_users_Inr:
  "update_users c P f d = Inr (n, d') \<Longrightarrow> d' = d\<lparr>users := update_where P (\<lambda>old. guard_user c old (f old)) (users d)\<rparr>"
  by (auto simp: update_users_def map_sum_Inr_iff guarded_update_Inr)

lemma scanUser_Inr:
  "scanUser found = Inr user \<Longrightarrow> \<exists>u. found = Some u \<and> ur_ID user = usr_id u \<and> ur_Status user = usr_status u \<and>
     ur_AuthVersion user = usr_auth_version u \<and> ur_PasswordHash user = usr_password_hash u"
  by (auto simp: scanUser_def split: option.splits)

lemma keeps_Issue: "keeps durable (Issue sign env signer user sid)"
  unfolding Issue_def jwt_newUUID_def Let_def by (intro keeps_intros)

lemma leads_newUUID [leads_intros]: "(\<And>x. leads d0 d R (f x)) \<Longrightarrow> leads d0 d R (andThen (jwt_newUUID env) f)"
  by (rule leads_quiet)
    (auto simp: keeps_def jwt_newUUID_def andThen_def rand_Read_def ret_def split: option.splits)

lemma leads_newRefreshToken [leads_intros]: "(\<And>x. leads d0 d R (f x)) \<Longrightarrow> leads d0 d R (andThen (newRefreshToken env) f)"
  by (rule leads_quiet)
    (auto simp: keeps_def newRefreshToken_def andThen_def rand_Read_def ret_def split: option.splits)

lemma leads_HashPassword [leads_intros]: "(\<And>x. leads d0 d R (f x)) \<Longrightarrow> leads d0 d R (andThen (HashPassword k env p) f)"
  by (rule leads_quiet)
    (auto simp: keeps_def HashPassword_def andThen_def rand_Read_def ret_def throw_def split: option.splits)

lemma leads_attempt_read [leads_intros]:
  assumes "\<And>e. leads d0 d R (f (Inl e))" and "\<And>x. q d = Inr x \<Longrightarrow> leads d0 d R (f (Inr x))"
  shows "leads d0 d R (andThen (attempt (statement env (read_only q))) f)"
proof -
  have "durable (snd (andThen (attempt (statement env (read_only q))) f w)) = d0 \<or>
      R (durable (snd (andThen (attempt (statement env (read_only q))) f w)))"
    if w: "durable w = d0" "view w = d" for w
  proof (cases "statement env (read_only q) w")
    case (Pair r w1)
    have k: "durable w1 = d0" "view w1 = d" "\<And>x. r = Inr x \<Longrightarrow> q d = Inr x"
      using Pair w by (auto simp: statement_def read_only_def map_sum_Inr_iff split: fault.splits sum.splits)
    have "leads d0 d R (f r)" using assms k(3) by (cases r) auto
    then show ?thesis using Pair k(1,2) by (simp add: andThen_def attempt_def leads_def)
  qed
  then show ?thesis by (simp add: leads_def)
qed

lemma leads_refuse [leads_intros]:
  "(\<And>a. R (d\<lparr>authentication_audit_events := a\<rparr>)) \<Longrightarrow> leads d0 d R (refuse env event err)"
  unfolding refuse_def RecordAudit_def
  by (intro leads_intros keeps_intros) (auto dest!: insert_auth_audit_Inr)

lemma auth_step_audit: "auth_step d (d\<lparr>authentication_audit_events := a\<rparr>)"
  by (rule auth_step.audited) simp_all

lemma leads_CreateSession [leads_intros]:
  assumes "\<And>ctx d'. insert_session (new_session sid uid v ctx) d = Inr d' \<Longrightarrow>
      leads d0 d' R (f (ses_expires_at (new_session sid uid v ctx)))"
  shows "leads d0 d R (andThen (CreateSession env sid uid v) f)"
  unfolding CreateSession_def by (rule leads_statement) (auto simp: map_sum_Inr_iff intro: assms)

lemma leads_open_session:
  assumes u: "u \<in> set (users d)" "usr_status u = ''enabled''" "ur_ID user = usr_id u" "ur_AuthVersion user = usr_auth_version u"
  shows "leads d d (auth_step d) (open_session svc env user requestID)"
  unfolding open_session_def CreateRefreshToken_def RecordAudit_def
proof (intro leads_intros keeps_intros keeps_Issue)
  fix sid raw ctx d1 rid ctx2 d2 ctx3 d3
  assume 1: "insert_session (new_session sid (ur_ID user) (ur_AuthVersion user) ctx) d = Inr d1"
    and 2: "insert_token (new_token rid sid (tokenHash raw) ''''
      (ses_expires_at (new_session sid (ur_ID user) (ur_AuthVersion user) ctx)) ctx2) d1 = Inr d2"
    and 3: "insert_auth_audit (audit_row_of_event (user_event ''login'' ''succeeded'' user sid requestID None) ctx3) d2 = Inr d3"
  show "auth_step d d3"
    using u insert_session_Inr [OF 1] insert_token_Inr [OF 2] insert_auth_audit_Inr [OF 3]
    by (intro auth_step.opened [of u d "new_session sid (ur_ID user) (ur_AuthVersion user) ctx"
          "new_token rid sid (tokenHash raw) '''' (ses_expires_at (new_session sid (ur_ID user) (ur_AuthVersion user) ctx)) ctx2" d3])
      (simp_all add: new_session_def new_token_def)
qed

lemma Login_steps:
  fixes w :: "'m control_world_scheme"
  shows "durable (snd (Login svc env username password requestID w)) = durable w \<or>
   auth_step (durable w) (durable (snd (Login svc env username password requestID w)))"
  unfolding Login_def auth_transaction_def auth_Begin_def UserByUsername_def Let_def
  by (rule leads_Begin [where R = auth_step], intro leads_intros auth_step_audit)
    (auto dest!: scanUser_Inr query_row_Some intro!: leads_open_session)

lemma session_record_Inr:
  "(case found of None \<Rightarrow> Inl auth_ErrNotFound | Some s \<Rightarrow> Inr (session_record s)) = Inr session \<longleftrightarrow>
   (\<exists>s. found = Some s \<and> session = session_record s)"
  by (auto split: option.splits)

lemma token_record_Inr:
  "(case found of None \<Rightarrow> Inl auth_ErrNotFound | Some t \<Rightarrow> Inr (token_record t)) = Inr token \<longleftrightarrow>
   (\<exists>t. found = Some t \<and> token = token_record t)"
  by (auto split: option.splits)

lemma leads_refuse_refresh:
  assumes s: "s \<in> set (auth_sessions d)"
  shows "leads d d (auth_step d) (refuse_refresh env user (session_record s) token now requestID)"
  unfolding refuse_refresh_def RevokeSession_def
  by (intro leads_intros auth_step_audit)
    (auto dest!: update_sessions_Inr intro!: auth_step.revoked [OF s] simp: session_record_def)

lemma image_update_where: "(\<And>r. f (g r) = f r) \<Longrightarrow> f ` set (update_where P g rows) = f ` set rows"
  unfolding update_where_def by (induction rows) auto

lemma leads_rotate:
  assumes u: "u \<in> set (users d)" "ur_ID user = usr_id u" "ur_Status user = usr_status u" "ur_AuthVersion user = usr_auth_version u"
    and s: "s \<in> set (auth_sessions d)" "ses_user s = usr_id u"
    and t: "t \<in> set (refresh_tokens d)" "tok_session t = ses_id s"
    and ok: "\<not> refusable user (session_record s) (token_record t) now"
  shows "leads d d (auth_step d) (rotate_token svc env user (session_record s) (token_record t) now requestID)"
  unfolding rotate_token_def ConsumeRefreshToken_def TouchSession_def CreateRefreshToken_def RecordAudit_def
proof (intro leads_intros keeps_intros keeps_Issue)
  fix raw n1 d1 n2 d2 rid ctx d3 ctx2 d4
  assume 1: "update_tokens (\<lambda>x. tok_id x = rt_ID (token_record t) \<and> tok_consumed_at x = None)
      (\<lambda>x. x\<lparr>tok_consumed_at := Some now\<rparr>) d = Inr (n1, d1)"
    and 2: "update_sessions (\<lambda>x. ses_id x = sr_ID (session_record s)) (\<lambda>x. x\<lparr>ses_last_refreshed_at := now\<rparr>) d1 = Inr (n2, d2)"
    and 3: "insert_token (new_token rid (sr_ID (session_record s)) (tokenHash raw) (rt_ID (token_record t))
      (sr_ExpiresAt (session_record s)) ctx) d2 = Inr d3"
    and 4: "insert_auth_audit (audit_row_of_event (user_event ''refresh'' ''succeeded'' user (sr_ID (session_record s)) requestID None) ctx2) d3 = Inr d4"
  note e = update_tokens_Inr [OF 1] update_sessions_Inr [OF 2] insert_token_Inr [OF 3] insert_auth_audit_Inr [OF 4]
  show "auth_step d d4"
    using u s t ok e
    by (intro auth_step.rotated [of u d s t now
          "new_token rid (sr_ID (session_record s)) (tokenHash raw) (rt_ID (token_record t)) (sr_ExpiresAt (session_record s)) ctx" d4])
      (simp_all add: new_token_def refusable_def session_record_def token_record_def image_update_where)
qed

lemma refresh_with_steps:
  fixes w :: "'m control_world_scheme"
  assumes lk: "\<And>s. query_row (\<lambda>s. ses_id s = rl_SessionID lookup) (auth_sessions (durable w)) = Some s \<Longrightarrow> ses_user s = rl_UserID lookup"
  shows "durable (snd (refresh_with svc env lookup requestID w)) = durable w \<or>
    auth_step (durable w) (durable (snd (refresh_with svc env lookup requestID w)))"
proof -
  define ok where "ok d \<longleftrightarrow> (\<forall>s. query_row (\<lambda>s. ses_id s = rl_SessionID lookup) (auth_sessions d) = Some s \<longrightarrow> ses_user s = rl_UserID lookup)" for d :: control_db
  define R where "R d d' \<longleftrightarrow> (ok d \<longrightarrow> auth_step d d')" for d d'
  have "durable (snd (refresh_with svc env lookup requestID w)) = durable w \<or>
      R (durable w) (durable (snd (refresh_with svc env lookup requestID w)))"
    unfolding refresh_with_def auth_transaction_def auth_Begin_def UserByID_def auth_Session_def auth_RefreshToken_def
  proof (rule leads_Begin, intro leads_intros)
    fix d :: control_db and user session token now
    assume "scanUser (query_row (\<lambda>u. usr_id u = rl_UserID lookup) (users d)) = Inr user"
      and "(case query_row (\<lambda>s. ses_id s = rl_SessionID lookup) (auth_sessions d) of None \<Rightarrow> Inl auth_ErrNotFound
          | Some s \<Rightarrow> Inr (session_record s)) = Inr session"
      and "(case query_row (\<lambda>t. tok_id t = rl_TokenID lookup \<and> tok_session t = rl_SessionID lookup) (refresh_tokens d) of
          None \<Rightarrow> Inl auth_ErrNotFound | Some t \<Rightarrow> Inr (token_record t)) = Inr token"
    then obtain u s t where u: "query_row (\<lambda>u. usr_id u = rl_UserID lookup) (users d) = Some u" "ur_ID user = usr_id u"
        "ur_Status user = usr_status u" "ur_AuthVersion user = usr_auth_version u"
      and s: "query_row (\<lambda>s. ses_id s = rl_SessionID lookup) (auth_sessions d) = Some s" "session = session_record s"
      and t: "query_row (\<lambda>t. tok_id t = rl_TokenID lookup \<and> tok_session t = rl_SessionID lookup) (refresh_tokens d) = Some t"
        "token = token_record t"
      unfolding session_record_Inr token_record_Inr by (auto dest!: scanUser_Inr)
    note q = query_row_Some [OF u(1)] query_row_Some [OF s(1)] query_row_Some [OF t(1)]
    have RI: "leads d d (auth_step d) m \<Longrightarrow> leads d d (R d) m" for m :: "('m control_world_scheme, TokenResponse \<times> string \<times> time) prog"
      by (auto simp: leads_def R_def)
    show "leads d d (R d) (refuse_refresh env user session token now requestID :: ('m control_world_scheme, TokenResponse \<times> string \<times> time) prog)"
      unfolding s(2) using q by (intro RI leads_refuse_refresh) simp
    assume "\<not> refusable user session token now"
    then show "leads d d (R d) (rotate_token svc env user session token now requestID :: ('m control_world_scheme, TokenResponse \<times> string \<times> time) prog)"
      using q u(2-4) s t leads_rotate [of u d user s t now svc env requestID]
      by (cases "ok d") (auto simp: ok_def R_def leads_def)
  qed
  then show ?thesis using lk by (auto simp: R_def ok_def)
qed

text \<open>The lookup before the transaction: its user is the user of its session.\<close>

lemma attempt_pool:
  assumes "attempt (LookupRefresh env hash) w = (r, w')"
  shows "\<exists>found. r = Inr found \<and> durable w' = durable w \<and> (\<forall>lookup. found = Inr lookup \<longrightarrow> find_refresh hash (durable w) = Some lookup)"
  using assms
  by (auto simp: attempt_def LookupRefresh_def pool_QueryRow_def split: fault.splits option.splits)

lemma find_refreshD:
  assumes "find_refresh hash d = Some lookup"
  obtains t s where "query_row (\<lambda>t. tok_hash t = hash) (refresh_tokens d) = Some t"
    and "query_row (\<lambda>s. ses_id s = tok_session t) (auth_sessions d) = Some s"
    and "lookup = \<lparr>rl_TokenID = tok_id t, rl_SessionID = tok_session t, rl_UserID = ses_user s\<rparr>"
  using assms by (auto simp: find_refresh_def split: option.splits)

lemma recordUnknownRefresh_steps:
  "durable (snd (recordUnknownRefresh env requestID w)) = durable w \<or>
   auth_step (durable w) (durable (snd (recordUnknownRefresh env requestID w)))"
  unfolding recordUnknownRefresh_def auth_transaction_def auth_Begin_def RecordAudit_def
  by (rule leads_Begin [where R = auth_step], intro leads_intros)
    (auto dest!: insert_auth_audit_Inr intro: auth_step_audit)

lemma logout_with_steps:
  "durable (snd (logout_with env lookup requestID w)) = durable w \<or>
   auth_step (durable w) (durable (snd (logout_with env lookup requestID w)))"
  unfolding logout_with_def auth_transaction_def auth_Begin_def UserByID_def auth_Session_def auth_RefreshToken_def
    RecordAudit_def RevokeSession_def
proof (rule leads_Begin [where R = auth_step], intro leads_intros, unfold session_record_Inr)
  fix d user session token ctx n d1 ctx2 d2 and at :: time
  assume "\<exists>s. query_row (\<lambda>s. ses_id s = rl_SessionID lookup) (auth_sessions d) = Some s \<and> session = session_record s"
    and r: "\<not> sr_Revoked session"
    and 1: "update_sessions (\<lambda>s. ses_id s = sr_ID session \<and> ses_revoked_at s = None)
      (\<lambda>s. s\<lparr>ses_revoked_at := Some at, ses_revocation_reason := Some ''logout''\<rparr>) d = Inr (n, d1)"
    and 2: "insert_auth_audit (audit_row_of_event (user_event ''logout'' ''succeeded'' user (sr_ID session) requestID None) ctx2) d1 = Inr d2"
  then obtain s where s: "s \<in> set (auth_sessions d)" "session = session_record s" by (auto dest: query_row_Some)
  show "auth_step d d2"
    using s r update_sessions_Inr [OF 1] insert_auth_audit_Inr [OF 2]
    by (intro auth_step.revoked [OF s(1)]) (simp_all add: session_record_def)
qed (auto intro: auth_step.audited)

lemma ChangePassword_steps:
  fixes w :: "'m control_world_scheme"
  shows "durable (snd (ChangePassword svc env claims cur new requestID w)) = durable w \<or>
    auth_step (durable w) (durable (snd (ChangePassword svc env claims cur new requestID w)))"
proof -
  let ?tx = "auth_transaction env
     (andThen (attempt (UserByID env (clm_UserID claims))) (\<lambda>found.
      let reason = Some [(''reason'', ''invalid_current_password'')] in
      case found of
        Inl e \<Rightarrow>
          if e = auth_ErrNotFound then refuse env (anonymous_event ''password_change'' ''rejected'' requestID reason) ErrInvalidPassword
          else throw e
      | Inr user \<Rightarrow>
          if ur_Status user \<noteq> ''enabled'' then refuse env (user_event ''password_change'' ''rejected'' user '''' requestID reason) ErrInvalidPassword
          else andThen (liftResult (VerifyPassword (as_idkey svc) (ur_PasswordHash user) cur)) (\<lambda>valid.
            if \<not> valid then refuse env (user_event ''password_change'' ''failed'' user '''' requestID reason) ErrInvalidPassword
            else andThen (HashPassword (as_idkey svc) env new) (\<lambda>hash.
              andThen (UpdatePassword env (ur_ID user) hash) (\<lambda>_.
              andThen (RecordAudit env (user_event ''password_change'' ''succeeded'' user '''' requestID None)) (\<lambda>_.
              Commit env)))))) :: ('m control_world_scheme, unit) prog"
  have t: "durable (snd (?tx w)) = durable w \<or> auth_step (durable w) (durable (snd (?tx w)))"
    unfolding auth_transaction_def auth_Begin_def UserByID_def UpdatePassword_def RecordAudit_def Let_def
    by (rule leads_Begin [where R = auth_step], intro leads_intros auth_step_audit)
      (auto dest!: scanUser_Inr query_row_Some update_users_Inr insert_auth_audit_Inr intro!: auth_step.password)
  show ?thesis
    using t unfolding ChangePassword_def by (cases "ValidateNewPassword (as_unicode svc) new") (simp_all add: andThen_def liftResult_def)
qed

lemma Refresh_steps:
  fixes w :: "'m control_world_scheme"
  shows "durable (snd (Refresh svc env raw requestID w)) = durable w \<or>
    auth_step (durable w) (durable (snd (Refresh svc env raw requestID w)))"
proof (cases "attempt (LookupRefresh env (tokenHash raw)) w")
  case (Pair r w1)
  from attempt_pool [OF Pair] obtain found where f: "r = Inr found" "durable w1 = durable w"
    "\<And>lookup. found = Inr lookup \<Longrightarrow> find_refresh (tokenHash raw) (durable w) = Some lookup" by blast
  show ?thesis
  proof (cases found)
    case (Inl e)
    then show ?thesis
      using f(1,2) Pair recordUnknownRefresh_steps [of env requestID w1]
      by (auto simp: Refresh_def andThen_def throw_def split: prod.splits sum.splits)
  next
    case (Inr lookup)
    from f(3) [OF Inr] obtain t s where "query_row (\<lambda>t. tok_hash t = tokenHash raw) (refresh_tokens (durable w)) = Some t"
      "query_row (\<lambda>s. ses_id s = tok_session t) (auth_sessions (durable w)) = Some s"
      "lookup = \<lparr>rl_TokenID = tok_id t, rl_SessionID = tok_session t, rl_UserID = ses_user s\<rparr>" by (rule find_refreshD)
    then have "durable (snd (refresh_with svc env lookup requestID w1)) = durable w1 \<or>
        auth_step (durable w1) (durable (snd (refresh_with svc env lookup requestID w1)))"
      using f(2) by (intro refresh_with_steps) auto
    then show ?thesis using f(1,2) Pair Inr by (simp add: Refresh_def andThen_def)
  qed
qed

lemma Logout_steps:
  fixes w :: "'m control_world_scheme"
  shows "durable (snd (Logout env raw requestID w)) = durable w \<or>
    auth_step (durable w) (durable (snd (Logout env raw requestID w)))"
proof (cases "attempt (LookupRefresh env (tokenHash raw)) w")
  case (Pair r w1)
  from attempt_pool [OF Pair] obtain found where "r = Inr found" "durable w1 = durable w" by blast
  then show ?thesis
    using Pair logout_with_steps [of env _ requestID w1]
    by (cases found) (auto simp: Logout_def andThen_def throw_def ret_def)
qed

section \<open>Calls\<close>

inductive auth_call :: "control_db \<Rightarrow> control_db \<Rightarrow> bool" where
  login: "auth_call (durable w) (durable (snd (Login svc env username password requestID (w :: control_world))))"
| refresh: "auth_call (durable w) (durable (snd (Refresh svc env rawToken requestID (w :: control_world))))"
| logout: "auth_call (durable w) (durable (snd (Logout env rawToken requestID (w :: control_world))))"
| change_password: "auth_call (durable w) (durable (snd (ChangePassword svc env claims cur new requestID (w :: control_world))))"

lemma auth_call_steps: "auth_call d d' \<Longrightarrow> d' = d \<or> auth_step d d'"
  by (induction rule: auth_call.induct) (rule Login_steps Refresh_steps Logout_steps ChangePassword_steps)+

lemma auth_calls_induct [consumes 2]:
  assumes "auth_call\<^sup>*\<^sup>* d d'" and "P d" and "\<And>x y. P x \<Longrightarrow> auth_step x y \<Longrightarrow> P y"
  shows "P d'"
  using assms(1,2)
proof (induction rule: rtranclp_induct)
  case (step y z)
  then show ?case using auth_call_steps assms(3) by blast
qed simp

section \<open>One live token for each session\<close>

definition live_tokens :: "control_db \<Rightarrow> uuid \<Rightarrow> token_row list" where
  "live_tokens d sid = filter (\<lambda>t. tok_session t = sid \<and> tok_consumed_at t = None) (refresh_tokens d)"

definition families_ok :: "control_db \<Rightarrow> bool" where
  "families_ok d \<longleftrightarrow> unique_key tok_id (refresh_tokens d) \<and> unique_key ses_id (auth_sessions d) \<and>
     tok_session ` set (refresh_tokens d) \<subseteq> ses_id ` set (auth_sessions d) \<and>
     (\<forall>sid. length (live_tokens d sid) \<le> 1)"

text \<open>Consuming the live token of a session leaves none there and the other sessions as they are.\<close>

lemma filter_consumed:
  assumes uniq: "unique_key tok_id rows" and t: "t \<in> set rows" "tok_consumed_at t = None"
    and one: "length (filter (\<lambda>x. tok_session x = tok_session t \<and> tok_consumed_at x = None) rows) \<le> 1"
  shows "filter (\<lambda>x. tok_session x = sid \<and> tok_consumed_at x = None)
      (update_where (\<lambda>x. tok_id x = tok_id t \<and> tok_consumed_at x = None) (\<lambda>x. x\<lparr>tok_consumed_at := Some now\<rparr>) rows) =
    (if sid = tok_session t then [] else filter (\<lambda>x. tok_session x = sid \<and> tok_consumed_at x = None) rows)"
proof -
  have only: "x = t" if "x \<in> set rows" "tok_id x = tok_id t" for x
    using uniq t(1) that by (auto simp: unique_key_def distinct_map inj_on_def)
  have f: "filter (\<lambda>x. tok_session x = sid \<and> tok_consumed_at x = None)
      (update_where (\<lambda>x. tok_id x = tok_id t \<and> tok_consumed_at x = None) (\<lambda>x. x\<lparr>tok_consumed_at := Some now\<rparr>) xs) =
    filter (\<lambda>x. tok_session x = sid \<and> tok_consumed_at x = None \<and> tok_id x \<noteq> tok_id t) xs" for xs
    unfolding update_where_def by (induction xs) auto
  show ?thesis
  proof (cases "sid = tok_session t")
    case True
    have "t \<in> set (filter (\<lambda>x. tok_session x = tok_session t \<and> tok_consumed_at x = None) rows)" using t by simp
    with one have "filter (\<lambda>x. tok_session x = tok_session t \<and> tok_consumed_at x = None) rows = [t]"
      by (cases "filter (\<lambda>x. tok_session x = tok_session t \<and> tok_consumed_at x = None) rows") auto
    then have "set (filter (\<lambda>x. tok_session x = tok_session t \<and> tok_consumed_at x = None) rows) = {t}" by simp
    then have "x = t" if "x \<in> set rows" "tok_session x = tok_session t" "tok_consumed_at x = None" for x
      using that by auto
    then show ?thesis unfolding f using True by (auto simp: filter_empty_conv)
  next
    case False
    then show ?thesis unfolding f using only by (auto intro!: filter_cong)
  qed
qed

lemma fresh_session_tokens:
  assumes "families_ok d" and "sid \<notin> ses_id ` set (auth_sessions d)"
  shows "live_tokens d sid = []"
proof -
  have "tok_session ` set (refresh_tokens d) \<subseteq> ses_id ` set (auth_sessions d)"
    using assms(1) by (simp add: families_ok_def)
  then have "sid \<notin> tok_session ` set (refresh_tokens d)" using assms(2) by (rule contra_subsetD)
  then show ?thesis by (force simp: live_tokens_def filter_empty_conv)
qed

lemma families_step: "auth_step d d' \<Longrightarrow> families_ok d \<Longrightarrow> families_ok d'"
proof (induction rule: auth_step.induct)
  case (opened u d s t d')
  have "live_tokens d (ses_id s) = []" by (rule fresh_session_tokens [OF opened.prems opened.hyps(7)])
  then have "length (live_tokens d' sid) \<le> 1" for sid
    using opened by (cases "sid = ses_id s") (auto simp: families_ok_def live_tokens_def)
  then show ?case using opened by (auto simp: families_ok_def unique_key_append)
next
  case (rotated u d s t now t' d')
  have c: "filter (\<lambda>x. tok_session x = sid \<and> tok_consumed_at x = None)
      (update_where (\<lambda>x. tok_id x = tok_id t \<and> tok_consumed_at x = None) (\<lambda>x. x\<lparr>tok_consumed_at := Some now\<rparr>) (refresh_tokens d)) =
      (if sid = tok_session t then [] else live_tokens d sid)" for sid
    using rotated.prems rotated.hyps(7,9) filter_consumed [of "refresh_tokens d" t sid now]
    by (auto simp: families_ok_def live_tokens_def)
  have "length (live_tokens d' sid) \<le> 1" for sid
    using rotated.prems rotated.hyps(8,12,13,19) c [of sid] by (simp add: live_tokens_def families_ok_def)
  moreover have "unique_key tok_id (refresh_tokens d')" "unique_key ses_id (auth_sessions d')"
    using rotated.prems rotated.hyps(15,18,19)
    by (simp_all add: families_ok_def unique_key_append unique_key_update_where image_update_where)
  moreover have "tok_session ` set (refresh_tokens d') \<subseteq> ses_id ` set (auth_sessions d')"
    using rotated.prems rotated.hyps(3,12,18,19) by (simp add: families_ok_def image_update_where)
  ultimately show ?case by (simp add: families_ok_def)
next
  case (revoked s d d' at reason)
  then show ?case by (simp add: families_ok_def live_tokens_def unique_key_update_where image_update_where)
qed (simp_all add: families_ok_def live_tokens_def)

text \<open>
  C34. In every history of logins, refreshes, logouts and password changes, under every fault, each
  session has at most one refresh token that is not consumed, every token belongs to a session, and the
  identities of tokens and sessions stay unique.
\<close>

theorem sessions_have_one_live_token:
  assumes "families_ok d" and "auth_call\<^sup>*\<^sup>* d d'"
  shows "families_ok d'"
  using assms(2,1) families_step by (rule auth_calls_induct)

section \<open>Revocation is final\<close>

definition tokens_of :: "control_db \<Rightarrow> uuid \<Rightarrow> token_row list" where
  "tokens_of d sid = filter (\<lambda>t. tok_session t = sid) (refresh_tokens d)"

definition revoked_as :: "control_db \<Rightarrow> uuid \<Rightarrow> time \<Rightarrow> string option \<Rightarrow> bool" where
  "revoked_as d sid at reason \<longleftrightarrow>
     (\<exists>s \<in> set (auth_sessions d). ses_id s = sid \<and> ses_revoked_at s = Some at \<and> ses_revocation_reason s = reason)"

lemma tokens_of_update:
  assumes "unique_key tok_id rows" and "t \<in> set rows" and "tok_session t \<noteq> sid"
  shows "filter (\<lambda>x. tok_session x = sid) (update_where (\<lambda>x. tok_id x = tok_id t \<and> tok_consumed_at x = None)
      (\<lambda>x. x\<lparr>tok_consumed_at := Some now\<rparr>) rows) = filter (\<lambda>x. tok_session x = sid) rows"
proof -
  have o: "tok_id x \<noteq> tok_id t" if "x \<in> set rows" "tok_session x = sid" for x
    using unique_key_inj [OF assms(1) that(1) assms(2)] that assms(3) by blast
  have "filter (\<lambda>x. tok_session x = sid) (update_where (\<lambda>x. tok_id x = tok_id t \<and> tok_consumed_at x = None)
      (\<lambda>x. x\<lparr>tok_consumed_at := Some now\<rparr>) xs) = filter (\<lambda>x. tok_session x = sid) xs"
    if "\<And>x. x \<in> set xs \<Longrightarrow> tok_session x = sid \<Longrightarrow> tok_id x \<noteq> tok_id t" for xs
    using that unfolding update_where_def by (induction xs) auto
  with o show ?thesis by blast
qed

lemma revoked_step:
  assumes "auth_step d d'" and "families_ok d" and "revoked_as d sid at reason"
  shows "revoked_as d' sid at reason \<and> tokens_of d' sid = tokens_of d sid"
  using assms
proof (induction rule: auth_step.induct)
  case (opened u d s t d')
  then have "ses_id s \<noteq> sid" by (auto simp: revoked_as_def)
  with opened show ?case by (auto simp: revoked_as_def tokens_of_def)
next
  case (rotated u d s t now t' d')
  obtain r where r: "r \<in> set (auth_sessions d)" "ses_id r = sid" "ses_revoked_at r = Some at" "ses_revocation_reason r = reason"
    using rotated.prems(2) by (auto simp: revoked_as_def)
  have "unique_key ses_id (auth_sessions d)" "unique_key tok_id (refresh_tokens d)"
    using rotated.prems(1) by (simp_all add: families_ok_def)
  then have "ses_id s \<noteq> sid" using r rotated.hyps(3,6) unique_key_inj [of ses_id "auth_sessions d" s r] by auto
  then have "tokens_of d' sid = tokens_of d sid"
    using rotated.hyps(7,8,12,19) tokens_of_update [OF \<open>unique_key tok_id (refresh_tokens d)\<close>, of t sid now]
    by (simp add: tokens_of_def)
  moreover have "r \<in> set (auth_sessions d')"
    using r(1,2) \<open>ses_id s \<noteq> sid\<close> rotated.hyps(18) by (force simp: update_where_def)
  ultimately show ?case using r by (auto simp: revoked_as_def)
next
  case (revoked s d d' at' reason')
  obtain r where r: "r \<in> set (auth_sessions d)" "ses_id r = sid" "ses_revoked_at r = Some at" "ses_revocation_reason r = reason"
    using revoked.prems(2) by (auto simp: revoked_as_def)
  then have "r \<in> set (auth_sessions d')" using revoked.hyps(4) by (force simp: update_where_def)
  with r revoked.hyps(5) show ?case by (auto simp: revoked_as_def tokens_of_def)
qed (auto simp: revoked_as_def tokens_of_def)

text \<open>
  C35. Once a session is revoked it stays revoked, at the same instant and for the same reason, and it
  never gets another refresh token nor loses or consumes one, in every history of calls under every fault.
\<close>

theorem revoked_sessions_stay_revoked:
  assumes "auth_call\<^sup>*\<^sup>* d d'" and "families_ok d" and "revoked_as d sid at reason"
  shows "revoked_as d' sid at reason \<and> tokens_of d' sid = tokens_of d sid"
proof -
  have "families_ok d' \<and> revoked_as d' sid at reason \<and> tokens_of d' sid = tokens_of d sid"
    using assms(1)
  proof (rule auth_calls_induct)
    show "families_ok d \<and> revoked_as d sid at reason \<and> tokens_of d sid = tokens_of d sid" using assms by simp
    show "families_ok y \<and> revoked_as y sid at reason \<and> tokens_of y sid = tokens_of d sid"
      if "families_ok x \<and> revoked_as x sid at reason \<and> tokens_of x sid = tokens_of d sid" "auth_step x y" for x y
      using that revoked_step families_step by metis
  qed
  then show ?thesis by simp
qed

section \<open>Refinement of an abstract session\<close>

text \<open>
  Abstractly a session is open with the hashes that can refresh it, or closed. The steps: a new session
  opens with one hash, an open session exchanges its only hash for another one, an open session is closed.
\<close>

datatype family = Open "bytes set" | Closed

definition family_of :: "control_db \<Rightarrow> uuid \<Rightarrow> family option" where
  "family_of d sid =
     (case query_row (\<lambda>s. ses_id s = sid) (auth_sessions d) of
        None \<Rightarrow> None
      | Some s \<Rightarrow> Some (if ses_revoked_at s = None then Open (tok_hash ` set (live_tokens d sid)) else Closed))"

inductive family_step :: "(uuid \<rightharpoonup> family) \<Rightarrow> (uuid \<rightharpoonup> family) \<Rightarrow> bool" where
  open_family: "f sid = None \<Longrightarrow> family_step f (f(sid \<mapsto> Open {h}))"
| rotate_family: "f sid = Some (Open {h}) \<Longrightarrow> h' \<noteq> h \<Longrightarrow> family_step f (f(sid \<mapsto> Open {h'}))"
| close_family: "f sid = Some (Open hs) \<Longrightarrow> family_step f (f(sid \<mapsto> Closed))"

lemma query_session: "unique_key ses_id rows \<Longrightarrow> s \<in> set rows \<Longrightarrow> query_row (\<lambda>x. ses_id x = ses_id s) rows = Some s"
  by (rule query_row_unique [where key = ses_id]) simp_all

lemma query_session_update:
  "(\<And>x. ses_id (f x) = ses_id x) \<Longrightarrow> query_row (\<lambda>x. ses_id x = sid) (update_where P f rows) =
     map_option (\<lambda>x. if P x then f x else x) (query_row (\<lambda>x. ses_id x = sid) rows)"
  unfolding query_row_def update_where_def by (induction rows) auto

lemma family_of_same:
  "auth_sessions d' = auth_sessions d \<Longrightarrow> refresh_tokens d' = refresh_tokens d \<Longrightarrow> family_of d' = family_of d"
  by (rule ext) (simp add: family_of_def live_tokens_def split: option.splits)

lemma family_refines:
  assumes "auth_step d d'" and "families_ok d"
  shows "family_of d' = family_of d \<or> family_step (family_of d) (family_of d')"
  using assms
proof (induction rule: auth_step.induct)
  case (opened u d s t d')
  have q: "query_row (\<lambda>x. ses_id x = ses_id s) (auth_sessions d) = None"
    using opened.hyps(7) unfolding query_row_None by (metis image_eqI)
  have none: "live_tokens d (ses_id s) = []" by (rule fresh_session_tokens [OF opened.prems opened.hyps(7)])
  have "family_of d' = (family_of d)(ses_id s \<mapsto> Open {tok_hash t})"
  proof
    fix sid
    show "family_of d' sid = ((family_of d)(ses_id s \<mapsto> Open {tok_hash t})) sid"
      using q none opened.hyps
      by (auto simp: family_of_def live_tokens_def query_row_append split: option.splits)
  qed
  moreover have "family_of d (ses_id s) = None" using q by (simp add: family_of_def)
  ultimately show ?case by (intro disjI2) (simp only: family_step.open_family)
next
  case (rotated u d s t now t' d')
  have uq: "unique_key ses_id (auth_sessions d)" "unique_key tok_id (refresh_tokens d)"
    and one: "length (live_tokens d (tok_session t)) \<le> 1" using rotated.prems by (simp_all add: families_ok_def)
  have q: "query_row (\<lambda>x. ses_id x = ses_id s) (auth_sessions d) = Some s" by (rule query_session [OF uq(1) rotated.hyps(3)])
  have "t \<in> set (live_tokens d (ses_id s))" using rotated.hyps(7-9) by (simp add: live_tokens_def)
  then have l: "live_tokens d (ses_id s) = [t]" using one rotated.hyps(8) by (cases "live_tokens d (ses_id s)") auto
  have l': "live_tokens d' sid = (if sid = ses_id s then [t'] else live_tokens d sid)" for sid
    using filter_consumed [OF uq(2) rotated.hyps(7,9), of sid now] one rotated.hyps(8,12,13,19) by (simp add: live_tokens_def)
  have "family_of d' = (family_of d)(ses_id s \<mapsto> Open {tok_hash t'})"
  proof
    fix sid
    show "family_of d' sid = ((family_of d)(ses_id s \<mapsto> Open {tok_hash t'})) sid"
      using q l' rotated.hyps(6,18)
      by (auto simp: family_of_def query_session_update split: option.splits)
  qed
  moreover have "family_of d (ses_id s) = Some (Open {tok_hash t})" using q l rotated.hyps(6) by (simp add: family_of_def)
  moreover have "tok_hash t' \<noteq> tok_hash t" using rotated.hyps(7,16) by auto
  ultimately show ?case using family_step.rotate_family [of "family_of d" "ses_id s" "tok_hash t" "tok_hash t'"] by (simp only: simp_thms)
next
  case (revoked s d d' at reason)
  have uq: "unique_key ses_id (auth_sessions d)" using revoked.prems by (simp add: families_ok_def)
  have q: "query_row (\<lambda>x. ses_id x = ses_id s) (auth_sessions d) = Some s" by (rule query_session [OF uq revoked.hyps(1)])
  have "family_of d' = (family_of d)(ses_id s \<mapsto> Closed)"
  proof
    fix sid
    show "family_of d' sid = ((family_of d)(ses_id s \<mapsto> Closed)) sid"
      using q revoked.hyps(2,4,5)
      by (auto simp: family_of_def live_tokens_def query_session_update dest: query_row_Some split: option.splits)
  qed
  moreover have "\<exists>hs. family_of d (ses_id s) = Some (Open hs)" using q revoked.hyps(2) by (simp add: family_of_def)
  ultimately show ?case using family_step.close_family [of "family_of d" "ses_id s"] by (elim exE) (simp only: simp_thms)
qed (rule disjI1, rule family_of_same, assumption, assumption)+

text \<open>
  C36. The service refines the abstract session machine: under the abstraction that reads from the tables
  which sessions are open and with which unconsumed token, every call, under every fault, is one abstract
  step or none.
\<close>

theorem calls_refine_sessions:
  assumes "auth_call d d'" and "families_ok d"
  shows "family_of d' = family_of d \<or> family_step (family_of d) (family_of d')"
  using auth_call_steps [OF assms(1)] family_refines [OF _ assms(2)] by blast

end
