(* ===== verification/Auth_Refresh.thy ===== *)
theory Auth_Refresh
  imports Auth_Sessions
begin

text \<open>
  Refreshing in detail: what a successful refresh returns and commits, and what the reuse of a consumed
  refresh token does; with the concrete runs that exercise the properties of sessions.
\<close>

section \<open>A successful refresh\<close>

lemma returns_newRefreshToken [returns_intros]: "(\<And>x. returns d Q (f x)) \<Longrightarrow> returns d Q (andThen (newRefreshToken env) f)"
  by (rule returns_quiet) (auto simp: keeps_def newRefreshToken_def andThen_def rand_Read_def ret_def split: option.splits)

lemma returns_newUUID [returns_intros]: "(\<And>x. returns d Q (f x)) \<Longrightarrow> returns d Q (andThen (jwt_newUUID env) f)"
  by (rule returns_quiet) (auto simp: keeps_def jwt_newUUID_def andThen_def rand_Read_def ret_def split: option.splits)

lemma returns_refuse [returns_intros]: "returns d Q (refuse env event err)"
  unfolding refuse_def RecordAudit_def by (auto simp: returns_def throw_def elim!: andThen_InrE)

lemma returns_refuse_refresh [returns_intros]: "returns d Q (refuse_refresh env user session token now requestID)"
  unfolding refuse_refresh_def RevokeSession_def by (intro returns_intros)

definition rotated_to :: "control_db \<Rightarrow> session_row \<Rightarrow> token_row \<Rightarrow> time \<Rightarrow> string \<Rightarrow> control_db \<Rightarrow> bool" where
  "rotated_to d s t now raw d' \<longleftrightarrow>
     (\<exists>t'. tok_hash t' = tokenHash raw \<and> tok_session t' = ses_id s \<and> tok_consumed_at t' = None \<and>
        tok_expires_at t' = ses_expires_at s \<and>
        refresh_tokens d' = update_where (\<lambda>x. tok_id x = tok_id t \<and> tok_consumed_at x = None)
          (\<lambda>x. x\<lparr>tok_consumed_at := Some now\<rparr>) (refresh_tokens d) @ [t']) \<and>
     auth_sessions d' = update_where (\<lambda>x. ses_id x = ses_id s) (\<lambda>x. x\<lparr>ses_last_refreshed_at := now\<rparr>) (auth_sessions d) \<and>
     users d' = users d"

lemma returns_mono: "returns d Q m \<Longrightarrow> (\<And>x d'. Q x d' \<Longrightarrow> Q' x d') \<Longrightarrow> returns d Q' m"
  by (auto simp: returns_def)

lemma returns_rotate:
  "returns d (\<lambda>(resp, raw, exp) d'. exp = ses_expires_at s \<and> rotated_to d s t now raw d')
     (rotate_token svc env user (session_record s) (token_record t) now requestID)"
  unfolding rotate_token_def ConsumeRefreshToken_def TouchSession_def CreateRefreshToken_def RecordAudit_def
proof (intro returns_intros keeps_intros keeps_Issue)
  fix raw n1 d1 n2 d2 rid ctx d3 ctx2 d4 w w' and x :: "TokenResponse \<times> string \<times> time"
  assume 1: "update_tokens (\<lambda>x. tok_id x = rt_ID (token_record t) \<and> tok_consumed_at x = None)
      (\<lambda>x. x\<lparr>tok_consumed_at := Some now\<rparr>) d = Inr (n1, d1)"
    and 2: "update_sessions (\<lambda>x. ses_id x = sr_ID (session_record s)) (\<lambda>x. x\<lparr>ses_last_refreshed_at := now\<rparr>) d1 = Inr (n2, d2)"
    and 3: "insert_token (new_token rid (sr_ID (session_record s)) (tokenHash raw) (rt_ID (token_record t))
      (sr_ExpiresAt (session_record s)) ctx) d2 = Inr d3"
    and 4: "insert_auth_audit (audit_row_of_event (user_event ''refresh'' ''succeeded'' user (sr_ID (session_record s)) requestID None) ctx2) d3 = Inr d4"
    and 5: "andThen (Issue (as_sign svc) env (as_signer svc) user (sr_ID (session_record s)))
      (\<lambda>response. ret (response, raw, sr_ExpiresAt (session_record s))) w = (Inr x, w')"
  note e = update_tokens_Inr [OF 1] update_sessions_Inr [OF 2] insert_token_Inr [OF 3] insert_auth_audit_Inr [OF 4]
  have "snd x = (raw, ses_expires_at s)" using 5 by (auto simp: ret_def session_record_def elim!: andThen_InrE)
  moreover have "rotated_to d s t now raw d4"
    unfolding rotated_to_def using e
    by (intro conjI exI [of _ "new_token rid (sr_ID (session_record s)) (tokenHash raw) (rt_ID (token_record t)) (sr_ExpiresAt (session_record s)) ctx"])
      (simp_all add: new_token_def session_record_def token_record_def)
  ultimately show "(case x of (resp, raw, exp) \<Rightarrow> \<lambda>d'. exp = ses_expires_at s \<and> rotated_to d s t now raw d') d4"
    by (auto split: prod.splits)
qed

lemma refresh_returns:
  fixes w :: "'m control_world_scheme"
  assumes run: "Refresh svc env raw requestID w = (Inr (resp, raw', exp), w')" and fam: "families_ok (durable w)"
  obtains t s u now where "t \<in> set (refresh_tokens (durable w))" and "tok_hash t = tokenHash raw" and "tok_consumed_at t = None"
    and "now < tok_expires_at t" and "s \<in> set (auth_sessions (durable w))" and "ses_id s = tok_session t" and "ses_revoked_at s = None"
    and "now < ses_expires_at s" and "u \<in> set (users (durable w))" and "usr_id u = ses_user s" and "usr_status u = ''enabled''"
    and "usr_auth_version u = ses_auth_version s" and "exp = ses_expires_at s" and "rotated_to (durable w) s t now raw' (durable w')"
proof -
  from run obtain found w1 where a: "attempt (LookupRefresh env (tokenHash raw)) w = (Inr found, w1)"
    and r: "(case found of
       Inl e \<Rightarrow> if e = auth_ErrNotFound then andThen (recordUnknownRefresh env requestID) (\<lambda>_. throw ErrInvalidRefresh) else throw e
     | Inr lookup \<Rightarrow> refresh_with svc env lookup requestID) w1 = (Inr (resp, raw', exp), w')"
    unfolding Refresh_def by (rule andThen_InrE)
  from r obtain lookup where l: "found = Inr lookup" and rw: "refresh_with svc env lookup requestID w1 = (Inr (resp, raw', exp), w')"
    by (cases found) (auto simp: throw_def andThen_def split: if_splits prod.splits sum.splits)
  from attempt_pool [OF a] l have d: "durable w1 = durable w" "find_refresh (tokenHash raw) (durable w) = Some lookup" by auto
  from d(2) obtain t s where t: "query_row (\<lambda>t. tok_hash t = tokenHash raw) (refresh_tokens (durable w)) = Some t"
    and s: "query_row (\<lambda>s. ses_id s = tok_session t) (auth_sessions (durable w)) = Some s"
    and lk: "lookup = \<lparr>rl_TokenID = tok_id t, rl_SessionID = tok_session t, rl_UserID = ses_user s\<rparr>" by (rule find_refreshD)
  let ?Q = "\<lambda>d (resp, raw', exp) d'. \<exists>u s t0 now. query_row (\<lambda>u. usr_id u = rl_UserID lookup) (users d) = Some u \<and>
      query_row (\<lambda>s. ses_id s = rl_SessionID lookup) (auth_sessions d) = Some s \<and>
      query_row (\<lambda>t. tok_id t = rl_TokenID lookup \<and> tok_session t = rl_SessionID lookup) (refresh_tokens d) = Some t0 \<and>
      usr_status u = ''enabled'' \<and> usr_auth_version u = ses_auth_version s \<and> ses_revoked_at s = None \<and> now < ses_expires_at s \<and>
      tok_consumed_at t0 = None \<and> now < tok_expires_at t0 \<and> exp = ses_expires_at s \<and> rotated_to d s t0 now raw' d'"
  have "?Q (durable w1) (resp, raw', exp) (durable w')"
    using rw unfolding refresh_with_def auth_transaction_def auth_Begin_def UserByID_def auth_Session_def auth_RefreshToken_def
  proof (rule returns_Begin [where Q = ?Q, rotated], intro returns_intros, unfold session_record_Inr token_record_Inr, elim exE conjE)
    fix d :: control_db and user session token now and s t0
    assume usr: "scanUser (query_row (\<lambda>u. usr_id u = rl_UserID lookup) (users d)) = Inr user"
      and ok: "\<not> refusable user session token now" and e: "session = session_record s" "token = token_record t0"
      and q: "query_row (\<lambda>s. ses_id s = rl_SessionID lookup) (auth_sessions d) = Some s"
      "query_row (\<lambda>t. tok_id t = rl_TokenID lookup \<and> tok_session t = rl_SessionID lookup) (refresh_tokens d) = Some t0"
    from scanUser_Inr [OF usr] ok obtain u where u: "query_row (\<lambda>u. usr_id u = rl_UserID lookup) (users d) = Some u"
      "usr_status u = ''enabled''" "usr_auth_version u = ses_auth_version s" "ses_revoked_at s = None" "now < ses_expires_at s"
      "tok_consumed_at t0 = None" "now < tok_expires_at t0"
      unfolding e by (auto simp: refusable_def session_record_def token_record_def)
    show "returns d (?Q d) (rotate_token svc env user session token now requestID :: ('m control_world_scheme, TokenResponse \<times> string \<times> time) prog)"
      unfolding e
    proof (rule returns_mono [OF returns_rotate])
      fix x :: "TokenResponse \<times> string \<times> time" and d'
      assume "(case x of (resp, raw, exp) \<Rightarrow> \<lambda>d'. exp = ses_expires_at s \<and> rotated_to d s t0 now raw d') d'"
      then show "?Q d x d'" using u q by (cases x) auto
    qed
  qed
  then obtain u t0 now where q: "query_row (\<lambda>u. usr_id u = ses_user s) (users (durable w)) = Some u"
      "query_row (\<lambda>x. tok_id x = tok_id t \<and> tok_session x = tok_session t) (refresh_tokens (durable w)) = Some t0"
      "usr_status u = ''enabled''" "usr_auth_version u = ses_auth_version s" "ses_revoked_at s = None" "now < ses_expires_at s"
      "tok_consumed_at t0 = None" "now < tok_expires_at t0" "exp = ses_expires_at s" "rotated_to (durable w) s t0 now raw' (durable w')"
    using d(1) s lk by auto
  have "t0 = t"
    using fam query_row_Some [OF q(2)] query_row_Some [OF t] unique_key_inj [of tok_id "refresh_tokens (durable w)" t0 t]
    by (simp add: families_ok_def)
  with q query_row_Some [OF q(1)] query_row_Some [OF t] query_row_Some [OF s] show thesis
    by (intro that [of t now s u]) simp_all
qed

text \<open>
  C37. A refresh fails, or it was made with the live token of an open session: the token with that hash is
  neither consumed nor expired, its session is neither revoked nor expired, and the session's user is
  enabled and has the authorization version the session was opened with. It then commits exactly the
  rotation: that token is consumed, one new token with the hash of the returned secret is added to the
  session, and the returned expiry is the session's, which does not move.
\<close>

theorem refresh_rotates_the_live_token:
  fixes w :: "'m control_world_scheme"
  assumes "families_ok (durable w)"
  shows "(\<exists>e w'. Refresh svc env raw requestID w = (Inl e, w')) \<or>
    (\<exists>resp raw' exp w' t s u now. Refresh svc env raw requestID w = (Inr (resp, raw', exp), w') \<and>
      t \<in> set (refresh_tokens (durable w)) \<and> tok_hash t = tokenHash raw \<and> tok_consumed_at t = None \<and> now < tok_expires_at t \<and>
      s \<in> set (auth_sessions (durable w)) \<and> ses_id s = tok_session t \<and> ses_revoked_at s = None \<and> now < ses_expires_at s \<and>
      u \<in> set (users (durable w)) \<and> usr_id u = ses_user s \<and> usr_status u = ''enabled'' \<and> usr_auth_version u = ses_auth_version s \<and>
      exp = ses_expires_at s \<and> rotated_to (durable w) s t now raw' (durable w'))"
proof (cases "Refresh svc env raw requestID w")
  case (Pair r w')
  show ?thesis
  proof (cases r)
    case (Inl e)
    with Pair show ?thesis by blast
  next
    case (Inr x)
    obtain resp raw' exp where x: "x = (resp, raw', exp)" by (cases x)
    have run: "Refresh svc env raw requestID w = (Inr (resp, raw', exp), w')" using Pair Inr x by simp
    show ?thesis
      by (rule refresh_returns [OF run assms], rule disjI2) ((rule exI)+, intro conjI, rule run, assumption+)
  qed
qed

section \<open>Reuse of a consumed token\<close>

text \<open>What the schema of the control database keeps of its rows.\<close>

definition control_ok :: "control_db \<Rightarrow> bool" where
  "control_ok d \<longleftrightarrow>
     unique_key usr_id (users d) \<and> unique_key ses_id (auth_sessions d) \<and> unique_key tok_id (refresh_tokens d) \<and>
     unique_key tok_hash (refresh_tokens d) \<and>
     (\<forall>s \<in> set (auth_sessions d). session_checks s \<and> ses_user s \<in> usr_id ` set (users d)) \<and>
     (\<forall>t \<in> set (refresh_tokens d). tok_session t \<in> ses_id ` set (auth_sessions d)) \<and>
     (\<forall>u \<in> set (users d). case usr_entity u of None \<Rightarrow> True | Some e \<Rightarrow> e \<in> rt_entity ` set (bank_routing_entries d))"

lemma audit_accepted:
  assumes "aa_event_type a \<noteq> []" and "hd (aa_event_type a) \<noteq> CHR '' ''" and "aa_outcome a \<in> {''succeeded'', ''failed'', ''rejected''}"
    and "aa_id a \<notin> aa_id ` set (authentication_audit_events d)" and "known_user d (aa_actor a)" and "known_user d (aa_subject a)"
    and "case aa_entity a of None \<Rightarrow> True | Some e \<Rightarrow> e \<in> rt_entity ` set (bank_routing_entries d)"
    and "case aa_session a of None \<Rightarrow> True | Some s \<Rightarrow> s \<in> ses_id ` set (auth_sessions d)"
  shows "insert_auth_audit a d = Inr (d\<lparr>authentication_audit_events := authentication_audit_events d @ [a]\<rparr>)"
proof -
  have "btrim_nonempty (aa_event_type a)" using assms(1,2) by (cases "aa_event_type a") (auto simp: btrim_nonempty_def)
  with assms(3-8) show ?thesis
    by (auto simp: insert_auth_audit_def checked_Inr no_key_iff exists_row_iff split: option.splits)
qed

text \<open>An audited refusal without faults commits its event and fails with its error.\<close>

lemma refuse_run:
  assumes "no_faults env" and "insert_auth_audit (audit_row_of_event event (context_of env w)) (view w) = Inr d"
  shows "\<exists>w'. refuse env event err w = (Inl err, w') \<and> durable w' = d"
proof -
  have "RecordAudit env event w = (Inr (), (ticked w)\<lparr>view := d\<rparr>)"
    unfolding RecordAudit_def using assms by (intro statement_run) (simp_all add: exec_Inr)
  then show ?thesis using assms(1) by (simp add: refuse_def andThen_def Commit_def throw_def)
qed

lemma user_event_accepted:
  assumes "u \<in> set (users d)" and "ur_ID user = usr_id u" and "ur_EntityID user = (case usr_entity u of None \<Rightarrow> '''' | Some e \<Rightarrow> e)"
    and "case usr_entity u of None \<Rightarrow> True | Some e \<Rightarrow> e \<in> rt_entity ` set (bank_routing_entries d)"
    and "sid \<in> ses_id ` set (auth_sessions d)" and "sql_uuid ctx 0 \<notin> aa_id ` set (authentication_audit_events d)"
    and "event \<noteq> []" and "hd event \<noteq> CHR '' ''" and "outcome \<in> {''succeeded'', ''failed'', ''rejected''}"
  shows "\<exists>a. insert_auth_audit (audit_row_of_event (user_event event outcome user sid rid details) ctx) d =
    Inr (d\<lparr>authentication_audit_events := authentication_audit_events d @ [a]\<rparr>)"
proof (rule exI, rule audit_accepted)
qed (insert assms, auto simp: audit_row_of_event_def user_event_def auth_nullable_def known_user_def exists_row_iff split: option.splits)

lemma scanUser_Some:
  "scanUser (Some u) = Inr \<lparr>ur_ID = usr_id u, ur_Username = usr_normalized_username u, ur_PasswordHash = usr_password_hash u,
       ur_Role = usr_role u, ur_EntityID = (case usr_entity u of None \<Rightarrow> '''' | Some e \<Rightarrow> e),
       ur_Status = usr_status u, ur_AuthVersion = usr_auth_version u\<rparr>"
  by (simp add: scanUser_def)

lemma revoke_accepted:
  assumes "control_ok d" and "s \<in> set (auth_sessions d)"
  shows "\<exists>n. update_sessions (\<lambda>x. ses_id x = ses_id s \<and> ses_revoked_at x = None)
    (\<lambda>x. x\<lparr>ses_revoked_at := Some at, ses_revocation_reason := Some reason\<rparr>) d =
    Inr (n, d\<lparr>auth_sessions := update_where (\<lambda>x. ses_id x = ses_id s \<and> ses_revoked_at x = None)
      (\<lambda>x. x\<lparr>ses_revoked_at := Some at, ses_revocation_reason := Some reason\<rparr>) (auth_sessions d)\<rparr>)"
  using assms by (auto simp: update_sessions_def map_sum_Inr_iff guarded_update_Inr control_ok_def session_checks_def)

lemma refuse_refresh_run:
  fixes w :: "'m control_world_scheme"
  assumes nf: "no_faults env" and ok: "control_ok (view w)"
    and fresh: "\<And>n. gen_random_uuid env n 0 \<notin> aa_id ` set (authentication_audit_events (view w))"
    and u: "u \<in> set (users (view w))" and s: "s \<in> set (auth_sessions (view w))" and c: "rt_Consumed token"
    and user: "scanUser (Some u) = Inr user"
  shows "\<exists>w'. refuse_refresh env user (session_record s) token now rid w = (Inl ErrInvalidRefresh :: 'r result, w') \<and>
    (\<exists>s' \<in> set (auth_sessions (durable w')). ses_id s' = ses_id s \<and> ses_revoked_at s' \<noteq> None)"
proof -
  have ent: "case usr_entity u of None \<Rightarrow> True | Some e \<Rightarrow> e \<in> rt_entity ` set (bank_routing_entries (view w))"
    using ok u by (simp add: control_ok_def)
  have usr: "ur_ID user = usr_id u" "ur_EntityID user = (case usr_entity u of None \<Rightarrow> '''' | Some e \<Rightarrow> e)"
    using user by (auto simp: scanUser_Some)
  show ?thesis
  proof (cases "ses_revoked_at s = None")
    case True
    let ?d = "(view w)\<lparr>auth_sessions := update_where (\<lambda>x. ses_id x = ses_id s \<and> ses_revoked_at x = None)
      (\<lambda>x. x\<lparr>ses_revoked_at := Some now, ses_revocation_reason := Some ''refresh_token_reuse''\<rparr>) (auth_sessions (view w))\<rparr>"
    let ?w = "(ticked w)\<lparr>view := ?d\<rparr>"
    have rv: "RevokeSession env (ses_id s) now ''refresh_token_reuse'' w = (Inr (), ?w)"
      unfolding RevokeSession_def using nf revoke_accepted [OF ok s] by (intro statement_run) (auto simp: exec_rows_Inr)
    have "\<exists>a. insert_auth_audit (audit_row_of_event (user_event ''refresh_replay'' ''rejected'' user (ses_id s) rid None) (context_of env ?w)) ?d =
        Inr (?d\<lparr>authentication_audit_events := authentication_audit_events ?d @ [a]\<rparr>)"
      using u usr ent s fresh by (intro user_event_accepted [of u]) (simp_all add: context_of_def image_update_where split: option.splits)
    then obtain a where a: "insert_auth_audit (audit_row_of_event (user_event ''refresh_replay'' ''rejected'' user (ses_id s) rid None) (context_of env ?w)) (view ?w) =
        Inr (?d\<lparr>authentication_audit_events := authentication_audit_events ?d @ [a]\<rparr>)" by auto
    from refuse_run [OF nf a] obtain w' where w': "refuse env (user_event ''refresh_replay'' ''rejected'' user (ses_id s) rid None) ErrInvalidRefresh ?w =
        (Inl ErrInvalidRefresh :: 'r result, w')"
        "durable w' = ?d\<lparr>authentication_audit_events := authentication_audit_events ?d @ [a]\<rparr>" by blast
    have "\<exists>s' \<in> set (auth_sessions ?d). ses_id s' = ses_id s \<and> ses_revoked_at s' \<noteq> None"
      using s True by (intro bexI [of _ "s\<lparr>ses_revoked_at := Some now, ses_revocation_reason := Some ''refresh_token_reuse''\<rparr>"])
        (force simp: update_where_def)+
    moreover have "refuse_refresh env user (session_record s) token now rid w = (Inl ErrInvalidRefresh :: 'r result, w')"
      using w'(1) rv c True by (simp add: refuse_refresh_def andThen_def session_record_def)
    ultimately show ?thesis using w'(2) by (intro exI [of _ w']) simp
  next
    case False
    have "\<exists>a. insert_auth_audit (audit_row_of_event (user_event ''refresh'' ''failed'' user (ses_id s) rid
        (Some [(''reason'', ''invalid_refresh_token'')])) (context_of env w)) (view w) =
        Inr ((view w)\<lparr>authentication_audit_events := authentication_audit_events (view w) @ [a]\<rparr>)"
      using u usr ent s fresh by (intro user_event_accepted [of u]) (simp_all add: context_of_def)
    then obtain a where "insert_auth_audit (audit_row_of_event (user_event ''refresh'' ''failed'' user (ses_id s) rid
        (Some [(''reason'', ''invalid_refresh_token'')])) (context_of env w)) (view w) =
        Inr ((view w)\<lparr>authentication_audit_events := authentication_audit_events (view w) @ [a]\<rparr>)" by blast
    from refuse_run [OF nf this] obtain w' where w': "refuse env (user_event ''refresh'' ''failed'' user (ses_id s) rid
        (Some [(''reason'', ''invalid_refresh_token'')])) ErrInvalidRefresh w = (Inl ErrInvalidRefresh :: 'r result, w')"
        "durable w' = (view w)\<lparr>authentication_audit_events := authentication_audit_events (view w) @ [a]\<rparr>" by blast
    then show ?thesis using False s by (intro exI [of _ w']) (simp add: refuse_refresh_def session_record_def, blast)
  qed
qed

text \<open>
  C38. A refresh with a token that was already consumed fails with \<open>invalid refresh token\<close>, and the
  session of the token is revoked when the call returns, so that by the permanence of revocation no token
  of that session, the thief's or the owner's, refreshes it again.
\<close>

theorem token_reuse_revokes_the_session:
  fixes w :: "'m control_world_scheme"
  assumes nf: "no_faults env" and ok: "control_ok (durable w)"
    and fresh: "\<And>n. gen_random_uuid env n 0 \<notin> aa_id ` set (authentication_audit_events (durable w))"
    and t: "t \<in> set (refresh_tokens (durable w))" "tok_hash t = tokenHash raw" "tok_consumed_at t \<noteq> None"
  shows "\<exists>w'. Refresh svc env raw requestID w = (Inl ErrInvalidRefresh, w') \<and>
    (\<exists>s \<in> set (auth_sessions (durable w')). ses_id s = tok_session t \<and> ses_revoked_at s \<noteq> None)"
proof -
  let ?d = "durable w"
  obtain s where s: "s \<in> set (auth_sessions ?d)" "ses_id s = tok_session t" using ok t(1) by (force simp: control_ok_def)
  then obtain u where u: "u \<in> set (users ?d)" "usr_id u = ses_user s" using ok by (force simp: control_ok_def)
  have uq: "unique_key usr_id (users ?d)" "unique_key ses_id (auth_sessions ?d)" "unique_key tok_id (refresh_tokens ?d)"
      "unique_key tok_hash (refresh_tokens ?d)" using ok by (simp_all add: control_ok_def)
  have q: "query_row (\<lambda>x. tok_hash x = tokenHash raw) (refresh_tokens ?d) = Some t"
      "query_row (\<lambda>x. ses_id x = tok_session t) (auth_sessions ?d) = Some s"
      "query_row (\<lambda>x. usr_id x = ses_user s) (users ?d) = Some u"
      "query_row (\<lambda>x. tok_id x = tok_id t \<and> tok_session x = tok_session t) (refresh_tokens ?d) = Some t"
    using query_row_unique [OF uq(4) t(1), of "\<lambda>x. tok_hash x = tokenHash raw"] t(2)
      query_row_unique [OF uq(2) s(1), of "\<lambda>x. ses_id x = tok_session t"] s(2)
      query_row_unique [OF uq(1) u(1), of "\<lambda>x. usr_id x = ses_user s"] u(2)
      query_row_unique [OF uq(3) t(1), of "\<lambda>x. tok_id x = tok_id t \<and> tok_session x = tok_session t"] by simp_all
  obtain user where user: "scanUser (Some u) = Inr user" by (simp add: scanUser_Some)
  define w5 where "w5 = w\<lparr>tx_start := clock_timestamp env (Suc (tick w)), view := ?d, tick := Suc (Suc (Suc (Suc (Suc (Suc (tick w))))))\<rparr>"
  have "\<exists>w'. refuse_refresh env user (session_record s) (token_record t) (time_Now env (Suc (Suc (Suc (Suc (Suc (tick w))))))) requestID w5 =
      (Inl ErrInvalidRefresh :: (TokenResponse \<times> string \<times> time) result, w') \<and>
      (\<exists>s' \<in> set (auth_sessions (durable w')). ses_id s' = ses_id s \<and> ses_revoked_at s' \<noteq> None)"
    using ok fresh u s t(3) user
    by (intro refuse_refresh_run [OF nf, of w5 u]) (simp_all add: w5_def token_record_def)
  then obtain w' where w': "refuse_refresh env user (session_record s) (token_record t) (time_Now env (Suc (Suc (Suc (Suc (Suc (tick w))))))) requestID w5 =
      (Inl ErrInvalidRefresh :: (TokenResponse \<times> string \<times> time) result, w')"
      "\<exists>s' \<in> set (auth_sessions (durable w')). ses_id s' = ses_id s \<and> ses_revoked_at s' \<noteq> None" by blast
  have "refusable user (session_record s) (token_record t) now" for now using t(3) by (simp add: refusable_def token_record_def)
  then have "Refresh svc env raw requestID w = (Inl ErrInvalidRefresh, Rollback w')"
    using nf q user w'(1)
    by (simp add: Refresh_def attempt_def LookupRefresh_def pool_QueryRow_def find_refresh_def refresh_with_def auth_transaction_def
        auth_Begin_def pool_Begin_def UserByID_def auth_Session_def auth_RefreshToken_def statement_def read_only_def deferred_def
        andThen_def time_now_def ticked_def w5_def)
  then show ?thesis using w'(2) s(2) by (intro exI [of _ "Rollback w'"]) simp
qed

section \<open>Sample runs\<close>

definition sample_salt :: bytes where
  "sample_salt = replicate 16 1"

definition sample_auth_service :: auth_service where
  "sample_auth_service = \<lparr>as_signer = \<lparr>sg_privateKey = [], sg_issuer = ''issuer'', sg_audience = ''api''\<rparr>,
     as_sign = (\<lambda>key msg. Sum256 (key @ msg)), as_idkey = sample_idkey,
     as_unicode = \<lparr>IsUpper = (\<lambda>r. 65 \<le> r \<and> r \<le> 90), IsNumber = (\<lambda>r. 48 \<le> r \<and> r \<le> 57),
       IsPunct = (\<lambda>r. r = 45), IsSymbol = (\<lambda>r. r = 43)\<rparr>\<rparr>"

definition sample_user :: user_row where
  "sample_user = \<lparr>usr_id = ''user'', usr_normalized_username = ''kim'', usr_password_hash = encode_hash sample_salt
       (sample_idkey (bytes_of_string ''secret'') sample_salt argonIterations argonMemory argonParallelism argonKeyLength),
     usr_role = ''issuer_operator'', usr_entity = None, usr_status = ''enabled'', usr_auth_version = 3, usr_created_at = 0,
     usr_updated_at = 0, usr_created_by = None, usr_updated_by = None\<rparr>"

definition sample_session :: session_row where
  "sample_session = \<lparr>ses_id = ''session'', ses_user = ''user'', ses_auth_version = 3, ses_created_at = 0,
     ses_expires_at = session_lifetime, ses_last_refreshed_at = 0, ses_revoked_at = None, ses_revocation_reason = None\<rparr>"

definition sample_token :: token_row where
  "sample_token = \<lparr>tok_id = ''token'', tok_session = ''session'', tok_hash = tokenHash ''raw'', tok_parent = None,
     tok_issued_at = 0, tok_expires_at = session_lifetime, tok_consumed_at = None\<rparr>"

definition sample_control :: "token_row list \<Rightarrow> control_db" where
  "sample_control tokens = empty_control\<lparr>users := [sample_user], auth_sessions := [sample_session], refresh_tokens := tokens\<rparr>"

definition control_start :: "control_db \<Rightarrow> control_world" where
  "control_start d = \<lparr>durable = d, view = d, tx_start = 0, tick = 0\<rparr>"

definition spent_token :: token_row where
  "spent_token = sample_token\<lparr>tok_consumed_at := Some 500\<rparr>"

lemma sample_control_ok: "control_ok (sample_control [spent_token])" "families_ok (sample_control [sample_token])"
  by (simp_all add: control_ok_def families_ok_def sample_control_def empty_control_def sample_user_def sample_session_def
      spent_token_def sample_token_def session_checks_def session_lifetime_def unique_key_def live_tokens_def)

theorem token_reuse_revokes_the_session_witness:
  "\<exists>w'. Refresh sample_auth_service sample_env ''raw'' ''req'' (control_start (sample_control [spent_token])) = (Inl ErrInvalidRefresh, w') \<and>
    (\<exists>s \<in> set (auth_sessions (durable w')). ses_id s = ''session'' \<and> ses_revoked_at s \<noteq> None)"
  using token_reuse_revokes_the_session [of sample_env "control_start (sample_control [spent_token])" spent_token "''raw''"
      sample_auth_service "''req''"] sample_control_ok(1)
  by (simp add: control_start_def sample_control_def empty_control_def spent_token_def sample_token_def)

theorem refresh_rotates_the_live_token_witness:
  "(\<exists>e w'. Refresh sample_auth_service sample_env ''raw'' ''req'' (control_start (sample_control [sample_token])) = (Inl e, w')) \<or>
   (\<exists>resp raw' exp w' now. Refresh sample_auth_service sample_env ''raw'' ''req'' (control_start (sample_control [sample_token])) =
       (Inr (resp, raw', exp), w') \<and> exp = session_lifetime \<and>
     rotated_to (sample_control [sample_token]) sample_session sample_token now raw' (durable w'))"
proof -
  have d: "durable (control_start (sample_control [sample_token])) = sample_control [sample_token]"
      "set (auth_sessions (sample_control [sample_token])) = {sample_session}"
      "set (refresh_tokens (sample_control [sample_token])) = {sample_token}" "ses_expires_at sample_session = session_lifetime"
    by (simp_all add: control_start_def sample_control_def sample_session_def)
  show ?thesis
    using refresh_rotates_the_live_token [of "control_start (sample_control [sample_token])" sample_auth_service sample_env "''raw''" "''req''",
        unfolded d, OF sample_control_ok(2)]
    by (elim disjE exE conjE) (auto simp: d(4))
qed

text \<open>A login of the sample user.\<close>

definition fresh_control :: control_db where
  "fresh_control = empty_control\<lparr>users := [sample_user]\<rparr>"

definition sample_login :: "((TokenResponse \<times> string \<times> time) result) \<times> control_world" where
  "sample_login = Login sample_auth_service sample_env '' Kim '' ''secret'' ''req'' (control_start fresh_control)"

lemma sample_password: "VerifyPassword sample_idkey (usr_password_hash sample_user) ''secret'' = Inr True"
proof -
  have "length (sample_idkey p sample_salt argonIterations argonMemory argonParallelism argonKeyLength) = 32" for p
    by (simp add: sample_idkey_def argonKeyLength_def)
  then show ?thesis
    by (simp add: sample_user_def verify_encode_hash sample_salt_def argonKeyLength_def)
qed

lemma sample_login_runs:
  "\<exists>x w'. sample_login = (Inr x, w') \<and> length (auth_sessions (durable w')) = 1 \<and> length (refresh_tokens (durable w')) = 1"
proof -
  have n: "normalizeUsername '' Kim '' = ''kim''" by code_simp
  have s: "as_idkey sample_auth_service = sample_idkey" by (simp add: sample_auth_service_def)
  have u: "query_row (\<lambda>u. usr_normalized_username u = ''kim'') [sample_user] = Some sample_user"
    by (simp add: query_row_def sample_user_def)
  have f: "auth_sessions fresh_control = []" "refresh_tokens fresh_control = []" "authentication_audit_events fresh_control = []"
      "users fresh_control = [sample_user]" "bank_routing_entries fresh_control = []"
    by (simp_all add: fresh_control_def empty_control_def)
  have us: "usr_id sample_user = ''user''" "usr_status sample_user = ''enabled''" "usr_auth_version sample_user = 3" "usr_entity sample_user = None"
    by (simp_all add: sample_user_def)
  show ?thesis
    unfolding sample_login_def Login_def n
    by (simp add: auth_transaction_def auth_Begin_def pool_Begin_def deferred_def attempt_def UserByUsername_def statement_def read_only_def
        andThen_def control_start_def ticked_def u scanUser_Some us s sample_password liftResult_def open_session_def jwt_newUUID_def
        newRefreshToken_def rand_Read_def ret_def sample_env_rand CreateSession_def insert_session_def checked.simps new_session_def
        session_checks_def session_lifetime_def no_key_def exists_row_def f CreateRefreshToken_def exec_def insert_token_def new_token_def
        token_checks_def tokenHash_def RecordAudit_def insert_auth_audit_def audit_row_of_event_def user_event_def auth_nullable_def known_user_def
        btrim_nonempty_def Commit_def Issue_def time_now_def Let_def)
qed

lemma fresh_families: "families_ok fresh_control"
  by (simp add: families_ok_def fresh_control_def empty_control_def unique_key_def live_tokens_def)

lemma sample_login_call: "auth_call fresh_control (durable (snd sample_login))"
  using auth_call.login [of "control_start fresh_control" sample_auth_service sample_env "'' Kim ''" "''secret''" "''req''"]
  by (simp add: sample_login_def control_start_def)

theorem sessions_have_one_live_token_witness:
  "\<exists>x w'. sample_login = (Inr x, w') \<and> length (refresh_tokens (durable w')) = 1 \<and> families_ok (durable w')"
proof -
  obtain x w' where r: "sample_login = (Inr x, w')" "length (refresh_tokens (durable w')) = 1" using sample_login_runs by blast
  have "families_ok (durable (snd sample_login))"
    by (rule sessions_have_one_live_token [OF fresh_families r_into_rtranclp, OF sample_login_call])
  then have "families_ok (durable w')" unfolding r(1) snd_conv .
  with r show ?thesis by (intro exI [of _ x] exI [of _ w'] conjI)
qed

theorem calls_refine_sessions_witness:
  "family_of (durable (snd sample_login)) = family_of fresh_control \<or> family_step (family_of fresh_control) (family_of (durable (snd sample_login)))"
  using calls_refine_sessions [OF sample_login_call fresh_families] .

text \<open>A revoked session, and a refresh that is tried on it.\<close>

definition revoked_control :: control_db where
  "revoked_control = empty_control\<lparr>users := [sample_user],
     auth_sessions := [sample_session\<lparr>ses_revoked_at := Some 700, ses_revocation_reason := Some ''logout''\<rparr>],
     refresh_tokens := [sample_token]\<rparr>"

theorem revoked_sessions_stay_revoked_witness:
  "revoked_as (durable (snd (Refresh sample_auth_service sample_env ''raw'' ''req'' (control_start revoked_control)))) ''session'' 700 (Some ''logout'') \<and>
   tokens_of (durable (snd (Refresh sample_auth_service sample_env ''raw'' ''req'' (control_start revoked_control)))) ''session'' = [sample_token]"
proof -
  let ?d = "durable (snd (Refresh sample_auth_service sample_env ''raw'' ''req'' (control_start revoked_control)))"
  have "auth_call\<^sup>*\<^sup>* revoked_control ?d"
    by (rule r_into_rtranclp) (use auth_call.refresh [of "control_start revoked_control" sample_auth_service sample_env "''raw''" "''req''"] in \<open>simp add: control_start_def\<close>)
  moreover have "families_ok revoked_control"
    by (simp add: families_ok_def revoked_control_def unique_key_def live_tokens_def sample_session_def sample_token_def)
  moreover have "revoked_as revoked_control ''session'' 700 (Some ''logout'')" "tokens_of revoked_control ''session'' = [sample_token]"
    by (simp_all add: revoked_as_def revoked_control_def tokens_of_def sample_session_def sample_token_def)
  ultimately show ?thesis
    using revoked_sessions_stay_revoked [of revoked_control ?d "''session''" 700 "Some ''logout''"] by simp
qed

end
