(* ===== verification/Staff.thy ===== *)
theory Staff
  imports Control_Store Auth_Refresh
begin

text \<open>
  \<open>internal/staff/service.go\<close>: the administration of users by issuer operators. Every workflow is one
  control transaction under an idempotency key. A change of the role, the bank, the status or the password
  raises the authorization version of the user (the trigger \<open>guard_user\<close>), which ends the sessions
  that were opened before it.
\<close>

section \<open>The service\<close>

text \<open>\<open>json.Marshal\<close> writes the members of a map in the order of their names.\<close>

definition userJSON :: "DirectoryUser \<Rightarrow> json" where
  "userJSON user = JObj
     [(''created_at'', JTime (du_CreatedAt user)),
      (''entity_id'', if du_EntityID user \<noteq> '''' then JStr (du_EntityID user) else JNull),
      (''id'', JStr (du_ID user)), (''role'', JStr (du_Role user)), (''status'', JStr (du_Status user)),
      (''updated_at'', JTime (du_UpdatedAt user)), (''username'', JStr (du_Username user))]"

definition ListUsers :: "environment \<Rightarrow> ('m control_world_scheme, json list) prog" where
  "ListUsers env = andThen (control_Users env) (\<lambda>users. ret (map userJSON users))"

definition GetUser :: "environment \<Rightarrow> uuid \<Rightarrow> ('m control_world_scheme, json) prog" where
  "GetUser env uid = andThen (control_User env uid) (\<lambda>user. ret (userJSON user))"

text \<open>\<open>entityID != "" && !s.tenant.Active(ctx, entityID)\<close> refuses the assignment.\<close>

definition require_active :: "environment \<Rightarrow> string \<Rightarrow> string \<Rightarrow> ('m control_world_scheme, unit) prog" where
  "require_active env shardID entityID =
     andThen (if entityID \<noteq> '''' then Active env shardID entityID else ret True) (\<lambda>active.
     if active then ret () else throw (Problem 400 ''invalid_request'' ''The bank assignment must be active.''))"

definition CreateUserWorkflow ::
  "environment \<Rightarrow> idkey \<Rightarrow> bytes \<Rightarrow> string \<Rightarrow> Principal \<Rightarrow> string \<Rightarrow> bytes \<Rightarrow> string \<Rightarrow> string \<Rightarrow> string \<Rightarrow> string \<Rightarrow> string \<Rightarrow>
   ('m control_world_scheme, int \<times> json) prog" where
  "CreateUserWorkflow env idkey fp shardID prin key body username password role entityID requestID =
     control_transaction env
     (let scope = ''users.create.actor.'' @ p_UserID prin in
      andThen (centralIdempotency env fp scope key body) (\<lambda>replay.
      if creplay_Found replay then ret (201, creplay_Response replay) else
      andThen (require_active env shardID entityID) (\<lambda>_.
      andThen (HashPassword idkey env password) (\<lambda>hash.
      andThen (CreateUser env \<lparr>suc_Username = normalizeUsername username, suc_PasswordHash = hash, suc_Role = role,
         suc_EntityID = entityID, suc_ActorID = p_UserID prin\<rparr>) (\<lambda>user.
      andThen (RecordAuthenticationAudit env \<lparr>auau_EventType = ''user_provision'', auau_ActorUserID = p_UserID prin,
         auau_SubjectUserID = du_ID user, auau_EntityID = entityID, auau_RequestID = requestID\<rparr>) (\<lambda>_.
      finish_command env scope key 201 (userJSON user) (du_ID user)))))))"

text \<open>From the update of the user to the commit, as the two update workflows have it.\<close>

definition updated_user ::
  "environment \<Rightarrow> Principal \<Rightarrow> uuid \<Rightarrow> string \<Rightarrow> string \<Rightarrow> string \<Rightarrow> string \<Rightarrow> DirectoryUser option \<Rightarrow>
   ('m control_world_scheme, int \<times> json) prog" where
  "updated_user env prin uid scope key event requestID updated =
     (case updated of
        None \<Rightarrow> throw (Problem 404 ''not_found'' ''The requested resource does not exist.'')
      | Some user \<Rightarrow>
          andThen (RecordAuthenticationAudit env \<lparr>auau_EventType = event, auau_ActorUserID = p_UserID prin,
             auau_SubjectUserID = uid, auau_EntityID = '''', auau_RequestID = requestID\<rparr>) (\<lambda>_.
          finish_command env scope key 200 (userJSON user) uid))"

definition update_scope :: "Principal \<Rightarrow> uuid \<Rightarrow> string \<Rightarrow> string" where
  "update_scope prin uid status =
     (if status \<noteq> '''' then ''users.disable.'' @ uid @ ''.actor.'' @ p_UserID prin
      else ''users.update.'' @ uid @ ''.actor.'' @ p_UserID prin)"

definition UpdateUserWorkflow ::
  "environment \<Rightarrow> bytes \<Rightarrow> string \<Rightarrow> Principal \<Rightarrow> uuid \<Rightarrow> string \<Rightarrow> bytes \<Rightarrow> string \<Rightarrow> string \<Rightarrow> string \<Rightarrow> string \<Rightarrow>
   ('m control_world_scheme, int \<times> json) prog" where
  "UpdateUserWorkflow env fp shardID prin uid key body role entityID status requestID =
     control_transaction env
     (let scope = update_scope prin uid status in
      andThen (centralIdempotency env fp scope key body) (\<lambda>replay.
      if creplay_Found replay then ret (200, creplay_Response replay) else
      andThen (require_active env shardID entityID) (\<lambda>_.
      andThen (if role \<noteq> '''' then UpdateUserRole env uid role entityID (p_UserID prin)
               else UpdateUserStatus env uid status (p_UserID prin)) (\<lambda>updated.
      updated_user env prin uid scope key scope requestID updated))))"

definition SetUserPasswordWorkflow ::
  "environment \<Rightarrow> idkey \<Rightarrow> bytes \<Rightarrow> Principal \<Rightarrow> uuid \<Rightarrow> string \<Rightarrow> bytes \<Rightarrow> string \<Rightarrow> string \<Rightarrow>
   ('m control_world_scheme, int \<times> json) prog" where
  "SetUserPasswordWorkflow env idkey fp prin uid key body password requestID =
     control_transaction env
     (let scope = ''users.set_password.'' @ uid @ ''.actor.'' @ p_UserID prin in
      andThen (centralIdempotency env fp scope key body) (\<lambda>replay.
      if creplay_Found replay then ret (200, creplay_Response replay) else
      andThen (HashPassword idkey env password) (\<lambda>hash.
      andThen (UpdateUserPassword env uid hash (p_UserID prin)) (\<lambda>updated.
      updated_user env prin uid scope key ''user_password_reset'' requestID updated))))"

section \<open>What the statements do\<close>

lemma keeps_require_active: "keeps durable (require_active env shardID entityID)" "keeps view (require_active env shardID entityID)"
  unfolding require_active_def Active_def succeeds_def HasActiveRoute_def pool_QueryRow_def
  by (auto simp: keeps_def andThen_def ret_def throw_def split: fault.splits)

text \<open>The row of a user after an update: what the statement set, with the version the trigger raised.\<close>

lemma update_user_effect:
  fixes w w' :: "'m control_world_scheme"
  assumes "update_user env uid f w = (Inr (Some user), w')" and "\<And>u. usr_id (f u) = usr_id u"
  shows "\<exists>clock u. u \<in> set (users (view w)) \<and> usr_id u = uid \<and> user = scanDirectoryUser (guard_user clock u (f u)) \<and>
    view w' = (view w)\<lparr>users := update_where (\<lambda>u. usr_id u = uid) (\<lambda>u. guard_user clock u (f u)) (users (view w))\<rparr>"
proof -
  let ?P = "\<lambda>u. usr_id u = uid"
  from assms(1) obtain n w1 where
    st: "statement env (\<lambda>ctx. update_users (sql_clock ctx) ?P f) w = (Inr n, w1)"
    and rest: "(if n \<noteq> 1 then ret None else andThen (userByID env uid) (\<lambda>user. ret (Some user))) w1 = (Inr (Some user), w')"
    unfolding update_user_def by (rule andThen_InrE)
  define clock where "clock = sql_clock (context_of env w)"
  have u: "update_users clock ?P f (view w) = Inr (n, view w1)" unfolding clock_def using st by (rule statement_InrE)
  from rest have r: "userByID env uid w1 = (Inr user, w')" by (auto simp: ret_def elim!: andThen_InrE split: if_splits)
  note v = update_users_Inr [OF u]
  from r have "find_user uid (view w1) = Inr user" "view w' = view w1"
    unfolding userByID_def by (auto elim!: statement_readE)
  then obtain x where q: "query_row ?P (users (view w1)) = Some x" and x: "user = scanDirectoryUser x"
    by (auto simp: find_user_def split: option.splits)
  have "\<exists>y \<in> set (users (view w)). ?P y \<and> x = guard_user clock y (f y)"
    using query_row_update_where [of ?P "\<lambda>y. guard_user clock y (f y)" "users (view w)" x] q v
    by (simp add: guard_user_def assms(2))
  with v x \<open>view w' = view w1\<close> show ?thesis by auto
qed


section \<open>Commands\<close>

datatype staff_command =
    NewUser string string string string
  | AssignRole uuid string string string
  | SetPassword uuid string

fun staff_workflow ::
  "environment \<Rightarrow> idkey \<Rightarrow> bytes \<Rightarrow> string \<Rightarrow> Principal \<Rightarrow> string \<Rightarrow> bytes \<Rightarrow> string \<Rightarrow> staff_command \<Rightarrow>
   ('m control_world_scheme, int \<times> json) prog" where
  "staff_workflow env idkey fp shardID prin key body req (NewUser username password role entityID) =
     CreateUserWorkflow env idkey fp shardID prin key body username password role entityID req"
| "staff_workflow env idkey fp shardID prin key body req (AssignRole uid role entityID status) =
     UpdateUserWorkflow env fp shardID prin uid key body role entityID status req"
| "staff_workflow env idkey fp shardID prin key body req (SetPassword uid password) =
     SetUserPasswordWorkflow env idkey fp prin uid key body password req"

fun staff_scope :: "Principal \<Rightarrow> staff_command \<Rightarrow> string" where
  "staff_scope prin (NewUser _ _ _ _) = ''users.create.actor.'' @ p_UserID prin"
| "staff_scope prin (AssignRole uid role entityID status) = update_scope prin uid status"
| "staff_scope prin (SetPassword uid _) = ''users.set_password.'' @ uid @ ''.actor.'' @ p_UserID prin"

fun staff_status :: "staff_command \<Rightarrow> int" where
  "staff_status (NewUser _ _ _ _) = 201"
| "staff_status _ = 200"

text \<open>
  The change of the users that a command asks for: a new enabled user with the normalized name, or the
  given columns of one user, with the authorization version as the trigger sets it.
\<close>

definition user_changed :: "uuid \<Rightarrow> (user_row \<Rightarrow> user_row) \<Rightarrow> json \<Rightarrow> uuid \<Rightarrow> control_db \<Rightarrow> control_db \<Rightarrow> bool" where
  "user_changed uid f resp subject d d' \<longleftrightarrow> subject = uid \<and>
     (\<exists>clock u. u \<in> set (users d) \<and> usr_id u = uid \<and> resp = userJSON (scanDirectoryUser (guard_user clock u (f u))) \<and>
        d' = d\<lparr>users := update_where (\<lambda>u. usr_id u = uid) (\<lambda>u. guard_user clock u (f u)) (users d)\<rparr>)"

fun staff_effect :: "idkey \<Rightarrow> uuid \<Rightarrow> staff_command \<Rightarrow> json \<Rightarrow> uuid \<Rightarrow> control_db \<Rightarrow> control_db \<Rightarrow> bool" where
  "staff_effect idkey actor (NewUser username password role entityID) resp subject d d' \<longleftrightarrow>
     (\<exists>u salt. usr_id u = subject \<and> usr_normalized_username u = normalized (normalizeUsername username) \<and>
        usr_password_hash u = encode_hash salt (idkey (bytes_of_string password) salt argonIterations argonMemory
          argonParallelism argonKeyLength) \<and> length salt = 16 \<and> length password \<le> MaxPasswordBytes \<and>
        usr_role u = role \<and> usr_entity u = nullable entityID \<and> usr_status u = ''enabled'' \<and> usr_auth_version u = 1 \<and>
        usr_created_by u = Some actor \<and> usr_updated_by u = Some actor \<and>
        subject \<notin> usr_id ` set (users d) \<and>
        resp = userJSON (scanDirectoryUser u) \<and> d' = d\<lparr>users := users d @ [u]\<rparr>)"
| "staff_effect idkey actor (AssignRole uid role entityID status) resp subject d d' \<longleftrightarrow>
     user_changed uid (if role \<noteq> ''''
       then (\<lambda>u. u\<lparr>usr_role := role, usr_entity := nullable entityID, usr_updated_by := Some actor\<rparr>)
       else (\<lambda>u. u\<lparr>usr_status := status, usr_updated_by := Some actor\<rparr>)) resp subject d d'"
| "staff_effect idkey actor (SetPassword uid password) resp subject d d' \<longleftrightarrow>
     (\<exists>salt. length salt = 16 \<and> length password \<le> MaxPasswordBytes \<and>
        user_changed uid (\<lambda>u. u\<lparr>usr_password_hash := encode_hash salt (idkey (bytes_of_string password) salt
          argonIterations argonMemory argonParallelism argonKeyLength), usr_updated_by := Some actor\<rparr>) resp subject d d')"

fun staff_event :: "Principal \<Rightarrow> staff_command \<Rightarrow> string \<times> string" where
  "staff_event prin (NewUser username password role entityID) = (''user_provision'', entityID)"
| "staff_event prin (AssignRole uid role entityID status) = (update_scope prin uid status, '''')"
| "staff_event prin (SetPassword uid password) = (''user_password_reset'', '''')"

definition staff_audited :: "Principal \<Rightarrow> staff_command \<Rightarrow> uuid \<Rightarrow> string \<Rightarrow> sql_context \<Rightarrow> control_db \<Rightarrow> control_db" where
  "staff_audited prin cmd subject req ctx d = d\<lparr>authentication_audit_events := authentication_audit_events d @
     [staff_audit_row \<lparr>auau_EventType = fst (staff_event prin cmd), auau_ActorUserID = p_UserID prin, auau_SubjectUserID = subject,
        auau_EntityID = snd (staff_event prin cmd), auau_RequestID = req\<rparr> ctx]\<rparr>"

lemma RecordAuthenticationAuditE:
  assumes "RecordAuthenticationAudit env event w = (Inr x, w')"
  obtains ctx where "view w' = (view w)\<lparr>authentication_audit_events := authentication_audit_events (view w) @ [staff_audit_row event ctx]\<rparr>"
  using assms unfolding RecordAuthenticationAudit_def
  by (auto simp: insert_auth_audit_def checked_Inr elim!: statement_execE)

lemma hashed_passwordE:
  fixes w w' :: "('d, 'm) tx_world_scheme"
  assumes "HashPassword idkey env password w = (Inr hash, w')"
  obtains salt where "length salt = 16" and "length password \<le> MaxPasswordBytes" and "view w' = view w"
    and "hash = encode_hash salt (idkey (bytes_of_string password) salt argonIterations argonMemory argonParallelism argonKeyLength)"
proof -
  let ?h = "\<lambda>salt. encode_hash salt (idkey (bytes_of_string password) salt argonIterations argonMemory argonParallelism argonKeyLength)"
  from assms obtain f where "\<not> MaxPasswordBytes < length password" "hash = ?h (map f [0..<16])" "view w' = view w"
    unfolding HashPassword_def by (auto simp: throw_def ret_def rand_Read_def elim!: andThen_InrE split: if_splits option.splits)
  then show thesis by (intro that [of "map f [0..<16]"]) simp_all
qed

lemma CreateUser_effect:
  fixes w w' :: "'m control_world_scheme"
  assumes "CreateUser env input w = (Inr user, w')"
  shows "\<exists>u. usr_normalized_username u = normalized (suc_Username input) \<and> usr_password_hash u = suc_PasswordHash input \<and>
    usr_role u = suc_Role input \<and> usr_entity u = nullable (suc_EntityID input) \<and> usr_status u = ''enabled'' \<and>
    usr_auth_version u = 1 \<and> usr_created_by u = Some (suc_ActorID input) \<and> usr_updated_by u = Some (suc_ActorID input) \<and>
    usr_id u = du_ID user \<and> usr_id u \<notin> usr_id ` set (users (view w)) \<and> user = scanDirectoryUser u \<and> view w' = (view w)\<lparr>users := users (view w) @ [u]\<rparr>"
proof -
  let ?n = "new_user_row input (context_of env w)"
  define u where "u = ?n\<lparr>usr_normalized_username := normalized (usr_normalized_username ?n)\<rparr>"
  from assms obtain uid w1 where st: "statement env (\<lambda>ctx d. map_sum id (\<lambda>d'. (usr_id (new_user_row input ctx), d'))
       (insert_user (new_user_row input ctx) d)) w = (Inr uid, w1)" and r: "userByID env uid w1 = (Inr user, w')"
    unfolding CreateUser_def by (rule andThen_InrE)
  have "map_sum id (\<lambda>d'. (usr_id ?n, d')) (insert_user ?n (view w)) = Inr (uid, view w1)" using st by (rule statement_InrE)
  then have uid: "uid = usr_id u" and i: "insert_user ?n (view w) = Inr (view w1)"
    by (auto simp: map_sum_Inr_iff u_def)
  from i have v: "view w1 = (view w)\<lparr>users := users (view w) @ [u]\<rparr>" and k: "no_key usr_id (usr_id u) (users (view w))"
    unfolding insert_user_def Let_def u_def [symmetric] by (simp_all add: checked_Inr)
  from r have f: "find_user uid (view w1) = Inr user" and v': "view w' = view w1"
    unfolding userByID_def by (auto elim!: statement_readE)
  have "query_row (\<lambda>x. usr_id x = uid) (users (view w1)) = Some u"
    using k by (auto simp: v uid query_row_append no_key_def list_all_iff split: option.splits dest: query_row_Some)
  with f have "user = scanDirectoryUser u" by (simp add: find_user_def)
  moreover have "usr_id u \<notin> usr_id ` set (users (view w))" using k by (auto simp: no_key_def list_all_iff)
  ultimately show ?thesis
    by (intro exI [of _ u]) (auto simp: v' v u_def new_user_row_def scanDirectoryUser_def)
qed

lemma staff_effect_frame:
  assumes "staff_effect idkey actor cmd resp subject d d'"
  shows "command_idempotency_records d' = command_idempotency_records d"
    and "staff_effect idkey actor cmd resp subject (but_commands d) (but_commands d')"
proof -
  have c: "command_idempotency_records e' = command_idempotency_records e"
    "user_changed uid f resp subject (but_commands e) (but_commands e')" if ch: "user_changed uid f resp subject e e'" for uid f e e'
  proof -
    from ch obtain clock u where "subject = uid" "u \<in> set (users e)" "usr_id u = uid"
      "resp = userJSON (scanDirectoryUser (guard_user clock u (f u)))"
      and e': "e' = e\<lparr>users := update_where (\<lambda>u. usr_id u = uid) (\<lambda>u. guard_user clock u (f u)) (users e)\<rparr>"
      unfolding user_changed_def by blast
    then show "user_changed uid f resp subject (but_commands e) (but_commands e')"
      unfolding user_changed_def but_commands_def by (intro conjI exI [of _ clock] exI [of _ u]) simp_all
    show "command_idempotency_records e' = command_idempotency_records e" by (simp add: e')
  qed
  show "command_idempotency_records d' = command_idempotency_records d" using assms c(1) by (cases cmd) auto
  show "staff_effect idkey actor cmd resp subject (but_commands d) (but_commands d')"
    using assms c(2) by (cases cmd) (fastforce simp: but_commands_def)+
qed

text \<open>From the changed row to the commit.\<close>

lemma staff_finished:
  fixes w1 wa wb w2 :: "'m control_world_scheme"
  assumes "staff_effect idkey (p_UserID prin) cmd raw subject (view w1) (view wa)"
    and "RecordAuthenticationAudit env \<lparr>auau_EventType = fst (staff_event prin cmd), auau_ActorUserID = p_UserID prin,
         auau_SubjectUserID = subject, auau_EntityID = snd (staff_event prin cmd), auau_RequestID = req\<rparr> wa = (Inr u, wb)"
    and "finish_command env scope key status raw subject wb = (Inr x, w2)"
    and "stored_command (scope, key) (view w1) = Some (f, t, r0)" and "but_commands (view w1) = but_commands d"
  shows "x = (status, raw) \<and> stored_command (scope, key) (durable w2) = Some (f, t, raw) \<and>
    (\<exists>d1 ctx. staff_effect idkey (p_UserID prin) cmd raw subject (but_commands d) d1 \<and>
      but_commands (durable w2) = staff_audited prin cmd subject req ctx d1)"
proof -
  obtain ctx where a: "view wb = staff_audited prin cmd subject req ctx (view wa)"
    unfolding staff_audited_def by (rule RecordAuthenticationAuditE [OF assms(2)])
  have s: "stored_command (scope, key) (view wb) = Some (f, t, r0)"
    using assms(4) stored_command_cong [of "view wb" "view w1"] staff_effect_frame(1) [OF assms(1)] a
    by (simp add: staff_audited_def)
  note k = finished_command [OF assms(3) s]
  have "but_commands (durable w2) = staff_audited prin cmd subject req ctx (but_commands (view wa))"
    using k(2) a by (simp add: staff_audited_def but_commands_def)
  with k(1,3) staff_effect_frame(2) [OF assms(1)] assms(5) show ?thesis by auto
qed

lemma UpdateUser_effects:
  fixes w w' :: "'m control_world_scheme"
  shows "(if role \<noteq> '''' then UpdateUserRole env uid role entityID (p_UserID prin)
       else UpdateUserStatus env uid status (p_UserID prin)) w = (Inr (Some user), w') \<Longrightarrow>
     staff_effect idkey (p_UserID prin) (AssignRole uid role entityID status) (userJSON user) uid (view w) (view w')"
    and "length salt = 16 \<Longrightarrow> length password \<le> MaxPasswordBytes \<Longrightarrow>
     UpdateUserPassword env uid (encode_hash salt (idkey (bytes_of_string password) salt argonIterations argonMemory
       argonParallelism argonKeyLength)) (p_UserID prin) w = (Inr (Some user), w') \<Longrightarrow>
     staff_effect idkey (p_UserID prin) (SetPassword uid password) (userJSON user) uid (view w) (view w')"
proof -
  have c: "user_changed uid f (userJSON user) uid (view w) (view w')"
    if "update_user env uid f w = (Inr (Some user), w')" and "\<And>u. usr_id (f u) = usr_id u" for f
    using update_user_effect [OF that] unfolding user_changed_def by blast
  show "staff_effect idkey (p_UserID prin) (AssignRole uid role entityID status) (userJSON user) uid (view w) (view w')"
    if "(if role \<noteq> '''' then UpdateUserRole env uid role entityID (p_UserID prin)
       else UpdateUserStatus env uid status (p_UserID prin)) w = (Inr (Some user), w')"
    using that c unfolding staff_effect.simps UpdateUserRole_def UpdateUserStatus_def by (simp split: if_splits)
  show "staff_effect idkey (p_UserID prin) (SetPassword uid password) (userJSON user) uid (view w) (view w')"
    if "length salt = 16" and "length password \<le> MaxPasswordBytes" and
      "UpdateUserPassword env uid (encode_hash salt (idkey (bytes_of_string password) salt argonIterations argonMemory
       argonParallelism argonKeyLength)) (p_UserID prin) w = (Inr (Some user), w')"
    using that c unfolding staff_effect.simps UpdateUserPassword_def by (intro exI [of _ salt]) simp
qed

definition staff_wrote ::
  "idkey \<Rightarrow> bytes \<Rightarrow> Principal \<Rightarrow> string \<Rightarrow> bytes \<Rightarrow> string \<Rightarrow> staff_command \<Rightarrow> int \<times> json \<Rightarrow> control_db \<Rightarrow> control_db \<Rightarrow> bool" where
  "staff_wrote idkey fp prin key body req cmd x d d' \<longleftrightarrow>
     fst x = staff_status cmd \<and>
     (\<exists>till. stored_command (staff_scope prin cmd, key) d' = Some (Fingerprint fp body, till, snd x)) \<and>
     (d' = d \<or> (\<exists>subject d1 ctx. staff_effect idkey (p_UserID prin) cmd (snd x) subject (but_commands d) d1 \<and>
        but_commands d' = staff_audited prin cmd subject req ctx d1))"

text \<open>The rest of an update after a fresh claim.\<close>

lemma updated_userE:
  fixes w1 w2 :: "'m control_world_scheme"
  assumes "updated_user env prin uid scope key event req updated wa = (Inr x, w2)"
    and "\<And>user. updated = Some user \<Longrightarrow> staff_effect idkey (p_UserID prin) cmd (userJSON user) uid (view w1) (view wa)"
    and "staff_event prin cmd = (event, '''')" and "staff_status cmd = 200" and "staff_scope prin cmd = scope"
    and "stored_command (scope, key) (view w1) = Some (Fingerprint fp body, t, r0)" and "but_commands (view w1) = but_commands d"
  shows "staff_wrote idkey fp prin key body req cmd x d (durable w2)"
proof -
  from assms(1) obtain user u wb where "updated = Some user"
    and a: "RecordAuthenticationAudit env \<lparr>auau_EventType = event, auau_ActorUserID = p_UserID prin,
             auau_SubjectUserID = uid, auau_EntityID = '''', auau_RequestID = req\<rparr> wa = (Inr u, wb)"
    and f: "finish_command env scope key 200 (userJSON user) uid wb = (Inr x, w2)"
    unfolding updated_user_def by (auto simp: throw_def elim!: andThen_InrE split: option.splits)
  from staff_finished [OF assms(2) [OF this(1)] _ f assms(6,7), of req u] a assms(3-5) show ?thesis
    unfolding staff_wrote_def by auto
qed

lemma staff_command_wrote:
  fixes w w' :: "'m control_world_scheme"
  assumes "staff_workflow env idkey fp shardID prin key body req cmd w = (Inr x, w')"
  shows "staff_wrote idkey fp prin key body req cmd x (durable w) (durable w')"
proof (cases cmd)
  case (NewUser username password role entityID)
  from assms [unfolded NewUser staff_workflow.simps CreateUserWorkflow_def Let_def] show ?thesis
  proof (cases rule: claimed_commandE)
    case (replay rep t w1 w2)
    then show ?thesis by (auto simp: staff_wrote_def NewUser ret_def)
  next
    case (fresh rep till w1 w2)
    from fresh(1,2) obtain u1 wr hash wh user wc u wb where r: "require_active env shardID entityID w1 = (Inr u1, wr)"
      and h: "HashPassword idkey env password wr = (Inr hash, wh)"
      and c: "CreateUser env \<lparr>suc_Username = normalizeUsername username, suc_PasswordHash = hash, suc_Role = role,
         suc_EntityID = entityID, suc_ActorID = p_UserID prin\<rparr> wh = (Inr user, wc)"
      and a: "RecordAuthenticationAudit env \<lparr>auau_EventType = ''user_provision'', auau_ActorUserID = p_UserID prin,
         auau_SubjectUserID = du_ID user, auau_EntityID = entityID, auau_RequestID = req\<rparr> wc = (Inr u, wb)"
      and f: "finish_command env (''users.create.actor.'' @ p_UserID prin) key 201 (userJSON user) (du_ID user) wb = (Inr x, w2)"
      by (auto elim!: andThen_InrE)
    from h obtain salt where salt: "length salt = 16" "length password \<le> MaxPasswordBytes" "view wh = view wr"
      "hash = encode_hash salt (idkey (bytes_of_string password) salt argonIterations argonMemory argonParallelism argonKeyLength)"
      by (rule hashed_passwordE)
    have v: "view wh = view w1" using keepsD [OF keeps_require_active(2) r] salt(3) by simp
    have e: "staff_effect idkey (p_UserID prin) cmd (userJSON user) (du_ID user) (view w1) (view wc)"
    proof -
      from CreateUser_effect [OF c] obtain n where "usr_id n = du_ID user" and n: "usr_id n \<notin> usr_id ` set (users (view wh))"
        "usr_normalized_username n = normalized (normalizeUsername username)" "usr_password_hash n = hash" "usr_role n = role"
        "usr_entity n = nullable entityID" "usr_status n = ''enabled''" "usr_auth_version n = 1" "usr_created_by n = Some (p_UserID prin)"
        "usr_updated_by n = Some (p_UserID prin)" "user = scanDirectoryUser n" "view wc = (view wh)\<lparr>users := users (view wh) @ [n]\<rparr>"
        by (elim exE conjE) simp
      then show ?thesis
        using salt unfolding NewUser staff_effect.simps v by (intro exI [of _ n] exI [of _ salt]) simp
    qed
    from staff_finished [OF e _ f fresh(6,4), of req u] a fresh(3) show ?thesis
      unfolding staff_wrote_def by (auto simp: NewUser simp del: staff_effect.simps)
  qed
next
  case (AssignRole uid role entityID status)
  from assms [unfolded AssignRole staff_workflow.simps UpdateUserWorkflow_def Let_def] show ?thesis
  proof (cases rule: claimed_commandE)
    case (replay rep t w1 w2)
    then show ?thesis by (auto simp: staff_wrote_def AssignRole ret_def)
  next
    case (fresh rep till w1 w2)
    let ?upd = "if role \<noteq> '''' then UpdateUserRole env uid role entityID (p_UserID prin)
               else UpdateUserStatus env uid status (p_UserID prin) :: ('m control_world_scheme, DirectoryUser option) prog"
    let ?scope = "update_scope prin uid status"
    from fresh(1,2) have "andThen (require_active env shardID entityID) (\<lambda>_. andThen ?upd (\<lambda>updated.
        updated_user env prin uid ?scope key ?scope req updated)) w1 = (Inr x, w2)" by simp
    then obtain u1 wr where r: "require_active env shardID entityID w1 = (Inr u1, wr)"
      and m: "andThen ?upd (\<lambda>updated. updated_user env prin uid ?scope key ?scope req updated) wr = (Inr x, w2)"
      by (rule andThen_InrE)
    from m obtain updated wa where c: "?upd wr = (Inr updated, wa)"
      and f: "updated_user env prin uid ?scope key ?scope req updated wa = (Inr x, w2)" by (rule andThen_InrE)
    have v: "view wr = view w1" using keepsD [OF keeps_require_active(2) r] by simp
    have "staff_wrote idkey fp prin key body req cmd x (durable w) (durable w2)"
      by (rule updated_userE [OF f _ _ _ _ fresh(6,4)])
        (use c v UpdateUser_effects(1) [of role env uid entityID prin status wr _ wa idkey] in \<open>auto simp: AssignRole simp del: staff_effect.simps\<close>)
    then show ?thesis by (simp add: fresh(3))
  qed
next
  case (SetPassword uid password)
  from assms [unfolded SetPassword staff_workflow.simps SetUserPasswordWorkflow_def Let_def] show ?thesis
  proof (cases rule: claimed_commandE)
    case (replay rep t w1 w2)
    then show ?thesis by (auto simp: staff_wrote_def SetPassword ret_def)
  next
    case (fresh rep till w1 w2)
    from fresh(1,2) obtain hash wh updated wa where h: "HashPassword idkey env password w1 = (Inr hash, wh)"
      and c: "UpdateUserPassword env uid hash (p_UserID prin) wh = (Inr updated, wa)"
      and f: "updated_user env prin uid (''users.set_password.'' @ uid @ ''.actor.'' @ p_UserID prin) key
        ''user_password_reset'' req updated wa = (Inr x, w2)"
      by (auto elim!: andThen_InrE)
    from h obtain salt where salt: "length salt = 16" "length password \<le> MaxPasswordBytes" "view wh = view w1"
      "hash = encode_hash salt (idkey (bytes_of_string password) salt argonIterations argonMemory argonParallelism argonKeyLength)"
      by (rule hashed_passwordE)
    have "staff_wrote idkey fp prin key body req cmd x (durable w) (durable w2)"
      by (rule updated_userE [OF f _ _ _ _ fresh(6,4)])
        (use c salt UpdateUser_effects(2) [OF salt(1,2), of env uid idkey prin wh _ wa] in \<open>auto simp: SetPassword simp del: staff_effect.simps\<close>)
    then show ?thesis by (simp add: fresh(3))
  qed
qed

section \<open>Recorded changes\<close>

lemma keeps_control_users [keeps_intros]:
  "keeps durable (CreateUser env input)" "keeps durable (update_user env uid f)"
  "keeps durable (UpdateUserRole env uid role entityID actor)" "keeps durable (UpdateUserStatus env uid status actor)"
  "keeps durable (UpdateUserPassword env uid hash actor)" "keeps durable (RecordAuthenticationAudit env event)"
  "keeps durable (HashPassword idkey env password)"
  unfolding CreateUser_def UpdateUserRole_def UpdateUserStatus_def UpdateUserPassword_def update_user_def userByID_def
    RecordAuthenticationAudit_def HashPassword_def
  by (intro keeps_intros)+

lemma atomic_control_transaction [atomic_intros]: "atomic m \<Longrightarrow> atomic (control_transaction env m)"
  unfolding control_transaction_def
  by (intro atomic_andThen atomic_deferred) (auto simp: keeps_def pool_Begin_def split: fault.splits)

lemma atomic_finish_command [atomic_intros]: "no_lost_commits env \<Longrightarrow> atomic (finish_command env scope key status raw rid)"
  unfolding finish_command_def by (intro atomic_andThen atomic_Commit_ret keeps_intros)

lemma atomic_updated_user: "no_lost_commits env \<Longrightarrow> atomic (updated_user env prin uid scope key event req updated)"
  unfolding updated_user_def by (intro atomic_option atomic_throw atomic_andThen atomic_finish_command keeps_intros)

lemma atomic_staff:
  assumes "no_lost_commits env"
  shows "atomic (staff_workflow env idkey fp shardID prin key body req cmd)"
proof (cases cmd)
  case NewUser
  then show ?thesis unfolding NewUser staff_workflow.simps CreateUserWorkflow_def Let_def
    by (intro atomic_control_transaction atomic_finish_command atomic_andThen atomic_if atomic_ret
        keeps_require_active keeps_intros assms)
next
  case AssignRole
  then show ?thesis unfolding AssignRole staff_workflow.simps UpdateUserWorkflow_def Let_def
    by (intro atomic_control_transaction atomic_updated_user atomic_andThen atomic_if atomic_ret
        keeps_require_active keeps_if keeps_intros assms)
next
  case SetPassword
  then show ?thesis unfolding SetPassword staff_workflow.simps SetUserPasswordWorkflow_def Let_def
    by (intro atomic_control_transaction atomic_updated_user atomic_andThen atomic_if atomic_ret keeps_intros assms)
qed

text \<open>
  C25. A command on the staff directory either fails and changes nothing durable, or it answers with the
  response that is stored under its key for this request; then it changed nothing (a replay), or its commit
  holds exactly the requested change of one user, in which the trigger set the authorization version, and
  its audit event.
\<close>

theorem staff_commands_are_recorded:
  fixes w w' :: "'m control_world_scheme"
  assumes "no_lost_commits env" and "staff_workflow env idkey fp shardID prin key body req cmd w = (res, w')"
  shows "case res of
      Inl e \<Rightarrow> durable w' = durable w
    | Inr (status, resp) \<Rightarrow> status = staff_status cmd \<and>
        (\<exists>till. stored_command (staff_scope prin cmd, key) (durable w') = Some (Fingerprint fp body, till, resp)) \<and>
        (durable w' = durable w \<or>
         (\<exists>subject d1 ctx. staff_effect idkey (p_UserID prin) cmd resp subject (but_commands (durable w)) d1 \<and>
            but_commands (durable w') = staff_audited prin cmd subject req ctx d1))"
proof (cases res)
  case (Inl e)
  then show ?thesis using atomicD [OF atomic_staff [OF assms(1)]] assms(2) by simp
next
  case (Inr x)
  with staff_command_wrote assms(2) have "staff_wrote idkey fp prin key body req cmd x (durable w) (durable w')" by blast
  then show ?thesis unfolding staff_wrote_def Inr by (simp add: split_beta del: staff_effect.simps)
qed

section \<open>Sessions of changed users\<close>

definition credentials :: "user_row \<Rightarrow> string \<times> string \<times> uuid option \<times> string" where
  "credentials u = (usr_password_hash u, usr_role u, usr_entity u, usr_status u)"

definition session_versions_ok :: "control_db \<Rightarrow> bool" where
  "session_versions_ok d \<longleftrightarrow>
     (\<forall>s \<in> set (auth_sessions d). \<forall>u \<in> set (users d). usr_id u = ses_user s \<longrightarrow> ses_auth_version s \<le> usr_auth_version u)"

lemma changed_user_version:
  assumes "user_changed uid f resp subject d d'" and "unique_key usr_id (users d)"
    and "\<And>u. usr_id (f u) = usr_id u"
    and "u \<in> set (users d)" and "u' \<in> set (users d')" and "usr_id u' = usr_id u" and "credentials u' \<noteq> credentials u"
  shows "usr_auth_version u < usr_auth_version u'"
proof -
  from assms(1) obtain clock where d': "users d' = update_where (\<lambda>u. usr_id u = uid) (\<lambda>u. guard_user clock u (f u)) (users d)"
    by (auto simp: user_changed_def)
  from assms(5) obtain y where y: "y \<in> set (users d)" "u' = (if usr_id y = uid then guard_user clock y (f y) else y)"
    unfolding d' set_update_where by auto
  have "usr_id y = usr_id u'" using y(2) assms(3) by (simp add: guard_user_def)
  then have "y = u" using unique_key_inj [OF assms(2) y(1) assms(4)] assms(6) by simp
  with y(2) assms(7) show ?thesis by (auto simp: guard_user_def credentials_def split: if_splits)
qed

lemma staff_effect_users:
  assumes "staff_effect idkey actor cmd resp subject d d'"
  shows "auth_sessions d' = auth_sessions d" and "refresh_tokens d' = refresh_tokens d"
    and "unique_key usr_id (users d) \<Longrightarrow> unique_key usr_id (users d')"
    and "unique_key usr_id (users d) \<Longrightarrow> u \<in> set (users d) \<Longrightarrow> u' \<in> set (users d') \<Longrightarrow> usr_id u' = usr_id u \<Longrightarrow>
      credentials u' \<noteq> credentials u \<Longrightarrow> usr_auth_version u < usr_auth_version u'"
proof -
  have e: "(\<exists>v. usr_id v \<notin> usr_id ` set (users d) \<and> d' = d\<lparr>users := users d @ [v]\<rparr>) \<or>
      (\<exists>uid f. (\<forall>u. usr_id (f u) = usr_id u) \<and> user_changed uid f resp subject d d')"
  proof (cases cmd)
    case (NewUser username password role entityID)
    then show ?thesis using assms by auto
  next
    case (AssignRole uid role entityID status)
    let ?f = "if role \<noteq> [] then (\<lambda>u. u\<lparr>usr_role := role, usr_entity := nullable entityID, usr_updated_by := Some actor\<rparr>)
       else (\<lambda>u. u\<lparr>usr_status := status, usr_updated_by := Some actor\<rparr>)"
    have "\<forall>u. usr_id (?f u) = usr_id u" by simp
    then show ?thesis using assms unfolding AssignRole staff_effect.simps by blast
  next
    case (SetPassword uid password)
    have "\<forall>u. usr_id (u\<lparr>usr_password_hash := hash, usr_updated_by := Some actor\<rparr>) = usr_id u" for hash by simp
    moreover obtain hash where "user_changed uid (\<lambda>u. u\<lparr>usr_password_hash := hash, usr_updated_by := Some actor\<rparr>) resp subject d d'"
      using assms unfolding SetPassword staff_effect.simps by (elim exE conjE)
    ultimately show ?thesis by (intro disjI2 exI conjI)
  qed
  then show "auth_sessions d' = auth_sessions d" "refresh_tokens d' = refresh_tokens d" by (auto simp: user_changed_def)
  show "unique_key usr_id (users d')" if "unique_key usr_id (users d)"
    using e
  proof (elim disjE exE conjE)
    fix uid f assume f: "\<forall>u. usr_id (f u) = usr_id u" and "user_changed uid f resp subject d d'"
    then obtain clock where "users d' = update_where (\<lambda>u. usr_id u = uid) (\<lambda>u. guard_user clock u (f u)) (users d)"
      unfolding user_changed_def by auto
    then show ?thesis using that by (simp add: unique_key_update_where guard_user_def f)
  qed (use that in \<open>simp add: unique_key_append\<close>)
  show "usr_auth_version u < usr_auth_version u'" if k: "unique_key usr_id (users d)" and u: "u \<in> set (users d)" "u' \<in> set (users d')"
      "usr_id u' = usr_id u" "credentials u' \<noteq> credentials u"
    using e
  proof (elim disjE exE conjE)
    fix v assume "usr_id v \<notin> usr_id ` set (users d)" and "d' = d\<lparr>users := users d @ [v]\<rparr>"
    with u unique_key_inj [OF k u(1), of u'] show ?thesis by auto
  next
    fix uid f assume "\<forall>u. usr_id (f u) = usr_id u" and "user_changed uid f resp subject d d'"
    with changed_user_version [OF _ k _ u] show ?thesis by blast
  qed
qed

text \<open>
  C13. When an administrator changes the password, the role, the bank or the status of a user, the
  authorization version of the user rises, and every session that was opened before the change is over:
  a refresh with any of its tokens fails.
\<close>

theorem changed_users_lose_their_sessions:
  fixes w w' w2 :: "'m control_world_scheme"
  assumes ok: "control_ok (durable w)" "families_ok (durable w)" "session_versions_ok (durable w)"
    and run: "staff_workflow env idkey fp shardID prin key body req cmd w = (Inr x, w')"
    and u: "u \<in> set (users (durable w))" "u' \<in> set (users (durable w'))" "usr_id u' = usr_id u" "credentials u' \<noteq> credentials u"
    and t: "s \<in> set (auth_sessions (durable w))" "ses_user s = usr_id u" "t \<in> set (refresh_tokens (durable w))"
      "tok_session t = ses_id s" "tok_hash t = tokenHash raw"
    and later: "durable w2 = durable w'"
  shows "usr_auth_version u < usr_auth_version u' \<and> (\<exists>e w3. Refresh svc env' raw req' w2 = (Inl e, w3))"
proof -
  note wr = staff_command_wrote [OF run, unfolded staff_wrote_def]
  have k: "unique_key usr_id (users (durable w))" using ok(1) by (simp add: control_ok_def)
  have ne: "durable w' \<noteq> durable w" using u unique_key_inj [OF k u(1), of u'] by auto
  with wr obtain subject d1 ctx where e: "staff_effect idkey (p_UserID prin) cmd (snd x) subject (but_commands (durable w)) d1"
    and a: "but_commands (durable w') = staff_audited prin cmd subject req ctx d1" by blast
  have same: "users (durable w') = users d1" "auth_sessions (durable w') = auth_sessions d1" "refresh_tokens (durable w') = refresh_tokens d1"
    using arg_cong [OF a, of users] arg_cong [OF a, of auth_sessions] arg_cong [OF a, of refresh_tokens]
    by (simp_all add: but_commands_def staff_audited_def)
  have k1: "unique_key usr_id (users (but_commands (durable w)))" using k by (simp add: but_commands_def)
  note ef = staff_effect_users [OF e]
  have lt: "usr_auth_version u < usr_auth_version u'"
    using ef(4) [OF k1, of u u'] u unfolding same by (simp add: but_commands_def)
  have st: "auth_sessions (durable w2) = auth_sessions (durable w)" "refresh_tokens (durable w2) = refresh_tokens (durable w)"
    "users (durable w2) = users d1" using ef(1,2) same later by (simp_all add: but_commands_def)
  have fam: "families_ok (durable w2)" using ok(2) unfolding families_ok_def live_tokens_def st(1,2) .
  have "\<exists>e w3. Refresh svc env' raw req' w2 = (Inl e, w3)"
  proof (cases "Refresh svc env' raw req' w2")
    case (Pair r w3)
    show ?thesis
    proof (cases r)
      case (Inr y)
      obtain resp raw' exp where y: "y = (resp, raw', exp)" by (cases y)
      from Pair [unfolded Inr y] fam obtain t2 s2 u2 where h: "t2 \<in> set (refresh_tokens (durable w2))" "tok_hash t2 = tokenHash raw"
        "s2 \<in> set (auth_sessions (durable w2))" "ses_id s2 = tok_session t2" "u2 \<in> set (users (durable w2))" "usr_id u2 = ses_user s2"
        "usr_auth_version u2 = ses_auth_version s2" by (rule refresh_returns)
      have "t2 = t" using ok(1) h(1,2) t(3,5) unique_key_inj [of tok_hash "refresh_tokens (durable w)" t2 t] st
        by (simp add: control_ok_def)
      then have "s2 = s" using ok(1) h(3,4) t(1,4) unique_key_inj [of ses_id "auth_sessions (durable w)" s2 s] st
        by (simp add: control_ok_def)
      then have "u2 = u'" using unique_key_inj [OF ef(3) [OF k1], of u2 u'] h(5,6) u(2,3) t(2) st(3) same(1) by simp
      with h(7) \<open>s2 = s\<close> lt ok(3) t(1,2) u(1) show ?thesis by (fastforce simp: session_versions_ok_def)
    qed (use Pair in auto)
  qed
  with lt show ?thesis by simp
qed

section \<open>A concrete run\<close>

definition sample_admin :: Principal where
  "sample_admin = \<lparr>p_UserID = ''user'', p_Username = ''kim'', p_Role = ''issuer_operator'', p_EntityID = ''''\<rparr>"

definition disable_sample :: "(int \<times> json) result \<times> control_world" where
  "disable_sample = staff_workflow sample_env sample_idkey [] ''shard'' sample_admin ''k1'' [] ''req''
     (AssignRole ''user'' '''' '''' ''disabled'') (control_start (sample_control [sample_token]))"

lemma sample_user_checks:
  "user_checks (sample_user\<lparr>usr_status := ''disabled'', usr_updated_by := Some a, usr_auth_version := 4, usr_updated_at := c\<rparr>)"
  by (simp add: user_checks_def sample_user_def encode_hash_def starts_with_def username_char_def is_digit_def)

lemma disable_sample_runs:
  "\<exists>x w'. disable_sample = (Inr x, w') \<and> (\<exists>u' \<in> set (users (durable w')). usr_id u' = ''user'' \<and> usr_status u' = ''disabled'')"
proof -
  have s: "users (sample_control [sample_token]) = [sample_user]" "command_idempotency_records (sample_control [sample_token]) = []"
    "authentication_audit_events (sample_control [sample_token]) = []" by (simp_all add: sample_control_def empty_control_def)
  have us: "usr_id sample_user = ''user''" "usr_entity sample_user = None" "usr_auth_version sample_user = 3"
    "usr_status sample_user = ''enabled''" by (simp_all add: sample_user_def)
  show ?thesis
    unfolding disable_sample_def staff_workflow.simps UpdateUserWorkflow_def Let_def
    by (simp add: control_transaction_def pool_Begin_def deferred_def andThen_def centralIdempotency_def time_now_def onError_def
        control_ClaimIdempotency_def statement_def read_only_def query_row_def s us control_start_def exec_def insert_command_def
        checked.simps command_checks_def new_command_row_def btrim_nonempty_def update_scope_def sample_admin_def is_object_def no_key_def ret_def
        no_replay_def require_active_def UpdateUserStatus_def update_user_def update_users_def guarded_update_def affected_def update_where_def
        sample_user_checks guard_user_def [of _ sample_user] exists_row_def userByID_def find_user_def updated_user_def
        RecordAuthenticationAudit_def insert_auth_audit_def staff_audit_row_def known_user_def nullable_def finish_command_def
        control_FinishIdempotency_def exec_rows_def update_commands_def is_command_def command_key_def userJSON_def Commit_def)
qed

theorem staff_commands_are_recorded_witness:
  "\<exists>resp w' d1 ctx. disable_sample = (Inr (200, resp), w') \<and>
     staff_effect sample_idkey ''user'' (AssignRole ''user'' '''' '''' ''disabled'') resp ''user''
       (but_commands (sample_control [sample_token])) d1 \<and>
     but_commands (durable w') = staff_audited sample_admin (AssignRole ''user'' '''' '''' ''disabled'') ''user'' ''req'' ctx d1"
proof -
  let ?cmd = "AssignRole ''user'' '''' '''' ''disabled''" and ?d = "sample_control [sample_token]"
  obtain x w' where run: "disable_sample = (Inr x, w')" and ch: "\<exists>u' \<in> set (users (durable w')). usr_status u' = ''disabled''"
    using disable_sample_runs by blast
  have d: "durable (control_start ?d) = ?d" "p_UserID sample_admin = ''user''" by (simp_all add: control_start_def sample_admin_def)
  have "no_lost_commits sample_env" by (simp add: no_lost_commits_def sample_env_def)
  from staff_commands_are_recorded [OF this run [unfolded disable_sample_def]] obtain resp where x: "x = (200, resp)"
    and c: "durable w' = ?d \<or> (\<exists>subject d1 ctx. staff_effect sample_idkey ''user'' ?cmd resp subject (but_commands ?d) d1 \<and>
      but_commands (durable w') = staff_audited sample_admin ?cmd subject ''req'' ctx d1)"
    unfolding d sum.case by (cases x) (auto simp del: staff_effect.simps)
  have "durable w' \<noteq> ?d" using ch by (auto simp: sample_control_def sample_user_def)
  with c obtain subject d1 ctx where e: "staff_effect sample_idkey ''user'' ?cmd resp subject (but_commands ?d) d1"
    and a: "but_commands (durable w') = staff_audited sample_admin ?cmd subject ''req'' ctx d1" by blast
  have "subject = ''user''" using e by (simp add: user_changed_def)
  with run x e a show ?thesis by blast
qed

theorem changed_users_lose_their_sessions_witness:
  "\<exists>x w'. disable_sample = (Inr x, w') \<and>
     (\<exists>e w3. Refresh sample_auth_service sample_env ''raw'' ''req'' (control_start (durable w')) = (Inl e, w3))"
proof -
  let ?d = "sample_control [sample_token]"
  obtain x w' u' where run: "disable_sample = (Inr x, w')" and u': "u' \<in> set (users (durable w'))" "usr_id u' = ''user''" "usr_status u' = ''disabled''"
    using disable_sample_runs by blast
  have d: "durable (control_start e) = e" for e by (simp add: control_start_def)
  have ok: "control_ok ?d" "session_versions_ok ?d"
    by (simp_all add: control_ok_def session_versions_ok_def sample_control_def empty_control_def sample_user_def sample_session_def
        sample_token_def session_checks_def session_lifetime_def unique_key_def)
  have m: "sample_user \<in> set (users ?d)" "sample_session \<in> set (auth_sessions ?d)" "sample_token \<in> set (refresh_tokens ?d)"
    by (simp_all add: sample_control_def)
  have f: "usr_id u' = usr_id sample_user" "credentials u' \<noteq> credentials sample_user" "ses_user sample_session = usr_id sample_user"
    "tok_session sample_token = ses_id sample_session" "tok_hash sample_token = tokenHash ''raw''"
    using u' by (simp_all add: credentials_def sample_user_def sample_session_def sample_token_def)
  from changed_users_lose_their_sessions [of "control_start ?d" sample_env sample_idkey "[]" "''shard''" sample_admin "''k1''" "[]" "''req''"
      "AssignRole ''user'' '''' '''' ''disabled''" x w' sample_user u' sample_session sample_token "''raw''" "control_start (durable w')"
      sample_auth_service sample_env "''req''", unfolded d, OF ok(1) sample_control_ok(2) ok(2) run [unfolded disable_sample_def]
      m(1) u'(1) f(1,2) m(2) f(3) m(3) f(4,5) refl]
  have "\<exists>e w3. Refresh sample_auth_service sample_env ''raw'' ''req'' (control_start (durable w')) = (Inl e, w3)" by (rule conjunct2)
  with run show ?thesis by blast
qed

end
