(* ===== verification/Bank.thy ===== *)
theory Bank
  imports Control_Store Commit_Points
begin

text \<open>
  \<open>internal/bank/service.go\<close>: the directory of banks. Provisioning and patching a bank are sagas
  across the control database, which routes the bank to its shard, and the shard, which holds its entity:
  a state of this theory is the pair of both worlds, and each step of a saga runs in one of them with its
  own transactions and its own faults.
\<close>

section \<open>Two databases\<close>

type_synonym ('m, 'n) bank_world = "'m control_world_scheme \<times> 'n shard_world_scheme"

definition on_control :: "('c, 'a) prog \<Rightarrow> ('c \<times> 's, 'a) prog" where
  "on_control m = (\<lambda>(c, s). case m c of (r, c') \<Rightarrow> (r, (c', s)))"

definition on_shard :: "('s, 'a) prog \<Rightarrow> ('c \<times> 's, 'a) prog" where
  "on_shard m = (\<lambda>(c, s). case m s of (r, s') \<Rightarrow> (r, (c, s')))"

text \<open>
  The service: the environments of both databases, the id of the shard, the key of the fingerprints.
\<close>

record bank_service =
  bk_control :: environment
  bk_shard :: environment
  bk_shardID :: string
  bk_fingerprinter :: bytes

section \<open>Reads\<close>

text \<open>The response has the members in the order in which \<open>jsonb\<close> replays them.\<close>

definition bank_entity_json :: "Entity \<Rightarrow> json" where
  "bank_entity_json e = JObj
     [(''id'', JStr (ent_ID e)), (''name'', JStr (ent_Name e)), (''status'', JStr (ent_Status e)),
      (''created_at'', JTime (ent_CreatedAt e)), (''updated_at'', JTime (ent_UpdatedAt e)),
      (''bank_reference'', JStr (ent_BankReference e))]"

definition bank_entity :: "bank_service \<Rightarrow> uuid \<Rightarrow> ('n shard_world_scheme, json) prog" where
  "bank_entity svc rid = andThen (Reader_Entity (bk_shard svc) rid) (\<lambda>e. ret (bank_entity_json e))"

text \<open>The value that \<open>ListBanks\<close> decodes, extends with the status of the route and writes as a map.\<close>

definition listed_bank :: "Route \<Rightarrow> json \<Rightarrow> json" where
  "listed_bank route raw =
     (case raw of JObj kvs \<Rightarrow> JObj (sort_key fst ((''routing_status'', JStr (route_PlacementStatus route)) # kvs)) | j \<Rightarrow> j)"

fun list_banks_loop :: "bank_service \<Rightarrow> Route list \<Rightarrow> ('n shard_world_scheme, json list) prog" where
  "list_banks_loop svc [] = ret []"
| "list_banks_loop svc (route # routes) =
     (if route_ShardID route \<noteq> bk_shardID svc then list_banks_loop svc routes
      else (\<lambda>s. case bank_entity svc (route_EntityID route) s of
          (Inl e, s') \<Rightarrow> list_banks_loop svc routes s'
        | (Inr raw, s') \<Rightarrow> andThen (list_banks_loop svc routes) (\<lambda>rest. ret (listed_bank route raw # rest)) s'))"

definition ListBanks :: "bank_service \<Rightarrow> (('m, 'n) bank_world, json list) prog" where
  "ListBanks svc = andThen (on_control (Banks (bk_control svc))) (\<lambda>routes. on_shard (list_banks_loop svc routes))"

definition GetBank :: "bank_service \<Rightarrow> uuid \<Rightarrow> (('m, 'n) bank_world, json) prog" where
  "GetBank svc rid =
     andThen (on_control (ActiveOrProvisioning (bk_control svc) (bk_shardID svc) rid)) (\<lambda>visible.
     if \<not> visible then throw ErrNotFound else on_shard (bank_entity svc rid))"

section \<open>Provisioning\<close>

definition member_of :: "string \<Rightarrow> json \<Rightarrow> json option" where
  "member_of k j = (case j of JObj kvs \<Rightarrow> map_of kvs k | _ \<Rightarrow> None)"

text \<open>\<open>id, _ = saved["id"].(string)\<close>\<close>

definition string_member :: "string \<Rightarrow> json \<Rightarrow> string" where
  "string_member k j = (case member_of k j of Some (JStr s) \<Rightarrow> s | _ \<Rightarrow> '''')"

definition provisional :: "uuid \<Rightarrow> json" where
  "provisional rid = JObj [(''id'', JStr rid), (''provisioning'', JBool True)]"

definition bank_newUUID :: "environment \<Rightarrow> ('m control_world_scheme, uuid) prog" where
  "bank_newUUID env = andThen (rand_Read env 16) (\<lambda>b. ret (batch_newUUID b))"

definition provision_scope :: "Principal \<Rightarrow> string" where
  "provision_scope prin = ''banks.create.actor.'' @ p_UserID prin"

text \<open>The first control transaction: the answer of a replay, or the id of the bank to go on with.\<close>

definition reserve_bank ::
  "bank_service \<Rightarrow> Principal \<Rightarrow> string \<Rightarrow> bytes \<Rightarrow> ('m control_world_scheme, (int \<times> json) + uuid) prog" where
  "reserve_bank svc prin key body =
     (let env = bk_control svc; scope = provision_scope prin in
      control_transaction env
      (andThen (centralIdempotency env (bk_fingerprinter svc) scope key body) (\<lambda>replay.
       if creplay_Found replay then
         (let rid = string_member ''id'' (creplay_Response replay) in
          if rid = '''' then ret (Inl (202, creplay_Response replay))
          else if member_of ''provisioning'' (creplay_Response replay) = None then ret (Inl (201, creplay_Response replay))
          else andThen (Commit env) (\<lambda>_. ret (Inr rid)))
       else
         andThen (bank_newUUID env) (\<lambda>rid.
         andThen (CreateBankRoute env rid (bk_shardID svc)) (\<lambda>_.
         andThen (control_FinishIdempotency env scope key 202 (provisional rid) rid) (\<lambda>_.
         andThen (Commit env) (\<lambda>_. ret (Inr rid))))))))"

text \<open>The shard transaction: a failing statement rolls back, a failing commit returns.\<close>

definition provision_entity ::
  "bank_service \<Rightarrow> Principal \<Rightarrow> uuid \<Rightarrow> string \<Rightarrow> string \<Rightarrow> uuid \<Rightarrow> ('n shard_world_scheme, unit) prog" where
  "provision_entity svc prin rid reference name requestID =
     (let env = bk_shard svc in
      andThen (beginTenant env rid) (\<lambda>_.
      andThen (compensated (ProvisionEntity env \<lparr>ep_ID = rid, ep_BankReference = reference, ep_Name = name,
         ep_ActorID = p_UserID prin, ep_RequestID = requestID\<rparr>) Rollback) (\<lambda>_. Commit env)))"

text \<open>The second control transaction.\<close>

definition activate_bank ::
  "bank_service \<Rightarrow> Principal \<Rightarrow> string \<Rightarrow> uuid \<Rightarrow> json \<Rightarrow> ('m control_world_scheme, int \<times> json) prog" where
  "activate_bank svc prin key rid raw =
     (let env = bk_control svc in
      control_transaction env
      (andThen (SetBankRouteStatus env rid (bk_shardID svc) ''active'') (\<lambda>_.
       finish_command env (provision_scope prin) key 201 raw rid)))"

definition ProvisionBankWorkflow ::
  "bank_service \<Rightarrow> Principal \<Rightarrow> string \<Rightarrow> bytes \<Rightarrow> string \<Rightarrow> string \<Rightarrow> uuid \<Rightarrow> (('m, 'n) bank_world, int \<times> json) prog" where
  "ProvisionBankWorkflow svc prin key body reference name requestID =
     andThen (on_control (reserve_bank svc prin key body)) (\<lambda>reserved.
     case reserved of
       Inl answer \<Rightarrow> ret answer
     | Inr rid \<Rightarrow>
         andThen (on_shard (provision_entity svc prin rid reference name requestID)) (\<lambda>_.
         andThen (on_shard (bank_entity svc rid)) (\<lambda>raw.
         on_control (activate_bank svc prin key rid raw))))"

section \<open>Patching\<close>

definition patch_scope :: "Principal \<Rightarrow> uuid \<Rightarrow> string" where
  "patch_scope prin rid = ''banks.patch.'' @ rid @ ''.actor.'' @ p_UserID prin"

definition place_bank ::
  "bank_service \<Rightarrow> Principal \<Rightarrow> uuid \<Rightarrow> string \<Rightarrow> bytes \<Rightarrow> string option \<Rightarrow> ('m control_world_scheme, (int \<times> json) option) prog" where
  "place_bank svc prin rid key body status =
     (let env = bk_control svc in
      control_transaction env
      (andThen (centralIdempotency env (bk_fingerprinter svc) (patch_scope prin rid) key body) (\<lambda>replay.
       if creplay_Found replay \<and> creplay_Response replay \<noteq> JObj [] then ret (Some (200, creplay_Response replay)) else
       andThen (ActiveOrProvisioning env (bk_shardID svc) rid) (\<lambda>visible.
       if \<not> visible then throw (Problem 404 ''not_found'' ''The requested resource does not exist.'') else
       andThen (case status of None \<Rightarrow> ret ()
                | Some st \<Rightarrow> SetBankRouteStatusForEntity env rid (if st = ''active'' then ''active'' else ''paused'')) (\<lambda>_.
       andThen (Commit env) (\<lambda>_. ret None))))))"

text \<open>\<open>json.Marshal(entity)\<close>: the members in the order of the struct.\<close>

definition domain_entity_json :: "Entity \<Rightarrow> json" where
  "domain_entity_json e = JObj
     [(''id'', JStr (ent_ID e)), (''bank_reference'', JStr (ent_BankReference e)), (''name'', JStr (ent_Name e)),
      (''status'', JStr (ent_Status e)), (''created_at'', JTime (ent_CreatedAt e)), (''updated_at'', JTime (ent_UpdatedAt e))]"

definition patch_entity ::
  "bank_service \<Rightarrow> Principal \<Rightarrow> uuid \<Rightarrow> string option \<Rightarrow> string option \<Rightarrow> uuid \<Rightarrow> ('n shard_world_scheme, json) prog" where
  "patch_entity svc prin rid name status requestID =
     (let env = bk_shard svc in
      transaction env rid
      (andThen (UpdateEntity env \<lparr>epp_ID = rid, epp_Name = name, epp_Status = status, epp_ActorID = p_UserID prin,
         epp_RequestID = requestID\<rparr>) (\<lambda>entity.
       andThen (Commit env) (\<lambda>_. ret (domain_entity_json entity)))))"

definition PatchBankWorkflow ::
  "bank_service \<Rightarrow> Principal \<Rightarrow> uuid \<Rightarrow> string \<Rightarrow> bytes \<Rightarrow> string option \<Rightarrow> string option \<Rightarrow> uuid \<Rightarrow>
   (('m, 'n) bank_world, int \<times> json) prog" where
  "PatchBankWorkflow svc prin rid key body name status requestID =
     andThen (on_control (place_bank svc prin rid key body status)) (\<lambda>placed.
     case placed of
       Some answer \<Rightarrow> ret answer
     | None \<Rightarrow>
         andThen (on_shard (patch_entity svc prin rid name status requestID)) (\<lambda>raw.
         on_control (control_transaction (bk_control svc)
           (finish_command (bk_control svc) (patch_scope prin rid) key 200 raw rid))))"

section \<open>What each step leaves behind\<close>

lemma leads_step:
  fixes m :: "(('d, 'm) tx_world_scheme, 'a) prog" and f :: "'a \<Rightarrow> (('d, 'm) tx_world_scheme, 'b) prog"
  assumes "keeps durable m" and "\<And>w x w'. view w = d \<Longrightarrow> m w = (Inr x, w') \<Longrightarrow> P x (view w')"
    and "\<And>x d'. P x d' \<Longrightarrow> leads d0 d' R (f x)"
  shows "leads d0 d R (andThen m f)"
  unfolding leads_def
proof (intro allI impI, elim conjE)
  fix w :: "('d, 'm) tx_world_scheme" assume w: "durable w = d0" "view w = d"
  obtain r w1 where m: "m w = (r, w1)" by (cases "m w")
  have d: "durable w1 = d0" using keepsD [OF assms(1) m] w by simp
  show "durable (snd (andThen m f w)) = d0 \<or> R (durable (snd (andThen m f w)))"
  proof (cases r)
    case (Inl e)
    then show ?thesis using m d by (simp add: andThen_def)
  next
    case (Inr x)
    have "leads d0 (view w1) R (f x)" by (rule assms(3) [OF assms(2) [OF w(2)]]) (simp add: m Inr)
    then show ?thesis using m Inr d by (simp add: andThen_def leads_def)
  qed
qed

lemma leads_central:
  assumes "\<And>rep d'. but_commands d' = but_commands d \<Longrightarrow> leads d0 d' R (f rep)"
  shows "leads d0 d R (andThen (centralIdempotency env fp scope key body) f)"
proof (rule leads_step [where P = "\<lambda>_ d'. but_commands d' = but_commands d"])
  fix w w' :: "'m control_world_scheme" and rep
  assume "view w = d" and "centralIdempotency env fp scope key body w = (Inr rep, w')"
  then show "but_commands (view w') = but_commands d"
    unfolding centralIdempotency_def by (auto simp: time_now_def onError_Inr elim!: andThen_InrE control_claimE)
qed (use assms in \<open>auto intro: keeps_intros\<close>)

lemma leads_control_transaction:
  assumes "\<And>d0. leads d0 d0 (R d0) m"
  shows "durable (snd (control_transaction env m w)) = durable w \<or> R (durable w) (durable (snd (control_transaction env m w)))"
  unfolding control_transaction_def by (rule leads_Begin) (rule assms)

lemma but_commands_routes: "but_commands d = but_commands d' \<Longrightarrow> bank_routing_entries d = bank_routing_entries d'"
  by (drule arg_cong [of _ _ bank_routing_entries]) (simp add: but_commands_def)

lemma update_routes_Inr:
  "update_routes P f d = Inr (n, d') \<Longrightarrow> d' = d\<lparr>bank_routing_entries := update_where P f (bank_routing_entries d)\<rparr>"
  by (auto simp: update_routes_def map_sum_Inr_iff guarded_update_Inr)

lemma leads_finish:
  assumes "\<And>d'. but_commands d' = but_commands d \<Longrightarrow> leads d0 d' R f"
  shows "leads d0 d R (andThen (control_FinishIdempotency env scope key status response rid) (\<lambda>_. f))"
  by (rule leads_step [where P = "\<lambda>_ d'. but_commands d' = but_commands d"]) (auto intro: keeps_intros assms dest: control_finish(1))

lemma reserve_bank_routes:
  fixes w w' :: "'m control_world_scheme"
  assumes "reserve_bank svc prin key body w = (res, w')" and "d' = durable w'"
  shows "bank_routing_entries d' = bank_routing_entries (durable w) \<or>
    (\<exists>r. bank_routing_entries d' = bank_routing_entries (durable w) @ [r] \<and> rt_placement_status r = ''provisioning'')"
proof -
  let ?R = "\<lambda>d d'. bank_routing_entries d' = bank_routing_entries d \<or>
    (\<exists>r. bank_routing_entries d' = bank_routing_entries d @ [r] \<and> rt_placement_status r = ''provisioning'')"
  have d': "d' = durable (snd (reserve_bank svc prin key body w))" using assms by simp
  have "d' = durable w \<or> ?R (durable w) d'"
    unfolding d' reserve_bank_def Let_def
  proof (rule leads_control_transaction, rule leads_central)
    fix d0 d1 :: control_db and rep assume d1: "but_commands d1 = but_commands d0"
    have r: "bank_routing_entries d1 = bank_routing_entries d0" using d1 by (rule but_commands_routes)
    show "leads d0 d1 (?R d0) (if creplay_Found rep then
         if string_member ''id'' (creplay_Response rep) = '''' then ret (Inl (202, creplay_Response rep))
          else if member_of ''provisioning'' (creplay_Response rep) = None then ret (Inl (201, creplay_Response rep))
          else andThen (Commit (bk_control svc)) (\<lambda>_. ret (Inr (string_member ''id'' (creplay_Response rep))))
       else
         andThen (bank_newUUID (bk_control svc)) (\<lambda>rid.
         andThen (CreateBankRoute (bk_control svc) rid (bk_shardID svc)) (\<lambda>_.
         andThen (control_FinishIdempotency (bk_control svc) (provision_scope prin) key 202 (provisional rid) rid) (\<lambda>_.
         andThen (Commit (bk_control svc)) (\<lambda>_. ret (Inr rid))))) :: ('m control_world_scheme, (int \<times> json) + uuid) prog)"
      unfolding bank_newUUID_def CreateBankRoute_def
    proof (intro leads_if leads_exits leads_Commit keeps_intros)
      show "?R d0 d1" using r by simp
      show "leads d0 d1 (?R d0) (andThen (andThen (rand_Read (bk_control svc) 16) (\<lambda>b. ret (batch_newUUID b))) (\<lambda>rid.
         andThen (statement (bk_control svc) (exec (\<lambda>ctx. insert_route
       \<lparr>rt_entity = rid, rt_shard_id = bk_shardID svc, rt_routing_version = 1, rt_placement_status = ''provisioning'',
        rt_created_at = sql_now ctx, rt_updated_at = sql_now ctx\<rparr>))) (\<lambda>_.
         andThen (control_FinishIdempotency (bk_control svc) (provision_scope prin) key 202 (provisional rid) rid) (\<lambda>_.
         andThen (Commit (bk_control svc)) (\<lambda>_. ret (Inr rid))))) :: ('m control_world_scheme, (int \<times> json) + uuid) prog)"
      proof (rule leads_quiet, goal_cases)
        case (3 rid)
        show ?case
        proof (intro leads_exec leads_finish leads_Commit keeps_intros)
          fix ctx d2 d3 assume i: "insert_route \<lparr>rt_entity = rid, rt_shard_id = bk_shardID svc, rt_routing_version = 1,
            rt_placement_status = ''provisioning'', rt_created_at = sql_now ctx, rt_updated_at = sql_now ctx\<rparr> d1 = Inr d2"
            and d3: "but_commands d3 = but_commands d2"
          show "?R d0 d3"
            using i r but_commands_routes [OF d3] by (auto simp: insert_route_def checked_Inr)
        qed
      qed (auto simp: keeps_def andThen_def ret_def rand_Read_def split: option.splits)
    qed
  qed
  then show ?thesis by auto
qed

lemma andThen_ret: "andThen (ret x) f = f x"
  by (simp add: fun_eq_iff andThen_def ret_def)

text \<open>The routes after an update of the placement of those that satisfy \<open>P\<close>.\<close>

definition placed :: "(routing_row \<Rightarrow> bool) \<Rightarrow> string \<Rightarrow> control_db \<Rightarrow> control_db \<Rightarrow> bool" where
  "placed P st d d' \<longleftrightarrow> bank_routing_entries d' = bank_routing_entries d \<or>
     (\<exists>c. bank_routing_entries d' =
        update_where P (\<lambda>r. r\<lparr>rt_placement_status := st, rt_updated_at := c\<rparr>) (bank_routing_entries d))"

lemma activate_bank_routes:
  fixes w w' :: "'m control_world_scheme"
  assumes "activate_bank svc prin key rid raw w = (res, w')"
  shows "placed (\<lambda>r. rt_entity r = rid \<and> rt_shard_id r = bk_shardID svc) ''active'' (durable w) (durable w')"
proof -
  let ?P = "\<lambda>r. rt_entity r = rid \<and> rt_shard_id r = bk_shardID svc"
  have "durable (snd (activate_bank svc prin key rid raw w)) = durable w \<or>
      placed ?P ''active'' (durable w) (durable (snd (activate_bank svc prin key rid raw w)))"
    unfolding activate_bank_def Let_def SetBankRouteStatus_def finish_command_def
  proof (rule leads_control_transaction, intro leads_exec_rows leads_finish leads_Commit keeps_intros)
    fix d0 d1 d2 :: control_db and ctx :: sql_context and n
    assume u: "update_routes ?P (\<lambda>r. r\<lparr>rt_placement_status := ''active'', rt_updated_at := sql_clock ctx\<rparr>) d0 = Inr (n, d1)"
      and d2: "but_commands d2 = but_commands d1"
    show "placed ?P ''active'' d0 d2"
      using update_routes_Inr [OF u] but_commands_routes [OF d2] unfolding placed_def by auto
  qed
  then show ?thesis using assms by (auto simp: placed_def)
qed

lemma leads_pool:
  fixes f :: "bool \<Rightarrow> ('m control_world_scheme, 'b) prog"
  assumes "\<And>b. leads d0 d R (f b)"
  shows "leads d0 d R (andThen (ActiveOrProvisioning env shardID rid) f)"
  by (rule leads_quiet [OF _ _ assms])
    (auto simp: keeps_def ActiveOrProvisioning_def succeeds_def HasActiveOrProvisioningRoute_def pool_QueryRow_def split: fault.splits)

lemma place_bank_routes:
  fixes w w' :: "'m control_world_scheme"
  assumes "place_bank svc prin rid key body status w = (res, w')"
  shows "\<exists>st. placed (\<lambda>r. rt_entity r = rid) st (durable w) (durable w') \<and>
    (status = None \<longrightarrow> bank_routing_entries (durable w') = bank_routing_entries (durable w))"
proof -
  let ?st = "if status = Some ''active'' then ''active'' else ''paused''" and ?P = "\<lambda>r. rt_entity r = rid"
  let ?R = "\<lambda>d d'. placed ?P ?st d d' \<and> (status = None \<longrightarrow> bank_routing_entries d' = bank_routing_entries d)"
  have "durable (snd (place_bank svc prin rid key body status w)) = durable w \<or>
      ?R (durable w) (durable (snd (place_bank svc prin rid key body status w)))"
    unfolding place_bank_def Let_def
  proof (rule leads_control_transaction, rule leads_central, intro leads_if leads_exits leads_pool)
    fix d0 d1 :: control_db assume d1: "but_commands d1 = but_commands d0"
    note r = but_commands_routes [OF d1]
    show "leads d0 d1 (?R d0) (andThen (case status of None \<Rightarrow> ret ()
                | Some st \<Rightarrow> SetBankRouteStatusForEntity (bk_control svc) rid (if st = ''active'' then ''active'' else ''paused'')) (\<lambda>_.
       andThen (Commit (bk_control svc)) (\<lambda>_. ret None)) :: ('m control_world_scheme, (int \<times> json) option) prog)"
    proof (cases status)
      case None
      have "leads d0 d1 (?R d0) (andThen (Commit (bk_control svc)) (\<lambda>_. ret None) :: ('m control_world_scheme, (int \<times> json) option) prog)"
        using r by (intro leads_Commit keeps_intros) (simp add: placed_def)
      then show ?thesis by (simp add: None andThen_ret)
    next
      case (Some st)
      show ?thesis
        unfolding Some option.case SetBankRouteStatusForEntity_def
      proof (intro leads_exec_rows leads_Commit keeps_intros)
        fix ctx :: sql_context and n d2
        assume u: "update_routes ?P (\<lambda>r. r\<lparr>rt_placement_status := if st = ''active'' then ''active'' else ''paused'',
            rt_updated_at := sql_clock ctx\<rparr>) d1 = Inr (n, d2)"
        show "placed ?P (if Some st = Some ''active'' then ''active'' else ''paused'') d0 d2 \<and>
            (Some st = None \<longrightarrow> bank_routing_entries d2 = bank_routing_entries d0)"
          using update_routes_Inr [OF u] r unfolding placed_def by auto
      qed
    qed
  qed
  then show ?thesis using assms by (auto simp: placed_def intro!: exI [of _ ?st])
qed

definition entity_ids :: "shard_db \<Rightarrow> uuid set" where
  "entity_ids d = ent_ID ` set (entities d)"

lemma insertAudit_entities: "insertAudit env b a r en ex ac k rs oc rq dt w = (Inr u, w') \<Longrightarrow> entities (view w') = entities (view w)"
  by (erule insertAuditE) simp

lemma update_entities_ids:
  assumes "update_entities P f d = Inr (n, d')" and "\<And>r. ent_ID (f r) = ent_ID r"
  shows "entity_ids d' = entity_ids d"
proof -
  have "map ent_ID (entities d') = map ent_ID (entities d)"
    using update_result(1) [OF assms(1)] assms(2) by (simp add: map_update_where)
  then show ?thesis unfolding entity_ids_def by (metis set_map)
qed

lemma ProvisionEntity_ids:
  assumes "ProvisionEntity env input w = (Inr u, w')"
  shows "entity_ids (view w') = insert (ep_ID input) (entity_ids (view w))"
proof -
  let ?d = "view w" and ?c = "context_of env w"
  let ?f = "\<lambda>ctx d. if exists_row (\<lambda>r. ent_ID r = ep_ID input) (entities d)
       then exec_rows (\<lambda>ctx. update_entities (\<lambda>r. ent_ID r = ep_ID input)
              (\<lambda>r. r\<lparr>ent_Name := ep_Name input, ent_updated_by := ep_ActorID input,
                     ent_UpdatedAt := sql_clock ctx\<rparr>)) ctx d
       else checked
         [(''23514'', btrim_nonempty (ep_BankReference input) \<and> btrim_nonempty (ep_Name input)),
          (''23505'', no_key ent_BankReference (ep_BankReference input) (entities d))]
         ((), d\<lparr>entities := entities d @ [\<lparr>ent_ID = ep_ID input, ent_BankReference = ep_BankReference input,
            ent_Name = ep_Name input, ent_Status = ''active'', ent_CreatedAt = sql_now ctx,
            ent_UpdatedAt = sql_now ctx, ent_created_by = ep_ActorID input, ent_updated_by = ep_ActorID input\<rparr>]\<rparr>)"
  from assms obtain v w1 where st: "statement env ?f w = (Inr v, w1)"
    and a: "insertAudit env (ep_ID input) (Some (ep_ActorID input)) ''issuer_operator'' None None
        ''bank_provision'' ''bank'' (Some (ep_ID input)) ''succeeded'' (ep_RequestID input) (JObj []) w1 = (Inr u, w')"
    unfolding ProvisionEntity_def by (rule andThen_InrE)
  have f: "?f ?c ?d = Inr (v, view w1)" using st by (rule statement_InrE)
  have "entity_ids (view w1) = insert (ep_ID input) (entity_ids ?d)"
  proof (cases "exists_row (\<lambda>r. ent_ID r = ep_ID input) (entities ?d)")
    case True
    then obtain n where "update_entities (\<lambda>r. ent_ID r = ep_ID input) (\<lambda>r. r\<lparr>ent_Name := ep_Name input,
        ent_updated_by := ep_ActorID input, ent_UpdatedAt := sql_clock ?c\<rparr>) ?d = Inr (n, view w1)"
      using f by (auto simp: exec_rows_Inr)
    from update_entities_ids [OF this] True show ?thesis
      by (auto simp: entity_ids_def exists_row_iff intro: rev_image_eqI)
  next
    case False
    then show ?thesis using f by (auto simp: checked_Inr entity_ids_def)
  qed
  then show ?thesis using insertAudit_entities [OF a] by (simp add: entity_ids_def)
qed

lemma Commit_outcomes: "Commit env w = (r, w') \<Longrightarrow> durable w' = durable w \<and> r \<noteq> Inr () \<or> durable w' = view w"
  by (auto simp: Commit_def split: fault.splits)

lemma provision_entity_ids:
  fixes s s' :: "'n shard_world_scheme"
  assumes "provision_entity svc prin rid reference name req s = (res, s')"
  shows "entity_ids (durable s') = entity_ids (durable s) \<or> entity_ids (durable s') = insert rid (entity_ids (durable s))"
    and "res = Inr () \<Longrightarrow> entity_ids (durable s') = insert rid (entity_ids (durable s))"
proof -
  let ?env = "bk_shard svc"
  let ?p = "ProvisionEntity ?env \<lparr>ep_ID = rid, ep_BankReference = reference, ep_Name = name,
         ep_ActorID = p_UserID prin, ep_RequestID = req\<rparr> :: ('n shard_world_scheme, unit) prog"
  have k: "keeps durable (beginTenant ?env rid :: ('n shard_world_scheme, unit) prog)" "keeps durable ?p" by (intro keeps_intros)+
  have "(entity_ids (durable s') = entity_ids (durable s) \<or> entity_ids (durable s') = insert rid (entity_ids (durable s))) \<and>
    (res = Inr () \<longrightarrow> entity_ids (durable s') = insert rid (entity_ids (durable s)))"
  proof (cases "beginTenant ?env rid s")
    case (Pair r1 s1)
    have d1: "durable s1 = durable s" using keepsD [OF k(1) Pair] .
    show ?thesis
    proof (cases r1)
      case (Inl e)
      then show ?thesis using assms Pair d1 unfolding provision_entity_def Let_def by (auto simp: andThen_def)
    next
      case (Inr u)
      have v1: "view s1 = durable s" using Pair Inr by (auto elim: beginTenant_InrE)
      obtain r2 s2 where p: "?p s1 = (r2, s2)" by (cases "?p s1")
      have d2: "durable s2 = durable s" using keepsD [OF k(2) p] d1 by simp
      show ?thesis
      proof (cases r2)
        case (Inl e)
        then show ?thesis using assms Pair Inr p d2 unfolding provision_entity_def Let_def by (auto simp: andThen_def compensated_def)
      next
        case (Inr u2)
        have v2: "entity_ids (view s2) = insert rid (entity_ids (durable s))"
          using ProvisionEntity_ids [OF p [unfolded Inr]] v1 by simp
        have "provision_entity svc prin rid reference name req s = Commit ?env s2"
          unfolding provision_entity_def Let_def
          by (simp only: andThen_def compensated_def Pair p prod.case sum.case Inr \<open>r1 = Inr u\<close>)
        then have "Commit ?env s2 = (res, s')" using assms by simp
        then have "durable s' = durable s2 \<and> res \<noteq> Inr () \<or> durable s' = view s2" by (rule Commit_outcomes)
        then show ?thesis using v2 d2 by (elim disjE conjE) simp_all
      qed
    qed
  qed
  note c = this
  show "entity_ids (durable s') = entity_ids (durable s) \<or> entity_ids (durable s') = insert rid (entity_ids (durable s))"
    using c by (rule conjunct1)
  show "entity_ids (durable s') = insert rid (entity_ids (durable s))" if "res = Inr ()"
    using conjunct2 [OF c] that by simp
qed

lemma leads_tenant:
  assumes "\<And>d0. leads d0 d0 (R d0) m"
  shows "durable (snd (transaction env bank m w)) = durable w \<or> R (durable w) (durable (snd (transaction env bank m w)))"
proof (cases "beginTenant env bank w")
  case (Pair r w1)
  have d: "durable w1 = durable w" by (rule keepsD [OF keeps_beginTenant(1) Pair])
  show ?thesis
  proof (cases r)
    case (Inl e)
    then show ?thesis using Pair d by (simp add: transaction_def andThen_def)
  next
    case (Inr u)
    have "view w1 = durable w" using Pair Inr by (auto elim: beginTenant_InrE)
    then show ?thesis using Pair Inr d leads_deferred [OF assms [of "durable w"]]
      by (simp add: transaction_def andThen_def leads_def)
  qed
qed

lemma bank_entity_durable:
  assumes "bank_entity svc rid s = (res, s')"
  shows "durable s' = durable s"
proof -
  have "durable (snd (Reader_Entity (bk_shard svc) rid s)) = durable s \<or>
      durable (snd (Reader_Entity (bk_shard svc) rid s)) = durable s"
    unfolding Reader_Entity_def read_tx_def by (rule leads_tenant [where R = "\<lambda>d d'. d' = d"]) (intro leads_read leads_Commit keeps_intros refl)
  moreover have "s' = snd (Reader_Entity (bk_shard svc) rid s)"
    using assms by (auto simp: bank_entity_def andThen_def ret_def split: prod.splits sum.splits)
  ultimately show ?thesis by simp
qed

lemma patch_entity_ids:
  fixes s s' :: "'n shard_world_scheme"
  assumes "patch_entity svc prin rid name status req s = (res, s')"
  shows "entity_ids (durable s') = entity_ids (durable s)"
proof -
  let ?m = "patch_entity svc prin rid name status req s"
  have "durable (snd ?m) = durable s \<or> entity_ids (durable (snd ?m)) = entity_ids (durable s)"
    unfolding patch_entity_def Let_def
  proof (rule leads_tenant [where R = "\<lambda>d d'. entity_ids d' = entity_ids d"], goal_cases)
    case (1 d0)
    let ?u = "UpdateEntity (bk_shard svc) \<lparr>epp_ID = rid, epp_Name = name, epp_Status = status, epp_ActorID = p_UserID prin,
         epp_RequestID = req\<rparr> :: ('n shard_world_scheme, Entity) prog"
    have "entity_ids (view w') = entity_ids (view w)" if u: "?u w = (Inr x, w')" for w w' and x :: Entity
    proof -
      from u obtain n d1 w1 y where "update_entities (\<lambda>r. ent_ID r = rid) (\<lambda>r. r\<lparr>ent_Name := coalesce name (ent_Name r),
          ent_Status := coalesce status (ent_Status r), ent_updated_by := p_UserID prin,
          ent_UpdatedAt := sql_clock (context_of (bk_shard svc) w)\<rparr>) (view w) = Inr (n, view w1)"
        and a: "insertAudit (bk_shard svc) rid (Some (p_UserID prin)) ''issuer_operator'' None None
        ''bank_update'' ''bank'' (Some rid) ''succeeded'' req (JObj []) w1 = (Inr y, w')"
        unfolding UpdateEntity_def
        by (auto simp: ret_def map_sum_Inr_iff split: sum.splits prod.splits elim!: andThen_InrE statement_InrE)
      from update_entities_ids [OF this(1)] insertAudit_entities [OF a] show ?thesis by (simp add: entity_ids_def)
    qed
    then show ?case
      by (intro leads_step [where P = "\<lambda>_ d'. entity_ids d' = entity_ids d0"] leads_Commit keeps_intros) auto
  qed
  then show ?thesis using assms by auto
qed

section \<open>Active banks have their entity\<close>

text \<open>
  Every route of the shard that has left the provisioning state belongs to an entity which the shard holds:
  a bank that requests are admitted for exists.
\<close>

definition backed :: "string \<Rightarrow> control_db \<Rightarrow> shard_db \<Rightarrow> bool" where
  "backed shardID c s \<longleftrightarrow> list_all (\<lambda>r. rt_shard_id r = shardID \<and> rt_placement_status r \<noteq> ''provisioning'' \<longrightarrow>
     rt_entity r \<in> entity_ids s) (bank_routing_entries c)"

lemma backed_mono:
  "backed sh c s \<Longrightarrow> bank_routing_entries c' = bank_routing_entries c \<Longrightarrow> entity_ids s \<subseteq> entity_ids s' \<Longrightarrow> backed sh c' s'"
  unfolding backed_def by (simp add: list_all_iff) blast

lemma backed_append:
  "backed sh c s \<Longrightarrow> bank_routing_entries c' = bank_routing_entries c @ [r] \<Longrightarrow> rt_placement_status r = ''provisioning'' \<Longrightarrow>
   backed sh c' s"
  unfolding backed_def by simp

lemma backed_placed:
  assumes "backed sh c s" and "placed P st c c'" and "\<And>r. P r \<Longrightarrow> rt_entity r \<in> entity_ids s"
  shows "backed sh c' s"
  using assms unfolding backed_def placed_def by (auto simp: list_all_iff update_where_def split: if_splits)


lemma on_control_run: "m c = (r, c') \<Longrightarrow> on_control m (c, s) = (r, (c', s))"
  by (simp add: on_control_def)

lemma on_shard_run: "m s = (r, s') \<Longrightarrow> on_shard m (c, s) = (r, (c, s'))"
  by (simp add: on_shard_def)

lemma provisioning_backed:
  fixes c c' :: "'m control_world_scheme" and s s' :: "'n shard_world_scheme"
  assumes b: "backed (bk_shardID svc) (durable c) (durable s)"
    and run: "ProvisionBankWorkflow svc prin key body reference name req (c, s) = (res, (c', s'))"
  shows "backed (bk_shardID svc) (durable c') (durable s')"
proof -
  obtain r1 c1 where 1: "reserve_bank svc prin key body c = (r1, c1)" by (cases "reserve_bank svc prin key body c")
  have o1: "on_control (reserve_bank svc prin key body) (c, s) = (r1, (c1, s))" using 1 by (rule on_control_run)
  note run1 = run [unfolded ProvisionBankWorkflow_def andThen_def o1 prod.case]
  have b1: "backed (bk_shardID svc) (durable c1) (durable s)"
    using reserve_bank_routes [OF 1 refl] backed_mono [OF b] backed_append [OF b] by blast
  consider (over) "c' = c1" "s' = s" | (on) rid where "r1 = Inr (Inr rid)"
    using run1 by (auto simp: ret_def split: sum.splits)
  then show ?thesis
  proof cases
    case (on rid)
    obtain r2 s2 where 2: "provision_entity svc prin rid reference name req s = (r2, s2)"
      by (cases "provision_entity svc prin rid reference name req s")
    have b2: "backed (bk_shardID svc) (durable c1) (durable s2)"
      using provision_entity_ids(1) [OF 2] by (intro backed_mono [OF b1 refl]) auto
    obtain r3 s3 where 3: "bank_entity svc rid s2 = (r3, s3)" by (cases "bank_entity svc rid s2")
    have o2: "on_shard (provision_entity svc prin rid reference name req) (c1, s) = (r2, (c1, s2))" using 2 by (rule on_shard_run)
    have o3: "on_shard (bank_entity svc rid) (c1, s2) = (r3, (c1, s3))" using 3 by (rule on_shard_run)
    note run2 = run1 [unfolded on sum.case o2 prod.case]
    show ?thesis
    proof (cases r2)
      case (Inl e)
      then show ?thesis using run2 b2 by simp
    next
      case (Inr u)
      have e: "rid \<in> entity_ids (durable s2)" using provision_entity_ids(2) [OF 2] Inr by simp
      have run3: "(case r3 of Inl e \<Rightarrow> (Inl e, (c1, s3)) | Inr raw \<Rightarrow> on_control (activate_bank svc prin key rid raw) (c1, s3)) = (res, (c', s'))"
        using run2 unfolding Inr sum.case o3 prod.case .
      have d3: "durable s3 = durable s2" by (rule bank_entity_durable [OF 3])
      show ?thesis
      proof (cases r3)
        case (Inl e)
        then show ?thesis using run3 b2 d3 by simp
      next
        case (Inr raw)
        obtain r4 c4 where 4: "activate_bank svc prin key rid raw c1 = (r4, c4)" by (cases "activate_bank svc prin key rid raw c1")
        have o4: "on_control (activate_bank svc prin key rid raw) (c1, s3) = (r4, (c4, s3))" using 4 by (rule on_control_run)
        have "c' = c4" "s' = s3" using run3 Inr o4 by simp_all
        then show ?thesis using backed_placed [OF b2 activate_bank_routes [OF 4]] e d3 by auto
      qed
    qed
  qed (use b1 in simp)
qed

lemma patching_backed:
  fixes c c' :: "'m control_world_scheme" and s s' :: "'n shard_world_scheme"
  assumes b: "backed (bk_shardID svc) (durable c) (durable s)"
    and e: "status = None \<or> rid \<in> entity_ids (durable s)"
    and run: "PatchBankWorkflow svc prin rid key body name status req (c, s) = (res, (c', s'))"
  shows "backed (bk_shardID svc) (durable c') (durable s')"
proof -
  obtain r1 c1 where 1: "place_bank svc prin rid key body status c = (r1, c1)" by (cases "place_bank svc prin rid key body status c")
  have o1: "on_control (place_bank svc prin rid key body status) (c, s) = (r1, (c1, s))" using 1 by (rule on_control_run)
  note run1 = run [unfolded PatchBankWorkflow_def andThen_def o1 prod.case]
  obtain st where p: "placed (\<lambda>r. rt_entity r = rid) st (durable c) (durable c1)"
    "status = None \<Longrightarrow> bank_routing_entries (durable c1) = bank_routing_entries (durable c)"
    using place_bank_routes [OF 1] by auto
  have b1: "backed (bk_shardID svc) (durable c1) (durable s)"
    using e p backed_mono [OF b] backed_placed [OF b p(1)] by blast
  consider (over) "c' = c1" "s' = s" | (on) "r1 = Inr None"
    using run1 by (auto simp: ret_def split: sum.splits option.splits)
  then show ?thesis
  proof cases
    case on
    obtain r2 s2 where 2: "patch_entity svc prin rid name status req s = (r2, s2)"
      by (cases "patch_entity svc prin rid name status req s")
    have b2: "backed (bk_shardID svc) (durable c1) (durable s2)"
      using patch_entity_ids [OF 2] by (intro backed_mono [OF b1 refl]) simp
    have o2: "on_shard (patch_entity svc prin rid name status req) (c1, s) = (r2, (c1, s2))" using 2 by (rule on_shard_run)
    have run2: "(case r2 of Inl e \<Rightarrow> (Inl e, (c1, s2)) | Inr raw \<Rightarrow> on_control (control_transaction (bk_control svc)
           (finish_command (bk_control svc) (patch_scope prin rid) key 200 raw rid)) (c1, s2)) = (res, (c', s'))"
      using run1 unfolding on sum.case option.case o2 prod.case .
    show ?thesis
    proof (cases r2)
      case (Inl e)
      then show ?thesis using run2 b2 by simp
    next
      case (Inr raw)
      let ?m = "control_transaction (bk_control svc) (finish_command (bk_control svc) (patch_scope prin rid) key 200 raw rid) ::
        ('m control_world_scheme, int \<times> json) prog"
      have "durable (snd (?m c1)) = durable c1 \<or> but_commands (durable (snd (?m c1))) = but_commands (durable c1)"
        unfolding finish_command_def
        by (rule leads_control_transaction [where R = "\<lambda>d d'. but_commands d' = but_commands d"])
          (intro leads_finish leads_Commit keeps_intros)
      moreover have "c' = snd (?m c1)" "s' = s2" using run2 Inr by (simp_all add: on_control_def split_beta)
      ultimately have "bank_routing_entries (durable c') = bank_routing_entries (durable c1)" "entity_ids (durable s2) \<subseteq> entity_ids (durable s')"
        using but_commands_routes [of "durable (snd (?m c1))" "durable c1"] by auto
      then show ?thesis by (rule backed_mono [OF b2])
    qed
  qed (use b1 in simp)
qed

text \<open>
  C4. A bank is admitted only once its entity exists. Every route of the shard that is active or paused has
  its entity on the shard after a provisioning, whatever fails on the way, in whichever database, lost
  commits included; the same holds of a patch, of the name alone or of a bank whose entity exists.
\<close>

theorem admitted_banks_have_entities:
  fixes c c' :: "'m control_world_scheme" and s s' :: "'n shard_world_scheme"
  assumes b: "backed (bk_shardID svc) (durable c) (durable s)"
    and run: "ProvisionBankWorkflow svc prin key body reference name req (c, s) = (res, (c', s')) \<or>
      (status = None \<or> rid \<in> entity_ids (durable s)) \<and>
      PatchBankWorkflow svc prin rid key body new_name status req (c, s) = (res, (c', s'))"
  shows "backed (bk_shardID svc) (durable c') (durable s')"
  using run
proof (elim disjE conjE)
  assume "ProvisionBankWorkflow svc prin key body reference name req (c, s) = (res, (c', s'))"
  then show ?thesis by (rule provisioning_backed [OF b])
qed (use patching_backed [OF b] in blast)+


section \<open>An interrupted provisioning resumes\<close>

lemma provisional_simps:
  "string_member ''id'' (provisional rid) = rid" "member_of ''provisioning'' (provisional rid) \<noteq> None"
  by (simp_all add: string_member_def member_of_def provisional_def)

lemma reserve_bank_replayed:
  fixes c :: "'m control_world_scheme"
  assumes env: "no_faults (bk_control svc)" and live: "time_Now (bk_control svc) (Suc (tick c)) < t" and rid: "rid \<noteq> ''''"
    and st: "stored_command (provision_scope prin, key) (durable c) = Some (Fingerprint (bk_fingerprinter svc) body, t, provisional rid)"
  shows "\<exists>c'. reserve_bank svc prin key body c = (Inr (Inr rid), c') \<and> durable c' = durable c"
proof -
  from st obtain r where q: "query_row (is_command (provision_scope prin) key) (command_idempotency_records (durable c)) = Some r"
    and r: "cidem_request_fingerprint r = Fingerprint (bk_fingerprinter svc) body" "cidem_expires_at r = t" "cidem_response_body r = provisional rid"
    by (auto simp: stored_command_def)
  show ?thesis
    unfolding reserve_bank_def Let_def control_transaction_def centralIdempotency_def control_ClaimIdempotency_def
    by (simp add: andThen_def pool_Begin_def env deferred_def time_now_def onError_def statement_def read_only_def q r live rid
        provisional_simps ret_def Commit_def)
qed

text \<open>What the tables of the shard must allow: valid names, a free reference, and a fresh id for the audit event.\<close>

definition provisionable :: "environment \<Rightarrow> uuid \<Rightarrow> string \<Rightarrow> string \<Rightarrow> shard_db \<Rightarrow> bool" where
  "provisionable env rid reference name d \<longleftrightarrow>
     btrim_nonempty reference \<and> btrim_nonempty name \<and>
     (\<forall>e \<in> set (entities d). ent_BankReference e = reference \<longrightarrow> ent_ID e = rid) \<and>
     (\<forall>e \<in> set (entities d). ent_Status e \<in> set [''active'', ''inactive'']) \<and>
     (\<forall>n. (rid, gen_random_uuid env n 0) \<notin> audit_key ` set (audit_events d))"

lemma insertAudit_runs:
  assumes "no_faults env" and "rid \<in> entity_ids (view s)"
    and "\<And>n. (rid, gen_random_uuid env n 0) \<notin> audit_key ` set (audit_events (view s))"
  shows "\<exists>s'. insertAudit env rid (Some actor) ''issuer_operator'' None None ''bank_provision'' ''bank'' (Some rid)
    ''succeeded'' req (JObj []) s = (Inr (), s')"
proof -
  let ?r = "audit_row_of rid (Some actor) ''issuer_operator'' None None ''bank_provision'' ''bank'' (Some rid) ''succeeded'' req
    (JObj []) (context_of env s)"
  have "insert_audit ?r (view s) = Inr ((view s)\<lparr>audit_events := audit_events (view s) @ [?r]\<rparr>)"
    using assms(2,3) unfolding insert_audit_def checked_Inr
    by (auto simp: audit_row_of_def btrim_nonempty_def is_object_def actor_context_def no_key_iff audit_key_def context_of_def
        entity_exists_def exists_row_iff entity_ids_def)
  then show ?thesis unfolding insertAudit_def using assms(1) by (simp add: statement_def context_of_def exec_def)
qed

lemma provision_entity_runs:
  fixes s :: "'n shard_world_scheme"
  assumes env: "no_faults (bk_shard svc)" and ok: "provisionable (bk_shard svc) rid reference name (durable s)"
  shows "\<exists>s'. provision_entity svc prin rid reference name req s = (Inr (), s')"
proof -
  let ?env = "bk_shard svc" and ?in = "\<lparr>ep_ID = rid, ep_BankReference = reference, ep_Name = name, ep_ActorID = p_UserID prin, ep_RequestID = req\<rparr>"
  obtain s1 where 1: "beginTenant ?env rid s = (Inr (), s1)" "view s1 = durable s"
    using beginTenant_run [OF env, of rid s] by (cases "beginTenant ?env rid s") simp
  let ?c = "context_of ?env s1"
  let ?f = "\<lambda>ctx d. if exists_row (\<lambda>r. ent_ID r = rid) (entities d)
       then exec_rows (\<lambda>ctx. update_entities (\<lambda>r. ent_ID r = rid)
              (\<lambda>r. r\<lparr>ent_Name := name, ent_updated_by := p_UserID prin, ent_UpdatedAt := sql_clock ctx\<rparr>)) ctx d
       else checked
         [(''23514'', btrim_nonempty reference \<and> btrim_nonempty name),
          (''23505'', no_key ent_BankReference reference (entities d))]
         ((), d\<lparr>entities := entities d @ [\<lparr>ent_ID = rid, ent_BankReference = reference,
            ent_Name = name, ent_Status = ''active'', ent_CreatedAt = sql_now ctx,
            ent_UpdatedAt = sql_now ctx, ent_created_by = p_UserID prin, ent_updated_by = p_UserID prin\<rparr>]\<rparr>)"
  have "\<exists>d. ?f ?c (durable s) = Inr ((), d) \<and> audit_events d = audit_events (durable s) \<and> rid \<in> entity_ids d"
  proof (cases "exists_row (\<lambda>r. ent_ID r = rid) (entities (durable s))")
    case True
    let ?u = "\<lambda>r. r\<lparr>ent_Name := name, ent_updated_by := p_UserID prin, ent_UpdatedAt := sql_clock ?c\<rparr>"
    have u: "update_entities (\<lambda>r. ent_ID r = rid) ?u (durable s) = Inr (affected (\<lambda>r. ent_ID r = rid) (entities (durable s)),
        (durable s)\<lparr>entities := update_where (\<lambda>r. ent_ID r = rid) ?u (entities (durable s))\<rparr>)"
      using ok unfolding update_entities_def map_sum_Inr_iff by (auto simp: guarded_update_Inr provisionable_def)
    have "rid \<in> entity_ids (durable s)" using True by (auto simp: exists_row_iff entity_ids_def)
    with update_entities_ids [OF u] u True show ?thesis by (auto simp: exec_rows_def)
  next
    case False
    then show ?thesis using ok
      by (auto simp: checked_Inr no_key_iff provisionable_def entity_ids_def exists_row_iff)
  qed
  then obtain d where d: "?f ?c (durable s) = Inr ((), d)" "audit_events d = audit_events (durable s)" "rid \<in> entity_ids d" by blast
  have s2: "statement ?env ?f s1 = (Inr (), (ticked s1)\<lparr>view := d\<rparr>)" (is "_ = (_, ?s2)")
    by (rule statement_run [OF env]) (use d(1) in \<open>simp only: 1(2)\<close>)
  have e: "rid \<in> entity_ids (view ?s2)" using d(3) by simp
  have f: "(rid, gen_random_uuid ?env n 0) \<notin> audit_key ` set (audit_events (view ?s2))" for n
    using ok d(2) by (simp add: provisionable_def)
  obtain s3 where a: "insertAudit ?env rid (Some (p_UserID prin)) ''issuer_operator'' None None ''bank_provision'' ''bank'' (Some rid)
    ''succeeded'' req (JObj []) ?s2 = (Inr (), s3)"
    using insertAudit_runs [OF env e f] by blast
  have "ProvisionEntity ?env ?in s1 = (Inr (), s3)"
    unfolding ProvisionEntity_def by (simp only: EntityProvision.simps andThen_def s2 prod.case sum.case a)
  then show ?thesis unfolding provision_entity_def Let_def
    by (simp only: andThen_def 1(1) compensated_def prod.case sum.case) (simp add: Commit_def env)
qed


lemma bank_entity_runs:
  assumes env: "no_faults (bk_shard svc)" and e: "rid \<in> entity_ids (durable s)"
  shows "\<exists>raw s'. bank_entity svc rid s = (Inr raw, s') \<and> string_member ''id'' raw = rid \<and> is_object raw"
proof -
  obtain r where q: "query_row (\<lambda>r. ent_ID r = rid) (entities (durable s)) = Some r"
    using e by (cases "query_row (\<lambda>r. ent_ID r = rid) (entities (durable s))") (auto simp: query_row_None entity_ids_def)
  have "ent_ID (scanEntity r) = rid" using query_row_Some [OF q] by (simp add: scanEntity_def Entity.defs)
  then show ?thesis
    by (simp add: bank_entity_def Reader_Entity_def read_tx_def transaction_def andThen_def beginTenant_run [OF env] deferred_def
        statement_def env read_only_def q scan_row_def Commit_def ret_def bank_entity_json_def string_member_def member_of_def is_object_def)
qed

lemma activate_bank_runs:
  fixes c :: "'m control_world_scheme"
  assumes env: "no_faults (bk_control svc)" and raw: "is_object raw"
    and routes: "\<And>r. r \<in> set (bank_routing_entries (durable c)) \<Longrightarrow> route_checks r"
    and commands: "\<And>r. r \<in> set (command_idempotency_records (durable c)) \<Longrightarrow> command_checks r"
  shows "\<exists>c' clock. activate_bank svc prin key rid raw c = (Inr (201, raw), c') \<and>
    bank_routing_entries (durable c') = update_where (\<lambda>r. rt_entity r = rid \<and> rt_shard_id r = bk_shardID svc)
      (\<lambda>r. r\<lparr>rt_placement_status := ''active'', rt_updated_at := clock\<rparr>) (bank_routing_entries (durable c)) \<and>
    stored_command (provision_scope prin, key) (durable c') =
      map_option (\<lambda>(f, t, r). (f, t, raw)) (stored_command (provision_scope prin, key) (durable c))"
proof -
  let ?env = "bk_control svc" and ?P = "\<lambda>r. rt_entity r = rid \<and> rt_shard_id r = bk_shardID svc" and ?d = "durable c"
  let ?Q = "is_command (provision_scope prin) key"
  let ?f = "\<lambda>r. r\<lparr>cidem_response_status := 201, cidem_response_body := raw, cidem_result_reference := nullable rid\<rparr>"
  define rows where "rows clock = update_where ?P (\<lambda>r. r\<lparr>rt_placement_status := ''active'', rt_updated_at := clock\<rparr>)
    (bank_routing_entries ?d)" for clock
  define recs where "recs clock = update_where ?Q (\<lambda>r. (?f r)\<lparr>cidem_updated_at := clock\<rparr>) (command_idempotency_records ?d)" for clock
  have rc: "route_checks (r\<lparr>rt_placement_status := ''active'', rt_updated_at := clock\<rparr>)" if "r \<in> set (bank_routing_entries ?d)" for r clock
    using routes [OF that] by (simp add: route_checks_def)
  have u: "update_routes ?P (\<lambda>r. r\<lparr>rt_placement_status := ''active'', rt_updated_at := clock\<rparr>) ?d =
      Inr (affected ?P (bank_routing_entries ?d), ?d\<lparr>bank_routing_entries := rows clock\<rparr>)" for clock
    unfolding update_routes_def rows_def map_sum_Inr_iff by (simp add: guarded_update_Inr rc)
  have k: "update_commands clock ?Q ?f (?d\<lparr>bank_routing_entries := x\<rparr>) = Inr (affected ?Q (command_idempotency_records ?d),
      ?d\<lparr>bank_routing_entries := x, command_idempotency_records := recs clock\<rparr>)" for clock x
    using commands raw unfolding update_commands_def recs_def map_sum_Inr_iff
    by (auto simp: guarded_update_Inr command_checks_def command_key_def)
  have st: "stored_command (provision_scope prin, key) (?d\<lparr>bank_routing_entries := x, command_idempotency_records := recs clock\<rparr>) =
      map_option (\<lambda>(f, t, r). (f, t, raw)) (stored_command (provision_scope prin, key) ?d)" for clock x
  proof -
    have "query_row ?Q (recs clock) = map_option (\<lambda>r. (?f r)\<lparr>cidem_updated_at := clock\<rparr>) (query_row ?Q (command_idempotency_records ?d))"
      unfolding recs_def by (rule query_row_update_same) (simp add: is_command_def)
    then show ?thesis by (simp add: stored_command_def option.map_comp comp_def)
  qed
  show ?thesis
    unfolding activate_bank_def Let_def control_transaction_def SetBankRouteStatus_def finish_command_def control_FinishIdempotency_def
      rows_def [symmetric]
    by (simp add: andThen_def pool_Begin_def env deferred_def statement_def exec_rows_def u k Commit_def ret_def st) blast
qed


definition route_of :: "routing_row \<Rightarrow> uuid \<times> string" where
  "route_of r = (rt_entity r, rt_shard_id r)"

text \<open>
  C15. An interrupted provisioning is resumed by its retry. When the key of the request is on record with the
  provisional answer, the retry runs through, in whatever state the shard was left: it creates the entity or
  finds it, makes the route of that same bank active, creates no second route, and puts its answer on record.
\<close>

theorem interrupted_provisioning_resumes:
  fixes c :: "'m control_world_scheme" and s :: "'n shard_world_scheme"
  assumes env: "no_faults (bk_control svc)" "no_faults (bk_shard svc)" and live: "time_Now (bk_control svc) (Suc (tick c)) < t"
    and rid: "rid \<noteq> ''''"
    and st: "stored_command (provision_scope prin, key) (durable c) = Some (Fingerprint (bk_fingerprinter svc) body, t, provisional rid)"
    and ok: "provisionable (bk_shard svc) rid reference name (durable s)"
    and routes: "\<And>r. r \<in> set (bank_routing_entries (durable c)) \<Longrightarrow> route_checks r"
    and commands: "\<And>r. r \<in> set (command_idempotency_records (durable c)) \<Longrightarrow> command_checks r"
  shows "\<exists>raw c' s'. ProvisionBankWorkflow svc prin key body reference name req (c, s) = (Inr (201, raw), (c', s')) \<and>
    string_member ''id'' raw = rid \<and> rid \<in> entity_ids (durable s') \<and>
    map route_of (bank_routing_entries (durable c')) = map route_of (bank_routing_entries (durable c)) \<and>
    list_all (\<lambda>r. rt_entity r = rid \<and> rt_shard_id r = bk_shardID svc \<longrightarrow> rt_placement_status r = ''active'')
      (bank_routing_entries (durable c')) \<and>
    stored_command (provision_scope prin, key) (durable c') = Some (Fingerprint (bk_fingerprinter svc) body, t, raw)"
proof -
  obtain c1 where 1: "reserve_bank svc prin key body c = (Inr (Inr rid), c1)" and c1: "durable c1 = durable c"
    using reserve_bank_replayed [OF env(1) live rid st] by blast
  obtain s1 where 2: "provision_entity svc prin rid reference name req s = (Inr (), s1)"
    using provision_entity_runs [OF env(2) ok] by blast
  have e: "rid \<in> entity_ids (durable s1)" using provision_entity_ids(2) [OF 2 refl] by simp
  obtain raw s2 where 3: "bank_entity svc rid s1 = (Inr raw, s2)" and raw: "string_member ''id'' raw = rid" "is_object raw"
    using bank_entity_runs [OF env(2) e] by blast
  have e2: "rid \<in> entity_ids (durable s2)" using e bank_entity_durable [OF 3] by simp
  have ok1: "r \<in> set (bank_routing_entries (durable c1)) \<Longrightarrow> route_checks r"
    "q \<in> set (command_idempotency_records (durable c1)) \<Longrightarrow> command_checks q" for r q using routes commands c1 by simp_all
  obtain c2 clock where 4: "activate_bank svc prin key rid raw c1 = (Inr (201, raw), c2)"
    and rs: "bank_routing_entries (durable c2) = update_where (\<lambda>r. rt_entity r = rid \<and> rt_shard_id r = bk_shardID svc)
      (\<lambda>r. r\<lparr>rt_placement_status := ''active'', rt_updated_at := clock\<rparr>) (bank_routing_entries (durable c1))"
    and rec: "stored_command (provision_scope prin, key) (durable c2) =
      map_option (\<lambda>(f, t, r). (f, t, raw)) (stored_command (provision_scope prin, key) (durable c1))"
    using activate_bank_runs [OF env(1) raw(2), of c1 prin key rid, OF ok1] by blast
  have run: "ProvisionBankWorkflow svc prin key body reference name req (c, s) = (Inr (201, raw), (c2, s2))"
    unfolding ProvisionBankWorkflow_def by (simp add: andThen_def on_control_def on_shard_def 1 2 3 4)
  have ids: "map route_of (bank_routing_entries (durable c2)) = map route_of (bank_routing_entries (durable c))"
    unfolding rs c1 by (simp add: map_update_where route_of_def)
  have act: "list_all (\<lambda>r. rt_entity r = rid \<and> rt_shard_id r = bk_shardID svc \<longrightarrow> rt_placement_status r = ''active'')
      (bank_routing_entries (durable c2))"
    unfolding rs c1 update_where_def list.pred_map by (simp add: list_all_iff) blast
  have "stored_command (provision_scope prin, key) (durable c2) = Some (Fingerprint (bk_fingerprinter svc) body, t, raw)"
    using rec st c1 by simp
  with run raw(1) e2 ids act show ?thesis by (intro exI [of _ raw] exI [of _ c2] exI [of _ s2] conjI)
qed


section \<open>A concrete run\<close>

text \<open>
  A provisioning that stopped after its first control transaction: the route is there, the entity is not.
\<close>

definition sample_bank_service :: bank_service where
  "sample_bank_service = \<lparr>bk_control = sample_env, bk_shard = sample_env, bk_shardID = ''shard'', bk_fingerprinter = []\<rparr>"

definition sample_issuer :: Principal where
  "sample_issuer = \<lparr>p_UserID = ''user'', p_Username = ''kim'', p_Role = ''issuer_operator'', p_EntityID = ''''\<rparr>"

definition interrupted_db :: control_db where
  "interrupted_db = empty_control\<lparr>
     bank_routing_entries := [\<lparr>rt_entity = ''bank'', rt_shard_id = ''shard'', rt_routing_version = 1,
        rt_placement_status = ''provisioning'', rt_created_at = 0, rt_updated_at = 0\<rparr>],
     command_idempotency_records := [\<lparr>cidem_id = ''cmd'', cidem_operation_scope = ''banks.create.actor.user'',
        cidem_idempotency_key = ''k1'', cidem_request_fingerprint = Fingerprint [] [], cidem_response_status = 202,
        cidem_response_body = provisional ''bank'', cidem_result_reference = Some ''bank'', cidem_expires_at = 5000,
        cidem_created_at = 0, cidem_updated_at = 0\<rparr>]\<rparr>"

definition interrupted_control :: control_world where
  "interrupted_control = \<lparr>durable = interrupted_db, view = interrupted_db, tx_start = 0, tick = 0\<rparr>"

lemma interrupted_control_simps [simp]: "durable interrupted_control = interrupted_db" "tick interrupted_control = 0"
  by (simp_all add: interrupted_control_def)

lemma interrupted_facts:
  "stored_command (provision_scope sample_issuer, ''k1'') interrupted_db = Some (Fingerprint [] [], 5000, provisional ''bank'')"
  "r \<in> set (bank_routing_entries interrupted_db) \<Longrightarrow> route_checks r"
  "q \<in> set (command_idempotency_records interrupted_db) \<Longrightarrow> command_checks q"
  "backed ''shard'' interrupted_db empty_db" "map route_of (bank_routing_entries interrupted_db) = [(''bank'', ''shard'')]"
  by (simp_all add: interrupted_db_def stored_command_def query_row_def is_command_def provision_scope_def sample_issuer_def
      route_checks_def btrim_nonempty_def command_checks_def is_object_def provisional_def backed_def route_of_def)

theorem interrupted_provisioning_resumes_witness:
  "\<exists>raw c' s'. ProvisionBankWorkflow sample_bank_service sample_issuer ''k1'' [] ''REF'' ''Bank'' ''req''
       (interrupted_control, sample_world empty_db) = (Inr (201, raw), (c', s')) \<and>
     string_member ''id'' raw = ''bank'' \<and> ''bank'' \<in> entity_ids (durable s') \<and>
     map rt_placement_status (bank_routing_entries (durable c')) = [''active'']"
proof -
  let ?svc = "sample_bank_service" and ?d = interrupted_db
  have svc: "bk_control ?svc = sample_env" "bk_shard ?svc = sample_env" "bk_fingerprinter ?svc = []" "bk_shardID ?svc = ''shard''"
    by (simp_all add: sample_bank_service_def)
  have p: "provisionable (bk_shard ?svc) ''bank'' ''REF'' ''Bank'' (durable (sample_world empty_db))"
    by (simp add: provisionable_def btrim_nonempty_def sample_world_def empty_db_def)
  obtain raw c' s' where run: "ProvisionBankWorkflow ?svc sample_issuer ''k1'' [] ''REF'' ''Bank'' ''req''
       (interrupted_control, sample_world empty_db) = (Inr (201, raw), (c', s'))"
    and r: "string_member ''id'' raw = ''bank''" "''bank'' \<in> entity_ids (durable s')"
      "map route_of (bank_routing_entries (durable c')) = map route_of (bank_routing_entries ?d)"
      "list_all (\<lambda>r. rt_entity r = ''bank'' \<and> rt_shard_id r = ''shard'' \<longrightarrow> rt_placement_status r = ''active'')
        (bank_routing_entries (durable c'))"
    using interrupted_provisioning_resumes [of ?svc interrupted_control 5000 "''bank''" sample_issuer "''k1''" "[]" "''REF''" "''Bank''"
        "sample_world empty_db" "''req''", OF _ _ _ _ _ p, unfolded svc interrupted_control_simps, OF _ _ _ _ interrupted_facts(1-3)] by auto
  have "map rt_placement_status (bank_routing_entries (durable c')) = [''active'']"
    using r(3,4) unfolding interrupted_facts(5) by (auto simp: route_of_def map_eq_Cons_conv)
  then show ?thesis by (intro exI [of _ raw] exI [of _ c'] exI [of _ s'] conjI run r(1,2))
qed


theorem admitted_banks_have_entities_witness:
  "\<exists>res c' s'. ProvisionBankWorkflow sample_bank_service sample_issuer ''k1'' [] ''REF'' ''Bank'' ''req''
       (interrupted_control, sample_world empty_db) = (res, (c', s')) \<and>
     backed ''shard'' interrupted_db empty_db \<and> backed ''shard'' (durable c') (durable s')"
proof -
  obtain res c' s' where run: "ProvisionBankWorkflow sample_bank_service sample_issuer ''k1'' [] ''REF'' ''Bank'' ''req''
       (interrupted_control, sample_world empty_db) = (res, (c', s'))"
    by (metis surj_pair)
  have sh: "bk_shardID sample_bank_service = ''shard''" by (simp add: sample_bank_service_def)
  have "backed (bk_shardID sample_bank_service) (durable interrupted_control) (durable (sample_world empty_db))"
    using interrupted_facts(4) by (simp add: sh sample_world_def)
  from admitted_banks_have_entities [OF this disjI1 [OF run]] have "backed ''shard'' (durable c') (durable s')" unfolding sh .
  then show ?thesis by (intro exI [of _ res] exI [of _ c'] exI [of _ s'] conjI run interrupted_facts(4))
qed

text \<open>
  The condition on patches is needed: patching the status of a bank whose provisioning has not reached the
  shard commits an active route, then fails for want of the entity, and the route stays active.
\<close>

lemma patch_activates_missing_bank:
  "\<exists>c' s'. PatchBankWorkflow sample_bank_service sample_issuer ''bank'' ''k2'' [] None (Some ''active'') ''req''
       (interrupted_control, sample_world empty_db) = (Inl ErrNoRows, (c', s')) \<and>
     backed ''shard'' interrupted_db empty_db \<and> \<not> backed ''shard'' (durable c') (durable s')"
proof -
  let ?svc = "sample_bank_service"
  have svc: "bk_control ?svc = sample_env" "bk_shard ?svc = sample_env" "bk_fingerprinter ?svc = []" "bk_shardID ?svc = ''shard''"
    by (simp_all add: sample_bank_service_def)
  have p: "\<exists>c'. place_bank ?svc sample_issuer ''bank'' ''k2'' [] (Some ''active'') interrupted_control = (Inr None, c') \<and>
      map rt_placement_status (bank_routing_entries (durable c')) = [''active''] \<and>
      map route_of (bank_routing_entries (durable c')) = [(''bank'', ''shard'')]"
    unfolding place_bank_def Let_def svc
    by (simp add: control_transaction_def pool_Begin_def deferred_def andThen_def centralIdempotency_def time_now_def onError_def
        control_ClaimIdempotency_def statement_def read_only_def query_row_def interrupted_control_def interrupted_db_def empty_control_def
        exec_def insert_command_def checked.simps command_checks_def new_command_row_def btrim_nonempty_def patch_scope_def sample_issuer_def
        is_object_def no_key_def ret_def no_replay_def is_command_def command_key_def ActiveOrProvisioning_def succeeds_def
        HasActiveOrProvisioningRoute_def pool_QueryRow_def affected_def SetBankRouteStatusForEntity_def exec_rows_def update_routes_def
        guarded_update_def update_where_def route_checks_def Commit_def route_of_def)
  from p obtain c' where "place_bank ?svc sample_issuer ''bank'' ''k2'' [] (Some ''active'') interrupted_control = (Inr None, c') \<and>
      map rt_placement_status (bank_routing_entries (durable c')) = [''active''] \<and>
      map route_of (bank_routing_entries (durable c')) = [(''bank'', ''shard'')]" by (rule exE)
  note c' = this [THEN conjunct1] this [THEN conjunct2, THEN conjunct1] this [THEN conjunct2, THEN conjunct2]
  have "\<exists>s'. patch_entity ?svc sample_issuer ''bank'' None (Some ''active'') ''req'' (sample_world empty_db) = (Inl ErrNoRows, s') \<and>
      durable s' = empty_db"
    unfolding patch_entity_def Let_def svc
    by (simp add: transaction_def andThen_def beginTenant_run deferred_def UpdateEntity_def statement_def update_entities_def
        guarded_update_def update_where_def affected_def sample_world_def empty_db_def scan_row_def query_row_def checked.simps)
  then obtain s' where s': "patch_entity ?svc sample_issuer ''bank'' None (Some ''active'') ''req'' (sample_world empty_db) = (Inl ErrNoRows, s')"
    "durable s' = empty_db" by (elim exE conjE)
  have "PatchBankWorkflow ?svc sample_issuer ''bank'' ''k2'' [] None (Some ''active'') ''req''
       (interrupted_control, sample_world empty_db) = (Inl ErrNoRows, (c', s'))"
    unfolding PatchBankWorkflow_def by (simp add: andThen_def on_control_def on_shard_def c'(1) s'(1))
  moreover have "\<not> backed ''shard'' (durable c') (durable s')"
  proof -
    obtain r where "bank_routing_entries (durable c') = [r]" using c'(2) by (auto simp: map_eq_Cons_conv)
    with c'(2,3) show ?thesis by (simp add: backed_def s'(2) entity_ids_def empty_db_def route_of_def)
  qed
  ultimately show ?thesis using interrupted_facts(4) by (intro exI [of _ c'] exI [of _ s'] conjI)
qed

end
