(* ===== verification/Authorization.thy ===== *)
theory Authorization
  imports Card_Service
begin

text \<open>
  Authorization of transactions: the decision of \<open>internal/authorization/service.go\<close> on the credential
  vault and the card's state, its store \<open>internal/repository/shard/authorization_store.go\<close>, and the
  mTLS boundary \<open>internal/authorizationhttp/handler.go\<close>. A decision is recorded under the bank's
  transaction reference and is replayed for it from then on.
\<close>

section \<open>The store\<close>

text \<open>\<open>SELECT pg_advisory_xact_lock(...)\<close>: transactions run one after the other, so the lock changes nothing.\<close>

definition LockAuthorizationReference :: "environment \<Rightarrow> uuid \<Rightarrow> string \<Rightarrow> ('m shard_world_scheme, unit) prog" where
  "LockAuthorizationReference env bank reference = statement env (read_only (\<lambda>d. Inr ()))"

definition scanAuthorization :: "authorization_row \<Rightarrow> AuthorizationVerification" where
  "scanAuthorization r = \<lparr>av_DecisionID = auth_decision_id r, av_BankTransactionRef = auth_bank_transaction_reference r,
     av_Approved = (auth_decision r = ''approved'')\<rparr>"

definition find_verification :: "environment \<Rightarrow> uuid \<Rightarrow> string \<Rightarrow> ('m shard_world_scheme, AuthorizationVerification option) prog" where
  "find_verification env bank reference =
     statement env (read_only (\<lambda>d. Inr (map_option scanAuthorization
       (query_row (\<lambda>r. auth_entity r = bank \<and> auth_bank_transaction_reference r = reference) (authorization_verifications d)))))"

definition authorization_state :: "environment \<Rightarrow> uuid \<Rightarrow> uuid \<Rightarrow> ('m shard_world_scheme, CardAuthorizationState option) prog" where
  "authorization_state env bank cardID =
     statement env (read_only (\<lambda>d. Inr (map_option
       (\<lambda>c. \<lparr>cas_CardID = card_ID c, cas_Status = card_Status c, cas_ExpiresAt = card_ExpiresAt c\<rparr>)
       (query_row (\<lambda>c. card_entity c = bank \<and> card_ID c = cardID) (cards d)))))"

definition authorization_row_of :: "uuid \<Rightarrow> AuthorizationVerificationCreate \<Rightarrow> sql_context \<Rightarrow> authorization_row" where
  "authorization_row_of bank input ctx =
     \<lparr>auth_entity = bank, auth_id = sql_uuid ctx 0, auth_decision_id = avc_DecisionID input,
      auth_bank_transaction_reference = avc_BankTransactionRef input,
      auth_card_id = (if avc_CardID input \<noteq> '''' then Some (avc_CardID input) else None),
      auth_decision = avc_Decision input, auth_decision_code = avc_DecisionCode input,
      auth_decided_at = avc_DecidedAt input, auth_created_at = sql_now ctx\<rparr>"

definition CreateAuthorizationVerification ::
  "environment \<Rightarrow> uuid \<Rightarrow> AuthorizationVerificationCreate \<Rightarrow> ('m shard_world_scheme, AuthorizationVerification) prog" where
  "CreateAuthorizationVerification env bank input =
     statement env (returning insert_authorization scanAuthorization (authorization_row_of bank input))"

section \<open>The service\<close>

definition verify_credentials :: "'v credential_ops \<Rightarrow> string \<Rightarrow> string \<Rightarrow> ('v issuer_world, VerificationResult) prog" where
  "verify_credentials ops pan cvv = in_vault (Verify ops pan cvv)"

definition newDecisionID :: "environment \<Rightarrow> ('m shard_world_scheme, uuid) prog" where
  "newDecisionID env = andThen (rand_Read env 16) (\<lambda>b. ret (card_newUUID b))"

text \<open>\<open>state.Status == "active" && (state.ExpiresAt == nil || state.ExpiresAt.After(s.now().UTC()))\<close>\<close>

definition eligible :: "environment \<Rightarrow> CardAuthorizationState \<Rightarrow> ('m shard_world_scheme, bool) prog" where
  "eligible env state =
     (if cas_Status state \<noteq> ''active'' then ret False
      else case cas_ExpiresAt state of
        None \<Rightarrow> ret True
      | Some t \<Rightarrow> andThen (time_now env) (\<lambda>now. ret (now < t)))"

definition decide :: "environment \<Rightarrow> uuid \<Rightarrow> VerificationResult \<Rightarrow> AuthorizationVerificationCreate \<Rightarrow>
    ('m shard_world_scheme, AuthorizationVerificationCreate) prog" where
  "decide env bank verification input =
     (if \<not> vr_Valid verification then ret input
      else andThen (authorization_state env bank (vr_CardID verification)) (\<lambda>found.
        case found of
          None \<Rightarrow> ret (input\<lparr>avc_DecisionCode := ''card_not_found''\<rparr>)
        | Some state \<Rightarrow>
            andThen (eligible env state) (\<lambda>ok.
            if ok then ret (input\<lparr>avc_CardID := cas_CardID state, avc_Decision := ''approved'', avc_DecisionCode := ''approved''\<rparr>)
            else ret (input\<lparr>avc_CardID := cas_CardID state, avc_DecisionCode := ''card_ineligible''\<rparr>))))"

definition Authorization_Verify ::
  "environment \<Rightarrow> 'v credential_ops option \<Rightarrow> uuid \<Rightarrow> string \<Rightarrow> string \<Rightarrow> string \<Rightarrow>
   ('v issuer_world, AuthorizationVerification) prog" where
  "Authorization_Verify env verifier bank transactionReference pan cvv =
     (case verifier of
        None \<Rightarrow> throw (PlainError ''authorization: credential vault is not configured'')
      | Some ops \<Rightarrow>
          transaction env bank
          (andThen (LockAuthorizationReference env bank transactionReference) (\<lambda>_.
           andThen (find_verification env bank transactionReference) (\<lambda>found.
           case found of
             Some existing \<Rightarrow> andThen (Commit env) (\<lambda>_. ret existing)
           | None \<Rightarrow>
               andThen (verify_credentials ops pan cvv) (\<lambda>verification.
               andThen (newDecisionID env) (\<lambda>decisionID.
               andThen (time_now env) (\<lambda>now.
               andThen (decide env bank verification
                 \<lparr>avc_DecisionID = decisionID, avc_BankTransactionRef = transactionReference, avc_CardID = '''',
                  avc_Decision = ''declined'', avc_DecisionCode = ''credential_invalid'', avc_DecidedAt = now\<rparr>) (\<lambda>input.
               andThen (CreateAuthorizationVerification env bank input) (\<lambda>decision.
               andThen (Commit env) (\<lambda>_.
               ret decision))))))))))"

section \<open>The boundary\<close>

text \<open>
  The body is what \<open>json.Decoder\<close> reads from it, within the limit of 2048 bytes: a sequence of values,
  up to the end of the input or to text that is not JSON (or exceeds the limit).
\<close>

datatype body_item = Value json | Malformed

record http_request =
  rq_Method :: string
  rq_Path :: string
  rq_PeerCertificates :: "bytes list option" \<comment> \<open>\<open>r.TLS\<close>\<close>
  rq_Body :: "body_item list"

record http_response =
  rsp_Status :: nat
  rsp_NoStore :: bool
  rsp_Body :: json

record verification_request =
  vq_BankTransactionReference :: string
  vq_PAN :: string
  vq_CVV :: string

text \<open>
  Field names match case-insensitively under simple folding, by which U+212A is a \<open>k\<close> and U+017F an \<open>s\<close>.
\<close>

fun fold_name :: "string \<Rightarrow> string" where
  "fold_name s =
     (case s of
        [] \<Rightarrow> []
      | c # s' \<Rightarrow>
          if starts_with [CHR 0xE2, CHR 0x84, CHR 0xAA] s then CHR ''k'' # fold_name (drop 3 s)
          else if starts_with [CHR 0xC5, CHR 0xBF] s then CHR ''s'' # fold_name (drop 2 s)
          else lower_char c # fold_name s')"

fun decode_fields :: "(string \<times> json) list \<Rightarrow> verification_request \<Rightarrow> verification_request option" where
  "decode_fields [] q = Some q"
| "decode_fields ((k, v) # kvs) q =
     (let set_field = (\<lambda>upd. case v of JStr s \<Rightarrow> decode_fields kvs (upd s) | JNull \<Rightarrow> decode_fields kvs q | _ \<Rightarrow> None) in
      if fold_name k = ''bank_transaction_reference'' then set_field (\<lambda>s. q\<lparr>vq_BankTransactionReference := s\<rparr>)
      else if fold_name k = ''pan'' then set_field (\<lambda>s. q\<lparr>vq_PAN := s\<rparr>)
      else if fold_name k = ''cvv'' then set_field (\<lambda>s. q\<lparr>vq_CVV := s\<rparr>)
      else None)"

definition zero_request :: verification_request where
  "zero_request = \<lparr>vq_BankTransactionReference = '''', vq_PAN = '''', vq_CVV = ''''\<rparr>"

text \<open>\<open>decoder.Decode(&request)\<close>: the request and the rest of the input.\<close>

definition decode_request :: "body_item list \<Rightarrow> (verification_request \<times> body_item list) option" where
  "decode_request body =
     (case body of
        Value (JObj kvs) # rest \<Rightarrow> map_option (\<lambda>q. (q, rest)) (decode_fields kvs zero_request)
      | Value JNull # rest \<Rightarrow> Some (zero_request, rest)
      | _ \<Rightarrow> None)"

text \<open>\<open>decoder.Decode(&struct{}{}) == nil\<close>\<close>

definition decodes_empty :: "body_item list \<Rightarrow> bool" where
  "decodes_empty body = (case body of Value (JObj []) # _ \<Rightarrow> True | Value JNull # _ \<Rightarrow> True | _ \<Rightarrow> False)"

definition digits :: "string \<Rightarrow> bool" where
  "digits value = list_all is_digit value"

definition valid_request :: "verification_request \<Rightarrow> bool" where
  "valid_request q \<longleftrightarrow>
     TrimSpace (vq_BankTransactionReference q) \<noteq> '''' \<and> length (vq_BankTransactionReference q) \<le> 256 \<and>
     13 \<le> length (vq_PAN q) \<and> length (vq_PAN q) \<le> 19 \<and> digits (vq_PAN q) \<and>
     (length (vq_CVV q) = 3 \<or> length (vq_CVV q) = 4) \<and> digits (vq_CVV q)"

definition StatusText :: "nat \<Rightarrow> string" where
  "StatusText status =
     (if status = 400 then ''Bad Request'' else if status = 401 then ''Unauthorized''
      else if status = 500 then ''Internal Server Error'' else [])"

definition writeProblem :: "nat \<Rightarrow> string \<Rightarrow> http_response" where
  "writeProblem status detail = \<lparr>rsp_Status = status, rsp_NoStore = True, rsp_Body = JObj
     [(''code'', JStr ''authorization_verification_failed''), (''detail'', JStr detail), (''status'', JInt (int status)),
      (''title'', JStr (StatusText status)), (''type'', JStr ''about:blank'')]\<rparr>"

definition writeJSON :: "nat \<Rightarrow> json \<Rightarrow> http_response" where
  "writeJSON status value = \<lparr>rsp_Status = status, rsp_NoStore = True, rsp_Body = value\<rparr>"

definition bankForRequest :: "(string \<rightharpoonup> uuid) \<Rightarrow> http_request \<Rightarrow> uuid option" where
  "bankForRequest banks r =
     (case rq_PeerCertificates r of
        Some [raw] \<Rightarrow> banks (EncodeToString (Sum256 raw))
      | _ \<Rightarrow> None)"

definition decisionJSON :: "AuthorizationVerification \<Rightarrow> json" where
  "decisionJSON decision = JObj
     [(''bank_transaction_reference'', JStr (av_BankTransactionRef decision)),
      (''decision'', JStr (if av_Approved decision then ''approved'' else ''declined'')),
      (''decision_id'', JStr (av_DecisionID decision))]"

definition ServeHTTP ::
  "environment \<Rightarrow> 'v credential_ops option \<Rightarrow> (string \<rightharpoonup> uuid) \<Rightarrow> http_request \<Rightarrow> 'v issuer_world \<Rightarrow> http_response \<times> 'v issuer_world" where
  "ServeHTTP env verifier banks r w =
     (if rq_Method r \<noteq> ''POST'' \<or> rq_Path r \<noteq> ''/v1/authorization-verifications''
      then (\<lparr>rsp_Status = 404, rsp_NoStore = False, rsp_Body = JStr ''404 page not found''\<rparr>, w)
      else case bankForRequest banks r of
        None \<Rightarrow> (writeProblem 401 ''client authentication failed'', w)
      | Some bank \<Rightarrow>
          (case decode_request (rq_Body r) of
             None \<Rightarrow> (writeProblem 400 ''invalid request'', w)
           | Some (request, rest) \<Rightarrow>
               if decodes_empty rest \<or> \<not> valid_request request then (writeProblem 400 ''invalid request'', w)
               else case Authorization_Verify env verifier bank (vq_BankTransactionReference request) (vq_PAN request) (vq_CVV request) w of
                 (Inl _, w') \<Rightarrow> (writeProblem 500 ''verification unavailable'', w')
               | (Inr decision, w') \<Rightarrow> (writeJSON 200 (decisionJSON decision), w')))"


declare fold_name.simps [simp del]

section \<open>The decision\<close>

text \<open>
  What a decision should be: the decision, its code and the card it names, from the answer of the vault,
  the card of the bank with that id, and the instant of the check.
\<close>

definition expected_decision :: "VerificationResult \<Rightarrow> card_row option \<Rightarrow> time \<Rightarrow> string \<times> string \<times> uuid option" where
  "expected_decision vr found now =
     (if \<not> vr_Valid vr then (''declined'', ''credential_invalid'', None)
      else case found of
        None \<Rightarrow> (''declined'', ''card_not_found'', None)
      | Some c \<Rightarrow>
          if card_Status c = ''active'' \<and> (case card_ExpiresAt c of None \<Rightarrow> True | Some t \<Rightarrow> now < t)
          then (''approved'', ''approved'', Some (card_ID c))
          else (''declined'', ''card_ineligible'', Some (card_ID c)))"

definition recorded_decision :: "authorization_row \<Rightarrow> string \<times> string \<times> uuid option" where
  "recorded_decision r = (auth_decision r, auth_decision_code r, auth_card_id r)"

abbreviation bank_card :: "uuid \<Rightarrow> uuid \<Rightarrow> shard_db \<Rightarrow> card_row option" where
  "bank_card bank cid d \<equiv> query_row (\<lambda>c. card_entity c = bank \<and> card_ID c = cid) (cards d)"

lemma beginTenant_tick: "beginTenant env bank w = (Inr u, w') \<Longrightarrow> tick w' = tick w + 2"
  by (auto simp: beginTenant_def pool_Begin_def andThen_def compensated_def statement_def
      split: fault.splits prod.splits sum.splits)

lemma rand_Read_InrE:
  assumes "rand_Read env n w = (Inr b, w')"
  obtains "w' = ticked w" and "length b = n"
  using assms by (auto simp: rand_Read_def split: option.splits)

lemma newDecisionIDE:
  assumes "newDecisionID env w = (Inr x, w')"
  obtains "w' = ticked w" and "x \<noteq> ''''"
proof -
  from assms have "newUUID env w = (Inr x, w')" by (simp add: newDecisionID_def newUUID_def)
  moreover from assms have "w' = ticked w"
    by (auto simp: newDecisionID_def ret_def elim!: andThen_InrE rand_Read_InrE)
  ultimately show thesis using newUUID_nonempty that by blast
qed

lemma in_vaultE:
  assumes "in_vault m w = (Inr x, w')"
  obtains "m (vault_state w) = (Inr x, vault_state w')" and "view w' = view w" and "durable w' = durable w" and "tick w' = tick w"
  using assms by (auto simp: in_vault_def split: prod.splits)

lemma eligibleE:
  assumes "eligible env state w = (Inr ok, w')"
  shows "view w' = view w" and "durable w' = durable w" and "tx_world.more w' = tx_world.more w"
    and "ok \<longleftrightarrow> cas_Status state = ''active'' \<and> (case cas_ExpiresAt state of None \<Rightarrow> True | Some t \<Rightarrow> time_Now env (tick w) < t)"
  using assms by (auto simp: eligible_def ret_def andThen_def time_now_def split: if_splits option.splits)

lemma decideE:
  assumes "decide env bank vr input w = (Inr res, w')" and "avc_Decision input = ''declined''"
    and "avc_DecisionCode input = ''credential_invalid''" and "avc_CardID input = ''''"
  shows "view w' = view w" and "tx_world.more w' = tx_world.more w"
    and "avc_DecisionID res = avc_DecisionID input \<and> avc_BankTransactionRef res = avc_BankTransactionRef input"
    and "(\<And>c. bank_card bank (vr_CardID vr) (view w) = Some c \<Longrightarrow> card_ID c \<noteq> '''') \<Longrightarrow>
      (avc_Decision res, avc_DecisionCode res, if avc_CardID res \<noteq> '''' then Some (avc_CardID res) else None) =
      expected_decision vr (bank_card bank (vr_CardID vr) (view w)) (time_Now env (Suc (tick w)))"
proof -
  have *: "view w' = view w \<and> tx_world.more w' = tx_world.more w \<and>
    avc_DecisionID res = avc_DecisionID input \<and> avc_BankTransactionRef res = avc_BankTransactionRef input \<and>
    ((\<forall>c. bank_card bank (vr_CardID vr) (view w) = Some c \<longrightarrow> card_ID c \<noteq> '''') \<longrightarrow>
      (avc_Decision res, avc_DecisionCode res, if avc_CardID res \<noteq> '''' then Some (avc_CardID res) else None) =
      expected_decision vr (bank_card bank (vr_CardID vr) (view w)) (time_Now env (Suc (tick w))))"
  proof (cases "vr_Valid vr")
    case False
    then show ?thesis using assms by (simp add: decide_def ret_def expected_decision_def)
  next
    case True
    from assms(1) True obtain found w1 where
      s: "authorization_state env bank (vr_CardID vr) w = (Inr found, w1)"
      and r: "(case found of None \<Rightarrow> ret (input\<lparr>avc_DecisionCode := ''card_not_found''\<rparr>)
        | Some state \<Rightarrow> andThen (eligible env state) (\<lambda>ok.
            if ok then ret (input\<lparr>avc_CardID := cas_CardID state, avc_Decision := ''approved'', avc_DecisionCode := ''approved''\<rparr>)
            else ret (input\<lparr>avc_CardID := cas_CardID state, avc_DecisionCode := ''card_ineligible''\<rparr>))) w1 = (Inr res, w')"
      unfolding decide_def by (auto elim: andThen_InrE)
    have w1: "view w1 = view w" "tx_world.more w1 = tx_world.more w" "tick w1 = Suc (tick w)"
      and f: "found = map_option (\<lambda>c. \<lparr>cas_CardID = card_ID c, cas_Status = card_Status c, cas_ExpiresAt = card_ExpiresAt c\<rparr>)
        (bank_card bank (vr_CardID vr) (view w))"
      using s unfolding authorization_state_def by (auto elim!: statement_InrE simp: read_only_Inr)
    show ?thesis
    proof (cases "bank_card bank (vr_CardID vr) (view w)")
      case None
      then have "res = input\<lparr>avc_DecisionCode := ''card_not_found''\<rparr>" "w' = w1" using r f by (simp_all add: ret_def)
      with None w1 True assms(2-4) show ?thesis by (simp add: expected_decision_def)
    next
      case (Some c)
      let ?st = "\<lparr>cas_CardID = card_ID c, cas_Status = card_Status c, cas_ExpiresAt = card_ExpiresAt c\<rparr>"
      from r f Some obtain ok w2 where e: "eligible env ?st w1 = (Inr ok, w2)"
        and k: "res = (if ok then input\<lparr>avc_CardID := card_ID c, avc_Decision := ''approved'', avc_DecisionCode := ''approved''\<rparr>
            else input\<lparr>avc_CardID := card_ID c, avc_DecisionCode := ''card_ineligible''\<rparr>)" "w' = w2"
        by (auto simp: ret_def elim!: andThen_InrE split: if_splits)
      show ?thesis
        using eligibleE [OF e] k w1 Some True assms(2)
        by (cases ok) (auto simp: expected_decision_def split: option.splits)
    qed
  qed
  show "view w' = view w" and "tx_world.more w' = tx_world.more w"
    and "avc_DecisionID res = avc_DecisionID input \<and> avc_BankTransactionRef res = avc_BankTransactionRef input"
    using * by simp_all
  assume "\<And>c. bank_card bank (vr_CardID vr) (view w) = Some c \<Longrightarrow> card_ID c \<noteq> ''''"
  with * show "(avc_Decision res, avc_DecisionCode res, if avc_CardID res \<noteq> '''' then Some (avc_CardID res) else None) =
      expected_decision vr (bank_card bank (vr_CardID vr) (view w)) (time_Now env (Suc (tick w)))" by simp
qed


lemma authorization_verifyE:
  fixes w w' :: "'v issuer_world"
  assumes "Authorization_Verify env (Some ops) bank ref pan cvv w = (Inr v, w')"
  obtains (replay) row where "row \<in> set (authorization_verifications (durable w))" and "authorization_key row = (bank, ref)"
      and "v = scanAuthorization row" and "durable w' = durable w" and "vault_state w' = vault_state w"
      and "query_row (\<lambda>r. auth_entity r = bank \<and> auth_bank_transaction_reference r = ref) (authorization_verifications (durable w)) = Some row"
  | (fresh) row vr where "(bank, ref) \<notin> authorization_key ` set (authorization_verifications (durable w))"
      and "durable w' = (durable w)\<lparr>authorization_verifications := authorization_verifications (durable w) @ [row]\<rparr>"
      and "authorization_key row = (bank, ref)" and "v = scanAuthorization row"
      and "Verify ops pan cvv (vault_state w) = (Inr vr, vault_state w')"
      and "\<forall>c \<in> set (cards (durable w)). card_ID c \<noteq> '''' \<Longrightarrow>
        recorded_decision row = expected_decision vr (bank_card bank (vr_CardID vr) (durable w)) (time_Now env (tick w + 7))"
proof -
  let ?rest = "\<lambda>found. case found of Some existing \<Rightarrow> andThen (Commit env) (\<lambda>_. ret existing)
     | None \<Rightarrow>
               andThen (verify_credentials ops pan cvv) (\<lambda>verification.
               andThen (newDecisionID env) (\<lambda>decisionID.
               andThen (time_now env) (\<lambda>now.
               andThen (decide env bank verification
                 \<lparr>avc_DecisionID = decisionID, avc_BankTransactionRef = ref, avc_CardID = '''',
                  avc_Decision = ''declined'', avc_DecisionCode = ''credential_invalid'', avc_DecidedAt = now\<rparr>) (\<lambda>input.
               andThen (CreateAuthorizationVerification env bank input) (\<lambda>decision.
               andThen (Commit env) (\<lambda>_. ret decision))))))"
  from assms obtain w0 where bg: "beginTenant env bank w = (Inr (), w0)"
    and m: "deferred (andThen (LockAuthorizationReference env bank ref) (\<lambda>_.
      andThen (find_verification env bank ref) ?rest)) Rollback w0 = (Inr v, w')"
    unfolding Authorization_Verify_def option.case transaction_def by (auto elim: andThen_InrE)
  from m obtain wz w1 w2 found where z: "w' = Rollback wz" and l: "LockAuthorizationReference env bank ref w0 = (Inr (), w1)"
    and q: "find_verification env bank ref w1 = (Inr found, w2)" and r: "?rest found w2 = (Inr v, wz)"
    by (auto simp: deferred_def split: prod.splits elim!: andThen_InrE)
  have b: "view w0 = durable w" "tx_world.more w0 = tx_world.more w" "durable w0 = durable w" "tick w0 = tick w + 2"
    using bg by (auto elim!: beginTenant_InrE simp: beginTenant_tick [OF bg])
  have v1: "view w1 = durable w" "tx_world.more w1 = tx_world.more w" "tick w1 = tick w + 3"
    using l b unfolding LockAuthorizationReference_def by (auto elim!: statement_InrE simp: read_only_Inr)
  have v2: "view w2 = durable w" "tx_world.more w2 = tx_world.more w" "tick w2 = tick w + 4"
    and f: "found = map_option scanAuthorization
      (query_row (\<lambda>r. auth_entity r = bank \<and> auth_bank_transaction_reference r = ref) (authorization_verifications (durable w)))"
    using q v1 unfolding find_verification_def by (auto elim!: statement_InrE simp: read_only_Inr)
  show thesis
  proof (cases found)
    case (Some existing)
    then obtain row where row: "query_row (\<lambda>r. auth_entity r = bank \<and> auth_bank_transaction_reference r = ref)
        (authorization_verifications (durable w)) = Some row" "existing = scanAuthorization row" using f by auto
    from r Some have c: "v = existing" "durable wz = view w2" "tx_world.more wz = tx_world.more w2"
      by (auto simp: ret_def elim!: andThen_InrE Commit_InrE)
    show thesis
      using row query_row_Some [OF row(1)] c v2 z vault_state_more [of wz w]
      by (intro that(1) [of row]) (auto simp: authorization_key_def)
  next
    case None
    then have absent: "(bank, ref) \<notin> authorization_key ` set (authorization_verifications (durable w))"
      using f by (auto simp: query_row_None authorization_key_def)
    let ?in = "\<lambda>did now. \<lparr>avc_DecisionID = did, avc_BankTransactionRef = ref, avc_CardID = '''',
                  avc_Decision = ''declined'', avc_DecisionCode = ''credential_invalid'', avc_DecidedAt = now\<rparr>"
    from r None obtain vr w3 did w4 now w5 input w6 w7 where
      ver: "in_vault (Verify ops pan cvv) w2 = (Inr vr, w3)" and d: "newDecisionID env w3 = (Inr did, w4)"
      and t: "time_now env w4 = (Inr now, w5)" and de: "decide env bank vr (?in did now) w5 = (Inr input, w6)"
      and c: "CreateAuthorizationVerification env bank input w6 = (Inr v, w7)" and wz: "durable wz = view w7"
      "tx_world.more wz = tx_world.more w7"
      by (auto simp: ret_def verify_credentials_def elim!: andThen_InrE Commit_InrE)
    have v5: "view w5 = durable w" "vault_state w5 = vault_state w3" "tick w5 = tick w + 6"
      using ver d t v2 by (auto simp: time_now_def elim!: in_vaultE newDecisionIDE)
    have vs: "Verify ops pan cvv (vault_state w) = (Inr vr, vault_state w3)"
      using ver v2(2) vault_state_more [of w2 w] by (auto elim!: in_vaultE)
    note dd = decideE [OF de]
    have e: "view w6 = durable w" "tx_world.more w6 = tx_world.more w5" "avc_BankTransactionRef input = ref"
      using dd(1) dd(2) dd(3) v5 by simp_all
    have x: "(avc_Decision input, avc_DecisionCode input, if avc_CardID input \<noteq> '''' then Some (avc_CardID input) else None) =
        expected_decision vr (bank_card bank (vr_CardID vr) (durable w)) (time_Now env (tick w + 7))"
      if cs: "\<forall>c \<in> set (cards (durable w)). card_ID c \<noteq> ''''"
      using dd(4) query_row_Some [of _ "cards (durable w)"] cs v5 by (simp add: eval_nat_numeral)
    let ?row = "authorization_row_of bank input (context_of env w6)"
    have c7: "tx_world.more w7 = tx_world.more w6"
      using c unfolding CreateAuthorizationVerification_def by (elim statement_InrE)
    from c have v7: "v = scanAuthorization ?row" "insert_authorization ?row (view w6) = Inr (view w7)"
      unfolding CreateAuthorizationVerification_def by (elim statement_returningE, simp)+
    have "view w7 = (durable w)\<lparr>authorization_verifications := authorization_verifications (durable w) @ [?row]\<rparr>"
      using v7(2) e(1) by (auto simp: insert_authorization_def checked_Inr)
    moreover have "vault_state w' = vault_state w3"
      using z wz(2) c7 e(2) v5(2) vault_state_more [of wz w5] by simp
    ultimately show thesis
      using absent vs v7(1) z wz(1) x e(3)
      by (intro that(2) [of ?row vr]) (auto simp: authorization_key_def authorization_row_of_def recorded_decision_def)
  qed
qed

text \<open>
  C29. A verification that succeeds replays the decision recorded for its bank and transaction
  reference, or asks the vault once and records exactly one decision, which is the expected one: approved
  exactly when the vault accepts the credentials and their card is an active, unexpired card of the bank.
\<close>

theorem decision_is_expected:
  assumes "Authorization_Verify env (Some ops) bank ref pan cvv w = (Inr v, w')"
    and "\<forall>c \<in> set (cards (durable w)). card_ID c \<noteq> ''''"
  shows "(\<exists>row \<in> set (authorization_verifications (durable w)). authorization_key row = (bank, ref) \<and> v = scanAuthorization row \<and>
      durable w' = durable w \<and> vault_state w' = vault_state w) \<or>
    (\<exists>row vr. (bank, ref) \<notin> authorization_key ` set (authorization_verifications (durable w)) \<and>
      Verify ops pan cvv (vault_state w) = (Inr vr, vault_state w') \<and>
      durable w' = (durable w)\<lparr>authorization_verifications := authorization_verifications (durable w) @ [row]\<rparr> \<and>
      authorization_key row = (bank, ref) \<and> v = scanAuthorization row \<and>
      recorded_decision row = expected_decision vr (bank_card bank (vr_CardID vr) (durable w)) (time_Now env (tick w + 7)))"
using assms(1)
proof (cases rule: authorization_verifyE)
  case (replay row)
  then show ?thesis by (intro disjI1 bexI [of _ row]) simp_all
next
  case (fresh row vr)
  then show ?thesis using assms(2) by (intro disjI2 exI [of _ row] exI [of _ vr]) simp_all
qed

section \<open>Replay\<close>

text \<open>The transaction of a reference that has its row: nothing is asked and nothing is written.\<close>

lemma verify_replays:
  fixes w :: "'v issuer_world"
  assumes row: "query_row (\<lambda>r. auth_entity r = bank \<and> auth_bank_transaction_reference r = ref)
      (authorization_verifications (durable w)) = Some row"
    and run: "Authorization_Verify env (Some ops) bank ref pan cvv w = (res, w')"
  shows "(res = Inr (scanAuthorization row) \<or> (\<exists>e. res = Inl e)) \<and> durable w' = durable w \<and> vault_state w' = vault_state w"
    and "no_faults env \<Longrightarrow> res = Inr (scanAuthorization row)"
proof -
  have "(res = Inr (scanAuthorization row) \<or> (\<exists>e. res = Inl e)) \<and> durable w' = durable w \<and> vault_state w' = vault_state w \<and>
    (no_faults env \<longrightarrow> res = Inr (scanAuthorization row))"
    using row run
    by (auto simp: Authorization_Verify_def transaction_def beginTenant_def pool_Begin_def compensated_def deferred_def
        LockAuthorizationReference_def find_verification_def statement_def read_only_def Commit_def ret_def Rollback_def
        andThen_def ticked_def split: fault.splits)
  then show "(res = Inr (scanAuthorization row) \<or> (\<exists>e. res = Inl e)) \<and> durable w' = durable w \<and> vault_state w' = vault_state w"
    and "no_faults env \<Longrightarrow> res = Inr (scanAuthorization row)" by simp_all
qed

text \<open>
  C30. Once a verification has returned a decision, every later verification of the same bank and
  transaction reference, under any credentials and any verifier, on tables that still hold the recorded
  decisions, answers with that decision (or with an error of its connection, never with another decision),
  writes nothing and does not touch the vault; without faults it does answer.
\<close>

theorem decisions_are_replayed:
  fixes w1 :: "'v issuer_world" and w2 :: "'u issuer_world"
  assumes first: "Authorization_Verify env (Some ops) bank ref pan cvv w = (Inr v, w1)"
    and kept: "set (authorization_verifications (durable w1)) \<subseteq> set (authorization_verifications (durable w2))"
    and uniq: "unique_key authorization_key (authorization_verifications (durable w2))"
  shows "case Authorization_Verify env' (Some ops') bank ref pan' cvv' w2 of (res, w2') \<Rightarrow>
    (res = Inr v \<or> (\<exists>e. res = Inl e)) \<and> (no_faults env' \<longrightarrow> res = Inr v) \<and>
    durable w2' = durable w2 \<and> vault_state w2' = vault_state w2"
proof -
  obtain row where row: "row \<in> set (authorization_verifications (durable w1))" "authorization_key row = (bank, ref)"
      "v = scanAuthorization row"
    using first by (cases rule: authorization_verifyE) auto
  have q: "query_row (\<lambda>r. auth_entity r = bank \<and> auth_bank_transaction_reference r = ref)
      (authorization_verifications (durable w2)) = Some row"
    using row kept by (intro query_row_unique [OF uniq]) (auto simp: authorization_key_def)
  obtain res w2' where r: "Authorization_Verify env' (Some ops') bank ref pan' cvv' w2 = (res, w2')" by fastforce
  show ?thesis using verify_replays [OF q r] r row(3) by simp
qed

section \<open>A sample decision\<close>

definition authorized_card :: card_row where
  "authorized_card = \<lparr>card_ID = ''card'', card_ClientID = ''client'', card_AccountReferenceID = ''account'',
     card_ProductID = ''product'', card_Status = ''active'', card_MaskedPAN = None,
     card_PredecessorCardID = None, card_IssuedAt = None, card_ActivatedAt = None, card_SuspendedAt = None,
     card_ClosedAt = None, card_ExpiresAt = Some 2000, card_Version = 1, card_CreatedAt = 0, card_UpdatedAt = 0,
     card_entity = ''bank'', card_created_by = ''op'', card_updated_by = ''op''\<rparr>"

text \<open>A vault that knows one pair of credentials.\<close>

definition one_card_ops :: "InMemory credential_ops" where
  "one_card_ops = in_memory_ops\<lparr>Verify := (\<lambda>pan cvv v.
     (Inr \<lparr>vr_CardID = ''card'', vr_Valid = (pan = ''4000001234567890'' \<and> cvv = ''123'')\<rparr>, v))\<rparr>"

definition authorization_world :: "InMemory issuer_world" where
  "authorization_world = sample_issuer_world (sample_db\<lparr>cards := [authorized_card]\<rparr>)"

definition sample_verify :: "(AuthorizationVerification result) \<times> InMemory issuer_world" where
  "sample_verify = Authorization_Verify sample_env (Some one_card_ops) ''bank'' ''ref 1'' ''4000001234567890'' ''123'' authorization_world"

lemma sample_verify_runs: "\<exists>v w'. sample_verify = (Inr v, w') \<and> av_Approved v"
  by (simp add: sample_verify_def Authorization_Verify_def transaction_def beginTenant_def pool_Begin_def compensated_def
      deferred_def LockAuthorizationReference_def find_verification_def statement_def read_only_def Commit_def ret_def
      Rollback_def andThen_def ticked_def authorization_world_def sample_issuer_world_def verify_credentials_def
      in_vault_def one_card_ops_def newDecisionID_def rand_Read_def time_now_def decide_def authorization_state_def
      eligible_def CreateAuthorizationVerification_def authorized_card_def returning_def authorization_row_of_def
      insert_authorization_def scanAuthorization_def exists_row_def card_key_def no_key_def btrim_nonempty_def
      query_row_def sample_env_rand sample_db_def empty_db_def checked.simps)

theorem decision_is_expected_witness:
  "\<exists>v w' row. sample_verify = (Inr v, w') \<and> av_Approved v \<and> authorization_verifications (durable w') = [row] \<and>
     recorded_decision row = (''approved'', ''approved'', Some ''card'')"
proof -
  obtain v w' where r: "sample_verify = (Inr v, w')" "av_Approved v" using sample_verify_runs by blast
  have d: "durable authorization_world = sample_db\<lparr>cards := [authorized_card]\<rparr>" "vault_state authorization_world = sample_vault"
      "tick authorization_world = 0" "authorization_verifications sample_db = []"
    by (simp_all add: authorization_world_def sample_issuer_world_def sample_db_def empty_db_def)
  have c: "\<forall>c \<in> set (cards (durable authorization_world)). card_ID c \<noteq> ''''"
    by (simp add: d authorized_card_def)
  have v: "Verify one_card_ops ''4000001234567890'' ''123'' v0 = (Inr \<lparr>vr_CardID = ''card'', vr_Valid = True\<rparr>, v0)" for v0
    by (simp add: one_card_ops_def)
  from decision_is_expected [OF r(1) [unfolded sample_verify_def] c]
  obtain row where "authorization_verifications (durable w') = [row]" "recorded_decision row = (''approved'', ''approved'', Some ''card'')"
    by (auto simp: d v expected_decision_def query_row_def authorized_card_def)
  with r show ?thesis by (intro exI [of _ v] exI [of _ w'] exI [of _ row] conjI)
qed

theorem decisions_are_replayed_witness:
  "\<exists>v w1. sample_verify = (Inr v, w1) \<and>
     fst (Authorization_Verify sample_env (Some one_card_ops) ''bank'' ''ref 1'' ''4000009999999999'' ''000'' w1) = Inr v"
proof -
  obtain v w1 where r: "sample_verify = (Inr v, w1)" using sample_verify_runs by blast
  have "unique_key authorization_key (authorization_verifications (durable w1))"
    using r unfolding sample_verify_def
    by (cases rule: authorization_verifyE)
      (auto simp: authorization_world_def sample_issuer_world_def sample_db_def empty_db_def unique_key_def)
  from decisions_are_replayed [OF r [unfolded sample_verify_def] subset_refl this,
      of sample_env one_card_ops "''4000009999999999''" "''000''"]
  show ?thesis using r by (intro exI [of _ v] exI [of _ w1]) (auto split: prod.splits)
qed

section \<open>The boundary's contract\<close>

lemma keeps_in_vault_durable: "keeps durable (in_vault m)"
  by (auto simp: keeps_def in_vault_def split: prod.splits)

lemma atomic_Authorization_Verify:
  "no_lost_commits env \<Longrightarrow> atomic (Authorization_Verify env verifier bank ref pan cvv)"
  unfolding Authorization_Verify_def LockAuthorizationReference_def find_verification_def verify_credentials_def
    newDecisionID_def decide_def authorization_state_def eligible_def CreateAuthorizationVerification_def
  by (intro atomic_intros keeps_intros keeps_in_vault_durable) auto

text \<open>
  C31. The boundary answers 404, 401 or 400 without touching anything, 500 without a durable change (as
  long as a commit that reports failure did not happen), or 200; and it answers 200 only to the holder of
  a certificate whose fingerprint maps to a bank, for a well-formed request, with the decision that is
  recorded for that bank and the request's transaction reference.
\<close>

theorem boundary_answers_recorded_decisions:
  fixes w :: "'v issuer_world"
  assumes run: "ServeHTTP env verifier banks r w = (rsp, w')" and nl: "no_lost_commits env"
  shows "(rsp_Status rsp \<in> {400, 401, 404} \<and> w' = w) \<or> (rsp_Status rsp = 500 \<and> durable w' = durable w) \<or>
    (rsp_Status rsp = 200 \<and> rq_Method r = ''POST'' \<and> (\<exists>raw bank request rest row.
      rq_PeerCertificates r = Some [raw] \<and> banks (EncodeToString (Sum256 raw)) = Some bank \<and>
      decode_request (rq_Body r) = Some (request, rest) \<and> valid_request request \<and>
      row \<in> set (authorization_verifications (durable w')) \<and>
      authorization_key row = (bank, vq_BankTransactionReference request) \<and>
      rsp_Body rsp = decisionJSON (scanAuthorization row)))"
proof (cases "rsp_Status rsp \<in> {400, 401, 404} \<and> w' = w")
  case False
  with run obtain bank request rest where b: "rq_Method r = ''POST''" "bankForRequest banks r = Some bank"
    "decode_request (rq_Body r) = Some (request, rest)" "valid_request request"
    and v: "(case Authorization_Verify env verifier bank (vq_BankTransactionReference request) (vq_PAN request) (vq_CVV request) w of
                 (Inl _, w') \<Rightarrow> (writeProblem 500 ''verification unavailable'', w')
               | (Inr decision, w') \<Rightarrow> (writeJSON 200 (decisionJSON decision), w')) = (rsp, w')"
    unfolding ServeHTTP_def by (auto simp: writeProblem_def split: if_splits option.splits prod.splits)
  obtain raw where raw: "rq_PeerCertificates r = Some [raw]" "banks (EncodeToString (Sum256 raw)) = Some bank"
    using b(2) by (auto simp: bankForRequest_def split: option.splits list.splits)
  obtain res where a: "Authorization_Verify env verifier bank (vq_BankTransactionReference request) (vq_PAN request) (vq_CVV request) w = (res, w')"
    using v by (auto split: prod.splits sum.splits)
  show ?thesis
  proof (cases res)
    case (Inl e)
    with a have "durable w' = durable w" using atomicD [OF atomic_Authorization_Verify [OF nl]] by blast
    then show ?thesis using v a Inl by (auto simp: writeProblem_def)
  next
    case (Inr d)
    then obtain ops where "verifier = Some ops" using a by (cases verifier) (auto simp: Authorization_Verify_def throw_def)
    with a Inr have "Authorization_Verify env (Some ops) bank (vq_BankTransactionReference request) (vq_PAN request) (vq_CVV request) w = (Inr d, w')"
      by simp
    then obtain row where "row \<in> set (authorization_verifications (durable w'))"
        "authorization_key row = (bank, vq_BankTransactionReference request)" "d = scanAuthorization row"
      by (cases rule: authorization_verifyE) auto
    then show ?thesis using v a Inr b raw by (intro disjI2) (auto simp: writeJSON_def)
  qed
qed blast

definition sample_http :: http_request where
  "sample_http = \<lparr>rq_Method = ''POST'', rq_Path = ''/v1/authorization-verifications'', rq_PeerCertificates = Some [[1, 2, 3]],
     rq_Body = [Value (JObj [(''bank_transaction_reference'', JStr ''ref 1''), (''PAN'', JStr ''4000001234567890''), (''cvv'', JStr ''123'')])]\<rparr>"

lemma sample_http_decodes:
  "decode_request (rq_Body sample_http) =
     Some (\<lparr>vq_BankTransactionReference = ''ref 1'', vq_PAN = ''4000001234567890'', vq_CVV = ''123''\<rparr>, [])"
  by code_simp

theorem boundary_answers_recorded_decisions_witness:
  "\<exists>rsp w' row. ServeHTTP sample_env (Some one_card_ops) (\<lambda>_. Some ''bank'') sample_http authorization_world = (rsp, w') \<and>
     rsp_Status rsp = 200 \<and> authorization_key row = (''bank'', ''ref 1'') \<and> rsp_Body rsp = decisionJSON (scanAuthorization row)"
proof -
  obtain v w' where r: "sample_verify = (Inr v, w')" using sample_verify_runs by blast
  have vr: "valid_request \<lparr>vq_BankTransactionReference = ''ref 1'', vq_PAN = ''4000001234567890'', vq_CVV = ''123''\<rparr>"
    by code_simp
  have s: "ServeHTTP sample_env (Some one_card_ops) (\<lambda>_. Some ''bank'') sample_http authorization_world = (writeJSON 200 (decisionJSON v), w')"
    using r vr unfolding ServeHTTP_def sample_http_decodes sample_verify_def
    by (simp add: bankForRequest_def sample_http_def) (simp add: decodes_empty_def)
  from boundary_answers_recorded_decisions [OF s sample_env_no_faults(2)] sample_http_decodes show ?thesis
    using s by (auto simp: writeJSON_def)
qed

end
