(* ===== verification/Api.thy ===== *)
theory Api
  imports Catalog Staff Bank Authorization
begin

text \<open>
  \<open>internal/server\<close>: the handlers of the resource API behind the authentication of the request
  (\<open>resource.go\<close>, \<open>bank_handler.go\<close>, \<open>staff_handler.go\<close>, \<open>catalog_handler.go\<close>,
  \<open>card_handler.go\<close>, \<open>batch.go\<close>). A handler runs on both databases and the vault, checks the
  role and the bank, decodes the body, calls one service and replies. The theorems say who may change
  anything through the API, and who is answered.
\<close>

section \<open>Requests and replies\<close>

text \<open>
  The body is what \<open>json.Decoder\<close> reads within the limit of 32 KiB: values up to the end of the input,
  or to text that is no JSON or exceeds the limit. Each member of an object comes with its value and its text.
\<close>

type_synonym member = "string \<times> json \<times> string"

datatype body_value = Members "member list" | NullBody | OtherBody | Unreadable

record api_request =
  ar_Method :: string
  ar_Path :: string
  ar_Query :: "string \<Rightarrow> string" \<comment> \<open>\<open>r.URL.Query().Get\<close>\<close>
  ar_JSON :: bool \<comment> \<open>the media type is \<open>application/json\<close>\<close>
  ar_Body :: "body_value list"
  ar_IdempotencyKey :: string
  ar_RequestID :: string

text \<open>
  A handler writes one value, one problem, or a page of a collection; one that returns without writing leaves
  the reply to \<open>net/http\<close>, which sends 200 with no body.
\<close>

datatype reply = WriteJSON int json | WriteProblem int string string | Page string string "json list" | Unwritten

record 'v api =
  api_control :: environment
  api_shard :: environment
  api_shardID :: string
  api_fingerprinter :: bytes
  api_vault :: "'v credential_ops option"
  api_idkey :: idkey
  api_unicode :: unicode_classes
  api_jsonb :: "string \<Rightarrow> json result"

type_synonym 'v api_world = "control_world \<times> 'v issuer_world"
type_synonym 'v handler = "'v api_world \<Rightarrow> reply \<times> 'v api_world"

definition respond :: "reply \<Rightarrow> 'v handler" where
  "respond r = (\<lambda>w. (r, w))"

text \<open>The call of a service, and the reply to its result or to its error.\<close>

definition calling :: "('v api_world, 'a) prog \<Rightarrow> (go_error \<Rightarrow> reply) \<Rightarrow> ('a \<Rightarrow> reply) \<Rightarrow> 'v handler" where
  "calling m failed written = (\<lambda>w. case m w of (Inl e, w') \<Rightarrow> (failed e, w') | (Inr x, w') \<Rightarrow> (written x, w'))"

definition forbidden :: reply where
  "forbidden = WriteProblem 403 ''forbidden'' ''The authenticated user is not permitted to perform this operation.''"

definition apiNotFound :: reply where
  "apiNotFound = WriteProblem 404 ''not_found'' ''The requested API endpoint does not exist.''"

definition RequireMethods :: reply where
  "RequireMethods = WriteProblem 405 ''method_not_allowed'' ''The request method is not allowed for this endpoint.''"

definition invalid :: "string \<Rightarrow> reply" where
  "invalid detail = WriteProblem 400 ''invalid_request'' detail"

definition writeWorkflowError :: "go_error \<Rightarrow> reply" where
  "writeWorkflowError e =
     (case e of
        Problem status code detail \<Rightarrow> WriteProblem (int status) code detail
      | PgError state \<Rightarrow>
          if state \<in> set [''23505'', ''23503'', ''23514'', ''P0001'']
          then WriteProblem 409 ''conflict'' ''The request conflicts with the current resource state.''
          else WriteProblem 500 ''internal_error'' ''The request could not be completed.''
      | _ \<Rightarrow> WriteProblem 500 ''internal_error'' ''The request could not be completed.'')"

definition IdempotencyKey :: "api_request \<Rightarrow> (string \<Rightarrow> 'v handler) \<Rightarrow> 'v handler" where
  "IdempotencyKey r f =
     (let key = ar_IdempotencyKey r in
      if length key < 1 \<or> 256 < length key
      then respond (WriteProblem 400 ''invalid_idempotency_key'' ''Idempotency-Key must contain 1 to 256 characters.'')
      else f key)"

section \<open>Bodies\<close>

text \<open>
  The fields of the structure a body is decoded into: a string, a pointer to a string, a
  \<open>json.RawMessage\<close>, a slice of strings. A \<open>null\<close> leaves a string as it is, clears a pointer and is
  itself the text of a raw message.
\<close>

datatype slot = SText string | SPointer "string option" | SRaw "(json \<times> string) option" | STexts "string list"

definition string_items :: "json list \<Rightarrow> string list option" where
  "string_items items =
     (if list_all (\<lambda>j. case j of JStr s \<Rightarrow> True | JNull \<Rightarrow> True | _ \<Rightarrow> False) items
      then Some (map (\<lambda>j. case j of JStr s \<Rightarrow> s | _ \<Rightarrow> []) items) else None)"

fun decode_slot :: "slot \<Rightarrow> json \<Rightarrow> string \<Rightarrow> slot option" where
  "decode_slot (SText s) v raw = (case v of JStr t \<Rightarrow> Some (SText t) | JNull \<Rightarrow> Some (SText s) | _ \<Rightarrow> None)"
| "decode_slot (SPointer p) v raw = (case v of JStr t \<Rightarrow> Some (SPointer (Some t)) | JNull \<Rightarrow> Some (SPointer None) | _ \<Rightarrow> None)"
| "decode_slot (SRaw x) v raw = Some (SRaw (Some (v, raw)))"
| "decode_slot (STexts xs) v raw =
     (case v of JArr items \<Rightarrow> map_option STexts (string_items items) | JNull \<Rightarrow> Some (STexts []) | _ \<Rightarrow> None)"

type_synonym slots = "(string \<times> slot) list"

fun decode_members :: "slots \<Rightarrow> member list \<Rightarrow> slots option" where
  "decode_members slots [] = Some slots"
| "decode_members slots ((k, v, raw) # ms) =
     (case map_of slots (fold_name k) of
        None \<Rightarrow> None
      | Some x \<Rightarrow>
          (case decode_slot x v raw of
             None \<Rightarrow> None
           | Some y \<Rightarrow> decode_members (map (\<lambda>(n, z). (n, if n = fold_name k then y else z)) slots) ms))"

definition DecodeRequest :: "api_request \<Rightarrow> slots \<Rightarrow> slots option" where
  "DecodeRequest r slots =
     (if \<not> ar_JSON r then None
      else case ar_Body r of
        [Members ms] \<Rightarrow> decode_members slots ms
      | [NullBody] \<Rightarrow> Some slots
      | _ \<Rightarrow> None)"

definition text_of :: "slots \<Rightarrow> string \<Rightarrow> string" where
  "text_of slots n = (case map_of slots n of Some (SText s) \<Rightarrow> s | _ \<Rightarrow> [])"

definition pointer_of :: "slots \<Rightarrow> string \<Rightarrow> string option" where
  "pointer_of slots n = (case map_of slots n of Some (SPointer p) \<Rightarrow> p | _ \<Rightarrow> None)"

definition raw_of :: "slots \<Rightarrow> string \<Rightarrow> (json \<times> string) option" where
  "raw_of slots n = (case map_of slots n of Some (SRaw x) \<Rightarrow> x | _ \<Rightarrow> None)"

definition texts_of :: "slots \<Rightarrow> string \<Rightarrow> string list" where
  "texts_of slots n = (case map_of slots n of Some (STexts xs) \<Rightarrow> xs | _ \<Rightarrow> [])"

text \<open>\<open>body, _ := json.Marshal(in)\<close>, of the structures that have strings and pointers only.\<close>

definition marshal_slot :: "slot \<Rightarrow> string" where
  "marshal_slot x = (case x of SText s \<Rightarrow> marshal_string s | SPointer p \<Rightarrow> marshal_pointer p | _ \<Rightarrow> ''null'')"

definition marshal_slots :: "slots \<Rightarrow> bytes" where
  "marshal_slots slots = bytes_of_string (''{'' @ join_with '','' (map (\<lambda>(n, x). member n (marshal_slot x)) slots) @ ''}'')"

definition blank :: "string \<Rightarrow> bool" where
  "blank s \<longleftrightarrow> TrimSpace s = []"

definition JSONObject :: "(json \<times> string) option \<Rightarrow> bool" where
  "JSONObject x = (case x of Some (JObj _, _) \<Rightarrow> True | _ \<Rightarrow> False)"

definition JSONObjectOrNil :: "(json \<times> string) option \<Rightarrow> bool" where
  "JSONObjectOrNil x \<longleftrightarrow> x = None \<or> JSONObject x"

definition api_validRole :: "string \<Rightarrow> bool" where
  "api_validRole role \<longleftrightarrow>
     role = ''issuer_operator'' \<or> role = ''issuer_readonly'' \<or> role = ''bank_operator'' \<or> role = ''bank_readonly''"

definition ValidCardStatus :: "string \<Rightarrow> bool" where
  "ValidCardStatus value \<longleftrightarrow>
     value \<in> set [''pending'', ''issued'', ''active'', ''suspended'', ''closed'', ''expired'']"

definition claims_Principal :: "Claims \<Rightarrow> Principal" where
  "claims_Principal c = \<lparr>p_UserID = clm_UserID c, p_Username = us_Username (clm_Summary c), p_Role = us_Role (clm_Summary c),
     p_EntityID = clm_EntityID c\<rparr>"

definition claims_Role :: "Claims \<Rightarrow> string" where
  "claims_Role c = us_Role (clm_Summary c)"

definition canRead :: "Claims \<Rightarrow> bool" where
  "canRead c \<longleftrightarrow> claims_Role c = ''issuer_operator'' \<or> claims_Role c = ''issuer_readonly'' \<or>
     claims_Role c = ''bank_operator'' \<or> claims_Role c = ''bank_readonly''"

text \<open>\<open>h.access.CanReadBank(...)\<close> in a condition.\<close>

definition access :: "'v api \<Rightarrow> Claims \<Rightarrow> uuid \<Rightarrow> 'v handler \<Rightarrow> 'v handler \<Rightarrow> 'v handler" where
  "access api claims bank yes no = (\<lambda>w.
     case on_control (CanReadBank (api_control api) (api_shardID api) (claims_Principal claims) bank) w of
       (Inr True, w') \<Rightarrow> yes w'
     | (_, w') \<Rightarrow> no w')"


definition api_bank :: "'v api \<Rightarrow> bank_service" where
  "api_bank api = \<lparr>bk_control = api_control api, bk_shard = api_shard api, bk_shardID = api_shardID api,
     bk_fingerprinter = api_fingerprinter api\<rparr>"

definition api_card :: "'v api \<Rightarrow> 'v card_service" where
  "api_card api = \<lparr>svc_vault = api_vault api, svc_fingerprinter = api_fingerprinter api\<rparr>"

section \<open>Banks\<close>

definition banks_handler :: "'v api \<Rightarrow> Claims \<Rightarrow> api_request \<Rightarrow> 'v handler" where
  "banks_handler api claims r =
     (if claims_Role claims \<noteq> ''issuer_operator'' then respond forbidden
      else if ar_Method r = ''GET'' then
        calling (ListBanks (api_bank api)) writeWorkflowError (\<lambda>data. Page ''banks'' ''directory'' data)
      else if ar_Method r = ''POST'' then
        (case DecodeRequest r [(''bank_reference'', SText []), (''name'', SText [])] of
           None \<Rightarrow> respond (invalid ''bank_reference and name are required.'')
         | Some inp \<Rightarrow>
             if blank (text_of inp ''bank_reference'') \<or> blank (text_of inp ''name'')
             then respond (invalid ''bank_reference and name are required.'')
             else IdempotencyKey r (\<lambda>key.
               calling (ProvisionBankWorkflow (api_bank api) (claims_Principal claims) key (marshal_slots inp)
                 (text_of inp ''bank_reference'') (text_of inp ''name'') (ar_RequestID r))
               writeWorkflowError (\<lambda>(status, raw). WriteJSON status raw)))
      else respond RequireMethods)"

definition bank_handler :: "'v api \<Rightarrow> Claims \<Rightarrow> api_request \<Rightarrow> string \<Rightarrow> 'v handler" where
  "bank_handler api claims r rid =
     (if claims_Role claims \<noteq> ''issuer_operator'' then respond forbidden
      else if \<not> isCanonicalUUID rid then respond apiNotFound
      else if ar_Method r = ''GET'' then
        calling (GetBank (api_bank api) rid) (\<lambda>_. apiNotFound) (\<lambda>raw. WriteJSON 200 raw)
      else if ar_Method r \<noteq> ''PATCH'' then respond RequireMethods
      else
        (case DecodeRequest r [(''name'', SPointer None), (''status'', SPointer None)] of
           None \<Rightarrow> respond (invalid ''A valid name or status is required.'')
         | Some inp \<Rightarrow>
             (let name = pointer_of inp ''name''; status = pointer_of inp ''status'' in
              if (name = None \<and> status = None) \<or> (\<exists>n \<in> set_option name. blank n) \<or>
                 (\<exists>st \<in> set_option status. st \<noteq> ''active'' \<and> st \<noteq> ''inactive'')
              then respond (invalid ''A valid name or status is required.'')
              else IdempotencyKey r (\<lambda>key.
                calling (PatchBankWorkflow (api_bank api) (claims_Principal claims) rid key (marshal_slots inp) name status (ar_RequestID r))
                writeWorkflowError (\<lambda>(status, raw). WriteJSON status raw)))))"

section \<open>Staff\<close>

definition users_handler :: "'v api \<Rightarrow> Claims \<Rightarrow> api_request \<Rightarrow> 'v handler" where
  "users_handler api claims r =
     (if claims_Role claims \<noteq> ''issuer_operator'' then respond forbidden
      else if ar_Method r = ''GET'' then
        calling (on_control (ListUsers (api_control api))) writeWorkflowError (\<lambda>data. Page ''users'' ''control'' data)
      else if ar_Method r = ''POST'' then
        (case DecodeRequest r [(''username'', SText []), (''password'', SText []), (''role'', SText []), (''entity_id'', SText [])] of
           None \<Rightarrow> respond (invalid ''username, password, role, and a valid bank assignment are required.'')
         | Some inp \<Rightarrow>
             (let role = text_of inp ''role'' in
              if blank (text_of inp ''username'') \<or> \<not> api_validRole role \<or>
                 (role = ''bank_operator'' \<or> role = ''bank_readonly'') \<noteq> isCanonicalUUID (text_of inp ''entity_id'') \<or>
                 ValidateNewPassword (api_unicode api) (text_of inp ''password'') \<noteq> Inr ()
              then respond (invalid ''username, password, role, and a valid bank assignment are required.'')
              else IdempotencyKey r (\<lambda>key.
                calling (on_control (CreateUserWorkflow (api_control api) (api_idkey api) (api_fingerprinter api) (api_shardID api)
                  (claims_Principal claims) key (marshal_slots inp) (text_of inp ''username'') (text_of inp ''password'') role
                  (text_of inp ''entity_id'') (ar_RequestID r)))
                writeWorkflowError (\<lambda>(status, raw). WriteJSON status raw))))
      else respond RequireMethods)"

definition stringValue :: "string option \<Rightarrow> string" where
  "stringValue value = (case value of None \<Rightarrow> [] | Some s \<Rightarrow> s)"

definition assign_role :: "'v api \<Rightarrow> Claims \<Rightarrow> api_request \<Rightarrow> uuid \<Rightarrow> 'v handler" where
  "assign_role api claims r uid =
     (case DecodeRequest r [(''role'', SPointer None), (''entity_id'', SPointer None)] of
        None \<Rightarrow> respond (invalid ''role and its required bank assignment are invalid.'')
      | Some inp \<Rightarrow>
          (let entity = pointer_of inp ''entity_id'' in
           case pointer_of inp ''role'' of
             None \<Rightarrow> respond (invalid ''role and its required bank assignment are invalid.'')
           | Some role \<Rightarrow>
               if \<not> api_validRole role \<or>
                  (role = ''bank_operator'' \<or> role = ''bank_readonly'') \<noteq> (\<exists>e \<in> set_option entity. isCanonicalUUID e)
               then respond (invalid ''role and its required bank assignment are invalid.'')
               else IdempotencyKey r (\<lambda>key.
                 calling (on_control (UpdateUserWorkflow (api_control api) (api_fingerprinter api) (api_shardID api)
                   (claims_Principal claims) uid key (marshal_slots inp) role (stringValue entity) [] (ar_RequestID r)))
                 writeWorkflowError (\<lambda>(status, raw). WriteJSON status raw))))"

definition disable_user :: "'v api \<Rightarrow> Claims \<Rightarrow> api_request \<Rightarrow> uuid \<Rightarrow> 'v handler" where
  "disable_user api claims r uid =
     IdempotencyKey r (\<lambda>key.
       calling (on_control (UpdateUserWorkflow (api_control api) (api_fingerprinter api) (api_shardID api)
         (claims_Principal claims) uid key (bytes_of_string ''{}'') [] [] ''disabled'' (ar_RequestID r)))
       writeWorkflowError (\<lambda>(status, raw). WriteJSON status raw))"

definition set_password :: "'v api \<Rightarrow> Claims \<Rightarrow> api_request \<Rightarrow> uuid \<Rightarrow> 'v handler" where
  "set_password api claims r uid =
     (case DecodeRequest r [(''new_password'', SText [])] of
        None \<Rightarrow> respond (invalid ''new_password must meet the password policy.'')
      | Some inp \<Rightarrow>
          if ValidateNewPassword (api_unicode api) (text_of inp ''new_password'') \<noteq> Inr ()
          then respond (invalid ''new_password must meet the password policy.'')
          else IdempotencyKey r (\<lambda>key.
            calling (on_control (SetUserPasswordWorkflow (api_control api) (api_idkey api) (api_fingerprinter api)
              (claims_Principal claims) uid key (marshal_slots inp) (text_of inp ''new_password'') (ar_RequestID r)))
            writeWorkflowError (\<lambda>(status, raw). WriteJSON status raw)))"

definition user_handler :: "'v api \<Rightarrow> Claims \<Rightarrow> api_request \<Rightarrow> string \<Rightarrow> 'v handler" where
  "user_handler api claims r tail =
     (if claims_Role claims \<noteq> ''issuer_operator'' then respond forbidden
      else
        (let pieces = Split tail CHR '':''; uid = hd pieces in
         if \<not> isCanonicalUUID uid then respond apiNotFound
         else if length pieces = 1 \<and> ar_Method r = ''GET'' then
           calling (on_control (GetUser (api_control api) uid)) (\<lambda>_. apiNotFound) (\<lambda>raw. WriteJSON 200 raw)
         else if length pieces = 1 \<and> ar_Method r = ''PATCH'' then assign_role api claims r uid
         else if length pieces = 2 \<and> pieces ! 1 = ''disable'' \<and> ar_Method r = ''POST'' then disable_user api claims r uid
         else if length pieces = 2 \<and> pieces ! 1 = ''set-password'' \<and> ar_Method r = ''POST'' then set_password api claims r uid
         else respond RequireMethods))"


section \<open>The catalog\<close>

definition product_create :: "'v api \<Rightarrow> Claims \<Rightarrow> api_request \<Rightarrow> uuid \<Rightarrow> string \<Rightarrow> 'v handler" where
  "product_create api claims r bank key =
     (case DecodeRequest r [(''product_code'', SText []), (''name'', SText []), (''status'', SText []), (''configuration'', SRaw None)] of
        None \<Rightarrow> respond (invalid ''product_code, name, optional status, and object configuration are required.'')
      | Some inp \<Rightarrow>
          (let status = text_of inp ''status'' in
           if blank (text_of inp ''product_code'') \<or> blank (text_of inp ''name'') \<or>
              (status \<noteq> [] \<and> status \<noteq> ''active'' \<and> status \<noteq> ''inactive'') \<or> \<not> JSONObject (raw_of inp ''configuration'')
           then respond (invalid ''product_code, name, optional status, and object configuration are required.'')
           else calling (on_shard (CreateCardProductWorkflow (api_shard api) (api_jsonb api) (api_fingerprinter api) (claims_Principal claims)
               bank key (text_of inp ''product_code'') (text_of inp ''name'') (if status = [] then ''active'' else status)
               (Some (case raw_of inp ''configuration'' of None \<Rightarrow> ''{}'' | Some (_, raw) \<Rightarrow> raw)) (ar_RequestID r)))
             writeWorkflowError (\<lambda>raw. WriteJSON 201 raw)))"

definition client_create :: "'v api \<Rightarrow> Claims \<Rightarrow> api_request \<Rightarrow> uuid \<Rightarrow> string \<Rightarrow> 'v handler" where
  "client_create api claims r bank key =
     (case DecodeRequest r [(''external_client_ref'', SText []), (''display_name'', SPointer None)] of
        None \<Rightarrow> respond (invalid ''external_client_ref is required.'')
      | Some inp \<Rightarrow>
          if blank (text_of inp ''external_client_ref'') then respond (invalid ''external_client_ref is required.'')
          else calling (on_shard (CreateClientWorkflow (api_shard api) (api_fingerprinter api) (claims_Principal claims) bank key
              (text_of inp ''external_client_ref'') (pointer_of inp ''display_name'') (ar_RequestID r)))
            writeWorkflowError (\<lambda>raw. WriteJSON 201 raw))"

definition account_create :: "'v api \<Rightarrow> Claims \<Rightarrow> api_request \<Rightarrow> uuid \<Rightarrow> string \<Rightarrow> 'v handler" where
  "account_create api claims r bank key =
     (case DecodeRequest r [(''client_id'', SText []), (''external_account_ref'', SText [])] of
        None \<Rightarrow> respond (invalid ''client_id and external_account_ref are required.'')
      | Some inp \<Rightarrow>
          if \<not> isCanonicalUUID (text_of inp ''client_id'') \<or> blank (text_of inp ''external_account_ref'')
          then respond (invalid ''client_id and external_account_ref are required.'')
          else calling (on_shard (CreateAccountReferenceWorkflow (api_shard api) (api_fingerprinter api) (claims_Principal claims) bank key
              (text_of inp ''client_id'') (text_of inp ''external_account_ref'') (ar_RequestID r)))
            writeWorkflowError (\<lambda>raw. WriteJSON 201 raw))"

definition referenceCreate :: "'v api \<Rightarrow> Claims \<Rightarrow> api_request \<Rightarrow> uuid \<Rightarrow> string \<Rightarrow> 'v handler" where
  "referenceCreate api claims r bank kind =
     (if claims_Role claims \<noteq> ''issuer_operator'' \<and> claims_Role claims \<noteq> ''bank_operator'' then respond forbidden
      else IdempotencyKey r (\<lambda>key.
        if kind = ''card-products'' then product_create api claims r bank key
        else if kind = ''clients'' then client_create api claims r bank key
        else if kind = ''account-references'' then account_create api claims r bank key
        else respond Unwritten))"

definition product_patch :: "'v api \<Rightarrow> Claims \<Rightarrow> api_request \<Rightarrow> uuid \<Rightarrow> uuid \<Rightarrow> string \<Rightarrow> 'v handler" where
  "product_patch api claims r bank rid key =
     (case DecodeRequest r [(''name'', SPointer None), (''status'', SPointer None), (''configuration'', SRaw None)] of
        None \<Rightarrow> respond (invalid ''A valid name, status, or object configuration is required.'')
      | Some inp \<Rightarrow>
          (let name = pointer_of inp ''name''; status = pointer_of inp ''status''; config = raw_of inp ''configuration'' in
           if (name = None \<and> status = None \<and> config = None) \<or> (\<exists>n \<in> set_option name. blank n) \<or>
              (\<exists>st \<in> set_option status. st \<noteq> ''active'' \<and> st \<noteq> ''inactive'') \<or> \<not> JSONObjectOrNil config
           then respond (invalid ''A valid name, status, or object configuration is required.'')
           else calling (on_shard (PatchCardProductWorkflow (api_shard api) (api_jsonb api) (api_fingerprinter api) (claims_Principal claims)
               bank rid key name status (map_option snd config) (ar_RequestID r)))
             writeWorkflowError (\<lambda>raw. WriteJSON 200 raw)))"

definition client_patch :: "'v api \<Rightarrow> Claims \<Rightarrow> api_request \<Rightarrow> uuid \<Rightarrow> uuid \<Rightarrow> string \<Rightarrow> 'v handler" where
  "client_patch api claims r bank rid key =
     (case DecodeRequest r [(''display_name'', SPointer None)] of
        None \<Rightarrow> respond (invalid ''display_name is required.'')
      | Some inp \<Rightarrow>
          if pointer_of inp ''display_name'' = None then respond (invalid ''display_name is required.'')
          else calling (on_shard (PatchClientWorkflow (api_shard api) (api_fingerprinter api) (claims_Principal claims) bank rid key
              (pointer_of inp ''display_name'') (ar_RequestID r)))
            writeWorkflowError (\<lambda>raw. WriteJSON 200 raw))"

definition account_patch :: "'v api \<Rightarrow> Claims \<Rightarrow> api_request \<Rightarrow> uuid \<Rightarrow> uuid \<Rightarrow> string \<Rightarrow> 'v handler" where
  "account_patch api claims r bank rid key =
     (case DecodeRequest r [(''client_id'', SText [])] of
        None \<Rightarrow> respond (invalid ''client_id is required.'')
      | Some inp \<Rightarrow>
          if \<not> isCanonicalUUID (text_of inp ''client_id'') then respond (invalid ''client_id is required.'')
          else calling (on_shard (PatchAccountReferenceWorkflow (api_shard api) (api_fingerprinter api) (claims_Principal claims) bank rid key
              (text_of inp ''client_id'') (ar_RequestID r)))
            writeWorkflowError (\<lambda>raw. WriteJSON 200 raw))"

definition referencePatch :: "'v api \<Rightarrow> Claims \<Rightarrow> api_request \<Rightarrow> uuid \<Rightarrow> string \<Rightarrow> uuid \<Rightarrow> 'v handler" where
  "referencePatch api claims r bank kind rid =
     (if claims_Role claims \<noteq> ''issuer_operator'' then respond forbidden
      else IdempotencyKey r (\<lambda>key.
        if kind = ''card-products'' then product_patch api claims r bank rid key
        else if kind = ''clients'' then client_patch api claims r bank rid key
        else if kind = ''account-references'' then account_patch api claims r bank rid key
        else respond Unwritten))"

section \<open>Cards\<close>

definition cardReads :: "'v api \<Rightarrow> Claims \<Rightarrow> api_request \<Rightarrow> uuid \<Rightarrow> string list \<Rightarrow> 'v handler" where
  "cardReads api claims r bank tail =
     (if \<not> canRead claims then respond forbidden
      else access api claims bank
        (case tail of
           [] \<Rightarrow>
             (let client = ar_Query r ''client_id''; account = ar_Query r ''account_reference_id'';
                  product = ar_Query r ''product_id''; status = ar_Query r ''status'' in
              if \<exists>v \<in> set [client, account, product]. v \<noteq> [] \<and> \<not> isCanonicalUUID v then respond (invalid ''Invalid card filter.'')
              else if status \<noteq> [] \<and> \<not> ValidCardStatus status then respond (invalid ''Invalid card status.'')
              else calling (on_shard (ListCards (api_shard api) bank client account product status))
                writeWorkflowError (\<lambda>data. Page ''cards'' bank data))
         | cardID # rest \<Rightarrow>
             if \<not> isCanonicalUUID cardID then respond apiNotFound
             else if rest = [] then
               calling (on_shard (GetCard (api_shard api) bank cardID)) (\<lambda>_. apiNotFound) (\<lambda>raw. WriteJSON 200 raw)
             else if rest = [''operations''] then
               calling (on_shard (ListCardOperations (api_shard api) bank cardID)) writeWorkflowError (\<lambda>data. Page ''card-operations'' bank data)
             else if rest = [''history''] then
               calling (on_shard (ListCardStatusHistory (api_shard api) bank cardID)) writeWorkflowError (\<lambda>data. Page ''card-history'' bank data)
             else respond apiNotFound)
        (respond forbidden))"

definition issue_handler :: "'v api \<Rightarrow> Claims \<Rightarrow> api_request \<Rightarrow> uuid \<Rightarrow> 'v handler" where
  "issue_handler api claims r bank =
     (if claims_Role claims \<noteq> ''issuer_operator'' \<and> claims_Role claims \<noteq> ''bank_operator'' then respond forbidden
      else
        (case DecodeRequest r [(''client_id'', SText []), (''account_reference_id'', SText []), (''product_id'', SText []), (''reason'', SText [])] of
           None \<Rightarrow> respond (invalid ''client_id, account_reference_id, product_id, and reason are required.'')
         | Some inp \<Rightarrow>
             if \<not> isCanonicalUUID (text_of inp ''client_id'') \<or> \<not> isCanonicalUUID (text_of inp ''account_reference_id'') \<or>
                \<not> isCanonicalUUID (text_of inp ''product_id'') \<or> blank (text_of inp ''reason'')
             then respond (invalid ''client_id, account_reference_id, product_id, and reason are required.'')
             else IdempotencyKey r (\<lambda>key.
               calling (on_shard (IssueCardWorkflow (api_shard api) (api_card api) (claims_Principal claims) bank key (marshal_slots inp)
                 (text_of inp ''client_id'') (text_of inp ''account_reference_id'') (text_of inp ''product_id'')
                 (text_of inp ''reason'') (ar_RequestID r)))
               writeWorkflowError (\<lambda>raw. WriteJSON 201 raw))))"

definition command_handler :: "'v api \<Rightarrow> Claims \<Rightarrow> api_request \<Rightarrow> uuid \<Rightarrow> uuid \<Rightarrow> string \<Rightarrow> 'v handler" where
  "command_handler api claims r bank rid action =
     (if (if action = ''replace'' then claims_Role claims \<noteq> ''issuer_operator'' \<and> claims_Role claims \<noteq> ''bank_operator''
          else action \<noteq> ''activate'' \<and> action \<noteq> ''suspend'' \<and> action \<noteq> ''resume'' \<and> action \<noteq> ''close'' \<or>
            (claims_Role claims \<noteq> ''issuer_operator'' \<and> claims_Role claims \<noteq> ''bank_operator''))
      then respond forbidden
      else
        (case DecodeRequest r [(''reason'', SText [])] of
           None \<Rightarrow> respond (invalid ''reason is required.'')
         | Some inp \<Rightarrow>
             if blank (text_of inp ''reason'') then respond (invalid ''reason is required.'')
             else IdempotencyKey r (\<lambda>key.
               calling (on_shard (CardCommandWorkflow (api_shard api) (api_card api) (claims_Principal claims) bank rid action key
                 (marshal_slots inp) (text_of inp ''reason'') (ar_RequestID r)))
               writeWorkflowError (\<lambda>(raw, status). WriteJSON status raw))))"

definition cardWrites :: "'v api \<Rightarrow> Claims \<Rightarrow> api_request \<Rightarrow> uuid \<Rightarrow> string list \<Rightarrow> 'v handler" where
  "cardWrites api claims r bank tail =
     (if \<not> canRead claims then respond forbidden
      else access api claims bank
        (case tail of
           [] \<Rightarrow> issue_handler api claims r bank
         | [x] \<Rightarrow>
             (case Split x CHR '':'' of
                [rid, action] \<Rightarrow> if \<not> isCanonicalUUID rid then respond apiNotFound else command_handler api claims r bank rid action
              | _ \<Rightarrow> respond apiNotFound)
         | _ \<Rightarrow> respond apiNotFound)
        (respond forbidden))"

definition retry_handler :: "'v api \<Rightarrow> Claims \<Rightarrow> api_request \<Rightarrow> uuid \<Rightarrow> uuid \<Rightarrow> uuid \<Rightarrow> 'v handler" where
  "retry_handler api claims r bank runID itemID =
     (case DecodeRequest r [(''reason'', SText [])] of
        None \<Rightarrow> respond (invalid ''reason is required.'')
      | Some inp \<Rightarrow>
          if blank (text_of inp ''reason'') then respond (invalid ''reason is required.'')
          else IdempotencyKey r (\<lambda>key.
            calling (on_shard (RetryExpiryWorkflow (api_shard api) (api_card api) (claims_Principal claims) bank runID itemID key
              (marshal_slots inp) (ar_RequestID r)))
            writeWorkflowError (\<lambda>_. WriteJSON 202 (JObj [(''id'', JStr itemID), (''status'', JStr ''pending'')]))))"

definition expiryRetry :: "'v api \<Rightarrow> Claims \<Rightarrow> api_request \<Rightarrow> uuid \<Rightarrow> string list \<Rightarrow> 'v handler" where
  "expiryRetry api claims r bank tail =
     (if claims_Role claims \<noteq> ''issuer_operator'' then respond apiNotFound
      else access api claims bank
        (case tail of
           [runID, item] \<Rightarrow>
             if \<not> isCanonicalUUID runID then respond apiNotFound
             else (case Split item CHR '':'' of
                [itemID, action] \<Rightarrow>
                  if \<not> isCanonicalUUID itemID \<or> action \<noteq> ''retry'' then respond apiNotFound else retry_handler api claims r bank runID itemID
              | _ \<Rightarrow> respond apiNotFound)
         | _ \<Rightarrow> respond apiNotFound)
        (respond apiNotFound))"


section \<open>Batches\<close>

definition canManageCardStatusBatches :: "Claims \<Rightarrow> bool" where
  "canManageCardStatusBatches claims \<longleftrightarrow> claims_Role claims = ''issuer_operator'' \<or> claims_Role claims = ''bank_operator''"

text \<open>Both handlers return without a reply when the body does not decode.\<close>

definition createCardStatusBatch :: "'v api \<Rightarrow> Claims \<Rightarrow> api_request \<Rightarrow> uuid \<Rightarrow> 'v handler" where
  "createCardStatusBatch api claims r bank =
     (if \<not> canManageCardStatusBatches claims then respond forbidden
      else
        (case DecodeRequest r [(''target_status'', SText []), (''reason'', SText []), (''card_ids'', STexts [])] of
           None \<Rightarrow> respond Unwritten
         | Some inp \<Rightarrow> IdempotencyKey r (\<lambda>key.
             calling (on_shard (CreateCardStatusBatchWorkflow (api_shard api) (api_fingerprinter api) (claims_Principal claims) bank key
               (text_of inp ''target_status'') (text_of inp ''reason'') (texts_of inp ''card_ids'') (ar_RequestID r)))
             writeWorkflowError (\<lambda>(raw, status). WriteJSON status raw))))"

definition cardStatusBatchCommand :: "'v api \<Rightarrow> Claims \<Rightarrow> api_request \<Rightarrow> uuid \<Rightarrow> uuid \<Rightarrow> string \<Rightarrow> 'v handler" where
  "cardStatusBatchCommand api claims r bank rid action =
     (if ar_Method r \<noteq> ''POST'' then respond RequireMethods
      else if \<not> canManageCardStatusBatches claims then respond forbidden
      else if action \<noteq> ''execute'' \<and> action \<noteq> ''cancel'' \<and> action \<noteq> ''retry'' then respond apiNotFound
      else
        (case DecodeRequest r [] of
           None \<Rightarrow> respond Unwritten
         | Some inp \<Rightarrow> IdempotencyKey r (\<lambda>key.
             if action = ''execute'' then
               calling (on_shard (ExecuteCardStatusBatchWorkflow (api_shard api) (api_fingerprinter api) (claims_Principal claims) bank rid key
                 (marshal_slots inp) (ar_RequestID r))) writeWorkflowError (\<lambda>raw. WriteJSON 202 raw)
             else if action = ''cancel'' then
               calling (on_shard (CancelCardStatusBatchWorkflow (api_shard api) (api_fingerprinter api) (claims_Principal claims) bank rid key
                 (marshal_slots inp) (ar_RequestID r))) writeWorkflowError (\<lambda>raw. WriteJSON 200 raw)
             else
               calling (on_shard (RetryCardStatusBatchWorkflow (api_shard api) (api_fingerprinter api) (claims_Principal claims) bank rid key
                 (marshal_slots inp) (ar_RequestID r))) writeWorkflowError (\<lambda>raw. WriteJSON 201 raw))))"

definition cardStatusBatches :: "'v api \<Rightarrow> Claims \<Rightarrow> api_request \<Rightarrow> uuid \<Rightarrow> string list \<Rightarrow> 'v handler" where
  "cardStatusBatches api claims r bank tail =
     (if \<not> canRead claims then respond forbidden
      else access api claims bank
        (case tail of
           [] \<Rightarrow>
             if ar_Method r = ''GET'' then
               calling (on_shard (ListCardStatusBatches (api_shard api) bank)) writeWorkflowError (\<lambda>data. Page ''card-status-batches'' bank data)
             else if ar_Method r = ''POST'' then createCardStatusBatch api claims r bank
             else respond RequireMethods
         | [x] \<Rightarrow>
             if isCanonicalUUID x \<and> ar_Method r = ''GET'' then
               calling (on_shard (GetCardStatusBatch (api_shard api) bank x)) (\<lambda>_. apiNotFound) (\<lambda>raw. WriteJSON 200 raw)
             else (case Split x CHR '':'' of
                [rid, action] \<Rightarrow>
                  if isCanonicalUUID rid then cardStatusBatchCommand api claims r bank rid action else respond apiNotFound
              | _ \<Rightarrow> respond apiNotFound)
         | [x, y] \<Rightarrow>
             if isCanonicalUUID x \<and> y = ''items'' \<and> ar_Method r = ''GET'' then
               calling (on_shard (ListCardStatusBatchItems (api_shard api) bank x)) (\<lambda>_. apiNotFound)
                 (\<lambda>data. Page ''card-status-batch-items'' (bank @ '':'' @ x) data)
             else respond apiNotFound
         | _ \<Rightarrow> respond apiNotFound)
        (respond forbidden))"

section \<open>Routing\<close>

definition referenceResource :: "'v api \<Rightarrow> Claims \<Rightarrow> api_request \<Rightarrow> uuid \<Rightarrow> string \<Rightarrow> string list \<Rightarrow> 'v handler" where
  "referenceResource api claims r bank kind tail =
     (if \<not> canRead claims then respond forbidden
      else access api claims bank
        (case tail of
           [] \<Rightarrow>
             if ar_Method r = ''POST'' then referenceCreate api claims r bank kind
             else if ar_Method r \<noteq> ''GET'' then respond RequireMethods
             else calling (on_shard (ListReference (api_shard api) bank kind)) writeWorkflowError (\<lambda>data. Page kind bank data)
         | [rid] \<Rightarrow>
             if \<not> isCanonicalUUID rid then respond apiNotFound
             else if ar_Method r = ''PATCH'' then referencePatch api claims r bank kind rid
             else if ar_Method r \<noteq> ''GET'' then respond apiNotFound
             else calling (on_shard (GetReference (api_shard api) bank kind rid)) (\<lambda>_. apiNotFound) (\<lambda>raw. WriteJSON 200 raw)
         | _ \<Rightarrow> respond apiNotFound)
        (respond forbidden))"

definition bankResource :: "'v api \<Rightarrow> Claims \<Rightarrow> api_request \<Rightarrow> string \<Rightarrow> 'v handler" where
  "bankResource api claims r tail =
     (case Split tail CHR ''/'' of
        bank # kind # rest \<Rightarrow>
          if \<not> isCanonicalUUID bank then respond apiNotFound
          else if kind = ''cards'' \<and> ar_Method r = ''GET'' then cardReads api claims r bank rest
          else if kind = ''cards'' \<and> ar_Method r = ''POST'' then cardWrites api claims r bank rest
          else if kind = ''card-expiry-runs'' \<and> ar_Method r = ''POST'' then expiryRetry api claims r bank rest
          else if kind = ''card-status-batches'' then cardStatusBatches api claims r bank rest
          else if kind \<noteq> ''card-products'' \<and> kind \<noteq> ''clients'' \<and> kind \<noteq> ''account-references'' then respond apiNotFound
          else referenceResource api claims r bank kind rest
      | _ \<Rightarrow> respond apiNotFound)"

definition TrimPrefix :: "string \<Rightarrow> string \<Rightarrow> string" where
  "TrimPrefix s prefix = (if starts_with prefix s then drop (length prefix) s else s)"

text \<open>\<open>ServeHTTP\<close> once \<open>authenticate\<close> has returned the claims.\<close>

definition serve :: "'v api \<Rightarrow> Claims \<Rightarrow> api_request \<Rightarrow> 'v handler" where
  "serve api claims r =
     (let path = TrimPrefix (ar_Path r) ''/v1/'' in
      if path = ''banks'' then banks_handler api claims r
      else if path = ''users'' then users_handler api claims r
      else if starts_with ''users/'' path then user_handler api claims r (TrimPrefix path ''users/'')
      else if starts_with ''banks/'' path then
        (let tail = TrimPrefix path ''banks/'' in
         if CHR ''/'' \<notin> set tail then bank_handler api claims r tail
         else bankResource api claims r tail)
      else respond apiNotFound)"


section \<open>What a handler leaves as it was\<close>

named_theorems quiet_intros "handlers and reads that change nothing"

definition same :: "'v api_world \<Rightarrow> 'v api_world \<Rightarrow> bool" where
  "same w w' \<longleftrightarrow> durable (fst w') = durable (fst w) \<and> durable (snd w') = durable (snd w) \<and>
     vault_state (snd w') = vault_state (snd w)"

definition quiet :: "'v handler \<Rightarrow> bool" where
  "quiet h \<longleftrightarrow> (\<forall>w. same w (snd (h w)))"

definition reading :: "('v api_world, 'a) prog \<Rightarrow> bool" where
  "reading m \<longleftrightarrow> (\<forall>w. same w (snd (m w)))"

lemma same_refl [simp]: "same w w"
  by (simp add: same_def)

lemma same_trans: "same w1 w2 \<Longrightarrow> same w2 w3 \<Longrightarrow> same w1 w3"
  by (simp add: same_def)

lemma quiet_respond [quiet_intros]: "quiet (respond r)"
  by (simp add: quiet_def respond_def)

lemma quiet_calling [quiet_intros]: "reading m \<Longrightarrow> quiet (calling m f g)"
  by (auto simp: quiet_def reading_def calling_def split: prod.splits sum.splits) (metis snd_conv)+

lemma quiet_if [quiet_intros]: "quiet h \<Longrightarrow> quiet h' \<Longrightarrow> quiet (if b then h else h')"
  by simp

lemma quiet_list [quiet_intros]: "quiet h \<Longrightarrow> (\<And>x xs. quiet (f x xs)) \<Longrightarrow> quiet (case ys of [] \<Rightarrow> h | x # xs \<Rightarrow> f x xs)"
  by (cases ys) simp_all

lemma quiet_key [quiet_intros]: "(\<And>key. quiet (f key)) \<Longrightarrow> quiet (IdempotencyKey r f)"
  by (simp add: IdempotencyKey_def Let_def quiet_intros)

lemma reading_control:
  assumes "keeps durable m"
  shows "reading (on_control m)"
  using assms by (auto simp: reading_def on_control_def same_def keeps_def split: prod.splits) (metis snd_conv)

lemma reading_shard:
  assumes "keeps durable m" and "keeps tx_world.more m"
  shows "reading (on_shard m)"
  unfolding reading_def same_def
proof
  fix w :: "'a api_world"
  obtain c s where w: "w = (c, s)" by (cases w)
  obtain r s' where m: "m s = (r, s')" by (cases "m s")
  have "durable s' = durable s" "vault_state s' = vault_state s"
    using keepsD [OF assms(1) m] vault_state_more [of s' s] keepsD [OF assms(2) m] by simp_all
  then show "durable (fst (snd (on_shard m w))) = durable (fst w) \<and> durable (snd (snd (on_shard m w))) = durable (snd w) \<and>
      vault_state (snd (snd (on_shard m w))) = vault_state (snd w)"
    by (simp add: w on_shard_def m)
qed

lemma reading_andThen:
  assumes "reading m" and "\<And>x. reading (f x)"
  shows "reading (andThen m f)"
  unfolding reading_def
proof
  fix w
  obtain r w1 where m: "m w = (r, w1)" by (cases "m w")
  have "same w w1" using assms(1) m by (metis reading_def snd_conv)
  moreover have "same w1 (snd (f x w1))" for x using assms(2) unfolding reading_def by (rule spec)
  ultimately show "same w (snd (andThen m f w))" using m by (cases r) (simp_all add: andThen_def same_def)
qed

text \<open>A transaction that only reads commits the tables it found.\<close>

lemma keeps_read_transaction:
  assumes "\<And>d0. preserves (\<lambda>d. d = d0) m"
  shows "keeps durable (transaction env bank m)"
  unfolding keeps_def using preserves_transaction [OF assms] by blast

lemma keeps_transaction_more [keeps_intros]:
  "keeps tx_world.more m \<Longrightarrow> keeps tx_world.more (transaction env bank m)"
  unfolding transaction_def by (intro keeps_intros)

lemma keeps_read_tx: "keeps durable (read_tx env bank q)" "keeps tx_world.more (read_tx env bank q)"
  unfolding read_tx_def by (intro keeps_read_transaction preserves_intros) (intro keeps_intros)


lemma keeps_pool [keeps_intros]: "keeps durable (pool_QueryRow env q)"
  by (auto simp: keeps_def pool_QueryRow_def split: fault.splits)

lemma keeps_succeeds [keeps_intros]: "keeps durable m \<Longrightarrow> keeps durable (succeeds m)"
  by (auto simp: keeps_def succeeds_def split: prod.splits sum.splits) (metis snd_conv)+

lemma keeps_routing [keeps_intros]:
  "keeps durable (ActiveOrProvisioning env shardID bank)" "keeps durable (CanReadBank env shardID prin bank)"
  "keeps durable (Banks env)" "keeps durable (ListUsers env)" "keeps durable (GetUser env uid)"
  unfolding ActiveOrProvisioning_def CanReadBank_def CanRead_def Active_def HasActiveRoute_def HasActiveOrProvisioningRoute_def
    Banks_def ListUsers_def GetUser_def control_Users_def control_User_def
  by (intro keeps_intros)+

lemmas service_read_defs = ListCards_def GetCard_def ListCardOperations_def ListCardStatusHistory_def ListCardStatusBatches_def
  GetCardStatusBatch_def ListCardStatusBatchItems_def ListReference_def GetReference_def bank_entity_def

lemmas reader_defs = Reader_Entity_def Reader_Cards_def Reader_Card_def Reader_CardOperations_def Reader_CardStatusHistory_def
  Reader_CardStatusBatches_def Reader_CardProducts_def Reader_CardProduct_def Reader_Clients_def Reader_Client_def
  Reader_AccountReferences_def Reader_AccountReference_def

lemma keeps_batch_reads:
  "keeps durable (Reader_CardStatusBatch env bank rid)" "keeps tx_world.more (Reader_CardStatusBatch env bank rid)"
  "keeps durable (Reader_CardStatusBatchItems env bank rid)" "keeps tx_world.more (Reader_CardStatusBatchItems env bank rid)"
  unfolding Reader_CardStatusBatch_def Reader_CardStatusBatchItems_def
  by (intro keeps_read_transaction preserves_intros | intro keeps_intros)+

lemma reading_services [quiet_intros]:
  "reading (on_shard (ListCards env bank a b c d))" "reading (on_shard (GetCard env bank rid))"
  "reading (on_shard (ListCardOperations env bank rid))" "reading (on_shard (ListCardStatusHistory env bank rid))"
  "reading (on_shard (ListCardStatusBatches env bank))" "reading (on_shard (GetCardStatusBatch env bank rid))"
  "reading (on_shard (ListCardStatusBatchItems env bank rid))" "reading (on_shard (ListReference env bank kind))"
  "reading (on_shard (GetReference env bank kind rid))" "reading (on_shard (bank_entity svc rid))"
  "reading (on_control (ListUsers env))" "reading (on_control (GetUser env uid))"
  unfolding service_read_defs reader_defs
  by (intro reading_shard reading_control keeps_intros keeps_read_tx keeps_batch_reads)+

lemma keeps_list_banks:
  fixes g :: "'n shard_world_scheme \<Rightarrow> 'g"
  assumes "\<And>rid. keeps g (bank_entity svc rid)"
  shows "keeps g (list_banks_loop svc routes)"
proof (induction routes)
  case (Cons route routes)
  let ?rest = "list_banks_loop svc routes" and ?e = "bank_entity svc (route_EntityID route)"
  have "g (snd (list_banks_loop svc (route # routes) s)) = g s" if "route_ShardID route = bk_shardID svc" for s
  proof -
    obtain x s1 where e: "?e s = (x, s1)" by (cases "?e s")
    have g: "g s1 = g s" by (rule keepsD [OF assms e])
    have k: "keeps g (andThen ?rest (\<lambda>rest. ret (listed_bank route raw # rest)))" for raw by (intro keeps_intros Cons.IH)
    show ?thesis
    proof (cases x)
      case (Inl err)
      then show ?thesis using Cons.IH that e g by (simp add: keeps_def)
    next
      case (Inr raw)
      have "g (snd (andThen ?rest (\<lambda>rest. ret (listed_bank route raw # rest)) s1)) = g s1" using k by (simp add: keeps_def)
      then show ?thesis using that e g Inr by simp
    qed
  qed
  then show ?case using Cons.IH by (cases "route_ShardID route = bk_shardID svc") (simp_all add: keeps_def)
qed (simp add: keeps_intros)

lemma reading_list_banks: "reading (on_shard (list_banks_loop svc routes))"
  by (intro reading_shard keeps_list_banks) (unfold bank_entity_def reader_defs, (intro keeps_intros keeps_read_tx)+)

lemma reading_throw: "reading (throw e)"
  by (simp add: reading_def throw_def)

lemma reading_if: "reading m \<Longrightarrow> reading m' \<Longrightarrow> reading (if b then m else m')"
  by simp

lemma reading_banks [quiet_intros]: "reading (ListBanks svc)" "reading (GetBank svc rid)"
  unfolding ListBanks_def GetBank_def
  by (intro reading_andThen reading_if reading_throw reading_services reading_control reading_list_banks keeps_intros)+

lemma access_runs:
  obtains b c1 where "access api claims bank yes no (c, s) = (if b then yes (c1, s) else no (c1, s))" and "durable c1 = durable c"
    and "CanReadBank (api_control api) (api_shardID api) (claims_Principal claims) bank c = (Inr b, c1)"
proof -
  let ?m = "CanReadBank (api_control api) (api_shardID api) (claims_Principal claims) bank"
  obtain r c1 where m: "?m c = (r, c1)" by (cases "?m c")
  obtain b where b: "r = Inr b"
    using m by (auto simp: CanReadBank_def CanRead_def Active_def succeeds_def ret_def split: if_splits prod.splits sum.splits)
  have "durable c1 = durable c" by (rule keepsD [OF keeps_routing(2) m])
  with m b show thesis by (intro that [of b c1]) (auto simp: access_def on_control_def)
qed

lemma quiet_access [quiet_intros]:
  fixes yes no :: "'v handler"
  assumes "quiet yes" and "quiet no"
  shows "quiet (access api claims bank yes no)"
  unfolding quiet_def
proof
  fix w :: "'v api_world"
  obtain c s where w: "w = (c, s)" by (cases w)
  obtain b c1 where a: "access api claims bank yes no (c, s) = (if b then yes (c1, s) else no (c1, s))" "durable c1 = durable c"
    by (rule access_runs)
  have "same (c, s) (c1, s)" using a(2) by (simp add: same_def)
  moreover have "same (c1, s) (snd (yes (c1, s)))" "same (c1, s) (snd (no (c1, s)))" using assms unfolding quiet_def by blast+
  ultimately show "same w (snd (access api claims bank yes no w))" unfolding w a(1) by (auto intro: same_trans)
qed


section \<open>Who may change what\<close>

text \<open>The bank a path addresses the resources of.\<close>

definition request_bank :: "api_request \<Rightarrow> uuid option" where
  "request_bank r =
     (let path = TrimPrefix (ar_Path r) ''/v1/''; tail = TrimPrefix path ''banks/'' in
      if starts_with ''banks/'' path \<and> CHR ''/'' \<in> set tail then Some (hd (Split tail CHR ''/'')) else None)"

definition active_route :: "string \<Rightarrow> uuid \<Rightarrow> control_db \<Rightarrow> bool" where
  "active_route shardID bank d \<longleftrightarrow> affected (\<lambda>r. rt_entity r = bank \<and> rt_shard_id r = shardID \<and>
     rt_placement_status r = ''active'') (bank_routing_entries d) = 1"

definition bank_open :: "'v api \<Rightarrow> Claims \<Rightarrow> uuid \<Rightarrow> control_db \<Rightarrow> bool" where
  "bank_open api claims bank d \<longleftrightarrow> active_route (api_shardID api) bank d \<and>
     (claims_Role claims \<in> {''issuer_operator'', ''issuer_readonly''} \<or>
      claims_Role claims \<in> {''bank_operator'', ''bank_readonly''} \<and> clm_EntityID claims = bank)"

text \<open>
  Banks and users are for issuer operators; the resources of a bank are for the staff of the issuer and of
  that bank, as long as the bank is active.
\<close>

definition admits :: "'v api \<Rightarrow> Claims \<Rightarrow> api_request \<Rightarrow> control_db \<Rightarrow> bool" where
  "admits api claims r d =
     (case request_bank r of
        None \<Rightarrow> claims_Role claims = ''issuer_operator''
      | Some bank \<Rightarrow> bank_open api claims bank d)"

fun is_problem :: "reply \<Rightarrow> bool" where
  "is_problem (WriteProblem status code detail) = True"
| "is_problem _ = False"

definition refused :: "'v api_world \<Rightarrow> reply \<times> 'v api_world \<Rightarrow> bool" where
  "refused w x \<longleftrightarrow> is_problem (fst x) \<and> same w (snd x)"

lemma problems [simp]:
  "is_problem forbidden" "is_problem apiNotFound" "is_problem RequireMethods" "is_problem (invalid detail)"
  by (simp_all add: forbidden_def apiNotFound_def RequireMethods_def invalid_def)

lemma refused_respond: "is_problem p \<Longrightarrow> refused w (respond p w)"
  by (simp add: refused_def respond_def)

lemma CanReadBank_True:
  assumes "CanReadBank env shardID prin bank c = (Inr True, c1)"
  shows "active_route shardID bank (durable c)"
    and "p_Role prin \<in> {''issuer_operator'', ''issuer_readonly''} \<or> p_EntityID prin = bank"
  using assms unfolding CanReadBank_def CanRead_def Active_def HasActiveRoute_def active_route_def
  by (auto simp: succeeds_def pool_QueryRow_def ret_def split: if_splits prod.splits sum.splits fault.splits)

lemma access_refused:
  fixes s :: "'v issuer_world"
  assumes "\<not> bank_open api claims bank (durable c)" and "canRead claims" and "is_problem p"
  shows "refused (c, s) (access api claims bank yes (respond p) (c, s))"
proof -
  obtain b c1 where a: "access api claims bank yes (respond p) (c, s) = (if b then yes (c1, s) else respond p (c1, s))" "durable c1 = durable c"
    and m: "CanReadBank (api_control api) (api_shardID api) (claims_Principal claims) bank c = (Inr b, c1)"
    by (rule access_runs)
  have "\<not> b"
  proof
    assume b
    note t = CanReadBank_True [OF m [unfolded eqTrueI [OF \<open>b\<close>]]]
    then show False using assms(1,2) by (auto simp: bank_open_def canRead_def claims_Principal_def claims_Role_def)
  qed
  with a assms(3) show ?thesis by (simp add: refused_def respond_def same_def)
qed

lemma gates_refuse:
  fixes s :: "'v issuer_world"
  assumes "\<not> bank_open api claims bank (durable c)"
  shows "refused (c, s) (cardReads api claims r bank tail (c, s))" "refused (c, s) (cardWrites api claims r bank tail (c, s))"
    "refused (c, s) (expiryRetry api claims r bank tail (c, s))" "refused (c, s) (cardStatusBatches api claims r bank tail (c, s))"
    "refused (c, s) (referenceResource api claims r bank kind tail (c, s))"
  unfolding cardReads_def cardWrites_def expiryRetry_def cardStatusBatches_def referenceResource_def
  by (simp_all add: refused_respond access_refused [OF assms] canRead_def)

lemma bankResource_refused:
  fixes s :: "'v issuer_world"
  assumes "\<not> bank_open api claims (hd (Split tail CHR ''/'')) (durable c)"
  shows "refused (c, s) (bankResource api claims r tail (c, s))"
proof (cases "Split tail CHR ''/''")
  case (Cons bank rest)
  with assms have "\<not> bank_open api claims bank (durable c)" by simp
  note gates_refuse [OF this]
  then show ?thesis using Cons by (cases rest) (simp_all add: bankResource_def refused_respond)
qed (simp add: bankResource_def refused_respond)

lemma serve_refuses:
  fixes s :: "'v issuer_world"
  assumes "\<not> admits api claims r (durable c)"
  shows "refused (c, s) (serve api claims r (c, s))"
proof (cases "request_bank r")
  case None
  then have "claims_Role claims \<noteq> ''issuer_operator''" using assms by (simp add: admits_def)
  then show ?thesis using None
    by (auto simp: serve_def Let_def request_bank_def banks_handler_def users_handler_def user_handler_def bank_handler_def refused_respond
        split: if_splits)
next
  case (Some bank)
  then have "\<not> bank_open api claims bank (durable c)" using assms by (simp add: admits_def)
  then show ?thesis using Some bankResource_refused
    by (auto simp: serve_def Let_def request_bank_def starts_with_def split: if_splits)
qed


text \<open>A request that may not write: a reader's, or a \<open>GET\<close>.\<close>

definition may_write :: "Claims \<Rightarrow> api_request \<Rightarrow> bool" where
  "may_write claims r \<longleftrightarrow> claims_Role claims \<in> {''issuer_operator'', ''bank_operator''} \<and> ar_Method r \<noteq> ''GET''"

lemma quiet_split [quiet_intros]: "(\<And>x y. quiet (f x y)) \<Longrightarrow> quiet (case p of (x, y) \<Rightarrow> f x y)"
  by (cases p) simp

lemma quiet_directory:
  assumes "\<not> may_write claims r"
  shows "quiet (banks_handler api claims r)" "quiet (bank_handler api claims r rid)" "quiet (users_handler api claims r)"
    "quiet (user_handler api claims r tail)"
  using assms
  by (auto simp: may_write_def banks_handler_def bank_handler_def users_handler_def user_handler_def Let_def quiet_intros)

lemma quiet_bank_writes:
  assumes "claims_Role claims \<notin> {''issuer_operator'', ''bank_operator''}"
  shows "quiet (issue_handler api claims r bank)" "quiet (command_handler api claims r bank rid action)"
    "quiet (referenceCreate api claims r bank kind)" "quiet (referencePatch api claims r bank kind rid)"
    "quiet (createCardStatusBatch api claims r bank)" "quiet (cardStatusBatchCommand api claims r bank rid action)"
    "quiet (expiryRetry api claims r bank tail)"
  using assms
  by (auto simp: issue_handler_def command_handler_def referenceCreate_def referencePatch_def createCardStatusBatch_def
      cardStatusBatchCommand_def canManageCardStatusBatches_def expiryRetry_def quiet_intros)

lemma quiet_card_reads: "quiet (cardReads api claims r bank tail)"
  unfolding cardReads_def Let_def by (intro quiet_intros)

lemma quiet_card_writes:
  assumes "claims_Role claims \<notin> {''issuer_operator'', ''bank_operator''}"
  shows "quiet (cardWrites api claims r bank tail)"
  unfolding cardWrites_def by (intro quiet_intros quiet_bank_writes assms)

lemma quiet_batches:
  assumes "\<not> may_write claims r"
  shows "quiet (cardStatusBatches api claims r bank tail)"
proof (cases "ar_Method r = ''GET''")
  case True
  then have "quiet (cardStatusBatchCommand api claims r bank rid action)" for rid action
    by (simp add: cardStatusBatchCommand_def quiet_intros)
  then show ?thesis unfolding cardStatusBatches_def True by (simp, intro conjI impI quiet_intros)
next
  case False
  then have w: "claims_Role claims \<notin> {''issuer_operator'', ''bank_operator''}" using assms by (simp add: may_write_def)
  show ?thesis unfolding cardStatusBatches_def by (intro quiet_intros quiet_bank_writes w)
qed

lemma quiet_reference:
  assumes "\<not> may_write claims r"
  shows "quiet (referenceResource api claims r bank kind tail)"
proof (cases "ar_Method r = ''GET''")
  case True
  have e: "''GET'' \<noteq> ''POST''" "''GET'' \<noteq> ''PATCH''" by simp_all
  show ?thesis unfolding referenceResource_def True if_not_P [OF e(1)] if_not_P [OF e(2)] by (intro quiet_intros)
next
  case False
  then have w: "claims_Role claims \<notin> {''issuer_operator'', ''bank_operator''}" using assms by (simp add: may_write_def)
  show ?thesis unfolding referenceResource_def by (intro quiet_intros quiet_bank_writes w)
qed

lemma quiet_serve:
  assumes "\<not> may_write claims r"
  shows "quiet (serve api claims r)"
proof -
  have "quiet (bankResource api claims r tail)" for tail
  proof (cases "ar_Method r = ''GET''")
    case True
    then show ?thesis
      by (auto simp: bankResource_def quiet_card_reads quiet_batches [OF assms] quiet_reference [OF assms] quiet_respond split: list.split)
  next
    case False
    then have w: "claims_Role claims \<notin> {''issuer_operator'', ''bank_operator''}" using assms by (simp add: may_write_def)
    show ?thesis unfolding bankResource_def
      by (intro quiet_intros quiet_card_reads quiet_card_writes quiet_bank_writes quiet_batches quiet_reference w assms)
  qed
  then show ?thesis unfolding serve_def Let_def by (intro quiet_intros quiet_directory assms)
qed


text \<open>
  C2. Access control of the whole resource API. A request that changes anything, in the control database, on
  the shard or in the vault, whatever fails on the way, comes from an operator, is no \<open>GET\<close>, and is admitted;
  and whatever is answered with anything but a problem is admitted. Admitted are issuer operators to the
  directories of banks and users, and to the resources of a bank with an active route the staff of the
  issuer and the staff of that bank.
\<close>

theorem api_effects_are_authorized:
  fixes c c' :: control_world and s s' :: "'v issuer_world"
  assumes run: "serve api claims r (c, s) = (rep, (c', s'))"
  shows "(\<not> same (c, s) (c', s') \<longrightarrow> admits api claims r (durable c) \<and> may_write claims r) \<and>
    (\<not> is_problem rep \<longrightarrow> admits api claims r (durable c))"
proof -
  have "refused (c, s) (rep, (c', s'))" if "\<not> admits api claims r (durable c)"
    using serve_refuses [OF that, of s] run by simp
  moreover have "same (c, s) (c', s')" if "\<not> may_write claims r"
    using quiet_serve [OF that, of api] run unfolding quiet_def by (metis snd_conv)
  ultimately show ?thesis by (auto simp: refused_def)
qed

section \<open>Concrete requests\<close>

definition sample_api :: "InMemory api" where
  "sample_api = \<lparr>api_control = sample_env, api_shard = sample_env, api_shardID = ''shard'', api_fingerprinter = [],
     api_vault = Some in_memory_ops, api_idkey = sample_idkey,
     api_unicode = \<lparr>IsUpper = (\<lambda>r. 65 \<le> r \<and> r \<le> 90), IsNumber = (\<lambda>r. 48 \<le> r \<and> r \<le> 57), IsPunct = (\<lambda>r. r = 45), IsSymbol = (\<lambda>r. r = 43)\<rparr>,
     api_jsonb = (\<lambda>_. Inr (JObj []))\<rparr>"

definition sample_claims :: "string \<Rightarrow> uuid \<Rightarrow> Claims" where
  "sample_claims role entity = \<lparr>clm_Summary = \<lparr>us_Username = ''kim'', us_Status = ''enabled'', us_Role = role\<rparr>,
     clm_UserID = ''user'', clm_SessionID = ''session'', clm_EntityID = entity\<rparr>"

definition sample_request :: "string \<Rightarrow> string \<Rightarrow> body_value list \<Rightarrow> api_request" where
  "sample_request verb path body = \<lparr>ar_Method = verb, ar_Path = path, ar_Query = (\<lambda>_. []), ar_JSON = True, ar_Body = body,
     ar_IdempotencyKey = ''k1'', ar_RequestID = ''req''\<rparr>"

text \<open>
  The readers of one bank cannot see the cards of another one and change nothing in their own; an issuer
  operator gets the directory of users.
\<close>

theorem api_effects_are_authorized_witness:
  "(let w = (interrupted_control, sample_issuer_world sample_db); reader = sample_claims ''bank_readonly'' uuid_a;
        (rep1, w1) = serve sample_api reader (sample_request ''GET'' (''/v1/banks/'' @ uuid_b @ ''/cards'') []) w;
        (rep2, w2) = serve sample_api reader (sample_request ''POST'' (''/v1/banks/'' @ uuid_a @ ''/cards'') []) w;
        operator = sample_claims ''issuer_operator'' []; list = sample_request ''GET'' ''/v1/users'' [];
        (rep3, w3) = serve sample_api operator list w
    in is_problem rep1 \<and> same w w1 \<and> same w w2 \<and>
       rep3 = Page ''users'' ''control'' [] \<and> admits sample_api operator list interrupted_db)"
proof -
  let ?c = interrupted_control and ?s = "sample_issuer_world sample_db" and ?cl = "sample_claims ''bank_readonly'' uuid_a"
  let ?r = "sample_request ''GET'' (''/v1/banks/'' @ uuid_b @ ''/cards'') []" and ?q = "sample_request ''POST'' (''/v1/banks/'' @ uuid_a @ ''/cards'') []"
  let ?op = "sample_claims ''issuer_operator'' []" and ?l = "sample_request ''GET'' ''/v1/users'' []"
  obtain rep1 c1 s1 where 1: "serve sample_api ?cl ?r (?c, ?s) = (rep1, (c1, s1))" by (metis surj_pair)
  obtain rep2 c2 s2 where 2: "serve sample_api ?cl ?q (?c, ?s) = (rep2, (c2, s2))" by (metis surj_pair)
  obtain c3 s3 where 3: "serve sample_api ?op ?l (?c, ?s) = (Page ''users'' ''control'' [], (c3, s3))"
    by (simp add: serve_def sample_request_def TrimPrefix_def starts_with_def users_handler_def claims_Role_def sample_claims_def calling_def
        on_control_def ListUsers_def control_Users_def pool_QueryRow_def andThen_def sample_api_def interrupted_control_def interrupted_db_def
        empty_control_def order_desc_def ret_def)
  have w: "\<not> may_write ?cl ?r" "\<not> may_write ?cl ?q" by (simp_all add: may_write_def claims_Role_def sample_claims_def)
  have "\<not> admits sample_api ?cl ?r (durable ?c)"
    by (simp add: admits_def request_bank_def sample_request_def TrimPrefix_def starts_with_def bank_open_def sample_claims_def claims_Role_def
        uuid_a_def uuid_b_def)
  with api_effects_are_authorized [OF 1] w have "is_problem rep1" "same (?c, ?s) (c1, s1)" by blast+
  moreover have "same (?c, ?s) (c2, s2)" using api_effects_are_authorized [OF 2] w by blast
  moreover have "admits sample_api ?op ?l interrupted_db" using api_effects_are_authorized [OF 3] by simp
  ultimately show ?thesis unfolding Let_def 1 2 3 prod.case by (intro conjI refl)
qed

text \<open>
  The handlers of batches return without a reply when the body does not decode: the client of a malformed
  request is told 200, and nothing happens.
\<close>

lemma malformed_batch_is_accepted:
  assumes "canManageCardStatusBatches claims" and "ar_Body r = [Unreadable]" and "ar_Method r = ''POST''"
    and "action \<in> {''execute'', ''cancel'', ''retry''}"
  shows "createCardStatusBatch api claims r bank w = (Unwritten, w)"
    and "cardStatusBatchCommand api claims r bank rid action w = (Unwritten, w)"
  using assms by (auto simp: createCardStatusBatch_def cardStatusBatchCommand_def DecodeRequest_def respond_def)

end
