(* ===== verification/Login_Admission.thy ===== *)
theory Login_Admission
  imports Go_Base "HOL-Library.AList"
begin

text \<open>
  Admission of login attempts (\<open>internal/server/login_admission.go\<close>): a fixed window of attempts for
  each client address, in a table of bounded size. The address is what \<open>net.SplitHostPort\<close>,
  \<open>net.ParseIP\<close> and \<open>IP.String\<close> make of the remote address, so that every spelling of an
  address is counted under one key. The mutex makes the calls run one after the other.
\<close>

section \<open>Addresses\<close>

definition index_of :: "char \<Rightarrow> string \<Rightarrow> nat option" where
  "index_of c s = List.find (\<lambda>i. s ! i = c) [0..<length s]"

definition last_index_of :: "char \<Rightarrow> string \<Rightarrow> nat option" where
  "last_index_of c s = List.find (\<lambda>i. s ! i = c) (rev [0..<length s])"

text \<open>\<open>net.SplitHostPort\<close>; the port is not used.\<close>

definition SplitHost :: "string \<Rightarrow> string option" where
  "SplitHost hostport =
     (case last_index_of CHR '':'' hostport of
        None \<Rightarrow> None
      | Some i \<Rightarrow>
          if hd hostport = CHR ''['' then
            (case index_of CHR '']'' hostport of
               None \<Rightarrow> None
             | Some close \<Rightarrow>
                 if close + 1 = i \<and> CHR ''['' \<notin> set (drop 1 hostport) \<and> CHR '']'' \<notin> set (drop (close + 1) hostport)
                 then Some (take (close - 1) (drop 1 hostport)) else None)
          else
            let host = take i hostport in
            if CHR '':'' \<in> set host \<or> CHR ''['' \<in> set hostport \<or> CHR '']'' \<in> set hostport then None else Some host)"

fun decimal_value :: "nat \<Rightarrow> string \<Rightarrow> nat" where
  "decimal_value acc [] = acc"
| "decimal_value acc (c # s) = decimal_value (acc * 10 + (of_char c - 48)) s"

definition ipv4_field :: "string \<Rightarrow> nat option" where
  "ipv4_field s =
     (if s = [] \<or> \<not> list_all is_digit s \<or> (hd s = CHR ''0'' \<and> length s \<noteq> 1) \<or> 3 < length s \<or> 255 < decimal_value 0 s then None
      else Some (decimal_value 0 s))"

definition parseIPv4 :: "string \<Rightarrow> nat list option" where
  "parseIPv4 s =
     (case map ipv4_field (Split s CHR ''.'') of
        [Some a, Some b, Some c, Some d] \<Rightarrow> Some [a, b, c, d]
      | _ \<Rightarrow> None)"

definition hex_digit_value :: "char \<Rightarrow> nat option" where
  "hex_digit_value c =
     (if is_digit c then Some (of_char c - 48)
      else if CHR ''a'' \<le> c \<and> c \<le> CHR ''f'' then Some (of_char c - 87)
      else if CHR ''A'' \<le> c \<and> c \<le> CHR ''F'' then Some (of_char c - 55)
      else None)"

definition is_hex :: "char \<Rightarrow> bool" where
  "is_hex c \<longleftrightarrow> hex_digit_value c \<noteq> None"

fun hex_number :: "nat \<Rightarrow> string \<Rightarrow> nat" where
  "hex_number acc [] = acc"
| "hex_number acc (c # s) = hex_number (acc * 16 + the (hex_digit_value c)) s"

lemma dropWhile_shorter: "dropWhile P s = c # r \<Longrightarrow> length r < length s"
  using length_dropWhile_le [of P s] by simp

text \<open>
  The groups of an IPv6 address, the position of its \<open>::\<close>, and the groups read so far. The loop
  reads a group of one to four hexadecimal digits, or a trailing IPv4 address.
\<close>

function ipv6_groups :: "string \<Rightarrow> nat list \<Rightarrow> nat option \<Rightarrow> (nat list \<times> nat option) option" where
  "ipv6_groups s groups ellipsis =
     (let digits = takeWhile is_hex s; rest = dropWhile is_hex s in
      if 8 \<le> length groups then (if s = [] then Some (groups, ellipsis) else None)
      else if digits = [] \<or> 4 < length digits then None
      else case rest of
        [] \<Rightarrow> Some (groups @ [hex_number 0 digits], ellipsis)
      | c # rest' \<Rightarrow>
          if c = CHR ''.'' then
            (if (ellipsis = None \<and> length groups \<noteq> 6) \<or> 6 < length groups then None
             else case parseIPv4 s of
               Some [a, b, x, y] \<Rightarrow> Some (groups @ [a * 256 + b, x * 256 + y], ellipsis)
             | _ \<Rightarrow> None)
          else if c \<noteq> CHR '':'' \<or> rest' = [] then None
          else if hd rest' = CHR '':'' then
            (if ellipsis \<noteq> None then None
             else if tl rest' = [] then Some (groups @ [hex_number 0 digits], Some (length groups + 1))
             else ipv6_groups (tl rest') (groups @ [hex_number 0 digits]) (Some (length groups + 1)))
          else ipv6_groups rest' (groups @ [hex_number 0 digits]) ellipsis)"
  by pat_completeness auto
termination
  by (relation "measure (\<lambda>(s, _, _). length s)")
    (auto dest!: dropWhile_shorter [OF sym] dropWhile_shorter simp: less_le_trans)

declare ipv6_groups.simps [simp del]

text \<open>The address as eight groups; an IPv4 address is mapped into IPv6, as in Go's 16-byte form.\<close>

definition expand_groups :: "nat list \<times> nat option \<Rightarrow> nat list option" where
  "expand_groups p =
     (case p of
        (groups, None) \<Rightarrow> if length groups = 8 then Some groups else None
      | (groups, Some e) \<Rightarrow>
          if length groups < 8 then Some (take e groups @ replicate (8 - length groups) 0 @ drop e groups) else None)"

definition parseIPv6 :: "string \<Rightarrow> nat list option" where
  "parseIPv6 s =
     (if starts_with ''::'' s then
        (if length s = 2 then Some (replicate 8 0)
         else Option.bind (ipv6_groups (drop 2 s) [] (Some 0)) expand_groups)
      else Option.bind (ipv6_groups s [] None) expand_groups)"

text \<open>\<open>net.ParseIP\<close>: the first dot or colon decides; an address with a zone is refused.\<close>

definition ParseIP :: "string \<Rightarrow> nat list option" where
  "ParseIP s =
     (if CHR ''%'' \<in> set s then None
      else case List.find (\<lambda>c. c = CHR ''.'' \<or> c = CHR '':'') s of
        None \<Rightarrow> None
      | Some c \<Rightarrow>
          if c = CHR ''.'' then
            (case parseIPv4 s of Some [a, b, x, y] \<Rightarrow> Some [0, 0, 0, 0, 0, 0xFFFF, a * 256 + b, x * 256 + y] | _ \<Rightarrow> None)
          else parseIPv6 s)"

fun hex_text :: "nat \<Rightarrow> string" where
  "hex_text n = (if n < 16 then [hex_digit n] else hex_text (n div 16) @ [hex_digit (n mod 16)])"

declare hex_text.simps [simp del]

definition intercalate :: "char \<Rightarrow> string list \<Rightarrow> string" where
  "intercalate sep parts = (case parts of [] \<Rightarrow> [] | p # ps \<Rightarrow> p @ concat (map (\<lambda>q. sep # q) ps))"

text \<open>The first of the longest runs of two or more zero groups.\<close>

definition zero_run :: "nat list \<Rightarrow> (nat \<times> nat) option" where
  "zero_run g = foldl (\<lambda>best i.
     let l = length (takeWhile (\<lambda>x. x = 0) (drop i g)) in
     if 2 \<le> l \<and> (case best of None \<Rightarrow> True | Some (a, b) \<Rightarrow> b - a < l) then Some (i, i + l) else best) None [0..<8]"

definition IP_String :: "nat list \<Rightarrow> string" where
  "IP_String g =
     (if take 6 g = [0, 0, 0, 0, 0, 0xFFFF] then
        intercalate CHR ''.'' (map decimal_digits [g ! 6 div 256, g ! 6 mod 256, g ! 7 div 256, g ! 7 mod 256])
      else case zero_run g of
        None \<Rightarrow> intercalate CHR '':'' (map hex_text g)
      | Some (a, b) \<Rightarrow> intercalate CHR '':'' (map hex_text (take a g)) @ ''::'' @ intercalate CHR '':'' (map hex_text (drop b g)))"

definition loginClientIP :: "string \<Rightarrow> string" where
  "loginClientIP remoteAddress =
     (let host = (case SplitHost remoteAddress of Some h \<Rightarrow> h | None \<Rightarrow> remoteAddress) in
      case ParseIP host of Some ip \<Rightarrow> IP_String ip | None \<Rightarrow> ''unknown'')"

section \<open>Admission\<close>

definition defaultLoginAttemptLimit :: int where "defaultLoginAttemptLimit = 5"
definition loginAttemptPeriod :: duration where "loginAttemptPeriod = 60 * 1000000000"
definition loginAdmissionMaxIPs :: nat where "loginAdmissionMaxIPs = 10000"

record loginAttemptWindow =
  law_startedAt :: time
  law_count :: int

record loginAdmission =
  la_limit :: int
  la_attempts :: "(string \<times> loginAttemptWindow) list"

definition newLoginAdmissionWithLimit :: "int \<Rightarrow> loginAdmission" where
  "newLoginAdmissionWithLimit limit =
     \<lparr>la_limit = (if limit < 1 then defaultLoginAttemptLimit else limit), la_attempts = []\<rparr>"

definition window_over :: "time \<Rightarrow> loginAttemptWindow \<Rightarrow> bool" where
  "window_over now w \<longleftrightarrow> loginAttemptPeriod \<le> now - law_startedAt w"

definition evictExpired :: "time \<Rightarrow> loginAdmission \<Rightarrow> loginAdmission" where
  "evictExpired now a = a\<lparr>la_attempts := filter (\<lambda>(ip, w). \<not> window_over now w) (la_attempts a)\<rparr>"

text \<open>\<open>a.attempts[key] = loginAttemptWindow{startedAt: now, count: 1}\<close>\<close>

definition open_window :: "time \<Rightarrow> string \<Rightarrow> loginAdmission \<Rightarrow> (bool \<times> duration) \<times> loginAdmission" where
  "open_window now key a =
     ((True, 0), a\<lparr>la_attempts := AList.update key \<lparr>law_startedAt = now, law_count = 1\<rparr> (la_attempts a)\<rparr>)"

definition admit_new :: "time \<Rightarrow> string \<Rightarrow> loginAdmission \<Rightarrow> (bool \<times> duration) \<times> loginAdmission" where
  "admit_new now key a =
     (if loginAdmissionMaxIPs \<le> length (la_attempts a) then
        let a' = evictExpired now a in
        if loginAdmissionMaxIPs \<le> length (la_attempts a') then ((False, loginAttemptPeriod), a')
        else open_window now key a'
      else open_window now key a)"

definition allow :: "time \<Rightarrow> string \<Rightarrow> loginAdmission \<Rightarrow> (bool \<times> duration) \<times> loginAdmission" where
  "allow now remoteAddress a =
     (let key = loginClientIP remoteAddress in
      case map_of (la_attempts a) key of
        None \<Rightarrow> admit_new now key a
      | Some attempt \<Rightarrow>
          if window_over now attempt then admit_new now key (a\<lparr>la_attempts := AList.delete key (la_attempts a)\<rparr>)
          else if la_limit a \<le> law_count attempt
            then ((False, loginAttemptPeriod - (now - law_startedAt attempt)), a)
          else ((True, 0), a\<lparr>la_attempts := AList.update key (attempt\<lparr>law_count := law_count attempt + 1\<rparr>) (la_attempts a)\<rparr>))"

section \<open>Bounds\<close>

definition admission_ok :: "loginAdmission \<Rightarrow> bool" where
  "admission_ok a \<longleftrightarrow> 1 \<le> la_limit a \<and> distinct (map fst (la_attempts a)) \<and> length (la_attempts a) \<le> loginAdmissionMaxIPs \<and>
     (\<forall>(ip, w) \<in> set (la_attempts a). 1 \<le> law_count w \<and> law_count w \<le> la_limit a)"

lemma new_admission_ok: "admission_ok (newLoginAdmissionWithLimit limit)"
  by (simp add: admission_ok_def newLoginAdmissionWithLimit_def defaultLoginAttemptLimit_def)

lemma length_update_new: "map_of al k = None \<Longrightarrow> length (AList.update k v al) = Suc (length al)"
  by (induction al) (auto split: if_splits)

lemma length_update_old: "map_of al k \<noteq> None \<Longrightarrow> length (AList.update k v al) = length al"
  by (induction al) (auto split: if_splits)

lemma set_update_subset: "set (AList.update k v al) \<subseteq> insert (k, v) (set al)"
  by (induction al) auto

lemma open_window_ok:
  assumes "admission_ok a" and "map_of (la_attempts a) key = None" and "length (la_attempts a) < loginAdmissionMaxIPs"
  shows "admission_ok (snd (open_window now key a))"
  using assms set_update_subset [of key "\<lparr>law_startedAt = now, law_count = 1\<rparr>" "la_attempts a"]
  by (force simp: admission_ok_def open_window_def length_update_new distinct_update)

lemma filter_ok:
  assumes "admission_ok a"
  shows "admission_ok (a\<lparr>la_attempts := filter P (la_attempts a)\<rparr>)"
proof -
  have "length (filter P (la_attempts a)) \<le> loginAdmissionMaxIPs"
    using assms by (intro order_trans [OF length_filter_le]) (simp add: admission_ok_def)
  then show ?thesis using assms by (auto simp: admission_ok_def distinct_map intro: inj_on_subset)
qed

lemma evict_ok: "admission_ok a \<Longrightarrow> admission_ok (evictExpired now a)"
  unfolding evictExpired_def by (rule filter_ok)

lemma map_of_filter_None: "map_of al k = None \<Longrightarrow> map_of (filter P al) k = None"
  by (auto simp: map_of_eq_None_iff)

lemma admit_new_ok:
  assumes "admission_ok a" and "map_of (la_attempts a) key = None"
  shows "admission_ok (snd (admit_new now key a))"
proof -
  have "map_of (la_attempts (evictExpired now a)) key = None"
    using assms(2) by (simp add: evictExpired_def map_of_filter_None)
  then show ?thesis
    using open_window_ok [OF evict_ok [OF assms(1)]] open_window_ok [OF assms] evict_ok [OF assms(1)]
    by (simp add: admit_new_def Let_def not_le)
qed

lemma delete_ok: "admission_ok a \<Longrightarrow> admission_ok (a\<lparr>la_attempts := AList.delete key (la_attempts a)\<rparr>)"
  unfolding AList.delete_eq by (rule filter_ok)

lemma allow_ok: "admission_ok a \<Longrightarrow> admission_ok (snd (allow now addr a))"
proof -
  assume ok: "admission_ok a"
  let ?key = "loginClientIP addr"
  show ?thesis
  proof (cases "map_of (la_attempts a) ?key")
    case None
    then show ?thesis using admit_new_ok [OF ok] by (simp add: allow_def Let_def)
  next
    case (Some w)
    have w: "1 \<le> law_count w" using ok Some by (auto simp: admission_ok_def dest!: map_of_SomeD)
    have "admission_ok (snd (admit_new now ?key (a\<lparr>la_attempts := AList.delete ?key (la_attempts a)\<rparr>)))"
      by (rule admit_new_ok [OF delete_ok [OF ok]]) (simp add: delete_conv')
    moreover have "admission_ok (a\<lparr>la_attempts := AList.update ?key (w\<lparr>law_count := law_count w + 1\<rparr>) (la_attempts a)\<rparr>)"
      if "\<not> la_limit a \<le> law_count w"
      using ok that w Some set_update_subset [of ?key "w\<lparr>law_count := law_count w + 1\<rparr>" "la_attempts a"]
      by (force simp: admission_ok_def length_update_old distinct_update)
    ultimately show ?thesis using ok Some by (simp add: allow_def Let_def)
  qed
qed

section \<open>Limit\<close>

text \<open>How many of a sequence of calls are admitted for one client address.\<close>

fun admitted :: "string \<Rightarrow> (time \<times> string) list \<Rightarrow> loginAdmission \<Rightarrow> int" where
  "admitted key [] a = 0"
| "admitted key ((now, addr) # calls) a =
     (case allow now addr a of ((ok, _), a') \<Rightarrow> (if ok \<and> loginClientIP addr = key then 1 else 0) + admitted key calls a')"

text \<open>
  What is left for an address from an instant on, for one period: the rest of the window that is open,
  and a whole window when that one can run out in the period.
\<close>

definition budget :: "string \<Rightarrow> time \<Rightarrow> loginAdmission \<Rightarrow> int" where
  "budget key start a =
     (case map_of (la_attempts a) key of
        None \<Rightarrow> la_limit a
      | Some w \<Rightarrow> la_limit a - law_count w + (if start \<le> law_startedAt w then 0 else la_limit a))"

lemma map_of_filter_values:
  "distinct (map fst al) \<Longrightarrow> map_of (filter (\<lambda>(k, w). Q w) al) key = (case map_of al key of None \<Rightarrow> None | Some w \<Rightarrow> if Q w then Some w else None)"
proof (induction al)
  case (Cons x al)
  obtain k w where x: "x = (k, w)" by (cases x)
  have "map_of al k = None" using Cons.prems x by (force simp: map_of_eq_None_iff)
  then show ?case using Cons x by (auto split: option.splits)
qed simp

lemma budget_bounds:
  assumes "admission_ok a" shows "0 \<le> budget key start a" and "budget key start a \<le> 2 * la_limit a"
proof -
  have "1 \<le> law_count w \<and> law_count w \<le> la_limit a" if "map_of (la_attempts a) key = Some w" for w
    using assms that by (auto simp: admission_ok_def dest!: map_of_SomeD)
  moreover have "1 \<le> la_limit a" using assms by (simp add: admission_ok_def)
  ultimately show "0 \<le> budget key start a" "budget key start a \<le> 2 * la_limit a"
    by (auto simp: budget_def split: option.splits)
qed

text \<open>A window that is over within the period was opened before it.\<close>

lemma over_opened_before: "window_over now w \<Longrightarrow> now < start + loginAttemptPeriod \<Longrightarrow> law_startedAt w < start"
  by (simp add: window_over_def)

lemma budget_evict:
  assumes ok: "admission_ok a" and now: "now < start + loginAttemptPeriod"
  shows "budget key start (evictExpired now a) \<le> budget key start a"
proof -
  have m: "map_of (la_attempts (evictExpired now a)) key =
      (case map_of (la_attempts a) key of None \<Rightarrow> None | Some w \<Rightarrow> if \<not> window_over now w then Some w else None)"
    using ok by (simp add: evictExpired_def admission_ok_def map_of_filter_values [where Q = "\<lambda>w. \<not> window_over now w"])
  have "law_count w \<le> la_limit a" if "map_of (la_attempts a) key = Some w" for w
    using ok that by (auto simp: admission_ok_def dest!: map_of_SomeD)
  then show ?thesis
    using m over_opened_before [OF _ now]
    by (auto simp: budget_def evictExpired_def split: option.splits if_splits) force+
qed

lemma admit_new_budget:
  assumes ok: "admission_ok a" and none: "map_of (la_attempts a) k = None" and now: "start \<le> now" "now < start + loginAttemptPeriod"
    and run: "admit_new now k a = ((okay, d), a')"
  shows "(if okay \<and> k = key then 1 else 0) + budget key start a' \<le> budget key start a"
proof -
  have upd: "(if k = key then 1 else 0) + budget key start (snd (open_window now k b)) \<le> budget key start b"
    if "map_of (la_attempts b) k = None" for b
    using that now by (auto simp: budget_def open_window_def update_conv' split: option.splits)
  have none': "map_of (la_attempts (evictExpired now a)) k = None"
    using none by (simp add: evictExpired_def map_of_filter_None)
  show ?thesis
    using run upd [OF none] upd [OF none'] budget_evict [OF ok now(2), of key]
    by (auto simp: admit_new_def Let_def open_window_def split: if_splits)
qed

lemma allow_budget:
  assumes ok: "admission_ok a" and now: "start \<le> now" "now < start + loginAttemptPeriod"
    and run: "allow now addr a = ((okay, d), a')"
  shows "(if okay \<and> loginClientIP addr = key then 1 else 0) + budget key start a' \<le> budget key start a"
proof (cases "map_of (la_attempts a) (loginClientIP addr)")
  case None
  then show ?thesis using admit_new_budget [OF ok None now] run by (simp add: allow_def Let_def)
next
  case (Some w)
  let ?k = "loginClientIP addr" and ?b = "a\<lparr>la_attempts := AList.delete (loginClientIP addr) (la_attempts a)\<rparr>"
  have w: "1 \<le> law_count w" "law_count w \<le> la_limit a" using ok Some by (auto simp: admission_ok_def dest!: map_of_SomeD)
  show ?thesis
  proof (cases "window_over now w")
    case True
    have none: "map_of (la_attempts ?b) ?k = None" by (simp add: delete_conv')
    have "budget key start ?b \<le> budget key start a"
      using over_opened_before [OF True now(2)] w Some by (auto simp: budget_def delete_conv' split: option.splits)
    moreover have "(if okay \<and> ?k = key then 1 else 0) + budget key start a' \<le> budget key start ?b"
      using admit_new_budget [OF delete_ok [OF ok] none now] run Some True by (simp add: allow_def Let_def)
    ultimately show ?thesis by linarith
  next
    case False
    then show ?thesis using run Some by (auto simp: allow_def Let_def budget_def update_conv' split: if_splits option.splits)
  qed
qed

lemma admitted_budget:
  assumes "admission_ok a" and "\<forall>(now, addr) \<in> set calls. start \<le> now \<and> now < start + loginAttemptPeriod"
  shows "admitted key calls a \<le> budget key start a"
  using assms
proof (induction calls arbitrary: a)
  case Nil
  then show ?case using budget_bounds(1) by simp
next
  case (Cons c calls)
  obtain now addr where c: "c = (now, addr)" by (cases c)
  obtain okay d a' where r: "allow now addr a = ((okay, d), a')" by (metis prod.collapse)
  have now: "start \<le> now" "now < start + loginAttemptPeriod" using Cons.prems(2) c by auto
  have "admission_ok a'" using allow_ok [OF Cons.prems(1), of now addr] r by simp
  then have "admitted key calls a' \<le> budget key start a'" using Cons by auto
  with allow_budget [OF Cons.prems(1) now r, of key] show ?case using c r by simp
qed

text \<open>
  C39. Whatever addresses call and in whatever order, within one period at most twice the limit of attempts
  is admitted for one client address, and at most the limit when no window of it was open before; the table
  never holds more than its maximal number of addresses, and every count stays between one and the limit.
\<close>

theorem logins_are_limited:
  assumes "admission_ok a" and "\<forall>(now, addr) \<in> set calls. start \<le> now \<and> now < start + loginAttemptPeriod"
  shows "admitted key calls a \<le> 2 * la_limit a \<and>
    (map_of (la_attempts a) key = None \<longrightarrow> admitted key calls a \<le> la_limit a) \<and>
    admission_ok (fold (\<lambda>(now, addr) b. snd (allow now addr b)) calls a)"
proof (intro conjI impI)
  have b: "admitted key calls a \<le> budget key start a" by (rule admitted_budget [OF assms])
  with budget_bounds(2) [OF assms(1), of key start] show "admitted key calls a \<le> 2 * la_limit a" by simp
  show "admitted key calls a \<le> la_limit a" if "map_of (la_attempts a) key = None" using b that by (simp add: budget_def)
  have "admission_ok (fold (\<lambda>(now, addr) b. snd (allow now addr b)) cs x)" if "admission_ok x" for cs x
    using that by (induction cs arbitrary: x) (auto simp: allow_ok)
  then show "admission_ok (fold (\<lambda>(now, addr) b. snd (allow now addr b)) calls a)" using assms(1) .
qed

theorem logins_are_limited_witness:
  "admitted ''192.0.2.1'' [(0, ''192.0.2.1:443''), (1, ''[::ffff:192.0.2.1]:80'')] (newLoginAdmissionWithLimit 1) \<le> 1 \<and>
   admission_ok (newLoginAdmissionWithLimit 1)"
  using logins_are_limited [OF new_admission_ok [of 1], of "[(0, ''192.0.2.1:443''), (1, ''[::ffff:192.0.2.1]:80'')]" 0 "''192.0.2.1''"]
    new_admission_ok [of 1]
  by (simp add: loginAttemptPeriod_def newLoginAdmissionWithLimit_def del: admitted.simps)

end
