(* ===== verification/Spec2Isabelle.thy ===== *)
theory Spec2Isabelle
  imports Card_Commands Executor_Service Batch_States Api Auth_Refresh Login_Admission
begin

text \<open>
  A verification of the card issuer API (\<open>src/\<close>), a Go program that issues payment cards for banks.

  \<^bold>\<open>The program.\<close> Each bank lives on a PostgreSQL shard; a control database holds the routing of
  banks, the staff users and their sessions. The API server (\<open>internal/server\<close>, \<open>cmd/api\<close>)
  calls one service for each resource: cards, batches of status changes, the catalog of products, clients
  and accounts, banks, staff, and authentication. The services reach their databases through the stores of
  \<open>internal/repository\<close>, and the PCI boundary through the credential vault (\<open>internal/vault\<close>).
  A separate executor (\<open>internal/executor\<close>, \<open>cmd/executor\<close>) applies queued batches and the
  daily expiry of cards under leases, and a third program (\<open>internal/authorization\<close>,
  \<open>internal/authorizationhttp\<close>, \<open>cmd/authorization\<close>) answers the banks' authorization
  requests over mutual TLS.

  \<^bold>\<open>How it is modelled.\<close> A Go function that can fail is a program: a function from a state to
  an error or a value and the new state (\<open>Prelude\<close>, with its combinators for early return,
  deferred clean-up and compensation, and their Hoare triples). A table is the list of its rows in insertion
  order, a row a record. A statement runs on the view of the open transaction and returns the SQLSTATE of the
  trigger or constraint that refuses it (\<open>Shard_Schema\<close>, \<open>Control_Schema\<close>, from the
  migrations). The world of a database holds the committed tables and the view (\<open>Transactions\<close>).
  Faults of the connection, the clocks, the random source and the generated ids come from an environment that
  is indexed by the number of the interaction and is universally quantified in the theorems; a commit may
  fail, or happen and lose its acknowledgement. Transactions run one after the other, which is what their row
  locks and advisory locks provide; what other clients do between two of them is covered by stating the
  invariants for arbitrary committed tables and by step relations over all calls. Go strings are byte
  strings; instants are integers in nanoseconds; machine words are kept at their width where the code
  computes with them (SHA-256, the vault's decimal derivation, the back-off of the executor).

  \<^bold>\<open>The theories.\<close>
  \<^item> \<open>Prelude\<close>, \<open>Go_Base\<close>, \<open>Go_Json\<close>, \<open>Base64\<close>, \<open>Sha256\<close>: programs, tables, and the parts of
    Go's library the sources call, each executable, with round trips for the encodings.
  \<^item> \<open>Domain\<close>, \<open>Lifecycle\<close>, \<open>Uuid\<close>: \<open>internal/domain\<close> and the identifiers. The lifecycle
    of a card is one graph for both of its surfaces, closed and expired are final (C1, C3,
    \<open>Transition_is_lifecycle_graph\<close>); generated
    identifiers are canonical (\<open>newUUID_canonical\<close>).
  \<^item> \<open>Shard_Schema\<close>, \<open>Transactions\<close>, \<open>Shard_Tx\<close>, \<open>Shard_Reader\<close>,
    \<open>Shard_Idempotency\<close>, \<open>Shard_Store\<close>: \<open>internal/repository/shard\<close>. Reads see only their
    tenant (C5); the idempotency protocol is a locale that the store interprets, finished claims are replayed
    (C6).
  \<^item> \<open>Vault\<close>, \<open>Vault_Client\<close>: \<open>internal/vault\<close>. The interface of the credential vault as a locale,
    interpreted by the in-memory adapter, whose credentials verify until they are revoked or their lookup
    token is taken by another card (C7); the HTTP handler and client of \<open>internal/vault/development\<close>, over a
    network that may lose requests and answers, and the contract \<open>vault_saga\<close> of a provisioning that can be
    undone, which every \<open>credential_vault\<close> and the client interpret.
  \<^item> \<open>Card_Service\<close>, \<open>Card_Commands\<close>: \<open>internal/card/service.go\<close>. A failed command leaves no
    rows unless a commit lost its acknowledgement, and no live credential unless the network lost the answer to
    the provisioning or the request of the revocation; an issue that succeeds is recorded once, valid
    issues succeed, commands have exactly the effect of the lifecycle (C8 to C11). C9 and C10 are stated
    for the in-memory vault.
  \<^item> \<open>Executor_Store\<close>, \<open>Executor_Leases\<close>, \<open>Executor_Batches\<close>,
    \<open>Executor_Claims\<close>, \<open>Expiry_Accounting\<close>: \<open>executor_store.go\<close>. A lease that was
    completed is fenced off for good, a batch is applied as a whole, a claim takes and leases the batch that is
    next at its clock, recovery requeues exactly the lapsed leases and fences their holders off, the retries of
    an expiry item are bounded (C12, C14, C16 to C19); a lease of an expiry item is fenced in the
    same way, and a call that fails has changed nothing; C18 is the defect by which an expired card
    blocks the claims of its bank.
  \<^item> \<open>Executor_Service\<close>: \<open>internal/executor/service.go\<close>. Bounded concurrency and back-off,
    no bank starved by the order of the claims over a round of cycles, no card changes without a current
    authorization of the requester (C20 to C23).
  \<^item> \<open>Batch_Service\<close>, \<open>Batch_Workflows\<close>, \<open>Batch_States\<close>: \<open>internal/batch/service.go\<close>.
    Canonical requests, recorded drafts, the exact effect of executions and cancellations, the state machine of
    a batch across the API and the executor (C24, C26 to C28), and atomic workflows.
  \<^item> \<open>Json_Text\<close>, \<open>Catalog\<close>: \<open>internal/catalog/service.go\<close> and its store. Every write of
    a product, client or account fails without effect, replays, or commits exactly its row, its audit event
    and its response (C40).
  \<^item> \<open>Control_Store\<close>: \<open>internal/repository/control\<close>, \<open>internal/repository/routing\<close> and
    \<open>internal/tenant\<close>. Its idempotency of commands interprets the same locale as that of the shard.
  \<^item> \<open>Staff\<close>: \<open>internal/staff/service.go\<close>. Commands are recorded with their audit event (C25);
    a change of a user ends the sessions opened before it, across the staff and the authentication service (C13).
  \<^item> \<open>Bank\<close>: \<open>internal/bank/service.go\<close>, sagas over the pair of both databases. A bank is admitted
    only once its entity exists, under every fault of either database (C4), and the retry of an interrupted
    provisioning completes it (C15); \<open>patch_activates_missing_bank\<close> is the defect by which a patch
    activates a bank that was never created.
  \<^item> \<open>Authorization\<close>: the decision on a transaction, its replay, and the boundary in front of it
    (C29 to C31).
  \<^item> \<open>Password\<close>, \<open>Jwt\<close>, \<open>Auth_Store\<close>, \<open>Auth_Service\<close>, \<open>Auth_Sessions\<close>,
    \<open>Auth_Refresh\<close>: \<open>internal/auth\<close> and its store. Hashes verify and verification is bounded
    work (C32, C33); \<open>Commit_Points\<close> follows a transaction to its commit, by which every call is one
    step of \<open>auth_step\<close>; from the steps: one live refresh token for each session, final revocation,
    refinement of an abstract session machine (C34 to C36), the exact effect of a refresh, and revocation on
    reuse (C37, C38).
  \<^item> \<open>Login_Admission\<close>: \<open>login_admission.go\<close>, with the parsing of addresses; the limit on login
    attempts and the bound on the table (C39).
  \<^item> \<open>Api\<close>: \<open>internal/server\<close> behind authentication: routing, access checks, decoding of bodies,
    the calls of the services above and the replies. Nothing changes and nothing is answered except for
    admitted requests (C2); \<open>malformed_batch_is_accepted\<close> is the defect by which a malformed batch
    request is answered 200.

  \<^bold>\<open>Simplifications.\<close> A statement that fails leaves the open transaction usable: the state in which
  PostgreSQL refuses every further statement of an aborted transaction (25P02) is not modelled, so that a model
  may write an audit event after a failed statement where the database would refuse it. A worker of the
  executor runs from its start to its end between two polls; the interleaving of the goroutines is covered only
  by the step relation over single calls of the store (\<open>executor_step\<close>). Row locks, \<open>SKIP LOCKED\<close> and
  advisory locks have no effect, because transactions are sequential. A lease duration is passed to the
  database as text and read back unchanged. Ids and texts are plain strings: the refusal of a malformed
  \<open>uuid\<close> (22P02) or of an invalid encoding is not modelled.

  \<^bold>\<open>Parameters.\<close> Argon2id, Ed25519, the Unicode classes and the network before the vault are functions the
  definitions take as arguments; only the length of an Argon2id key is assumed, where a theorem needs it. Loops are structural or
  have a termination proof; the only fuel is the length of the string in the scan for valid UTF-8, which
  consumes at least a byte in every round.

  \<^bold>\<open>Not modelled.\<close> Row level security, grants and indexes of the databases; the order in which a
  \<open>jsonb\<close> column replays the members of an object (an object is stored as it was written), and the text it
  accepts, which is a parameter of the catalog; the reading of request text as JSON values, the text of the
  replies, the pagination of a collection and its cursors; the handlers of sessions, which only call the
  authentication service; the bearer header and the parsing of presented access tokens; configuration
  from the environment; the pool, the parsing of the vault's URL, the programs' start and shutdown, which
  are calls of libraries; the OpenAPI document, a literal; the local PKI tool, and the documentation and
  examples of the repository.
\<close>

end
